(* ===== verification/Py_Prelude.thy ===== *)
theory Py_Prelude
  imports
    Complex_Main
    "HOL-Library.AList"
    "HOL-Library.Char_ord"
    "HOL-Library.List_Lexorder"
    "HOL-Library.Product_Lexorder"
    "HOL-Library.Sublist"
begin

text \<open>
  Shared vocabulary of the development: the dynamic values of the Python services
  (what \<open>json.loads\<close> returns), exceptions as values of a sum type, and the string and
  dictionary operations the services call. Strings are lists of Latin-1 code points.
  The collection \<open>py_simps\<close> holds the rewrite rules of the exception monad.
\<close>

named_theorems py_simps

section \<open>Exceptions\<close>

text \<open>
  The exception classes the sources raise or catch. \<open>PolicyError\<close> derives from
  \<open>ValueError\<close>, so a handler for \<open>ValueError\<close> catches both; \<open>UsbGuardError\<close> carries a state beside its text.
\<close>

datatype exc =
    PolicyError string
  | ValueError string
  | TypeError
  | KeyError string
  | OSError string
  | UsbGuardError string string
  | OtherError string

type_synonym 'a py = "exc + 'a"

definition py_bind :: "'a py \<Rightarrow> ('a \<Rightarrow> 'b py) \<Rightarrow> 'b py" where
  "py_bind m f = (case m of Inl e \<Rightarrow> Inl e | Inr x \<Rightarrow> f x)"

definition py_catch :: "'a py \<Rightarrow> (exc \<Rightarrow> bool) \<Rightarrow> (exc \<Rightarrow> 'a py) \<Rightarrow> 'a py" where
  "py_catch m P h = (case m of Inl e \<Rightarrow> if P e then h e else Inl e | Inr x \<Rightarrow> Inr x)"

fun is_value_error :: "exc \<Rightarrow> bool" where
  "is_value_error (PolicyError s) = True"
| "is_value_error (ValueError s) = True"
| "is_value_error e = False"

definition is_value_or_type_error :: "exc \<Rightarrow> bool" where
  "is_value_or_type_error e \<longleftrightarrow> is_value_error e \<or> e = TypeError"

fun py_fold :: "('a \<Rightarrow> 'b \<Rightarrow> 'a py) \<Rightarrow> 'a \<Rightarrow> 'b list \<Rightarrow> 'a py" where
  "py_fold f a [] = Inr a"
| "py_fold f a (x # xs) = py_bind (f a x) (\<lambda>b. py_fold f b xs)"

fun py_map :: "('a \<Rightarrow> 'b py) \<Rightarrow> 'a list \<Rightarrow> 'b list py" where
  "py_map f [] = Inr []"
| "py_map f (x # xs) = py_bind (f x) (\<lambda>y. py_bind (py_map f xs) (\<lambda>ys. Inr (y # ys)))"

text \<open>Short-circuiting \<open>any(...)\<close> over a test that may raise.\<close>

fun py_any :: "('a \<Rightarrow> bool py) \<Rightarrow> 'a list \<Rightarrow> bool py" where
  "py_any f [] = Inr False"
| "py_any f (x # xs) = py_bind (f x) (\<lambda>b. if b then Inr True else py_any f xs)"

lemma py_bind_Inr [simp, py_simps]: "py_bind (Inr x) f = f x"
  by (simp add: py_bind_def)

lemma py_bind_Inl [simp, py_simps]: "py_bind (Inl e) f = Inl e"
  by (simp add: py_bind_def)

lemma py_bind_eq_Inr [py_simps]:
  "py_bind m f = Inr y \<longleftrightarrow> (\<exists>x. m = Inr x \<and> f x = Inr y)"
  by (cases m) simp_all

lemma py_bind_InrE:
  assumes "py_bind m f = Inr y"
  obtains x where "m = Inr x" and "f x = Inr y"
  using assms by (cases m) simp_all

lemma py_bind_assoc: "py_bind (py_bind m f) g = py_bind m (\<lambda>x. py_bind (f x) g)"
  by (cases m) simp_all

lemma py_bind_cong [fundef_cong]:
  "m = m' \<Longrightarrow> (\<And>x. m' = Inr x \<Longrightarrow> f x = g x) \<Longrightarrow> py_bind m f = py_bind m' g"
  by (cases m') simp_all

lemma py_catch_Inr [simp, py_simps]: "py_catch (Inr x) P h = Inr x"
  by (simp add: py_catch_def)

lemma if_Inl_eq_Inr [simp, py_simps]: "(if b then Inl e else m) = Inr y \<longleftrightarrow> \<not> b \<and> m = Inr y"
  by simp

lemma py_map_Inr_length: "py_map f xs = Inr ys \<Longrightarrow> length ys = length xs"
  by (induction xs arbitrary: ys) (auto simp: py_simps)

lemma py_map_Inr_all2:
  "py_map f xs = Inr ys \<longleftrightarrow> list_all2 (\<lambda>x y. f x = Inr y) xs ys"
  by (induction xs arbitrary: ys) (auto simp: py_simps list_all2_Cons1)

lemma py_fold_append: "py_fold f a (xs @ ys) = py_bind (py_fold f a xs) (\<lambda>b. py_fold f b ys)"
  by (induction xs arbitrary: a) (simp_all add: py_bind_assoc)

lemma py_fold_invariant:
  assumes "py_fold f a xs = Inr b" and "P a"
    and "\<And>a x b. x \<in> set xs \<Longrightarrow> P a \<Longrightarrow> f a x = Inr b \<Longrightarrow> P b"
  shows "P b"
  using assms by (induction xs arbitrary: a) (auto simp: py_simps)

lemma py_any_total:
  "(\<And>x. x \<in> set xs \<Longrightarrow> f x = Inr (g x)) \<Longrightarrow> py_any f xs = Inr (list_ex g xs)"
  by (induction xs) auto

section \<open>Values\<close>

text \<open>
  Finite floats are kept as exact rationals: the sources only add whole seconds to
  time stamps and compare them, so rounding is not modelled.
\<close>

datatype pyfloat = Fin rat | PosInf | NegInf | NaN

datatype val =
    VNone
  | VBool bool
  | VInt int
  | VFloat pyfloat
  | VStr string
  | VList "val list"
  | VDict "(string \<times> val) list"

type_synonym dict = "(string \<times> val) list"

fun truthy :: "val \<Rightarrow> bool" where
  "truthy VNone = False"
| "truthy (VBool b) = b"
| "truthy (VInt i) = (i \<noteq> 0)"
| "truthy (VFloat f) = (f \<noteq> Fin 0)"
| "truthy (VStr s) = (s \<noteq> [])"
| "truthy (VList xs) = (xs \<noteq> [])"
| "truthy (VDict d) = (d \<noteq> [])"

text \<open>Python's \<open>a or b\<close>.\<close>

definition py_or :: "val \<Rightarrow> val \<Rightarrow> val" where
  "py_or a b = (if truthy a then a else b)"

fun is_str :: "val \<Rightarrow> bool" where
  "is_str (VStr s) = True" | "is_str v = False"

fun is_bool :: "val \<Rightarrow> bool" where
  "is_bool (VBool b) = True" | "is_bool v = False"

text \<open>\<open>isinstance(v, int)\<close> holds of booleans too.\<close>

fun is_int :: "val \<Rightarrow> bool" where
  "is_int (VInt i) = True" | "is_int (VBool b) = True" | "is_int v = False"

fun is_number :: "val \<Rightarrow> bool" where
  "is_number (VFloat f) = True" | "is_number v = is_int v"

fun is_list :: "val \<Rightarrow> bool" where
  "is_list (VList xs) = True" | "is_list v = False"

fun is_dict :: "val \<Rightarrow> bool" where
  "is_dict (VDict d) = True" | "is_dict v = False"

fun as_str :: "val \<Rightarrow> string" where
  "as_str (VStr s) = s" | "as_str v = []"

fun as_list :: "val \<Rightarrow> val list" where
  "as_list (VList xs) = xs" | "as_list v = []"

fun as_dict :: "val \<Rightarrow> dict" where
  "as_dict (VDict d) = d" | "as_dict v = []"

fun as_int :: "val \<Rightarrow> int" where
  "as_int (VInt i) = i" | "as_int (VBool b) = of_bool b" | "as_int v = 0"

fun of_str_opt :: "string option \<Rightarrow> val" where
  "of_str_opt None = VNone" | "of_str_opt (Some s) = VStr s"

text \<open>The numeric reading of a value: booleans count as 0 and 1.\<close>

fun num_val :: "val \<Rightarrow> pyfloat option" where
  "num_val (VBool b) = Some (Fin (of_bool b))"
| "num_val (VInt i) = Some (Fin (of_int i))"
| "num_val (VFloat f) = Some f"
| "num_val v = None"

fun f_le :: "pyfloat \<Rightarrow> pyfloat \<Rightarrow> bool" where
  "f_le NaN b = False"
| "f_le a NaN = False"
| "f_le NegInf b = True"
| "f_le a PosInf = True"
| "f_le (Fin x) (Fin y) = (x \<le> y)"
| "f_le a b = False"

fun f_finite :: "pyfloat \<Rightarrow> bool" where
  "f_finite (Fin q) = True" | "f_finite f = False"

text \<open>\<open>a >= b\<close> on numbers, a \<open>TypeError\<close> on anything else.\<close>

definition py_ge :: "val \<Rightarrow> val \<Rightarrow> bool py" where
  "py_ge a b = (case (num_val a, num_val b) of
       (Some x, Some y) \<Rightarrow> Inr (f_le y x)
     | _ \<Rightarrow> Inl TypeError)"

text \<open>\<open>v + n\<close> for an integer literal \<open>n\<close>.\<close>

fun py_add_int :: "val \<Rightarrow> int \<Rightarrow> val py" where
  "py_add_int (VInt i) n = Inr (VInt (i + n))"
| "py_add_int (VBool b) n = Inr (VInt (of_bool b + n))"
| "py_add_int (VFloat (Fin q)) n = Inr (VFloat (Fin (q + of_int n)))"
| "py_add_int (VFloat f) n = Inr (VFloat f)"
| "py_add_int v n = Inl TypeError"

section \<open>Dictionaries\<close>

text \<open>
  A Python dictionary keeps insertion order: an association list with distinct keys.
  Assignment replaces a present key in place and appends a new one.
\<close>

definition dget :: "dict \<Rightarrow> string \<Rightarrow> val" where
  "dget d k = (case map_of d k of None \<Rightarrow> VNone | Some v \<Rightarrow> v)"

definition dget_or :: "dict \<Rightarrow> string \<Rightarrow> val \<Rightarrow> val" where
  "dget_or d k v = (case map_of d k of None \<Rightarrow> v | Some x \<Rightarrow> x)"

text \<open>\<open>d[k]\<close>.\<close>

definition dindex :: "dict \<Rightarrow> string \<Rightarrow> val py" where
  "dindex d k = (case map_of d k of None \<Rightarrow> Inl (KeyError k) | Some v \<Rightarrow> Inr v)"

definition dhas :: "dict \<Rightarrow> string \<Rightarrow> bool" where
  "dhas d k = (map_of d k \<noteq> None)"

definition dput :: "dict \<Rightarrow> string \<Rightarrow> val \<Rightarrow> dict" where
  "dput d k v = AList.update k v d"

definition dpop :: "dict \<Rightarrow> string \<Rightarrow> dict" where
  "dpop d k = AList.delete k d"

text \<open>\<open>d.update(pairs)\<close>.\<close>

definition dupdate :: "dict \<Rightarrow> dict \<Rightarrow> dict" where
  "dupdate d e = fold (\<lambda>(k, v) a. dput a k v) e d"

definition dsetdefault :: "dict \<Rightarrow> string \<Rightarrow> val \<Rightarrow> dict" where
  "dsetdefault d k v = (if dhas d k then d else dput d k v)"

text \<open>Attribute-style access to a value that is a dictionary.\<close>

definition vget :: "val \<Rightarrow> string \<Rightarrow> val" where
  "vget v k = dget (as_dict v) k"

text \<open>\<open>.get\<close> on an arbitrary value: only dictionaries have the method.\<close>

fun py_get :: "val \<Rightarrow> string \<Rightarrow> val py" where
  "py_get (VDict d) k = Inr (dget d k)"
| "py_get v k = Inl (OtherError ''AttributeError'')"

lemma map_of_dput [simp]: "map_of (dput d k v) = (map_of d)(k \<mapsto> v)"
  by (simp add: dput_def update_conv')

lemma map_of_dpop [simp]: "map_of (dpop d k) = (map_of d)(k := None)"
  by (simp add: dpop_def delete_conv')

lemma dget_dput [simp]: "dget (dput d k v) j = (if j = k then v else dget d j)"
  by (simp add: dget_def)

lemma dget_or_dput [simp]: "dget_or (dput d k v) j w = (if j = k then v else dget_or d j w)"
  by (simp add: dget_or_def)

lemma dhas_dput [simp]: "dhas (dput d k v) j = (j = k \<or> dhas d j)"
  by (simp add: dhas_def)

lemma dindex_dput [simp]: "dindex (dput d k v) j = (if j = k then Inr v else dindex d j)"
  by (simp add: dindex_def)

lemma dget_dpop [simp]: "dget (dpop d k) j = (if j = k then VNone else dget d j)"
  by (simp add: dget_def)

lemma dhas_dpop [simp]: "dhas (dpop d k) j = (j \<noteq> k \<and> dhas d j)"
  by (simp add: dhas_def)

lemma dindex_if_dhas: "dhas d k \<Longrightarrow> dindex d k = Inr (dget d k)"
  by (auto simp: dindex_def dhas_def dget_def)

lemma dget_or_if_dhas: "dhas d k \<Longrightarrow> dget_or d k v = dget d k"
  by (auto simp: dget_or_def dhas_def dget_def)

lemma dget_or_not_dhas: "\<not> dhas d k \<Longrightarrow> dget_or d k v = v"
  by (auto simp: dget_or_def dhas_def)

lemma dhas_dsetdefault [simp]: "dhas (dsetdefault d k v) j = (j = k \<or> dhas d j)"
  by (auto simp: dsetdefault_def)

lemma dget_dsetdefault [simp]:
  "dget (dsetdefault d k v) j = (if j = k \<and> \<not> dhas d k then v else dget d j)"
  by (auto simp: dsetdefault_def)

lemma vget_VDict [simp]: "vget (VDict d) k = dget d k"
  by (simp add: vget_def)

text \<open>Lookups in literal dictionaries compute.\<close>

lemma dget_simps [simp]:
  "dget [] k = VNone" "dget ((j, v) # d) k = (if k = j then v else dget d k)"
  by (simp_all add: dget_def)

lemma dget_or_simps [simp]:
  "dget_or [] k w = w" "dget_or ((j, v) # d) k w = (if k = j then v else dget_or d k w)"
  by (simp_all add: dget_or_def)

lemma dindex_simps [simp]:
  "dindex [] k = Inl (KeyError k)"
  "dindex ((j, v) # d) k = (if k = j then Inr v else dindex d k)"
  by (simp_all add: dindex_def)

lemma dhas_simps [simp]: "dhas [] k = False" "dhas ((j, v) # d) k = (k = j \<or> dhas d k)"
  by (simp_all add: dhas_def)

lemma dput_simps [simp]:
  "dput [] k v = [(k, v)]"
  "dput ((j, w) # d) k v = (if j = k then (k, v) # d else (j, w) # dput d k v)"
  by (simp_all add: dput_def)

section \<open>Equality\<close>

text \<open>
  \<open>==\<close> on values compares numbers by value (\<open>True == 1 == 1.0\<close>) and dictionaries as
  maps, whatever the order of their keys. Both sides are brought to a canonical form:
  numbers become floats and dictionaries are sorted by key.
\<close>

fun canon :: "val \<Rightarrow> val" where
  "canon VNone = VNone"
| "canon (VBool b) = VFloat (Fin (of_bool b))"
| "canon (VInt i) = VFloat (Fin (of_int i))"
| "canon (VFloat f) = VFloat f"
| "canon (VStr s) = VStr s"
| "canon (VList xs) = VList (map canon xs)"
| "canon (VDict d) = VDict (sort_key fst (map (\<lambda>(k, v). (k, canon v)) d))"

definition py_eq :: "val \<Rightarrow> val \<Rightarrow> bool" where
  "py_eq a b = (canon a = canon b)"

definition py_mem :: "val \<Rightarrow> val list \<Rightarrow> bool" where
  "py_mem v vs = list_ex (py_eq v) vs"

text \<open>Membership of a value in a tuple of string literals.\<close>

definition str_in :: "val \<Rightarrow> string list \<Rightarrow> bool" where
  "str_in v ss = (case v of VStr s \<Rightarrow> s \<in> set ss | _ \<Rightarrow> False)"

lemma py_eq_refl [simp]: "py_eq v v"
  by (simp add: py_eq_def)

lemma py_eq_str [simp]: "py_eq (VStr s) v \<longleftrightarrow> v = VStr s" "py_eq v (VStr s) \<longleftrightarrow> v = VStr s"
  by (cases v; auto simp: py_eq_def)+

lemma py_eq_none [simp]: "py_eq VNone v \<longleftrightarrow> v = VNone" "py_eq v VNone \<longleftrightarrow> v = VNone"
  by (cases v; auto simp: py_eq_def)+

lemma py_eq_int [simp]: "py_eq (VInt i) (VInt j) \<longleftrightarrow> i = j"
  by (simp add: py_eq_def)

lemma str_in_VStr [simp]: "str_in (VStr s) ss \<longleftrightarrow> s \<in> set ss"
  by (simp add: str_in_def)

lemma str_in_iff: "str_in v ss \<longleftrightarrow> (\<exists>s. v = VStr s \<and> s \<in> set ss)"
  by (cases v) (auto simp: str_in_def)

section \<open>Characters and strings\<close>

definition code :: "char \<Rightarrow> nat" where
  "code c = of_char c"

definition is_digit :: "char \<Rightarrow> bool" where
  "is_digit c \<longleftrightarrow> 48 \<le> code c \<and> code c \<le> 57"

definition is_lower_az :: "char \<Rightarrow> bool" where
  "is_lower_az c \<longleftrightarrow> 97 \<le> code c \<and> code c \<le> 122"

definition is_upper_az :: "char \<Rightarrow> bool" where
  "is_upper_az c \<longleftrightarrow> 65 \<le> code c \<and> code c \<le> 90"

definition is_hex_lower :: "char \<Rightarrow> bool" where
  "is_hex_lower c \<longleftrightarrow> is_digit c \<or> (97 \<le> code c \<and> code c \<le> 102)"

definition is_hex_any :: "char \<Rightarrow> bool" where
  "is_hex_any c \<longleftrightarrow> is_hex_lower c \<or> (65 \<le> code c \<and> code c \<le> 70)"

definition is_ascii :: "char \<Rightarrow> bool" where
  "is_ascii c \<longleftrightarrow> code c < 128"

text \<open>\<open>str.isprintable\<close> and \<open>str.isspace\<close> on the Latin-1 code points.\<close>

definition printable :: "char \<Rightarrow> bool" where
  "printable c \<longleftrightarrow> (32 \<le> code c \<and> code c < 127) \<or> (160 < code c \<and> code c \<noteq> 173)"

definition is_space :: "char \<Rightarrow> bool" where
  "is_space c \<longleftrightarrow> (9 \<le> code c \<and> code c \<le> 13) \<or> (28 \<le> code c \<and> code c \<le> 32)
     \<or> code c = 133 \<or> code c = 160"

definition lower_char :: "char \<Rightarrow> char" where
  "lower_char c = (if is_upper_az c \<or> (192 \<le> code c \<and> code c \<le> 222 \<and> code c \<noteq> 215)
     then char_of (code c + 32) else c)"

definition py_lower :: "string \<Rightarrow> string" where
  "py_lower s = map lower_char s"

definition lstrip :: "string \<Rightarrow> string" where
  "lstrip s = dropWhile is_space s"

definition rstrip_with :: "(char \<Rightarrow> bool) \<Rightarrow> string \<Rightarrow> string" where
  "rstrip_with P s = rev (dropWhile P (rev s))"

definition py_strip :: "string \<Rightarrow> string" where
  "py_strip s = rstrip_with is_space (lstrip s)"

definition startswith :: "string \<Rightarrow> string \<Rightarrow> bool" where
  "startswith s p = (take (length p) s = p)"

definition endswith :: "string \<Rightarrow> string \<Rightarrow> bool" where
  "endswith s p = startswith (rev s) (rev p)"

text \<open>\<open>str.removesuffix\<close>.\<close>

definition removesuffix :: "string \<Rightarrow> string \<Rightarrow> string" where
  "removesuffix s p = (if p \<noteq> [] \<and> endswith s p then take (length s - length p) s else s)"

text \<open>\<open>str.split(c)\<close> on a one-character separator and \<open>sep.join(parts)\<close>.\<close>

fun split_on :: "char \<Rightarrow> string \<Rightarrow> string list" where
  "split_on c [] = [[]]"
| "split_on c (x # xs) =
     (if x = c then [] # split_on c xs
      else (case split_on c xs of [] \<Rightarrow> [[x]] | y # ys \<Rightarrow> (x # y) # ys))"

fun join :: "string \<Rightarrow> string list \<Rightarrow> string" where
  "join sep [] = []"
| "join sep [s] = s"
| "join sep (s # t # ts) = s @ sep @ join sep (t # ts)"

lemma split_on_not_Nil [simp]: "split_on c s \<noteq> []"
  by (induction s) (auto split: list.splits)

lemma split_on_no_sep: "c \<notin> set s \<Longrightarrow> split_on c s = [s]"
  by (induction s) auto

lemma split_on_parts: "p \<in> set (split_on c s) \<Longrightarrow> c \<notin> set p"
  by (induction s arbitrary: p) (auto split: if_splits list.splits)

lemma split_on_append_sep:
  "c \<notin> set s \<Longrightarrow> split_on c (s @ c # t) = s # split_on c t"
  by (induction s) auto

lemma split_on_join:
  "ps \<noteq> [] \<Longrightarrow> (\<And>p. p \<in> set ps \<Longrightarrow> c \<notin> set p) \<Longrightarrow> split_on c (join [c] ps) = ps"
  by (induction "[c]" ps rule: join.induct) (auto simp: split_on_no_sep split_on_append_sep)

lemma join_split_on: "join [c] (split_on c s) = s"
proof (induction s)
  case (Cons x s)
  then show ?case
    by (cases "split_on c s"; cases "tl (split_on c s)") auto
qed simp

lemma set_split_on: "p \<in> set (split_on c s) \<Longrightarrow> set p \<subseteq> set s"
proof (induction s arbitrary: p)
  case (Cons x s)
  show ?case
  proof (cases "x = c")
    case True
    with Cons show ?thesis by auto
  next
    case False
    then obtain y ys where sp: "split_on c s = y # ys" by (cases "split_on c s") auto
    with False Cons.prems have "p = x # y \<or> p \<in> set ys" by simp
    then show ?thesis using Cons.IH [of y] Cons.IH [of p] sp by auto
  qed
qed simp

lemma dropWhile_idem [simp]: "dropWhile P (dropWhile P xs) = dropWhile P xs"
  by (induction xs) auto

lemma rstrip_with_idem [simp]: "rstrip_with P (rstrip_with P s) = rstrip_with P s"
  by (simp add: rstrip_with_def)

lemma rstrip_with_prefix: "\<exists>t. s = rstrip_with P s @ t"
proof -
  have "rev s = takeWhile P (rev s) @ dropWhile P (rev s)" by simp
  then have "s = rev (dropWhile P (rev s)) @ rev (takeWhile P (rev s))"
    by (metis rev_append rev_rev_ident)
  then show ?thesis unfolding rstrip_with_def by blast
qed

lemma set_rstrip_with: "set (rstrip_with P s) \<subseteq> set s"
  using rstrip_with_prefix [of s P] by (metis Un_upper1 set_append)

lemma length_rstrip_with: "length (rstrip_with P s) \<le> length s"
  using length_dropWhile_le [of P "rev s"] by (simp add: rstrip_with_def)

lemma lstrip_rstrip: "lstrip (rstrip_with P (lstrip s)) = rstrip_with P (lstrip s)"
proof -
  obtain t where t: "lstrip s = rstrip_with P (lstrip s) @ t"
    using rstrip_with_prefix by blast
  show ?thesis
  proof (cases "rstrip_with P (lstrip s)")
    case Nil
    then show ?thesis by (simp add: lstrip_def)
  next
    case (Cons x xs)
    with t have "lstrip s = x # xs @ t" by simp
    then have "\<not> is_space x"
      by (metis lstrip_def dropWhile_eq_Cons_conv)
    with Cons show ?thesis by (simp add: lstrip_def)
  qed
qed

lemma py_strip_idem [simp]: "py_strip (py_strip s) = py_strip s"
  by (simp add: py_strip_def lstrip_rstrip)

lemma set_py_strip: "set (py_strip s) \<subseteq> set s"
proof -
  have "set (lstrip s) \<subseteq> set s" by (auto simp: lstrip_def dest: set_dropWhileD)
  then show ?thesis using set_rstrip_with [of is_space "lstrip s"] by (auto simp: py_strip_def)
qed

lemma length_py_strip: "length (py_strip s) \<le> length s"
  using length_rstrip_with [of is_space "lstrip s"] length_dropWhile_le [of is_space s]
  by (simp add: py_strip_def lstrip_def)

section \<open>Decimal and hexadecimal numerals\<close>

definition digit_char :: "nat \<Rightarrow> char" where
  "digit_char n = char_of (if n < 10 then 48 + n else 87 + n)"

definition digit_value :: "char \<Rightarrow> nat" where
  "digit_value c = (if code c \<le> 57 then code c - 48
     else if code c \<le> 70 then code c - 55 else code c - 87)"

fun nat_str :: "nat \<Rightarrow> string" where
  "nat_str n = (if n < 10 then [digit_char n] else nat_str (n div 10) @ [digit_char (n mod 10)])"

fun hex_str :: "nat \<Rightarrow> string" where
  "hex_str n = (if n < 16 then [digit_char n] else hex_str (n div 16) @ [digit_char (n mod 16)])"

declare nat_str.simps [simp del] hex_str.simps [simp del]

definition int_str :: "int \<Rightarrow> string" where
  "int_str i = (if i < 0 then ''-'' @ nat_str (nat (- i)) else nat_str (nat i))"

definition parse_base :: "nat \<Rightarrow> string \<Rightarrow> nat" where
  "parse_base b s = foldl (\<lambda>n c. n * b + digit_value c) 0 s"

lemma code_digit_char: "n < 16 \<Longrightarrow> code (digit_char n) = (if n < 10 then 48 + n else 87 + n)"
  by (simp add: code_def digit_char_def of_char_of)

lemma digit_value_char [simp]: "n < 16 \<Longrightarrow> digit_value (digit_char n) = n"
  by (simp add: digit_value_def code_digit_char)

lemma is_digit_char: "n < 10 \<Longrightarrow> is_digit (digit_char n)"
  by (simp add: is_digit_def code_digit_char)

lemma is_hex_char: "n < 16 \<Longrightarrow> is_hex_lower (digit_char n)"
  by (simp add: is_hex_lower_def is_digit_def code_digit_char)

lemma parse_base_snoc [simp]: "parse_base b (s @ [c]) = parse_base b s * b + digit_value c"
  by (simp add: parse_base_def)

lemma parse_base_single [simp]: "parse_base b [c] = digit_value c"
  by (simp add: parse_base_def)

lemma parse_nat_str [simp]: "parse_base 10 (nat_str n) = n"
proof (induction n rule: nat_str.induct)
  case (1 n)
  show ?case
    using "1.IH" by (subst nat_str.simps) (cases "n < 10"; simp)
qed

lemma parse_hex_str [simp]: "parse_base 16 (hex_str n) = n"
proof (induction n rule: hex_str.induct)
  case (1 n)
  show ?case
    using "1.IH" by (subst hex_str.simps) (cases "n < 16"; simp)
qed

lemma nat_str_digits: "list_all is_digit (nat_str n)"
proof (induction n rule: nat_str.induct)
  case (1 n)
  then show ?case by (subst nat_str.simps) (simp add: is_digit_char)
qed

lemma hex_str_digits: "list_all is_hex_lower (hex_str n)"
proof (induction n rule: hex_str.induct)
  case (1 n)
  then show ?case by (subst hex_str.simps) (simp add: is_hex_char)
qed

lemma nat_str_not_Nil [simp]: "nat_str n \<noteq> []"
  by (subst nat_str.simps) simp

lemma hex_str_not_Nil [simp]: "hex_str n \<noteq> []"
  by (subst hex_str.simps) simp

lemma length_nat_str: "n < 10 ^ k \<Longrightarrow> 0 < k \<Longrightarrow> length (nat_str n) \<le> k"
proof (induction n arbitrary: k rule: nat_str.induct)
  case (1 n)
  show ?case
  proof (cases "n < 10")
    case False
    with "1.prems" obtain j where j: "k = Suc j" "0 < j"
      by (cases k; cases "k - 1") auto
    with "1.prems" have "n div 10 < 10 ^ j" by (simp add: div_less_iff_less_mult mult.commute)
    with "1.IH" [of j] False j have "length (nat_str (n div 10)) \<le> j" by simp
    with False j show ?thesis by (subst nat_str.simps) simp
  next
    case True
    with "1.prems" show ?thesis by (subst nat_str.simps) simp
  qed
qed

lemma length_hex_str: "n < 16 ^ k \<Longrightarrow> 0 < k \<Longrightarrow> length (hex_str n) \<le> k"
proof (induction n arbitrary: k rule: hex_str.induct)
  case (1 n)
  show ?case
  proof (cases "n < 16")
    case False
    with "1.prems" obtain j where j: "k = Suc j" "0 < j"
      by (cases k; cases "k - 1") auto
    with "1.prems" have "n div 16 < 16 ^ j" by (simp add: div_less_iff_less_mult mult.commute)
    with "1.IH" [of j] False j have "length (hex_str (n div 16)) \<le> j" by simp
    with False j show ?thesis by (subst hex_str.simps) simp
  next
    case True
    with "1.prems" show ?thesis by (subst hex_str.simps) simp
  qed
qed

lemma nat_str_leading_zero: "hd (nat_str n) = CHR ''0'' \<Longrightarrow> n = 0"
proof (induction n rule: nat_str.induct)
  case (1 n)
  show ?case
  proof (cases "n < 10")
    case True
    with "1.prems" have "digit_char n = CHR ''0''" by (subst (asm) nat_str.simps) simp
    then have "digit_value (digit_char n) = 0" by (simp add: digit_value_def code_def)
    with True show ?thesis by simp
  next
    case False
    with "1.prems" have "hd (nat_str (n div 10)) = CHR ''0''"
      by (subst (asm) nat_str.simps) simp
    with "1.IH" False have "n div 10 = 0" by simp
    with False show ?thesis by simp
  qed
qed

end
