(* ===== verification/Py_Runtime.thy ===== *)
theory Py_Runtime
  imports Py_Prelude
begin

text \<open>
  The run-time facilities the services use beyond plain values: the environment record
  (clock, boot identity, random identifiers, the hash and codec functions that come from
  outside the repository), serialisation to JSON, conversion to integers, and iteration,
  indexing and membership on values whose type is only known at run time.
\<close>

section \<open>The environment\<close>

text \<open>
  \<open>env_idna\<close> is the IDNA encoding of a name with a character outside ASCII (\<open>None\<close> for a
  \<open>UnicodeError\<close>), \<open>env_sha256\<close> the hexadecimal SHA-256 digest of a text and
  \<open>env_float_repr\<close> the shortest decimal form of a finite float.
\<close>

record env =
  env_now :: val
  env_boot :: "string option"
  env_uuid :: string
  env_idna :: "string \<Rightarrow> string option"
  env_sha256 :: "string \<Rightarrow> string"
  env_float_repr :: "rat \<Rightarrow> string"

definition boot_id :: "env \<Rightarrow> val" where
  "boot_id e = of_str_opt (env_boot e)"

section \<open>Iteration, indexing and membership\<close>

fun py_iter :: "val \<Rightarrow> val list py" where
  "py_iter (VList xs) = Inr xs"
| "py_iter (VStr s) = Inr (map (\<lambda>c. VStr [c]) s)"
| "py_iter (VDict d) = Inr (map (\<lambda>p. VStr (fst p)) d)"
| "py_iter v = Inl TypeError"

fun py_index :: "val \<Rightarrow> string \<Rightarrow> val py" where
  "py_index (VDict d) k = dindex d k"
| "py_index v k = Inl TypeError"

text \<open>\<open>x in v\<close>: membership, substring or key test by the type of \<open>v\<close>.\<close>

fun py_in :: "val \<Rightarrow> val \<Rightarrow> bool py" where
  "py_in x (VList xs) = Inr (py_mem x xs)"
| "py_in (VStr p) (VStr s) = Inr (sublist p s)"
| "py_in x (VDict d) = Inr (case x of VStr k \<Rightarrow> dhas d k | _ \<Rightarrow> False)"
| "py_in x v = Inl TypeError"

definition hashable :: "val \<Rightarrow> bool" where
  "hashable v \<longleftrightarrow> \<not> is_list v \<and> \<not> is_dict v"

section \<open>Integers\<close>

text \<open>The digits of an integer literal, single underscores allowed between digits.\<close>

fun int_digits :: "string \<Rightarrow> bool" where
  "int_digits [] = False"
| "int_digits [c] = is_digit c"
| "int_digits (c # d # s) = (is_digit c \<and> (if d = CHR ''_'' then int_digits s else int_digits (d # s)))"

definition int_of_str :: "string \<Rightarrow> int option" where
  "int_of_str t = (let s = py_strip t;
       neg = (s \<noteq> [] \<and> hd s = CHR ''-'');
       body = (if s \<noteq> [] \<and> (hd s = CHR ''-'' \<or> hd s = CHR ''+'') then tl s else s);
       n = int (parse_base 10 (filter (\<lambda>c. c \<noteq> CHR ''_'') body)) in
     if int_digits body then Some (if neg then - n else n) else None)"

text \<open>\<open>int(v)\<close>.\<close>

fun py_int :: "val \<Rightarrow> int py" where
  "py_int (VInt i) = Inr i"
| "py_int (VBool b) = Inr (of_bool b)"
| "py_int (VFloat (Fin q)) = Inr (if q < 0 then \<lceil>q\<rceil> else \<lfloor>q\<rfloor>)"
| "py_int (VFloat NaN) = Inl (ValueError ''cannot convert float NaN to integer'')"
| "py_int (VFloat f) = Inl (OtherError ''OverflowError'')"
| "py_int (VStr s) = (case int_of_str s of Some i \<Rightarrow> Inr i
     | None \<Rightarrow> Inl (ValueError ''invalid literal for int() with base 10''))"
| "py_int v = Inl TypeError"

section \<open>JSON\<close>

definition hex_digit_pair :: "nat \<Rightarrow> string" where
  "hex_digit_pair n = [digit_char (n div 16), digit_char (n mod 16)]"

definition json_char :: "char \<Rightarrow> string" where
  "json_char c = (if c = CHR ''\"'' then [CHR 0x5C, CHR ''\"'']
     else if code c = 92 then [CHR 0x5C, CHR 0x5C]
     else if code c = 10 then [CHR 0x5C, CHR ''n'']
     else if code c = 13 then [CHR 0x5C, CHR ''r'']
     else if code c = 9 then [CHR 0x5C, CHR ''t'']
     else if code c = 8 then [CHR 0x5C, CHR ''b'']
     else if code c = 12 then [CHR 0x5C, CHR ''f'']
     else if code c < 32 \<or> 126 < code c then [CHR 0x5C] @ ''u00'' @ hex_digit_pair (code c)
     else [c])"

definition json_string :: "string \<Rightarrow> string" where
  "json_string s = [CHR ''\"''] @ concat (map json_char s) @ [CHR ''\"'']"

text \<open>\<open>json.dumps(v, sort_keys=True, separators=(item, key))\<close>.\<close>

fun json_dumps :: "env \<Rightarrow> string \<Rightarrow> string \<Rightarrow> val \<Rightarrow> string" where
  "json_dumps e si sk VNone = ''null''"
| "json_dumps e si sk (VBool b) = (if b then ''true'' else ''false'')"
| "json_dumps e si sk (VInt i) = int_str i"
| "json_dumps e si sk (VFloat f) = (case f of Fin q \<Rightarrow> env_float_repr e q
     | PosInf \<Rightarrow> ''Infinity'' | NegInf \<Rightarrow> ''-Infinity'' | NaN \<Rightarrow> ''NaN'')"
| "json_dumps e si sk (VStr s) = json_string s"
| "json_dumps e si sk (VList xs) = ''['' @ join si (map (json_dumps e si sk) xs) @ '']''"
| "json_dumps e si sk (VDict d) = ''{'' @ join si (map (\<lambda>(k, t). json_string k @ sk @ t)
     (sort_key fst (map (\<lambda>(k, v). (k, json_dumps e si sk v)) d))) @ ''}''"

text \<open>What \<open>json.loads\<close> returns for a text written with \<open>sort_keys=True\<close>.\<close>

fun sort_keys :: "val \<Rightarrow> val" where
  "sort_keys (VList xs) = VList (map sort_keys xs)"
| "sort_keys (VDict d) = VDict (sort_key fst (map (\<lambda>(k, v). (k, sort_keys v)) d))"
| "sort_keys v = v"

lemma map_of_sort_key_fst:
  assumes "distinct (map fst d)" shows "map_of (sort_key fst d) = map_of d"
proof -
  have "distinct (map fst (sort_key fst d))" using assms by (simp add: distinct_map)
  with assms show ?thesis by (simp add: map_of_inject_set)
qed

end
