(* ===== verification/Ip_Address.thy ===== *)
theory Ip_Address
  imports Py_Prelude
begin

text \<open>
  The part of Python's \<open>ipaddress\<close> module that the network services call: parsing and
  printing of IPv4 and IPv6 addresses and networks, membership of an address in a
  network, and the address classes. Addresses are unbounded naturals below
  \<open>2 ^ 32\<close> or \<open>2 ^ 128\<close>; an IPv6 address may carry a scope. The locale \<open>text_codec\<close>
  is the contract the rule store relies on (printing then parsing is the identity);
  it is interpreted on addresses and on networks.
\<close>

section \<open>Definitions\<close>

datatype ipaddr = IPv4 nat | IPv6 nat "string option"

fun ip_version :: "ipaddr \<Rightarrow> nat" where
  "ip_version (IPv4 n) = 4" | "ip_version (IPv6 n s) = 6"

fun ip_int :: "ipaddr \<Rightarrow> nat" where
  "ip_int (IPv4 n) = n" | "ip_int (IPv6 n s) = n"

fun ip_bits :: "ipaddr \<Rightarrow> nat" where
  "ip_bits (IPv4 n) = 32" | "ip_bits (IPv6 n s) = 128"

definition parse_octet :: "string \<Rightarrow> nat option" where
  "parse_octet s = (if s = [] \<or> \<not> list_all is_digit s \<or> 3 < length s
       \<or> (s \<noteq> ''0'' \<and> hd s = CHR ''0'') \<or> 255 < parse_base 10 s
     then None else Some (parse_base 10 s))"

definition v4_int :: "string \<Rightarrow> nat option" where
  "v4_int s = (let octets = split_on (CHR ''.'') s in
     if length octets \<noteq> 4 then None
     else map_option (foldl (\<lambda>n b. n * 256 + b) 0) (those (map parse_octet octets)))"

definition v4_str :: "nat \<Rightarrow> string" where
  "v4_str n = join ''.'' (map nat_str
     [n div 16777216 mod 256, n div 65536 mod 256, n div 256 mod 256, n mod 256])"

definition parse_hextet :: "string \<Rightarrow> nat option" where
  "parse_hextet s = (if s = [] \<or> \<not> list_all is_hex_any s \<or> 4 < length s
     then None else Some (parse_base 16 s))"

definition hextets_value :: "nat list \<Rightarrow> nat" where
  "hextets_value hs = foldl (\<lambda>n h. n * 65536 + h) 0 hs"

text \<open>The dotted suffix of a mixed address is rewritten to two hextets.\<close>

definition v6_suffix :: "string list \<Rightarrow> string list option" where
  "v6_suffix parts = (if CHR ''.'' \<in> set (last parts)
     then (case v4_int (last parts) of None \<Rightarrow> None
       | Some n \<Rightarrow> Some (butlast parts @ [hex_str (n div 65536 mod 65536), hex_str (n mod 65536)]))
     else Some parts)"

text \<open>The inner empty parts: the places of a \<open>::\<close>.\<close>

definition inner_empty :: "string list \<Rightarrow> nat list" where
  "inner_empty parts = filter (\<lambda>i. parts ! i = []) [1..<length parts - 1]"

definition v6_parts :: "string list \<Rightarrow> nat option" where
  "v6_parts parts = (case inner_empty parts of
       [] \<Rightarrow> if length parts \<noteq> 8 \<or> hd parts = [] \<or> last parts = [] then None
             else map_option hextets_value (those (map parse_hextet parts))
     | [i] \<Rightarrow>
        (let hi = (if hd parts = [] then [] else take i parts);
             lo = (if last parts = [] then [] else drop (Suc i) parts) in
         if (hd parts = [] \<and> i \<noteq> 1) \<or> (last parts = [] \<and> i \<noteq> length parts - 2)
            \<or> 8 \<le> length hi + length lo then None
         else (case (those (map parse_hextet hi), those (map parse_hextet lo)) of
             (Some h, Some l) \<Rightarrow>
               Some (hextets_value (h @ replicate (8 - (length h + length l)) 0 @ l))
           | _ \<Rightarrow> None))
     | _ \<Rightarrow> None)"

definition v6_int :: "string \<Rightarrow> nat option" where
  "v6_int s = (let parts = split_on (CHR '':'') s in
     if length parts < 3 then None
     else (case v6_suffix parts of None \<Rightarrow> None
       | Some ps \<Rightarrow> if 9 < length ps then None else v6_parts ps))"

definition hextets :: "nat \<Rightarrow> nat list" where
  "hextets n = map (\<lambda>i. n div 65536 ^ (7 - i) mod 65536) [0..<8]"

text \<open>The scan for the longest run of zero hextets: best start and length, current ones.\<close>

fun zero_run :: "nat \<Rightarrow> nat list \<Rightarrow> nat \<times> nat \<times> nat \<times> nat \<Rightarrow> nat \<times> nat" where
  "zero_run i [] (bs, bl, s, l) = (bs, bl)"
| "zero_run i (h # hs) (bs, bl, s, l) =
     (if h = 0
      then (let l' = Suc l; s' = (if l = 0 then i else s) in
            zero_run (Suc i) hs (if bl < l' then (s', l', s', l') else (bs, bl, s', l')))
      else zero_run (Suc i) hs (bs, bl, 0, 0))"

definition compress :: "nat list \<Rightarrow> string list" where
  "compress hs = (let (bs, bl) = zero_run 0 hs (0, 0, 0, 0); ss = map hex_str hs in
     if bl \<le> 1 then ss
     else (if bs = 0 then [[]] else []) @ take bs ss @ [[]] @ drop (bs + bl) ss
          @ (if bs + bl = length hs then [[]] else []))"

definition v6_str :: "nat \<Rightarrow> string" where
  "v6_str n = (if n div 4294967296 = 65535
     then ''::ffff:'' @ v4_str (n mod 4294967296)
     else join '':'' (compress (hextets n)))"

definition split_scope :: "string \<Rightarrow> (string \<times> string option) option" where
  "split_scope s = (case split_on (CHR ''%'') s of
       [a] \<Rightarrow> Some (a, None)
     | [a, z] \<Rightarrow> if z = [] then None else Some (a, Some z)
     | _ \<Rightarrow> None)"

definition ipv4_address :: "string \<Rightarrow> ipaddr option" where
  "ipv4_address s = (if CHR ''/'' \<in> set s then None else map_option IPv4 (v4_int s))"

definition ipv6_address :: "string \<Rightarrow> ipaddr option" where
  "ipv6_address s = (if CHR ''/'' \<in> set s then None
     else (case split_scope s of None \<Rightarrow> None
       | Some (a, z) \<Rightarrow> map_option (\<lambda>n. IPv6 n z) (v6_int a)))"

definition ip_address :: "string \<Rightarrow> ipaddr option" where
  "ip_address s = (case ipv4_address s of Some a \<Rightarrow> Some a | None \<Rightarrow> ipv6_address s)"

fun ip_str :: "ipaddr \<Rightarrow> string" where
  "ip_str (IPv4 n) = v4_str n"
| "ip_str (IPv6 n None) = v6_str n"
| "ip_str (IPv6 n (Some z)) = v6_str n @ ''%'' @ z"

text \<open>\<open>ipaddress.ip_address\<close> on a value: an integer is an address too.\<close>

definition ip_of_int :: "int \<Rightarrow> ipaddr option" where
  "ip_of_int i = (if 0 \<le> i \<and> i < 2 ^ 32 then Some (IPv4 (nat i))
     else if 0 \<le> i \<and> i < 2 ^ 128 then Some (IPv6 (nat i) None) else None)"

fun ip_address_val :: "val \<Rightarrow> ipaddr option" where
  "ip_address_val (VStr s) = ip_address s"
| "ip_address_val (VInt i) = ip_of_int i"
| "ip_address_val (VBool b) = ip_of_int (of_bool b)"
| "ip_address_val v = None"

type_synonym ipnet = "ipaddr \<times> nat"

definition prefix_string :: "nat \<Rightarrow> string \<Rightarrow> nat option" where
  "prefix_string m s = (if s = [] \<or> \<not> list_all is_digit s \<or> m < parse_base 10 s
     then None else Some (parse_base 10 s))"

text \<open>A dotted netmask or hostmask read as a prefix length.\<close>

definition prefix_of_mask :: "nat \<Rightarrow> nat option" where
  "prefix_of_mask n = List.find (\<lambda>p. n = 2 ^ 32 - 2 ^ (32 - p)) (rev [0..<33])"

definition v4_netmask :: "string \<Rightarrow> nat option" where
  "v4_netmask s = (case prefix_string 32 s of Some p \<Rightarrow> Some p
     | None \<Rightarrow> (case v4_int s of None \<Rightarrow> None
         | Some n \<Rightarrow> (case prefix_of_mask n of Some p \<Rightarrow> Some p
             | None \<Rightarrow> prefix_of_mask (2 ^ 32 - 1 - n))))"

definition mask_ip :: "nat \<Rightarrow> nat \<Rightarrow> nat \<Rightarrow> nat" where
  "mask_ip bits p n = n div 2 ^ (bits - p) * 2 ^ (bits - p)"

fun mask_addr :: "nat \<Rightarrow> ipaddr \<Rightarrow> ipaddr" where
  "mask_addr p (IPv4 n) = IPv4 (mask_ip 32 p n)"
| "mask_addr p (IPv6 n z) = (if mask_ip 128 p n = n then IPv6 n z else IPv6 (mask_ip 128 p n) None)"

definition ipv4_network :: "string \<Rightarrow> ipnet option" where
  "ipv4_network s = (case split_on (CHR ''/'') s of
       [a] \<Rightarrow> map_option (\<lambda>x. (x, 32)) (ipv4_address a)
     | [a, m] \<Rightarrow> (case (ipv4_address a, v4_netmask m) of
           (Some x, Some p) \<Rightarrow> Some (mask_addr p x, p) | _ \<Rightarrow> None)
     | _ \<Rightarrow> None)"

definition ipv6_network :: "string \<Rightarrow> ipnet option" where
  "ipv6_network s = (case split_on (CHR ''/'') s of
       [a] \<Rightarrow> map_option (\<lambda>x. (x, 128)) (ipv6_address a)
     | [a, m] \<Rightarrow> (case (ipv6_address a, prefix_string 128 m) of
           (Some x, Some p) \<Rightarrow> Some (mask_addr p x, p) | _ \<Rightarrow> None)
     | _ \<Rightarrow> None)"

text \<open>\<open>ipaddress.ip_network(s, strict=False)\<close>.\<close>

definition ip_network :: "string \<Rightarrow> ipnet option" where
  "ip_network s = (case ipv4_network s of Some a \<Rightarrow> Some a | None \<Rightarrow> ipv6_network s)"

definition net_str :: "ipnet \<Rightarrow> string" where
  "net_str n = ip_str (fst n) @ ''/'' @ nat_str (snd n)"

text \<open>\<open>address in network\<close>.\<close>

definition ip_in_net :: "ipaddr \<Rightarrow> ipnet \<Rightarrow> bool" where
  "ip_in_net a n \<longleftrightarrow> ip_version a = ip_version (fst n)
     \<and> mask_ip (ip_bits a) (snd n) (ip_int a) = ip_int (fst n)"

fun wf_ip :: "ipaddr \<Rightarrow> bool" where
  "wf_ip (IPv4 n) = (n < 2 ^ 32)"
| "wf_ip (IPv6 n None) = (n < 2 ^ 128)"
| "wf_ip (IPv6 n (Some z)) = (n < 2 ^ 128 \<and> z \<noteq> [] \<and> CHR ''%'' \<notin> set z \<and> CHR ''/'' \<notin> set z)"

definition wf_net :: "ipnet \<Rightarrow> bool" where
  "wf_net n \<longleftrightarrow> wf_ip (fst n) \<and> snd n \<le> ip_bits (fst n)
     \<and> mask_ip (ip_bits (fst n)) (snd n) (ip_int (fst n)) = ip_int (fst n)"

section \<open>The contract of a textual codec\<close>

locale text_codec =
  fixes parse :: "string \<Rightarrow> 'a option"
    and print :: "'a \<Rightarrow> string"
    and wf :: "'a \<Rightarrow> bool"
  assumes parse_wf: "parse s = Some a \<Longrightarrow> wf a"
    and parse_print: "wf a \<Longrightarrow> parse (print a) = Some a"
begin

lemma reparse: "parse s = Some a \<Longrightarrow> parse (print a) = Some a"
  by (rule parse_print) (rule parse_wf)

lemma print_inj: "wf a \<Longrightarrow> wf b \<Longrightarrow> print a = print b \<Longrightarrow> a = b"
  using parse_print by (metis option.inject)

lemma normal_form:
  "map_option print (parse s) = Some t \<Longrightarrow> map_option print (parse t) = Some t"
  using reparse by fastforce

end

section \<open>IPv4\<close>

lemma parse_octet_bound: "parse_octet s = Some n \<Longrightarrow> n < 256"
  by (auto simp: parse_octet_def split: if_splits)

lemma parse_octet_nat_str:
  assumes "n < 256" shows "parse_octet (nat_str n) = Some n"
proof -
  have len: "length (nat_str n) \<le> 3" using assms by (intro length_nat_str) simp_all
  have "nat_str n = ''0'' \<or> hd (nat_str n) \<noteq> CHR ''0''"
  proof (cases "hd (nat_str n) = CHR ''0''")
    case True
    then have "n = 0" by (rule nat_str_leading_zero)
    then show ?thesis by (simp add: nat_str.simps digit_char_def)
  qed simp
  with len assms nat_str_digits [of n] show ?thesis by (auto simp: parse_octet_def)
qed

lemma those_Some_iff: "those xs = Some ys \<longleftrightarrow> xs = map Some ys"
proof (induction xs arbitrary: ys)
  case Nil
  show ?case by (cases ys) auto
next
  case (Cons x xs)
  then show ?case by (cases ys) (auto split: option.splits)
qed

lemma those_map_Some: "(\<And>x. x \<in> set xs \<Longrightarrow> f (g x) = Some x) \<Longrightarrow> those (map f (map g xs)) = Some xs"
  by (simp add: those_Some_iff)

lemma list_of_length4: "length xs = 4 \<longleftrightarrow> (\<exists>a b c d. xs = [a, b, c, d])"
  by (auto simp: numeral_eq_Suc length_Suc_conv)

lemma v4_int_bound:
  assumes "v4_int s = Some n" shows "n < 2 ^ 32"
proof -
  from assms obtain ys where "length (split_on (CHR ''.'') s) = 4"
    and ys: "map parse_octet (split_on (CHR ''.'') s) = map Some ys"
    and n: "n = foldl (\<lambda>n b. n * 256 + b) 0 ys"
    by (auto simp: v4_int_def Let_def those_Some_iff split: if_splits)
  then have "length ys = 4" by (metis length_map)
  then obtain a b c d where abcd: "ys = [a, b, c, d]" by (auto simp: list_of_length4)
  have "y < 256" if "y \<in> set ys" for y
  proof -
    from that have "Some y \<in> set (map parse_octet (split_on (CHR ''.'') s))" by (simp add: ys)
    then show ?thesis using parse_octet_bound by fastforce
  qed
  with abcd have "a < 256" "b < 256" "c < 256" "d < 256" by auto
  with n abcd show ?thesis by simp
qed

lemma digit_not_sep:
  "is_digit c \<Longrightarrow> c \<noteq> CHR ''.'' \<and> c \<noteq> CHR '':'' \<and> c \<noteq> CHR ''%'' \<and> c \<noteq> CHR ''/''"
  by (auto simp: is_digit_def code_def)

lemma hex_not_sep:
  "is_hex_lower c \<Longrightarrow> c \<noteq> CHR ''.'' \<and> c \<noteq> CHR '':'' \<and> c \<noteq> CHR ''%'' \<and> c \<noteq> CHR ''/''"
  by (auto simp: is_hex_lower_def is_digit_def code_def)

lemma nat_str_no_sep:
  "CHR ''.'' \<notin> set (nat_str n)" "CHR '':'' \<notin> set (nat_str n)"
  "CHR ''%'' \<notin> set (nat_str n)" "CHR ''/'' \<notin> set (nat_str n)"
  using nat_str_digits [of n] digit_not_sep unfolding list_all_iff by blast+

lemma hex_str_no_sep:
  "CHR ''.'' \<notin> set (hex_str n)" "CHR '':'' \<notin> set (hex_str n)"
  "CHR ''%'' \<notin> set (hex_str n)" "CHR ''/'' \<notin> set (hex_str n)"
  using hex_str_digits [of n] hex_not_sep unfolding list_all_iff by blast+

lemma low_octets:
  assumes "(n::nat) < 2 ^ 32"
  shows "((n div 16777216 mod 256 * 256 + n div 65536 mod 256) * 256 + n div 256 mod 256) * 256
    + n mod 256 = n"
proof -
  have q: "n div 65536 = n div 256 div 256" "n div 16777216 = n div 256 div 256 div 256"
    by (simp_all flip: div_mult2_eq)
  have "n div 16777216 < 256" using assms by (simp add: div_less_iff_less_mult)
  then have "n div 256 div 256 div 256 mod 256 = n div 256 div 256 div 256" by (simp add: q)
  then show ?thesis
    using div_mult_mod_eq [of n 256] div_mult_mod_eq [of "n div 256" 256]
      div_mult_mod_eq [of "n div 256 div 256" 256]
    by (simp add: q)
qed

lemma v4_int_str:
  assumes "n < 2 ^ 32" shows "v4_int (v4_str n) = Some n"
proof -
  define bs where
    "bs = [n div 16777216 mod 256, n div 65536 mod 256, n div 256 mod 256, n mod 256]"
  have len: "length bs = 4" by (simp add: bs_def)
  have "v4_str n = join ''.'' (map nat_str bs)" by (simp only: v4_str_def bs_def)
  moreover have "split_on (CHR ''.'') (join ''.'' (map nat_str bs)) = map nat_str bs"
    using len by (intro split_on_join) (auto simp: nat_str_no_sep)
  moreover have "those (map parse_octet (map nat_str bs)) = Some bs"
    by (rule those_map_Some) (auto simp: parse_octet_nat_str bs_def)
  moreover have "foldl (\<lambda>n b. n * 256 + b) 0 bs = n"
    using low_octets [OF assms] by (simp only: bs_def foldl_Cons foldl_Nil mult_0 add_0)
  ultimately show ?thesis using len by (simp add: v4_int_def del: map_map)
qed

lemma set_v4_str: "c \<in> set (v4_str n) \<Longrightarrow> is_digit c \<or> c = CHR ''.''"
  unfolding v4_str_def using nat_str_digits by (auto simp: list_all_iff)

lemma v4_str_chars: "CHR '':'' \<notin> set (v4_str n)" "CHR ''/'' \<notin> set (v4_str n)" "CHR ''%'' \<notin> set (v4_str n)"
  using set_v4_str digit_not_sep by blast+

section \<open>IPv6\<close>

lemma parse_hextet_hex_str:
  assumes "n < 65536" shows "parse_hextet (hex_str n) = Some n"
proof -
  have "length (hex_str n) \<le> 4" using assms by (intro length_hex_str) simp_all
  then show ?thesis using hex_str_digits [of n]
    by (auto simp: parse_hextet_def list_all_iff is_hex_any_def)
qed

lemma digit_value_hex: "is_hex_any c \<Longrightarrow> digit_value c < 16"
  by (auto simp: is_hex_any_def is_hex_lower_def is_digit_def digit_value_def)

lemma parse_base_hex_bound: "list_all is_hex_any s \<Longrightarrow> parse_base 16 s < 16 ^ length s"
proof (induction s rule: rev_induct)
  case (snoc c s)
  then have "parse_base 16 s < 16 ^ length s" "digit_value c < 16"
    by (simp_all add: digit_value_hex)
  then have "parse_base 16 s * 16 + digit_value c < (parse_base 16 s + 1) * 16" by simp
  also have "\<dots> \<le> 16 ^ length s * 16"
    using \<open>parse_base 16 s < 16 ^ length s\<close> by (intro mult_le_mono1) simp
  finally show ?case by (simp add: mult.commute)
qed (simp add: parse_base_def)

lemma parse_hextet_bound: assumes "parse_hextet s = Some n" shows "n < 65536"
proof -
  from assms have s: "list_all is_hex_any s" "length s \<le> 4" and n: "n = parse_base 16 s"
    by (auto simp: parse_hextet_def split: if_splits)
  have "parse_base 16 s < 16 ^ length s" using s by (simp add: parse_base_hex_bound)
  also have "\<dots> \<le> 16 ^ 4" using s by (intro power_increasing) simp_all
  finally show ?thesis by (simp add: n)
qed

lemma hextets_value_snoc: "hextets_value (hs @ [h]) = hextets_value hs * 65536 + h"
  by (simp add: hextets_value_def)

lemma hextets_value_bound:
  "(\<And>h. h \<in> set hs \<Longrightarrow> h < 65536) \<Longrightarrow> hextets_value hs < 65536 ^ length hs"
proof (induction hs rule: rev_induct)
  case (snoc h hs)
  then have "hextets_value hs < 65536 ^ length hs" "h < 65536" by simp_all
  then have "hextets_value hs * 65536 + h < (hextets_value hs + 1) * 65536" by simp
  also have "\<dots> \<le> 65536 ^ length hs * 65536"
    using \<open>hextets_value hs < _\<close> by (intro mult_le_mono1) simp
  finally show ?case by (simp add: hextets_value_snoc mult.commute)
qed (simp add: hextets_value_def)

lemma those_hextets_bound:
  "those (map parse_hextet ps) = Some hs \<Longrightarrow> h \<in> set hs \<Longrightarrow> h < 65536"
proof -
  assume "those (map parse_hextet ps) = Some hs" and "h \<in> set hs"
  then have "Some h \<in> set (map parse_hextet ps)" by (simp add: those_Some_iff)
  then show ?thesis using parse_hextet_bound by fastforce
qed

lemma those_hextets_length: "those (map parse_hextet ps) = Some hs \<Longrightarrow> length hs = length ps"
  unfolding those_Some_iff by (metis length_map)

lemma v6_parts_bound: assumes "v6_parts ps = Some n" shows "n < 2 ^ 128"
proof -
  obtain hs where hs: "n = hextets_value hs" "length hs = 8" "\<And>h. h \<in> set hs \<Longrightarrow> h < 65536"
  proof (cases "inner_empty ps")
    case Nil
    with assms obtain hs where "those (map parse_hextet ps) = Some hs" "n = hextets_value hs"
      and "length ps = 8"
      by (auto simp: v6_parts_def split: if_splits)
    then show ?thesis using that those_hextets_bound those_hextets_length by metis
  next
    case (Cons i rest)
    with assms have "rest = []" by (auto simp: v6_parts_def split: list.splits)
    define hi where "hi = (if hd ps = [] then [] else take i ps)"
    define lo where "lo = (if last ps = [] then [] else drop (Suc i) ps)"
    have "v6_parts ps = (if (hd ps = [] \<and> i \<noteq> 1) \<or> (last ps = [] \<and> i \<noteq> length ps - 2)
        \<or> 8 \<le> length hi + length lo then None
      else (case (those (map parse_hextet hi), those (map parse_hextet lo)) of
          (Some h, Some l) \<Rightarrow>
            Some (hextets_value (h @ replicate (8 - (length h + length l)) 0 @ l))
        | _ \<Rightarrow> None))"
      by (simp only: v6_parts_def Cons \<open>rest = []\<close> list.case Let_def hi_def lo_def)
    with assms obtain h l where
      "those (map parse_hextet hi) = Some h" "those (map parse_hextet lo) = Some l"
      "n = hextets_value (h @ replicate (8 - (length h + length l)) 0 @ l)"
      "length hi + length lo < 8"
      by (cases "those (map parse_hextet hi)"; cases "those (map parse_hextet lo)")
         (simp_all split: if_split_asm)
    moreover from this have "length h + length l < 8"
      by (simp add: those_hextets_length)
    moreover from calculation have "x < 65536" if "x = 0 \<or> x \<in> set h \<or> x \<in> set l" for x
      using that those_hextets_bound by (metis zero_less_numeral)
    ultimately show ?thesis
      using that [of "h @ replicate (8 - (length h + length l)) 0 @ l"] by auto
  qed
  then have "hextets_value hs < 65536 ^ 8" using hextets_value_bound by metis
  with hs show ?thesis by simp
qed

lemma v6_int_bound: "v6_int s = Some n \<Longrightarrow> n < 2 ^ 128"
  by (auto simp: v6_int_def Let_def dest: v6_parts_bound split: if_splits option.splits)

lemma hextets_nth: "hextets n = [n div 65536 ^ 7 mod 65536, n div 65536 ^ 6 mod 65536,
    n div 65536 ^ 5 mod 65536, n div 65536 ^ 4 mod 65536, n div 65536 ^ 3 mod 65536,
    n div 65536 ^ 2 mod 65536, n div 65536 mod 65536, n mod 65536]"
  by (simp add: hextets_def upt_rec)

lemma hextets_bound: "h \<in> set (hextets n) \<Longrightarrow> h < 65536"
  by (auto simp: hextets_def)

lemma length_hextets [simp]: "length (hextets n) = 8"
  by (simp add: hextets_def)

lemma hextets_value_take:
  "k \<le> 8 \<Longrightarrow> hextets_value (map (\<lambda>i. n div 65536 ^ (7 - i) mod 65536) [0..<k])
     = n div 65536 ^ (8 - k) mod 65536 ^ k"
proof (induction k)
  case (Suc k)
  let ?m = "n div 65536 ^ (7 - k)"
  have "8 - k = Suc (7 - k)" using Suc.prems by simp
  then have "65536 ^ (8 - k) = (65536 ^ (7 - k)) * (65536 :: nat)" by (simp only: power_Suc2)
  then have "n div 65536 ^ (8 - k) = ?m div 65536" by (simp add: div_mult2_eq)
  then have "hextets_value (map (\<lambda>i. n div 65536 ^ (7 - i) mod 65536) [0..<Suc k])
    = (?m div 65536 mod 65536 ^ k) * 65536 + ?m mod 65536"
    using Suc by (simp add: hextets_value_snoc)
  also have "\<dots> = ?m mod 65536 ^ Suc k"
    by (simp add: mod_mult2_eq mult.commute)
  finally show ?case by simp
qed (simp add: hextets_value_def)

lemma hextets_value_hextets: "n < 2 ^ 128 \<Longrightarrow> hextets_value (hextets n) = n"
  using hextets_value_take [of 8 n] by (simp add: hextets_def)

text \<open>What the scan for zero runs guarantees: the run it returns consists of zeros.\<close>

definition run_ok :: "nat list \<Rightarrow> nat \<Rightarrow> nat \<Rightarrow> bool" where
  "run_ok hs s l \<longleftrightarrow> s + l \<le> length hs \<and> (\<forall>i. s \<le> i \<and> i < s + l \<longrightarrow> hs ! i = 0)"

lemma run_ok_empty: "s \<le> length hs \<Longrightarrow> run_ok hs s 0"
  by (simp add: run_ok_def)

lemma zero_run_ok:
  assumes "zero_run i (drop i hs) (bs, bl, s, l) = (bs', bl')" and "i \<le> length hs"
    and "run_ok hs bs bl" and "l \<noteq> 0 \<longrightarrow> run_ok hs s l \<and> s + l = i"
  shows "run_ok hs bs' bl'"
  using assms
proof (induction "length hs - i" arbitrary: i bs bl s l)
  case 0
  then show ?case by simp
next
  case (Suc k)
  then have i: "i < length hs" by simp
  then have d: "drop i hs = hs ! i # drop (Suc i) hs" by (simp add: Cons_nth_drop_Suc)
  show ?case
  proof (cases "hs ! i = 0")
    case True
    define s' where "s' = (if l = 0 then i else s)"
    have ok: "run_ok hs s' (Suc l) \<and> s' + Suc l = Suc i"
      using Suc.prems(4) True i by (auto simp: run_ok_def s'_def less_Suc_eq)
    show ?thesis
    proof (cases "bl < Suc l")
      case True
      show ?thesis
        by (rule Suc.hyps(1) [of "Suc i" s' "Suc l" s' "Suc l"])
           (use Suc True ok \<open>hs ! i = 0\<close> i d in \<open>auto simp: s'_def Let_def\<close>)
    next
      case False
      show ?thesis
        by (rule Suc.hyps(1) [of "Suc i" bs bl s' "Suc l"])
           (use Suc False ok \<open>hs ! i = 0\<close> i d in \<open>auto simp: s'_def Let_def\<close>)
    qed
  next
    case False
    show ?thesis
      by (rule Suc.hyps(1) [of "Suc i" bs bl 0 0])
         (use Suc False i d in auto)
  qed
qed

lemma zero_run_zeros:
  assumes "zero_run 0 hs (0, 0, 0, 0) = (bs, bl)"
  shows "run_ok hs bs bl"
  using zero_run_ok [of 0 hs 0 0 0 0 bs bl] assms by (simp add: run_ok_empty)

lemma run_ok_split:
  assumes "run_ok hs s l"
  shows "hs = take s hs @ replicate l 0 @ drop (s + l) hs"
proof -
  have "take l (drop s hs) = replicate l 0"
    using assms by (intro nth_equalityI) (auto simp: run_ok_def)
  moreover have "drop s hs = take l (drop s hs) @ drop (s + l) hs"
    by (metis append_take_drop_id drop_drop add.commute)
  ultimately show ?thesis by (metis append_take_drop_id)
qed

lemma filter_upt_single:
  assumes "a \<le> i" "i < b" "P i" "\<And>j. a \<le> j \<Longrightarrow> j < b \<Longrightarrow> P j \<Longrightarrow> j = i"
  shows "filter P [a..<b] = [i]"
proof -
  have "[a..<b] = [a..<i] @ [i..<b]"
    using assms(1,2) upt_add_eq_append [of a i "b - i"] by simp
  then have "[a..<b] = [a..<i] @ i # [Suc i..<b]"
    using assms(2) by (simp add: upt_conv_Cons)
  moreover have "\<not> P j" if "a \<le> j" "j < b" "j \<noteq> i" for j
    using assms(4) that by blast
  then have "filter P [a..<i] = []" "filter P [Suc i..<b] = []"
    using assms(1,2) by (simp_all add: filter_empty_conv)
  ultimately show ?thesis using assms(3) by simp
qed

lemma inner_empty_single:
  assumes "xs \<noteq> []" "ys \<noteq> []" "\<And>p. p \<in> set (tl xs) \<Longrightarrow> p \<noteq> []" "\<And>p. p \<in> set (butlast ys) \<Longrightarrow> p \<noteq> []"
  shows "inner_empty (xs @ [] # ys) = [length xs]"
  unfolding inner_empty_def
proof (rule filter_upt_single)
  show "1 \<le> length xs" using assms(1) by (cases xs) auto
  show "length xs < length (xs @ [] # ys) - 1" using assms(2) by (cases ys) auto
  show "(xs @ [] # ys) ! length xs = []" by simp
  fix j assume j: "1 \<le> j" "j < length (xs @ [] # ys) - 1" "(xs @ [] # ys) ! j = []"
  show "j = length xs"
  proof (rule ccontr)
    assume "j \<noteq> length xs"
    then consider "j < length xs" | "length xs < j" by linarith
    then show False
    proof cases
      case 1
      with j have "tl xs ! (j - 1) = []" "j - 1 < length (tl xs)"
        by (auto simp: nth_append nth_tl)
      then show False using assms(3) nth_mem by blast
    next
      case 2
      with j have "ys ! (j - Suc (length xs)) = []" "j - Suc (length xs) < length ys - 1"
        by (auto simp: nth_append nth_Cons')
      then have "butlast ys ! (j - Suc (length xs)) = []"
        "j - Suc (length xs) < length (butlast ys)"
        by (auto simp: nth_butlast)
      then show False using assms(4) nth_mem by blast
    qed
  qed
qed

lemma inner_empty_none:
  "(\<And>p. p \<in> set ps \<Longrightarrow> p \<noteq> []) \<Longrightarrow> inner_empty ps = []"
  by (auto simp: inner_empty_def filter_empty_conv)

lemma those_hex_strs:
  "(\<And>h. h \<in> set hs \<Longrightarrow> h < 65536) \<Longrightarrow> those (map parse_hextet (map hex_str hs)) = Some hs"
  by (rule those_map_Some) (simp add: parse_hextet_hex_str)

lemma v6_parts_plain:
  assumes "length hs = 8" "\<And>h. h \<in> set hs \<Longrightarrow> h < 65536"
  shows "v6_parts (map hex_str hs) = Some (hextets_value hs)"
proof -
  have "inner_empty (map hex_str hs) = []" by (rule inner_empty_none) auto
  moreover have "hs \<noteq> []" using assms(1) by auto
  ultimately show ?thesis
    using assms those_hex_strs [of hs] by (simp add: v6_parts_def hd_map last_map)
qed

lemma v6_parts_compressed:
  assumes "length h + length l < 8" and "\<And>x. x \<in> set (h @ l) \<Longrightarrow> x < 65536"
  shows "v6_parts ((if h = [] then [[]] else map hex_str h) @ [] #
      (if l = [] then [[]] else map hex_str l))
    = Some (hextets_value (h @ replicate (8 - (length h + length l)) 0 @ l))"
proof -
  let ?xs = "if h = [] then [[]] else map hex_str h"
  let ?ys = "if l = [] then [[]] else map hex_str l"
  let ?ps = "?xs @ [] # ?ys"
  have single: "inner_empty ?ps = [length ?xs]"
  proof (rule inner_empty_single)
    show "p \<noteq> []" if "p \<in> set (tl ?xs)" for p
      using that by (auto simp: map_tl [symmetric] split: if_splits)
    show "p \<noteq> []" if "p \<in> set (butlast ?ys)" for p
      using that by (auto simp: map_butlast [symmetric] split: if_splits)
  qed auto
  have hd: "hd ?ps = [] \<longleftrightarrow> h = []" by (simp add: hd_map)
  have last: "last ?ps = [] \<longleftrightarrow> l = []" by (simp add: last_map)
  have hi: "(if hd ?ps = [] then [] else take (length ?xs) ?ps) = map hex_str h"
    unfolding hd by simp
  have lo: "(if last ?ps = [] then [] else drop (Suc (length ?xs)) ?ps) = map hex_str l"
    unfolding last by simp
  have th: "those (map parse_hextet (map hex_str h)) = Some h"
    and tl: "those (map parse_hextet (map hex_str l)) = Some l"
    using assms(2) by (auto simp del: map_map intro!: those_hex_strs)
  have ok: "\<not> ((hd ?ps = [] \<and> length ?xs \<noteq> 1) \<or> (last ?ps = [] \<and> length ?xs \<noteq> length ?ps - 2)
      \<or> 8 \<le> length (map hex_str h) + length (map hex_str l))"
    unfolding hd last using assms(1) by auto
  show ?thesis
    unfolding v6_parts_def single list.case Let_def hi lo
    using ok th tl by (simp del: map_map)
qed

lemma v6_int_join:
  assumes "3 \<le> length ps" "length ps \<le> 9"
    and "\<And>p. p \<in> set ps \<Longrightarrow> CHR '':'' \<notin> set p \<and> CHR ''.'' \<notin> set p"
  shows "v6_int (join '':'' ps) = v6_parts ps"
proof -
  have ne: "ps \<noteq> []" using assms(1) by auto
  then have "split_on (CHR '':'') (join '':'' ps) = ps"
    using assms(3) by (intro split_on_join) auto
  moreover have "CHR ''.'' \<notin> set (last ps)" using assms(3) ne by simp
  ultimately show ?thesis using assms by (simp add: v6_int_def v6_suffix_def)
qed

lemma v6_int_compress:
  assumes len: "length hs = 8" and b: "\<And>h. h \<in> set hs \<Longrightarrow> h < 65536"
  shows "v6_int (join '':'' (compress hs)) = Some (hextets_value hs)"
proof -
  obtain bs bl where z: "zero_run 0 hs (0, 0, 0, 0) = (bs, bl)" by fastforce
  then have run: "run_ok hs bs bl" by (rule zero_run_zeros)
  show ?thesis
  proof (cases "bl \<le> 1")
    case True
    with z have "compress hs = map hex_str hs" by (simp add: compress_def)
    moreover have "v6_int (join '':'' (map hex_str hs)) = v6_parts (map hex_str hs)"
      using len by (intro v6_int_join) (auto simp: hex_str_no_sep)
    ultimately show ?thesis using v6_parts_plain [OF len b] by simp
  next
    case False
    define h where "h = take bs hs"
    define l where "l = drop (bs + bl) hs"
    have split: "hs = h @ replicate bl 0 @ l"
      unfolding h_def l_def by (rule run_ok_split [OF run])
    have le: "bs + bl \<le> 8" using run len by (simp add: run_ok_def)
    then have lens: "length h = bs" "length l = 8 - (bs + bl)" by (simp_all add: h_def l_def len)
    have hE: "h = [] \<longleftrightarrow> bs = 0" and lE: "l = [] \<longleftrightarrow> bs + bl = 8"
      using le lens len by (auto simp: h_def l_def)
    let ?ps = "(if h = [] then [[]] else map hex_str h) @ [] # (if l = [] then [[]] else map hex_str l)"
    have c: "compress hs = ?ps"
      using z False hE lE by (auto simp: compress_def len h_def l_def take_map drop_map)
    have "\<And>x. x \<in> set (h @ l) \<Longrightarrow> x < 65536" using b split by (metis UnCI set_append UnE)
    then have "v6_parts ?ps = Some (hextets_value (h @ replicate (8 - (length h + length l)) 0 @ l))"
      using False le lens by (intro v6_parts_compressed) auto
    moreover have "8 - (length h + length l) = bl" using le lens by simp
    ultimately have "v6_parts ?ps = Some (hextets_value hs)" using split by simp
    moreover have "v6_int (join '':'' ?ps) = v6_parts ?ps"
    proof (rule v6_int_join)
      show "3 \<le> length ?ps" "length ?ps \<le> 9"
        using lens le False by (cases h; cases l; simp)+
    qed (auto simp: hex_str_no_sep split: if_splits)
    ultimately show ?thesis by (simp add: c)
  qed
qed

lemma replicate_numeral_5: "replicate 5 x = [x, x, x, x, x]"
  by (simp add: numeral_eq_Suc)

lemma hex_str_ffff: "hex_str 65535 = ''ffff''"
  by (simp add: hex_str.simps digit_char_def char_of_eq_iff)

lemma low_hextets: "(m::nat) < 4294967296 \<Longrightarrow> (m div 65536 mod 65536) * 65536 + m mod 65536 = m"
  using div_mult_mod_eq [of m 65536] div_less_iff_less_mult [of 65536 m 65536] by simp

lemma v6_parts_mapped:
  assumes "a < 65536" "b < 65536"
  shows "v6_parts ([[]] @ [] # map hex_str [65535, a, b]) = Some (65535 * 4294967296 + (a * 65536 + b))"
proof -
  have "\<And>x. x \<in> set ([] @ [65535, a, b]) \<Longrightarrow> x < 65536" using assms by auto
  then have "v6_parts ([[]] @ [] # map hex_str [65535, a, b])
    = Some (hextets_value ([] @ replicate (8 - (0 + 3)) 0 @ [65535, a, b]))"
    using v6_parts_compressed [of "[]" "[65535, a, b]"] by (simp add: numeral_3_eq_3)
  also have "replicate (8 - (0 + 3)) 0 = [0, 0, 0, 0, 0 :: nat]"
    by (simp add: replicate_numeral_5)
  finally show ?thesis by (simp add: hextets_value_def)
qed

lemma v6_int_mapped:
  assumes "m < 4294967296"
  shows "v6_int (''::ffff:'' @ v4_str m) = Some (65535 * 4294967296 + m)"
proof -
  let ?ps = "[[], [], ''ffff'', v4_str m]"
  have "''::ffff:'' @ v4_str m = join '':'' ?ps" by simp
  moreover have "split_on (CHR '':'') (join '':'' ?ps) = ?ps"
    by (rule split_on_join) (auto simp: v4_str_chars)
  ultimately have sp: "split_on (CHR '':'') (''::ffff:'' @ v4_str m) = ?ps" by simp
  have dot: "CHR ''.'' \<in> set (v4_str m)" by (simp add: v4_str_def)
  have v4: "v4_int (v4_str m) = Some m" using assms by (intro v4_int_str) simp
  have suf: "v6_suffix ?ps = Some ([[]] @ [] # map hex_str [65535, m div 65536 mod 65536, m mod 65536])"
    using dot v4 by (simp add: v6_suffix_def hex_str_ffff)
  have "v6_parts ([[]] @ [] # map hex_str [65535, m div 65536 mod 65536, m mod 65536])
    = Some (65535 * 4294967296 + (m div 65536 mod 65536 * 65536 + m mod 65536))"
    by (rule v6_parts_mapped) simp_all
  also have "m div 65536 mod 65536 * 65536 + m mod 65536 = m" by (rule low_hextets [OF assms])
  finally show ?thesis using sp suf by (simp add: v6_int_def)
qed

lemma v6_int_str: assumes "n < 2 ^ 128" shows "v6_int (v6_str n) = Some n"
proof (cases "n div 4294967296 = 65535")
  case True
  then have "v6_str n = ''::ffff:'' @ v4_str (n mod 4294967296)" by (simp add: v6_str_def)
  then have "v6_int (v6_str n) = Some (65535 * 4294967296 + n mod 4294967296)"
    using v6_int_mapped [of "n mod 4294967296"] by simp
  also have "65535 * 4294967296 + n mod 4294967296 = n"
    using True div_mult_mod_eq [of n 4294967296] by simp
  finally show ?thesis .
next
  case False
  then show ?thesis
    using v6_int_compress [of "hextets n"] hextets_bound hextets_value_hextets [OF assms]
    by (simp add: v6_str_def)
qed


section \<open>Addresses and networks as text\<close>

lemma v4_int_colon: assumes "CHR '':'' \<in> set s" shows "v4_int s = None"
proof (rule ccontr)
  assume "v4_int s \<noteq> None"
  then obtain ys where ys: "map parse_octet (split_on (CHR ''.'') s) = map Some ys"
    by (auto simp: v4_int_def Let_def those_Some_iff split: if_splits)
  have "list_all is_digit p" if "p \<in> set (split_on (CHR ''.'') s)" for p
  proof -
    from that have "parse_octet p \<in> set (map Some ys)" by (metis ys image_eqI set_map)
    then show ?thesis by (auto simp: parse_octet_def split: if_splits)
  qed
  then have parts: "CHR '':'' \<notin> set p" if "p \<in> set (split_on (CHR ''.'') s)" for p
    using that digit_not_sep by (fastforce simp: list_all_iff)
  have "set (join ''.'' ps) \<subseteq> insert (CHR ''.'') (\<Union>p \<in> set ps. set p)" for ps
    by (induction "''.''" ps rule: join.induct) auto
  with parts have "CHR '':'' \<notin> set (join ''.'' (split_on (CHR ''.'') s))" by fastforce
  with assms show False by (simp add: join_split_on)
qed

lemma v6_int_colon: "v6_int s = Some n \<Longrightarrow> CHR '':'' \<in> set s"
  by (rule ccontr) (simp add: v6_int_def split_on_no_sep)

lemma set_join: "set (join sep ps) \<subseteq> set sep \<union> (\<Union>p \<in> set ps. set p)"
  by (induction sep ps rule: join.induct) auto

lemma compress_parts: "p \<in> set (compress hs) \<Longrightarrow> p = [] \<or> (\<exists>h. p = hex_str h)"
  by (auto simp: compress_def Let_def split: if_splits prod.splits dest!: in_set_takeD in_set_dropD)

lemma v6_str_chars: "CHR ''%'' \<notin> set (v6_str n)" "CHR ''/'' \<notin> set (v6_str n)"
proof -
  have "c \<notin> set (join '':'' (compress (hextets n)))" if c: "c = CHR ''%'' \<or> c = CHR ''/''" for c
  proof
    assume "c \<in> set (join '':'' (compress (hextets n)))"
    then obtain p where "p \<in> set (compress (hextets n))" "c \<in> set p"
      using c set_join [of "'':''" "compress (hextets n)"] by auto
    then show False using c compress_parts [of p "hextets n"] by (auto simp: hex_str_no_sep)
  qed
  then show "CHR ''%'' \<notin> set (v6_str n)" "CHR ''/'' \<notin> set (v6_str n)"
    by (simp_all add: v6_str_def v4_str_chars)
qed

lemma ip_str_no_slash: "wf_ip a \<Longrightarrow> CHR ''/'' \<notin> set (ip_str a)"
  by (cases a rule: ip_str.cases) (auto simp: v4_str_chars v6_str_chars)

lemma v6_str_colon: "n < 2 ^ 128 \<Longrightarrow> CHR '':'' \<in> set (v6_str n)"
  by (rule v6_int_colon) (rule v6_int_str)

lemma ip_str_v6_not_v4: "wf_ip (IPv6 n z) \<Longrightarrow> ipv4_address (ip_str (IPv6 n z)) = None"
  by (cases z) (auto simp: ipv4_address_def v4_int_colon v6_str_colon)

lemma ipv6_address_str: assumes "wf_ip (IPv6 n z)" shows "ipv6_address (ip_str (IPv6 n z)) = Some (IPv6 n z)"
proof (cases z)
  case None
  with assms show ?thesis
    by (simp add: ipv6_address_def v6_str_chars split_scope_def split_on_no_sep v6_int_str)
next
  case (Some w)
  with assms show ?thesis
    by (simp add: ipv6_address_def v6_str_chars split_scope_def split_on_append_sep
        split_on_no_sep v6_int_str)
qed

lemma ip_address_str: "wf_ip a \<Longrightarrow> ip_address (ip_str a) = Some a"
proof (cases a)
  case (IPv4 n)
  assume "wf_ip a"
  with IPv4 show ?thesis by (simp add: ip_address_def ipv4_address_def v4_int_str v4_str_chars)
next
  case (IPv6 n z)
  assume "wf_ip a"
  with IPv6 show ?thesis
    using ip_str_v6_not_v4 [of n z] ipv6_address_str [of n z] by (simp add: ip_address_def)
qed

lemma split_scope_wf:
  "split_scope s = Some (a, z) \<Longrightarrow> CHR ''/'' \<notin> set s \<Longrightarrow> n < 2 ^ 128 \<Longrightarrow> wf_ip (IPv6 n z)"
proof -
  assume s: "split_scope s = Some (a, z)" "CHR ''/'' \<notin> set s" "n < 2 ^ 128"
  show ?thesis
  proof (cases z)
    case (Some w)
    with s have "split_on (CHR ''%'') s = [a, w]" "w \<noteq> []"
      by (auto simp: split_scope_def split: list.splits if_splits)
    moreover from this have "w \<in> set (split_on (CHR ''%'') s)" by simp
    ultimately show ?thesis
      using s Some split_on_parts set_split_on by (fastforce simp del: split_on.simps)
  qed (use s in simp)
qed

lemma ipv6_address_wf: "ipv6_address s = Some a \<Longrightarrow> wf_ip a \<and> ip_version a = 6"
  by (auto simp: ipv6_address_def intro: split_scope_wf dest: v6_int_bound
      split: if_splits option.splits)

lemma ipv4_address_wf: "ipv4_address s = Some a \<Longrightarrow> wf_ip a \<and> ip_version a = 4"
  by (auto simp: ipv4_address_def dest!: v4_int_bound split: if_splits)

lemma ip_address_wf: "ip_address s = Some a \<Longrightarrow> wf_ip a"
  by (auto simp: ip_address_def dest: ipv4_address_wf ipv6_address_wf split: option.splits)

interpretation addr: text_codec ip_address ip_str wf_ip
  by unfold_locales (auto simp: ip_address_str ip_address_wf)

lemma mask_ip_idem [simp]: "mask_ip b p (mask_ip b p n) = mask_ip b p n"
  by (simp add: mask_ip_def)

lemma mask_ip_le: "mask_ip b p n \<le> n"
  by (simp add: mask_ip_def)

lemma mask_ip_full [simp]: "mask_ip b b n = n"
  by (simp add: mask_ip_def)

lemma mask_addr_wf:
  "wf_ip a \<Longrightarrow> p \<le> ip_bits a \<Longrightarrow> wf_net (mask_addr p a, p)"
proof (cases a rule: ip_str.cases)
  case (1 n)
  assume "wf_ip a" "p \<le> ip_bits a"
  with 1 show ?thesis using le_less_trans [OF mask_ip_le] by (simp add: wf_net_def)
next
  case (2 n)
  assume "wf_ip a" "p \<le> ip_bits a"
  with 2 show ?thesis using le_less_trans [OF mask_ip_le] by (simp add: wf_net_def)
next
  case (3 n z)
  assume "wf_ip a" "p \<le> ip_bits a"
  with 3 show ?thesis using le_less_trans [OF mask_ip_le] by (simp add: wf_net_def)
qed

lemma mask_addr_fixed: "wf_net (a, p) \<Longrightarrow> mask_addr p a = a"
  by (cases a) (simp_all add: wf_net_def)

lemma prefix_string_le: "prefix_string m s = Some p \<Longrightarrow> p \<le> m"
  by (auto simp: prefix_string_def split: if_splits)

lemma prefix_string_nat_str: "p \<le> m \<Longrightarrow> prefix_string m (nat_str p) = Some p"
  by (simp add: prefix_string_def nat_str_digits)

lemma prefix_of_mask_le: "prefix_of_mask n = Some p \<Longrightarrow> p \<le> 32"
  by (auto simp: prefix_of_mask_def find_Some_iff nth_append rev_nth)

lemma v4_netmask_le: "v4_netmask s = Some p \<Longrightarrow> p \<le> 32"
  by (auto simp: v4_netmask_def dest: prefix_string_le prefix_of_mask_le split: option.splits)

lemma ip_bits_version: "ip_version a = 4 \<Longrightarrow> ip_bits a = 32" "ip_version a = 6 \<Longrightarrow> ip_bits a = 128"
  by (cases a; simp)+

lemma wf_net_full: "wf_ip a \<Longrightarrow> wf_net (a, ip_bits a)"
  by (simp add: wf_net_def)

lemma ipv4_network_wf: "ipv4_network s = Some n \<Longrightarrow> wf_net n"
  using wf_net_full mask_addr_wf ipv4_address_wf ip_bits_version(1) v4_netmask_le
  by (fastforce simp: ipv4_network_def split: list.splits option.splits)

lemma ipv6_network_wf: "ipv6_network s = Some n \<Longrightarrow> wf_net n"
  using wf_net_full mask_addr_wf ipv6_address_wf ip_bits_version(2) prefix_string_le
  by (fastforce simp: ipv6_network_def split: list.splits option.splits)

lemma split_net_str:
  "wf_ip (fst n) \<Longrightarrow> split_on (CHR ''/'') (net_str n) = [ip_str (fst n), nat_str (snd n)]"
  by (simp add: net_str_def split_on_append_sep ip_str_no_slash split_on_no_sep nat_str_no_sep)

lemma ip_network_str: assumes "wf_net n" shows "ip_network (net_str n) = Some n"
proof -
  obtain a p where n: "n = (a, p)" by fastforce
  have wf: "wf_ip a" "p \<le> ip_bits a" "mask_addr p a = a"
    using assms n by (auto simp: wf_net_def mask_addr_fixed)
  have sp: "split_on (CHR ''/'') (net_str n) = [ip_str a, nat_str p]"
    using split_net_str [of n] wf n by simp
  show ?thesis
  proof (cases a)
    case (IPv4 m)
    with wf have "ipv4_address (ip_str a) = Some a"
      by (simp add: ipv4_address_def v4_int_str v4_str_chars)
    moreover have "v4_netmask (nat_str p) = Some p"
      using wf IPv4 by (simp add: v4_netmask_def prefix_string_nat_str)
    ultimately have "ipv4_network (net_str n) = Some n"
      using sp wf n by (simp add: ipv4_network_def)
    then show ?thesis by (simp add: ip_network_def)
  next
    case (IPv6 m z)
    with wf have "ipv4_address (ip_str a) = None" "ipv6_address (ip_str a) = Some a"
      using ip_str_v6_not_v4 [of m z] ipv6_address_str [of m z] by simp_all
    moreover have "prefix_string 128 (nat_str p) = Some p"
      using wf IPv6 by (simp add: prefix_string_nat_str)
    ultimately show ?thesis
      using sp wf n by (simp add: ipv4_network_def ipv6_network_def ip_network_def)
  qed
qed

lemma ip_network_wf: "ip_network s = Some n \<Longrightarrow> wf_net n"
  by (auto simp: ip_network_def dest: ipv4_network_wf ipv6_network_wf split: option.splits)

interpretation net: text_codec ip_network net_str wf_net
  by unfold_locales (auto simp: ip_network_str ip_network_wf)

text \<open>Membership is agreement on the prefix bits.\<close>

lemma ip_in_net_iff:
  assumes "wf_net n"
  shows "ip_in_net a n \<longleftrightarrow> ip_version a = ip_version (fst n)
    \<and> ip_int a div 2 ^ (ip_bits a - snd n) = ip_int (fst n) div 2 ^ (ip_bits a - snd n)"
proof (cases "ip_version a = ip_version (fst n)")
  case True
  then have bits: "ip_bits (fst n) = ip_bits a" by (cases a; cases "fst n") simp_all
  let ?k = "2 ^ (ip_bits a - snd n) :: nat"
  have net: "ip_int (fst n) div ?k * ?k = ip_int (fst n)"
    using assms bits by (simp add: wf_net_def mask_ip_def)
  have "ip_in_net a n \<longleftrightarrow> ip_int a div ?k * ?k = ip_int (fst n) div ?k * ?k"
    using True net by (simp add: ip_in_net_def mask_ip_def)
  also have "\<dots> \<longleftrightarrow> ip_int a div ?k = ip_int (fst n) div ?k" by simp
  finally show ?thesis using True by simp
qed (simp add: ip_in_net_def)

end
