(* ===== verification/Network_Rules.thy ===== *)
theory Network_Rules
  imports Py_Runtime Ip_Address
begin

text \<open>
  \<open>greyward_security_context/network_rules.py\<close>: the canonical form of a network rule
  (\<open>normalize\<close>), its life cycle, matching against a connection, and migration of a stored
  policy. Rules and policies are the dictionaries the code works on.
\<close>

section \<open>Field validation\<close>

definition MAX_RULES :: nat where "MAX_RULES = 1024"

definition MAX_BYTES :: nat where "MAX_BYTES = 1024 * 1024"

definition RULES_SCHEMA :: string where "RULES_SCHEMA = ''greyward.network.rules/v2''"

definition text_field :: "val \<Rightarrow> nat \<Rightarrow> string py" where
  "text_field v maximum = (case v of
       VStr s \<Rightarrow> if maximum < length s \<or> list_ex (\<lambda>c. \<not> printable c) s
         then Inl (PolicyError ''Text contains unsupported characters or exceeds its limit.'')
         else Inr (py_strip s)
     | _ \<Rightarrow> Inl (PolicyError ''Text contains unsupported characters or exceeds its limit.''))"

definition rule_digest :: "env \<Rightarrow> val \<Rightarrow> string" where
  "rule_digest e r = ''greyward-'' @ take 20 (env_sha256 e (json_dumps e '', '' '': '' r))"

definition rule_id :: "env \<Rightarrow> dict \<Rightarrow> val" where
  "rule_id e r = py_or (dget r ''id'') (VStr (rule_digest e (VDict r)))"

text \<open>The fast path of the IDNA codec for ASCII names; other names go to \<open>env_idna\<close>.\<close>

definition idna_encode :: "env \<Rightarrow> string \<Rightarrow> string option" where
  "idna_encode e s = (if s = [] then Some []
     else if list_all is_ascii s
     then (let labels = split_on (CHR ''.'') s in
       if list_all (\<lambda>l. 0 < length l \<and> length l < 64) (butlast labels) \<and> length (last labels) < 64
       then Some s else None)
     else env_idna e s)"

definition is_alnum_lower :: "char \<Rightarrow> bool" where
  "is_alnum_lower c \<longleftrightarrow> is_lower_az c \<or> is_digit c"

text \<open>The pattern \<^verbatim>\<open>[a-z0-9](?:[a-z0-9-]{0,61}[a-z0-9])?\<close>.\<close>

definition is_label :: "string \<Rightarrow> bool" where
  "is_label p \<longleftrightarrow> p \<noteq> [] \<and> length p \<le> 63 \<and> is_alnum_lower (hd p) \<and> is_alnum_lower (last p)
     \<and> list_all (\<lambda>c. is_alnum_lower c \<or> c = CHR ''-'') p"

definition host_name :: "env \<Rightarrow> val \<Rightarrow> string py" where
  "host_name e v = py_bind (text_field v 253) (\<lambda>s.
     case idna_encode e (py_lower (rstrip_with (\<lambda>c. c = CHR ''.'') s)) of
       None \<Rightarrow> Inl (PolicyError ''Invalid hostname.'')
     | Some a \<Rightarrow> if a = [] \<or> \<not> list_all is_label (split_on (CHR ''.'') a)
         then Inl (PolicyError ''Enter a hostname without a URL, wildcard or path.'')
         else Inr a)"

text \<open>
  The parts of one port entry. \<open>str()\<close> of a value that is neither a string, an integer nor a
  pair always leaves a part that is not a number; such an entry has no parts here, and both
  end in the same error.
\<close>

fun port_parts :: "val \<Rightarrow> val list" where
  "port_parts (VList [a, b]) = [a, b]"
| "port_parts (VStr s) = map VStr (split_on (CHR ''-'') s)"
| "port_parts (VInt i) = map VStr (split_on (CHR ''-'') (int_str i))"
| "port_parts v = []"

fun port_num :: "val \<Rightarrow> int option" where
  "port_num (VStr s) = (let t = py_strip s in
     if t \<noteq> [] \<and> length t \<le> 5 \<and> list_all is_digit t then Some (int (parse_base 10 t)) else None)"
| "port_num (VInt i) = (if 0 \<le> i \<and> length (int_str i) \<le> 5 then Some i else None)"
| "port_num v = None"

definition port_range :: "val \<Rightarrow> (int \<times> int) py" where
  "port_range part = (case map port_num (port_parts part) of
       [Some a] \<Rightarrow> Inr (a, a)
     | [Some a, Some b] \<Rightarrow> Inr (a, b)
     | _ \<Rightarrow> Inl (PolicyError ''Ports must be numbers or ranges, such as 443, 8000-8010.''))"

definition port_bounds :: "int \<times> int \<Rightarrow> (int \<times> int) py" where
  "port_bounds r = (if 1 \<le> fst r \<and> fst r \<le> snd r \<and> snd r \<le> 65535 then Inr r
     else Inl (PolicyError ''Ports must be between 1 and 65535, in ascending order.''))"

text \<open>One step of the merge loop; the list of merged ranges is kept in reverse.\<close>

fun merge_step :: "(int \<times> int) list \<Rightarrow> int \<times> int \<Rightarrow> (int \<times> int) list" where
  "merge_step [] r = [r]"
| "merge_step ((a, b) # ms) (s, t) =
     (if s \<le> b + 1 then (a, max t b) # ms else (s, t) # (a, b) # ms)"

definition merge_ranges :: "(int \<times> int) list \<Rightarrow> (int \<times> int) list" where
  "merge_ranges rs = rev (foldl merge_step [] (sort rs))"

definition port_list :: "val \<Rightarrow> val" where
  "port_list v = (case v of
       VStr s \<Rightarrow> VList (map VStr (filter (\<lambda>p. p \<noteq> []) (map py_strip (split_on (CHR '','') s))))
     | _ \<Rightarrow> v)"

definition port_ranges :: "val \<Rightarrow> (int \<times> int) list py" where
  "port_ranges v = (case port_list v of
       VList parts \<Rightarrow>
         if 32 < length parts then Inl (PolicyError ''Use at most 32 ports or ranges.'')
         else py_bind (py_map (\<lambda>p. py_bind (port_range p) port_bounds) parts)
                (\<lambda>rs. Inr (merge_ranges rs))
     | _ \<Rightarrow> Inl (PolicyError ''Use at most 32 ports or ranges.''))"

definition ports_val :: "(int \<times> int) list \<Rightarrow> val" where
  "ports_val rs = VList (map (\<lambda>(a, b). VList [VInt a, VInt b]) rs)"

section \<open>normalize\<close>

definition valid_uid :: "val \<Rightarrow> bool" where
  "valid_uid u \<longleftrightarrow> (case u of VInt i \<Rightarrow> 0 \<le> i \<and> i < 2 ^ 32 - 1 | _ \<Rightarrow> False)"

definition valid_protocols :: "val \<Rightarrow> bool" where
  "valid_protocols v \<longleftrightarrow> (case v of
       VList ps \<Rightarrow> ps \<noteq> [] \<and> list_all (\<lambda>p. str_in p [''tcp'', ''udp'', ''any'']) ps
         \<and> (py_mem (VStr ''any'') ps \<longrightarrow> length ps = 1)
     | _ \<Rightarrow> False)"

text \<open>The pattern \<^verbatim>\<open>greyward-[a-f0-9]{20}\<close>.\<close>

definition valid_rule_id :: "val \<Rightarrow> bool" where
  "valid_rule_id v \<longleftrightarrow> (case v of VStr s \<Rightarrow> take 9 s = ''greyward-'' \<and> length s = 29
       \<and> list_all is_hex_lower (drop 9 s) | _ \<Rightarrow> False)"

text \<open>A value that may stand as a time stamp: a finite, non-negative number.\<close>

definition valid_stamp :: "val \<Rightarrow> bool" where
  "valid_stamp v \<longleftrightarrow> (case v of VInt i \<Rightarrow> 0 \<le> i | VFloat (Fin q) \<Rightarrow> 0 \<le> q | _ \<Rightarrow> False)"

definition sorted_protocols :: "val \<Rightarrow> val" where
  "sorted_protocols v = VList (map VStr (sort (remdups (map as_str (as_list v)))))"

definition rule_boot_id :: "env \<Rightarrow> dict \<Rightarrow> dict \<Rightarrow> val \<Rightarrow> val" where
  "rule_boot_id e v ex lifetime =
     (if lifetime = VStr ''boot'' \<and> \<not> truthy (dget_or v ''renew'' (VBool False))
      then dget_or ex ''boot_id'' (boot_id e)
      else if lifetime = VStr ''boot'' then boot_id e else VNone)"

definition rule_expiry :: "dict \<Rightarrow> dict \<Rightarrow> val \<Rightarrow> val \<Rightarrow> val py" where
  "rule_expiry v ex lifetime now =
     (if str_in lifetime [''15m'', ''1h'']
      then if py_eq (dget ex ''lifetime'') lifetime \<and> \<not> truthy (dget_or v ''renew'' (VBool False))
           then Inr (dget ex ''expires_at'')
           else py_add_int now (if lifetime = VStr ''15m'' then 900 else 3600)
      else Inr VNone)"

text \<open>
  The fields every rule has. \<open>v\<close> is the submitted rule, \<open>ex\<close> the rule it replaces (empty when
  there is none), \<open>now\<close> the time of the edit.
\<close>

definition normalize_common :: "env \<Rightarrow> dict \<Rightarrow> dict \<Rightarrow> val \<Rightarrow> dict py" where
  "normalize_common e v ex now =
    (let provider = dget_or v ''provider'' (VStr ''application'');
         action = dget_or v ''action'' (VStr ''deny'');
         family = dget_or v ''family'' (VStr ''any'');
         protocols = dget_or v ''protocols'' (VList [VStr ''tcp'', VStr ''udp'']);
         lifetime = dget_or v ''lifetime'' (VStr ''permanent'');
         enabled = dget_or v ''enabled'' (VBool True);
         identifier = py_or (py_or (dget ex ''id'') (dget v ''id''))
                        (VStr (''greyward-'' @ env_uuid e)) in
     if \<not> str_in provider [''application'', ''incoming'']
     then Inl (PolicyError ''Unknown rule provider.'')
     else if \<not> str_in action [''allow'', ''deny''] then Inl (PolicyError ''Choose Allow or Block.'')
     else if \<not> str_in family [''any'', ''ipv4'', ''ipv6'']
     then Inl (PolicyError ''Unsupported address family.'')
     else if \<not> valid_protocols protocols then Inl (PolicyError ''Choose TCP, UDP or both.'')
     else if \<not> str_in lifetime [''permanent'', ''boot'', ''15m'', ''1h'']
     then Inl (PolicyError ''Unsupported rule lifetime.'')
     else if lifetime = VStr ''boot'' \<and> \<not> truthy (boot_id e) \<and> \<not> truthy (dget ex ''boot_id'')
     then Inl (PolicyError ''The boot identity is unavailable.'')
     else if \<not> is_bool enabled then Inl (PolicyError ''Enabled must be boolean.'')
     else if \<not> valid_rule_id identifier then Inl (PolicyError ''Invalid rule identifier.'')
     else py_bind (text_field (py_or (dget v ''name'') (VStr ''Network rule'')) 160) (\<lambda>name.
          py_bind (text_field (dget_or v ''description'' (VStr [])) 500) (\<lambda>description.
          py_bind (port_ranges (dget_or v ''ports'' (VList []))) (\<lambda>ports.
          py_bind (rule_expiry v ex lifetime now) (\<lambda>expires.
          let created = dget_or ex ''created_at'' now in
          if \<not> valid_stamp created \<or> \<not> valid_stamp now
             \<or> (\<not> valid_stamp expires \<and> \<not> (expires = VNone \<and> \<not> str_in lifetime [''15m'', ''1h'']))
          then Inl (PolicyError ''Invalid rule timestamp.'')
          else Inr [(''id'', identifier), (''provider'', provider), (''name'', VStr name),
            (''description'', VStr description), (''action'', action), (''enabled'', enabled),
            (''family'', family), (''protocols'', sorted_protocols protocols),
            (''ports'', ports_val ports), (''lifetime'', lifetime), (''created_at'', created),
            (''updated_at'', now), (''expires_at'', expires),
            (''boot_id'', rule_boot_id e v ex lifetime)])))))"

text \<open>
  One destination. Errors raised by the address functions, \<open>PolicyError\<close> included, surface as
  \<open>Invalid destination address\<close>.
\<close>

definition destination_address :: "env \<Rightarrow> val \<Rightarrow> string \<Rightarrow> string py" where
  "destination_address e kind address =
     py_catch
       (if str_in kind [''host'', ''domain''] then host_name e (VStr address)
        else if kind = VStr ''ip''
        then (case ip_address address of Some a \<Rightarrow> Inr (ip_str a) | None \<Rightarrow> Inl (ValueError ''address''))
        else if kind = VStr ''network''
        then (case ip_network address of Some n \<Rightarrow> Inr (net_str n) | None \<Rightarrow> Inl (ValueError ''network''))
        else Inl (PolicyError ''Unsupported destination type.''))
       is_value_or_type_error (\<lambda>_. Inl (PolicyError ''Invalid destination address.''))"

definition add_destination :: "env \<Rightarrow> val list \<Rightarrow> val \<Rightarrow> val list py" where
  "add_destination e ds destination = (case destination of
       VDict d \<Rightarrow>
         py_bind (text_field (dget d ''value'') 253) (\<lambda>address.
         py_bind (destination_address e (dget d ''kind'') address) (\<lambda>a.
         let item = VDict [(''kind'', dget d ''kind''), (''value'', VStr a)] in
         Inr (if py_mem item ds then ds else ds @ [item])))
     | _ \<Rightarrow> Inl (PolicyError ''Invalid destination.''))"

definition dns_exception_ok :: "val \<Rightarrow> string \<Rightarrow> (int \<times> int) list \<Rightarrow> bool" where
  "dns_exception_ok action path ports \<longleftrightarrow> action = VStr ''allow'' \<and> path \<noteq> ''*'' \<and> ports \<noteq> []
     \<and> list_all (\<lambda>(a, b). a = b \<and> (a = 53 \<or> a = 853)) ports"

fun range_of_val :: "val \<Rightarrow> int \<times> int" where
  "range_of_val (VList [VInt a, VInt b]) = (a, b)"
| "range_of_val v = (0, 0)"

definition ranges_of_val :: "val \<Rightarrow> (int \<times> int) list" where
  "ranges_of_val v = map range_of_val (as_list v)"

definition path_ok :: "string \<Rightarrow> bool \<Rightarrow> bool" where
  "path_ok path all \<longleftrightarrow> (startswith path ''/'' \<or> (path = ''*'' \<and> all))
     \<and> ''..'' \<notin> set (split_on (CHR ''/'') path) \<and> \<not> startswith path ''/app/''"

definition normalize_application :: "env \<Rightarrow> dict \<Rightarrow> val \<Rightarrow> dict \<Rightarrow> dict py" where
  "normalize_application e v actor result =
     py_bind (text_field (dget_or v ''path'' (VStr [])) 4096) (\<lambda>path.
     if \<not> path_ok path (dget v ''all_applications'' = VBool True)
     then Inl (PolicyError ''Use a host executable path; ambiguous Flatpak sandbox paths are unsupported.'')
     else let scope = dget_or v ''scope'' (VStr ''user'') in
     if \<not> str_in scope [''user'', ''system''] then Inl (PolicyError ''Unsupported user scope.'')
     else py_bind (if truthy (dget v ''required_host'')
                   then py_bind (host_name e (dget v ''required_host'')) (\<lambda>h. Inr [(''required_host'', VStr h)])
                   else Inr []) (\<lambda>required.
     case dget_or v ''destinations'' (VList []) of
       VList dests \<Rightarrow>
         if 32 < length dests then Inl (PolicyError ''Use at most 32 destinations.'')
         else py_bind (py_fold (add_destination e) [] dests) (\<lambda>ds.
           if truthy (dget v ''dns_exception'')
              \<and> \<not> dns_exception_ok (dget result ''action'') path (ranges_of_val (dget result ''ports''))
           then Inl (PolicyError ''A DNS exception requires a specific executable and exact DNS ports.'')
           else Inr (result @ [(''path'', VStr path),
             (''uid'', if scope = VStr ''system'' then VNone else actor), (''scope'', scope),
             (''destinations'', VList ds)]
             @ (if path = ''*'' then [(''all_applications'', VBool True)] else []) @ required
             @ (if truthy (dget v ''dns_exception'') then [(''dns_exception'', VBool True)] else [])))
     | _ \<Rightarrow> Inl (PolicyError ''Use at most 32 destinations.'')))"

text \<open>The pattern \<^verbatim>\<open>[a-zA-Z0-9_-]+\<close>.\<close>

definition is_zone_name :: "string \<Rightarrow> bool" where
  "is_zone_name s \<longleftrightarrow> s \<noteq> [] \<and> list_all (\<lambda>c. is_alnum_lower c \<or> is_upper_az c
     \<or> c = CHR ''_'' \<or> c = CHR ''-'') s"

definition version_name :: "ipaddr \<Rightarrow> string" where
  "version_name a = (if ip_version a = 4 then ''ipv4'' else ''ipv6'')"

text \<open>The source of an incoming rule: its canonical network and the address family it forces.\<close>

definition incoming_source :: "string \<Rightarrow> val \<Rightarrow> (string \<times> val) py" where
  "incoming_source source family =
     (if source = [] then Inr ([], family)
      else case ip_network source of
        None \<Rightarrow> Inl (PolicyError ''Invalid source address or subnet.'')
      | Some n \<Rightarrow>
          (let sf = VStr (version_name (fst n)) in
           if family \<noteq> VStr ''any'' \<and> family \<noteq> sf
           then Inl (PolicyError ''The source and address family disagree.'')
           else Inr (net_str n, sf)))"

definition normalize_incoming :: "dict \<Rightarrow> dict \<Rightarrow> dict py" where
  "normalize_incoming v result =
    (if py_mem (VStr ''any'') (as_list (dget result ''protocols''))
     then Inl (PolicyError ''Incoming custom ports require TCP or UDP.'')
     else py_bind (text_field (dget_or v ''zone'' (VStr [])) 80) (\<lambda>zone.
     py_bind (text_field (dget_or v ''service'' (VStr [])) 80) (\<lambda>service.
     if \<not> is_zone_name zone then Inl (PolicyError ''Choose an installed firewall zone.'')
     else if service \<noteq> [] \<and> \<not> is_zone_name service
     then Inl (PolicyError ''Choose an installed firewall service.'')
     else if (service \<noteq> []) = truthy (dget result ''ports'')
     then Inl (PolicyError ''Choose either a service or custom ports.'')
     else if service \<noteq> [] \<and> dget result ''protocols'' \<noteq> VList [VStr ''tcp'', VStr ''udp'']
     then Inl (PolicyError ''Installed services use their own protocols; select custom ports to restrict TCP or UDP.'')
     else py_bind (text_field (dget_or v ''source'' (VStr [])) 80) (\<lambda>source.
     py_bind (incoming_source source (dget result ''family'')) (\<lambda>sf.
     Inr (dput result ''family'' (snd sf) @ [(''zone'', VStr zone), (''service'', VStr service),
       (''source'', VStr (fst sf)), (''scope'', VStr ''system'')]))))))"

text \<open>
  \<open>normalize(value, actor_uid, existing=ex, current_time=ct)\<close>; \<open>ct = VNone\<close> is the default,
  the current time.
\<close>

definition normalize :: "env \<Rightarrow> val \<Rightarrow> val \<Rightarrow> dict \<Rightarrow> val \<Rightarrow> dict py" where
  "normalize e value actor ex ct = (case value of
       VDict v \<Rightarrow>
         if \<not> valid_uid actor then Inl (PolicyError ''Invalid user identity.'')
         else py_bind (normalize_common e v ex (if ct = VNone then env_now e else ct)) (\<lambda>result.
           if dget result ''provider'' = VStr ''application''
           then normalize_application e v actor result
           else normalize_incoming v result)
     | _ \<Rightarrow> Inl (PolicyError ''A structured rule is required.''))"

section \<open>lifecycle and matches\<close>

definition lifecycle :: "env \<Rightarrow> dict \<Rightarrow> string py" where
  "lifecycle e r =
    (if \<not> truthy (dget_or r ''enabled'' (VBool True)) then Inr ''DISABLED''
     else if truthy (dget r ''review_required'') then Inr ''REVIEW_REQUIRED''
     else py_bind (if dget r ''expires_at'' = VNone then Inr False
                   else py_ge (env_now e) (dget r ''expires_at'')) (\<lambda>expired.
       if expired then Inr ''EXPIRED''
       else if dget r ''lifetime'' = VStr ''boot'' \<and> \<not> py_eq (dget r ''boot_id'') (boot_id e)
       then Inr ''EXPIRED''
       else Inr ''SAVED''))"

record connection =
  c_process_path :: string
  c_process_id :: int
  c_user_id :: int
  c_protocol :: string
  c_src_ip :: string
  c_src_port :: int
  c_dst_ip :: string
  c_dst_host :: string
  c_dst_port :: int

text \<open>One \<open>a, b\<close> entry of the port list against a port number.\<close>

fun port_hit :: "int \<Rightarrow> val \<Rightarrow> bool py" where
  "port_hit p (VList [a, b]) = py_bind (py_ge (VInt p) a) (\<lambda>lo.
     if lo then py_ge b (VInt p) else Inr False)"
| "port_hit p (VList xs) = Inl (ValueError ''unpack'')"
| "port_hit p (VStr s) = (if length s = 2 then Inl TypeError else Inl (ValueError ''unpack''))"
| "port_hit p (VDict d) = (if length d = 2 then Inl TypeError else Inl (ValueError ''unpack''))"
| "port_hit p v = Inl TypeError"

fun ip_network_strict :: "val \<Rightarrow> ipnet option" where
  "ip_network_strict (VStr s) = (case ip_network s of None \<Rightarrow> None
     | Some n \<Rightarrow> (case ip_address (hd (split_on (CHR ''/'') s)) of
           Some a \<Rightarrow> if ip_int a = ip_int (fst n) then Some n else None
         | None \<Rightarrow> None))"
| "ip_network_strict v = map_option (\<lambda>a. (a, ip_bits a)) (ip_address_val v)"

definition conn_host :: "connection \<Rightarrow> string" where
  "conn_host c = py_lower (rstrip_with (\<lambda>x. x = CHR ''.'') (c_dst_host c))"

definition conn_protocol :: "connection \<Rightarrow> string" where
  "conn_protocol c = removesuffix (py_lower (c_protocol c)) ''6''"

text \<open>Does one destination of a rule cover the connection?\<close>

definition destination_matches :: "string \<Rightarrow> ipaddr option \<Rightarrow> val \<Rightarrow> bool py" where
  "destination_matches host address destination =
     py_bind (py_index destination ''kind'') (\<lambda>kind.
     py_bind (py_index destination ''value'') (\<lambda>v.
     if kind = VStr ''host'' \<and> v = VStr host then Inr True
     else if kind = VStr ''domain''
     then (case v of VStr s \<Rightarrow> Inr (host = s \<or> endswith host (''.'' @ s)) | _ \<Rightarrow> Inl TypeError)
     else if kind = VStr ''ip''
     then (case address of None \<Rightarrow> Inr False
         | Some a \<Rightarrow> (case ip_address_val v of Some b \<Rightarrow> Inr (a = b)
             | None \<Rightarrow> Inl (ValueError ''address'')))
     else if kind = VStr ''network''
     then (case address of None \<Rightarrow> Inr False
         | Some a \<Rightarrow> (case ip_network_strict v of Some n \<Rightarrow> Inr (ip_in_net a n)
             | None \<Rightarrow> Inl (ValueError ''network'')))
     else Inr False))"

definition family_matches :: "val \<Rightarrow> ipaddr option \<Rightarrow> bool" where
  "family_matches family address \<longleftrightarrow> family = VStr ''any''
     \<or> (case address of None \<Rightarrow> False | Some a \<Rightarrow> family = VStr (version_name a))"

definition matches :: "env \<Rightarrow> dict \<Rightarrow> connection \<Rightarrow> bool py" where
  "matches e r c =
    (if dget r ''provider'' \<noteq> VStr ''application'' then Inr False
     else py_bind (lifecycle e r) (\<lambda>state.
     if state \<noteq> ''SAVED'' then Inr False
     else py_bind (dindex r ''path'') (\<lambda>path.
     if path \<noteq> VStr ''*'' \<and> path \<noteq> VStr (c_process_path c) then Inr False
     else if dget r ''uid'' \<noteq> VNone \<and> \<not> py_eq (dget r ''uid'') (VInt (c_user_id c)) then Inr False
     else py_bind (dindex r ''protocols'') (\<lambda>protocols.
     py_bind (py_in (VStr ''any'') protocols) (\<lambda>any.
     py_bind (if any then Inr True else py_in (VStr (conn_protocol c)) protocols) (\<lambda>proto.
     if \<not> proto then Inr False
     else let address = ip_address (c_dst_ip c) in
     py_bind (dindex r ''family'') (\<lambda>family.
     if \<not> family_matches family address then Inr False
     else py_bind (dindex r ''ports'') (\<lambda>ports.
     py_bind (if truthy ports then py_bind (py_iter ports) (py_any (port_hit (c_dst_port c)))
              else Inr True) (\<lambda>port.
     if \<not> port then Inr False
     else if truthy (dget r ''required_host'') \<and> dget r ''required_host'' \<noteq> VStr (conn_host c)
     then Inr False
     else py_bind (dindex r ''destinations'') (\<lambda>destinations.
     if \<not> truthy destinations then Inr True
     else py_bind (py_iter destinations) (py_any (destination_matches (conn_host c) address))))))))))))"

section \<open>migrate\<close>

definition dns_policy_const :: val where
  "dns_policy_const = VDict [(''enforce'', VBool True), (''ports'', VList [VInt 53, VInt 853])]"

definition policy_defaults :: "dict \<Rightarrow> dict" where
  "policy_defaults p = dsetdefault (dsetdefault (dsetdefault (dsetdefault (dsetdefault p
     ''default_action'' (VStr ''allow'')) ''default_duration'' (VStr ''once''))
     ''interactive_prompts'' (VBool False)) ''dns_policy'' dns_policy_const)
     ''threat_intel'' (VDict [(''enabled'', VBool True), (''provider'', VStr ''feodo-recommended'')])"

definition is_threat_exception :: "dict \<Rightarrow> bool" where
  "is_threat_exception r \<longleftrightarrow> dget r ''tier'' = VStr ''THREAT_EXCEPTION''"

text \<open>The check of a stored threat exception; \<open>int\<close> of the port may raise.\<close>

definition check_threat_exception :: "dict \<Rightarrow> unit py" where
  "check_threat_exception r =
    (if dget r ''action'' \<noteq> VStr ''allow'' then Inl (PolicyError ''Invalid threat exception.'')
     else case dget_or r ''path'' (VStr []) of
       VStr path \<Rightarrow>
         if \<not> startswith path ''/'' then Inl (PolicyError ''Invalid threat exception.'')
         else py_bind (py_int (dget_or r ''port'' (VInt 0))) (\<lambda>port.
           if \<not> (1 \<le> port \<and> port \<le> 65535) then Inl (PolicyError ''Invalid threat exception.'')
           else case ip_address_val (dget r ''ip'') of
             None \<Rightarrow> Inl (ValueError ''address'')
           | Some _ \<Rightarrow> Inr ())
     | _ \<Rightarrow> Inl (OtherError ''AttributeError''))"

text \<open>The identifier of a stored rule, after the check that the rule is canonical.\<close>

definition stored_rule_id :: "env \<Rightarrow> val \<Rightarrow> val py" where
  "stored_rule_id e item = (let r = as_dict item in
     if is_threat_exception r
     then py_bind (check_threat_exception r) (\<lambda>_. Inr (rule_id e r))
     else py_bind (normalize e item (py_or (dget r ''uid'') (VInt 0)) r
                     (dget_or r ''updated_at'' (env_now e))) (\<lambda>n.
       if \<not> py_eq (VDict n) item
       then Inl (PolicyError ''Stored network rule is not canonical.'')
       else dindex r ''id''))"

definition check_identifiers :: "val list \<Rightarrow> unit py" where
  "check_identifiers ids =
    (if list_ex (\<lambda>i. \<not> hashable i) ids then Inl TypeError
     else if \<not> distinct (map canon ids) then Inl (PolicyError ''Duplicate rule identifiers.'')
     else Inr ())"

definition valid_revision :: "val \<Rightarrow> bool" where
  "valid_revision v \<longleftrightarrow> (case v of VInt i \<Rightarrow> 0 \<le> i | _ \<Rightarrow> False)"

definition check_current :: "env \<Rightarrow> dict \<Rightarrow> unit py" where
  "check_current e p =
    (if \<not> valid_revision (dget p ''revision'') then Inl (PolicyError ''Invalid policy revision.'')
     else py_bind (dindex p ''rules'') (\<lambda>rules.
          py_bind (py_map (stored_rule_id e) (as_list rules)) check_identifiers))"

definition legacy_order :: "val \<Rightarrow> bool \<times> bool" where
  "legacy_order item = (let r = as_dict item in
     (dget r ''path'' = VStr ''*'',
      \<not> (truthy (dget r ''host'') \<or> truthy (dget r ''ip'') \<or> truthy (dget r ''port''))))"

definition legacy_destinations :: "dict \<Rightarrow> val list" where
  "legacy_destinations r =
    (let host = (if truthy (dget r ''host'')
                 then [VDict [(''kind'', VStr ''host''), (''value'', dget r ''host'')]] else []);
         ip = (if truthy (dget r ''ip'')
               then [VDict [(''kind'', VStr ''ip''), (''value'', dget r ''ip'')]] else []) in
     if truthy (dget r ''host'') \<and> truthy (dget r ''ip'') then ip else host @ ip)"

definition legacy_value :: "env \<Rightarrow> dict \<Rightarrow> val" where
  "legacy_value e r = VDict [(''id'', rule_id e r), (''path'', dget r ''path''),
     (''name'', py_or (dget r ''name'') (VStr ''Migrated network rule'')),
     (''action'', VStr (if dget r ''action'' = VStr ''allow'' then ''allow'' else ''deny'')),
     (''scope'', VStr ''system''), (''all_applications'', VBool (dget r ''path'' = VStr ''*'')),
     (''protocols'', VList [VStr ''any'']),
     (''dns_exception'', VBool (dget r ''action'' = VStr ''allow''
        \<and> py_mem (dget r ''port'') [VInt 53, VInt 853])),
     (''required_host'', if truthy (dget r ''ip'') then dget r ''host'' else VNone),
     (''ports'', VList (if truthy (dget r ''port'') then [dget r ''port''] else [])),
     (''destinations'', VList (legacy_destinations r))]"

definition migrate_rule :: "env \<Rightarrow> val \<Rightarrow> val py" where
  "migrate_rule e item = (let r = as_dict item in
     if is_threat_exception r then Inr (VDict (dput r ''id'' (rule_id e r)))
     else py_bind (normalize e (legacy_value e r) (VInt 0) [] VNone) (\<lambda>m.
       Inr (VDict (if dget_or r ''duration'' (VStr ''always'') \<noteq> VStr ''always''
         then dput (dput m ''enabled'' (VBool (dget m ''action'' \<noteq> VStr ''allow'')))
                ''description'' (VStr ''Legacy temporary scope: choose a new lifetime before enabling.'')
         else m))))"

definition migrate_legacy :: "env \<Rightarrow> dict \<Rightarrow> dict py" where
  "migrate_legacy e p =
     py_bind (py_map (migrate_rule e) (sort_key legacy_order (as_list (dget p ''rules'')))) (\<lambda>rules.
       Inr (dput (dput (dput p ''schema'' (VStr RULES_SCHEMA)) ''revision'' (VInt 0))
              ''rules'' (VList rules)))"

definition valid_policy_shape :: "val \<Rightarrow> bool" where
  "valid_policy_shape policy \<longleftrightarrow> (case policy of
       VDict p \<Rightarrow> (case dget_or p ''rules'' (VList []) of
           VList rs \<Rightarrow> list_all is_dict rs | _ \<Rightarrow> False)
     | _ \<Rightarrow> False)"

definition migrate :: "env \<Rightarrow> val \<Rightarrow> dict py" where
  "migrate e policy =
    (if \<not> valid_policy_shape policy then Inl (PolicyError ''Invalid network policy.'')
     else let p = policy_defaults (as_dict policy) in
     if \<not> str_in (dget p ''default_action'') [''allow'', ''deny'', ''reject'']
     then Inl (PolicyError ''Invalid default action.'')
     else if \<not> py_eq (dget p ''dns_policy'') dns_policy_const
     then Inl (PolicyError ''Managed DNS policy is invalid.'')
     else py_bind (if dget p ''schema'' = VStr RULES_SCHEMA
                   then py_bind (check_current e p) (\<lambda>_. Inr p)
                   else migrate_legacy e p) (\<lambda>result.
       if MAX_RULES < length (as_list (dget result ''rules''))
       then Inl (PolicyError ''The policy limit is 1,024 rules; no existing rule was removed.'')
       else Inr result))"

end
