(* ===== verification/Network_Rules_Facts.thy ===== *)
theory Network_Rules_Facts
  imports Network_Rules
begin

text \<open>
  Facts about the rule model: the port list is a canonical set of ranges that covers
  exactly the submitted ports, every field of a normalized rule is in its canonical form,
  and matching a normalized rule never raises.
\<close>

section \<open>Port ranges\<close>

definition in_ranges :: "int \<Rightarrow> (int \<times> int) list \<Rightarrow> bool" where
  "in_ranges p rs \<longleftrightarrow> (\<exists>r \<in> set rs. fst r \<le> p \<and> p \<le> snd r)"

definition range_valid :: "int \<times> int \<Rightarrow> bool" where
  "range_valid r \<longleftrightarrow> 1 \<le> fst r \<and> fst r \<le> snd r \<and> snd r \<le> 65535"

definition ranges_canonical :: "(int \<times> int) list \<Rightarrow> bool" where
  "ranges_canonical rs \<longleftrightarrow> list_all range_valid rs \<and> sorted_wrt (\<lambda>r s. snd r + 1 < fst s) rs"

lemma merge_step_cover:
  assumes "acc \<noteq> [] \<longrightarrow> fst (hd acc) \<le> fst r" and "fst r \<le> snd r"
  shows "in_ranges p (merge_step acc r) \<longleftrightarrow> in_ranges p acc \<or> (fst r \<le> p \<and> p \<le> snd r)"
  using assms by (cases "(acc, r)" rule: merge_step.cases) (auto simp: in_ranges_def)

lemma merge_step_hd: "fst (hd (merge_step acc r)) \<le> fst r \<or> acc \<noteq> [] \<and> fst (hd (merge_step acc r)) = fst (hd acc)"
  by (cases "(acc, r)" rule: merge_step.cases) auto

lemma merge_step_canonical:
  assumes "acc \<noteq> [] \<longrightarrow> fst (hd acc) \<le> fst r" and "range_valid r" and "ranges_canonical (rev acc)"
  shows "ranges_canonical (rev (merge_step acc r))"
proof (cases acc)
  case Nil
  with assms show ?thesis by (cases r) (simp add: ranges_canonical_def)
next
  case (Cons x ms)
  obtain a b s t where ab: "x = (a, b)" "r = (s, t)" by fastforce
  have ms: "\<And>m. m \<in> set ms \<Longrightarrow> snd m + 1 < a" and v: "range_valid (a, b)" "range_valid (s, t)"
    and le: "a \<le> s"
    using assms Cons ab by (auto simp: ranges_canonical_def sorted_wrt_append)
  have "\<And>m. m \<in> set ms \<Longrightarrow> snd m + 1 < s" using ms le by fastforce
  with assms ms v le Cons ab show ?thesis
    by (auto simp: ranges_canonical_def sorted_wrt_append range_valid_def max_def)
qed

lemma foldl_merge:
  assumes "sorted rs" "list_all range_valid rs" "ranges_canonical (rev acc)"
    and "\<And>r. acc \<noteq> [] \<Longrightarrow> r \<in> set rs \<Longrightarrow> fst (hd acc) \<le> fst r"
  shows "ranges_canonical (rev (foldl merge_step acc rs))
    \<and> (\<forall>p. in_ranges p (foldl merge_step acc rs) \<longleftrightarrow> in_ranges p acc \<or> in_ranges p rs)"
  using assms
proof (induction rs arbitrary: acc)
  case Nil
  then show ?case by (simp add: in_ranges_def)
next
  case (Cons r rs)
  have hd: "acc \<noteq> [] \<longrightarrow> fst (hd acc) \<le> fst r" using Cons.prems(4) by simp
  have v: "range_valid r" using Cons.prems(2) by simp
  have canon: "ranges_canonical (rev (merge_step acc r))"
    by (rule merge_step_canonical [OF hd v Cons.prems(3)])
  have later: "fst (hd (merge_step acc r)) \<le> fst s" if "s \<in> set rs" for s
  proof -
    have "fst r \<le> fst s" using Cons.prems(1) that by (auto simp: less_eq_prod_def)
    with merge_step_hd [of acc r] hd show ?thesis by auto
  qed
  have "ranges_canonical (rev (foldl merge_step (merge_step acc r) rs))
    \<and> (\<forall>p. in_ranges p (foldl merge_step (merge_step acc r) rs)
      \<longleftrightarrow> in_ranges p (merge_step acc r) \<or> in_ranges p rs)"
    using Cons.prems(1,2) canon later by (intro Cons.IH) auto
  moreover have "in_ranges p (merge_step acc r) \<longleftrightarrow> in_ranges p acc \<or> (fst r \<le> p \<and> p \<le> snd r)" for p
    using merge_step_cover [OF hd] v by (simp add: range_valid_def)
  moreover have "in_ranges p (r # rs) \<longleftrightarrow> (fst r \<le> p \<and> p \<le> snd r) \<or> in_ranges p rs" for p
    by (simp add: in_ranges_def)
  ultimately show ?case by auto
qed

lemma in_ranges_set: "set rs = set ss \<Longrightarrow> in_ranges p rs = in_ranges p ss"
  by (simp add: in_ranges_def)

lemma merge_ranges_correct:
  assumes "list_all range_valid rs"
  shows "ranges_canonical (merge_ranges rs)" and "in_ranges p (merge_ranges rs) \<longleftrightarrow> in_ranges p rs"
proof -
  have "ranges_canonical (rev (foldl merge_step [] (sort rs)))
    \<and> (\<forall>p. in_ranges p (foldl merge_step [] (sort rs)) \<longleftrightarrow> in_ranges p [] \<or> in_ranges p (sort rs))"
    using assms by (intro foldl_merge) (auto simp: ranges_canonical_def list_all_iff)
  moreover have "in_ranges p [] = False" "in_ranges p (sort rs) = in_ranges p rs"
    "in_ranges p (merge_ranges rs) = in_ranges p (foldl merge_step [] (sort rs))"
    by (simp_all add: in_ranges_def merge_ranges_def)
  ultimately show "ranges_canonical (merge_ranges rs)" "in_ranges p (merge_ranges rs) \<longleftrightarrow> in_ranges p rs"
    by (simp_all add: merge_ranges_def)
qed

lemma foldl_merge_separated:
  assumes "ranges_canonical (rev acc @ rs)"
  shows "foldl merge_step acc rs = rev rs @ acc"
  using assms
proof (induction rs arbitrary: acc)
  case (Cons r rs)
  have "merge_step acc r = r # acc"
    using Cons.prems by (cases "(acc, r)" rule: merge_step.cases)
      (auto simp: ranges_canonical_def sorted_wrt_append)
  moreover have "foldl merge_step (r # acc) rs = rev rs @ r # acc"
    using Cons.prems by (intro Cons.IH) simp
  ultimately show ?case by simp
qed simp

lemma canonical_sorted: assumes "ranges_canonical rs" shows "sorted rs"
proof -
  have "sorted_wrt (\<lambda>r s. snd r + 1 < fst s) rs" "list_all range_valid rs"
    using assms by (simp_all add: ranges_canonical_def)
  then have "sorted_wrt (\<le>) rs"
    by (elim sorted_wrt_mono_rel [rotated])
       (auto simp: list_all_iff range_valid_def less_eq_prod_def)
  then show ?thesis by simp
qed

lemma merge_ranges_canonical_id: "ranges_canonical rs \<Longrightarrow> merge_ranges rs = rs"
  using foldl_merge_separated [of "[]" rs] canonical_sorted [of rs]
  by (simp add: merge_ranges_def sorted_sort_id)

lemma length_merge_step: "length (merge_step acc r) \<le> Suc (length acc)"
  by (cases "(acc, r)" rule: merge_step.cases) auto

lemma length_merge_ranges: "length (merge_ranges rs) \<le> length rs"
proof -
  have "length (foldl merge_step acc xs) \<le> length acc + length xs" for acc xs
  proof (induction xs arbitrary: acc)
    case (Cons x xs)
    show ?case using Cons.IH [of "merge_step acc x"] length_merge_step [of acc x] by simp
  qed simp
  from this [of "[]" "sort rs"] show ?thesis by (simp add: merge_ranges_def)
qed

lemma port_bounds_Inr: "port_bounds r = Inr s \<longleftrightarrow> s = r \<and> range_valid r"
  by (auto simp: port_bounds_def range_valid_def)

lemma port_ranges_Inr:
  assumes "port_ranges v = Inr rs"
  shows "ranges_canonical rs" and "length rs \<le> 32"
proof -
  from assms obtain parts qs where q: "py_map (\<lambda>p. py_bind (port_range p) port_bounds) parts = Inr qs"
    and rs: "rs = merge_ranges qs" and len: "length parts \<le> 32"
    by (auto simp: port_ranges_def py_simps split: val.splits if_splits)
  have "list_all range_valid qs"
    using q by (auto simp: py_map_Inr_all2 list_all_length list_all2_conv_all_nth py_simps port_bounds_Inr)
  then show "ranges_canonical rs" using rs merge_ranges_correct(1) by simp
  show "length rs \<le> 32"
    using rs length_merge_ranges [of qs] py_map_Inr_length [OF q] len by simp
qed

lemma int_str_length: "0 \<le> i \<Longrightarrow> i \<le> 65535 \<Longrightarrow> length (int_str i) \<le> 5"
  using length_nat_str [of "nat i" 5] by (simp add: int_str_def)

lemma port_range_pair:
  assumes "range_valid r"
  shows "py_bind (port_range (VList [VInt (fst r), VInt (snd r)])) port_bounds = Inr r"
  using assms int_str_length [of "fst r"] int_str_length [of "snd r"]
  by (simp add: port_range_def range_valid_def port_bounds_Inr)

lemma ports_val_reparse:
  assumes "ranges_canonical rs" and "length rs \<le> 32"
  shows "port_ranges (ports_val rs) = Inr rs"
proof -
  have "py_map (\<lambda>p. py_bind (port_range p) port_bounds)
      (map (\<lambda>(a, b). VList [VInt a, VInt b]) rs) = Inr rs"
    using assms(1) port_range_pair
    by (auto simp: py_map_Inr_all2 list_all2_conv_all_nth ranges_canonical_def list_all_length
        split_beta)
  then show ?thesis
    using assms by (simp add: port_ranges_def port_list_def ports_val_def merge_ranges_canonical_id)
qed

lemma ranges_of_ports_val [simp]: "ranges_of_val (ports_val rs) = rs"
  by (induction rs) (auto simp: ranges_of_val_def ports_val_def)

lemma truthy_ports_val [simp]: "truthy (ports_val rs) \<longleftrightarrow> rs \<noteq> []"
  by (simp add: ports_val_def)


section \<open>Text fields\<close>

lemma text_field_Inr:
  "text_field v m = Inr s \<longleftrightarrow> (\<exists>t. v = VStr t \<and> s = py_strip t \<and> length t \<le> m \<and> list_all printable t)"
  by (cases v) (auto simp: text_field_def list_all_iff list_ex_iff)

lemma text_field_fix:
  "length s \<le> m \<Longrightarrow> list_all printable s \<Longrightarrow> py_strip s = s \<Longrightarrow> text_field (VStr s) m = Inr s"
  by (auto simp: text_field_Inr)

lemma text_field_props:
  assumes "text_field v m = Inr s"
  shows "length s \<le> m" "list_all printable s" "py_strip s = s"
proof -
  from assms obtain t where t: "s = py_strip t" "length t \<le> m" "list_all printable t"
    by (auto simp: text_field_Inr)
  show "length s \<le> m" using t length_py_strip [of t] by simp
  show "list_all printable s" using t set_py_strip [of t] by (auto simp: list_all_iff)
  show "py_strip s = s" using t by simp
qed

lemma text_field_reparse: "text_field v m = Inr s \<Longrightarrow> text_field (VStr s) m = Inr s"
  by (intro text_field_fix text_field_props)

lemma rstrip_with_id: "s = [] \<or> \<not> P (last s) \<Longrightarrow> rstrip_with P s = s"
proof -
  assume a: "s = [] \<or> \<not> P (last s)"
  have "dropWhile P (rev s) = rev s"
  proof (cases "rev s")
    case (Cons x xs)
    then have "last s = x" by (metis last_rev list.sel(1) rev_rev_ident)
    with a Cons show ?thesis by auto
  qed simp
  then show ?thesis by (simp add: rstrip_with_def)
qed

lemma rstrip_with_last: "rstrip_with P s \<noteq> [] \<Longrightarrow> \<not> P (last (rstrip_with P s))"
  by (simp add: rstrip_with_def last_rev hd_dropWhile)

lemma strip_id: "s = [] \<or> (\<not> is_space (hd s) \<and> \<not> is_space (last s)) \<Longrightarrow> py_strip s = s"
proof -
  assume a: "s = [] \<or> (\<not> is_space (hd s) \<and> \<not> is_space (last s))"
  then have "lstrip s = s" by (cases s) (auto simp: lstrip_def)
  with a show ?thesis by (auto simp: py_strip_def intro: rstrip_with_id)
qed

lemma strip_id_last: "py_strip s = s \<Longrightarrow> s \<noteq> [] \<Longrightarrow> \<not> is_space (last s)"
  using rstrip_with_last [of is_space "lstrip s"] by (simp add: py_strip_def)

section \<open>Host names\<close>

definition host_char :: "char \<Rightarrow> bool" where
  "host_char c \<longleftrightarrow> is_alnum_lower c \<or> c = CHR ''-'' \<or> c = CHR ''.''"

lemma host_char_code:
  "host_char c \<Longrightarrow> (97 \<le> code c \<and> code c \<le> 122) \<or> (48 \<le> code c \<and> code c \<le> 57) \<or> code c = 45 \<or> code c = 46"
  by (auto simp: host_char_def is_alnum_lower_def is_lower_az_def is_digit_def code_def)

lemma host_char_props:
  assumes "host_char c"
  shows "printable c" "\<not> is_space c" "is_ascii c" "lower_char c = c"
  using host_char_code [OF assms]
  by (auto simp: printable_def is_space_def is_ascii_def lower_char_def is_upper_az_def)

lemma alnum_not_dot: "is_alnum_lower c \<Longrightarrow> c \<noteq> CHR ''.''"
  by (auto simp: is_alnum_lower_def is_lower_az_def is_digit_def code_def)

lemma labels_chars:
  assumes "list_all is_label (split_on (CHR ''.'') a)" and "c \<in> set a"
  shows "host_char c"
proof (cases "c = CHR ''.''")
  case False
  have "set (join ''.'' (split_on (CHR ''.'') a)) \<subseteq>
      insert (CHR ''.'') (\<Union>p \<in> set (split_on (CHR ''.'') a). set p)"
    using set_join [of "''.''"] by simp
  with assms(2) False obtain p where "p \<in> set (split_on (CHR ''.'') a)" "c \<in> set p"
    by (auto simp: join_split_on)
  with assms(1) show ?thesis by (auto simp: list_all_iff is_label_def host_char_def)
qed (simp add: host_char_def)

lemma join_not_Nil: "ps \<noteq> [] \<Longrightarrow> last ps \<noteq> [] \<Longrightarrow> join sep ps \<noteq> []"
  by (induction sep ps rule: join.induct) auto

lemma last_join: "ps \<noteq> [] \<Longrightarrow> last ps \<noteq> [] \<Longrightarrow> last (join sep ps) = last (last ps)"
proof (induction sep ps rule: join.induct)
  case (3 sep s t ts)
  then have "join sep (t # ts) \<noteq> []" by (intro join_not_Nil) auto
  with 3 show ?case by (simp add: last_append)
qed auto

lemma is_label_length: "is_label p \<Longrightarrow> 0 < length p \<and> length p < 64"
  by (auto simp: is_label_def)

text \<open>A name made of labels is a fixed point of every step of \<open>host_name\<close>.\<close>

lemma labels_fixed:
  assumes "list_all is_label (split_on (CHR ''.'') a)" and "a \<noteq> []"
  shows "list_all printable a" "py_strip a = a" "py_lower a = a"
    "rstrip_with (\<lambda>c. c = CHR ''.'') a = a" "idna_encode e a = Some a"
proof -
  have chars: "host_char c" if "c \<in> set a" for c by (rule labels_chars [OF assms(1) that])
  have lab: "is_label p" if "p \<in> set (split_on (CHR ''.'') a)" for p
    using assms(1) that by (simp add: list_all_iff)
  have last: "is_label (last (split_on (CHR ''.'') a))" by (rule lab) simp
  show "list_all printable a" using chars host_char_props(1) by (auto simp: list_all_iff)
  show "py_strip a = a"
    using chars assms(2) host_char_props(2) by (intro strip_id) (auto intro!: chars host_char_props(2))
  show "py_lower a = a"
    unfolding py_lower_def using chars host_char_props(4) by (intro map_idI) auto
  have "last a = last (last (split_on (CHR ''.'') a))"
    using last_join [of "split_on (CHR ''.'') a" "''.''"] last by (simp add: join_split_on is_label_def)
  then have "last a \<noteq> CHR ''.''" using last alnum_not_dot by (auto simp: is_label_def)
  then show "rstrip_with (\<lambda>c. c = CHR ''.'') a = a" by (intro rstrip_with_id) simp
  have "list_all (\<lambda>l. 0 < length l \<and> length l < 64) (butlast (split_on (CHR ''.'') a))"
    using lab is_label_length by (simp add: list_all_iff in_set_butlastD)
  moreover have "length (last (split_on (CHR ''.'') a)) < 64" using last by (simp add: is_label_def)
  moreover have "list_all is_ascii a" using chars host_char_props(3) by (auto simp: list_all_iff)
  ultimately show "idna_encode e a = Some a" using assms(2) by (simp add: idna_encode_def Let_def)
qed

lemma host_name_labels:
  "host_name e v = Inr h \<Longrightarrow> h \<noteq> [] \<and> list_all is_label (split_on (CHR ''.'') h)"
  by (auto simp: host_name_def py_simps split: option.splits if_splits)

lemma host_name_fix:
  assumes "h \<noteq> []" "list_all is_label (split_on (CHR ''.'') h)" "length h \<le> 253"
  shows "host_name e (VStr h) = Inr h"
proof -
  note fixed = labels_fixed [OF assms(2,1)]
  have "text_field (VStr h) 253 = Inr h" using fixed assms(3) by (intro text_field_fix)
  then show ?thesis using fixed assms(1,2) by (simp add: host_name_def)
qed

lemma host_name_reparse:
  "host_name e v = Inr h \<Longrightarrow> length h \<le> 253 \<Longrightarrow> host_name e' (VStr h) = Inr h"
  using host_name_labels host_name_fix by blast

section \<open>Destinations\<close>

definition ip_char :: "char \<Rightarrow> bool" where
  "ip_char c \<longleftrightarrow> is_hex_lower c \<or> c = CHR '':'' \<or> c = CHR ''.'' \<or> c = CHR ''%'' \<or> c = CHR ''/''"

lemma ip_char_props: assumes "ip_char c" shows "printable c" "\<not> is_space c"
proof -
  have "(97 \<le> code c \<and> code c \<le> 122) \<or> (48 \<le> code c \<and> code c \<le> 58) \<or> code c = 46 \<or> code c = 37
      \<or> code c = 47"
    using assms by (auto simp: ip_char_def is_hex_lower_def is_digit_def code_def)
  then show "printable c" "\<not> is_space c" by (auto simp: printable_def is_space_def)
qed

lemma set_v4_str_ip_char: "c \<in> set (v4_str n) \<Longrightarrow> ip_char c"
  using set_v4_str [of c n] by (auto simp: ip_char_def is_hex_lower_def)

lemma set_v6_str_ip_char: assumes "c \<in> set (v6_str n)" shows "ip_char c"
proof (cases "n div 4294967296 = 65535")
  case True
  with assms have "c \<in> set ''::ffff:'' \<or> c \<in> set (v4_str (n mod 4294967296))"
    by (simp add: v6_str_def)
  then show ?thesis using set_v4_str_ip_char
    by (auto simp: ip_char_def is_hex_lower_def is_digit_def code_def)
next
  case False
  with assms have "c \<in> set (join '':'' (compress (hextets n)))" by (simp add: v6_str_def)
  then have "c = CHR '':'' \<or> (\<exists>p \<in> set (compress (hextets n)). c \<in> set p)"
    using set_join [of "'':''" "compress (hextets n)"] by auto
  then show ?thesis
    using compress_parts [of _ "hextets n"] hex_str_digits by (fastforce simp: ip_char_def list_all_iff)
qed

lemma v4_str_not_Nil [simp]: "v4_str n \<noteq> []"
  by (simp add: v4_str_def)

lemma v6_str_not_Nil: "n < 2 ^ 128 \<Longrightarrow> v6_str n \<noteq> []"
  using v6_str_colon by fastforce

text \<open>The scope of a parsed address is the end of the text it came from.\<close>

lemma split_on_two: "split_on c s = [a, z] \<Longrightarrow> s = a @ c # z"
  using join_split_on [of c s] by simp

lemma ip_address_scope:
  assumes "ip_address s = Some (IPv6 n (Some z))"
  shows "z \<noteq> [] \<and> set z \<subseteq> set s \<and> last s = last z"
proof -
  have "ipv6_address s = Some (IPv6 n (Some z))"
    using assms by (auto simp: ip_address_def ipv4_address_def split: option.splits if_splits)
  then obtain a where "split_scope s = Some (a, Some z)"
    by (auto simp: ipv6_address_def split: if_splits option.splits)
  then have "split_on (CHR ''%'') s = [a, z]" "z \<noteq> []"
    by (auto simp: split_scope_def split: list.splits if_splits)
  then show ?thesis using split_on_two [of "CHR ''%''" s a z] by auto
qed

lemma ip_str_text:
  assumes "ip_address s = Some a" "list_all printable s" "py_strip s = s"
  shows "list_all printable (ip_str a)" "py_strip (ip_str a) = ip_str a"
proof -
  have wf: "wf_ip a" by (rule ip_address_wf [OF assms(1)])
  have "list_all printable (ip_str a) \<and> py_strip (ip_str a) = ip_str a"
  proof (cases a rule: ip_str.cases)
    case (1 n)
    have "ip_char c" if "c \<in> set (v4_str n)" for c by (rule set_v4_str_ip_char [OF that])
    with 1 ip_char_props show ?thesis by (auto simp: list_all_iff intro!: strip_id)
  next
    case (2 n)
    have "ip_char c" if "c \<in> set (v6_str n)" for c by (rule set_v6_str_ip_char [OF that])
    with 2 ip_char_props wf v6_str_not_Nil [of n] show ?thesis
      by (auto simp: list_all_iff intro!: strip_id)
  next
    case (3 n z)
    have c: "ip_char c" if "c \<in> set (v6_str n)" for c by (rule set_v6_str_ip_char [OF that])
    have z: "z \<noteq> []" "set z \<subseteq> set s" "last s = last z"
      using ip_address_scope assms(1) 3 by blast+
    then have "s \<noteq> []" by auto
    then have "\<not> is_space (last z)" using z strip_id_last assms(3) by metis
    moreover have "v6_str n \<noteq> []" using wf 3 by (simp add: v6_str_not_Nil)
    ultimately show ?thesis
      using 3 c ip_char_props z assms(2)
      by (auto simp: list_all_iff printable_def code_def intro!: strip_id)
  qed
  then show "list_all printable (ip_str a)" "py_strip (ip_str a) = ip_str a" by simp_all
qed

lemma mask_addr_scope: "mask_addr p a = IPv6 m (Some z) \<Longrightarrow> \<exists>n. a = IPv6 n (Some z)"
  by (cases a) (auto split: if_splits)

lemma ipv6_scope_chars:
  assumes "ipv6_address t = Some (IPv6 n (Some z))" shows "set z \<subseteq> set t"
proof -
  from assms obtain a where "split_scope t = Some (a, Some z)"
    by (auto simp: ipv6_address_def split: if_splits option.splits)
  then have "split_on (CHR ''%'') t = [a, z]"
    by (auto simp: split_scope_def split: list.splits if_splits)
  then show ?thesis using split_on_two [of "CHR ''%''" t a z] by auto
qed

lemma ip_network_scope:
  assumes "ip_network s = Some (IPv6 m (Some z), p)" shows "set z \<subseteq> set s"
proof -
  have "ipv4_network s = None"
    using assms ipv4_network_wf [of s]
    by (auto simp: ip_network_def ipv4_network_def ipv4_address_def split: option.splits list.splits if_splits)
  with assms have "ipv6_network s = Some (IPv6 m (Some z), p)" by (simp add: ip_network_def)
  then obtain t n where "t \<in> set (split_on (CHR ''/'') s)" "ipv6_address t = Some (IPv6 n (Some z))"
    using mask_addr_scope by (fastforce simp: ipv6_network_def split: list.splits option.splits)
  then show ?thesis using ipv6_scope_chars set_split_on by blast
qed

lemma digit_printable: "is_digit c \<Longrightarrow> printable c \<and> \<not> is_space c"
  by (auto simp: is_digit_def printable_def is_space_def)

lemma hd_ip_str: assumes "wf_ip a" shows "ip_str a \<noteq> []" "\<not> is_space (hd (ip_str a))"
proof -
  have "ip_str a \<noteq> [] \<and> ip_char (hd (ip_str a))"
  proof (cases a rule: ip_str.cases)
    case (1 n)
    then show ?thesis using set_v4_str_ip_char [of "hd (v4_str n)" n] by simp
  next
    case (2 n)
    then show ?thesis using set_v6_str_ip_char [of "hd (v6_str n)" n] v6_str_not_Nil [of n] assms by simp
  next
    case (3 n z)
    then show ?thesis using set_v6_str_ip_char [of "hd (v6_str n)" n] v6_str_not_Nil [of n] assms by simp
  qed
  then show "ip_str a \<noteq> []" "\<not> is_space (hd (ip_str a))" using ip_char_props by auto
qed

lemma net_str_text:
  assumes "ip_network s = Some n" "list_all printable s"
  shows "list_all printable (net_str n)" "py_strip (net_str n) = net_str n"
proof -
  obtain a p where n: "n = (a, p)" by fastforce
  have wf: "wf_ip a" using ip_network_wf [OF assms(1)] n by (simp add: wf_net_def)
  have "printable c" if "c \<in> set (ip_str a)" for c
  proof (cases a rule: ip_str.cases)
    case (1 m)
    with that show ?thesis using set_v4_str_ip_char ip_char_props(1) by auto
  next
    case (2 m)
    with that show ?thesis using set_v6_str_ip_char ip_char_props(1) by auto
  next
    case (3 m z)
    then have "set z \<subseteq> set s" using ip_network_scope assms(1) n by blast
    with 3 that assms(2) show ?thesis using set_v6_str_ip_char [of c m] ip_char_props(1)
      by (auto simp: list_all_iff printable_def code_def)
  qed
  moreover have "list_all is_digit (nat_str p)" by (rule nat_str_digits)
  ultimately show "list_all printable (net_str n)"
    using n digit_printable by (auto simp: net_str_def list_all_iff printable_def code_def)
  have "is_digit (last (nat_str p))" using nat_str_digits [of p] by (simp add: list_all_iff)
  then show "py_strip (net_str n) = net_str n"
    using n hd_ip_str [OF wf] digit_printable by (intro strip_id) (simp add: net_str_def)
qed

lemma destination_address_Inr:
  assumes "destination_address e kind t = Inr a"
  shows "(str_in kind [''host'', ''domain''] \<and> host_name e (VStr t) = Inr a)
    \<or> (kind = VStr ''ip'' \<and> (\<exists>x. ip_address t = Some x \<and> a = ip_str x))
    \<or> (kind = VStr ''network'' \<and> (\<exists>x. ip_network t = Some x \<and> a = net_str x))"
  using assms by (auto simp: destination_address_def py_catch_def
      split: sum.splits if_splits option.splits)

text \<open>A destination that went through the validation goes through it unchanged.\<close>

definition dest_stable :: "val \<Rightarrow> bool" where
  "dest_stable d \<longleftrightarrow> (\<exists>kind a. d = VDict [(''kind'', kind), (''value'', VStr a)]
     \<and> (length a \<le> 253 \<longrightarrow> (\<forall>e. text_field (VStr a) 253 = Inr a \<and> destination_address e kind a = Inr a)))"

lemma destination_reparse:
  assumes t: "text_field v 253 = Inr t" and a: "destination_address e kind t = Inr a"
  shows "dest_stable (VDict [(''kind'', kind), (''value'', VStr a)])"
proof -
  have "text_field (VStr a) 253 = Inr a \<and> destination_address e' kind a = Inr a"
    if len: "length a \<le> 253" for e'
    using destination_address_Inr [OF a]
  proof (elim disjE conjE exE)
    assume k: "str_in kind [''host'', ''domain'']" and h: "host_name e (VStr t) = Inr a"
    have "host_name e' (VStr a) = Inr a" by (rule host_name_reparse [OF h len])
    moreover have "text_field (VStr a) 253 = Inr a"
      using host_name_labels [OF h] labels_fixed len by (intro text_field_fix) auto
    ultimately show ?thesis using k by (simp add: destination_address_def)
  next
    fix x assume k: "kind = VStr ''ip''" and x: "ip_address t = Some x" "a = ip_str x"
    have "text_field (VStr a) 253 = Inr a"
      using ip_str_text [OF x(1)] text_field_props [OF t] len x(2) by (intro text_field_fix) auto
    then show ?thesis using k x addr.reparse by (simp add: destination_address_def)
  next
    fix x assume k: "kind = VStr ''network''" and x: "ip_network t = Some x" "a = net_str x"
    have "text_field (VStr a) 253 = Inr a"
      using net_str_text [OF x(1)] text_field_props [OF t] len x(2) by (intro text_field_fix) auto
    then show ?thesis using k x net.reparse by (simp add: destination_address_def)
  qed
  then show ?thesis by (auto simp: dest_stable_def)
qed

lemma add_destination_Inr:
  assumes "add_destination e ds d = Inr ds'"
  shows "ds' = ds \<or> (\<exists>x. ds' = ds @ [x] \<and> \<not> py_mem x ds \<and> dest_stable x)"
  using assms destination_reparse
  by (auto simp: add_destination_def py_simps Let_def split: val.splits if_splits)

definition dests_ok :: "val list \<Rightarrow> bool" where
  "dests_ok ds \<longleftrightarrow> list_all dest_stable ds \<and> sorted_wrt (\<lambda>x y. \<not> py_eq y x) ds"

lemma fold_destinations:
  assumes "py_fold (add_destination e) [] xs = Inr ds"
  shows "dests_ok ds" and "length ds \<le> length xs"
proof -
  show "dests_ok ds"
    by (rule py_fold_invariant [OF assms])
       (auto simp: dests_ok_def sorted_wrt_append py_mem_def list_ex_iff dest!: add_destination_Inr)
  have "length ds' \<le> length as + length xs" if "py_fold (add_destination e) as xs = Inr ds'" for as ds'
    using that
  proof (induction xs arbitrary: as)
    case (Cons x xs)
    then obtain bs where "add_destination e as x = Inr bs" "py_fold (add_destination e) bs xs = Inr ds'"
      by (auto simp: py_simps)
    then show ?case using Cons.IH [of bs] add_destination_Inr [of e as x bs] by fastforce
  qed simp
  from this [OF assms] show "length ds \<le> length xs" by simp
qed

definition dest_len :: "val \<Rightarrow> nat" where
  "dest_len d = length (as_str (vget d ''value''))"

lemma add_destination_again:
  assumes "dest_stable d" "dest_len d \<le> 253" "\<not> py_mem d ds"
  shows "add_destination e ds d = Inr (ds @ [d])"
  using assms by (auto simp: dest_stable_def add_destination_def dest_len_def)

lemma refold_destinations:
  assumes "dests_ok (ds @ xs)" "list_all (\<lambda>d. dest_len d \<le> 253) xs"
  shows "py_fold (add_destination e) ds xs = Inr (ds @ xs)"
  using assms
proof (induction xs arbitrary: ds)
  case (Cons x xs)
  have "add_destination e ds x = Inr (ds @ [x])"
    using Cons.prems by (intro add_destination_again)
      (auto simp: dests_ok_def sorted_wrt_append py_mem_def list_ex_iff)
  moreover have "py_fold (add_destination e) (ds @ [x]) xs = Inr ((ds @ [x]) @ xs)"
    using Cons.prems by (intro Cons.IH) auto
  ultimately show ?case by simp
qed simp

section \<open>Protocols\<close>

lemma sorted_protocols_again:
  assumes "valid_protocols v"
  shows "valid_protocols (sorted_protocols v)" "sorted_protocols (sorted_protocols v) = sorted_protocols v"
proof -
  obtain ps where v: "v = VList ps" and ne: "ps \<noteq> []"
    and mem: "\<And>p. p \<in> set ps \<Longrightarrow> str_in p [''tcp'', ''udp'', ''any'']"
    and one: "VStr ''any'' \<in> set ps \<Longrightarrow> length ps = 1"
    using assms by (auto simp: valid_protocols_def list_all_iff py_mem_def list_ex_iff split: val.splits)
  define ss where "ss = sort (remdups (map as_str ps))"
  have sp: "sorted_protocols v = VList (map VStr ss)" by (simp add: sorted_protocols_def v ss_def)
  have str: "p = VStr (as_str p)" if "p \<in> set ps" for p
    using mem [OF that] by (auto simp: str_in_iff)
  have set: "set ss = as_str ` set ps" by (simp add: ss_def)
  have "length ss = 1" if any: "''any'' \<in> set ss"
  proof -
    from any str have "VStr ''any'' \<in> set ps" by (metis set imageE)
    then have "length ps = 1" by (rule one)
    then show ?thesis by (cases ps) (auto simp: ss_def)
  qed
  moreover have "list_all (\<lambda>p. str_in p [''tcp'', ''udp'', ''any'']) (map VStr ss)"
    unfolding list_all_iff using mem str by (metis (no_types) imageE list.set_map set)
  moreover have "set ss \<noteq> {}" using ne by (simp add: set)
  ultimately show "valid_protocols (sorted_protocols v)"
    by (auto simp: valid_protocols_def sp py_mem_def list_ex_iff)
  have "sort (remdups ss) = ss" by (simp add: ss_def distinct_remdups_id sorted_sort_id)
  then have "sorted_protocols (VList (map VStr ss)) = VList (map VStr ss)"
    by (simp add: sorted_protocols_def comp_def)
  then show "sorted_protocols (sorted_protocols v) = sorted_protocols v" by (simp only: sp)
qed

section \<open>The common fields\<close>

definition text_ok :: "string \<Rightarrow> nat \<Rightarrow> bool" where
  "text_ok s m \<longleftrightarrow> length s \<le> m \<and> list_all printable s \<and> py_strip s = s"

lemma text_ok_field: "text_ok s m \<Longrightarrow> text_field (VStr s) m = Inr s"
  by (simp add: text_ok_def text_field_fix)

lemma text_field_ok: "text_field v m = Inr s \<Longrightarrow> text_ok s m"
  by (simp add: text_ok_def text_field_props)

definition timed :: "val \<Rightarrow> bool" where
  "timed lifetime \<longleftrightarrow> str_in lifetime [''15m'', ''1h'']"

definition common_ok :: "dict \<Rightarrow> bool" where
  "common_ok r \<longleftrightarrow> (\<exists>i prov name desc act en fam ps rs life created updated expires boot.
     r = [(''id'', i), (''provider'', prov), (''name'', VStr name),
            (''description'', VStr desc), (''action'', act), (''enabled'', en),
            (''family'', fam), (''protocols'', ps),
            (''ports'', ports_val rs), (''lifetime'', life), (''created_at'', created),
            (''updated_at'', updated), (''expires_at'', expires), (''boot_id'', boot)]
     \<and> valid_rule_id i \<and> str_in prov [''application'', ''incoming'']
     \<and> text_ok name 160 \<and> text_ok desc 500 \<and> str_in act [''allow'', ''deny''] \<and> is_bool en
     \<and> str_in fam [''any'', ''ipv4'', ''ipv6''] \<and> valid_protocols ps \<and> sorted_protocols ps = ps
     \<and> ranges_canonical rs \<and> length rs \<le> 32
     \<and> str_in life [''permanent'', ''boot'', ''15m'', ''1h'']
     \<and> valid_stamp created \<and> valid_stamp updated
     \<and> (if timed life then valid_stamp expires else expires = VNone)
     \<and> (life = VStr ''boot'' \<or> boot = VNone))"

lemma valid_rule_id_truthy: "valid_rule_id i \<Longrightarrow> truthy i"
  by (auto simp: valid_rule_id_def split: val.splits)

text \<open>The fields a successful run computes.\<close>

lemma normalize_commonE:
  assumes "normalize_common e v ex now = Inr r"
  obtains name desc rs expires life ps where
    "life = dget_or v ''lifetime'' (VStr ''permanent'')"
    "ps = dget_or v ''protocols'' (VList [VStr ''tcp'', VStr ''udp''])"
    "valid_protocols ps" "str_in life [''permanent'', ''boot'', ''15m'', ''1h'']"
    "text_field (py_or (dget v ''name'') (VStr ''Network rule'')) 160 = Inr name"
    "text_field (dget_or v ''description'' (VStr [])) 500 = Inr desc"
    "port_ranges (dget_or v ''ports'' (VList [])) = Inr rs"
    "rule_expiry v ex life now = Inr expires"
    "valid_stamp expires \<or> (expires = VNone \<and> \<not> timed life)"
    "life = VStr ''boot'' \<Longrightarrow> truthy (boot_id e) \<or> truthy (dget ex ''boot_id'')"
    "r = [(''id'', py_or (py_or (dget ex ''id'') (dget v ''id'')) (VStr (''greyward-'' @ env_uuid e))),
      (''provider'', dget_or v ''provider'' (VStr ''application'')), (''name'', VStr name),
      (''description'', VStr desc), (''action'', dget_or v ''action'' (VStr ''deny'')),
      (''enabled'', dget_or v ''enabled'' (VBool True)), (''family'', dget_or v ''family'' (VStr ''any'')),
      (''protocols'', sorted_protocols ps), (''ports'', ports_val rs), (''lifetime'', life),
      (''created_at'', dget_or ex ''created_at'' now), (''updated_at'', now), (''expires_at'', expires),
      (''boot_id'', rule_boot_id e v ex life)]"
  using assms unfolding normalize_common_def Let_def timed_def [symmetric]
  by (simp only: if_Inl_eq_Inr py_bind_eq_Inr) blast

lemma normalize_common_ok:
  assumes "normalize_common e v ex now = Inr r" shows "common_ok r"
proof -
  have boot: "life = VStr ''boot'' \<or> rule_boot_id e v ex life = VNone" for life
    by (auto simp: rule_boot_id_def)
  have exp: "rule_expiry v ex life now = Inr x \<Longrightarrow> \<not> timed life \<Longrightarrow> x = VNone" for life x
    by (auto simp: rule_expiry_def timed_def)
  from assms show ?thesis
  proof (cases rule: normalize_commonE)
    case (1 name desc rs expires life ps)
    note checks = 1(3-9) and r = 1(11)
    have rest: "valid_rule_id (dget r ''id'')" "str_in (dget r ''provider'') [''application'', ''incoming'']"
      "str_in (dget r ''action'') [''allow'', ''deny'']" "is_bool (dget r ''enabled'')"
      "str_in (dget r ''family'') [''any'', ''ipv4'', ''ipv6'']" "valid_stamp (dget r ''created_at'')"
      "valid_stamp now"
      using assms unfolding r normalize_common_def Let_def by (auto simp: py_simps)
    show ?thesis
      unfolding common_ok_def
      by (intro exI conjI, rule r)
         (use rest checks sorted_protocols_again [OF checks(1)] text_field_ok port_ranges_Inr [OF checks(5)]
            boot exp in \<open>auto simp: r\<close>)
  qed
qed

text \<open>Facts a later run relies on: a rule agrees with its stored form on every common field.\<close>

lemma dget_agree: "map_of v k = map_of r k \<Longrightarrow> dget v k = dget r k"
  by (simp add: dget_def)

lemma dget_or_agree: "map_of v k = map_of r k \<Longrightarrow> dget_or v k w = dget_or r k w"
  by (simp add: dget_or_def)

lemma common_again:
  assumes ok: "common_ok r" and name: "dget r ''name'' \<noteq> VStr []"
    and boot: "dget r ''lifetime'' = VStr ''boot'' \<longrightarrow> truthy (boot_id e) \<or> truthy (dget r ''boot_id'')"
    and agree: "\<And>k. dhas r k \<Longrightarrow> map_of v k = map_of r k" and renew: "map_of v ''renew'' = None"
  shows "normalize_common e v v (dget r ''updated_at'') = Inr r"
proof -
  obtain i prov nm desc act en fam ps rs life created updated expires bt where
    r: "r = [(''id'', i), (''provider'', prov), (''name'', VStr nm),
            (''description'', VStr desc), (''action'', act), (''enabled'', en),
            (''family'', fam), (''protocols'', ps),
            (''ports'', ports_val rs), (''lifetime'', life), (''created_at'', created),
            (''updated_at'', updated), (''expires_at'', expires), (''boot_id'', bt)]"
     and i: "valid_rule_id i" and f: "str_in prov [''application'', ''incoming'']"
     "text_ok nm 160" "text_ok desc 500" "str_in act [''allow'', ''deny'']" "is_bool en"
     "str_in fam [''any'', ''ipv4'', ''ipv6'']" "valid_protocols ps" "sorted_protocols ps = ps"
     "ranges_canonical rs" "length rs \<le> 32" "str_in life [''permanent'', ''boot'', ''15m'', ''1h'']"
     "valid_stamp created" "valid_stamp updated"
     and exp: "if timed life then valid_stamp expires else expires = VNone"
     and bt: "life = VStr ''boot'' \<or> bt = VNone"
    using ok unfolding common_ok_def by blast
  have v: "\<forall>k \<in> set (map fst r). map_of v k = map_of r k"
    using agree by (simp add: dhas_def map_of_eq_None_iff)
  have g: "map_of v ''id'' = Some i" "map_of v ''provider'' = Some prov"
    "map_of v ''name'' = Some (VStr nm)" "map_of v ''description'' = Some (VStr desc)"
    "map_of v ''action'' = Some act" "map_of v ''enabled'' = Some en" "map_of v ''family'' = Some fam"
    "map_of v ''protocols'' = Some ps" "map_of v ''ports'' = Some (ports_val rs)"
    "map_of v ''lifetime'' = Some life" "map_of v ''created_at'' = Some created"
    "map_of v ''expires_at'' = Some expires" "map_of v ''boot_id'' = Some bt"
    using v unfolding r by simp_all
  have idv: "py_or (py_or i i) w = i" for w using valid_rule_id_truthy [OF i] by (simp add: py_or_def)
  have nm: "py_or (VStr nm) w = VStr nm" for w using name by (simp add: r py_or_def)
  have life: "rule_expiry v v life updated = Inr expires"
    using exp renew by (auto simp: rule_expiry_def timed_def dget_def dget_or_def g)
  have boot': "rule_boot_id e v v life = bt"
    using bt renew by (auto simp: rule_boot_id_def dget_or_def g)
  have stamp: "valid_stamp expires \<or> (expires = VNone \<and> \<not> str_in life [''15m'', ''1h''])"
    using exp by (auto simp: timed_def split: if_splits)
  have b: "\<not> (life = VStr ''boot'' \<and> \<not> truthy (boot_id e) \<and> \<not> truthy bt)" using boot by (auto simp: r)
  have up: "dget r ''updated_at'' = updated" by (simp add: r)
  note texts = text_ok_field [OF f(2)] text_ok_field [OF f(3)] ports_val_reparse [OF f(9,10)]
  show ?thesis
    unfolding up normalize_common_def Let_def dget_def dget_or_def g option.case idv nm
    using f i texts life stamp b boot' by (simp add: r)
qed

lemma common_keys: "common_ok r \<Longrightarrow> map fst r = [''id'', ''provider'', ''name'', ''description'', ''action'',
    ''enabled'', ''family'', ''protocols'', ''ports'', ''lifetime'', ''created_at'', ''updated_at'',
    ''expires_at'', ''boot_id'']"
  by (auto simp: common_ok_def)

lemma common_has: "common_ok r \<Longrightarrow> dhas r k \<longleftrightarrow> k \<in> {''id'', ''provider'', ''name'', ''description'', ''action'',
    ''enabled'', ''family'', ''protocols'', ''ports'', ''lifetime'', ''created_at'', ''updated_at'',
    ''expires_at'', ''boot_id''}"
  using arg_cong [OF common_keys, of r set]
  by (simp add: dhas_def map_of_eq_None_iff)

lemma common_updated: "common_ok r \<Longrightarrow> dget r ''updated_at'' \<noteq> VNone"
  by (auto simp: common_ok_def valid_stamp_def)

lemma map_of_append_right: "\<not> dhas a k \<Longrightarrow> map_of (a @ b) k = map_of b k"
  by (simp add: dhas_def map_add_def split: option.splits)

lemma map_of_append_left: "dhas a k \<Longrightarrow> map_of (a @ b) k = map_of a k \<or> dhas b k"
  by (auto simp: dhas_def map_add_def split: option.splits)

lemma map_of_append_first: "dhas a k \<Longrightarrow> map_of (a @ b) k = map_of a k"
  by (auto simp: dhas_def map_add_def split: option.splits)

end
