(* ===== verification/Network_Rules_Normal.thy ===== *)
theory Network_Rules_Normal
  imports Network_Rules_Facts
begin

text \<open>
  The shape of the rules \<open>normalize\<close> produces, that they are fixed points of \<open>normalize\<close>
  (so \<open>migrate\<close> accepts what the editor stores), and that \<open>matches\<close> on such a rule never
  raises and decides a declarative coverage predicate.
\<close>

section \<open>The shape of a normalized rule\<close>

definition app_tail :: "string \<Rightarrow> val \<Rightarrow> val \<Rightarrow> val list \<Rightarrow> string option \<Rightarrow> bool \<Rightarrow> dict" where
  "app_tail path uid scope ds req dns = [(''path'', VStr path), (''uid'', uid), (''scope'', scope),
     (''destinations'', VList ds)]
     @ (if path = ''*'' then [(''all_applications'', VBool True)] else [])
     @ (case req of None \<Rightarrow> [] | Some h \<Rightarrow> [(''required_host'', VStr h)])
     @ (if dns then [(''dns_exception'', VBool True)] else [])"

definition host_ok :: "string \<Rightarrow> bool" where
  "host_ok h \<longleftrightarrow> h \<noteq> [] \<and> list_all is_label (split_on (CHR ''.'') h)"

text \<open>Each destination is a checked name or the canonical text of an address or network.\<close>

definition dest_typed :: "val \<Rightarrow> bool" where
  "dest_typed d \<longleftrightarrow> (\<exists>kind a. d = VDict [(''kind'', VStr kind), (''value'', VStr a)]
     \<and> (kind \<in> {''host'', ''domain''} \<and> host_ok a
       \<or> kind = ''ip'' \<and> (\<exists>x. wf_ip x \<and> a = ip_str x)
       \<or> kind = ''network'' \<and> (\<exists>n. wf_net n \<and> a = net_str n)))"

lemma destination_typed:
  assumes "destination_address e kind t = Inr a"
  shows "dest_typed (VDict [(''kind'', kind), (''value'', VStr a)])"
  using destination_address_Inr [OF assms] host_name_labels ip_address_wf ip_network_wf
  by (fastforce simp: dest_typed_def host_ok_def str_in_iff)

lemma fold_destinations_typed:
  assumes "py_fold (add_destination e) [] xs = Inr ds" shows "list_all dest_typed ds"
  by (rule py_fold_invariant [OF assms])
     (auto simp: add_destination_def py_simps Let_def destination_typed split: val.splits if_splits)

definition app_ok :: "dict \<Rightarrow> dict \<Rightarrow> bool" where
  "app_ok c t \<longleftrightarrow> (\<exists>path uid scope ds req dns. t = app_tail path uid scope ds req dns
     \<and> text_ok path 4096 \<and> path_ok path (path = ''*'')
     \<and> (scope = VStr ''system'' \<and> uid = VNone \<or> scope = VStr ''user'' \<and> valid_uid uid)
     \<and> dests_ok ds \<and> list_all dest_typed ds \<and> length ds \<le> 32
     \<and> (\<forall>h. req = Some h \<longrightarrow> host_ok h)
     \<and> (dns \<longrightarrow> dns_exception_ok (dget c ''action'') path (ranges_of_val (dget c ''ports''))))"

lemma path_ok_star: "path_ok p a \<Longrightarrow> path_ok p (p = ''*'')"
  by (auto simp: path_ok_def)

lemma normalize_applicationE:
  assumes "normalize_application e v actor c = Inr r"
  obtains path required dests ds scope where
    "text_field (dget_or v ''path'' (VStr [])) 4096 = Inr path"
    "path_ok path (dget v ''all_applications'' = VBool True)"
    "scope = dget_or v ''scope'' (VStr ''user'')" "str_in scope [''user'', ''system'']"
    "(if truthy (dget v ''required_host'')
       then py_bind (host_name e (dget v ''required_host'')) (\<lambda>h. Inr [(''required_host'', VStr h)])
       else Inr []) = Inr required"
    "dget_or v ''destinations'' (VList []) = VList dests"
    "length dests \<le> 32" "py_fold (add_destination e) [] dests = Inr ds"
    "truthy (dget v ''dns_exception'') \<longrightarrow>
       dns_exception_ok (dget c ''action'') path (ranges_of_val (dget c ''ports''))"
    "r = c @ [(''path'', VStr path), (''uid'', if scope = VStr ''system'' then VNone else actor),
       (''scope'', scope), (''destinations'', VList ds)]
       @ (if path = ''*'' then [(''all_applications'', VBool True)] else []) @ required
       @ (if truthy (dget v ''dns_exception'') then [(''dns_exception'', VBool True)] else [])"
  using assms unfolding normalize_application_def Let_def
  by (cases "dget_or v ''destinations'' (VList [])") (auto simp: py_bind_eq_Inr not_less)

lemma normalize_application_ok:
  assumes "normalize_application e v actor c = Inr r" and "valid_uid actor"
  shows "\<exists>t. r = c @ t \<and> app_ok c t"
  using assms(1)
proof (cases rule: normalize_applicationE)
  case (1 path required dests ds scope)
  note p = 1(1,2) and sc = 1(4) and rq = 1(5) and d = 1(7,8) and dns = 1(9) and r = 1(10)
  obtain req where req: "required = (case req of None \<Rightarrow> [] | Some h \<Rightarrow> [(''required_host'', VStr h)])"
    "\<forall>h. req = Some h \<longrightarrow> host_ok h"
  proof (cases "truthy (dget v ''required_host'')")
    case True
    with rq obtain h where "host_name e (dget v ''required_host'') = Inr h"
      "required = [(''required_host'', VStr h)]" by (auto simp: py_simps)
    then show ?thesis using host_name_labels that [of "Some h"] by (simp add: host_ok_def)
  next
    case False
    with rq show ?thesis using that [of None] by simp
  qed
  define t where "t = app_tail path (if scope = VStr ''system'' then VNone else actor) scope ds req
    (truthy (dget v ''dns_exception''))"
  have "r = c @ t" unfolding r req(1) t_def app_tail_def by simp
  moreover have "scope = VStr ''system'' \<or> scope = VStr ''user''"
    using sc by (auto simp: str_in_iff)
  then have "app_ok c t"
    unfolding app_ok_def
    using t_def text_field_ok [OF p(1)] path_ok_star [OF p(2)] fold_destinations [OF d(2)]
      fold_destinations_typed [OF d(2)] d(1) req(2) dns assms(2) by fastforce
  ultimately show ?thesis by blast
qed

definition in_tail :: "string \<Rightarrow> string \<Rightarrow> string \<Rightarrow> dict" where
  "in_tail zone service source = [(''zone'', VStr zone), (''service'', VStr service),
     (''source'', VStr source), (''scope'', VStr ''system'')]"

definition source_ok :: "string \<Rightarrow> val \<Rightarrow> bool" where
  "source_ok source family \<longleftrightarrow> source = [] \<or> (\<exists>n. ip_network source = Some n \<and> net_str n = source
     \<and> list_all printable source \<and> py_strip source = source \<and> family = VStr (version_name (fst n)))"

definition in_ok :: "dict \<Rightarrow> dict \<Rightarrow> bool" where
  "in_ok c t \<longleftrightarrow> (\<exists>zone service source. t = in_tail zone service source
     \<and> \<not> py_mem (VStr ''any'') (as_list (dget c ''protocols''))
     \<and> text_ok zone 80 \<and> is_zone_name zone \<and> text_ok service 80 \<and> (service = [] \<or> is_zone_name service)
     \<and> (service \<noteq> []) \<noteq> truthy (dget c ''ports'')
     \<and> (service = [] \<or> dget c ''protocols'' = VList [VStr ''tcp'', VStr ''udp''])
     \<and> source_ok source (dget c ''family''))"

lemma incoming_source_Inr:
  assumes "incoming_source s f = Inr (t, g)" and "text_ok s 80"
  shows "source_ok t g" and "s = [] \<Longrightarrow> g = f" and "s \<noteq> [] \<Longrightarrow> t \<noteq> [] \<and> str_in g [''ipv4'', ''ipv6'']"
proof -
  consider "s = []" "t = []" "g = f"
    | n where "s \<noteq> []" "ip_network s = Some n" "t = net_str n" "g = VStr (version_name (fst n))"
    using assms(1) by (auto simp: incoming_source_def Let_def split: if_splits option.splits)
  then have "source_ok t g \<and> (s = [] \<longrightarrow> g = f) \<and> (s \<noteq> [] \<longrightarrow> t \<noteq> [] \<and> str_in g [''ipv4'', ''ipv6''])"
  proof cases
    case 2
    have "ip_network (net_str n) = Some n" using net.reparse 2 by blast
    then show ?thesis using 2 net_str_text [OF 2(2)] assms(2)
      by (auto simp: source_ok_def text_ok_def version_name_def net_str_def)
  qed (simp add: source_ok_def)
  then show "source_ok t g" "s = [] \<Longrightarrow> g = f" "s \<noteq> [] \<Longrightarrow> t \<noteq> [] \<and> str_in g [''ipv4'', ''ipv6'']"
    by auto
qed

lemma common_ok_family:
  "common_ok c \<Longrightarrow> str_in f [''any'', ''ipv4'', ''ipv6''] \<Longrightarrow> common_ok (dput c ''family'' f)"
  unfolding common_ok_def by (elim exE conjE) (intro exI, intro conjI, simp, assumption+)

lemma incoming_family:
  "incoming_source s f = Inr (t, g) \<Longrightarrow> str_in f [''any'', ''ipv4'', ''ipv6'']
    \<Longrightarrow> str_in g [''any'', ''ipv4'', ''ipv6'']"
  by (auto simp: incoming_source_def Let_def version_name_def split: if_splits option.splits)

lemma normalize_incomingE:
  assumes "normalize_incoming v c = Inr r"
  obtains zone service source s' f' where
    "\<not> py_mem (VStr ''any'') (as_list (dget c ''protocols''))"
    "text_field (dget_or v ''zone'' (VStr [])) 80 = Inr zone" "is_zone_name zone"
    "text_field (dget_or v ''service'' (VStr [])) 80 = Inr service" "service = [] \<or> is_zone_name service"
    "(service \<noteq> []) \<noteq> truthy (dget c ''ports'')"
    "service = [] \<or> dget c ''protocols'' = VList [VStr ''tcp'', VStr ''udp'']"
    "text_field (dget_or v ''source'' (VStr [])) 80 = Inr source"
    "incoming_source source (dget c ''family'') = Inr (s', f')"
    "r = dput c ''family'' f' @ in_tail zone service s'"
  using assms unfolding normalize_incoming_def in_tail_def by (auto simp: py_bind_eq_Inr)

lemma normalize_incoming_ok:
  assumes "normalize_incoming v c = Inr r" and "common_ok c"
  shows "\<exists>c' t. r = c' @ t \<and> common_ok c' \<and> dget c' ''provider'' = dget c ''provider'' \<and> in_ok c' t"
  using assms(1)
proof (cases rule: normalize_incomingE)
  case (1 zone service source s' f')
  note any = 1(1) and z = 1(2,3) and s = 1(4-7) and so = 1(8,9) and r = 1(10)
  have fam: "str_in (dget c ''family'') [''any'', ''ipv4'', ''ipv6'']"
    using assms(2) by (auto simp: common_ok_def)
  have "common_ok (dput c ''family'' f')"
    using assms(2) incoming_family [OF so(2) fam] by (rule common_ok_family)
  moreover have "in_ok (dput c ''family'' f') (in_tail zone service s')"
    unfolding in_ok_def using any z s incoming_source_Inr(1) [OF so(2) text_field_ok [OF so(1)]]
      text_field_ok [OF z(1)] text_field_ok [OF s(1)]
    by (intro exI conjI) (auto simp: in_tail_def)
  ultimately show ?thesis using r by (intro exI conjI) (auto simp: in_tail_def)
qed

text \<open>The shape of every rule that \<open>normalize\<close> returns.\<close>

definition rule_ok :: "dict \<Rightarrow> bool" where
  "rule_ok r \<longleftrightarrow> (\<exists>c t. r = c @ t \<and> common_ok c
     \<and> (if dget c ''provider'' = VStr ''application'' then app_ok c t else in_ok c t))"

lemma normalizeE:
  assumes "normalize e val actor ex ct = Inr r"
  obtains v c where "val = VDict v" "valid_uid actor"
    "normalize_common e v ex (if ct = VNone then env_now e else ct) = Inr c"
    "(if dget c ''provider'' = VStr ''application'' then normalize_application e v actor c
       else normalize_incoming v c) = Inr r"
  using assms unfolding normalize_def
  by (cases val) (simp_all only: val.case if_Inl_eq_Inr py_bind_eq_Inr, auto)

lemma normalize_ok: assumes "normalize e val actor ex ct = Inr r" shows "rule_ok r"
  using assms
proof (cases rule: normalizeE)
  case (1 v c)
  note u = 1(2) and c = 1(3) and r = 1(4)
  have ok: "common_ok c" by (rule normalize_common_ok [OF c])
  show ?thesis
  proof (cases "dget c ''provider'' = VStr ''application''")
    case True
    with r u obtain t where "r = c @ t" "app_ok c t" using normalize_application_ok by fastforce
    with True ok show ?thesis by (auto simp: rule_ok_def)
  next
    case False
    with r have "normalize_incoming v c = Inr r" by simp
    from normalize_incoming_ok [OF this ok] obtain c' t where "r = c' @ t" "common_ok c'"
      "dget c' ''provider'' = dget c ''provider''" "in_ok c' t" by blast
    with False show ?thesis
      unfolding rule_ok_def by (intro exI [of _ c'] exI [of _ t]) simp
  qed
qed

section \<open>Normalized rules are fixed points\<close>

text \<open>
  The limits that the canonical text of a rule can leave: an empty name (only white space was
  submitted), and host names and addresses whose canonical form is longer than the
  submitted one.
\<close>

definition storable :: "dict \<Rightarrow> bool" where
  "storable r \<longleftrightarrow> dget r ''name'' \<noteq> VStr [] \<and> length (as_str (dget r ''required_host'')) \<le> 253
     \<and> list_all (\<lambda>d. dest_len d \<le> 253) (as_list (dget r ''destinations''))
     \<and> length (as_str (dget r ''source'')) \<le> 80"

text \<open>
  A stored rule: the same entries in any order, a user id that reads the same
  (\<open>item.get('uid') or 0\<close>) and a DNS exception flag of the same truth value.
\<close>

definition agrees :: "dict \<Rightarrow> dict \<Rightarrow> bool" where
  "agrees v r \<longleftrightarrow> (\<forall>k. k \<notin> {''uid'', ''dns_exception''} \<longrightarrow> map_of v k = map_of r k)
     \<and> py_or (dget v ''uid'') (VInt 0) = py_or (dget r ''uid'') (VInt 0)
     \<and> truthy (dget v ''dns_exception'') = truthy (dget r ''dns_exception'')"

lemma common_lookup:
  assumes "common_ok c" "agrees v (c @ t)" "dhas c k" shows "map_of v k = map_of c k"
proof -
  have "k \<notin> {''uid'', ''dns_exception''}" using assms(1,3) common_has by auto
  then show ?thesis using assms map_of_append_first unfolding agrees_def by metis
qed

lemma tail_lookup:
  assumes "common_ok c" "agrees v (c @ t)" "k \<notin> {''uid'', ''dns_exception''}" "\<not> dhas c k"
  shows "map_of v k = map_of t k"
  using assms map_of_append_right unfolding agrees_def by metis

lemma tail_uid:
  assumes "common_ok c" "agrees v (c @ t)"
  shows "py_or (dget v ''uid'') (VInt 0) = py_or (dget t ''uid'') (VInt 0)"
    and "truthy (dget v ''dns_exception'') = truthy (dget t ''dns_exception'')"
proof -
  have "\<not> dhas c ''uid''" "\<not> dhas c ''dns_exception''" using assms(1) common_has by auto
  then have "dget (c @ t) ''uid'' = dget t ''uid''" "dget (c @ t) ''dns_exception'' = dget t ''dns_exception''"
    by (simp_all add: dget_def map_of_append_right del: map_of_append)
  then show "py_or (dget v ''uid'') (VInt 0) = py_or (dget t ''uid'') (VInt 0)"
    "truthy (dget v ''dns_exception'') = truthy (dget t ''dns_exception'')"
    using assms(2) by (simp_all add: agrees_def)
qed

lemma app_tail_lookup:
  "map_of (app_tail path uid scope ds req dns) ''path'' = Some (VStr path)"
  "map_of (app_tail path uid scope ds req dns) ''uid'' = Some uid"
  "map_of (app_tail path uid scope ds req dns) ''scope'' = Some scope"
  "map_of (app_tail path uid scope ds req dns) ''destinations'' = Some (VList ds)"
  "map_of (app_tail path uid scope ds req dns) ''all_applications'' = (if path = ''*'' then Some (VBool True) else None)"
  "map_of (app_tail path uid scope ds req dns) ''required_host'' = map_option VStr req"
  "map_of (app_tail path uid scope ds req dns) ''dns_exception'' = (if dns then Some (VBool True) else None)"
  "map_of (app_tail path uid scope ds req dns) ''renew'' = None"
  "map_of (app_tail path uid scope ds req dns) ''tier'' = None"
  "map_of (app_tail path uid scope ds req dns) ''review_required'' = None"
  by (simp_all add: app_tail_def split: option.splits)

lemma application_again:
  assumes c: "common_ok c" and t: "app_ok c t" and v: "agrees v (c @ t)"
    and len: "length (as_str (dget v ''required_host'')) \<le> 253"
      "list_all (\<lambda>d. dest_len d \<le> 253) (as_list (dget v ''destinations''))"
  shows "normalize_application e v (py_or (dget v ''uid'') (VInt 0)) c = Inr (c @ t)"
    and "valid_uid (py_or (dget v ''uid'') (VInt 0))"
proof -
  from t obtain path uid scope ds req dns where t': "t = app_tail path uid scope ds req dns"
    and p: "text_ok path 4096" "path_ok path (path = ''*'')"
    and u: "scope = VStr ''system'' \<and> uid = VNone \<or> scope = VStr ''user'' \<and> valid_uid uid"
    and d: "dests_ok ds" "length ds \<le> 32" and h: "\<forall>h. req = Some h \<longrightarrow> host_ok h"
    and dns: "dns \<longrightarrow> dns_exception_ok (dget c ''action'') path (ranges_of_val (dget c ''ports''))"
    unfolding app_ok_def by blast
  note look = tail_lookup [OF c v, unfolded common_has [OF c] t']
  have g: "map_of v ''path'' = Some (VStr path)" "map_of v ''scope'' = Some scope"
    "map_of v ''destinations'' = Some (VList ds)"
    "map_of v ''all_applications'' = (if path = ''*'' then Some (VBool True) else None)"
    "map_of v ''required_host'' = map_option VStr req"
    by (simp_all add: look app_tail_lookup)
  have ud: "py_or (dget v ''uid'') (VInt 0) = py_or uid (VInt 0)"
    using tail_uid(1) [OF c v] by (simp add: t' dget_def app_tail_lookup)
  have uid: "uid = VNone \<or> py_or uid (VInt 0) = uid"
    using u by (auto simp: py_or_def valid_uid_def split: val.splits)
  show "valid_uid (py_or (dget v ''uid'') (VInt 0))"
    unfolding ud using u by (auto simp: py_or_def valid_uid_def split: val.splits)
  have ds: "py_fold (add_destination e) [] ds = Inr ds"
    using refold_destinations [of "[]" ds e] d(1) len(2) by (simp add: dget_def g)
  have req: "(if truthy (dget v ''required_host'')
      then py_bind (host_name e (dget v ''required_host'')) (\<lambda>h. Inr [(''required_host'', VStr h)])
      else Inr []) = Inr (case req of None \<Rightarrow> [] | Some h \<Rightarrow> [(''required_host'', VStr h)])"
    using h len(1) host_name_fix by (cases req) (auto simp: dget_def g host_ok_def)
  have all: "(dget v ''all_applications'' = VBool True) = (path = ''*'')" by (simp add: dget_def g)
  have tr: "truthy (dget v ''dns_exception'') = dns"
    unfolding tail_uid(2) [OF c v] by (simp add: t' dget_def app_tail_lookup)
  have f: "dget_or v ''path'' w = VStr path" "dget_or v ''scope'' w = scope"
    "dget_or v ''destinations'' w = VList ds" for w
    by (simp_all add: dget_or_def dget_def g)
  have sc: "str_in scope [''user'', ''system'']" "(if scope = VStr ''system'' then VNone else py_or uid (VInt 0)) = uid"
    using u uid by (auto simp: valid_uid_def)
  show "normalize_application e v (py_or (dget v ''uid'') (VInt 0)) c = Inr (c @ t)"
    unfolding normalize_application_def Let_def f ud all req tr text_ok_field [OF p(1)] py_bind_Inr sc(2)
    using p(2) sc(1) d(2) dns by (simp add: ds t' app_tail_def)
qed

lemma incoming_again:
  assumes c: "common_ok c" and t: "in_ok c t" and v: "agrees v (c @ t)"
    and len: "length (as_str (dget v ''source'')) \<le> 80"
  shows "normalize_incoming v c = Inr (c @ t)" and "py_or (dget v ''uid'') (VInt 0) = VInt 0"
proof -
  from t obtain zone service source where t': "t = in_tail zone service source"
    and any: "\<not> py_mem (VStr ''any'') (as_list (dget c ''protocols''))"
    and z: "text_ok zone 80" "is_zone_name zone" "text_ok service 80" "service = [] \<or> is_zone_name service"
      "(service \<noteq> []) \<noteq> truthy (dget c ''ports'')"
      "service = [] \<or> dget c ''protocols'' = VList [VStr ''tcp'', VStr ''udp'']"
    and s: "source_ok source (dget c ''family'')"
    unfolding in_ok_def by blast
  note look = tail_lookup [OF c v, unfolded common_has [OF c] t' in_tail_def]
  have g: "map_of v ''zone'' = Some (VStr zone)" "map_of v ''service'' = Some (VStr service)"
    "map_of v ''source'' = Some (VStr source)"
    by (simp_all add: look)
  show "py_or (dget v ''uid'') (VInt 0) = VInt 0"
    using tail_uid [OF c v] by (simp add: t' in_tail_def py_or_def)
  have src: "text_field (VStr source) 80 = Inr source"
    using s len text_field_fix [of source 80] by (auto simp: source_ok_def dget_def g text_field_Inr py_strip_def lstrip_def rstrip_with_def)
  have fam: "incoming_source source (dget c ''family'') = Inr (source, dget c ''family'')"
    using s by (auto simp: source_ok_def incoming_source_def Let_def)
  have same: "dput c ''family'' (dget c ''family'') = c"
    using c by (auto simp: common_ok_def)
  have f: "dget_or v ''zone'' w = VStr zone" "dget_or v ''service'' w = VStr service"
    "dget_or v ''source'' w = VStr source" for w
    by (simp_all add: dget_or_def g)
  show "normalize_incoming v c = Inr (c @ t)"
    unfolding normalize_incoming_def f text_ok_field [OF z(1)] text_ok_field [OF z(3)] py_bind_Inr src fam
    using any z same by (simp add: t' in_tail_def)
qed

lemma renormalize:
  assumes r: "rule_ok r" "storable r" and v: "agrees v r"
    and boot: "dget r ''lifetime'' = VStr ''boot'' \<longrightarrow> truthy (boot_id e) \<or> truthy (dget r ''boot_id'')"
  shows "normalize e (VDict v) (py_or (dget v ''uid'') (VInt 0)) v (dget v ''updated_at'') = Inr r"
proof -
  from r(1) obtain c t where rt: "r = c @ t" and c: "common_ok c"
    and t: "if dget c ''provider'' = VStr ''application'' then app_ok c t else in_ok c t"
    unfolding rule_ok_def by blast
  have vt: "agrees v (c @ t)" using v rt by simp
  have get: "k \<notin> {''uid'', ''dns_exception''} \<Longrightarrow> dget v k = dget r k" for k using v by (simp add: dget_def agrees_def)
  have cget: "dhas c k \<Longrightarrow> dget v k = dget c k" for k
    using common_lookup [OF c vt] by (simp add: dget_def)
  have hc: "dhas c k" if "k \<in> {''name'', ''lifetime'', ''updated_at'', ''boot_id''}" for k
    using that common_has [OF c] by auto
  have renew: "map_of v ''renew'' = None"
  proof -
    have "map_of t ''renew'' = None"
    proof (cases "dget c ''provider'' = VStr ''application''")
      case True
      with t have "app_ok c t" by simp
      then obtain path uid scope ds req dns where "t = app_tail path uid scope ds req dns"
        unfolding app_ok_def by blast
      then show ?thesis by (simp only: app_tail_lookup)
    next
      case False
      with t have "in_ok c t" by simp
      then obtain a b d where "t = in_tail a b d" unfolding in_ok_def by blast
      then show ?thesis by (simp add: in_tail_def)
    qed
    then show ?thesis using tail_lookup [OF c vt, of "''renew''"] common_has [OF c, of "''renew''"] by simp
  qed
  have "normalize_common e v v (dget c ''updated_at'') = Inr c"
  proof (rule common_again [OF c])
    show "dget c ''name'' \<noteq> VStr []" using r(2) get [of "''name''"] cget [OF hc, of "''name''"] by (simp add: storable_def)
    show "dget c ''lifetime'' = VStr ''boot'' \<longrightarrow> truthy (boot_id e) \<or> truthy (dget c ''boot_id'')"
      using boot get [of "''lifetime''"] cget [OF hc, of "''lifetime''"]
        get [of "''boot_id''"] cget [OF hc, of "''boot_id''"] by simp
  qed (use common_lookup [OF c vt] renew in auto)
  moreover have up: "dget v ''updated_at'' = dget c ''updated_at''" by (rule cget, rule hc) simp
  moreover have "dget c ''updated_at'' \<noteq> VNone" by (rule common_updated [OF c])
  ultimately have common: "normalize_common e v v (if dget v ''updated_at'' = VNone then env_now e
      else dget v ''updated_at'') = Inr c" by simp
  have len: "length (as_str (dget v ''required_host'')) \<le> 253"
    "list_all (\<lambda>d. dest_len d \<le> 253) (as_list (dget v ''destinations''))"
    "length (as_str (dget v ''source'')) \<le> 80"
    using r(2) by (simp_all add: storable_def get)
  show ?thesis
  proof (cases "dget c ''provider'' = VStr ''application''")
    case True
    with t have "app_ok c t" by simp
    then show ?thesis
      using application_again [OF c _ vt len(1,2)] common True rt by (simp add: normalize_def)
  next
    case False
    with t have "in_ok c t" by simp
    then show ?thesis
      using incoming_again [OF c _ vt len(3)] common False rt
      by (simp add: normalize_def valid_uid_def)
  qed
qed

end
