(* ===== verification/Network_Rules_Matching.thy ===== *)
theory Network_Rules_Matching
  imports Network_Rules_Normal
begin

text \<open>
  What a normalized application rule means. A rule is read into the typed record
  \<open>app_rule\<close>; \<open>covers\<close> says declaratively which connections it selects, and \<open>matches\<close> is
  shown to decide exactly that without ever raising.
\<close>

section \<open>The typed view of a rule\<close>

datatype dest = HostDest string | DomainDest string | AddrDest ipaddr | NetDest ipnet

record app_rule =
  ar_path :: string
  ar_uid :: "int option"
  ar_protocols :: "string list"
  ar_family :: string
  ar_ports :: "(int \<times> int) list"
  ar_host :: "string option"
  ar_dests :: "dest list"

definition dest_of :: "val \<Rightarrow> dest" where
  "dest_of d = (let a = as_str (vget d ''value'') in
     if vget d ''kind'' = VStr ''host'' then HostDest a
     else if vget d ''kind'' = VStr ''domain'' then DomainDest a
     else if vget d ''kind'' = VStr ''ip'' then AddrDest (the (ip_address a))
     else NetDest (the (ip_network a)))"

definition app_of :: "dict \<Rightarrow> app_rule" where
  "app_of r = \<lparr>ar_path = as_str (dget r ''path''),
     ar_uid = (if dget r ''uid'' = VNone then None else Some (as_int (dget r ''uid''))),
     ar_protocols = map as_str (as_list (dget r ''protocols'')),
     ar_family = as_str (dget r ''family''), ar_ports = ranges_of_val (dget r ''ports''),
     ar_host = (if truthy (dget r ''required_host'') then Some (as_str (dget r ''required_host'')) else None),
     ar_dests = map dest_of (as_list (dget r ''destinations''))\<rparr>"

fun dest_covers :: "dest \<Rightarrow> string \<Rightarrow> ipaddr option \<Rightarrow> bool" where
  "dest_covers (HostDest h) host address \<longleftrightarrow> host = h"
| "dest_covers (DomainDest h) host address \<longleftrightarrow> host = h \<or> (\<exists>p. host = p @ ''.'' @ h)"
| "dest_covers (AddrDest a) host address \<longleftrightarrow> address = Some a"
| "dest_covers (NetDest n) host address \<longleftrightarrow> (\<exists>a. address = Some a \<and> ip_in_net a n)"

definition covers :: "app_rule \<Rightarrow> connection \<Rightarrow> bool" where
  "covers r c \<longleftrightarrow> (ar_path r = ''*'' \<or> ar_path r = c_process_path c)
     \<and> (\<forall>u. ar_uid r = Some u \<longrightarrow> u = c_user_id c)
     \<and> (''any'' \<in> set (ar_protocols r) \<or> conn_protocol c \<in> set (ar_protocols r))
     \<and> (ar_family r = ''any'' \<or> (\<exists>a. ip_address (c_dst_ip c) = Some a \<and> ar_family r = version_name a))
     \<and> (ar_ports r = [] \<or> in_ranges (c_dst_port c) (ar_ports r))
     \<and> (\<forall>h. ar_host r = Some h \<longrightarrow> conn_host c = h)
     \<and> (ar_dests r = [] \<or> (\<exists>d \<in> set (ar_dests r). dest_covers d (conn_host c) (ip_address (c_dst_ip c))))"

text \<open>When a rule is in force: enabled, not expired, and of this boot if it is a boot rule.\<close>

definition in_force :: "env \<Rightarrow> dict \<Rightarrow> bool" where
  "in_force e r \<longleftrightarrow> dget r ''enabled'' = VBool True
     \<and> (dget r ''expires_at'' = VNone
        \<or> (\<exists>x y. num_val (env_now e) = Some x \<and> num_val (dget r ''expires_at'') = Some y \<and> \<not> f_le y x))
     \<and> (dget r ''lifetime'' = VStr ''boot'' \<longrightarrow> py_eq (dget r ''boot_id'') (boot_id e))"

section \<open>Fields of a normalized rule\<close>

lemma common_fields:
  assumes "common_ok c"
  shows "is_bool (dget c ''enabled'')" "valid_protocols (dget c ''protocols'')"
    "\<exists>f. dget c ''family'' = VStr f" "\<exists>rs. dget c ''ports'' = ports_val rs \<and> ranges_canonical rs"
    "dget c ''expires_at'' = VNone \<or> valid_stamp (dget c ''expires_at'')"
proof -
  obtain i prov name desc act en fam ps rs life created updated expires boot where
    c: "c = [(''id'', i), (''provider'', prov), (''name'', VStr name), (''description'', VStr desc),
      (''action'', act), (''enabled'', en), (''family'', fam), (''protocols'', ps),
      (''ports'', ports_val rs), (''lifetime'', life), (''created_at'', created),
      (''updated_at'', updated), (''expires_at'', expires), (''boot_id'', boot)]"
    and f: "is_bool en" "valid_protocols ps" "str_in fam [''any'', ''ipv4'', ''ipv6'']"
      "ranges_canonical rs" "if timed life then valid_stamp expires else expires = VNone"
    using assms unfolding common_ok_def by blast
  show "is_bool (dget c ''enabled'')" "valid_protocols (dget c ''protocols'')"
    "\<exists>f. dget c ''family'' = VStr f" "\<exists>rs. dget c ''ports'' = ports_val rs \<and> ranges_canonical rs"
    "dget c ''expires_at'' = VNone \<or> valid_stamp (dget c ''expires_at'')"
    using f by (auto simp: c str_in_iff split: if_splits)
qed

lemma rule_get_common:
  "common_ok c \<Longrightarrow> dhas c k \<Longrightarrow> dget (c @ t) k = dget c k"
  "common_ok c \<Longrightarrow> dhas c k \<Longrightarrow> dindex (c @ t) k = Inr (dget c k)"
  "common_ok c \<Longrightarrow> dhas c k \<Longrightarrow> dget_or (c @ t) k w = dget c k"
  by (auto simp: dget_def dindex_def dget_or_def map_of_append_first dhas_def)

lemma rule_get_tail:
  "\<not> dhas c k \<Longrightarrow> dget (c @ t) k = dget t k" "\<not> dhas c k \<Longrightarrow> dindex (c @ t) k = dindex t k"
  by (simp_all add: dget_def dindex_def map_of_append_right del: map_of_append)

lemma valid_stamp_num: "valid_stamp v \<Longrightarrow> \<exists>q. num_val v = Some (Fin q)"
  by (auto simp: valid_stamp_def split: val.splits pyfloat.splits)

lemma lifecycle_rule:
  assumes c: "common_ok c" and t: "dget t ''review_required'' = VNone"
    and now: "num_val (env_now e) \<noteq> None"
  shows "\<exists>s. lifecycle e (c @ t) = Inr s \<and> (s = ''SAVED'' \<longleftrightarrow> in_force e (c @ t))"
proof -
  have h: "dhas c ''enabled''" "dhas c ''expires_at''" "dhas c ''lifetime''" "dhas c ''boot_id''"
    "\<not> dhas c ''review_required''" using common_has [OF c] by simp_all
  obtain b where b: "dget c ''enabled'' = VBool b"
    using common_fields(1) [OF c] by (cases "dget c ''enabled''") auto
  obtain x where x: "num_val (env_now e) = Some x" using now by auto
  note f = rule_get_common [OF c h(1)] rule_get_common [OF c h(2)] rule_get_common [OF c h(3)]
    rule_get_common [OF c h(4)] rule_get_tail [OF h(5)] b t
  show ?thesis
  proof (cases "dget c ''expires_at'' = VNone")
    case True
    then show ?thesis by (simp add: lifecycle_def in_force_def f)
  next
    case False
    then obtain q where q: "num_val (dget c ''expires_at'') = Some (Fin q)"
      using common_fields(5) [OF c] valid_stamp_num by blast
    show ?thesis using False x q by (simp add: lifecycle_def in_force_def f py_ge_def)
  qed
qed

section \<open>Ports and destinations\<close>

lemma port_hit_pair: "port_hit p (VList [VInt a, VInt b]) = Inr (a \<le> p \<and> p \<le> b)"
  by (simp add: py_ge_def)

lemma any_port_hit:
  "py_any (port_hit p) (map (\<lambda>(a, b). VList [VInt a, VInt b]) rs) = Inr (in_ranges p rs)"
proof -
  have "py_any (port_hit p) (map (\<lambda>(a, b). VList [VInt a, VInt b]) rs)
    = Inr (list_ex (\<lambda>v. fst (range_of_val v) \<le> p \<and> p \<le> snd (range_of_val v))
        (map (\<lambda>(a, b). VList [VInt a, VInt b]) rs))"
    by (rule py_any_total) (auto simp: port_hit_pair simp del: port_hit.simps)
  then show ?thesis by (auto simp: list_ex_iff in_ranges_def split_beta)
qed

lemma endswith_iff: "endswith s p \<longleftrightarrow> (\<exists>q. s = q @ p)"
proof
  assume "endswith s p"
  then have "rev s = rev p @ drop (length p) (rev s)"
    unfolding endswith_def startswith_def by (metis append_take_drop_id length_rev)
  then have "s = rev (drop (length p) (rev s)) @ p" by (metis rev_append rev_rev_ident)
  then show "\<exists>q. s = q @ p" by blast
qed (auto simp: endswith_def startswith_def)

lemma network_strict_canonical:
  "wf_net n \<Longrightarrow> ip_network_strict (VStr (net_str n)) = Some n"
  using split_net_str [of n] by (simp add: ip_network_str ip_address_str wf_net_def)

lemma destination_matches_typed:
  assumes "dest_typed d"
  shows "destination_matches host address d = Inr (dest_covers (dest_of d) host address)"
proof -
  from assms obtain kind a where d: "d = VDict [(''kind'', VStr kind), (''value'', VStr a)]"
    and k: "kind \<in> {''host'', ''domain''} \<and> host_ok a
       \<or> kind = ''ip'' \<and> (\<exists>x. wf_ip x \<and> a = ip_str x)
       \<or> kind = ''network'' \<and> (\<exists>n. wf_net n \<and> a = net_str n)"
    unfolding dest_typed_def by blast
  from k consider "kind = ''host''" | "kind = ''domain''"
    | x where "kind = ''ip''" "wf_ip x" "a = ip_str x"
    | n where "kind = ''network''" "wf_net n" "a = net_str n" by blast
  then show ?thesis
  proof cases
    case 3
    then show ?thesis by (cases address) (auto simp: d destination_matches_def dest_of_def ip_address_str)
  next
    case 4
    then show ?thesis
      by (cases address) (auto simp: d destination_matches_def dest_of_def network_strict_canonical
          ip_network_str simp del: ip_network_strict.simps)
  qed (auto simp: d destination_matches_def dest_of_def endswith_iff)
qed

lemma any_destination:
  "list_all dest_typed ds \<Longrightarrow> py_any (destination_matches host address) ds
    = Inr (\<exists>d \<in> set (map dest_of ds). dest_covers d host address)"
  using py_any_total [of ds "destination_matches host address" "\<lambda>d. dest_covers (dest_of d) host address"]
  by (auto simp: destination_matches_typed list_all_iff list_ex_iff)

lemma protocols_test:
  assumes "valid_protocols v"
  shows "py_in (VStr p) v = Inr (p \<in> set (map as_str (as_list v)))"
proof -
  obtain ps where v: "v = VList ps" and mem: "\<forall>q \<in> set ps. \<exists>s. q = VStr s"
    using assms by (auto simp: valid_protocols_def list_all_iff str_in_iff split: val.splits)
  have "py_mem (VStr p) ps \<longleftrightarrow> p \<in> as_str ` set ps"
    using mem by (force simp: py_mem_def list_ex_iff)
  then show ?thesis by (simp add: v)
qed

section \<open>matches decides coverage\<close>

lemma matches_app:
  assumes c: "common_ok c" and p: "dget c ''provider'' = VStr ''application''" and t: "app_ok c t"
    and now: "num_val (env_now e) \<noteq> None"
  shows "matches e (c @ t) k = Inr (in_force e (c @ t) \<and> covers (app_of (c @ t)) k)"
proof -
  from t obtain path uid scope ds req dns where t': "t = app_tail path uid scope ds req dns"
    and u: "uid = VNone \<or> valid_uid uid" and d: "list_all dest_typed ds"
    and hr: "\<forall>h. req = Some h \<longrightarrow> h \<noteq> []"
    unfolding app_ok_def host_ok_def by blast
  have hc: "dhas c ''provider''" "dhas c ''protocols''" "dhas c ''family''" "dhas c ''ports''"
    "\<not> dhas c ''path''" "\<not> dhas c ''uid''" "\<not> dhas c ''required_host''" "\<not> dhas c ''destinations''"
    "\<not> dhas c ''review_required''"
    using common_has [OF c] by simp_all
  obtain s where life: "lifecycle e (c @ t) = Inr s" "s = ''SAVED'' \<longleftrightarrow> in_force e (c @ t)"
    using lifecycle_rule [OF c _ now, of t] by (auto simp: t' dget_def app_tail_lookup)
  obtain f where f: "dget c ''family'' = VStr f" using common_fields(3) [OF c] by blast
  obtain rs where rs: "dget c ''ports'' = ports_val rs" using common_fields(4) [OF c] by blast
  note proto = protocols_test [OF common_fields(2) [OF c]]
  have tail: "dget t ''path'' = VStr path" "dindex t ''path'' = Inr (VStr path)" "dget t ''uid'' = uid"
    "dget t ''required_host'' = of_str_opt req" "dget t ''destinations'' = VList ds"
    "dindex t ''destinations'' = Inr (VList ds)"
    by (cases req; simp add: t' dget_def dindex_def app_tail_lookup)+
  note g = rule_get_common [OF c hc(1)] rule_get_common [OF c hc(2)] rule_get_common [OF c hc(3)]
    rule_get_common [OF c hc(4)] rule_get_tail [OF hc(5)] rule_get_tail [OF hc(6)]
    rule_get_tail [OF hc(7)] rule_get_tail [OF hc(8)] p f rs tail
  have uid: "uid = VNone \<or> py_eq uid (VInt (c_user_id k)) = (as_int uid = c_user_id k)"
    using u by (auto simp: valid_uid_def split: val.splits)
  have fam: "family_matches (VStr f) a \<longleftrightarrow> f = ''any'' \<or> (\<exists>x. a = Some x \<and> f = version_name x)" for a
    by (auto simp: family_matches_def split: option.splits)
  have req: "(truthy (of_str_opt req) \<and> of_str_opt req \<noteq> VStr h)
    \<longleftrightarrow> \<not> (\<forall>x. (if truthy (of_str_opt req) then Some (as_str (of_str_opt req)) else None) = Some x \<longrightarrow> h = x)" for h
    using hr by (cases req) auto
  have port: "(if truthy (ports_val rs) then py_bind (py_iter (ports_val rs)) (py_any (port_hit q)) else Inr True)
    = Inr (rs = [] \<or> in_ranges q rs)" for q
    using any_port_hit [of q rs] by (simp add: ports_val_def)
  have dest: "(if \<not> truthy (VList ds) then Inr True
      else py_bind (py_iter (VList ds)) (py_any (destination_matches h a)))
    = Inr (map dest_of ds = [] \<or> (\<exists>d \<in> set (map dest_of ds). dest_covers d h a))" for h a
    using any_destination [OF d, of h a] by simp
  show ?thesis
    unfolding matches_def Let_def g life(1) py_bind_Inr proto port fam dest
    using uid life(2) by (auto simp: covers_def app_of_def g req proto)
qed

end
