(* ===== verification/Py_Canon.thy ===== *)
theory Py_Canon
  imports Py_Runtime
begin

text \<open>
  Serialisation with sorted keys and equality of values: writing a value as JSON and
  loading it again (\<open>sort_keys\<close>) gives an equal value with the same entries.
\<close>

section \<open>Well-formed values\<close>

text \<open>Every dictionary inside the value has distinct keys.\<close>

fun wf_val :: "val \<Rightarrow> bool" where
  "wf_val (VList xs) = list_all wf_val xs"
| "wf_val (VDict d) = (distinct (map fst d) \<and> list_all (\<lambda>p. wf_val (snd p)) d)"
| "wf_val v = True"

definition wf_dict :: "dict \<Rightarrow> bool" where
  "wf_dict d \<longleftrightarrow> wf_val (VDict d)"

lemma wf_dict_iff: "wf_dict d \<longleftrightarrow> distinct (map fst d) \<and> list_all (\<lambda>p. wf_val (snd p)) d"
  by (simp add: wf_dict_def)

lemma map_of_map_snd: "map_of (map (\<lambda>(k, v). (k, f v)) d) k = map_option f (map_of d k)"
  by (induction d) auto

lemma fst_map_snd [simp]: "fst \<circ> (\<lambda>(k, v). (k, f v)) = fst"
  by (auto simp: fun_eq_iff)

lemma distinct_sort_keys [simp]: "distinct (map fst (sort_key fst d)) \<longleftrightarrow> distinct (map fst d)"
  by (simp add: distinct_map)

lemma map_of_sorted_map:
  assumes "distinct (map fst d)"
  shows "map_of (sort_key fst (map (\<lambda>(k, v). (k, f v)) d)) k = map_option f (map_of d k)"
proof -
  have "distinct (map fst (map (\<lambda>(k, v). (k, f v)) d))" using assms by simp
  then show ?thesis by (simp only: map_of_sort_key_fst map_of_map_snd)
qed

lemma sort_key_fst_map:
  assumes "distinct (map fst d)"
  shows "sort_key fst (map (\<lambda>(k, v). (k, f v)) (sort_key fst d)) = sort_key fst (map (\<lambda>(k, v). (k, f v)) d)"
proof (rule map_sorted_distinct_set_unique)
  let ?g = "\<lambda>(k, v). (k, f v)"
  have dist: "distinct (map fst (map ?g d))" "distinct (map fst (map ?g (sort_key fst d)))"
    using assms by simp_all
  have set: "set (map ?g (sort_key fst d)) = set (map ?g d)" by simp
  show "inj_on fst (set (sort_key fst (map ?g (sort_key fst d))) \<union> set (sort_key fst (map ?g d)))"
    using dist(1) set by (simp add: distinct_map del: set_map map_map)
  show "distinct (map fst (sort_key fst (map ?g (sort_key fst d))))" "distinct (map fst (sort_key fst (map ?g d)))"
    using assms by simp_all
qed simp_all

section \<open>Sorting the keys\<close>

lemma canon_sort_keys [simp]: "wf_val v \<Longrightarrow> canon (sort_keys v) = canon v"
proof (induction v)
  case (VDict d)
  let ?s = "map (\<lambda>(k, v). (k, sort_keys v)) d"
  have dist: "distinct (map fst ?s)" using VDict.prems by simp
  have same: "map (\<lambda>(k, v). (k, canon v)) ?s = map (\<lambda>(k, v). (k, canon v)) d"
    using VDict by (fastforce simp: list_all_iff)
  have "canon (sort_keys (VDict d)) = VDict (sort_key fst (map (\<lambda>(k, v). (k, canon v)) (sort_key fst ?s)))"
    by simp
  also have "\<dots> = VDict (sort_key fst (map (\<lambda>(k, v). (k, canon v)) ?s))"
    by (simp only: sort_key_fst_map [OF dist])
  finally show ?case by (simp only: same canon.simps)
qed (auto simp: list_all_iff)

lemma py_eq_sort_keys: "wf_val v \<Longrightarrow> py_eq u (sort_keys v) = py_eq u v"
  by (simp add: py_eq_def)

lemma sort_keys_idem [simp]: "wf_val v \<Longrightarrow> sort_keys (sort_keys v) = sort_keys v"
proof (induction v)
  case (VDict d)
  let ?s = "map (\<lambda>(k, v). (k, sort_keys v)) d"
  have dist: "distinct (map fst ?s)" using VDict.prems by simp
  have same: "map (\<lambda>(k, v). (k, sort_keys v)) ?s = ?s"
    using VDict by (fastforce simp: list_all_iff)
  show ?case using sort_key_fst_map [OF dist, of sort_keys] by (simp only: same sort_keys.simps)
qed (auto simp: list_all_iff)

lemma wf_sort_keys [simp]: "wf_val v \<Longrightarrow> wf_val (sort_keys v)"
proof (induction v)
  case (VDict d)
  have "distinct (map fst (sort_key fst (map (\<lambda>(k, v). (k, sort_keys v)) d)))"
    using VDict.prems by simp
  then show ?case using VDict by (fastforce simp: list_all_iff)
qed (auto simp: list_all_iff)

lemma json_sort_keys: "wf_val v \<Longrightarrow> json_dumps e a b (sort_keys v) = json_dumps e a b v"
proof (induction v)
  case (VList xs)
  have "map (\<lambda>x. json_dumps e a b (sort_keys x)) xs = map (json_dumps e a b) xs"
    using VList by (auto simp: list_all_iff)
  then show ?case by (simp only: sort_keys.simps json_dumps.simps map_map comp_def)
next
  case (VDict d)
  let ?s = "map (\<lambda>(k, v). (k, sort_keys v)) d"
  have dist: "distinct (map fst ?s)" using VDict.prems by simp
  have same: "map (\<lambda>(k, v). (k, json_dumps e a b v)) ?s = map (\<lambda>(k, v). (k, json_dumps e a b v)) d"
    using VDict by (fastforce simp: list_all_iff)
  show ?case
    using sort_key_fst_map [OF dist, of "json_dumps e a b"] by (simp only: same sort_keys.simps json_dumps.simps)
qed auto

definition sort_dict :: "dict \<Rightarrow> dict" where
  "sort_dict d = as_dict (sort_keys (VDict d))"

lemma sort_keys_dict: "sort_keys (VDict d) = VDict (sort_dict d)"
  by (simp add: sort_dict_def)

lemma map_of_sort_dict: "wf_dict d \<Longrightarrow> map_of (sort_dict d) k = map_option sort_keys (map_of d k)"
  using map_of_sorted_map [of d sort_keys k] by (simp add: sort_dict_def wf_dict_def)

lemma dget_sort_dict: "wf_dict d \<Longrightarrow> dget (sort_dict d) k = sort_keys (dget d k)"
  using map_of_sort_dict [of d k] by (simp add: dget_def split: option.splits)

lemma wf_map_of: "wf_dict d \<Longrightarrow> map_of d k = Some v \<Longrightarrow> wf_val v"
  by (force simp: wf_dict_iff list_all_iff dest: map_of_SomeD)

lemma wf_dget: "wf_dict d \<Longrightarrow> wf_val (dget d k)"
  using wf_map_of [of d k] by (simp add: dget_def split: option.splits)

lemma dhas_sort_dict: "wf_dict d \<Longrightarrow> dhas (sort_dict d) k = dhas d k"
  by (simp add: dhas_def map_of_sort_dict)

lemma wf_sort_dict: "wf_dict d \<Longrightarrow> wf_dict (sort_dict d)"
  using wf_sort_keys [of "VDict d"] by (simp add: wf_dict_def sort_keys_dict del: wf_val.simps sort_keys.simps)

lemma wf_dput: "wf_dict d \<Longrightarrow> wf_val v \<Longrightarrow> wf_dict (dput d k v)"
proof (induction d)
  case (Cons p d)
  obtain j w where p: "p = (j, w)" by fastforce
  have keys: "set (map fst (dput d k v)) = insert k (set (map fst d))" for d
    by (simp flip: dom_map_of_conv_image_fst)
  show ?case using Cons p keys [of d] by (auto simp: wf_dict_iff)
qed (simp add: wf_dict_iff)

text \<open>Equal values agree field by field.\<close>

lemma canon_map_of:
  assumes "wf_dict a" "wf_dict b" "py_eq (VDict a) (VDict b)"
  shows "map_option canon (map_of a k) = map_option canon (map_of b k)"
proof -
  have "map_of (sort_key fst (map (\<lambda>(k, v). (k, canon v)) a)) k
      = map_of (sort_key fst (map (\<lambda>(k, v). (k, canon v)) b)) k"
    using assms(3) by (simp add: py_eq_def)
  then show ?thesis using assms(1,2) map_of_sorted_map wf_dict_iff by metis
qed

lemma canon_scalar [simp]:
  "canon v = VStr s \<longleftrightarrow> v = VStr s" "canon v = VNone \<longleftrightarrow> v = VNone"
  "VStr s = canon v \<longleftrightarrow> v = VStr s" "VNone = canon v \<longleftrightarrow> v = VNone"
  by (cases v; auto)+

lemma canon_list: "canon v = VList ys \<longleftrightarrow> (\<exists>xs. v = VList xs \<and> ys = map canon xs)"
  by (cases v) auto

lemma canon_float: "canon v = VFloat f \<longleftrightarrow> num_val v = Some f"
  by (cases v) auto

end
