(* ===== verification/Network_Rules_Migrate.thy ===== *)
theory Network_Rules_Migrate
  imports Network_Rules_Matching Py_Canon
begin

text \<open>
  A policy that \<open>migrate\<close> accepted is accepted again, unchanged, after it was written
  with sorted keys and loaded, at a later time and in a later boot.
\<close>

section \<open>Values without numbers\<close>

fun numfree :: "val \<Rightarrow> bool" where
  "numfree (VList xs) = list_all numfree xs"
| "numfree (VDict d) = list_all (\<lambda>p. numfree (snd p)) d"
| "numfree (VBool b) = False"
| "numfree (VInt i) = False"
| "numfree (VFloat f) = False"
| "numfree v = True"

lemma sort_keys_numfree: "numfree (canon v) \<Longrightarrow> sort_keys v = canon v"
proof (induction v)
  case (VDict d)
  have "numfree (canon w)" if "(k, w) \<in> set d" for k w
    using VDict.prems that by (force simp: list_all_iff)
  then have "map (\<lambda>(k, v). (k, sort_keys v)) d = map (\<lambda>(k, v). (k, canon v)) d"
    using VDict.IH by fastforce
  then show ?case by (simp only: sort_keys.simps canon.simps)
qed (auto simp: list_all_iff)

lemma numfree_str_list: "numfree (VList (map VStr ss))" "canon (VList (map VStr ss)) = VList (map VStr ss)"
  by (simp_all add: list_all_iff)

lemma dest_typed_canon: "dest_typed d \<Longrightarrow> canon d = d \<and> numfree d"
proof -
  have "''kind'' \<le> ''value''" by code_simp
  then show "dest_typed d \<Longrightarrow> canon d = d \<and> numfree d"
    by (auto simp: dest_typed_def insort_key.simps)
qed

lemma dest_list_canon: "list_all dest_typed ds \<Longrightarrow> canon (VList ds) = VList ds \<and> numfree (VList ds)"
  using dest_typed_canon by (auto simp: list_all_iff intro: map_idI)

section \<open>The fields of an accepted rule\<close>

lemma sort_keys_scalar: "hashable v \<Longrightarrow> sort_keys v = v"
  by (cases v) (auto simp: hashable_def)

lemma stamp_scalar: "valid_stamp v \<Longrightarrow> hashable v"
  by (auto simp: valid_stamp_def hashable_def split: val.splits)

lemma port_num_canon: "port_num v = Some i \<Longrightarrow> canon v = VFloat f \<Longrightarrow> v = VInt i"
  by (cases v) (auto split: if_splits)

lemma port_entry_exact:
  assumes "canon y = VList [VFloat f, VFloat g]" and "port_range y = Inr q"
  shows "y = VList [VInt (fst q), VInt (snd q)]"
proof -
  obtain a b where y: "y = VList [a, b]" and c: "canon a = VFloat f" "canon b = VFloat g"
    using assms(1) by (auto simp: canon_list)
  from assms(2) y obtain i j where "port_num a = Some i" "port_num b = Some j" "q = (i, j)"
    by (auto simp: port_range_def split: option.splits)
  with c port_num_canon y show ?thesis by auto
qed

lemma ports_exact:
  assumes eq: "canon y = canon (ports_val rs)" and p: "port_ranges y = Inr qs"
  shows "y = ports_val rs"
proof -
  obtain ys where y: "y = VList ys" and m: "map canon ys = map (\<lambda>(a, b). VList [VFloat (Fin (of_int a)), VFloat (Fin (of_int b))]) rs"
    using eq by (auto simp: ports_val_def canon_list comp_def split_beta eq_commute)
  have ok: "\<exists>q. port_range z = Inr q" if "z \<in> set ys" for z
    using p that y by (auto simp: port_ranges_def port_list_def py_map_Inr_all2 py_bind_eq_Inr
        list_all2_conv_all_nth in_set_conv_nth split: if_splits)
  have len: "length ys = length rs" using m by (metis length_map)
  have "ys = map (\<lambda>(a, b). VList [VInt a, VInt b]) rs"
  proof (rule nth_equalityI)
    fix i assume i: "i < length ys"
    obtain a b where r: "rs ! i = (a, b)" by fastforce
    have c: "canon (ys ! i) = VList [VFloat (Fin (of_int a)), VFloat (Fin (of_int b))]"
      using arg_cong [OF m, of "\<lambda>l. l ! i"] i len r by simp
    obtain q where "port_range (ys ! i) = Inr q" using ok i by fastforce
    from port_entry_exact [OF c this] c show "ys ! i = map (\<lambda>(a, b). VList [VInt a, VInt b]) rs ! i"
      using i len r by auto
  qed (simp add: len)
  then show ?thesis by (simp add: y ports_val_def)
qed

lemma field_numfree:
  assumes "wf_dict item" "map_option canon (map_of item k) = Some (canon x)" "numfree x" "canon x = x"
  shows "map_of (sort_dict item) k = Some x"
proof -
  obtain y where y: "map_of item k = Some y" "canon y = x" using assms by auto
  then have "sort_keys y = x" using sort_keys_numfree [of y] assms(3) by simp
  with y assms(1) show ?thesis by (simp add: map_of_sort_dict)
qed

lemma field_scalar:
  assumes "wf_dict item" "map_option canon (map_of item k) = Some (canon x)"
    "\<And>y. map_of item k = Some y \<Longrightarrow> x = y" "hashable x"
  shows "map_of (sort_dict item) k = Some x"
  using assms by (auto simp: map_of_sort_dict sort_keys_scalar)

text \<open>The textual fields of a rule contain no numbers; the others are scalars.\<close>

lemma str_in_numfree: "str_in v ss \<Longrightarrow> numfree v \<and> canon v = v"
  by (auto simp: str_in_iff)

lemma common_values:
  assumes "common_ok c"
  shows "j \<in> {''family'', ''id'', ''provider'', ''name'', ''description'', ''action'', ''protocols'', ''lifetime''}
      \<Longrightarrow> \<exists>s. map_of c j = Some s \<and> numfree s \<and> canon s = s"
    and "j \<in> {''created_at'', ''updated_at'', ''expires_at'', ''enabled''} \<Longrightarrow> hashable (dget c j)"
proof -
  obtain i prov name desc act en fam ps rs life created updated expires boot where
    c: "c = [(''id'', i), (''provider'', prov), (''name'', VStr name), (''description'', VStr desc),
      (''action'', act), (''enabled'', en), (''family'', fam), (''protocols'', ps),
      (''ports'', ports_val rs), (''lifetime'', life), (''created_at'', created),
      (''updated_at'', updated), (''expires_at'', expires), (''boot_id'', boot)]"
    and f: "valid_rule_id i" "str_in prov [''application'', ''incoming'']" "str_in act [''allow'', ''deny'']"
      "is_bool en" "str_in fam [''any'', ''ipv4'', ''ipv6'']" "sorted_protocols ps = ps"
      "str_in life [''permanent'', ''boot'', ''15m'', ''1h'']" "valid_stamp created" "valid_stamp updated"
      "if timed life then valid_stamp expires else expires = VNone"
    using assms unfolding common_ok_def by blast
  have ps: "numfree ps \<and> canon ps = ps"
    using f(6) numfree_str_list unfolding sorted_protocols_def by metis
  have id: "numfree i \<and> canon i = i" using f(1) by (auto simp: valid_rule_id_def split: val.splits)
  show "\<exists>s. map_of c j = Some s \<and> numfree s \<and> canon s = s"
    if "j \<in> {''family'', ''id'', ''provider'', ''name'', ''description'', ''action'', ''protocols'', ''lifetime''}"
    using that str_in_numfree [OF f(2)] str_in_numfree [OF f(3)] str_in_numfree [OF f(5)]
      str_in_numfree [OF f(7)] ps id
    unfolding c by (elim insertE emptyE) simp_all
  have "hashable expires" using f(10) stamp_scalar by (auto simp: hashable_def split: if_splits)
  moreover have "hashable en" using f(4) by (cases en) (simp_all add: hashable_def)
  ultimately show "hashable (dget c j)"
    if "j \<in> {''created_at'', ''updated_at'', ''expires_at'', ''enabled''}"
    using that stamp_scalar [OF f(8)] stamp_scalar [OF f(9)] unfolding c
    by (elim insertE emptyE) simp_all
qed

lemma accepted_common:
  assumes c: "normalize_common e item item (if ct = VNone then env_now e else ct) = Inr c"
    and ct: "ct = dget_or item ''updated_at'' (env_now e)"
    and eq: "\<And>k. dhas c k \<Longrightarrow> k \<noteq> ''family'' \<Longrightarrow>
      map_option canon (map_of item k) = map_option canon (map_of c k)"
    and wf: "wf_dict item" and boot: "hashable (dget item ''boot_id'')" and renew: "map_of item ''renew'' = None"
    and k: "dhas c k" "k \<noteq> ''family''"
  shows "map_of (sort_dict item) k = map_of c k"
  using c
proof (cases rule: normalize_commonE)
  case (1 name desc rs expires life ps)
  note E = 1
  define now where "now = (if ct = VNone then env_now e else ct)"
  have ok: "common_ok c" by (rule normalize_common_ok [OF c])
  have f: "map_of c ''enabled'' = Some (dget_or item ''enabled'' (VBool True))"
    "map_of c ''ports'' = Some (ports_val rs)" "map_of c ''lifetime'' = Some life"
    "map_of c ''created_at'' = Some (dget_or item ''created_at'' now)"
    "map_of c ''updated_at'' = Some now" "map_of c ''expires_at'' = Some expires"
    "map_of c ''boot_id'' = Some (rule_boot_id e item item life)"
    by (simp_all add: E(11) now_def)
  have cn: "map_option canon (map_of item j) = Some (canon x)" if "map_of c j = Some x" "j \<noteq> ''family''" for j x
    using eq [of j] that by (simp add: dhas_def)
  have copied: "map_of (sort_dict item) j = Some x"
    if "map_of c j = Some x" "j \<noteq> ''family''" "\<And>y. map_of item j = Some y \<Longrightarrow> x = y" "hashable x" for j x
    using field_scalar [OF wf cn] that by blast
  have textual: "map_of (sort_dict item) j = map_of c j"
    if j: "j \<in> {''id'', ''provider'', ''name'', ''description'', ''action'', ''protocols'', ''lifetime''}" for j
  proof -
    obtain s where s: "map_of c j = Some s" "numfree s" "canon s = s"
      using common_values(1) [OF ok insertI2 [OF j]] by blast
    have "j \<noteq> ''family''" using j by (elim insertE emptyE) simp_all
    then have "map_of (sort_dict item) j = Some s" by (rule field_numfree [OF wf cn [OF s(1)] s(2,3)])
    with s show ?thesis by simp
  qed
  have h: "hashable (dget_or item ''enabled'' (VBool True))" "hashable (dget_or item ''created_at'' now)"
    "hashable now" "hashable expires"
    using common_values(2) [OF ok, of "''enabled''"] common_values(2) [OF ok, of "''created_at''"]
      common_values(2) [OF ok, of "''updated_at''"] common_values(2) [OF ok, of "''expires_at''"]
    by (simp_all add: dget_def f)
  have life: "map_of item ''lifetime'' = Some life"
    using cn [OF f(3)] str_in_numfree [OF E(4)] by (auto simp: E(1) dget_or_def)
  have expires: "map_of (sort_dict item) ''expires_at'' = Some expires"
  proof (rule copied [OF f(6) _ _ h(4)])
    fix y assume y: "map_of item ''expires_at'' = Some y"
    show "expires = y"
    proof (cases "timed life")
      case True
      then show ?thesis
        using E(8) renew life y by (simp add: rule_expiry_def timed_def dget_def dget_or_def)
    next
      case False
      then have "expires = VNone" using E(8) by (simp add: rule_expiry_def timed_def)
      then show ?thesis using cn [OF f(6)] y by simp
    qed
  qed simp
  have bt: "rule_boot_id e item item life = y" if "map_of item ''boot_id'' = Some y" for y
    using that cn [OF f(7)] renew by (auto simp: rule_boot_id_def dget_or_def)
  have boot_id: "map_of (sort_dict item) ''boot_id'' = map_of c ''boot_id''"
  proof -
    obtain y where y: "map_of item ''boot_id'' = Some y" using cn [OF f(7)] by auto
    then have "hashable y" using boot by (simp add: dget_def)
    then show ?thesis using copied [OF f(7)] bt [OF y] bt f(7) by simp
  qed
  have ports: "map_of (sort_dict item) ''ports'' = Some (ports_val rs)"
  proof -
    obtain y where y: "map_of item ''ports'' = Some y" "canon y = canon (ports_val rs)" using cn [OF f(2)] by auto
    then have "y = ports_val rs" using ports_exact E(7) by (simp add: dget_or_def)
    then show ?thesis using y wf by (simp add: map_of_sort_dict ports_val_def comp_def split_beta)
  qed
  have enabled: "map_of (sort_dict item) ''enabled'' = map_of c ''enabled''"
    using copied [OF f(1) _ _ h(1)] f(1) by (simp add: dget_or_def)
  have created: "map_of (sort_dict item) ''created_at'' = map_of c ''created_at''"
    using copied [OF f(4) _ _ h(2)] f(4) by (simp add: dget_or_def)
  have "now = y" if "map_of item ''updated_at'' = Some y" for y
  proof -
    have "canon y = canon now" using cn [OF f(5)] that by simp
    then show ?thesis using that common_updated [OF ok] f(5) by (auto simp: now_def ct dget_or_def dget_def split: if_splits)
  qed
  then have updated: "map_of (sort_dict item) ''updated_at'' = map_of c ''updated_at''"
    using copied [OF f(5) _ _ h(3)] f(5) by simp
  have "k \<in> {''id'', ''provider'', ''name'', ''description'', ''action'', ''protocols'', ''lifetime''}
    \<or> k = ''expires_at'' \<or> k = ''boot_id'' \<or> k = ''ports'' \<or> k = ''enabled'' \<or> k = ''created_at'' \<or> k = ''updated_at''"
    using k common_has [OF ok] by auto
  then show ?thesis
    using textual [of k] expires boot_id ports enabled created updated f by (elim disjE) simp_all
qed

section \<open>An accepted rule agrees with its canonical form\<close>

lemma truthy_sort_keys [simp]: "truthy (sort_keys v) = truthy v"
proof (cases v)
  case (VDict d)
  have "sort_key fst (map (\<lambda>(k, v). (k, sort_keys v)) d) = [] \<longleftrightarrow> d = []"
    by (metis length_map length_sort list.map_disc_iff length_0_conv)
  with VDict show ?thesis by simp
qed auto

lemma wf_dict_append:
  "wf_dict a \<Longrightarrow> wf_dict b \<Longrightarrow> set (map fst a) \<inter> set (map fst b) = {} \<Longrightarrow> wf_dict (a @ b)"
  by (simp add: wf_dict_iff)

lemma numfree_wf: "dest_typed d \<Longrightarrow> wf_val d"
  by (auto simp: dest_typed_def)

lemma common_wf: assumes "common_ok c" "wf_val (dget c ''boot_id'')" shows "wf_dict c"
proof -
  obtain i prov name desc act en fam ps rs life created updated expires boot where
    c: "c = [(''id'', i), (''provider'', prov), (''name'', VStr name), (''description'', VStr desc),
      (''action'', act), (''enabled'', en), (''family'', fam), (''protocols'', ps),
      (''ports'', ports_val rs), (''lifetime'', life), (''created_at'', created),
      (''updated_at'', updated), (''expires_at'', expires), (''boot_id'', boot)]"
    and f: "valid_rule_id i" "str_in prov [''application'', ''incoming'']" "str_in act [''allow'', ''deny'']"
      "is_bool en" "str_in fam [''any'', ''ipv4'', ''ipv6'']" "sorted_protocols ps = ps"
      "str_in life [''permanent'', ''boot'', ''15m'', ''1h'']" "valid_stamp created" "valid_stamp updated"
      "if timed life then valid_stamp expires else expires = VNone"
    using assms unfolding common_ok_def by blast
  have str: "str_in v ss \<Longrightarrow> wf_val v" for v ss by (auto simp: str_in_iff)
  have scalar: "hashable v \<Longrightarrow> wf_val v" for v by (cases v) (auto simp: hashable_def)
  have "wf_val ps" using f(6) unfolding sorted_protocols_def
    by (metis (mono_tags, lifting) ex_map_conv list_all_iff wf_val.simps(1,7))
  moreover have "wf_val (ports_val rs)" by (auto simp: ports_val_def list_all_iff)
  moreover have "wf_val i" using f(1) by (auto simp: valid_rule_id_def split: val.splits)
  moreover have "wf_val expires" using f(10) stamp_scalar scalar by (auto split: if_splits)
  moreover have "wf_val en" using f(4) by (cases en) auto
  ultimately show ?thesis
    using f assms(2) str stamp_scalar [THEN scalar] unfolding c by (simp add: wf_dict_iff)
qed

lemma app_tail_wf: "wf_val uid \<Longrightarrow> wf_val scope \<Longrightarrow> list_all wf_val ds \<Longrightarrow> wf_dict (app_tail path uid scope ds req dns)"
  by (cases req) (simp_all add: app_tail_def wf_dict_iff)

lemma app_tail_keys: "set (map fst (app_tail path uid scope ds req dns)) \<subseteq>
    {''path'', ''uid'', ''scope'', ''destinations'', ''all_applications'', ''required_host'', ''dns_exception''}"
  by (cases req; cases "path = ''*''"; cases dns) (simp_all add: app_tail_def)

lemma rule_wf: assumes "rule_ok n" "wf_val (dget n ''boot_id'')" shows "wf_dict n"
proof -
  from assms(1) obtain c t where n: "n = c @ t" and c: "common_ok c"
    and t: "if dget c ''provider'' = VStr ''application'' then app_ok c t else in_ok c t"
    unfolding rule_ok_def by blast
  have "dhas c ''boot_id''" using common_has [OF c] by simp
  then have "wf_val (dget c ''boot_id'')" using assms(2) rule_get_common(1) [OF c] n by simp
  then have wc: "wf_dict c" by (rule common_wf [OF c])
  show ?thesis
  proof (cases "dget c ''provider'' = VStr ''application''")
    case True
    with t have "app_ok c t" by simp
    then obtain path uid scope ds req dns where t': "t = app_tail path uid scope ds req dns"
      and u: "scope = VStr ''system'' \<and> uid = VNone \<or> scope = VStr ''user'' \<and> valid_uid uid"
      and d: "list_all dest_typed ds" unfolding app_ok_def by blast
    have "wf_val uid" "wf_val scope" using u by (auto simp: valid_uid_def split: val.splits)
    moreover have "list_all wf_val ds" using d numfree_wf by (simp add: list_all_iff)
    ultimately have "wf_dict t" unfolding t' by (rule app_tail_wf)
    moreover have "set (map fst c) \<inter> set (map fst t) = {}"
      unfolding common_keys [OF c] t' using app_tail_keys [of path uid scope ds req dns] by fastforce
    ultimately show ?thesis unfolding n using wc by (intro wf_dict_append)
  next
    case False
    with t have "in_ok c t" by simp
    then obtain z s o' where t': "t = in_tail z s o'" unfolding in_ok_def by blast
    have "wf_dict t" by (simp add: t' in_tail_def wf_dict_iff)
    moreover have "set (map fst c) \<inter> set (map fst t) = {}"
      unfolding common_keys [OF c] t' in_tail_def by simp
    ultimately show ?thesis unfolding n using wc by (intro wf_dict_append)
  qed
qed

text \<open>The assumptions under which the stored rule \<open>item\<close> was accepted with canonical form \<open>n\<close>.\<close>

definition accepted :: "env \<Rightarrow> dict \<Rightarrow> dict \<Rightarrow> bool" where
  "accepted e item n \<longleftrightarrow> wf_dict item \<and> hashable (dget item ''boot_id'')
     \<and> normalize e (VDict item) (py_or (dget item ''uid'') (VInt 0)) item
          (dget_or item ''updated_at'' (env_now e)) = Inr n
     \<and> py_eq (VDict n) (VDict item)"

lemma boot_id_wf: "hashable (boot_id e)"
  by (cases "env_boot e") (simp_all add: boot_id_def hashable_def)

lemma rule_boot_hashable:
  "hashable (dget item ''boot_id'') \<Longrightarrow> hashable (rule_boot_id e v item life)"
  using boot_id_wf [of e] by (auto simp: rule_boot_id_def dget_or_def dget_def hashable_def split: option.splits)

lemma hashable_wf: "hashable v \<Longrightarrow> wf_val v"
  by (cases v) (auto simp: hashable_def)

lemma dput_family: "dget (dput c ''family'' f @ t) ''boot_id'' = dget (c @ t) ''boot_id''"
  by (simp add: dget_def map_add_def)

lemma accepted_wf:
  assumes "accepted e item n" shows "wf_dict n" and "rule_ok n"
proof -
  have N: "normalize e (VDict item) (py_or (dget item ''uid'') (VInt 0)) item
    (dget_or item ''updated_at'' (env_now e)) = Inr n" and h: "hashable (dget item ''boot_id'')"
    using assms by (simp_all add: accepted_def)
  show "rule_ok n" by (rule normalize_ok [OF N])
  have "hashable (dget n ''boot_id'')"
    using N
  proof (cases rule: normalizeE)
    case (1 v c)
    have ok: "common_ok c" by (rule normalize_common_ok [OF 1(3)])
    have "dget c ''boot_id'' = rule_boot_id e v item (dget_or v ''lifetime'' (VStr ''permanent''))"
      using 1(3) by (cases rule: normalize_commonE) simp
    then have hc: "hashable (dget c ''boot_id'')" using rule_boot_hashable [OF h] by simp
    have has: "dhas c ''boot_id''" using common_has [OF ok] by simp
    have "dget n ''boot_id'' = dget c ''boot_id''"
    proof (cases "dget c ''provider'' = VStr ''application''")
      case True
      with 1 obtain t where "n = c @ t" using normalize_application_ok by fastforce
      then show ?thesis using rule_get_common(1) [OF ok has] by simp
    next
      case False
      with 1(4) have "normalize_incoming v c = Inr n" by simp
      then obtain f t where "n = dput c ''family'' f @ t" by (cases rule: normalize_incomingE) auto
      then show ?thesis using rule_get_common(1) [OF ok has] by (simp add: dput_family)
    qed
    with hc show ?thesis by simp
  qed
  then show "wf_dict n" using \<open>rule_ok n\<close> hashable_wf by (intro rule_wf)
qed

lemma accepted_field:
  assumes "accepted e item n" shows "map_option canon (map_of item k) = map_option canon (map_of n k)"
  using canon_map_of [OF accepted_wf(1) [OF assms], of item k] assms by (simp add: accepted_def)

lemma accepted_absent: "accepted e item n \<Longrightarrow> map_of n k = None \<Longrightarrow> map_of item k = None"
  using accepted_field [of e item n k] by simp

lemma accepted_numfree:
  assumes "accepted e item n" "map_of n k = Some x" "numfree x" "canon x = x"
  shows "map_of (sort_dict item) k = Some x"
  using assms accepted_field [OF assms(1), of k] field_numfree [of item k x] by (simp add: accepted_def)

lemma accepted_common_part:
  assumes acc: "accepted e item n" and n: "map_of n ''renew'' = None"
    and c: "normalize_common e item item (if ct = VNone then env_now e else ct) = Inr c"
    and ct: "ct = dget_or item ''updated_at'' (env_now e)"
    and same: "\<And>k. dhas c k \<Longrightarrow> k \<noteq> ''family'' \<Longrightarrow> map_of n k = map_of c k"
    and k: "dhas c k" "k \<noteq> ''family''"
  shows "map_of (sort_dict item) k = map_of n k"
proof -
  have "map_of (sort_dict item) k = map_of c k"
    using c ct _ _ _ _ k
  proof (rule accepted_common)
    show "map_option canon (map_of item j) = map_option canon (map_of c j)"
      if "dhas c j" "j \<noteq> ''family''" for j
      using same [OF that] accepted_field [OF acc, of j] by simp
    show "wf_dict item" "hashable (dget item ''boot_id'')" using acc by (simp_all add: accepted_def)
    show "map_of item ''renew'' = None" by (rule accepted_absent [OF acc n])
  qed
  then show ?thesis using same [OF k] by simp
qed

lemma accepted_uid:
  assumes acc: "accepted e item n"
    and uid: "map_of n ''uid'' = None \<or> map_of n ''uid'' = Some VNone
      \<or> (map_of n ''uid'' = Some (py_or (dget item ''uid'') (VInt 0)) \<and> valid_uid (py_or (dget item ''uid'') (VInt 0)))"
  shows "py_or (dget (sort_dict item) ''uid'') (VInt 0) = py_or (dget n ''uid'') (VInt 0)"
proof -
  have wf: "wf_dict item" using acc by (simp add: accepted_def)
  note F = accepted_field [OF acc, of "''uid''"]
  from uid show ?thesis
  proof (elim disjE conjE)
    assume "map_of n ''uid'' = Some (py_or (dget item ''uid'') (VInt 0))"
      and v: "valid_uid (py_or (dget item ''uid'') (VInt 0))"
    then have n: "dget n ''uid'' = py_or (dget item ''uid'') (VInt 0)" by (simp add: dget_def)
    show ?thesis
    proof (cases "truthy (dget item ''uid'')")
      case True
      then obtain i where "dget item ''uid'' = VInt i"
        using v by (auto simp: py_or_def valid_uid_def split: val.splits)
      then show ?thesis using wf n by (simp add: dget_sort_dict py_or_def)
    next
      case False
      then show ?thesis using wf n by (simp add: dget_sort_dict py_or_def)
    qed
  qed (use F wf in \<open>auto simp: dget_def map_of_sort_dict\<close>)
qed

lemma accepted_dns:
  assumes acc: "accepted e item n"
    and dns: "map_of n ''dns_exception'' = (if truthy (dget item ''dns_exception'') then Some (VBool True) else None)"
  shows "truthy (dget (sort_dict item) ''dns_exception'') = truthy (dget n ''dns_exception'')"
  using dns acc by (simp add: dget_sort_dict accepted_def dget_def [of n])

lemma star_not_slash: "\<not> startswith ''*'' ''/''"
  by (simp add: startswith_def)

text \<open>Each element of a list of stored destinations carries the length of its canonical form.\<close>

lemma fold_destination_lengths:
  assumes "py_fold (add_destination e) as xs = Inr ds" "x \<in> set xs"
  shows "length (as_str (vget x ''value'')) \<le> 253 \<or> \<not> is_str (vget x ''value'')"
  using assms
proof (induction xs arbitrary: as)
  case (Cons y ys)
  then obtain bs where b: "add_destination e as y = Inr bs" "py_fold (add_destination e) bs ys = Inr ds"
    by (auto simp: py_simps)
  from b(1) have "\<exists>d t. y = VDict d \<and> text_field (dget d ''value'') 253 = Inr t"
    by (auto simp: add_destination_def py_simps split: val.splits)
  then have "length (as_str (vget y ''value'')) \<le> 253" by (auto simp: text_field_Inr)
  with Cons b show ?case by auto
qed simp

lemma accepted_destinations:
  assumes acc: "accepted e item n" and d: "map_of n ''destinations'' = Some (VList ds)" "list_all dest_typed ds"
    and it: "dget_or item ''destinations'' (VList []) = VList dests" "py_fold (add_destination e) [] dests = Inr ds"
  shows "list_all (\<lambda>d. dest_len d \<le> 253) ds"
proof -
  have s: "map_of (sort_dict item) ''destinations'' = Some (VList ds)"
    using accepted_numfree [OF acc d(1)] dest_list_canon [OF d(2)] by simp
  have wf: "wf_dict item" using acc by (simp add: accepted_def)
  then obtain y where y: "map_of item ''destinations'' = Some y" "sort_keys y = VList ds"
    using s by (auto simp: map_of_sort_dict)
  then have yd: "y = VList dests" using it(1) by (simp add: dget_or_def)
  have "dest_len d \<le> 253" if "d \<in> set ds" for d
  proof -
    from that y yd obtain x where x: "x \<in> set dests" "d = sort_keys x" by auto
    have "wf_val y" using wf_map_of [OF wf y(1)] .
    with x yd have wx: "wf_val x" by (simp add: list_all_iff)
    have "dest_typed d" using d(2) that by (simp add: list_all_iff)
    then obtain k a where dk: "d = VDict [(''kind'', VStr k), (''value'', VStr a)]"
      unfolding dest_typed_def by blast
    then obtain xd where xd: "x = VDict xd" using x(2) by (cases x) auto
    have "wf_dict xd" using wx xd by (simp add: wf_dict_def)
    moreover have "sort_dict xd = [(''kind'', VStr k), (''value'', VStr a)]"
      using x(2) dk xd by (simp add: sort_dict_def)
    ultimately have "sort_keys (dget xd ''value'') = VStr a"
      using dget_sort_dict [of xd "''value''"] by simp
    then have "vget x ''value'' = VStr a" using xd by (cases "dget xd ''value''") auto
    then show ?thesis using fold_destination_lengths [OF it(2) x(1)] dk by (simp add: dest_len_def)
  qed
  then show ?thesis by (simp add: list_all_iff)
qed

text \<open>The name is not empty, since an empty stored name would have been replaced.\<close>

lemma accepted_name:
  assumes acc: "accepted e item n" and c: "normalize_common e item item now = Inr c"
    and same: "map_of n ''name'' = map_of c ''name''"
  shows "dget n ''name'' \<noteq> VStr []"
  using c
proof (cases rule: normalize_commonE)
  case (1 name desc rs expires life ps)
  have nm: "map_of n ''name'' = Some (VStr name)" using same 1(11) by simp
  have it: "map_of item ''name'' = Some (VStr name)" using accepted_field [OF acc, of "''name''"] nm by auto
  have "name \<noteq> []"
  proof
    assume "name = []"
    then have "text_field (VStr ''Network rule'') 160 = Inr []" using 1(5) it by (simp add: dget_def py_or_def)
    then have "py_strip ''Network rule'' = []" by (auto simp: text_field_Inr)
    then show False by (simp add: py_strip_def lstrip_def rstrip_with_def is_space_def code_def)
  qed
  then show ?thesis using nm by (simp add: dget_def)
qed

lemma normalize_application_tail:
  assumes "normalize_application e v actor c = Inr r"
  obtains path scope dests ds req where
    "path_ok path (dget v ''all_applications'' = VBool True)"
    "dget_or v ''destinations'' (VList []) = VList dests" "py_fold (add_destination e) [] dests = Inr ds"
    "\<And>h. req = Some h \<Longrightarrow> host_name e (dget v ''required_host'') = Inr h"
    "str_in scope [''user'', ''system'']"
    "r = c @ app_tail path (if scope = VStr ''system'' then VNone else actor) scope ds req
       (truthy (dget v ''dns_exception''))"
  using assms
proof (cases rule: normalize_applicationE)
  case (1 path required dests ds scope)
  show ?thesis
  proof (cases "truthy (dget v ''required_host'')")
    case True
    with 1(5) obtain h where h: "host_name e (dget v ''required_host'') = Inr h"
      "required = [(''required_host'', VStr h)]" by (auto simp: py_simps)
    show ?thesis by (rule that [OF 1(2) 1(6) 1(8) _ 1(4), of "Some h"]) (use 1(10) h in \<open>simp_all add: app_tail_def\<close>)
  next
    case False
    with 1(5) have "required = []" by simp
    then show ?thesis by (intro that [OF 1(2) 1(6) 1(8) _ 1(4), of None]) (use 1(10) in \<open>simp_all add: app_tail_def\<close>)
  qed
qed

lemma tail_values:
  assumes "map_of (app_tail path uid scope ds req dns) k = Some x" "k \<notin> {''uid'', ''dns_exception'', ''all_applications''}"
    "str_in scope ss" "list_all dest_typed ds"
  shows "numfree x \<and> canon x = x"
proof -
  have "k \<in> {''path'', ''uid'', ''scope'', ''destinations'', ''all_applications'', ''required_host'', ''dns_exception''}"
    using app_tail_keys [of path uid scope ds req dns] map_of_SomeD [OF assms(1)] by force
  then have "k = ''path'' \<or> k = ''scope'' \<or> k = ''destinations'' \<or> k = ''required_host''"
    using assms(2) by (elim insertE emptyE) simp_all
  then show ?thesis
    using assms(1) str_in_numfree [OF assms(3)] dest_list_canon [OF assms(4)]
    by (elim disjE; simp add: app_tail_lookup) auto
qed

lemma accepted_application:
  assumes acc: "accepted e item n"
    and c: "normalize_common e item item (if ct = VNone then env_now e else ct) = Inr c"
    and ct: "ct = dget_or item ''updated_at'' (env_now e)"
    and p: "dget c ''provider'' = VStr ''application''"
    and a: "normalize_application e item (py_or (dget item ''uid'') (VInt 0)) c = Inr n"
    and u: "valid_uid (py_or (dget item ''uid'') (VInt 0))"
  shows "agrees (sort_dict item) n \<and> storable n"
  using a
proof (cases rule: normalize_application_tail)
  case (1 path scope dests ds req)
  define uid where "uid = (if scope = VStr ''system'' then VNone else py_or (dget item ''uid'') (VInt 0))"
  define dns where "dns = truthy (dget item ''dns_exception'')"
  define t where "t = app_tail path uid scope ds req dns"
  have n: "n = c @ t" by (simp add: 1(6) t_def uid_def dns_def)
  have ok: "common_ok c" by (rule normalize_common_ok [OF c])
  have d: "list_all dest_typed ds" by (rule fold_destinations_typed [OF 1(3)])
  have inc: "dhas c k \<Longrightarrow> map_of n k = map_of c k" for k unfolding n by (rule map_of_append_first)
  have tl: "\<not> dhas c k \<Longrightarrow> map_of n k = map_of t k" for k unfolding n by (rule map_of_append_right)
  have nc: "\<not> dhas c ''renew''" "\<not> dhas c ''uid''" "\<not> dhas c ''dns_exception''" "\<not> dhas c ''all_applications''"
    "\<not> dhas c ''destinations''" "\<not> dhas c ''required_host''" "\<not> dhas c ''source''"
    "dhas c ''family''" "dhas c ''name''" using common_has [OF ok] by simp_all
  have fields: "map_of (sort_dict item) k = map_of n k" if k: "k \<notin> {''uid'', ''dns_exception''}" for k
  proof (cases "map_of n k")
    case None
    then show ?thesis using accepted_absent [OF acc None] acc by (simp add: map_of_sort_dict accepted_def)
  next
    case (Some x)
    consider "dhas c k" "k \<noteq> ''family''" | "k = ''family''" | "\<not> dhas c k" "k = ''all_applications''"
      | "\<not> dhas c k" "k \<noteq> ''all_applications''" by blast
    then show ?thesis
    proof cases
      case 1
      have r: "map_of n ''renew'' = None" using tl [OF nc(1)] by (simp add: t_def app_tail_lookup)
      show ?thesis by (rule accepted_common_part [OF acc r c ct inc 1])
    next
      case 2
      then show ?thesis
        using common_values(1) [OF ok insertI1] accepted_numfree [OF acc] inc [OF nc(8)] by metis
    next
      case 3
      then have "path = ''*''" "x = VBool True"
        using Some tl [OF nc(4)] by (auto simp: t_def app_tail_lookup split: if_splits)
      moreover have "dget item ''all_applications'' = VBool True"
        using 1(1) \<open>path = ''*''\<close> star_not_slash by (simp add: path_ok_def)
      ultimately show ?thesis
        using Some 3 acc by (auto simp: map_of_sort_dict accepted_def dget_def split: option.splits)
    next
      case 4
      then have "numfree x \<and> canon x = x"
        using Some tl [of k] k tail_values [of path uid scope ds req dns k x] 1(5) d by (simp add: t_def)
      then show ?thesis using accepted_numfree [OF acc Some] Some by simp
    qed
  qed
  have "py_or (dget (sort_dict item) ''uid'') (VInt 0) = py_or (dget n ''uid'') (VInt 0)"
    by (rule accepted_uid [OF acc]) (use u tl [OF nc(2)] in \<open>simp add: t_def app_tail_lookup uid_def\<close>)
  moreover have "truthy (dget (sort_dict item) ''dns_exception'') = truthy (dget n ''dns_exception'')"
    by (rule accepted_dns [OF acc]) (use tl [OF nc(3)] in \<open>simp add: t_def app_tail_lookup dns_def\<close>)
  ultimately have "agrees (sort_dict item) n" using fields by (simp add: agrees_def)
  moreover have "storable n"
  proof -
    have "list_all (\<lambda>d. dest_len d \<le> 253) ds"
      using accepted_destinations [OF acc _ d 1(2,3)] tl [OF nc(5)] by (simp add: t_def app_tail_lookup)
    moreover have "length (as_str (dget n ''required_host'')) \<le> 253"
    proof (cases req)
      case (Some h)
      then have "map_of item ''required_host'' = Some (VStr h)"
        using accepted_field [OF acc, of "''required_host''"] tl [OF nc(6)] by (auto simp: t_def app_tail_lookup)
      then have "length h \<le> 253"
        using 1(4) [OF Some] by (auto simp: host_name_def py_simps dget_def text_field_Inr)
      then show ?thesis using Some tl [OF nc(6)] by (simp add: dget_def t_def app_tail_lookup)
    qed (use tl [OF nc(6)] in \<open>simp add: dget_def t_def app_tail_lookup\<close>)
    moreover have "map_of t ''source'' = None" by (cases req) (simp_all add: t_def app_tail_def)
    moreover have "dget n ''name'' \<noteq> VStr []" by (rule accepted_name [OF acc c inc [OF nc(9)]])
    ultimately show ?thesis
      using tl [OF nc(5)] tl [OF nc(7)] by (simp add: storable_def dget_def t_def app_tail_lookup)
  qed
  ultimately show ?thesis by simp
qed

lemma accepted_incoming:
  assumes acc: "accepted e item n"
    and c: "normalize_common e item item (if ct = VNone then env_now e else ct) = Inr c"
    and ct: "ct = dget_or item ''updated_at'' (env_now e)"
    and a: "normalize_incoming item c = Inr n"
  shows "agrees (sort_dict item) n \<and> storable n"
  using a
proof (cases rule: normalize_incomingE)
  case (1 zone service source s' f')
  define t where "t = in_tail zone service s'"
  have ok: "common_ok c" by (rule normalize_common_ok [OF c])
  have fam: "str_in f' [''any'', ''ipv4'', ''ipv6'']"
    using incoming_family [OF 1(9)] ok by (auto simp: common_ok_def)
  have ok': "common_ok (dput c ''family'' f')" by (rule common_ok_family [OF ok fam])
  have n: "n = dput c ''family'' f' @ t" by (simp add: 1(10) t_def)
  have inc: "dhas c k \<Longrightarrow> map_of n k = map_of (dput c ''family'' f') k" for k
    unfolding n by (rule map_of_append_first) simp
  have tl: "\<not> dhas c k \<Longrightarrow> k \<noteq> ''family'' \<Longrightarrow> map_of n k = map_of t k" for k
    unfolding n by (rule map_of_append_right) simp
  have nc: "\<not> dhas c ''renew''" "\<not> dhas c ''uid''" "\<not> dhas c ''dns_exception''" "\<not> dhas c ''source''"
    "\<not> dhas c ''destinations''" "\<not> dhas c ''required_host''" "dhas c ''family''" "dhas c ''name''"
    using common_has [OF ok] by simp_all
  have absent: "map_of n k = None" if "k \<in> {''renew'', ''uid'', ''dns_exception'', ''destinations'', ''required_host''}" for k
    using that tl nc by (elim insertE emptyE) (simp_all add: t_def in_tail_def)
  have fields: "map_of (sort_dict item) k = map_of n k" for k
  proof (cases "map_of n k")
    case None
    then show ?thesis using accepted_absent [OF acc None] acc by (simp add: map_of_sort_dict accepted_def)
  next
    case (Some x)
    consider "dhas c k" "k \<noteq> ''family''" | "k = ''family''" | "\<not> dhas c k" "k \<noteq> ''family''" by blast
    then show ?thesis
    proof cases
      case 1
      show ?thesis by (rule accepted_common_part [OF acc absent c ct _ 1]) (simp_all add: inc)
    next
      case 2
      then show ?thesis using accepted_numfree [OF acc, of k f'] str_in_numfree [OF fam] inc [OF nc(7)] by simp
    next
      case 3
      then have "numfree x \<and> canon x = x"
        using Some tl [of k] by (auto simp: t_def in_tail_def split: if_splits)
      then show ?thesis using accepted_numfree [OF acc Some] Some by simp
    qed
  qed
  have "agrees (sort_dict item) n" by (simp add: agrees_def fields dget_def)
  moreover have "length s' \<le> 80"
  proof -
    have "map_of n ''source'' = Some (VStr s')" using tl [OF nc(4)] by (simp add: t_def in_tail_def)
    then have it: "map_of item ''source'' = Some (VStr s')"
      using accepted_field [OF acc, of "''source''"] by auto
    then show ?thesis using 1(8) by (auto simp: dget_or_def text_field_Inr)
  qed
  moreover have "dget n ''name'' \<noteq> VStr []" by (rule accepted_name [OF acc c]) (simp add: inc [OF nc(8)])
  ultimately show ?thesis
    using absent tl [OF nc(4)] by (simp add: storable_def dget_def t_def in_tail_def)
qed

lemma accepted_agrees:
  assumes acc: "accepted e item n"
  shows "agrees (sort_dict item) n" and "storable n"
    and "dget n ''lifetime'' = VStr ''boot'' \<Longrightarrow> truthy (boot_id e) \<or> truthy (dget n ''boot_id'')"
proof -
  define ct where "ct = dget_or item ''updated_at'' (env_now e)"
  have "normalize e (VDict item) (py_or (dget item ''uid'') (VInt 0)) item ct = Inr n"
    using acc by (simp add: accepted_def ct_def)
  then have "(agrees (sort_dict item) n \<and> storable n) \<and>
    (dget n ''lifetime'' = VStr ''boot'' \<longrightarrow> truthy (boot_id e) \<or> truthy (dget n ''boot_id''))"
  proof (cases rule: normalizeE)
    case (1 v c)
    have v: "v = item" using 1(1) by simp
    note u = 1(2) and c = 1(3) [unfolded v] and r = 1(4) [unfolded v]
    have both: "agrees (sort_dict item) n \<and> storable n"
    proof (cases "dget c ''provider'' = VStr ''application''")
      case True
      with r show ?thesis by (intro accepted_application [OF acc c ct_def True _ u]) simp
    next
      case False
      with r show ?thesis by (intro accepted_incoming [OF acc c ct_def]) simp
    qed
    have "truthy (boot_id e) \<or> truthy (dget n ''boot_id'')" if b: "dget n ''lifetime'' = VStr ''boot''"
    proof -
      have it: "dget item ''lifetime'' = VStr ''boot''" "dget_or item ''lifetime'' w = VStr ''boot''" for w
        using b accepted_field [OF acc, of "''lifetime''"] by (auto simp: dget_def dget_or_def split: option.splits)
      have "truthy (boot_id e) \<or> truthy (dget item ''boot_id'')"
        using c
      proof (cases rule: normalize_commonE)
        case (1 name desc rs expires life ps)
        then show ?thesis using it(2) by simp
      qed
      moreover have "map_of (sort_dict item) ''boot_id'' = map_of n ''boot_id''"
        using both by (simp add: agrees_def)
      then have "sort_keys (dget item ''boot_id'') = dget n ''boot_id''"
        using acc dget_sort_dict [of item "''boot_id''"] by (simp add: dget_def accepted_def)
      ultimately show ?thesis using truthy_sort_keys by metis
    qed
    with both show ?thesis by simp
  qed
  then show "agrees (sort_dict item) n" "storable n"
    "dget n ''lifetime'' = VStr ''boot'' \<Longrightarrow> truthy (boot_id e) \<or> truthy (dget n ''boot_id'')" by simp_all
qed

lemma accepted_again:
  assumes acc: "accepted e item n" and boot: "truthy (boot_id e')"
  shows "normalize e' (VDict (sort_dict item)) (py_or (dget (sort_dict item) ''uid'') (VInt 0)) (sort_dict item)
      (dget_or (sort_dict item) ''updated_at'' w) = Inr n"
    and "py_eq (VDict n) (VDict (sort_dict item))"
proof -
  have "map_of (sort_dict item) ''updated_at'' = map_of n ''updated_at''"
    using accepted_agrees(1) [OF acc] by (simp add: agrees_def)
  moreover have "\<exists>v. map_of n ''updated_at'' = Some v"
  proof -
    obtain c t where "n = c @ t" "common_ok c" using accepted_wf(2) [OF acc] by (auto simp: rule_ok_def)
    moreover from this have "dhas c ''updated_at''" using common_has by simp
    ultimately show ?thesis using map_of_append_first [of c "''updated_at''" t] by (auto simp: dhas_def)
  qed
  ultimately have "dget_or (sort_dict item) ''updated_at'' w = dget (sort_dict item) ''updated_at''"
    by (auto simp: dget_or_def dget_def)
  then show "normalize e' (VDict (sort_dict item)) (py_or (dget (sort_dict item) ''uid'') (VInt 0)) (sort_dict item)
      (dget_or (sort_dict item) ''updated_at'' w) = Inr n"
    using renormalize [OF accepted_wf(2) [OF acc] accepted_agrees(2,1) [OF acc]] boot by simp
  show "py_eq (VDict n) (VDict (sort_dict item))"
    using acc py_eq_sort_keys [of "VDict item" "VDict n"]
    by (simp add: accepted_def sort_keys_dict wf_dict_def del: wf_val.simps sort_keys.simps)
qed

section \<open>An accepted policy is accepted again\<close>

text \<open>Two runs on one machine: the digest functions are the same, time and boot may differ.\<close>

definition same_host :: "env \<Rightarrow> env \<Rightarrow> bool" where
  "same_host e e' \<longleftrightarrow> env_sha256 e' = env_sha256 e \<and> env_float_repr e' = env_float_repr e"

lemma json_same_host: "same_host e e' \<Longrightarrow> json_dumps e' a b v = json_dumps e a b v"
proof (induction v)
  case (VList xs)
  then have "map (json_dumps e' a b) xs = map (json_dumps e a b) xs" by auto
  then show ?case by (simp only: json_dumps.simps)
next
  case (VDict d)
  then have "map (\<lambda>(k, v). (k, json_dumps e' a b v)) d = map (\<lambda>(k, v). (k, json_dumps e a b v)) d" by fastforce
  then show ?case by (simp only: json_dumps.simps)
qed (auto simp: same_host_def split: pyfloat.splits)

lemma rule_id_again:
  assumes "wf_dict r" "same_host e e'" "hashable (rule_id e r)"
  shows "rule_id e' (sort_dict r) = rule_id e r"
proof -
  have "json_dumps e' a b (VDict (sort_dict r)) = json_dumps e a b (VDict r)" for a b
    using json_sort_keys [of "VDict r" e' a b] json_same_host [OF assms(2)] assms(1)
    by (simp only: sort_keys_dict wf_dict_def)
  then have "rule_digest e' (VDict (sort_dict r)) = rule_digest e (VDict r)"
    using assms(2) by (simp only: rule_digest_def same_host_def)
  then show ?thesis
    using assms(1,3) sort_keys_scalar by (auto simp: rule_id_def py_or_def dget_sort_dict)
qed

lemma py_int_sort_keys [simp]: "py_int (sort_keys v) = py_int v"
  by (cases v) auto

lemma ip_address_val_sort_keys [simp]: "ip_address_val (sort_keys v) = ip_address_val v"
  by (cases v) auto

lemma sort_keys_eq_str [simp]: "sort_keys v = VStr s \<longleftrightarrow> v = VStr s"
  by (cases v) auto

lemma dget_or_sort_dict: "wf_dict r \<Longrightarrow> hashable w \<Longrightarrow> dget_or (sort_dict r) k w = sort_keys (dget_or r k w)"
  by (auto simp: dget_or_def map_of_sort_dict sort_keys_scalar split: option.splits)

lemma check_threat_exception_again:
  assumes "wf_dict r" shows "check_threat_exception (sort_dict r) = check_threat_exception r"
  using assms by (cases "dget_or r ''path'' (VStr [])")
    (simp_all add: check_threat_exception_def dget_sort_dict dget_or_sort_dict hashable_def cong: if_cong)

lemma stored_rule_id_again:
  assumes "stored_rule_id e (VDict r) = Inr i" "hashable i" "wf_dict r" "hashable (dget r ''boot_id'')"
    and "same_host e e'" "truthy (boot_id e')"
  shows "stored_rule_id e' (VDict (sort_dict r)) = Inr i"
proof -
  have tier: "is_threat_exception (sort_dict r) = is_threat_exception r"
    using assms(3) by (simp add: is_threat_exception_def dget_sort_dict)
  show ?thesis
  proof (cases "is_threat_exception r")
    case True
    then have "check_threat_exception r = Inr ()" "i = rule_id e r"
      using assms(1) by (auto simp: stored_rule_id_def py_simps)
    then show ?thesis
      using True tier assms rule_id_again check_threat_exception_again by (simp add: stored_rule_id_def)
  next
    case False
    then obtain n where "normalize e (VDict r) (py_or (dget r ''uid'') (VInt 0)) r
        (dget_or r ''updated_at'' (env_now e)) = Inr n" "py_eq (VDict n) (VDict r)" and i: "dindex r ''id'' = Inr i"
      using assms(1) by (auto simp: stored_rule_id_def py_simps Let_def)
    then have acc: "accepted e r n" using assms by (simp add: accepted_def)
    have "dindex (sort_dict r) ''id'' = Inr i"
      using i assms(2,3) by (auto simp: dindex_def map_of_sort_dict sort_keys_scalar split: option.splits)
    then show ?thesis
      using accepted_again [OF acc assms(6)] False tier by (simp add: stored_rule_id_def Let_def)
  qed
qed

definition wf_policy :: "dict \<Rightarrow> bool" where
  "wf_policy p \<longleftrightarrow> wf_dict p \<and> (\<forall>r \<in> set (as_list (dget p ''rules'')). hashable (vget r ''boot_id''))"

definition has_defaults :: "dict \<Rightarrow> bool" where
  "has_defaults p \<longleftrightarrow> (\<forall>k \<in> {''default_action'', ''default_duration'', ''interactive_prompts'', ''dns_policy'', ''threat_intel''}. dhas p k)"

lemma policy_defaults_has: "has_defaults (policy_defaults p)"
  by (simp add: has_defaults_def policy_defaults_def)

lemma policy_defaults_id: "has_defaults p \<Longrightarrow> policy_defaults p = p"
  by (simp add: has_defaults_def policy_defaults_def dsetdefault_def)

text \<open>What \<open>migrate\<close> checks of a policy of the current schema.\<close>

definition current_ok :: "env \<Rightarrow> dict \<Rightarrow> bool" where
  "current_ok e p \<longleftrightarrow> dget p ''schema'' = VStr RULES_SCHEMA
     \<and> (\<exists>rs. map_of p ''rules'' = Some (VList rs) \<and> list_all is_dict rs \<and> length rs \<le> MAX_RULES
          \<and> (\<exists>ids. py_map (stored_rule_id e) rs = Inr ids \<and> check_identifiers ids = Inr ()))
     \<and> str_in (dget p ''default_action'') [''allow'', ''deny'', ''reject'']
     \<and> py_eq (dget p ''dns_policy'') dns_policy_const \<and> valid_revision (dget p ''revision'') \<and> has_defaults p"


lemma current_migrate:
  assumes "dget p ''schema'' = VStr RULES_SCHEMA" "has_defaults p"
  shows "migrate e (VDict p) = Inr q \<longleftrightarrow> q = p \<and> current_ok e p"
proof -
  have u: "x = ()" for x :: unit by simp
  have "current_ok e p \<longleftrightarrow> valid_policy_shape (VDict p) \<and> str_in (dget p ''default_action'') [''allow'', ''deny'', ''reject'']
     \<and> py_eq (dget p ''dns_policy'') dns_policy_const \<and> check_current e p = Inr ()
     \<and> length (as_list (dget p ''rules'')) \<le> MAX_RULES"
    using assms by (cases "map_of p ''rules''")
      (auto simp: current_ok_def valid_policy_shape_def check_current_def dindex_def dget_or_def dget_def
        py_simps u split: val.splits)
  then show ?thesis
    using assms by (auto simp: migrate_def policy_defaults_id py_simps Let_def not_less u)
qed

lemma policy_defaults_idem: "policy_defaults (policy_defaults p) = policy_defaults p"
  by (rule policy_defaults_id [OF policy_defaults_has])

lemma dget_policy_defaults:
  assumes "k \<notin> {''default_action'', ''default_duration'', ''interactive_prompts'', ''dns_policy'', ''threat_intel''}"
  shows "map_of (policy_defaults p) k = map_of p k"
  using assms by (simp add: policy_defaults_def dsetdefault_def)

lemma migrate_defaults: "migrate e (VDict (policy_defaults p)) = migrate e (VDict p)"
proof -
  have "dget_or (policy_defaults p) ''rules'' w = dget_or p ''rules'' w" for w
    by (simp add: dget_or_def dget_policy_defaults)
  then show ?thesis by (simp add: migrate_def policy_defaults_idem valid_policy_shape_def)
qed

lemma migrate_current:
  assumes "migrate e (VDict p) = Inr q" "dget p ''schema'' = VStr RULES_SCHEMA"
  shows "q = policy_defaults p" and "current_ok e q"
proof -
  have "dget (policy_defaults p) ''schema'' = VStr RULES_SCHEMA"
    using assms(2) by (simp add: dget_def dget_policy_defaults)
  from current_migrate [OF this policy_defaults_has] assms(1)
  show "q = policy_defaults p" "current_ok e q" by (simp_all add: migrate_defaults)
qed

lemma wf_policy_defaults: "wf_policy p \<Longrightarrow> wf_policy (policy_defaults p)"
  by (auto simp: wf_policy_def policy_defaults_def dsetdefault_def dns_policy_const_def
      intro!: wf_dput split: if_splits)

lemma stored_rule_ids_again:
  assumes "py_map (stored_rule_id e) rs = Inr ids" "check_identifiers ids = Inr ()"
    "list_all is_dict rs" "list_all wf_val rs" "\<forall>r \<in> set rs. hashable (vget r ''boot_id'')"
    "same_host e e'" "truthy (boot_id e')"
  shows "py_map (stored_rule_id e') (map sort_keys rs) = Inr ids"
proof -
  have h: "hashable i" if "i \<in> set ids" for i
    using assms(2) that by (auto simp: check_identifiers_def list_ex_iff split: if_splits)
  have "list_all2 (\<lambda>r i. stored_rule_id e' (sort_keys r) = Inr i) rs ids"
  proof (rule list_all2_all_nthI)
    show len: "length rs = length ids" using py_map_Inr_length [OF assms(1)] by simp
    fix j assume j: "j < length rs"
    then obtain d where d: "rs ! j = VDict d" using assms(3)
      by (metis is_dict.elims(2) list_all_length)
    have "stored_rule_id e (VDict d) = Inr (ids ! j)"
      using assms(1) j d by (auto simp: py_map_Inr_all2 list_all2_conv_all_nth)
    moreover have "wf_dict d" using assms(4) j d unfolding wf_dict_def by (metis list_all_length)
    moreover have "hashable (dget d ''boot_id'')" using assms(5) j d by (metis nth_mem vget_VDict)
    ultimately show "stored_rule_id e' (sort_keys (rs ! j)) = Inr (ids ! j)"
      using stored_rule_id_again h assms(6,7) j len d by (metis nth_mem sort_keys_dict)
  qed
  then show ?thesis by (simp add: py_map_Inr_all2 list_all2_map1)
qed

lemma current_ok_again:
  assumes ok: "current_ok e q" and wf: "wf_policy q" and env: "same_host e e'" "truthy (boot_id e')"
    and i: "0 \<le> i"
  defines "d \<equiv> sort_dict (dput q ''revision'' (VInt i))"
  shows "current_ok e' d"
proof -
  obtain rs ids where rs: "map_of q ''rules'' = Some (VList rs)" "list_all is_dict rs" "length rs \<le> MAX_RULES"
    and ids: "py_map (stored_rule_id e) rs = Inr ids" "check_identifiers ids = Inr ()"
    using ok unfolding current_ok_def by blast
  have wq: "wf_dict q" using wf by (simp add: wf_policy_def)
  have w: "wf_dict (dput q ''revision'' (VInt i))" by (rule wf_dput [OF wq]) simp
  have g: "k \<noteq> ''revision'' \<Longrightarrow> dget d k = sort_keys (dget q k)" for k
    by (simp add: d_def dget_sort_dict [OF w])
  have "list_all wf_val rs" using wf_map_of [OF wq rs(1)] by simp
  moreover have "\<forall>r \<in> set rs. hashable (vget r ''boot_id'')" using wf rs(1) by (simp add: wf_policy_def dget_def)
  ultimately have "py_map (stored_rule_id e') (map sort_keys rs) = Inr ids"
    by (rule stored_rule_ids_again [OF ids rs(2) _ _ env])
  moreover have "map_of d ''rules'' = Some (VList (map sort_keys rs))"
    using rs(1) by (simp add: d_def map_of_sort_dict [OF w])
  moreover have "list_all is_dict (map sort_keys rs)"
    using rs(2) by (auto simp: list_all_iff elim!: is_dict.elims(2))
  moreover have "dget d ''schema'' = VStr RULES_SCHEMA" using ok g by (simp add: current_ok_def)
  moreover have "str_in (dget d ''default_action'') [''allow'', ''deny'', ''reject'']"
    using ok g by (auto simp: current_ok_def str_in_iff)
  moreover have "py_eq (dget d ''dns_policy'') dns_policy_const"
    using ok g canon_sort_keys [OF wf_dget [OF wq]] by (simp add: current_ok_def py_eq_def)
  moreover have "dget d ''revision'' = VInt i"
    by (simp add: d_def dget_sort_dict [OF w])
  moreover have "has_defaults d"
    using ok by (simp add: current_ok_def has_defaults_def d_def dhas_sort_dict [OF w])
  ultimately show ?thesis
    using rs(3) ids(2) i unfolding current_ok_def by (auto simp: valid_revision_def)
qed

end
