(* ===== verification/Py_State.thy ===== *)
theory Py_State
  imports Py_Runtime
begin

text \<open>
  Python code with state: an action takes the world and returns a value or an exception
  together with the world it leaves behind. An exception keeps the effects made before it.
\<close>

type_synonym ('w, 'a) act = "'w \<Rightarrow> 'a py \<times> 'w"

definition s_ret :: "'a \<Rightarrow> ('w, 'a) act" where
  "s_ret x w = (Inr x, w)"

definition s_raise :: "exc \<Rightarrow> ('w, 'a) act" where
  "s_raise e w = (Inl e, w)"

definition s_lift :: "'a py \<Rightarrow> ('w, 'a) act" where
  "s_lift m w = (m, w)"

definition s_bind :: "('w, 'a) act \<Rightarrow> ('a \<Rightarrow> ('w, 'b) act) \<Rightarrow> ('w, 'b) act" where
  "s_bind m f w = (case m w of (Inl e, w') \<Rightarrow> (Inl e, w') | (Inr x, w') \<Rightarrow> f x w')"

definition s_get :: "('w \<Rightarrow> 'a) \<Rightarrow> ('w, 'a) act" where
  "s_get f w = (Inr (f w), w)"

definition s_modify :: "('w \<Rightarrow> 'w) \<Rightarrow> ('w, unit) act" where
  "s_modify f w = (Inr (), f w)"

text \<open>\<open>try: m except P as e: h e\<close>.\<close>

definition s_catch :: "('w, 'a) act \<Rightarrow> (exc \<Rightarrow> bool) \<Rightarrow> (exc \<Rightarrow> ('w, 'a) act) \<Rightarrow> ('w, 'a) act" where
  "s_catch m P h w = (case m w of (Inl e, w') \<Rightarrow> if P e then h e w' else (Inl e, w') | (Inr x, w') \<Rightarrow> (Inr x, w'))"

text \<open>The outcome of \<open>m\<close> as a value, for code that goes on after an exception.\<close>

definition s_try :: "('w, 'a) act \<Rightarrow> ('w, 'a py) act" where
  "s_try m w = (case m w of (r, w') \<Rightarrow> (Inr r, w'))"

text \<open>\<open>try: m finally: f\<close> for a clean-up that cannot raise.\<close>

definition s_finally :: "('w, 'a) act \<Rightarrow> ('w \<Rightarrow> 'w) \<Rightarrow> ('w, 'a) act" where
  "s_finally m f w = (case m w of (r, w') \<Rightarrow> (r, f w'))"

definition s_guard :: "bool \<Rightarrow> exc \<Rightarrow> ('w, unit) act" where
  "s_guard b e w = (if b then Inr () else Inl e, w)"

fun s_fold :: "('a \<Rightarrow> 'b \<Rightarrow> ('w, 'a) act) \<Rightarrow> 'a \<Rightarrow> 'b list \<Rightarrow> ('w, 'a) act" where
  "s_fold f a [] = s_ret a"
| "s_fold f a (x # xs) = s_bind (f a x) (\<lambda>b. s_fold f b xs)"

named_theorems act_simps

lemma s_bind_eq_Inr [act_simps]:
  "s_bind m f w = (Inr y, w'') \<longleftrightarrow> (\<exists>x w'. m w = (Inr x, w') \<and> f x w' = (Inr y, w''))"
  by (auto simp: s_bind_def split: prod.splits sum.splits)

lemma s_bind_eq_Inl [act_simps]:
  "s_bind m f w = (Inl e, w'') \<longleftrightarrow> m w = (Inl e, w'') \<or> (\<exists>x w'. m w = (Inr x, w') \<and> f x w' = (Inl e, w''))"
  by (auto simp: s_bind_def split: prod.splits sum.splits)

lemma s_simps [simp, act_simps]:
  "s_ret x w = (Inr x, w)" "s_raise e w = (Inl e, w)" "s_lift m w = (m, w)" "s_get f w = (Inr (f w), w)"
  "s_modify g w = (Inr (), g w)"
  by (simp_all add: s_ret_def s_raise_def s_lift_def s_get_def s_modify_def)

lemma s_bind_simps [simp]:
  "s_bind (s_ret x) f w = f x w" "s_bind (s_raise e) f w = (Inl e, w)" "s_bind (s_get g) f w = f (g w) w"
  "s_bind (s_modify k) h w = h () (k w)" "s_bind (s_lift (Inr x)) f w = f x w"
  "s_bind (s_lift (Inl e)) f w = (Inl e, w)"
  by (simp_all add: s_bind_def)

lemma s_guard_eq [act_simps]:
  "s_guard b e w = (Inr u, w') \<longleftrightarrow> b \<and> w' = w" "s_guard b e w = (Inl x, w') \<longleftrightarrow> \<not> b \<and> x = e \<and> w' = w"
  by (auto simp: s_guard_def)

lemma s_finally_eq [act_simps]: "s_finally m f w = (r, w') \<longleftrightarrow> (\<exists>v. m w = (r, v) \<and> w' = f v)"
  by (cases "m w") (auto simp: s_finally_def)

lemma s_try_eq [act_simps]: "s_try m w = (r, w') \<longleftrightarrow> (\<exists>x. m w = (x, w') \<and> r = Inr x)"
  by (cases "m w") (auto simp: s_try_def)

lemma s_fold_invariant:
  assumes "s_fold f a xs w = (Inr b, w')" and "P a w"
    and "\<And>a x b w w'. x \<in> set xs \<Longrightarrow> P a w \<Longrightarrow> f a x w = (Inr b, w') \<Longrightarrow> P b w'"
  shows "P b w'"
  using assms
proof (induction xs arbitrary: a w)
  case (Cons x xs)
  then obtain c v where "f a x w = (Inr c, v)" "s_fold f c xs v = (Inr b, w')" by (auto simp: act_simps)
  moreover from this have "P c v" using Cons.prems(2,3) by (meson list.set_intros(1))
  ultimately show ?case using Cons.IH Cons.prems(3) by (meson list.set_intros(2))
qed simp

lemma s_bind_cong [fundef_cong]:
  "m = m' \<Longrightarrow> (\<And>x. f x = g x) \<Longrightarrow> s_bind m f = s_bind m' g"
proof -
  assume "m = m'" and "\<And>x. f x = g x"
  moreover from this have "f = g" by (intro ext) simp
  ultimately show ?thesis by simp
qed

section \<open>What an action leaves alone\<close>

text \<open>\<open>keeps f m\<close>: the observation \<open>f\<close> of the world is the same after \<open>m\<close>, also when it raises.\<close>

definition keeps :: "('w \<Rightarrow> 'o) \<Rightarrow> ('w, 'a) act \<Rightarrow> bool" where
  "keeps f m \<longleftrightarrow> (\<forall>w r w'. m w = (r, w') \<longrightarrow> f w' = f w)"

named_theorems keeps_intros

lemma keepsD: "keeps f m \<Longrightarrow> m w = (r, w') \<Longrightarrow> f w' = f w"
  unfolding keeps_def by blast

lemma keeps_basic [keeps_intros]:
  "keeps f (s_ret x)" "keeps f (s_raise e)" "keeps f (s_lift m)" "keeps f (s_get g)" "keeps f (s_guard b e)"
  by (auto simp: keeps_def s_guard_def)

lemma keeps_modify [keeps_intros]: "(\<And>w. f (g w) = f w) \<Longrightarrow> keeps f (s_modify g)"
  by (simp add: keeps_def)

lemma keeps_bind [keeps_intros]: "keeps f m \<Longrightarrow> (\<And>x. keeps f (k x)) \<Longrightarrow> keeps f (s_bind m k)"
  unfolding keeps_def s_bind_def by (fastforce split: prod.splits sum.splits)

lemma keeps_fold: "(\<And>a x. keeps f (g a x)) \<Longrightarrow> keeps f (s_fold g a xs)"
  by (induction xs arbitrary: a) (auto intro: keeps_intros)

lemma keeps_catch [keeps_intros]: "keeps f m \<Longrightarrow> (\<And>x. keeps f (h x)) \<Longrightarrow> keeps f (s_catch m P h)"
  unfolding keeps_def s_catch_def by (fastforce split: prod.splits sum.splits if_splits)

lemma keeps_try [keeps_intros]: "keeps f m \<Longrightarrow> keeps f (s_try m)"
  unfolding keeps_def s_try_def by (auto split: prod.splits)

lemma keeps_case_sum [keeps_intros]:
  "(\<And>e. keeps f (g e)) \<Longrightarrow> (\<And>x. keeps f (k x)) \<Longrightarrow> keeps f (case r of Inl e \<Rightarrow> g e | Inr x \<Rightarrow> k x)"
  by (cases r) simp_all

lemma keeps_if [keeps_intros]: "keeps f m \<Longrightarrow> keeps f k \<Longrightarrow> keeps f (if b then m else k)"
  by simp

lemma keeps_case_prod [keeps_intros]: "(\<And>a b. keeps f (g a b)) \<Longrightarrow> keeps f (case p of (a, b) \<Rightarrow> g a b)"
  by (cases p) simp

lemma keeps_case_option [keeps_intros]:
  "keeps f m \<Longrightarrow> (\<And>x. keeps f (g x)) \<Longrightarrow> keeps f (case p of None \<Rightarrow> m | Some x \<Rightarrow> g x)"
  by (cases p) simp_all

end
