(* ===== verification/Policy_Store.thy ===== *)
theory Policy_Store
  imports Network_Rules_Migrate Py_State
begin

text \<open>
  The class \<open>PolicyStore\<close> of \<open>network_rules.py\<close>: the policy file and its recovery copy on
  disk, the cached last good policy, and the revisioned write in three atomic replacements.
  A file is what \<open>json.loads\<close> makes of it, its size and its modification time. Writing can
  fail at each replacement: \<open>w_io\<close> says for the n-th attempt whether it raises \<open>OSError\<close>
  (\<open>None\<close>) or succeeds with some modification time.
\<close>

record stored_file =
  f_json :: "val py"
  f_size :: nat
  f_mtime :: int

record store =
  st_last_good :: "dict option"
  st_error :: "exc option"
  st_signature :: "(int \<times> nat) option"
  st_backup_error :: "string option"

record pworld =
  w_env :: env
  w_store :: store
  w_policy_file :: "stored_file option"
  w_backup_file :: "stored_file option"
  w_io :: "nat \<Rightarrow> int option"
  w_step :: nat

datatype target = PolicyFile | BackupFile

definition new_store :: store where
  "new_store = \<lparr>st_last_good = None, st_error = None, st_signature = None, st_backup_error = None\<rparr>"

text \<open>The handler \<open>except (OSError, ValueError, TypeError, KeyError)\<close>.\<close>

fun is_load_error :: "exc \<Rightarrow> bool" where
  "is_load_error (OtherError s) = False"
| "is_load_error e = True"

definition load_file :: "env \<Rightarrow> string \<Rightarrow> stored_file \<Rightarrow> dict py" where
  "load_file e message f = (if MAX_BYTES < f_size f then Inl (PolicyError message)
     else py_bind (f_json f) (migrate e))"

definition read_backup :: "('a pworld_scheme, dict) act" where
  "read_backup w = (case w_backup_file w of
       None \<Rightarrow> (Inl (PolicyError ''Network policy unavailable; no validated last-known-good policy.''), w)
     | Some f \<Rightarrow> (case load_file (w_env w) ''Backup exceeds its size limit.'' f of
         Inr p \<Rightarrow> (Inr p, w\<lparr>w_store := (w_store w)\<lparr>st_last_good := Some p\<rparr>\<rparr>)
       | Inl err \<Rightarrow> if is_load_error err
           then (Inl (PolicyError ''Network policy unavailable; no validated last-known-good policy.''), w)
           else (Inl err, w)))"

definition read_failed :: "exc \<Rightarrow> ('a pworld_scheme, dict) act" where
  "read_failed err w = (if \<not> is_load_error err then (Inl err, w)
     else let w' = w\<lparr>w_store := (w_store w)\<lparr>st_error := Some err\<rparr>\<rparr> in
       case st_last_good (w_store w) of
         Some g \<Rightarrow> (Inr g, w')
       | None \<Rightarrow> read_backup w')"

definition store_read :: "('a pworld_scheme, dict) act" where
  "store_read w = (case w_policy_file w of
       None \<Rightarrow> read_failed (OSError ''stat'') w
     | Some f \<Rightarrow> (let s = w_store w; signature = (f_mtime f, f_size f) in
         if st_last_good s \<noteq> None \<and> st_signature s = Some signature \<and> st_error s = None
         then (Inr (the (st_last_good s)), w)
         else case load_file (w_env w) ''Network policy exceeds its size limit.'' f of
           Inr p \<Rightarrow> (Inr p, w\<lparr>w_store := s\<lparr>st_last_good := Some p, st_error := None,
                        st_signature := Some signature\<rparr>\<rparr>)
         | Inl err \<Rightarrow> read_failed err w))"

text \<open>The text written for a policy, and the file a successful replacement leaves.\<close>

definition policy_text :: "env \<Rightarrow> dict \<Rightarrow> string" where
  "policy_text e p = json_dumps e '','' '':'' (VDict p) @ [CHR 0x0A]"

definition policy_file :: "env \<Rightarrow> dict \<Rightarrow> int \<Rightarrow> stored_file" where
  "policy_file e p m = \<lparr>f_json = Inr (sort_keys (VDict p)), f_size = length (policy_text e p), f_mtime = m\<rparr>"

text \<open>
  One temporary file written, synchronised and renamed over its target. Any \<open>OSError\<close> leaves
  the target as it was.
\<close>

definition replace_file :: "target \<Rightarrow> dict \<Rightarrow> ('a pworld_scheme, unit) act" where
  "replace_file t p w = (let w' = w\<lparr>w_step := Suc (w_step w)\<rparr> in
     case w_io w (w_step w) of
       None \<Rightarrow> (Inl (OSError ''replace''), w')
     | Some m \<Rightarrow> (Inr (), case t of
           PolicyFile \<Rightarrow> w'\<lparr>w_policy_file := Some (policy_file (w_env w) p m)\<rparr>
         | BackupFile \<Rightarrow> w'\<lparr>w_backup_file := Some (policy_file (w_env w) p m)\<rparr>))"

fun is_os_error :: "exc \<Rightarrow> bool" where
  "is_os_error (OSError s) = True"
| "is_os_error e = False"

text \<open>The third replacement only refreshes the recovery copy; its failure is recorded.\<close>

definition refresh_backup :: "dict \<Rightarrow> ('a pworld_scheme, unit) act" where
  "refresh_backup p = s_catch
     (s_bind (replace_file BackupFile p) (\<lambda>_. s_modify (\<lambda>w. w\<lparr>w_store := (w_store w)
        \<lparr>st_last_good := Some p, st_backup_error := None\<rparr>\<rparr>)))
     is_os_error
     (\<lambda>_. s_modify (\<lambda>w. w\<lparr>w_store := (w_store w)\<lparr>st_last_good := Some p,
        st_backup_error := Some ''Policy saved, but its recovery copy could not be refreshed.''\<rparr>\<rparr>))"

definition store_write :: "dict \<Rightarrow> val \<Rightarrow> ('a pworld_scheme, dict) act" where
  "store_write policy expected =
     s_bind store_read (\<lambda>previous.
     s_bind (s_lift (dindex previous ''revision'')) (\<lambda>revision.
     s_bind (s_guard (py_eq revision expected)
       (PolicyError ''Policy changed. Review the current rules before applying again.'')) (\<lambda>_.
     s_bind (s_get w_env) (\<lambda>e.
     s_bind (s_lift (migrate e (VDict policy))) (\<lambda>migrated.
     s_bind (s_lift (py_add_int expected 1)) (\<lambda>next.
     let candidate = dput migrated ''revision'' next in
     s_bind (s_guard (length (policy_text e candidate) \<le> MAX_BYTES)
       (PolicyError ''Policy exceeds its size limit; no rules were changed.'')) (\<lambda>_.
     s_bind (replace_file BackupFile previous) (\<lambda>_.
     s_bind (replace_file PolicyFile candidate) (\<lambda>_.
     s_bind (refresh_backup candidate) (\<lambda>_.
     s_ret candidate))))))))))"

section \<open>Validated policies\<close>

definition policy_valid :: "dict \<Rightarrow> bool" where
  "policy_valid p \<longleftrightarrow> dget p ''schema'' = VStr RULES_SCHEMA \<and> valid_revision (dget p ''revision'')
     \<and> (\<exists>rs. dget p ''rules'' = VList rs \<and> list_all is_dict rs \<and> length rs \<le> MAX_RULES)
     \<and> str_in (dget p ''default_action'') [''allow'', ''deny'', ''reject'']
     \<and> py_eq (dget p ''dns_policy'') dns_policy_const"

lemma policy_valid_rules:
  "policy_valid p \<Longrightarrow> is_list (dget p ''rules'') \<and> length (as_list (dget p ''rules'')) \<le> MAX_RULES"
  by (auto simp: policy_valid_def)

lemma migrate_rule_dict: "migrate_rule e r = Inr v \<Longrightarrow> is_dict v"
  by (auto simp: migrate_rule_def Let_def py_simps split: if_splits)

lemma migrate_legacy_rules:
  assumes "migrate_legacy e p = Inr q"
  obtains rules where "q = dput (dput (dput p ''schema'' (VStr RULES_SCHEMA)) ''revision'' (VInt 0)) ''rules'' (VList rules)"
    "list_all is_dict rules"
proof -
  from assms obtain rules where r: "py_map (migrate_rule e) (sort_key legacy_order (as_list (dget p ''rules''))) = Inr rules"
    and q: "q = dput (dput (dput p ''schema'' (VStr RULES_SCHEMA)) ''revision'' (VInt 0)) ''rules'' (VList rules)"
    by (auto simp: migrate_legacy_def py_simps)
  have "list_all is_dict rules"
    using r migrate_rule_dict by (auto simp: py_map_Inr_all2 list_all2_conv_all_nth list_all_length)
  with q that show ?thesis by blast
qed

lemma migrate_valid: assumes "migrate e v = Inr q" shows "policy_valid q"
proof -
  obtain p where v: "v = VDict p"
    using assms by (cases v) (auto simp: migrate_def valid_policy_shape_def)
  show ?thesis
  proof (cases "dget p ''schema'' = VStr RULES_SCHEMA")
    case True
    have "current_ok e q" using migrate_current [of e p q] assms v True by simp
    then obtain rs where "map_of q ''rules'' = Some (VList rs)" "list_all is_dict rs" "length rs \<le> MAX_RULES"
      unfolding current_ok_def by blast
    then show ?thesis using \<open>current_ok e q\<close> by (auto simp: policy_valid_def current_ok_def dget_def)
  next
    case False
    define d where "d = policy_defaults p"
    have sch: "dget d ''schema'' = dget p ''schema''" by (simp add: d_def dget_def dget_policy_defaults)
    have checks: "str_in (dget d ''default_action'') [''allow'', ''deny'', ''reject'']"
      "py_eq (dget d ''dns_policy'') dns_policy_const" "migrate_legacy e d = Inr q"
      "length (as_list (dget q ''rules'')) \<le> MAX_RULES"
      using assms False sch unfolding v migrate_def d_def Let_def by (auto simp: py_simps)
    from checks(3) obtain rules where
      "q = dput (dput (dput d ''schema'' (VStr RULES_SCHEMA)) ''revision'' (VInt 0)) ''rules'' (VList rules)"
      "list_all is_dict rules" by (rule migrate_legacy_rules)
    with checks show ?thesis by (simp add: policy_valid_def valid_revision_def)
  qed
qed

definition store_ok :: "store \<Rightarrow> bool" where
  "store_ok s \<longleftrightarrow> (\<forall>g. st_last_good s = Some g \<longrightarrow> policy_valid g)"

lemma new_store_ok: "store_ok new_store"
  by (simp add: store_ok_def new_store_def)

section \<open>Reading\<close>

lemma load_file_valid: "load_file e m f = Inr p \<Longrightarrow> policy_valid p"
  by (auto simp: load_file_def py_simps migrate_valid split: if_splits)

definition same_disk :: "'a pworld_scheme \<Rightarrow> 'a pworld_scheme \<Rightarrow> bool" where
  "same_disk w v \<longleftrightarrow> (\<exists>s. v = w\<lparr>w_store := s\<rparr>)"

lemma same_disk_refl [simp]: "same_disk w w"
  unfolding same_disk_def by (rule exI [of _ "w_store w"]) simp

lemma same_disk_store [simp]: "same_disk w (w\<lparr>w_store := s\<rparr>)"
  unfolding same_disk_def by blast

lemma same_diskD:
  "same_disk w v \<Longrightarrow> w_policy_file v = w_policy_file w \<and> w_backup_file v = w_backup_file w
    \<and> w_env v = w_env w \<and> w_io v = w_io w \<and> w_step v = w_step w"
  by (auto simp: same_disk_def)

lemma read_backup_ok:
  assumes "read_backup w = (r, w')" "store_ok (w_store w)"
  shows "same_disk w w' \<and> store_ok (w_store w') \<and> (\<forall>p. r = Inr p \<longrightarrow> policy_valid p)"
  using assms load_file_valid by (auto simp: read_backup_def store_ok_def split: option.splits sum.splits if_splits)

lemma read_failed_ok:
  assumes "read_failed err w = (r, w')" "store_ok (w_store w)"
  shows "same_disk w w' \<and> store_ok (w_store w') \<and> (\<forall>p. r = Inr p \<longrightarrow> policy_valid p)"
proof (cases "is_load_error err")
  case True
  define v where "v = w\<lparr>w_store := (w_store w)\<lparr>st_error := Some err\<rparr>\<rparr>"
  have v: "store_ok (w_store v)" "same_disk w v" using assms(2) by (simp_all add: v_def store_ok_def)
  show ?thesis
  proof (cases "st_last_good (w_store w)")
    case None
    then have "read_backup v = (r, w')" using assms(1) True by (simp add: read_failed_def v_def)
    from read_backup_ok [OF this v(1)] show ?thesis by (auto simp: same_disk_def v_def)
  next
    case (Some g)
    then show ?thesis using assms True v by (auto simp: read_failed_def v_def store_ok_def)
  qed
next
  case False
  then show ?thesis using assms by (auto simp: read_failed_def)
qed

lemma store_read_ok:
  assumes "store_read w = (r, w')" "store_ok (w_store w)"
  shows "same_disk w w' \<and> store_ok (w_store w') \<and> (\<forall>p. r = Inr p \<longrightarrow> policy_valid p)"
proof (cases "w_policy_file w")
  case None
  then show ?thesis using assms read_failed_ok by (simp add: store_read_def)
next
  case (Some f)
  show ?thesis
  proof (cases "st_last_good (w_store w) \<noteq> None \<and> st_signature (w_store w) = Some (f_mtime f, f_size f)
      \<and> st_error (w_store w) = None")
    case True
    then show ?thesis using assms Some by (auto simp: store_read_def store_ok_def)
  next
    case False
    note cold = False
    show ?thesis
    proof (cases "load_file (w_env w) ''Network policy exceeds its size limit.'' f")
      case (Inl err)
      then have "read_failed err w = (r, w')" using assms(1) Some cold by (auto simp: store_read_def Let_def)
      then show ?thesis by (rule read_failed_ok [OF _ assms(2)])
    next
      case (Inr p)
      then show ?thesis
        using assms(1) Some cold load_file_valid [OF Inr] by (auto simp: store_read_def Let_def store_ok_def)
    qed
  qed
qed

lemma store_read_disk: assumes "store_read w = (r, w')" shows "same_disk w w'"
proof -
  have rb: "read_backup v = (r, v') \<Longrightarrow> same_disk v v'" for r and v v' :: "'a pworld_scheme"
    by (auto simp: read_backup_def split: option.splits sum.splits if_splits)
  have "same_disk v v'" if "read_failed err v = (r, v')" for err and v v' :: "'a pworld_scheme"
  proof (cases "is_load_error err \<and> st_last_good (w_store v) = None")
    case True
    with that have "read_backup (v\<lparr>w_store := (w_store v)\<lparr>st_error := Some err\<rparr>\<rparr>) = (r, v')"
      by (simp add: read_failed_def)
    from rb [OF this] show ?thesis by (auto simp: same_disk_def)
  qed (use that in \<open>auto simp: read_failed_def Let_def split: if_splits\<close>)
  then show ?thesis
    using assms by (auto simp: store_read_def Let_def split: option.splits if_splits sum.splits)
qed

text \<open>A process that starts afresh loads the policy file when it is good.\<close>

lemma fresh_read:
  assumes "w_policy_file w = Some f" "load_file (w_env w) ''Network policy exceeds its size limit.'' f = Inr p"
    "st_last_good (w_store w) = None"
  shows "\<exists>w'. store_read w = (Inr p, w')"
  using assms by (auto simp: store_read_def Let_def)

section \<open>Writing\<close>

lemma replace_file_Inr:
  "replace_file t p w = (Inr u, w') \<Longrightarrow> \<exists>m. w_io w (w_step w) = Some m \<and>
     w' = (case t of PolicyFile \<Rightarrow> w\<lparr>w_step := Suc (w_step w), w_policy_file := Some (policy_file (w_env w) p m)\<rparr>
       | BackupFile \<Rightarrow> w\<lparr>w_step := Suc (w_step w), w_backup_file := Some (policy_file (w_env w) p m)\<rparr>)"
  by (auto simp: replace_file_def Let_def split: option.splits target.splits)

lemma replace_file_Inl:
  "replace_file t p w = (Inl err, w') \<Longrightarrow> err = OSError ''replace'' \<and> w' = w\<lparr>w_step := Suc (w_step w)\<rparr>"
  by (auto simp: replace_file_def Let_def split: option.splits)

lemma refresh_backup_Inr:
  assumes "refresh_backup p w = (r, w')"
  shows "r = Inr () \<and> w_policy_file w' = w_policy_file w \<and> st_last_good (w_store w') = Some p
    \<and> w_env w' = w_env w
    \<and> ((w_backup_file w' = w_backup_file w \<and> st_backup_error (w_store w') \<noteq> None)
      \<or> (\<exists>m. w_backup_file w' = Some (policy_file (w_env w) p m) \<and> st_backup_error (w_store w') = None))"
  using assms by (cases "w_io w (w_step w)")
    (auto simp: refresh_backup_def s_catch_def s_bind_def replace_file_def Let_def)

text \<open>What a successful write did, and what a failed one left behind.\<close>

lemma store_write_Inr:
  assumes "store_write p x w = (Inr c, w')"
  obtains prev w1 q nx ma mb w3 where
    "store_read w = (Inr prev, w1)" "py_eq (dget prev ''revision'') x"
    "migrate (w_env w1) (VDict p) = Inr q" "py_add_int x 1 = Inr nx" "c = dput q ''revision'' nx"
    "length (policy_text (w_env w1) c) \<le> MAX_BYTES"
    "w3 = w1\<lparr>w_step := Suc (Suc (w_step w1)), w_backup_file := Some (policy_file (w_env w1) prev ma),
      w_policy_file := Some (policy_file (w_env w1) c mb)\<rparr>"
    "refresh_backup c w3 = (Inr (), w')"
proof -
  from assms obtain prev w1 rev q nx w2 w3 where
    r: "store_read w = (Inr prev, w1)" "dindex prev ''revision'' = Inr rev" "py_eq rev x"
      "migrate (w_env w1) (VDict p) = Inr q" "py_add_int x 1 = Inr nx"
      "c = dput q ''revision'' nx" "length (policy_text (w_env w1) c) \<le> MAX_BYTES"
      "replace_file BackupFile prev w1 = (Inr (), w2)" "replace_file PolicyFile c w2 = (Inr (), w3)"
      "refresh_backup c w3 = (Inr (), w')"
    unfolding store_write_def by (auto simp: act_simps Let_def)
  have rev: "dget prev ''revision'' = rev" using r(2) by (auto simp: dindex_def dget_def split: option.splits)
  from replace_file_Inr [OF r(8)] obtain ma where
    w2: "w2 = w1\<lparr>w_step := Suc (w_step w1), w_backup_file := Some (policy_file (w_env w1) prev ma)\<rparr>" by auto
  from replace_file_Inr [OF r(9)] obtain mb where
    w3: "w3 = w2\<lparr>w_step := Suc (w_step w2), w_policy_file := Some (policy_file (w_env w2) c mb)\<rparr>" by auto
  have "w3 = w1\<lparr>w_step := Suc (Suc (w_step w1)), w_backup_file := Some (policy_file (w_env w1) prev ma),
      w_policy_file := Some (policy_file (w_env w1) c mb)\<rparr>" by (cases w1) (simp add: w2 w3)
  from that [OF r(1) _ r(4,5,6,7) this r(10)] show ?thesis using rev r(3) by simp
qed

lemma store_write_Inl:
  assumes "store_write p x w = (Inl err, w')"
  shows "w_policy_file w' = w_policy_file w"
    and "w_backup_file w' = w_backup_file w
      \<or> (\<exists>prev w1 m. store_read w = (Inr prev, w1) \<and> w_backup_file w' = Some (policy_file (w_env w) prev m)
          \<and> is_os_error err)"
proof -
  obtain r w1 where rd: "store_read w = (r, w1)" by fastforce
  have same: "w_policy_file w1 = w_policy_file w" "w_backup_file w1 = w_backup_file w" "w_env w1 = w_env w"
    using same_diskD [OF store_read_disk [OF rd]] by simp_all
  have ref: "refresh_backup q v \<noteq> (Inl err, w')" for q and v :: "'a pworld_scheme"
    using refresh_backup_Inr [of q v "Inl err" w'] by auto
  have "w' = w1 \<or> (\<exists>prev w2. r = Inr prev \<and> (replace_file BackupFile prev w1 = (Inl err, w')
     \<or> (\<exists>q. replace_file BackupFile prev w1 = (Inr (), w2) \<and> replace_file PolicyFile q w2 = (Inl err, w'))))"
    using assms rd ref unfolding store_write_def by (auto simp: act_simps Let_def)
  then have "w_policy_file w' = w_policy_file w \<and> (w_backup_file w' = w_backup_file w
      \<or> (\<exists>prev w1 m. store_read w = (Inr prev, w1) \<and> w_backup_file w' = Some (policy_file (w_env w) prev m)
          \<and> is_os_error err))"
    using same rd by (auto dest!: replace_file_Inl replace_file_Inr)
  then show "w_policy_file w' = w_policy_file w" "w_backup_file w' = w_backup_file w
      \<or> (\<exists>prev w1 m. store_read w = (Inr prev, w1) \<and> w_backup_file w' = Some (policy_file (w_env w) prev m)
          \<and> is_os_error err)" by simp_all
qed

text \<open>A write changes nothing but the store, its two files and the count of attempts.\<close>

lemma store_write_frame:
  assumes "\<And>w s. f (w\<lparr>w_store := s\<rparr>) = f w" "\<And>w x. f (w\<lparr>w_policy_file := x\<rparr>) = f w"
    "\<And>w x. f (w\<lparr>w_backup_file := x\<rparr>) = f w" "\<And>w x. f (w\<lparr>w_step := x\<rparr>) = f w"
  shows "keeps f (store_write p x)" and "keeps f store_read"
proof -
  show r: "keeps f store_read"
    unfolding keeps_def using store_read_disk assms(1) by (fastforce simp: same_disk_def)
  have rep: "keeps f (replace_file t q)" for t q
    unfolding keeps_def replace_file_def Let_def using assms by (auto split: option.splits target.splits)
  then have "keeps f (refresh_backup q)" for q
    unfolding refresh_backup_def using assms(1) by (intro keeps_intros) auto
  with r rep show "keeps f (store_write p x)"
    unfolding store_write_def Let_def by (intro keeps_intros)
qed

section \<open>Durability\<close>

lemma committed:
  assumes "store_write p (VInt i) w = (Inr c, w')" "dget p ''schema'' = VStr RULES_SCHEMA" "wf_policy p"
    "store_ok (w_store w)" "same_host (w_env w) e'" "truthy (boot_id e')"
  shows "(dget c ''revision'' = VInt (i + 1) \<and> dget (sort_dict c) ''revision'' = VInt (i + 1))
    \<and> (st_last_good (w_store w') = Some c \<and> w_env w' = w_env w)
    \<and> (\<exists>f. w_policy_file w' = Some f \<and> load_file e' msg f = Inr (sort_dict c))"
  using assms(1)
proof (cases rule: store_write_Inr)
  case (1 prev w1 q nx ma mb w3)
  have rd: "policy_valid prev" "w_env w1 = w_env w"
    using store_read_ok [OF 1(1) assms(4)] same_diskD by blast+
  have nx: "nx = VInt (i + 1)" using 1(4) by simp
  have "0 \<le> i"
    using rd(1) 1(2) by (auto simp: policy_valid_def valid_revision_def split: val.splits)
  have q: "q = policy_defaults p" "current_ok (w_env w) q"
    using migrate_current [OF 1(3) assms(2)] rd(2) by simp_all
  have wq: "wf_policy q" using wf_policy_defaults [OF assms(3)] q(1) by simp
  have c: "c = dput q ''revision'' (VInt (i + 1))" using 1(5) nx by simp
  have ok: "current_ok e' (sort_dict c)"
    unfolding c using current_ok_again [OF q(2) wq assms(5,6)] \<open>0 \<le> i\<close> by simp
  then have "migrate e' (VDict (sort_dict c)) = Inr (sort_dict c)"
    using current_migrate [of "sort_dict c" e'] by (simp add: current_ok_def)
  moreover have pf: "w_policy_file w' = Some (policy_file (w_env w) c mb)" and "w_env w' = w_env w"
    and "st_last_good (w_store w') = Some c"
    using refresh_backup_Inr [OF 1(8)] 1(7) rd(2) by simp_all
  moreover have "length (policy_text (w_env w) c) \<le> MAX_BYTES" using 1(6) rd(2) by simp
  ultimately have "\<exists>f. w_policy_file w' = Some f \<and> load_file e' msg f = Inr (sort_dict c)"
    "st_last_good (w_store w') = Some c \<and> w_env w' = w_env w"
    by (simp_all add: load_file_def policy_file_def sort_keys_dict del: sort_keys.simps)
  moreover have "wf_dict c" unfolding c using wq by (intro wf_dput) (simp_all add: wf_policy_def)
  then have "dget c ''revision'' = VInt (i + 1) \<and> dget (sort_dict c) ''revision'' = VInt (i + 1)"
    by (simp add: dget_sort_dict c)
  ultimately show ?thesis by blast
qed

lemmas committed_revision = committed [THEN conjunct1]
lemmas committed_state = committed [THEN conjunct2, THEN conjunct1]
lemmas committed_file = committed [THEN conjunct2, THEN conjunct2]

lemma stale_write:
  assumes "store_read w = (Inr prev, w1)" "dget prev ''revision'' = VInt j" "i \<noteq> j"
  shows "store_write p (VInt i) w
    = (Inl (PolicyError ''Policy changed. Review the current rules before applying again.''), w1)"
proof -
  have "dindex prev ''revision'' = Inr (VInt j)"
    using assms(2) by (auto simp: dindex_def dget_def split: option.splits)
  then show ?thesis using assms by (simp add: store_write_def s_bind_def s_guard_def)
qed

lemma read_after_commit:
  assumes "w_policy_file w = Some f" "load_file (w_env w) ''Network policy exceeds its size limit.'' f = Inr d"
    "st_last_good (w_store w) = None \<or> st_last_good (w_store w) = Some c"
  shows "\<exists>r w1. store_read w = (Inr r, w1) \<and> (r = d \<or> r = c)"
  using assms by (auto simp: store_read_def Let_def)

section \<open>A concrete store\<close>

text \<open>A host with an empty policy file and a disk that works, for the examples below.\<close>

definition demo_env :: env where
  "demo_env = \<lparr>env_now = VInt 1000, env_boot = Some ''boot-a'', env_uuid = ''0123456789abcdef0123'',
     env_idna = (\<lambda>_. None), env_sha256 = (\<lambda>s. ''00000000000000000000''), env_float_repr = (\<lambda>_. ''0.5'')\<rparr>"

definition demo_policy :: dict where
  "demo_policy = [(''schema'', VStr RULES_SCHEMA), (''revision'', VInt 0), (''rules'', VList [])]"

definition demo_world :: pworld where
  "demo_world = \<lparr>w_env = demo_env, w_store = new_store,
     w_policy_file = Some \<lparr>f_json = Inr (VDict demo_policy), f_size = 90, f_mtime = 1\<rparr>, w_backup_file = None,
     w_io = (\<lambda>n. Some (int n + 2)), w_step = 0\<rparr>"

lemma demo_migrate: "migrate e (VDict demo_policy) = Inr (policy_defaults demo_policy)"
  by (simp add: migrate_def demo_policy_def policy_defaults_def dsetdefault_def valid_policy_shape_def
     dns_policy_const_def RULES_SCHEMA_def check_current_def valid_revision_def check_identifiers_def MAX_RULES_def)

lemma demo_defaults: "policy_defaults demo_policy = demo_policy @ [(''default_action'', VStr ''allow''),
  (''default_duration'', VStr ''once''), (''interactive_prompts'', VBool False), (''dns_policy'', dns_policy_const),
  (''threat_intel'', VDict [(''enabled'', VBool True), (''provider'', VStr ''feodo-recommended'')])]"
  by (simp add: demo_policy_def policy_defaults_def dsetdefault_def)

lemma demo_revision: "dindex (policy_defaults demo_policy) ''revision'' = Inr (VInt 0)"
  unfolding demo_defaults by (simp add: demo_policy_def)

lemma demo_size: "length (policy_text demo_env (dput (policy_defaults demo_policy) ''revision'' (VInt 1))) \<le> MAX_BYTES"
  unfolding demo_defaults
  by (simp add: demo_policy_def policy_text_def dns_policy_const_def MAX_BYTES_def
     json_string_def json_char_def code_def int_str_def nat_str.simps digit_char_def RULES_SCHEMA_def)

lemma demo_write: "\<exists>w'. store_write demo_policy (VInt 0) demo_world = (Inr (dput (policy_defaults demo_policy) ''revision'' (VInt 1)), w')"
  using demo_size
  by (simp add: store_write_def store_read_def demo_world_def load_file_def MAX_BYTES_def new_store_def demo_migrate
     s_bind_def s_guard_def Let_def replace_file_def refresh_backup_def s_catch_def demo_revision)
lemma demo_world_ok: "store_ok (w_store demo_world)" "wf_policy demo_policy"
    "dget demo_policy ''schema'' = VStr RULES_SCHEMA" "w_env demo_world = demo_env"
    "same_host demo_env e \<longleftrightarrow> env_sha256 e = (\<lambda>s. ''00000000000000000000'') \<and> env_float_repr e = (\<lambda>_. ''0.5'')"
  by (auto simp: demo_world_def new_store_ok wf_policy_def demo_policy_def wf_dict_iff same_host_def demo_env_def)

definition demo_env2 :: env where
  "demo_env2 = demo_env\<lparr>env_now := VInt 90000, env_boot := Some ''boot-b''\<rparr>"

lemma demo_env2_ok: "same_host demo_env demo_env2" "truthy (boot_id demo_env2)"
  by (simp_all add: demo_env2_def same_host_def boot_id_def)

section \<open>Properties\<close>

text \<open>
  A successful write moves the revision on by one and is durable: a process that starts
  later, in another boot, reads back exactly the committed policy (with sorted keys).
\<close>

theorem store_write_durable:
  assumes "store_write p (VInt i) w = (Inr c, w')" "dget p ''schema'' = VStr RULES_SCHEMA" "wf_policy p"
    "store_ok (w_store w)" "same_host (w_env w) e'" "truthy (boot_id e')"
  shows "dget c ''revision'' = VInt (i + 1)
    \<and> (\<exists>w''. store_read (w'\<lparr>w_store := new_store, w_env := e'\<rparr>) = (Inr (sort_dict c), w''))"
proof -
  obtain f where "w_policy_file w' = Some f" "load_file e' ''Network policy exceeds its size limit.'' f = Inr (sort_dict c)"
    using committed_file [OF assms] by blast
  then show ?thesis
    using committed_revision [OF assms] fresh_read [of "w'\<lparr>w_store := new_store, w_env := e'\<rparr>" f "sort_dict c"]
    by (simp add: new_store_def)
qed

theorem store_write_durable_witness:
  "\<exists>c w'. store_write demo_policy (VInt 0) demo_world = (Inr c, w') \<and> dget c ''revision'' = VInt 1
    \<and> (\<exists>w''. store_read (w'\<lparr>w_store := new_store, w_env := demo_env2\<rparr>) = (Inr (sort_dict c), w''))"
proof -
  obtain c w' where w: "store_write demo_policy (VInt 0) demo_world = (Inr c, w')" using demo_write by blast
  from store_write_durable [OF w demo_world_ok(3,2,1) _ demo_env2_ok(2)] w demo_env2_ok(1)
  show ?thesis by (auto simp: demo_world_ok(4))
qed

text \<open>
  C7: No lost update: once a write against revision \<open>i\<close> has committed, every further write against
  revision \<open>i\<close> is refused without touching a file, by the same process and by a fresh one.
\<close>

theorem store_write_no_lost_update:
  assumes "store_write p (VInt i) w = (Inr c, w')" "dget p ''schema'' = VStr RULES_SCHEMA" "wf_policy p"
    "store_ok (w_store w)" "same_host (w_env w) e'" "truthy (boot_id e')"
    and s: "s = w_store w' \<and> e' = w_env w' \<or> s = new_store"
  shows "\<exists>w''. store_write p' (VInt i) (w'\<lparr>w_store := s, w_env := e'\<rparr>)
      = (Inl (PolicyError ''Policy changed. Review the current rules before applying again.''), w'')
    \<and> w_policy_file w'' = w_policy_file w'"
proof -
  note R = committed_revision [OF assms(1-6)] and S = committed_state [OF assms(1-6)]
  define v where "v = w'\<lparr>w_store := s, w_env := e'\<rparr>"
  obtain f where f: "w_policy_file w' = Some f" "load_file e' ''Network policy exceeds its size limit.'' f = Inr (sort_dict c)"
    using committed_file [OF assms(1-6)] by blast
  have "\<exists>r w1. store_read v = (Inr r, w1) \<and> (r = sort_dict c \<or> r = c)"
    using f s S by (intro read_after_commit [of v f]) (auto simp: v_def new_store_def)
  then obtain r w1 where r: "store_read v = (Inr r, w1)" "r = sort_dict c \<or> r = c" by blast
  have "dget r ''revision'' = VInt (i + 1)" using r(2) R by auto
  from stale_write [OF r(1) this, of i p'] have sw: "store_write p' (VInt i) v
    = (Inl (PolicyError ''Policy changed. Review the current rules before applying again.''), w1)" by simp
  have "w_policy_file w1 = w_policy_file w'"
    using same_diskD [OF store_read_disk [OF r(1)]] by (simp add: v_def)
  with sw show ?thesis by (auto simp: v_def)
qed

theorem store_write_no_lost_update_witness:
  "\<exists>c w' w''. store_write demo_policy (VInt 0) demo_world = (Inr c, w')
    \<and> store_write [] (VInt 0) (w'\<lparr>w_store := new_store, w_env := demo_env2\<rparr>)
      = (Inl (PolicyError ''Policy changed. Review the current rules before applying again.''), w'')"
proof -
  obtain c w' where w: "store_write demo_policy (VInt 0) demo_world = (Inr c, w')" using demo_write by blast
  from store_write_no_lost_update [OF w demo_world_ok(3,2,1) _ demo_env2_ok(2), of new_store "[]"] w demo_env2_ok(1)
  show ?thesis by (auto simp: demo_world_ok(4))
qed

text \<open>
  A write that raises, at whichever step, leaves the policy file as it was. The recovery copy is
  unchanged too, unless the write got as far as an operating-system error after saving the
  previous policy to it.
\<close>

theorem store_write_atomic:
  assumes "store_write p x w = (Inl err, w')"
  shows "w_policy_file w' = w_policy_file w
    \<and> (w_backup_file w' = w_backup_file w
      \<or> (\<exists>prev w1 m. store_read w = (Inr prev, w1) \<and> w_backup_file w' = Some (policy_file (w_env w) prev m)
          \<and> is_os_error err))"
  using store_write_Inl [OF assms] by blast

theorem store_write_atomic_witness:
  "\<exists>err w'. store_write demo_policy (VInt 7) demo_world = (Inl err, w') \<and> w_policy_file w' = w_policy_file demo_world"
proof -
  obtain w1 where "store_read demo_world = (Inr (policy_defaults demo_policy), w1)"
    using demo_migrate by (simp add: store_read_def demo_world_def load_file_def MAX_BYTES_def new_store_def)
  moreover have "dget (policy_defaults demo_policy) ''revision'' = VInt 0"
    unfolding demo_defaults by (simp add: demo_policy_def)
  ultimately obtain err w' where "store_write demo_policy (VInt 7) demo_world = (Inl err, w')"
    using stale_write [of demo_world "policy_defaults demo_policy" w1 0 7 demo_policy] by auto
  with store_write_atomic [OF this] show ?thesis by blast
qed

text \<open>
  C34: Reading never hands out an unvalidated policy: whatever the files contain, the result has the
  current schema, a valid revision, at most 1,024 structured rules, a known default action and
  the enforced managed-DNS setting, and the cache keeps that invariant.
\<close>

theorem store_read_valid:
  assumes "store_read w = (r, w')" "store_ok (w_store w)"
  shows "store_ok (w_store w') \<and> (\<forall>p. r = Inr p \<longrightarrow> policy_valid p)"
  using store_read_ok [OF assms] by blast

theorem store_read_valid_witness:
  "\<exists>p w'. store_read demo_world = (Inr p, w') \<and> policy_valid p"
proof -
  obtain w1 where "store_read demo_world = (Inr (policy_defaults demo_policy), w1)"
    using demo_migrate by (simp add: store_read_def demo_world_def load_file_def MAX_BYTES_def new_store_def)
  with store_read_valid [OF this demo_world_ok(1)] show ?thesis by blast
qed

end
