(* ===== verification/Network_Rules_Props.thy ===== *)
theory Network_Rules_Props
  imports Policy_Store
begin

text \<open>
  The properties of the rule model of \<open>network_rules.py\<close>, each with a concrete instance.
\<close>

section \<open>A concrete rule\<close>

definition demo_rule :: dict where
  "demo_rule = [(''name'', VStr '' Web ''), (''path'', VStr ''/usr/bin/curl''), (''action'', VStr ''allow''),
     (''ports'', VStr ''853, 53''), (''dns_exception'', VBool True),
     (''destinations'', VList [VDict [(''kind'', VStr ''host''), (''value'', VStr ''Example.org.'')]])]"

definition demo_normal :: dict where
  "demo_normal = [(''id'', VStr ''greyward-0123456789abcdef0123''), (''provider'', VStr ''application''),
     (''name'', VStr ''Web''), (''description'', VStr []), (''action'', VStr ''allow''), (''enabled'', VBool True),
     (''family'', VStr ''any''), (''protocols'', VList [VStr ''tcp'', VStr ''udp'']),
     (''ports'', VList [VList [VInt 53, VInt 53], VList [VInt 853, VInt 853]]),
     (''lifetime'', VStr ''permanent''), (''created_at'', VInt 1000), (''updated_at'', VInt 1000),
     (''expires_at'', VNone), (''boot_id'', VNone), (''path'', VStr ''/usr/bin/curl''), (''uid'', VInt 1000),
     (''scope'', VStr ''user''),
     (''destinations'', VList [VDict [(''kind'', VStr ''host''), (''value'', VStr ''example.org'')]]),
     (''dns_exception'', VBool True)]"

lemma tcp_udp_sorted: "sorted_protocols (VList [VStr ''tcp'', VStr ''udp'']) = VList [VStr ''tcp'', VStr ''udp'']"
  by code_simp

lemma demo_ports: "port_ranges (VStr ''853, 53'') = Inr [(53, 53), (853, 853)]"
  by code_simp

lemma demo_host: "host_name e (VStr ''Example.org.'') = Inr ''example.org''"
  by code_simp

lemma demo_normalize: "normalize demo_env (VDict demo_rule) (VInt 1000) [] VNone = Inr demo_normal"
  by code_simp

section \<open>Helper facts\<close>

lemma agrees_refl: "agrees r r"
  by (simp add: agrees_def)

lemma rule_ok_lookup:
  assumes "rule_ok r"
  shows "\<exists>v. map_of r ''updated_at'' = Some v" "\<exists>v. map_of r ''id'' = Some v" "dget r ''tier'' = VNone"
proof -
  obtain c t where r: "r = c @ t" and c: "common_ok c"
    and t: "if dget c ''provider'' = VStr ''application'' then app_ok c t else in_ok c t"
    using assms unfolding rule_ok_def by blast
  have h: "dhas c ''updated_at''" "dhas c ''id''" "\<not> dhas c ''tier''" using common_has [OF c] by simp_all
  show "\<exists>v. map_of r ''updated_at'' = Some v" "\<exists>v. map_of r ''id'' = Some v"
    unfolding r using map_of_append_first [OF h(1), of t] map_of_append_first [OF h(2), of t] h
    by (auto simp: dhas_def)
  have "dget t ''tier'' = VNone"
  proof (cases "dget c ''provider'' = VStr ''application''")
    case True
    with t have "app_ok c t" by simp
    then obtain path uid scope ds req dns where "t = app_tail path uid scope ds req dns"
      unfolding app_ok_def by blast
    then show ?thesis by (simp add: dget_def app_tail_lookup)
  next
    case False
    with t have "in_ok c t" by simp
    then show ?thesis by (auto simp: in_ok_def in_tail_def)
  qed
  then show "dget r ''tier'' = VNone" unfolding r using rule_get_tail(1) [OF h(3)] by simp
qed

lemma rule_ok_stored:
  assumes "rule_ok r" "storable r"
    and "dget r ''lifetime'' = VStr ''boot'' \<longrightarrow> truthy (boot_id e) \<or> truthy (dget r ''boot_id'')"
  shows "stored_rule_id e (VDict r) = Inr (dget r ''id'')"
proof -
  note L = rule_ok_lookup [OF assms(1)]
  have "dget_or r ''updated_at'' (env_now e) = dget r ''updated_at''" using L(1) by (auto simp: dget_or_def dget_def)
  moreover have "dindex r ''id'' = Inr (dget r ''id'')" using L(2) by (auto simp: dindex_def dget_def)
  ultimately show ?thesis
    using renormalize [OF assms(1,2) agrees_refl assms(3)] L(3)
    by (simp add: stored_rule_id_def is_threat_exception_def Let_def)
qed

section \<open>Properties\<close>

text \<open>
  C16: Canonical form. What \<open>normalize\<close> returns is a fixed point if it is \<open>storable\<close>, that is, has a name that is not
  blank and canonical text within its fields: at any later time and in any later boot, the check that \<open>migrate\<close> makes
  of a stored rule accepts it unchanged. For a rule that lives until the next boot, the identifier of the boot
  has to be known to the check or the rule.
\<close>

theorem normalize_canonical:
  assumes "normalize e v actor ex ct = Inr r" "storable r"
    and "dget r ''lifetime'' = VStr ''boot'' \<longrightarrow> truthy (boot_id e') \<or> truthy (dget r ''boot_id'')"
  shows "rule_ok r \<and> stored_rule_id e' (VDict r) = Inr (dget r ''id'')"
  using rule_ok_stored [OF normalize_ok [OF assms(1)] assms(2,3)] normalize_ok [OF assms(1)] by simp

lemma demo_storable: "storable demo_normal"
  by (simp add: storable_def demo_normal_def dest_len_def)

theorem normalize_canonical_witness:
  "stored_rule_id demo_env2 (VDict demo_normal) = Inr (VStr ''greyward-0123456789abcdef0123'')"
  using normalize_canonical [OF demo_normalize demo_storable, of demo_env2] by (simp add: demo_normal_def)

text \<open>
  C9: Matching. On a normalized application rule \<open>matches\<close> never raises and holds exactly when the
  rule is in force and covers the connection: path, user, protocol, address family, port
  ranges, required host and one of the destinations.
\<close>

theorem matches_decides_covers:
  assumes "normalize e v actor ex ct = Inr r" "dget r ''provider'' = VStr ''application''"
    and "num_val (env_now e') \<noteq> None"
  shows "matches e' r k = Inr (in_force e' r \<and> covers (app_of r) k)"
proof -
  obtain c t where r: "r = c @ t" and c: "common_ok c"
    and t: "if dget c ''provider'' = VStr ''application'' then app_ok c t else in_ok c t"
    using normalize_ok [OF assms(1)] unfolding rule_ok_def by blast
  have "dhas c ''provider''" using common_has [OF c] by simp
  then have p: "dget c ''provider'' = VStr ''application''"
    using assms(2) rule_get_common(1) [OF c] r by simp
  with t have "app_ok c t" by simp
  from matches_app [OF c p this assms(3)] show ?thesis by (simp add: r)
qed

definition demo_connection :: connection where
  "demo_connection = \<lparr>c_process_path = ''/usr/bin/curl'', c_process_id = 7, c_user_id = 1000, c_protocol = ''UDP'',
     c_src_ip = ''10.0.0.2'', c_src_port = 40000, c_dst_ip = ''192.0.2.1'', c_dst_host = ''example.org.'',
     c_dst_port = 53\<rparr>"

theorem matches_decides_covers_witness:
  "matches demo_env demo_normal demo_connection = Inr True
    \<and> in_force demo_env demo_normal \<and> covers (app_of demo_normal) demo_connection"
proof -
  have "conn_host demo_connection = ''example.org''" "conn_protocol demo_connection = ''udp''"
    by code_simp+
  then have "covers (app_of demo_normal) demo_connection"
    by (simp add: covers_def app_of_def demo_normal_def dest_of_def ranges_of_val_def in_ranges_def)
       (simp add: demo_connection_def)
  moreover have "in_force demo_env demo_normal" by (simp add: in_force_def demo_normal_def)
  moreover have "matches demo_env demo_normal demo_connection
    = Inr (in_force demo_env demo_normal \<and> covers (app_of demo_normal) demo_connection)"
    by (rule matches_decides_covers [OF demo_normalize]) (simp_all add: demo_normal_def demo_env_def)
  ultimately show ?thesis by simp
qed

text \<open>
  Port lists. The stored ranges cover exactly the ports that were asked for; they are at most 32,
  within 1 to 65535, sorted and separated, and reading them back gives the same ranges.
\<close>

theorem port_ranges_exact:
  assumes "port_ranges v = Inr rs"
  shows "(in_ranges p rs \<longleftrightarrow> (\<exists>part \<in> set (as_list (port_list v)). \<exists>a b. port_range part = Inr (a, b) \<and> a \<le> p \<and> p \<le> b))
    \<and> ranges_canonical rs \<and> length rs \<le> 32 \<and> port_ranges (ports_val rs) = Inr rs"
proof -
  from assms obtain parts qs where l: "port_list v = VList parts"
    and q: "py_map (\<lambda>p. py_bind (port_range p) port_bounds) parts = Inr qs" and rs: "rs = merge_ranges qs"
    by (auto simp: port_ranges_def py_simps split: val.splits if_splits)
  have all2: "list_all2 (\<lambda>x y. port_range x = Inr y \<and> range_valid y) parts qs"
    using q by (auto simp: py_map_Inr_all2 py_simps port_bounds_Inr elim!: list_all2_mono)
  then have "list_all range_valid qs" by (auto simp: list_all2_conv_all_nth list_all_length)
  then have "in_ranges p rs \<longleftrightarrow> in_ranges p qs" using merge_ranges_correct(2) rs by simp
  also have "\<dots> \<longleftrightarrow> (\<exists>part \<in> set parts. \<exists>a b. port_range part = Inr (a, b) \<and> a \<le> p \<and> p \<le> b)"
    using all2 unfolding in_ranges_def list_all2_conv_all_nth in_set_conv_nth Bex_def
    by (metis Inr_inject prod.collapse prod.sel)
  finally show ?thesis
    using port_ranges_Inr [OF assms] ports_val_reparse l by simp
qed

theorem port_ranges_exact_witness:
  "port_ranges (VStr ''853, 53'') = Inr [(53, 53), (853, 853)] \<and> ranges_canonical [(53, 53), (853, 853)]"
  using port_ranges_exact [OF demo_ports] demo_ports by blast

text \<open>
  C33: Confinement of DNS exceptions. A rule that may bypass the managed resolver always allows, names
  one host executable and covers no port but 53 and 853.
\<close>

theorem dns_exception_confined:
  assumes "normalize e v actor ex ct = Inr r" "truthy (dget r ''dns_exception'')"
  shows "dget r ''action'' = VStr ''allow'' \<and> (\<exists>path. dget r ''path'' = VStr path \<and> startswith path ''/'')
    \<and> ranges_of_val (dget r ''ports'') \<noteq> []
    \<and> (in_ranges p (ranges_of_val (dget r ''ports'')) \<longrightarrow> p = 53 \<or> p = 853)"
proof -
  obtain c t where r: "r = c @ t" and c: "common_ok c"
    and t: "if dget c ''provider'' = VStr ''application'' then app_ok c t else in_ok c t"
    using normalize_ok [OF assms(1)] unfolding rule_ok_def by blast
  have h: "dhas c ''action''" "dhas c ''ports''" "\<not> dhas c ''path''" "\<not> dhas c ''dns_exception''"
    using common_has [OF c] by simp_all
  have "app_ok c t"
    using t assms(2) rule_get_tail(1) [OF h(4), of t] unfolding r
    by (auto simp: in_ok_def in_tail_def split: if_splits)
  then obtain path uid scope ds req dns where t': "t = app_tail path uid scope ds req dns"
    and p: "path_ok path (path = ''*'')"
    and d: "dns \<longrightarrow> dns_exception_ok (dget c ''action'') path (ranges_of_val (dget c ''ports''))"
    unfolding app_ok_def by blast
  have "dns" using assms(2) rule_get_tail(1) [OF h(4), of t] unfolding r
    by (auto simp: t' dget_def app_tail_lookup split: if_splits)
  with d have ok: "dns_exception_ok (dget c ''action'') path (ranges_of_val (dget c ''ports''))" by simp
  then show ?thesis
    using p rule_get_common(1) [OF c h(1), of t] rule_get_common(1) [OF c h(2), of t] rule_get_tail(1) [OF h(3), of t]
    unfolding r by (auto simp: dns_exception_ok_def path_ok_def t' dget_def app_tail_lookup in_ranges_def list_all_iff)
qed

theorem dns_exception_confined_witness:
  "dget demo_normal ''action'' = VStr ''allow'' \<and> ranges_of_val (dget demo_normal ''ports'') \<noteq> []"
  using dns_exception_confined [OF demo_normalize] by (simp add: demo_normal_def)

text \<open>
  C21: A policy of the current schema that \<open>migrate\<close> accepted is accepted again after it was written
  with sorted keys under any later revision and loaded in any later boot of the same host, and nothing of it changes.
  The policy is a JSON object with scalar boot identifiers in its rules, and the identifier of the later boot is known.
  (A legacy policy is outside: its migration lets duplicate identifiers through, which the reload refuses.)
\<close>

theorem migrate_reload:
  assumes "migrate e (VDict p) = Inr q" "dget p ''schema'' = VStr RULES_SCHEMA" "wf_policy p"
    and "same_host e e'" "truthy (boot_id e')" "0 \<le> i"
  shows "migrate e' (sort_keys (VDict (dput q ''revision'' (VInt i))))
    = Inr (sort_dict (dput q ''revision'' (VInt i)))"
proof -
  have "current_ok e' (sort_dict (dput q ''revision'' (VInt i)))"
    using migrate_current [OF assms(1,2)] wf_policy_defaults [OF assms(3)] current_ok_again assms(4-6) by simp
  then show ?thesis
    using current_migrate [of "sort_dict (dput q ''revision'' (VInt i))" e']
    by (simp add: current_ok_def sort_keys_dict del: sort_keys.simps)
qed

theorem migrate_reload_witness:
  "migrate demo_env2 (sort_keys (VDict (dput (policy_defaults demo_policy) ''revision'' (VInt 5))))
    = Inr (sort_dict (dput (policy_defaults demo_policy) ''revision'' (VInt 5)))"
  using migrate_reload [OF demo_migrate demo_world_ok(3,2) demo_env2_ok] by simp

end
