(* ===== verification/Network_Firewall.thy ===== *)
theory Network_Firewall
  imports Policy_Store
begin

text \<open>
  \<open>network_firewall.py\<close>: canonical incoming rules compiled to firewalld rich rules, and the
  adapter that captures, replaces and restores exactly the entries it owns. firewalld itself
  is outside the repository: the record \<open>firewalld\<close> holds the D-Bus calls the adapter makes,
  as actions on the daemon's own state. Any of them may raise.
\<close>

section \<open>The daemon and the world\<close>

record 'd firewalld =
  fd_rich :: "string \<Rightarrow> string \<Rightarrow> ('d, string list) act"
  fd_add :: "string \<Rightarrow> string \<Rightarrow> string \<Rightarrow> int \<Rightarrow> ('d, unit) act"
  fd_remove :: "string \<Rightarrow> string \<Rightarrow> string \<Rightarrow> ('d, unit) act"
  fd_zones :: "('d, string list) act"
  fd_active_zones :: "('d, string list) act"
  fd_services :: "('d, string list) act"
  fd_definition :: "string \<Rightarrow> ('d, dict) act"
  fd_zone_services :: "string \<Rightarrow> string \<Rightarrow> ('d, string list) act"
  fd_zone_ports :: "string \<Rightarrow> string \<Rightarrow> ('d, (string \<times> string) list) act"
  fd_monotonic :: "'d \<Rightarrow> rat \<times> 'd"
  fd_canonical :: "string \<Rightarrow> string py"

text \<open>The adapter's own state is the cache of service definitions, valid until a deadline.\<close>

record 'd fworld = pworld +
  fw_daemon :: 'd
  fw_cache :: "(rat \<times> string list \<times> val list) option"

definition daemon :: "('d, 'a) act \<Rightarrow> (('d, 'z) fworld_scheme, 'a) act" where
  "daemon m w = (case m (fw_daemon w) of (r, d) \<Rightarrow> (r, w\<lparr>fw_daemon := d\<rparr>))"

definition monotonic :: "'d firewalld \<Rightarrow> (('d, 'z) fworld_scheme, rat) act" where
  "monotonic fd w = (case fd_monotonic fd (fw_daemon w) of (t, d) \<Rightarrow> (Inr t, w\<lparr>fw_daemon := d\<rparr>))"

section \<open>Rich rules\<close>

text \<open>\<open>rich_rules\<close> on a canonical incoming rule; every port range meets every protocol.\<close>

definition quoted :: "string \<Rightarrow> string \<Rightarrow> string" where
  "quoted key v = key @ [CHR ''='', CHR 0x22] @ v @ [CHR 0x22]"

definition port_text :: "int \<times> int \<Rightarrow> string" where
  "port_text r = (if fst r = snd r then int_str (fst r) else int_str (fst r) @ ''-'' @ int_str (snd r))"

definition rich_elements :: "dict \<Rightarrow> string list" where
  "rich_elements r = (if truthy (dget r ''service'')
     then [''service '' @ quoted ''name'' (as_str (dget r ''service''))]
     else [''port '' @ quoted ''port'' (port_text pr) @ '' '' @ quoted ''protocol'' (as_str p).
             pr \<leftarrow> ranges_of_val (dget r ''ports''), p \<leftarrow> as_list (dget r ''protocols'')])"

definition rich_families :: "dict \<Rightarrow> string list" where
  "rich_families r = (if dget r ''family'' \<noteq> VStr ''any'' then [as_str (dget r ''family'')] else [''ipv4'', ''ipv6''])"

definition rich_prefix :: "dict \<Rightarrow> nat \<Rightarrow> string \<Rightarrow> string" where
  "rich_prefix r position family = ''rule '' @ quoted ''family'' family @ '' ''
     @ quoted ''priority'' (int_str (- 20000 + int position))
     @ (if truthy (dget r ''source'') then '' source '' @ quoted ''address'' (as_str (dget r ''source'')) else [])"

definition rich_texts :: "dict \<Rightarrow> nat \<Rightarrow> string list" where
  "rich_texts r position = [rich_prefix r position family @ '' '' @ element
       @ (if dget r ''action'' = VStr ''allow'' then '' accept'' else '' drop'').
     family \<leftarrow> rich_families r, element \<leftarrow> rich_elements r]"

definition rich_rules :: "'d firewalld \<Rightarrow> dict \<Rightarrow> nat \<Rightarrow> string list py" where
  "rich_rules fd r position = py_map (fd_canonical fd) (rich_texts r position)"

section \<open>Owned entries\<close>

type_synonym entry = "string \<times> string \<times> string \<times> val"

definition incoming_rules :: "val list \<Rightarrow> dict list" where
  "incoming_rules rules = filter (\<lambda>r. dget r ''provider'' = VStr ''incoming'') (map as_dict rules)"

definition rule_entries :: "env \<Rightarrow> 'd firewalld \<Rightarrow> dict \<times> nat \<Rightarrow> entry list py" where
  "rule_entries e fd p = (case p of (r, index) \<Rightarrow>
     py_bind (lifecycle e r) (\<lambda>state.
     if state \<noteq> ''SAVED'' then Inr []
     else py_bind (rich_rules fd r index) (\<lambda>natives.
     let zone = as_str (dget r ''zone'') in
     Inr (concat (map (\<lambda>n. (zone, n, ''runtime'', dget r ''expires_at'')
          # (if dget r ''lifetime'' = VStr ''permanent'' then [(zone, n, ''permanent'', VNone)] else [])) natives)))))"

definition entries :: "env \<Rightarrow> 'd firewalld \<Rightarrow> val list \<Rightarrow> entry list py" where
  "entries e fd rules = (let rs = incoming_rules rules in
     py_bind (py_map (rule_entries e fd) (zip rs [0..<length rs])) (\<lambda>es. Inr (remdups (concat es))))"

definition entry_key :: "entry \<Rightarrow> string \<times> string \<times> string" where
  "entry_key x = (case x of (zone, native, plane, expires) \<Rightarrow> (zone, native, plane))"

definition minus_list :: "'a list \<Rightarrow> 'a list \<Rightarrow> 'a list" where
  "minus_list xs ys = filter (\<lambda>x. x \<notin> set ys) xs"

lemma set_minus_list [simp]: "set (minus_list xs ys) = set xs - set ys"
  by (auto simp: minus_list_def)

text \<open>\<open>sorted(old.symmetric_difference(new), key=lambda e: e[:3])\<close>.\<close>

definition changed_entries :: "entry list \<Rightarrow> entry list \<Rightarrow> entry list" where
  "changed_entries old new = sort_key entry_key (minus_list old new @ minus_list new old)"

definition rich_set :: "'d firewalld \<Rightarrow> string \<Rightarrow> string \<Rightarrow> (('d, 'z) fworld_scheme, string list) act" where
  "rich_set fd zone plane = daemon (fd_rich fd zone plane)"

section \<open>capture\<close>

type_synonym snapshots = "((string \<times> string) \<times> string list) list"

text \<open>The rules of one zone and plane, read once.\<close>

definition snapshot :: "'d firewalld \<Rightarrow> string \<Rightarrow> string \<Rightarrow> snapshots \<Rightarrow> (('d, 'z) fworld_scheme, string list \<times> snapshots) act" where
  "snapshot fd zone plane snaps = (case map_of snaps (zone, plane) of
       Some ns \<Rightarrow> s_ret (ns, snaps)
     | None \<Rightarrow> s_bind (rich_set fd zone plane) (\<lambda>ns. s_ret (ns, ((zone, plane), ns) # snaps)))"

definition native_record :: "string \<times> string \<times> string \<Rightarrow> bool \<Rightarrow> val \<Rightarrow> val" where
  "native_record key present expires = (case key of (zone, native, plane) \<Rightarrow>
     VDict [(''zone'', VStr zone), (''rule'', VStr native), (''plane'', VStr plane),
       (''present'', VBool present), (''expires_at'', expires)])"

definition old_expiry :: "entry list \<Rightarrow> string \<times> string \<times> string \<Rightarrow> val" where
  "old_expiry old key = (case map_of (map (\<lambda>x. (entry_key x, snd (snd (snd x)))) (rev old)) key of
     None \<Rightarrow> VNone | Some v \<Rightarrow> v)"

definition capture_step :: "'d firewalld \<Rightarrow> entry list \<Rightarrow> val list \<times> (string \<times> string \<times> string) list \<times> snapshots
    \<Rightarrow> entry \<Rightarrow> (('d, 'z) fworld_scheme, val list \<times> (string \<times> string \<times> string) list \<times> snapshots) act" where
  "capture_step fd old acc x = (case acc of (records, seen, snaps) \<Rightarrow>
     (let key = entry_key x in case key of (zone, native, plane) \<Rightarrow>
      if key \<in> set seen then s_ret acc
      else s_bind (snapshot fd zone plane snaps) (\<lambda>(ns, snaps').
        s_ret (records @ [native_record key (native \<in> set ns) (old_expiry old key)], key # seen, snaps'))))"

definition capture :: "'d firewalld \<Rightarrow> val list \<Rightarrow> val list \<Rightarrow> (('d, 'z) fworld_scheme, val list) act" where
  "capture fd before after = s_bind (s_get w_env) (\<lambda>e.
     s_bind (s_lift (entries e fd before)) (\<lambda>old.
     s_bind (s_lift (entries e fd after)) (\<lambda>new.
     let changed = changed_entries old new in
     s_bind (s_guard (length changed \<le> 128)
       (PolicyError ''Apply incoming changes in smaller batches (at most 128 native changes).'')) (\<lambda>_.
     s_bind (s_fold (capture_step fd old) ([], [], []) changed) (\<lambda>acc. s_ret (fst acc))))))"

section \<open>restore\<close>

text \<open>\<open>_change\<close>: one rich rule added or removed.\<close>

definition change_native :: "'d firewalld \<Rightarrow> string \<Rightarrow> string \<Rightarrow> string \<Rightarrow> bool \<Rightarrow> int \<Rightarrow> (('d, 'z) fworld_scheme, unit) act" where
  "change_native fd zone native plane remove seconds = daemon
     (if remove then fd_remove fd zone native plane else fd_add fd zone native plane seconds)"

text \<open>\<open>max(1, math.ceil(expires - now)) if expires else 0\<close>.\<close>

definition expiry_seconds :: "env \<Rightarrow> val \<Rightarrow> int py" where
  "expiry_seconds e expires = (if \<not> truthy expires then Inr 0
     else case (num_val expires, num_val (env_now e)) of
       (Some (Fin x), Some (Fin n)) \<Rightarrow> Inr (max 1 \<lceil>x - n\<rceil>)
     | (Some x, Some n) \<Rightarrow> Inl (OtherError ''OverflowError'')
     | _ \<Rightarrow> Inl TypeError)"

text \<open>\<open>record['present'] and (not record['expires_at'] or record['expires_at'] > time.time())\<close>.\<close>

definition still_present :: "env \<Rightarrow> val \<Rightarrow> val \<Rightarrow> val py" where
  "still_present e present expires = (if \<not> truthy present then Inr present
     else if \<not> truthy expires then Inr (VBool True)
     else py_bind (py_ge (env_now e) expires) (\<lambda>b. Inr (VBool (\<not> b))))"

definition str_field :: "val \<Rightarrow> string \<Rightarrow> string py" where
  "str_field v k = py_bind (py_index v k) (\<lambda>x. case x of VStr s \<Rightarrow> Inr s | _ \<Rightarrow> Inl TypeError)"

definition plane_of :: "string \<Rightarrow> string" where
  "plane_of plane = (if plane = ''runtime'' then ''runtime'' else ''permanent'')"

definition restore_record :: "'d firewalld \<Rightarrow> val \<Rightarrow> (('d, 'z) fworld_scheme, unit) act" where
  "restore_record fd record = s_bind (s_get w_env) (\<lambda>e.
     s_bind (s_lift (str_field record ''zone'')) (\<lambda>zone.
     s_bind (s_lift (str_field record ''rule'')) (\<lambda>native.
     s_bind (s_lift (str_field record ''plane'')) (\<lambda>p.
     let plane = plane_of p in
     s_bind (rich_set fd zone plane) (\<lambda>actual.
     s_bind (s_lift (py_index record ''present'')) (\<lambda>flag.
     s_bind (s_lift (py_index record ''expires_at'')) (\<lambda>expires.
     s_bind (s_lift (still_present e flag expires)) (\<lambda>present.
     s_bind (if \<not> py_eq (VBool (native \<in> set actual)) present
             then s_bind (s_lift (expiry_seconds e expires)) (\<lambda>seconds.
                    change_native fd zone native plane (\<not> truthy present) seconds)
             else s_ret ()) (\<lambda>_.
     s_bind (rich_set fd zone plane) (\<lambda>actual'.
     s_guard (py_eq (VBool (native \<in> set actual')) present)
       (PolicyError ''firewalld did not confirm rollback.'')))))))))))"

text \<open>Every record is tried; the number of failures decides.\<close>

definition restore_step :: "'d firewalld \<Rightarrow> nat \<Rightarrow> val \<Rightarrow> (('d, 'z) fworld_scheme, nat) act" where
  "restore_step fd errors record = s_bind (s_try (restore_record fd record)) (\<lambda>r.
     s_ret (case r of Inl err \<Rightarrow> Suc errors | Inr _ \<Rightarrow> errors))"

definition restore :: "'d firewalld \<Rightarrow> val list \<Rightarrow> (('d, 'z) fworld_scheme, unit) act" where
  "restore fd records = s_bind (s_fold (restore_step fd) 0 (rev records)) (\<lambda>errors.
     s_guard (errors = 0) (PolicyError ''Incoming-access rollback is INCOMPLETE; its recovery journal is retained.''))"

section \<open>catalog\<close>

definition service_detail :: "string \<Rightarrow> dict \<Rightarrow> val" where
  "service_detail name d = (let ports = as_list (dget_or d ''ports'' (VList []));
       complex = list_ex (\<lambda>k. truthy (dget d k))
         [''protocols'', ''source_ports'', ''destinations'', ''includes'', ''helpers'', ''modules''];
       truncated = 64 < length ports in
     VDict [(''id'', VStr name), (''label'', VStr (take 120 (as_str (py_or (dget d ''short'') (VStr name))))),
       (''description'', VStr (take 280 (as_str (dget_or d ''description'' (VStr []))))),
       (''ports'', VList (take 64 ports)),
       (''simple'', VBool (take 64 ports \<noteq> [] \<and> \<not> complex \<and> \<not> truncated)),
       (''additional_conditions'', VBool (complex \<or> truncated))])"

text \<open>The definitions read before the deadline; a service whose definition fails is left out.\<close>

fun service_details :: "'d firewalld \<Rightarrow> rat \<Rightarrow> string list \<Rightarrow> (('d, 'z) fworld_scheme, val list) act" where
  "service_details fd deadline [] = s_ret []"
| "service_details fd deadline (name # names) = s_bind (monotonic fd) (\<lambda>now.
     if deadline \<le> now then s_ret []
     else s_bind (s_try (daemon (fd_definition fd name))) (\<lambda>r. case r of
       Inl err \<Rightarrow> service_details fd deadline names
     | Inr d \<Rightarrow> s_bind (service_details fd deadline names) (\<lambda>ds. s_ret (service_detail name d # ds))))"

definition catalog_details :: "'d firewalld \<Rightarrow> string list \<Rightarrow> (('d, 'z) fworld_scheme, val list) act" where
  "catalog_details fd names = s_bind (s_get fw_cache) (\<lambda>cached.
     s_bind (monotonic fd) (\<lambda>now.
     case cached of
       Some (until, cached_names, details) \<Rightarrow>
         if until < now \<or> cached_names \<noteq> names
         then s_bind (s_bind (monotonic fd) (\<lambda>t. service_details fd (t + 2) names)) (\<lambda>ds.
              s_bind (monotonic fd) (\<lambda>t. s_bind (s_modify (\<lambda>w. w\<lparr>fw_cache := Some (t + 30, names, ds)\<rparr>)) (\<lambda>_. s_ret ds)))
         else s_ret details
     | None \<Rightarrow> s_bind (s_bind (monotonic fd) (\<lambda>t. service_details fd (t + 2) names)) (\<lambda>ds.
              s_bind (monotonic fd) (\<lambda>t. s_bind (s_modify (\<lambda>w. w\<lparr>fw_cache := Some (t + 30, names, ds)\<rparr>)) (\<lambda>_. s_ret ds)))))"

record catalog_data =
  cat_zones :: "string list"
  cat_services :: "string list"
  cat_details :: "val list"
  cat_incomplete :: bool

definition catalog :: "'d firewalld \<Rightarrow> (('d, 'z) fworld_scheme, catalog_data) act" where
  "catalog fd = s_bind (daemon (fd_services fd)) (\<lambda>services.
     let names = sort services in
     s_bind (s_guard (length names \<le> 1024)
       (PolicyError ''The installed service catalog exceeds its bounded capacity.'')) (\<lambda>_.
     s_bind (catalog_details fd names) (\<lambda>details.
     s_bind (daemon (fd_zones fd)) (\<lambda>zones.
     s_ret \<lparr>cat_zones = sort zones, cat_services = names, cat_details = details,
       cat_incomplete = (length details \<noteq> length names)\<rparr>))))"

definition in_catalog :: "catalog_data \<Rightarrow> dict \<Rightarrow> bool" where
  "in_catalog c r \<longleftrightarrow> as_str (dget r ''zone'') \<in> set (cat_zones c)
     \<and> (truthy (dget r ''service'') \<longrightarrow> as_str (dget r ''service'') \<in> set (cat_services c))"

section \<open>replace\<close>

text \<open>A completed change: zone, rule, plane, the opposite operation and its duration.\<close>

type_synonym completed = "string \<times> string \<times> string \<times> bool \<times> int"

definition replace_entry :: "'d firewalld \<Rightarrow> bool \<Rightarrow> completed list \<Rightarrow> entry
    \<Rightarrow> (('d, 'z) fworld_scheme, completed list) act" where
  "replace_entry fd remove dn x = (case x of (zone, native, plane, expires) \<Rightarrow>
     s_bind (s_get w_env) (\<lambda>e.
     s_bind (rich_set fd zone plane) (\<lambda>actual.
     if remove \<and> native \<notin> set actual then s_ret dn
     else if \<not> remove \<and> native \<in> set actual
     then s_raise (PolicyError ''An identical external firewall rule already exists; it was not adopted or changed.'')
     else s_bind (s_lift (expiry_seconds e expires)) (\<lambda>seconds.
          s_bind (change_native fd zone native plane remove seconds) (\<lambda>_.
          s_ret (dn @ [(zone, native, plane, \<not> remove, seconds)]))))))"

text \<open>
  The loop over one kind of change. It returns the completed changes even when it stops at an
  error, because the handler undoes them.
\<close>

definition confirm_entry :: "'d firewalld \<Rightarrow> bool \<Rightarrow> entry \<Rightarrow> (('d, 'z) fworld_scheme, unit) act" where
  "confirm_entry fd remove x = (case x of (zone, native, plane, expires) \<Rightarrow>
     s_bind (rich_set fd zone plane) (\<lambda>actual.
     s_guard ((native \<in> set actual) \<noteq> remove)
       (PolicyError ''firewalld did not confirm the requested rule change.'')))"

fun replace_loop :: "'d firewalld \<Rightarrow> bool \<Rightarrow> completed list \<Rightarrow> entry list \<Rightarrow> ('d, 'z) fworld_scheme
    \<Rightarrow> exc option \<times> completed list \<times> ('d, 'z) fworld_scheme" where
  "replace_loop fd remove dn [] w = (None, dn, w)"
| "replace_loop fd remove dn (x # xs) w = (case replace_entry fd remove dn x w of
       (Inl err, w1) \<Rightarrow> (Some err, dn, w1)
     | (Inr dn', w1) \<Rightarrow>
         if dn' = dn then replace_loop fd remove dn xs w1
         else (case confirm_entry fd remove x w1 of
             (Inl err, w2) \<Rightarrow> (Some err, dn', w2)
           | (Inr _, w2) \<Rightarrow> replace_loop fd remove dn' xs w2))"

fun undo_completed :: "'d firewalld \<Rightarrow> nat \<Rightarrow> completed list \<Rightarrow> ('d, 'z) fworld_scheme \<Rightarrow> nat \<times> ('d, 'z) fworld_scheme" where
  "undo_completed fd errors [] w = (errors, w)"
| "undo_completed fd errors ((zone, native, plane, remove, seconds) # xs) w =
     (case change_native fd zone native plane remove seconds w of
       (Inl err, w') \<Rightarrow> undo_completed fd (Suc errors) xs w'
     | (Inr _, w') \<Rightarrow> undo_completed fd errors xs w')"

definition replace_failed :: "'d firewalld \<Rightarrow> exc \<Rightarrow> completed list \<Rightarrow> (('d, 'z) fworld_scheme, unit) act" where
  "replace_failed fd err dn w = (case undo_completed fd 0 (rev dn) w of
     (errors, w') \<Rightarrow> if errors = 0 then (Inl err, w')
       else (Inl (PolicyError ''Firewall apply failed; rollback is INCOMPLETE. Review incoming access.''), w'))"

definition replace_changes :: "'d firewalld \<Rightarrow> entry list \<Rightarrow> entry list \<Rightarrow> (('d, 'z) fworld_scheme, unit) act" where
  "replace_changes fd removed added w =
     (case replace_loop fd True [] (sort_key entry_key removed) w of
       (Some err, dn, w1) \<Rightarrow> replace_failed fd err dn w1
     | (None, dn, w1) \<Rightarrow> (case replace_loop fd False dn (sort_key entry_key added) w1 of
         (Some err, dn', w2) \<Rightarrow> replace_failed fd err dn' w2
       | (None, dn', w2) \<Rightarrow> (Inr (), w2)))"

definition replace :: "'d firewalld \<Rightarrow> val list \<Rightarrow> val list \<Rightarrow> (('d, 'z) fworld_scheme, unit) act" where
  "replace fd before after = s_bind (catalog fd) (\<lambda>c.
     s_bind (s_guard (list_all (in_catalog c) (incoming_rules after))
       (PolicyError ''The selected zone or service is no longer installed.'')) (\<lambda>_.
     s_bind (s_get w_env) (\<lambda>e.
     s_bind (s_lift (entries e fd before)) (\<lambda>old.
     s_bind (s_lift (entries e fd after)) (\<lambda>new.
     s_bind (s_guard (length (minus_list old new @ minus_list new old) \<le> 128)
       (PolicyError ''Apply incoming changes in smaller batches.'')) (\<lambda>_.
     replace_changes fd (minus_list old new) (minus_list new old)))))))"

section \<open>observe and external\<close>

text \<open>The state shown for each incoming rule, by its identifier.\<close>

definition observe_rule :: "'d firewalld \<Rightarrow> (string \<times> string) list \<times> snapshots \<Rightarrow> dict \<times> nat
    \<Rightarrow> (('d, 'z) fworld_scheme, (string \<times> string) list \<times> snapshots) act" where
  "observe_rule fd acc p = (case acc of (result, snaps) \<Rightarrow> (case p of (r, index) \<Rightarrow>
     s_bind (s_get w_env) (\<lambda>e.
     s_bind (s_lift (lifecycle e r)) (\<lambda>state.
     let ident = as_str (dget r ''id'') in
     if state \<noteq> ''SAVED'' then s_ret (result @ [(ident, state)], snaps)
     else s_bind (s_lift (rich_rules fd r index)) (\<lambda>expected.
     let zone = as_str (dget r ''zone'') in
     s_bind (snapshot fd zone ''runtime'' snaps) (\<lambda>(runtime, snaps1).
     s_bind (snapshot fd zone ''permanent'' snaps1) (\<lambda>(permanent, snaps2).
     s_ret (result @ [(ident, if set expected \<subseteq> set runtime
         \<and> (dget r ''lifetime'' \<noteq> VStr ''permanent'' \<or> set expected \<subseteq> set permanent)
       then ''LOADED'' else ''SAVED'')], snaps2))))))))"

definition observe :: "'d firewalld \<Rightarrow> val list \<Rightarrow> (('d, 'z) fworld_scheme, (string \<times> string) list) act" where
  "observe fd rules = (let rs = incoming_rules rules in
     s_bind (s_fold (observe_rule fd) ([], []) (zip rs [0..<length rs])) (\<lambda>acc. s_ret (fst acc)))"

record external_record =
  ex_zone :: string
  ex_kind :: string
  ex_value :: string
  ex_runtime :: bool
  ex_permanent :: bool

definition mark_plane :: "string \<Rightarrow> external_record \<Rightarrow> external_record" where
  "mark_plane plane x = (if plane = ''runtime'' then x\<lparr>ex_runtime := True\<rparr> else x\<lparr>ex_permanent := True\<rparr>)"

fun add_external :: "string \<Rightarrow> string \<Rightarrow> ((string \<times> string \<times> string) \<times> external_record) list \<Rightarrow> string \<times> string
    \<Rightarrow> ((string \<times> string \<times> string) \<times> external_record) list" where
  "add_external zone plane records (kind, v) = (let key = (zone, kind, v) in
     AList.update key (mark_plane plane (case map_of records key of Some x \<Rightarrow> x
       | None \<Rightarrow> \<lparr>ex_zone = zone, ex_kind = kind, ex_value = take 1000 v, ex_runtime = False, ex_permanent = False\<rparr>)) records)"

definition external_plane :: "'d firewalld \<Rightarrow> entry list \<Rightarrow> ((string \<times> string \<times> string) \<times> external_record) list
    \<Rightarrow> string \<times> string \<Rightarrow> (('d, 'z) fworld_scheme, ((string \<times> string \<times> string) \<times> external_record) list) act" where
  "external_plane fd own records p = (case p of (zone, plane) \<Rightarrow>
     s_bind (daemon (fd_zone_services fd zone plane)) (\<lambda>services.
     s_bind (daemon (fd_zone_ports fd zone plane)) (\<lambda>ports.
     s_bind (rich_set fd zone plane) (\<lambda>natives.
     let foreign = filter (\<lambda>n. (zone, n, plane) \<notin> set (map entry_key own)) natives;
         found = map (Pair ''service'') services @ map (\<lambda>(port, proto). (''port'', port @ ''/'' @ proto)) ports
           @ map (Pair ''rich'') foreign in
     s_ret (foldl (add_external zone plane) records (take 256 found))))))"

definition external :: "'d firewalld \<Rightarrow> val list \<Rightarrow> (('d, 'z) fworld_scheme, external_record list \<times> bool) act" where
  "external fd rules = s_bind (s_get w_env) (\<lambda>e.
     s_bind (s_lift (entries e fd rules)) (\<lambda>own.
     s_bind (daemon (fd_active_zones fd)) (\<lambda>active.
     s_bind (s_fold (external_plane fd own) []
       [(zone, plane). zone \<leftarrow> take 16 (sort active), plane \<leftarrow> [''runtime'', ''permanent'']]) (\<lambda>records.
     s_ret (take 128 (map snd records), 128 < length records)))))"

section \<open>A lawful daemon\<close>

text \<open>
  What the adapter relies on: reading a zone's rich rules returns them and changes nothing,
  adding and removing do just that, and no other call touches the rich rules. A call that adds or removes and raises, for
  example because its five seconds were over, may have taken effect or not. \<open>view\<close> is the set of rich rules
  of each zone and plane.
\<close>

type_synonym 'd fw_view = "'d \<Rightarrow> string \<times> string \<Rightarrow> string set"

definition fd_lawful :: "'d firewalld \<Rightarrow> 'd fw_view \<Rightarrow> bool" where
  "fd_lawful fd view \<longleftrightarrow>
     (\<forall>z p d r d'. fd_rich fd z p d = (r, d') \<longrightarrow> view d' = view d \<and> (\<forall>ns. r = Inr ns \<longrightarrow> set ns = view d (z, p)))
     \<and> (\<forall>z n p t d r d'. fd_add fd z n p t d = (r, d') \<longrightarrow>
          view d' = (view d)((z, p) := insert n (view d (z, p))) \<or> isl r \<and> view d' = view d)
     \<and> (\<forall>z n p d r d'. fd_remove fd z n p d = (r, d') \<longrightarrow>
          view d' = (view d)((z, p) := view d (z, p) - {n}) \<or> isl r \<and> view d' = view d)
     \<and> (\<forall>d r d'. fd_zones fd d = (r, d') \<longrightarrow> view d' = view d)
     \<and> (\<forall>d r d'. fd_services fd d = (r, d') \<longrightarrow> view d' = view d)
     \<and> (\<forall>n d r d'. fd_definition fd n d = (r, d') \<longrightarrow> view d' = view d)
     \<and> (\<forall>d t d'. fd_monotonic fd d = (t, d') \<longrightarrow> view d' = view d)"

text \<open>A daemon whose calls have no effect when they raise.\<close>

definition fd_atomic :: "'d firewalld \<Rightarrow> 'd fw_view \<Rightarrow> bool" where
  "fd_atomic fd view \<longleftrightarrow> (\<forall>z n p t d err d'. fd_add fd z n p t d = (Inl err, d') \<or> fd_remove fd z n p d = (Inl err, d') \<longrightarrow> view d' = view d)"

lemma fd_lawfulD:
  assumes "fd_lawful fd view"
  shows "fd_rich fd z p d = (r, d') \<Longrightarrow> view d' = view d \<and> (\<forall>ns. r = Inr ns \<longrightarrow> set ns = view d (z, p))"
    and "fd_add fd z n p t d = (ra, d') \<Longrightarrow> view d' = (view d)((z, p) := insert n (view d (z, p))) \<or> isl ra \<and> view d' = view d"
    and "fd_remove fd z n p d = (ra, d') \<Longrightarrow> view d' = (view d)((z, p) := view d (z, p) - {n}) \<or> isl ra \<and> view d' = view d"
    and "fd_zones fd d = (rz, d') \<Longrightarrow> view d' = view d"
    and "fd_services fd d = (rs, d') \<Longrightarrow> view d' = view d"
    and "fd_definition fd n d = (rd, d') \<Longrightarrow> view d' = view d"
    and "fd_monotonic fd d = (m, d') \<Longrightarrow> view d' = view d"
proof -
  note L = assms [unfolded fd_lawful_def]
  show "fd_rich fd z p d = (r, d') \<Longrightarrow> view d' = view d \<and> (\<forall>ns. r = Inr ns \<longrightarrow> set ns = view d (z, p))"
    using L [THEN conjunct1] by blast
  show "fd_add fd z n p t d = (ra, d') \<Longrightarrow> view d' = (view d)((z, p) := insert n (view d (z, p))) \<or> isl ra \<and> view d' = view d"
    by (rule L [THEN conjunct2, THEN conjunct1, rule_format])
  show "fd_remove fd z n p d = (ra, d') \<Longrightarrow> view d' = (view d)((z, p) := view d (z, p) - {n}) \<or> isl ra \<and> view d' = view d"
    by (rule L [THEN conjunct2, THEN conjunct2, THEN conjunct1, rule_format])
  note K = L [THEN conjunct2, THEN conjunct2, THEN conjunct2]
  show "fd_zones fd d = (rz, d') \<Longrightarrow> view d' = view d" using K by blast
  show "fd_services fd d = (rs, d') \<Longrightarrow> view d' = view d" using K by blast
  show "fd_definition fd n d = (rd, d') \<Longrightarrow> view d' = view d" using K by blast
  show "fd_monotonic fd d = (m, d') \<Longrightarrow> view d' = view d" using K by blast
qed

lemma lawful_rich:
  assumes "fd_lawful fd view" "rich_set fd z p w = (r, w')"
  shows "view (fw_daemon w') = view (fw_daemon w)" "r = Inr ns \<Longrightarrow> set ns = view (fw_daemon w) (z, p)"
    "w_env w' = w_env w"
proof -
  obtain d where d: "fd_rich fd z p (fw_daemon w) = (r, d)" "w' = w\<lparr>fw_daemon := d\<rparr>"
    using assms(2) by (auto simp: rich_set_def daemon_def split: prod.splits)
  show "view (fw_daemon w') = view (fw_daemon w)" "r = Inr ns \<Longrightarrow> set ns = view (fw_daemon w) (z, p)"
    "w_env w' = w_env w"
    using fd_lawfulD(1) [OF assms(1) d(1)] d(2) by simp_all
qed

definition set_native :: "bool \<Rightarrow> string \<Rightarrow> string \<Rightarrow> string \<Rightarrow> (string \<times> string \<Rightarrow> string set) \<Rightarrow> string \<times> string \<Rightarrow> string set" where
  "set_native remove z n p f = f((z, p) := (if remove then f (z, p) - {n} else insert n (f (z, p))))"

lemma lawful_change:
  assumes "fd_lawful fd view" "change_native fd z n p remove t w = (r, w')"
  shows "w_env w' = w_env w"
    and "view (fw_daemon w') = set_native remove z n p (view (fw_daemon w)) \<or> isl r \<and> view (fw_daemon w') = view (fw_daemon w)"
    and "fd_atomic fd view \<Longrightarrow> isl r \<Longrightarrow> view (fw_daemon w') = view (fw_daemon w)"
proof -
  obtain d where d: "(if remove then fd_remove fd z n p else fd_add fd z n p t) (fw_daemon w) = (r, d)"
    and w': "w' = w\<lparr>fw_daemon := d\<rparr>"
    using assms(2) by (auto simp: change_native_def daemon_def split: prod.splits)
  show "w_env w' = w_env w" by (simp add: w')
  show "view (fw_daemon w') = set_native remove z n p (view (fw_daemon w)) \<or> isl r \<and> view (fw_daemon w') = view (fw_daemon w)"
    using d fd_lawfulD(2,3) [OF assms(1)] unfolding w' set_native_def by (cases remove) auto
  show "view (fw_daemon w') = view (fw_daemon w)" if at: "fd_atomic fd view" and r: "isl r"
  proof -
    obtain err where "r = Inl err" using r by (cases r) auto
    then show ?thesis using d at unfolding w' fd_atomic_def by (cases remove) fastforce+
  qed
qed

text \<open>Two sets of rules that differ at most in one entry.\<close>

definition near :: "string \<times> string \<times> string \<Rightarrow> (string \<times> string \<Rightarrow> string set) \<Rightarrow> (string \<times> string \<Rightarrow> string set) \<Rightarrow> bool" where
  "near k f g \<longleftrightarrow> (\<forall>z n p. (z, n, p) \<noteq> k \<longrightarrow> (n \<in> f (z, p) \<longleftrightarrow> n \<in> g (z, p)))"

lemma near_refl [simp]: "near k f f"
  by (simp add: near_def)

lemma near_native: "near k f g \<Longrightarrow> near k (set_native b z n p f) (set_native b z n p g)" "near (z, n, p) (set_native b z n p f) f"
  by (auto simp: near_def set_native_def)

section \<open>replace changes exactly the owned difference, or nothing\<close>

text \<open>The rules a list of changes leaves, and those a list of completed changes came from.\<close>

definition apply_entries :: "bool \<Rightarrow> entry list \<Rightarrow> (string \<times> string \<Rightarrow> string set) \<Rightarrow> string \<times> string \<Rightarrow> string set" where
  "apply_entries remove xs f = fold (\<lambda>(z, n, p, e). set_native remove z n p) xs f"

fun undo_view :: "completed list \<Rightarrow> (string \<times> string \<Rightarrow> string set) \<Rightarrow> string \<times> string \<Rightarrow> string set" where
  "undo_view [] f = f"
| "undo_view ((z, n, p, remove, t) # xs) f = undo_view xs (set_native remove z n p f)"

lemma replace_entry_view:
  assumes "fd_lawful fd view" "replace_entry fd remove dn (z, n, p, x) w = (r, w')"
  shows "case r of
      Inl err \<Rightarrow> near (z, n, p) (view (fw_daemon w')) (view (fw_daemon w)) \<and> (fd_atomic fd view \<longrightarrow> view (fw_daemon w') = view (fw_daemon w))
    | Inr dn' \<Rightarrow> view (fw_daemon w') = set_native remove z n p (view (fw_daemon w))
        \<and> undo_view (rev dn') (view (fw_daemon w')) = undo_view (rev dn) (view (fw_daemon w))"
proof -
  obtain ra w1 where a: "rich_set fd z p w = (ra, w1)" by fastforce
  note L = lawful_rich [OF assms(1) a]
  show ?thesis
  proof (cases ra)
    case (Inl err)
    then show ?thesis using assms(2) a L(1) by (auto simp: replace_entry_def s_bind_def)
  next
    case (Inr actual)
    have act: "set actual = view (fw_daemon w) (z, p)" using L(2) Inr by simp
    consider "remove" "n \<notin> set actual" | "\<not> remove" "n \<in> set actual" | "remove = (n \<in> set actual)" by blast
    then show ?thesis
    proof cases
      case 1
      then have "set_native remove z n p (view (fw_daemon w)) = view (fw_daemon w)"
        using act by (auto simp: set_native_def)
      then show ?thesis using assms(2) a Inr 1 L(1) by (auto simp: replace_entry_def s_bind_def)
    next
      case 2
      then show ?thesis using assms(2) a Inr L(1) by (auto simp: replace_entry_def s_bind_def)
    next
      case 3
      show ?thesis
      proof (cases "expiry_seconds (w_env w) x")
        case (Inl err)
        then show ?thesis using assms(2) a Inr 3 L(1) \<open>ra = Inr actual\<close>
          by (auto simp: replace_entry_def s_bind_def)
      next
        case (Inr t)
        obtain rc w2 where c: "change_native fd z n p remove t w1 = (rc, w2)" by fastforce
        note C = lawful_change(2,3) [OF assms(1) c]
        have inv: "set_native (\<not> remove) z n p (set_native remove z n p (view (fw_daemon w))) = view (fw_daemon w)"
          using 3 act by (auto simp: set_native_def fun_eq_iff)
        show ?thesis using assms(2) a Inr 3 L(1) \<open>ra = Inr actual\<close> c C inv near_native(2)
          by (cases rc) (auto simp: replace_entry_def s_bind_def)
      qed
    qed
  qed
qed

lemma confirm_entry_view:
  assumes "fd_lawful fd view" "confirm_entry fd remove x w = (r, w')"
  shows "view (fw_daemon w') = view (fw_daemon w)"
proof -
  obtain z n p e where x: "x = (z, n, p, e)" by (cases x)
  obtain ra w1 where a: "rich_set fd z p w = (ra, w1)" by fastforce
  show ?thesis
    using assms(2) a lawful_rich(1) [OF assms(1) a]
    by (cases ra) (auto simp: confirm_entry_def x s_bind_def s_guard_def)
qed

lemma near_undo: "near k f g \<Longrightarrow> near k (undo_view xs f) (undo_view xs g)"
  by (induction xs f arbitrary: g rule: undo_view.induct) (auto intro: near_native)

text \<open>Undoing what the loop completed gives the rules before it, but for the entry whose call raised.\<close>

lemma replace_loop_view:
  assumes "fd_lawful fd view" "replace_loop fd remove dn xs w = (err, dn', w')"
  shows "(if err = None then undo_view (rev dn') (view (fw_daemon w')) = undo_view (rev dn) (view (fw_daemon w))
        \<and> view (fw_daemon w') = apply_entries remove xs (view (fw_daemon w))
      else \<exists>k \<in> entry_key ` set xs. near k (undo_view (rev dn') (view (fw_daemon w'))) (undo_view (rev dn) (view (fw_daemon w))))
    \<and> (fd_atomic fd view \<longrightarrow> undo_view (rev dn') (view (fw_daemon w')) = undo_view (rev dn) (view (fw_daemon w)))"
  using assms(2)
proof (induction xs arbitrary: dn w)
  case Nil
  then show ?case by (auto simp: apply_entries_def)
next
  case (Cons x xs)
  obtain z n p e where x: "x = (z, n, p, e)" by (cases x)
  obtain r w1 where r: "replace_entry fd remove dn x w = (r, w1)" by fastforce
  note E = replace_entry_view [OF assms(1) r [unfolded x]]
  show ?case
  proof (cases r)
    case (Inl er)
    then have "dn' = dn" "w' = w1" "err = Some er" using Cons.prems r by auto
    then show ?thesis using E Inl near_undo [of "(z, n, p)"] by (auto simp: x entry_key_def)
  next
    case (Inr d1)
    show ?thesis
    proof (cases "d1 = dn")
      case True
      then have "replace_loop fd remove dn xs w1 = (err, dn', w')" using Cons.prems r Inr by simp
      from Cons.IH [OF this] show ?thesis using E Inr True by (auto simp: apply_entries_def x)
    next
      case False
      obtain rc w2 where c: "confirm_entry fd remove x w1 = (rc, w2)" by fastforce
      note V = confirm_entry_view [OF assms(1) c]
      show ?thesis
      proof (cases rc)
        case (Inl er)
        then have "dn' = d1" "w' = w2" "err = Some er" using Cons.prems r False c \<open>r = Inr d1\<close> by auto
        moreover have "undo_view (rev d1) (view (fw_daemon w2)) = undo_view (rev dn) (view (fw_daemon w))"
          using E unfolding V \<open>r = Inr d1\<close> sum.case by (rule conjunct2)
        ultimately show ?thesis by (auto simp: x entry_key_def)
      next
        case (Inr u)
        then have "replace_loop fd remove d1 xs w2 = (err, dn', w')"
          using Cons.prems r False c \<open>r = Inr d1\<close> by simp
        from Cons.IH [OF this] show ?thesis using E V \<open>r = Inr d1\<close> by (auto simp: apply_entries_def x)
      qed
    qed
  qed
qed

lemma undo_completed_view:
  assumes "fd_lawful fd view" "undo_completed fd k xs w = (errors, w')" "errors = k"
  shows "view (fw_daemon w') = undo_view xs (view (fw_daemon w))"
  using assms(2,3)
proof (induction xs arbitrary: k w)
  case (Cons x xs)
  obtain z n p rm t where x: "x = (z, n, p, rm, t)" by (cases x)
  obtain r w1 where r: "change_native fd z n p rm t w = (r, w1)" by fastforce
  have mono: "undo_completed fd j ys v = (m, v') \<Longrightarrow> j \<le> m" for j ys m and v v' :: "('a, 'b) fworld_scheme"
    by (induction fd j ys v rule: undo_completed.induct) (auto split: prod.splits sum.splits dest: Suc_leD)
  show ?case
  proof (cases r)
    case (Inl er)
    then have "undo_completed fd (Suc k) xs w1 = (errors, w')" using Cons.prems r x by simp
    from mono [OF this] Cons.prems(2) show ?thesis by simp
  next
    case (Inr u)
    then have "undo_completed fd k xs w1 = (errors, w')" using Cons.prems r x by simp
    from Cons.IH [OF this Cons.prems(2)] show ?thesis using lawful_change(2) [OF assms(1) r] Inr x by auto
  qed
qed simp

lemma replace_failed_view:
  assumes "fd_lawful fd view" "replace_failed fd err dn w = (r, w')"
    and "r \<noteq> Inl (PolicyError ''Firewall apply failed; rollback is INCOMPLETE. Review incoming access.'')"
  shows "view (fw_daemon w') = undo_view (rev dn) (view (fw_daemon w)) \<and> isl r"
proof -
  obtain k v where u: "undo_completed fd 0 (rev dn) w = (k, v)" by fastforce
  have "k = 0" using assms(2,3) u by (auto simp: replace_failed_def split: if_splits)
  with assms(2) u undo_completed_view [OF assms(1) u] show ?thesis by (auto simp: replace_failed_def)
qed

lemma replace_changes_view:
  assumes L: "fd_lawful fd view" and r: "replace_changes fd removed added w = (r, w')"
    and ok: "r \<noteq> Inl (PolicyError ''Firewall apply failed; rollback is INCOMPLETE. Review incoming access.'')"
  shows "if isl r then (\<exists>k \<in> entry_key ` (set removed \<union> set added). near k (view (fw_daemon w')) (view (fw_daemon w)))
        \<and> (fd_atomic fd view \<longrightarrow> view (fw_daemon w') = view (fw_daemon w))
    else view (fw_daemon w') = apply_entries False (sort_key entry_key added) (apply_entries True (sort_key entry_key removed) (view (fw_daemon w)))"
proof -
  obtain e1 d1 w1 where l1: "replace_loop fd True [] (sort_key entry_key removed) w = (e1, d1, w1)"
    using prod_cases3 by blast
  note V1 = replace_loop_view [OF L l1]
  show ?thesis
  proof (cases e1)
    case (Some err)
    then have "replace_failed fd err d1 w1 = (r, w')" using r l1 by (simp add: replace_changes_def)
    from replace_failed_view [OF L this ok] V1 Some show ?thesis by auto
  next
    case None
    obtain e2 d2 w2 where l2: "replace_loop fd False d1 (sort_key entry_key added) w1 = (e2, d2, w2)"
      using prod_cases3 by blast
    note V2 = replace_loop_view [OF L l2]
    show ?thesis
    proof (cases e2)
      case (Some err)
      then have "replace_failed fd err d2 w2 = (r, w')" using r l1 l2 None by (simp add: replace_changes_def)
      from replace_failed_view [OF L this ok] V1 V2 Some None show ?thesis by auto
    next
      case N: None
      then have "r = Inr () \<and> w' = w2" using r l1 l2 None by (auto simp: replace_changes_def)
      then show ?thesis using V1 V2 None N by simp
    qed
  qed
qed

text \<open>The order of the changes does not matter: membership of the result is a matter of sets.\<close>

lemma apply_entries_mem:
  "n \<in> apply_entries remove xs f (z, p) \<longleftrightarrow>
    (if (z, n, p) \<in> entry_key ` set xs then \<not> remove else n \<in> f (z, p))"
proof (induction xs arbitrary: f)
  case (Cons x xs)
  obtain z' n' p' e where x: "x = (z', n', p', e)" by (cases x)
  show ?case
    unfolding apply_entries_def x using Cons.IH [of "set_native remove z' n' p' f", unfolded apply_entries_def]
    by (auto simp: entry_key_def set_native_def)
qed (simp add: apply_entries_def)

text \<open>Everything but the daemon's bookkeeping and the definition cache.\<close>

definition fw_rest :: "'d fw_view \<Rightarrow> ('d, 'z) fworld_scheme \<Rightarrow> (string \<times> string \<Rightarrow> string set) \<times> pworld" where
  "fw_rest view w = (view (fw_daemon w), pworld.truncate w)"

lemma fw_rest_cache [simp]: "fw_rest view (w\<lparr>fw_cache := c\<rparr>) = fw_rest view w"
  by (simp add: fw_rest_def pworld.truncate_def)

lemma fw_rest_daemon: "view d = view (fw_daemon w) \<Longrightarrow> fw_rest view (w\<lparr>fw_daemon := d\<rparr>) = fw_rest view w"
  by (simp add: fw_rest_def pworld.truncate_def)

lemma keeps_daemon:
  "(\<And>d x d'. m d = (x, d') \<Longrightarrow> view d' = view d) \<Longrightarrow> keeps (fw_rest view) (daemon m)"
  by (auto simp: keeps_def daemon_def intro: fw_rest_daemon split: prod.splits)

lemma keeps_monotonic: "fd_lawful fd view \<Longrightarrow> keeps (fw_rest view) (monotonic fd)"
  unfolding keeps_def monotonic_def
  by (auto intro!: fw_rest_daemon dest: fd_lawfulD(7) split: prod.splits)

lemma keeps_rich: "fd_lawful fd view \<Longrightarrow> keeps (fw_rest view) (rich_set fd z p)"
  unfolding rich_set_def by (rule keeps_daemon) (simp add: fd_lawfulD(1))

lemma keeps_details: "fd_lawful fd view \<Longrightarrow> keeps (fw_rest view) (service_details fd deadline names)"
proof (induction names)
  case (Cons n ns)
  have d: "keeps (fw_rest view) (daemon (fd_definition fd n))"
    using fd_lawfulD(6) [OF Cons.prems] by (rule keeps_daemon)
  show ?case
    unfolding service_details.simps
    by (intro keeps_intros keeps_monotonic Cons d)
qed (simp add: keeps_intros)

lemma keeps_catalog: assumes "fd_lawful fd view" shows "keeps (fw_rest view) (catalog fd)"
proof -
  have s: "keeps (fw_rest view) (daemon (fd_services fd))" "keeps (fw_rest view) (daemon (fd_zones fd))"
    using fd_lawfulD(4,5) [OF assms] by (auto intro!: keeps_daemon)
  show ?thesis
    unfolding catalog_def catalog_details_def Let_def
    by (intro keeps_intros s keeps_monotonic keeps_details assms) simp_all
qed

section \<open>capture records the rules as they are\<close>

definition snaps_ok :: "(string \<times> string \<Rightarrow> string set) \<Rightarrow> snapshots \<Rightarrow> bool" where
  "snaps_ok f snaps \<longleftrightarrow> (\<forall>k ns. map_of snaps k = Some ns \<longrightarrow> set ns = f k)"

lemma snapshot_view:
  assumes "fd_lawful fd view" "snapshot fd z p snaps w = (Inr (ns, snaps'), w')"
    "snaps_ok (view (fw_daemon w)) snaps"
  shows "set ns = view (fw_daemon w) (z, p) \<and> snaps_ok (view (fw_daemon w)) snaps' \<and> fw_rest view w' = fw_rest view w"
proof (cases "map_of snaps (z, p)")
  case None
  then obtain ms where r: "rich_set fd z p w = (Inr ms, w')" "ns = ms" "snaps' = ((z, p), ms) # snaps"
    using assms(2) by (auto simp: snapshot_def act_simps)
  have "set ms = view (fw_daemon w) (z, p)" using lawful_rich(2) [OF assms(1) r(1)] by simp
  then show ?thesis
    using r assms(3) keepsD [OF keeps_rich [OF assms(1)] r(1)] by (auto simp: snaps_ok_def)
next
  case (Some ms)
  then show ?thesis using assms(2,3) by (auto simp: snapshot_def snaps_ok_def)
qed

definition capture_of :: "(string \<times> string \<Rightarrow> string set) \<Rightarrow> entry list \<Rightarrow> string \<times> string \<times> string \<Rightarrow> val" where
  "capture_of f old key = (case key of (z, n, p) \<Rightarrow> native_record key (n \<in> f (z, p)) (old_expiry old key))"

lemma capture_fold:
  assumes "fd_lawful fd view" "s_fold (capture_step fd old) (records, seen, snaps) xs w = (Inr (records', seen', snaps'), w')"
    "snaps_ok (view (fw_daemon w)) snaps" "records = map (capture_of (view (fw_daemon w)) old) (rev seen)" "distinct seen"
  shows "records' = map (capture_of (view (fw_daemon w)) old) (rev seen') \<and> distinct seen'
    \<and> set seen' = set seen \<union> entry_key ` set xs \<and> fw_rest view w' = fw_rest view w"
  using assms(2-5)
proof (induction xs arbitrary: records seen snaps w)
  case (Cons x xs)
  obtain z n p e where x: "x = (z, n, p, e)" by (cases x)
  have key: "entry_key x = (z, n, p)" by (simp add: x entry_key_def)
  show ?case
  proof (cases "entry_key x \<in> set seen")
    case True
    then have "capture_step fd old (records, seen, snaps) x w = s_ret (records, seen, snaps) w"
      by (simp add: capture_step_def key)
    then have "s_fold (capture_step fd old) (records, seen, snaps) xs w = (Inr (records', seen', snaps'), w')"
      using Cons.prems(1) by (simp add: s_bind_def)
    from Cons.IH [OF this Cons.prems(2-4)] True show ?thesis by auto
  next
    case False
    then have "capture_step fd old (records, seen, snaps) x w = s_bind (snapshot fd z p snaps) (\<lambda>(ns, snaps').
        s_ret (records @ [native_record (z, n, p) (n \<in> set ns) (old_expiry old (z, n, p))], (z, n, p) # seen, snaps')) w"
      by (simp add: capture_step_def key Let_def)
    then obtain ns snaps1 w1 where s: "snapshot fd z p snaps w = (Inr (ns, snaps1), w1)"
      and f: "s_fold (capture_step fd old) (records @ [native_record (z, n, p) (n \<in> set ns) (old_expiry old (z, n, p))],
          (z, n, p) # seen, snaps1) xs w1 = (Inr (records', seen', snaps'), w')"
      using Cons.prems(1) by (auto simp: act_simps)
    note S = snapshot_view [OF assms(1) s Cons.prems(2)]
    have v: "view (fw_daemon w1) = view (fw_daemon w)" using S by (simp add: fw_rest_def)
    have "records' = map (capture_of (view (fw_daemon w1)) old) (rev seen') \<and> distinct seen'
      \<and> set seen' = set ((z, n, p) # seen) \<union> entry_key ` set xs \<and> fw_rest view w' = fw_rest view w1"
      by (rule Cons.IH [OF f]) (use S v Cons.prems(3,4) False key in \<open>auto simp: capture_of_def\<close>)
    then show ?thesis using S v key by auto
  qed
qed simp

lemma capture_records:
  assumes "fd_lawful fd view" "capture fd before after w = (Inr records, w')"
  obtains old new keys where "entries (w_env w) fd before = Inr old" "entries (w_env w) fd after = Inr new"
    "records = map (capture_of (view (fw_daemon w)) old) keys" "distinct keys"
    "set keys = entry_key ` (set old - set new \<union> (set new - set old))" "fw_rest view w' = fw_rest view w"
proof -
  from assms(2) obtain old new acc where e: "entries (w_env w) fd before = Inr old" "entries (w_env w) fd after = Inr new"
    and f: "s_fold (capture_step fd old) ([], [], []) (changed_entries old new) w = (Inr acc, w')" "records = fst acc"
    unfolding capture_def Let_def by (auto simp: act_simps)
  obtain seen snaps where acc: "acc = (records, seen, snaps)" using f(2) by (cases acc) auto
  have "records = map (capture_of (view (fw_daemon w)) old) (rev seen) \<and> distinct seen
    \<and> set seen = set [] \<union> entry_key ` set (changed_entries old new) \<and> fw_rest view w' = fw_rest view w"
    by (rule capture_fold [OF assms(1) f(1) [unfolded acc]]) (simp_all add: snaps_ok_def)
  moreover have "set (changed_entries old new) = set old - set new \<union> (set new - set old)"
    by (auto simp: changed_entries_def minus_list_def)
  ultimately show ?thesis using that [OF e, of "rev seen"] by auto
qed

section \<open>restore puts every captured rule back\<close>

definition alive :: "env \<Rightarrow> val \<Rightarrow> bool" where
  "alive e expires \<longleftrightarrow> \<not> truthy expires \<or> py_ge (env_now e) expires = Inr False"

lemma restore_record_view:
  assumes L: "fd_lawful fd view" and p: "plane_of p = p"
    and r: "restore_record fd (native_record (z, n, p) b x) w = (Inr u, w')"
  shows "view (fw_daemon w') = set_native (\<not> (b \<and> alive (w_env w) x)) z n p (view (fw_daemon w))"
    and "w_env w' = w_env w"
proof -
  define e where "e = w_env w"
  from r obtain actual w1 present w2 actual' w3 where
    a: "rich_set fd z p w = (Inr actual, w1)" and st: "still_present e (VBool b) x = Inr present"
    and c: "(if \<not> py_eq (VBool (n \<in> set actual)) present
             then s_bind (s_lift (expiry_seconds e x)) (\<lambda>seconds. change_native fd z n p (\<not> truthy present) seconds)
             else s_ret ()) w1 = (Inr (), w2)"
    and a': "rich_set fd z p w2 = (Inr actual', w')" and g: "py_eq (VBool (n \<in> set actual')) present"
    unfolding restore_record_def native_record_def Let_def e_def
    by (auto simp: act_simps str_field_def p py_simps cong: if_cong)
  define now where "now = (b \<and> alive e x)"
  have pr: "present = VBool now"
    using st by (auto simp: still_present_def now_def alive_def py_simps split: if_splits)
  have eqb: "py_eq (VBool s) (VBool t) \<longleftrightarrow> s = t" for s t by (auto simp: py_eq_def)
  note A = lawful_rich [OF L a]
  have act: "set actual = view (fw_daemon w) (z, p)" using A(2) by simp
  have "view (fw_daemon w2) = set_native (\<not> now) z n p (view (fw_daemon w)) \<and> w_env w2 = w_env w"
  proof (cases "(n \<in> set actual) = now")
    case True
    then have "w2 = w1" using c by (simp add: pr eqb)
    moreover have "set_native (\<not> now) z n p (view (fw_daemon w)) = view (fw_daemon w)"
      using True act by (auto simp: set_native_def insert_absorb)
    ultimately show ?thesis using A by simp
  next
    case False
    then obtain t where "change_native fd z n p (\<not> now) t w1 = (Inr (), w2)" using c by (auto simp: pr eqb act_simps)
    from lawful_change(1,2) [OF L this] show ?thesis using A by auto
  qed
  then show "view (fw_daemon w') = set_native (\<not> (b \<and> alive (w_env w) x)) z n p (view (fw_daemon w))" "w_env w' = w_env w"
    using lawful_rich [OF L a'] by (simp_all add: now_def e_def)
qed

lemma restore_fold_mono: "s_fold (restore_step fd) k rs w = (Inr m, w') \<Longrightarrow> k \<le> m"
proof (induction rs arbitrary: k w)
  case (Cons r rs)
  then obtain j w1 where "restore_step fd k r w = (Inr j, w1)" "s_fold (restore_step fd) j rs w1 = (Inr m, w')"
    by (auto simp: act_simps)
  moreover from this(1) have "k \<le> j"
    by (auto simp: restore_step_def act_simps s_try_def split: prod.splits sum.splits)
  ultimately show ?case using Cons.IH by (meson le_trans)
qed (simp add: act_simps)

text \<open>The rules after the records were put back one after the other.\<close>

definition put_back :: "env \<Rightarrow> ((string \<times> string \<times> string) \<times> bool \<times> val) list \<Rightarrow> (string \<times> string \<Rightarrow> string set)
    \<Rightarrow> string \<times> string \<Rightarrow> string set" where
  "put_back e rs f = fold (\<lambda>((z, n, p), b, x). set_native (\<not> (b \<and> alive e x)) z n p) rs f"

lemma restore_fold_view:
  assumes L: "fd_lawful fd view"
    and r: "s_fold (restore_step fd) 0 (map (\<lambda>(k, b, x). native_record k b x) rs) w = (Inr 0, w')"
    and p: "\<forall>((z, n, p), b, x) \<in> set rs. plane_of p = p"
  shows "view (fw_daemon w') = put_back (w_env w) rs (view (fw_daemon w)) \<and> w_env w' = w_env w"
  using r p
proof (induction rs arbitrary: w)
  case (Cons a rs)
  obtain z n p b x where a: "a = ((z, n, p), b, x)" by (metis prod_cases3 surj_pair)
  from Cons.prems(1) obtain j w1 where s: "restore_step fd 0 (native_record (z, n, p) b x) w = (Inr j, w1)"
    and f: "s_fold (restore_step fd) j (map (\<lambda>(k, b, x). native_record k b x) rs) w1 = (Inr 0, w')"
    by (auto simp: a act_simps)
  have "j = 0" using restore_fold_mono [OF f] by simp
  with s obtain u where rr: "restore_record fd (native_record (z, n, p) b x) w = (Inr u, w1)"
    by (auto simp: restore_step_def act_simps s_try_def split: prod.splits sum.splits)
  have pp: "plane_of p = p" using Cons.prems(2) by (simp add: a)
  note R = restore_record_view [OF L pp rr]
  have "view (fw_daemon w') = put_back (w_env w1) rs (view (fw_daemon w1)) \<and> w_env w' = w_env w1"
    by (rule Cons.IH) (use f \<open>j = 0\<close> Cons.prems(2) in auto)
  then show ?case using R by (simp add: put_back_def a)
qed (simp add: put_back_def)

lemma put_back_mem:
  assumes "distinct (map fst rs)"
  shows "n \<in> put_back e rs f (z, p) \<longleftrightarrow> (case map_of rs (z, n, p) of
    Some (b, x) \<Rightarrow> b \<and> alive e x | None \<Rightarrow> n \<in> f (z, p))"
  using assms
proof (induction rs arbitrary: f)
  case (Cons a rs)
  obtain z' n' p' b x where a: "a = ((z', n', p'), b, x)" by (metis prod_cases3 surj_pair)
  have none: "(z', n', p') \<notin> fst ` set rs" using Cons.prems by (simp add: a)
  have "n \<in> put_back e (a # rs) f (z, p)
    \<longleftrightarrow> n \<in> put_back e rs (set_native (\<not> (b \<and> alive e x)) z' n' p' f) (z, p)"
    by (simp add: put_back_def a)
  also have "\<dots> \<longleftrightarrow> (case map_of rs (z, n, p) of Some (b, x) \<Rightarrow> b \<and> alive e x
      | None \<Rightarrow> n \<in> set_native (\<not> (b \<and> alive e x)) z' n' p' f (z, p))"
    by (rule Cons.IH) (use Cons.prems in simp)
  also have "\<dots> \<longleftrightarrow> (case map_of (a # rs) (z, n, p) of Some (b, x) \<Rightarrow> b \<and> alive e x | None \<Rightarrow> n \<in> f (z, p))"
    using none by (auto simp: a set_native_def map_of_eq_None_iff [THEN iffD2] split: option.splits)
  finally show ?case .
qed (simp add: put_back_def)

lemma entries_planes:
  assumes "entries e fd rules = Inr es" "(z, n, p, x) \<in> set es" shows "plane_of p = p"
proof -
  from assms obtain ess where m: "py_map (rule_entries e fd) (zip (incoming_rules rules) [0..<length (incoming_rules rules)]) = Inr ess"
    and es: "es = remdups (concat ess)" by (auto simp: entries_def Let_def py_simps)
  from assms(2) es obtain ys where ys: "ys \<in> set ess" "(z, n, p, x) \<in> set ys" by auto
  from m ys(1) obtain q where "rule_entries e fd q = Inr ys"
    by (auto simp: py_map_Inr_all2 list_all2_conv_all_nth in_set_conv_nth)
  with ys(2) show ?thesis
    by (auto simp: rule_entries_def Let_def py_simps plane_of_def split: prod.splits if_splits)
qed

lemma restore_capture:
  assumes L: "fd_lawful fd view" and c: "capture fd before after w = (Inr records, w1)"
    and old: "entries (w_env w) fd before = Inr old" and new: "entries (w_env w) fd after = Inr new"
    and r: "restore fd records v = (Inr u, v')"
  shows "n \<in> view (fw_daemon v') (z, p) \<longleftrightarrow>
    (if (z, n, p) \<in> entry_key ` (set old - set new \<union> (set new - set old))
     then n \<in> view (fw_daemon w) (z, p) \<and> alive (w_env v) (old_expiry old (z, n, p))
     else n \<in> view (fw_daemon v) (z, p))"
proof -
  from capture_records [OF L c] obtain keys where
    rec: "records = map (capture_of (view (fw_daemon w)) old) keys" and dist: "distinct keys"
    and keys: "set keys = entry_key ` (set old - set new \<union> (set new - set old))"
    using old new by (metis Inr_inject)
  define rs where "rs = map (\<lambda>k. (k, (case k of (z, n, p) \<Rightarrow> n \<in> view (fw_daemon w) (z, p)), old_expiry old k)) (rev keys)"
  have rr: "rev records = map (\<lambda>(k, b, x). native_record k b x) rs"
    by (auto simp: rec rs_def capture_of_def rev_map split: prod.splits)
  have pl: "\<forall>((z, n, p), b, x) \<in> set rs. plane_of p = p"
    using keys entries_planes [OF old] entries_planes [OF new] by (auto simp: rs_def entry_key_def)
  have f: "s_fold (restore_step fd) 0 (map (\<lambda>(k, b, x). native_record k b x) rs) v = (Inr 0, v')"
    using r by (auto simp: restore_def rr act_simps)
  have d: "distinct (map fst rs)" using dist by (simp add: rs_def comp_def)
  have m: "map_of rs k = (if k \<in> set keys then Some (case k of (z, n, p) \<Rightarrow> n \<in> view (fw_daemon w) (z, p), old_expiry old k) else None)" for k
    by (simp add: rs_def map_of_map_keys map_of_map_restrict restrict_map_def)
  show ?thesis
    using restore_fold_view [OF L f pl] put_back_mem [OF d, of n "w_env v" "view (fw_daemon v)" z p] m keys
    by simp
qed

section \<open>A concrete daemon\<close>

text \<open>
  A daemon that always works: its state is the rich rules of each zone and plane. It is used
  to show that the assumptions above can hold.
\<close>

type_synonym demo_rules = "((string \<times> string) \<times> string list) list"

definition demo_view :: "demo_rules fw_view" where
  "demo_view d k = (case map_of d k of None \<Rightarrow> {} | Some ns \<Rightarrow> set ns)"

definition demo_list :: "demo_rules \<Rightarrow> string \<times> string \<Rightarrow> string list" where
  "demo_list d k = (case map_of d k of None \<Rightarrow> [] | Some ns \<Rightarrow> ns)"

definition demo_firewalld :: "demo_rules firewalld" where
  "demo_firewalld = \<lparr>fd_rich = (\<lambda>z p d. (Inr (demo_list d (z, p)), d)),
     fd_add = (\<lambda>z n p t d. (Inr (), AList.update (z, p) (n # demo_list d (z, p)) d)),
     fd_remove = (\<lambda>z n p d. (Inr (), AList.update (z, p) (removeAll n (demo_list d (z, p))) d)),
     fd_zones = (\<lambda>d. (Inr [''public''], d)), fd_active_zones = (\<lambda>d. (Inr [''public''], d)),
     fd_services = (\<lambda>d. (Inr [''ssh''], d)), fd_definition = (\<lambda>n d. (Inr [], d)),
     fd_zone_services = (\<lambda>z p d. (Inr [], d)), fd_zone_ports = (\<lambda>z p d. (Inr [], d)),
     fd_monotonic = (\<lambda>d. (0, d)), fd_canonical = Inr\<rparr>"

lemma demo_atomic: "fd_atomic demo_firewalld demo_view"
  by (simp add: fd_atomic_def demo_firewalld_def)

lemma demo_lawful: "fd_lawful demo_firewalld demo_view"
proof -
  have v: "demo_view d k = set (demo_list d k)" for d k
    by (simp add: demo_view_def demo_list_def split: option.splits)
  have u: "demo_list (AList.update k ns d) j = (if j = k then ns else demo_list d j)" for k ns d j
    by (simp add: demo_list_def update_conv')
  show ?thesis unfolding fd_lawful_def by (auto simp: demo_firewalld_def v u fun_eq_iff)
qed

definition demo_incoming :: dict where
  "demo_incoming = [(''id'', VStr ''greyward-0123456789abcdef0123''), (''provider'', VStr ''incoming''), (''name'', VStr ''SSH''),
     (''description'', VStr []), (''action'', VStr ''allow''), (''enabled'', VBool True), (''family'', VStr ''ipv4''),
     (''protocols'', VList [VStr ''tcp'', VStr ''udp'']), (''ports'', VList []), (''lifetime'', VStr ''1h''),
     (''created_at'', VInt 1000), (''updated_at'', VInt 1000), (''expires_at'', VInt 4600), (''boot_id'', VNone),
     (''zone'', VStr ''public''), (''service'', VStr ''ssh''), (''source'', VStr []), (''scope'', VStr ''system'')]"

definition demo_native :: string where
  "demo_native = ''rule '' @ quoted ''family'' ''ipv4'' @ '' '' @ quoted ''priority'' ''-20000'' @ '' service '' @ quoted ''name'' ''ssh'' @ '' accept''"

definition demo_fworld :: "demo_rules fworld" where
  "demo_fworld = \<lparr>w_env = demo_env, w_store = new_store, w_policy_file = None, w_backup_file = None,
     w_io = (\<lambda>n. None), w_step = 0, fw_daemon = [((''public'', ''runtime''), [''external''])], fw_cache = None\<rparr>"

lemma demo_life: "lifecycle demo_env demo_incoming = Inr ''SAVED''"
  by (simp add: lifecycle_def demo_incoming_def demo_env_def py_ge_def)

lemma demo_texts: "rich_texts demo_incoming 0 = [demo_native]"
  by (simp add: rich_texts_def rich_prefix_def rich_families_def rich_elements_def demo_incoming_def demo_native_def
      quoted_def int_str_def nat_str.simps digit_char_def char_of_eq_iff)

lemma demo_entries: "entries demo_env demo_firewalld [VDict demo_incoming] = Inr [(''public'', demo_native, ''runtime'', VInt 4600)]"
proof -
  have i: "incoming_rules [VDict demo_incoming] = [demo_incoming]" by (simp add: incoming_rules_def demo_incoming_def)
  have r: "rich_rules demo_firewalld demo_incoming 0 = Inr [demo_native]"
    by (simp add: rich_rules_def demo_texts demo_firewalld_def)
  show ?thesis
    by (simp add: entries_def i rule_entries_def demo_life r) (simp add: demo_incoming_def)
qed

lemma demo_entries_none: "entries demo_env demo_firewalld [] = Inr []"
  by (simp add: entries_def incoming_rules_def)

end
