(* ===== verification/Py_Text.thy ===== *)
theory Py_Text
  imports Py_Runtime
begin

text \<open>
  \<open>str()\<close> and \<open>repr()\<close> of values, case folding and substring tests, as far as the services use
  them. Case folding is that of Latin-1 except for the micro sign, which folds outside it.
\<close>

definition repr_char :: "char \<Rightarrow> char \<Rightarrow> string" where
  "repr_char quote c = (if c = quote \<or> code c = 92 then [CHR 0x5C, c]
     else if code c = 10 then [CHR 0x5C, CHR ''n'']
     else if code c = 13 then [CHR 0x5C, CHR ''r'']
     else if code c = 9 then [CHR 0x5C, CHR ''t'']
     else if \<not> printable c then [CHR 0x5C, CHR ''x''] @ hex_digit_pair (code c)
     else [c])"

definition repr_str :: "string \<Rightarrow> string" where
  "repr_str s = (let quote = (if CHR 0x27 \<in> set s \<and> CHR 0x22 \<notin> set s then CHR 0x22 else CHR 0x27) in
     [quote] @ concat (map (repr_char quote) s) @ [quote])"

fun py_repr :: "env \<Rightarrow> val \<Rightarrow> string" where
  "py_repr e VNone = ''None''"
| "py_repr e (VBool b) = (if b then ''True'' else ''False'')"
| "py_repr e (VInt i) = int_str i"
| "py_repr e (VFloat f) = (case f of Fin q \<Rightarrow> env_float_repr e q | PosInf \<Rightarrow> ''inf'' | NegInf \<Rightarrow> ''-inf'' | NaN \<Rightarrow> ''nan'')"
| "py_repr e (VStr s) = repr_str s"
| "py_repr e (VList xs) = ''['' @ join '', '' (map (py_repr e) xs) @ '']''"
| "py_repr e (VDict d) = ''{'' @ join '', '' (map (\<lambda>(k, v). repr_str k @ '': '' @ py_repr e v) d) @ ''}''"

definition py_str :: "env \<Rightarrow> val \<Rightarrow> string" where
  "py_str e v = (case v of VStr s \<Rightarrow> s | _ \<Rightarrow> py_repr e v)"

definition casefold :: "string \<Rightarrow> string" where
  "casefold s = concat (map (\<lambda>c. if code c = 223 then ''ss'' else [lower_char c]) s)"

lemma py_str_VStr [simp]: "py_str e (VStr s) = s"
  by (simp add: py_str_def)

text \<open>\<open>s.rsplit(c, 1)[-1]\<close>: what follows the last separator.\<close>

definition after_last :: "char \<Rightarrow> string \<Rightarrow> string" where
  "after_last c s = last (split_on c s)"

text \<open>\<open>list(dict.fromkeys(xs))\<close>: first occurrences, in order.\<close>

definition first_unique :: "'a list \<Rightarrow> 'a list" where
  "first_unique xs = foldl (\<lambda>acc x. if x \<in> set acc then acc else acc @ [x]) [] xs"

lemma first_unique_step:
  "set (foldl (\<lambda>acc x. if x \<in> set acc then acc else acc @ [x]) a xs) = set a \<union> set xs"
  by (induction xs arbitrary: a) auto

lemma first_unique_distinct_step:
  "distinct a \<Longrightarrow> distinct (foldl (\<lambda>acc x. if x \<in> set acc then acc else acc @ [x]) a xs)"
  by (induction xs arbitrary: a) auto

lemma set_first_unique [simp]: "set (first_unique xs) = set xs"
  using first_unique_step [of "[]" xs] by (simp add: first_unique_def)

lemma distinct_first_unique [simp]: "distinct (first_unique xs)"
  using first_unique_distinct_step [of "[]" xs] by (simp add: first_unique_def)

end
