(* ===== verification/Rule_Transactions.thy ===== *)
theory Rule_Transactions
  imports Network_Firewall Py_Text
begin

text \<open>
  \<open>network_rule_transactions.py\<close>: the class \<open>RuleManager\<close>. A change is prepared against the
  policy on disk, reviewed, authorised and applied; incoming rules go through a journal in the
  policy file so that an interrupted change can be undone.
\<close>

section \<open>State\<close>

record txn =
  t_actor :: int
  t_provider :: string
  t_before :: dict
  t_after :: dict
  t_deadline :: rat
  t_cancelled :: bool
  t_applying :: bool
  t_changes :: "val list"
  t_native_before :: "val list option"

record undo_entry =
  u_actor :: int
  u_provider :: string
  u_before :: dict
  u_revision :: val
  u_deadline :: rat

text \<open>
  \<open>rm_uuids\<close> supplies the random identifiers, \<open>rm_tokens\<close> the random tokens; \<open>rm_clock\<close> is the
  monotonic clock.
\<close>

record 'd rworld = "'d fworld" +
  rm_firewall :: bool
  rm_pending :: "(string \<times> txn) list"
  rm_undo :: "(string \<times> undo_entry) list"
  rm_clock :: rat
  rm_uuids :: "nat \<Rightarrow> string"
  rm_tokens :: "nat \<Rightarrow> string"
  rm_counter :: nat

definition rules_of :: "dict \<Rightarrow> val list" where
  "rules_of p = as_list (dget p ''rules'')"

definition with_rules :: "dict \<Rightarrow> val list \<Rightarrow> dict" where
  "with_rules p rs = dput p ''rules'' (VList rs)"

section \<open>recover\<close>

definition recover :: "'d firewalld \<Rightarrow> (('d, 'z) rworld_scheme, dict) act" where
  "recover fd = s_bind store_read (\<lambda>policy.
     let pending = dget policy ''firewall_pending'' in
     if \<not> truthy pending then s_ret policy
     else s_bind (s_get rm_firewall) (\<lambda>available.
       s_bind (s_guard available (PolicyError ''Incoming recovery is pending while firewalld is unavailable.'')) (\<lambda>_.
       s_bind (s_lift (py_index pending ''native_before'')) (\<lambda>native.
       s_bind (if is_list native then restore fd (as_list native) else s_raise TypeError) (\<lambda>_.
       s_bind (s_lift (dindex policy ''revision'')) (\<lambda>revision.
       store_write (dpop policy ''firewall_pending'') revision))))))"

section \<open>listing\<close>

definition rule_state :: "(string \<times> string) list \<Rightarrow> bool \<Rightarrow> string \<Rightarrow> dict \<Rightarrow> string" where
  "rule_state observed healthy state r = (if \<not> healthy then ''UNAVAILABLE''
     else case map_of observed (as_str (dget r ''id'')) of Some s \<Rightarrow> s | None \<Rightarrow> state)"

definition list_rule :: "env \<Rightarrow> (string \<times> string) list \<Rightarrow> bool \<Rightarrow> dict \<times> nat \<Rightarrow> dict py" where
  "list_rule e observed healthy p = (case p of (r, position) \<Rightarrow>
     py_bind (lifecycle e r) (\<lambda>state.
     Inr (dput (dput (dput r ''position'' (VInt (int position)))
       ''state'' (VStr (rule_state observed healthy state r))) ''owner'' (VStr ''GREYWARD''))))"

definition state_filter :: "val \<Rightarrow> dict \<Rightarrow> bool" where
  "state_filter wanted r \<longleftrightarrow>
     (wanted = VStr ''ACTIVE'' \<longrightarrow> str_in (dget r ''state'') [''SAVED'', ''LOADED'', ''OBSERVED''])
     \<and> (str_in wanted [''SAVED'', ''LOADED'', ''DISABLED'', ''EXPIRED'', ''UNAVAILABLE''] \<longrightarrow> dget r ''state'' = wanted)"

definition search_filter :: "env \<Rightarrow> string \<Rightarrow> dict \<Rightarrow> bool" where
  "search_filter e search r \<longleftrightarrow> search = [] \<or> sublist search (casefold (json_dumps e '', '' '': '' (VDict r)))"

record listing_page =
  lp_revision :: val
  lp_rules :: "dict list"
  lp_total :: nat
  lp_offset :: int
  lp_next :: "int option"
  lp_healthy :: bool

definition listing_incoming :: "'d firewalld \<Rightarrow> val list
    \<Rightarrow> (('d, 'z) rworld_scheme, (string \<times> string) list) act" where
  "listing_incoming fd rules = s_bind (s_get rm_firewall) (\<lambda>available.
     s_bind (s_guard available (PolicyError ''firewalld is unavailable.'')) (\<lambda>_.
     s_bind (catalog fd) (\<lambda>_.
     s_bind (observe fd rules) (\<lambda>observed.
     s_bind (external fd rules) (\<lambda>_. s_ret observed)))))"

definition listing :: "'d firewalld \<Rightarrow> dict \<Rightarrow> (('d, 'z) rworld_scheme, listing_page) act" where
  "listing fd query = s_bind store_read (\<lambda>policy.
     s_bind (s_guard (\<not> truthy (dget policy ''firewall_pending''))
       (PolicyError ''An interrupted incoming-access change requires recovery before editing.'')) (\<lambda>_.
     let provider = dget_or query ''provider'' (VStr ''application'') in
     s_bind (s_guard (str_in provider [''application'', ''incoming'']) (PolicyError ''Unknown rule provider.'')) (\<lambda>_.
     let offset = dget_or query ''offset'' (VInt 0) in
     s_bind (s_guard (case offset of VInt i \<Rightarrow> 0 \<le> i \<and> i \<le> int MAX_RULES | _ \<Rightarrow> False)
       (PolicyError ''Invalid page offset.'')) (\<lambda>_.
     s_bind (s_get w_env) (\<lambda>e.
     let rules = filter (\<lambda>r. dget r ''provider'' = provider) (map as_dict (rules_of policy)) in
     s_bind (if provider = VStr ''incoming'' then s_try (listing_incoming fd (rules_of policy)) else s_ret (Inr [])) (\<lambda>health.
     let healthy = (\<not> isl health); observed = (case health of Inl _ \<Rightarrow> [] | Inr o' \<Rightarrow> o');
         search = take 160 (casefold (py_str e (dget_or query ''search'' (VStr [])))) in
     s_bind (s_lift (py_map (list_rule e observed healthy) (zip rules [0..<length rules]))) (\<lambda>rows.
     let shown = filter (state_filter (dget query ''state'')) (filter (search_filter e search) rows);
         i = as_int offset in
     s_ret \<lparr>lp_revision = dget policy ''revision'', lp_rules = take 100 (drop (nat i) shown),
       lp_total = length shown, lp_offset = i,
       lp_next = (if i + 100 < int (length shown) then Some (i + 100) else None), lp_healthy = healthy\<rparr>)))))))"

section \<open>prepare: one command\<close>

record plan =
  pl_candidate :: dict
  pl_warnings :: "string list"
  pl_changes :: "val list"

definition warn :: "plan \<Rightarrow> string list \<Rightarrow> plan" where
  "warn pl ws = pl\<lparr>pl_warnings := pl_warnings pl @ ws\<rparr>"

definition change :: "plan \<Rightarrow> string \<Rightarrow> val \<Rightarrow> plan" where
  "change pl operation r = pl\<lparr>pl_changes := pl_changes pl @ [VDict [(''operation'', VStr operation), (''rule'', r)]]\<rparr>"

definition set_candidate_rules :: "plan \<Rightarrow> val list \<Rightarrow> plan" where
  "set_candidate_rules pl rs = pl\<lparr>pl_candidate := with_rules (pl_candidate pl) rs\<rparr>"

text \<open>The position of the first rule with this identifier.\<close>

fun find_index :: "('a \<Rightarrow> bool) \<Rightarrow> 'a list \<Rightarrow> nat option" where
  "find_index P [] = None"
| "find_index P (x # xs) = (if P x then Some 0 else map_option Suc (find_index P xs))"

definition find_rule :: "val list \<Rightarrow> val \<Rightarrow> nat option" where
  "find_rule rs identifier = (if truthy identifier then find_index (\<lambda>r. py_eq (vget r ''id'') identifier) rs else None)"

definition remove_at :: "nat \<Rightarrow> 'a list \<Rightarrow> 'a list" where
  "remove_at i xs = take i xs @ drop (Suc i) xs"

definition insert_at :: "nat \<Rightarrow> 'a \<Rightarrow> 'a list \<Rightarrow> 'a list" where
  "insert_at i x xs = take i xs @ x # drop i xs"

text \<open>Rows by identifier, the last one of an identifier in the place of the first.\<close>

definition rows_by_id :: "val list \<Rightarrow> (val \<times> val) list" where
  "rows_by_id rs = foldl (\<lambda>acc r. AList.update (vget r ''id'') r acc) [] rs"

definition restore_changes :: "val list \<Rightarrow> val list \<Rightarrow> string \<Rightarrow> plan \<Rightarrow> plan" where
  "restore_changes old new provider pl =
    (let old_rows = rows_by_id old; new_rows = rows_by_id new;
         entry = (\<lambda>operation r. VDict [(''operation'', VStr operation), (''rule'', r)]);
         restored = [entry ''restore'' r. (i, r) \<leftarrow> new_rows,
           \<not> (case map_of old_rows i of Some o' \<Rightarrow> py_eq o' r | None \<Rightarrow> False)];
         removed = [entry ''remove'' r. (i, r) \<leftarrow> old_rows, map_of new_rows i = None];
         all = pl_changes pl @ restored @ removed;
         ordered = (if map fst old_rows \<noteq> map fst new_rows
           then entry ''restore order'' (VDict [(''name'', VStr (provider @ '' rule order and membership''))]) # all else all) in
     pl\<lparr>pl_changes := (if ordered = [] then [entry ''restore'' (VDict [(''name'', VStr ''Threat protection settings'')])] else ordered)\<rparr>)"

definition cmd_restore :: "dict \<Rightarrow> undo_entry option \<Rightarrow> string \<Rightarrow> plan \<Rightarrow> plan py" where
  "cmd_restore policy undo provider pl = (case undo of
       None \<Rightarrow> Inl (PolicyError ''A server-issued undo reference is required.'')
     | Some u \<Rightarrow> let candidate = dput (u_before u) ''revision'' (dget policy ''revision'') in
         Inr (warn (restore_changes (rules_of policy) (rules_of candidate) provider (pl\<lparr>pl_candidate := candidate\<rparr>))
           [''Undo restores the previous reviewed configuration. Expired rules are not renewed.'']))"

definition cmd_threat_settings :: "string \<Rightarrow> dict \<Rightarrow> plan \<Rightarrow> plan py" where
  "cmd_threat_settings provider command pl =
    (if provider \<noteq> ''application'' \<or> \<not> is_bool (dget command ''enabled'')
     then Inl (PolicyError ''Invalid threat-protection setting.'')
     else let enabled = dget command ''enabled'';
              pl' = pl\<lparr>pl_candidate := dput (pl_candidate pl) ''threat_intel''
                (VDict [(''enabled'', enabled), (''provider'', VStr ''feodo-recommended'')])\<rparr> in
          Inr (warn (change pl' (if truthy enabled then ''enable'' else ''disable'')
            (VDict [(''name'', VStr ''Feodo threat blocking'')]))
            [''This changes malware destination blocking for the whole system.'']))"

definition threat_rule :: "env \<Rightarrow> int \<Rightarrow> string \<Rightarrow> string \<Rightarrow> int \<Rightarrow> val" where
  "threat_rule e actor path address port = VDict [(''id'', VStr (''greyward-'' @ env_uuid e)), (''tier'', VStr ''THREAT_EXCEPTION''),
     (''path'', VStr path), (''ip'', VStr address), (''port'', VInt port), (''uid'', VInt actor), (''action'', VStr ''allow''),
     (''duration'', VStr ''always''), (''name'', VStr ''GREYWARD Feodo false-positive exception'')]"

definition cmd_threat_exception :: "env \<Rightarrow> int \<Rightarrow> string \<Rightarrow> dict \<Rightarrow> plan \<Rightarrow> plan py" where
  "cmd_threat_exception e actor provider command pl = (case dget_or command ''rule'' (VDict []) of
       VDict v \<Rightarrow>
         if provider \<noteq> ''application'' \<or> dget v ''action'' \<noteq> VStr ''allow''
         then Inl (PolicyError ''A threat exception must explicitly allow one application/IP/port.'')
         else (case ip_address_val (dget_or v ''ip'' (VStr [])) of
             None \<Rightarrow> Inl (ValueError ''address'')
           | Some a \<Rightarrow> (case (dget_or v ''path'' (VStr []), dget v ''port'') of
               (VStr path, VInt port) \<Rightarrow>
                 if \<not> startswith path ''/'' \<or> startswith path ''/app/'' \<or> \<not> (1 \<le> port \<and> port \<le> 65535)
                 then Inl (PolicyError ''A threat exception requires a host executable and exact IP/port.'')
                 else let r = threat_rule e actor path (ip_str a) port in
                   Inr (warn (change (set_candidate_rules pl (rules_of (pl_candidate pl) @ [r])) ''create exception'' r)
                     [''This exact application/IP/port is exempted from Feodo threat blocking.''])
             | _ \<Rightarrow> Inl (PolicyError ''A threat exception requires a host executable and exact IP/port.'')))
     | _ \<Rightarrow> Inl (PolicyError ''A threat exception must explicitly allow one application/IP/port.''))"

definition interpreters :: "string list" where
  "interpreters = [''python'', ''bash'', ''sh'', ''node'', ''ruby'', ''perl'', ''java'']"

definition application_warnings :: "dict \<Rightarrow> string list" where
  "application_warnings r = (let path = as_str (dget r ''path'') in
     (if path \<noteq> ''*'' then [''Executable-path scope follows replacement of that file and includes its helpers only when they use the same executable. It is not a code-generation grant.''] else [])
     @ (if path = ''*'' then [''This IP rule affects all applications in its selected user scope. It shares outgoing order with application rules; earlier matching rules take precedence.''] else [])
     @ (if dget r ''scope'' = VStr ''system'' then [''This rule applies to all users, not just this account.''] else [])
     @ (if dget r ''action'' = VStr ''allow'' then [''An Allow rule does not block other destinations when the default is Allow.''] else [])
     @ (if list_ex (\<lambda>d. str_in (vget d ''kind'') [''host'', ''domain'']) (as_list (dget r ''destinations''))
        then [''Hostname matching uses observed hostnames; it does not inspect URLs or encrypted content.''] else [])
     @ (if list_ex (\<lambda>p. startswith (after_last (CHR ''/'') path) p) interpreters
        then [''This executable scope includes other scripts or code running in the same interpreter.''] else []))"

text \<open>The resolver is injected by the service; \<open>None\<close> when there is none.\<close>

definition resolve_path :: "(string \<Rightarrow> string py) option \<Rightarrow> dict \<Rightarrow> dict py" where
  "resolve_path resolver r = (case resolver of
       None \<Rightarrow> Inr r
     | Some f \<Rightarrow> if dget r ''path'' = VStr ''*'' then Inr r
         else py_bind (f (as_str (dget r ''path''))) (\<lambda>p. Inr (dput r ''path'' (VStr p))))"

definition upsert_value :: "string \<Rightarrow> val \<Rightarrow> dict \<Rightarrow> dict option \<Rightarrow> val \<Rightarrow> dict py" where
  "upsert_value provider operation v existing identifier =
    (let v1 = dput v ''provider'' (VStr provider) in
     if operation = VStr ''upsert'' \<and> truthy (dget v1 ''dns_exception'')
        \<and> \<not> truthy (dget (case existing of None \<Rightarrow> [] | Some x \<Rightarrow> x) ''dns_exception'')
     then Inl (PolicyError ''Use the explicit managed-DNS exception review.'')
     else if operation = VStr ''dns_exception'' \<and> provider \<noteq> ''application''
     then Inl (PolicyError ''DNS exceptions apply to application rules only.'')
     else let v2 = (if operation = VStr ''dns_exception'' then dput v1 ''dns_exception'' (VBool True) else v1) in
     Inr (if existing \<noteq> None then dput v2 ''id'' identifier else dpop v2 ''id''))"

definition cmd_upsert :: "env \<Rightarrow> (string \<Rightarrow> string py) option \<Rightarrow> int \<Rightarrow> string \<Rightarrow> dict \<Rightarrow> val \<Rightarrow> nat option \<Rightarrow> plan \<Rightarrow> plan py" where
  "cmd_upsert e resolver actor provider command operation found pl =
    (let rules = rules_of (pl_candidate pl); identifier = dget command ''id'';
         existing = map_option (\<lambda>i. as_dict (rules ! i)) found in
     case dget command ''rule'' of
       VDict v \<Rightarrow>
         if truthy (dget v ''tier'') \<or> dget_or v ''provider'' (VStr provider) \<noteq> VStr provider
         then Inl (PolicyError ''Reserved or mismatched rules cannot be imported.'')
         else if truthy identifier \<and> found = None then Inl (PolicyError ''The edited rule no longer exists.'')
         else py_bind (upsert_value provider operation v existing identifier) (\<lambda>v'.
           let pl1 = (if operation = VStr ''dns_exception''
             then warn pl [''This explicitly bypasses managed DNS for this executable on the selected DNS ports.''] else pl) in
           py_bind (normalize e (VDict v') (VInt actor) (case existing of None \<Rightarrow> [] | Some x \<Rightarrow> x) VNone) (\<lambda>r.
           py_bind (if provider = ''application'' then resolve_path resolver r else Inr r) (\<lambda>r'.
           let pl2 = (if provider = ''application'' then warn pl1 (application_warnings r') else pl1) in
           Inr (case found of
               Some i \<Rightarrow> change (set_candidate_rules pl2 (rules[i := VDict r'])) ''update'' (VDict r')
             | None \<Rightarrow> change (set_candidate_rules pl2 (rules @ [VDict r'])) ''create'' (VDict r')))))
     | _ \<Rightarrow> Inl (PolicyError ''Reserved or mismatched rules cannot be imported.''))"

text \<open>Where a moved rule goes: before the sibling at that position, or after the last one.\<close>

definition move_target :: "val list \<Rightarrow> val list \<Rightarrow> nat \<Rightarrow> nat" where
  "move_target rest siblings position =
    (if position < length siblings
     then (case find_index (py_eq (siblings ! position)) rest of Some i \<Rightarrow> i | None \<Rightarrow> length rest)
     else if siblings = [] then length rest
     else (case find_index (py_eq (last siblings)) rest of Some i \<Rightarrow> Suc i | None \<Rightarrow> length rest))"

definition cmd_modify :: "string \<Rightarrow> dict \<Rightarrow> val \<Rightarrow> nat option \<Rightarrow> plan \<Rightarrow> plan py" where
  "cmd_modify provider command operation found pl = (let rules = rules_of (pl_candidate pl) in
     case found of
       None \<Rightarrow> Inl (PolicyError ''The rule no longer exists.'')
     | Some i \<Rightarrow> let existing = rules ! i in
         if operation = VStr ''delete''
         then Inr (change (set_candidate_rules pl (remove_at i rules)) ''delete'' existing)
         else if operation = VStr ''enable''
         then if \<not> is_bool (dget command ''enabled'') then Inl (PolicyError ''Enabled must be boolean.'')
              else let r = VDict (dput (as_dict existing) ''enabled'' (dget command ''enabled'')) in
                Inr (change (set_candidate_rules pl (rules[i := r])) ''enable'' r)
         else let siblings = filter (\<lambda>r. vget r ''provider'' = VStr provider) rules in
           (case dget command ''position'' of
              VInt position \<Rightarrow>
                if 0 \<le> position \<and> position < int (length siblings)
                then let rest = remove_at i rules;
                         siblings' = (case find_index (py_eq existing) siblings of
                             Some k \<Rightarrow> remove_at k siblings | None \<Rightarrow> siblings) in
                  Inr (change (set_candidate_rules pl
                    (insert_at (move_target rest siblings' (nat position)) existing rest)) ''move'' existing)
                else Inl (PolicyError ''Invalid rule position.'')
            | _ \<Rightarrow> Inl (PolicyError ''Invalid rule position.'')))"

definition run_command :: "env \<Rightarrow> (string \<Rightarrow> string py) option \<Rightarrow> int \<Rightarrow> string \<Rightarrow> dict \<Rightarrow> undo_entry option \<Rightarrow> plan \<Rightarrow> val \<Rightarrow> plan py" where
  "run_command e resolver actor provider policy undo pl cmd = (case cmd of
       VDict command \<Rightarrow>
         let rules = rules_of (pl_candidate pl); operation = dget command ''operation'';
             found = find_rule rules (dget command ''id'');
             existing = (case found of None \<Rightarrow> [] | Some i \<Rightarrow> as_dict (rules ! i));
             reserved_delete = (dget existing ''tier'' = VStr ''THREAT_EXCEPTION'' \<and> operation = VStr ''delete''
               \<and> provider = ''application'') in
         if found \<noteq> None \<and> \<not> reserved_delete
            \<and> (dget existing ''provider'' \<noteq> VStr provider \<or> truthy (dget existing ''tier''))
         then Inl (PolicyError ''This rule belongs to another provider or a reserved protection.'')
         else if operation = VStr ''_restore'' then cmd_restore policy undo provider pl
         else if operation = VStr ''threat_settings'' then cmd_threat_settings provider command pl
         else if operation = VStr ''threat_exception'' then cmd_threat_exception e actor provider command pl
         else if str_in operation [''upsert'', ''dns_exception'']
         then cmd_upsert e resolver actor provider command operation found pl
         else if str_in operation [''delete'', ''enable'', ''move'']
         then cmd_modify provider command operation found pl
         else Inl (PolicyError ''Unsupported rule operation.'')
     | _ \<Rightarrow> Inl (PolicyError ''Invalid rule operation.''))"

text \<open>The commands in order; each sees its own random identifier.\<close>

fun run_commands :: "(nat \<Rightarrow> env) \<Rightarrow> (string \<Rightarrow> string py) option \<Rightarrow> int \<Rightarrow> string \<Rightarrow> dict \<Rightarrow> undo_entry option \<Rightarrow> nat \<Rightarrow> plan \<Rightarrow> val list \<Rightarrow> plan py" where
  "run_commands es resolver actor provider policy undo k pl [] = Inr pl"
| "run_commands es resolver actor provider policy undo k pl (c # cs) =
     py_bind (run_command (es k) resolver actor provider policy undo pl c)
       (\<lambda>pl'. run_commands es resolver actor provider policy undo (Suc k) pl' cs)"

section \<open>prepare\<close>

definition fingerprint :: "env \<Rightarrow> dict \<Rightarrow> string" where
  "fingerprint e r = env_sha256 e (json_dumps e '', '' '': '' (VDict (filter (\<lambda>(k, v).
     k \<notin> set [''id'', ''name'', ''description'', ''created_at'', ''updated_at'', ''enabled'', ''action'']) r)))"

fun shadow_warnings :: "env \<Rightarrow> string \<Rightarrow> string list \<Rightarrow> dict list \<Rightarrow> string list" where
  "shadow_warnings e provider seen [] = []"
| "shadow_warnings e provider seen (r # rs) =
     (if dget r ''provider'' \<noteq> VStr provider \<or> \<not> truthy (dget_or r ''enabled'' (VBool True))
      then shadow_warnings e provider seen rs
      else (if fingerprint e r \<in> set seen
            then [''An earlier rule with the same conditions shadows '' @ [CHR 0x22] @ as_str (dget r ''name'') @ [CHR 0x22] @ ''.''] else [])
        @ shadow_warnings e provider (fingerprint e r # seen) rs)"

record review =
  rv_transaction :: string
  rv_revision :: val
  rv_changes :: "val list"
  rv_warnings :: "string list"

definition undo_ok :: "undo_entry \<Rightarrow> int \<Rightarrow> string \<Rightarrow> dict \<Rightarrow> rat \<Rightarrow> bool" where
  "undo_ok u actor provider policy now \<longleftrightarrow> u_actor u = actor \<and> u_provider u = provider
     \<and> py_eq (u_revision u) (dget policy ''revision'') \<and> now < u_deadline u"

text \<open>The list of commands of a request: the restore of an undo reference, or what was sent.\<close>

definition request_commands :: "dict \<Rightarrow> (string \<times> undo_entry) list \<Rightarrow> int \<Rightarrow> string \<Rightarrow> dict \<Rightarrow> rat
    \<Rightarrow> (undo_entry option \<times> val) py" where
  "request_commands request undos actor provider policy now =
    (if truthy (dget request ''undo'')
     then (case dget request ''undo'' of
         VStr token \<Rightarrow> (case map_of undos token of
             Some u \<Rightarrow> if undo_ok u actor provider policy now
               then Inr (Some u, VList [VDict [(''operation'', VStr ''_restore'')]])
               else Inl (PolicyError ''Undo expired or the policy changed. No changes were restored.'')
           | None \<Rightarrow> Inl (PolicyError ''Undo expired or the policy changed. No changes were restored.''))
       | v \<Rightarrow> if hashable v then Inl (PolicyError ''Undo expired or the policy changed. No changes were restored.'')
           else Inl TypeError)
     else Inr (None, dget request ''commands''))"

definition prepare_plan :: "'d firewalld \<Rightarrow> (string \<Rightarrow> string py) option \<Rightarrow> int \<Rightarrow> string \<Rightarrow> dict \<Rightarrow> dict
    \<Rightarrow> (('d, 'z) rworld_scheme, plan) act" where
  "prepare_plan fd resolver actor provider request policy =
     s_bind (s_get rm_undo) (\<lambda>undos. s_bind (s_get rm_clock) (\<lambda>now.
     s_bind (s_lift (request_commands request undos actor provider policy now)) (\<lambda>(undo, commands).
     s_bind (s_guard (case commands of VList cs \<Rightarrow> 1 \<le> length cs \<and> length cs \<le> MAX_RULES | _ \<Rightarrow> False)
       (PolicyError ''A bounded non-empty change list is required.'')) (\<lambda>_.
     s_bind (s_get rm_firewall) (\<lambda>available.
     s_bind (s_guard (provider = ''incoming'' \<longrightarrow> available) (PolicyError ''firewalld is unavailable.'')) (\<lambda>_.
     s_bind (s_get (\<lambda>w k. (w_env w)\<lparr>env_uuid := rm_uuids w (rm_counter w + k)\<rparr>)) (\<lambda>es.
     s_bind (s_modify (\<lambda>w. w\<lparr>rm_counter := rm_counter w + length (as_list commands)\<rparr>)) (\<lambda>_.
     s_bind (s_lift (run_commands es resolver actor provider policy undo 0
       \<lparr>pl_candidate = policy, pl_warnings = [], pl_changes = []\<rparr> (as_list commands))) (\<lambda>pl.
     s_bind (s_guard (length (rules_of (pl_candidate pl)) \<le> MAX_RULES)
       (PolicyError ''The policy limit is 1,024 rules. No existing rules were removed.'')) (\<lambda>_.
     if provider \<noteq> ''incoming'' then s_ret pl
     else s_bind (catalog fd) (\<lambda>c.
       s_bind (s_guard (list_all (in_catalog c) (incoming_rules (rules_of (pl_candidate pl))))
         (PolicyError ''Choose an installed firewall zone and service.'')) (\<lambda>_.
       s_ret (warn pl [''Incoming rules affect the whole system. Established connections may remain open.'',
         ''Other firewalld policies can also affect reachability. This is a condition preview, not a connection test.'']))))))))))))) "

definition register :: "'d firewalld \<Rightarrow> int \<Rightarrow> string \<Rightarrow> dict \<Rightarrow> plan \<Rightarrow> (('d, 'z) rworld_scheme, string) act" where
  "register fd actor provider policy pl =
     s_bind (s_modify (\<lambda>w. w\<lparr>rm_pending := filter (\<lambda>p. rm_clock w < t_deadline (snd p)) (rm_pending w)\<rparr>)) (\<lambda>_.
     s_bind (s_get (\<lambda>w. length (rm_pending w))) (\<lambda>n.
     s_bind (s_guard (n < 32) (PolicyError ''Too many pending reviews. Close an existing review and retry.'')) (\<lambda>_.
     s_bind (s_get (\<lambda>w. rm_tokens w (rm_counter w))) (\<lambda>token.
     s_bind (s_modify (\<lambda>w. w\<lparr>rm_counter := Suc (rm_counter w)\<rparr>)) (\<lambda>_.
     s_bind (if provider = ''incoming''
       then s_bind (capture fd (rules_of policy) (rules_of (pl_candidate pl))) (\<lambda>ns. s_ret (Some ns)) else s_ret None) (\<lambda>native.
     s_bind (s_modify (\<lambda>w. w\<lparr>rm_pending := AList.update token
       \<lparr>t_actor = actor, t_provider = provider, t_before = policy, t_after = pl_candidate pl,
         t_deadline = rm_clock w + 180, t_cancelled = False, t_applying = False, t_changes = pl_changes pl,
         t_native_before = native\<rparr> (rm_pending w)\<rparr>)) (\<lambda>_. s_ret token)))))))"

definition prepare :: "'d firewalld \<Rightarrow> (string \<Rightarrow> string py) option \<Rightarrow> int \<Rightarrow> val \<Rightarrow> (('d, 'z) rworld_scheme, review) act" where
  "prepare fd resolver actor request_val =
     s_bind (s_guard (is_dict request_val \<and> str_in (vget request_val ''provider'') [''application'', ''incoming''])
       (PolicyError ''Choose an application or incoming-access transaction.'')) (\<lambda>_.
     let request = as_dict request_val; provider = as_str (dget request ''provider'') in
     s_bind store_read (\<lambda>policy.
     s_bind (s_guard (\<not> truthy (dget policy ''firewall_pending''))
       (PolicyError ''Incoming-access recovery must finish before editing rules.'')) (\<lambda>_.
     s_bind (s_guard (case dget request ''revision'' of VInt i \<Rightarrow> py_eq (VInt i) (dget policy ''revision'') | _ \<Rightarrow> False)
       (PolicyError ''Policy changed. Reload and review your edits.'')) (\<lambda>_.
     s_bind (prepare_plan fd resolver actor provider request policy) (\<lambda>pl.
     s_bind (s_get w_env) (\<lambda>e.
     let pl' = warn pl (shadow_warnings e provider [] (map as_dict (rules_of (pl_candidate pl)))) in
     s_bind (register fd actor provider policy pl') (\<lambda>token.
     s_ret \<lparr>rv_transaction = token, rv_revision = dget policy ''revision'', rv_changes = pl_changes pl',
       rv_warnings = first_unique (pl_warnings pl')\<rparr>)))))))"

section \<open>cancel and apply\<close>

definition cancel :: "int \<Rightarrow> string \<Rightarrow> (('d, 'z) rworld_scheme, unit) act" where
  "cancel actor token w = (case map_of (rm_pending w) token of
       Some t \<Rightarrow> if t_actor t = actor
         then (Inr (), w\<lparr>rm_pending := AList.update token (t\<lparr>t_cancelled := True\<rparr>) (rm_pending w)\<rparr>)
         else (Inl (PolicyError ''Review not found.''), w)
     | None \<Rightarrow> (Inl (PolicyError ''Review not found.''), w))"

definition claim_review :: "int \<Rightarrow> string \<Rightarrow> (('d, 'z) rworld_scheme, txn) act" where
  "claim_review actor token w = (case map_of (rm_pending w) token of
       None \<Rightarrow> (Inl (PolicyError ''This review expired, was cancelled, or belongs to another caller.''), w)
     | Some t \<Rightarrow>
         if t_actor t \<noteq> actor \<or> t_cancelled t \<or> t_deadline t \<le> rm_clock w
         then (Inl (PolicyError ''This review expired, was cancelled, or belongs to another caller.''), w)
         else if t_applying t then (Inl (PolicyError ''This review is already being applied.''), w)
         else (let t' = t\<lparr>t_applying := True\<rparr> in
           (Inr t', w\<lparr>rm_pending := AList.update token t' (rm_pending w)\<rparr>)))"

definition journal_policy :: "dict \<Rightarrow> val list \<Rightarrow> dict" where
  "journal_policy policy native = dput policy ''firewall_pending'' (VDict [(''native_before'', VList native)])"

text \<open>The journal of an incoming change: checked against the review, then written.\<close>

definition apply_journal :: "'d firewalld \<Rightarrow> txn \<Rightarrow> dict \<Rightarrow> (('d, 'z) rworld_scheme, val list option \<times> dict) act" where
  "apply_journal fd t policy =
    (if t_provider t \<noteq> ''incoming'' then s_ret (None, policy)
     else s_bind (capture fd (rules_of (t_before t)) (rules_of (t_after t))) (\<lambda>native.
       s_bind (s_guard (case t_native_before t of Some ns \<Rightarrow> py_eq (VList native) (VList ns) | None \<Rightarrow> False)
         (PolicyError ''firewalld changed during review. Nothing was applied.'')) (\<lambda>_.
       s_bind (s_lift (dindex policy ''revision'')) (\<lambda>revision.
       s_bind (store_write (journal_policy policy native) revision) (\<lambda>policy'.
       s_ret (Some native, policy'))))))"

definition apply_rollback :: "'d firewalld \<Rightarrow> txn \<Rightarrow> dict \<Rightarrow> val list option \<Rightarrow> exc \<Rightarrow> (('d, 'z) rworld_scheme, dict) act" where
  "apply_rollback fd t policy native err = (case native of
       None \<Rightarrow> s_raise err
     | Some ns \<Rightarrow> s_bind (s_try (s_bind (restore fd ns) (\<lambda>_. store_write (t_before t) (dget policy ''revision'')))) (\<lambda>r.
         case r of Inl e \<Rightarrow> s_raise (PolicyError ''Policy save failed and firewall rollback is INCOMPLETE.'')
         | Inr _ \<Rightarrow> s_raise err))"

definition apply_locked :: "'d firewalld \<Rightarrow> string \<Rightarrow> txn \<Rightarrow> (('d, 'z) rworld_scheme, dict) act" where
  "apply_locked fd token t0 = s_bind store_read (\<lambda>policy.
     s_bind (s_get (\<lambda>w. case map_of (rm_pending w) token of Some t \<Rightarrow> t | None \<Rightarrow> t0)) (\<lambda>t.
     s_bind (s_get rm_clock) (\<lambda>now.
     s_bind (s_guard (\<not> t_cancelled t \<and> now < t_deadline t)
       (PolicyError ''The review was cancelled or expired during authentication.'')) (\<lambda>_.
     s_bind (s_guard (py_eq (dget policy ''revision'') (dget (t_before t) ''revision''))
       (PolicyError ''Policy changed during review. Nothing was applied.'')) (\<lambda>_.
     s_bind (apply_journal fd t policy) (\<lambda>(native, policy').
     s_catch (s_bind (case native of Some _ \<Rightarrow> replace fd (rules_of (t_before t)) (rules_of (t_after t)) | None \<Rightarrow> s_ret ()) (\<lambda>_.
         store_write (t_after t) (dget policy' ''revision'')))
       (\<lambda>_. True) (apply_rollback fd t policy' native)))))))"

definition add_undo :: "rat \<Rightarrow> string \<Rightarrow> undo_entry \<Rightarrow> (string \<times> undo_entry) list \<Rightarrow> (string \<times> undo_entry) list" where
  "add_undo now token u undos = (let live = filter (\<lambda>p. now < u_deadline (snd p)) undos;
       kept = (if 32 \<le> length live then tl live else live) in AList.update token u kept)"

definition record_undo :: "int \<Rightarrow> txn \<Rightarrow> dict \<Rightarrow> (('d, 'z) rworld_scheme, string) act" where
  "record_undo actor t saved w = (let token = rm_tokens w (rm_counter w) in
     (Inr token, w\<lparr>rm_counter := Suc (rm_counter w),
        rm_undo := add_undo (rm_clock w) token \<lparr>u_actor = actor, u_provider = t_provider t, u_before = t_before t,
          u_revision = dget saved ''revision'', u_deadline = rm_clock w + 180\<rparr> (rm_undo w)\<rparr>))"

definition forget_review :: "string \<Rightarrow> ('d, 'z) rworld_scheme \<Rightarrow> ('d, 'z) rworld_scheme" where
  "forget_review token w = w\<lparr>rm_pending := AList.delete token (rm_pending w)\<rparr>"

text \<open>
  \<open>apply\<close>. \<open>authorize\<close> is the authentication of the caller: it takes time, other requests may run
  meanwhile, and it raises when the caller is refused.
\<close>

definition apply_review :: "'d firewalld \<Rightarrow> int \<Rightarrow> string \<Rightarrow> (string \<Rightarrow> txn \<Rightarrow> (('d, 'z) rworld_scheme, unit) act)
    \<Rightarrow> (('d, 'z) rworld_scheme, val \<times> string) act" where
  "apply_review fd actor token authorize = s_bind (claim_review actor token) (\<lambda>t.
     s_finally (s_bind (authorize token t) (\<lambda>_.
       s_bind (apply_locked fd token t) (\<lambda>saved.
       s_bind (record_undo actor t saved) (\<lambda>undo.
       s_ret (dget saved ''revision'', undo)))))
     (forget_review token))"

end
