(* ===== verification/Network_Firewall_Props.thy ===== *)
theory Network_Firewall_Props
  imports Network_Firewall
begin

text \<open>
  The properties of the firewalld adapter: \<open>replace\<close> makes exactly the owned change or none,
  \<open>capture\<close> and \<open>restore\<close> are inverse, and a rule is shown as loaded only when it is.
\<close>

lemma replace_split:
  assumes "replace fd before after w = (r, w')" "fd_lawful fd view"
  shows "(isl r \<and> fw_rest view w' = fw_rest view w)
    \<or> (\<exists>old new w1. entries (w_env w) fd before = Inr old \<and> entries (w_env w) fd after = Inr new
        \<and> fw_rest view w1 = fw_rest view w \<and> replace_changes fd (minus_list old new) (minus_list new old) w1 = (r, w'))"
proof -
  obtain rc w1 where c: "catalog fd w = (rc, w1)" by fastforce
  note K = keepsD [OF keeps_catalog [OF assms(2)] c]
  have env: "w_env w1 = w_env w" using K by (simp add: fw_rest_def pworld.truncate_def)
  show ?thesis
  proof (cases rc)
    case (Inl e)
    then show ?thesis using assms(1) c K by (auto simp: replace_def s_bind_def)
  next
    case (Inr cat)
    show ?thesis
    proof (cases "list_all (in_catalog cat) (incoming_rules after)")
      case False
      then show ?thesis using assms(1) c K Inr by (auto simp: replace_def s_bind_def s_guard_def)
    next
      case True
      show ?thesis
        using assms(1) c K Inr True env
        by (cases "entries (w_env w) fd before"; cases "entries (w_env w) fd after")
           (auto simp: replace_def s_bind_def s_guard_def split: if_splits)
    qed
  qed
qed

section \<open>replace touches only the difference, however it ends\<close>

definition unaffected :: "(string \<times> string \<times> string) set \<Rightarrow> (string \<times> string \<Rightarrow> string set) \<Rightarrow> (string \<times> string \<Rightarrow> string set) \<Rightarrow> bool" where
  "unaffected K f g \<longleftrightarrow> (\<forall>z n p. (z, n, p) \<notin> K \<longrightarrow> (n \<in> g (z, p) \<longleftrightarrow> n \<in> f (z, p)))"

lemma unaffected_refl [simp]: "unaffected K f f"
  by (simp add: unaffected_def)

lemma unaffected_trans: "unaffected K f g \<Longrightarrow> unaffected K g h \<Longrightarrow> unaffected K f h"
  by (simp add: unaffected_def)

lemma unaffected_native: "(z, n, p) \<in> K \<Longrightarrow> unaffected K f (set_native b z n p f)"
  by (auto simp: unaffected_def set_native_def)

lemma near_unaffected: "near k g f \<Longrightarrow> k \<in> K \<Longrightarrow> unaffected K f g"
  unfolding near_def unaffected_def by metis

lemma change_unaffected:
  assumes "fd_lawful fd view" "change_native fd z n p b t w = (r, w')" "(z, n, p) \<in> K"
  shows "unaffected K (view (fw_daemon w)) (view (fw_daemon w'))"
  using lawful_change(2) [OF assms(1,2)] unaffected_native [OF assms(3)] by auto

definition completed_key :: "completed \<Rightarrow> string \<times> string \<times> string" where
  "completed_key c = (case c of (z, n, p, b, t) \<Rightarrow> (z, n, p))"

lemma replace_entry_done:
  assumes "replace_entry fd remove dn (z, n, p, x) w = (Inr dn', w')"
  shows "set (map completed_key dn') \<subseteq> insert (z, n, p) (set (map completed_key dn))"
proof -
  have "dn' = dn \<or> (\<exists>b t. dn' = dn @ [(z, n, p, b, t)])"
    using assms by (auto simp: replace_entry_def act_simps split: if_splits)
  then show ?thesis by (elim disjE exE) (simp_all add: completed_key_def subset_insertI)
qed

lemma replace_loop_unaffected:
  assumes L: "fd_lawful fd view" and "replace_loop fd remove dn xs w = (err, dn', w')"
    and "entry_key ` set xs \<subseteq> K" "set (map completed_key dn) \<subseteq> K"
  shows "unaffected K (view (fw_daemon w)) (view (fw_daemon w')) \<and> set (map completed_key dn') \<subseteq> K"
  using assms(2-)
proof (induction xs arbitrary: dn w)
  case (Cons x xs)
  obtain z n p e where x: "x = (z, n, p, e)" by (cases x)
  have k: "(z, n, p) \<in> K" using Cons.prems(2) by (simp add: x entry_key_def)
  obtain r w1 where r: "replace_entry fd remove dn x w = (r, w1)" by fastforce
  note E = replace_entry_view [OF L r [unfolded x]]
  show ?case
  proof (cases r)
    case (Inl er)
    then have "near (z, n, p) (view (fw_daemon w')) (view (fw_daemon w))" "dn' = dn" using Cons.prems r E by auto
    then show ?thesis using Cons.prems(3) near_unaffected [OF _ k] by simp
  next
    case (Inr d1)
    have u: "unaffected K (view (fw_daemon w)) (view (fw_daemon w1))"
      using E Inr unaffected_native [OF k] by simp
    have d1: "set (map completed_key d1) \<subseteq> K"
      using replace_entry_done [OF r [unfolded x Inr]] k Cons.prems(3) by auto
    show ?thesis
    proof (cases "d1 = dn")
      case True
      then have "replace_loop fd remove dn xs w1 = (err, dn', w')" using Cons.prems r Inr by simp
      from Cons.IH [OF this] Cons.prems(2,3) u show ?thesis by (auto intro: unaffected_trans)
    next
      case False
      obtain rc w2 where c: "confirm_entry fd remove x w1 = (rc, w2)" by fastforce
      note V = confirm_entry_view [OF L c]
      show ?thesis
      proof (cases rc)
        case (Inl er)
        then show ?thesis using Cons.prems r False c V u d1 \<open>r = Inr d1\<close> by auto
      next
        case (Inr v)
        then have "replace_loop fd remove d1 xs w2 = (err, dn', w')"
          using Cons.prems r False c \<open>r = Inr d1\<close> by simp
        from Cons.IH [OF this _ d1] Cons.prems(2) u V show ?thesis by (auto intro: unaffected_trans)
      qed
    qed
  qed
qed simp

lemma undo_unaffected:
  assumes L: "fd_lawful fd view" and "undo_completed fd k xs w = (m, w')" "set (map completed_key xs) \<subseteq> K"
  shows "unaffected K (view (fw_daemon w)) (view (fw_daemon w'))"
  using assms(2,3)
proof (induction xs arbitrary: k w)
  case (Cons x xs)
  obtain z n p b t where x: "x = (z, n, p, b, t)" by (cases x)
  obtain r w1 where r: "change_native fd z n p b t w = (r, w1)" by fastforce
  have "unaffected K (view (fw_daemon w)) (view (fw_daemon w1))"
    by (rule change_unaffected [OF L r]) (use Cons.prems(2) in \<open>simp add: x completed_key_def\<close>)
  moreover obtain j where "undo_completed fd j xs w1 = (m, w')"
    using Cons.prems(1) r by (cases r) (auto simp: x)
  then have "unaffected K (view (fw_daemon w1)) (view (fw_daemon w'))" using Cons by simp
  ultimately show ?case by (rule unaffected_trans)
qed simp

lemma replace_failed_unaffected:
  assumes "fd_lawful fd view" "replace_failed fd err dn w = (r, w')" "set (map completed_key dn) \<subseteq> K"
  shows "unaffected K (view (fw_daemon w)) (view (fw_daemon w'))"
proof -
  obtain k v where u: "undo_completed fd 0 (rev dn) w = (k, v)" by fastforce
  have "unaffected K (view (fw_daemon w)) (view (fw_daemon v))"
    by (rule undo_unaffected [OF assms(1) u]) (use assms(3) in simp)
  moreover have "v = w'" using assms(2) u by (auto simp: replace_failed_def split: if_splits)
  ultimately show ?thesis by simp
qed

lemma replace_unaffected:
  assumes L: "fd_lawful fd view" and r: "replace fd before after w = (r, w')"
    and e: "entries (w_env w) fd before = Inr old" "entries (w_env w) fd after = Inr new"
  shows "unaffected (entry_key ` (set old - set new \<union> (set new - set old))) (view (fw_daemon w)) (view (fw_daemon w'))"
    (is "unaffected ?K _ _")
  using replace_split [OF r L]
proof (elim disjE exE conjE)
  assume "fw_rest view w' = fw_rest view w"
  then show ?thesis by (simp add: fw_rest_def)
next
  fix old' new' w1
  assume e': "entries (w_env w) fd before = Inr old'" "entries (w_env w) fd after = Inr new'"
    and k: "fw_rest view w1 = fw_rest view w"
    and c: "replace_changes fd (minus_list old' new') (minus_list new' old') w1 = (r, w')"
  have o: "old' = old" "new' = new" using e e' by simp_all
  have v: "view (fw_daemon w1) = view (fw_daemon w)" using k by (simp add: fw_rest_def)
  obtain e1 d1 w2 where l1: "replace_loop fd True [] (sort_key entry_key (minus_list old new)) w1 = (e1, d1, w2)"
    using prod_cases3 by blast
  have U1: "unaffected ?K (view (fw_daemon w1)) (view (fw_daemon w2)) \<and> set (map completed_key d1) \<subseteq> ?K"
    by (rule replace_loop_unaffected [OF L l1]) auto
  have "unaffected ?K (view (fw_daemon w1)) (view (fw_daemon w'))"
  proof (cases e1)
    case (Some err)
    then have "replace_failed fd err d1 w2 = (r, w')" using c l1 o by (simp add: replace_changes_def)
    from replace_failed_unaffected [OF L this] U1 show ?thesis by (auto intro: unaffected_trans)
  next
    case None
    obtain e2 d2 w3 where l2: "replace_loop fd False d1 (sort_key entry_key (minus_list new old)) w2 = (e2, d2, w3)"
      using prod_cases3 by blast
    have U2: "unaffected ?K (view (fw_daemon w2)) (view (fw_daemon w3)) \<and> set (map completed_key d2) \<subseteq> ?K"
      by (rule replace_loop_unaffected [OF L l2]) (use U1 in auto)
    have U: "unaffected ?K (view (fw_daemon w1)) (view (fw_daemon w3))" using U1 U2 by (auto intro: unaffected_trans)
    show ?thesis
    proof (cases e2)
      case (Some err)
      then have "replace_failed fd err d2 w3 = (r, w')" using c l1 l2 o None by (simp add: replace_changes_def)
      from replace_failed_unaffected [OF L this] U U2 show ?thesis by (auto intro: unaffected_trans)
    next
      case N: None
      then show ?thesis using c l1 l2 o None U by (auto simp: replace_changes_def)
    qed
  qed
  then show ?thesis by (simp add: v)
qed

text \<open>
  C3: Replacing incoming rules. A successful \<open>replace\<close> removes exactly the owned entries that are no longer wanted, adds exactly
  the new ones and touches no other rule. When it raises, the rich rules are what they were if the daemon's calls have no
  effect when they raise; if a call may raise and still take effect, as one that timed out, the rules differ at most in one owned
  entry, the one of that call. When the error is the report of an incomplete rollback, still no rule but the
  owned entries that were to change is touched.
\<close>

theorem replace_all_or_nothing:
  assumes "fd_lawful fd view" "replace fd before after w = (r, w')"
  shows "case r of
      Inl err \<Rightarrow> view (fw_daemon w') = view (fw_daemon w)
        \<or> (\<exists>old new. entries (w_env w) fd before = Inr old \<and> entries (w_env w) fd after = Inr new
          \<and> (if err = PolicyError ''Firewall apply failed; rollback is INCOMPLETE. Review incoming access.''
             then unaffected (entry_key ` (set old - set new \<union> (set new - set old))) (view (fw_daemon w)) (view (fw_daemon w'))
             else \<not> fd_atomic fd view \<and> (\<exists>k \<in> entry_key ` (set old - set new \<union> (set new - set old)). near k (view (fw_daemon w')) (view (fw_daemon w)))))
    | Inr _ \<Rightarrow> (\<exists>old new. entries (w_env w) fd before = Inr old \<and> entries (w_env w) fd after = Inr new
        \<and> (\<forall>z n p. n \<in> view (fw_daemon w') (z, p) \<longleftrightarrow>
            (z, n, p) \<in> entry_key ` (set new - set old)
            \<or> n \<in> view (fw_daemon w) (z, p) \<and> (z, n, p) \<notin> entry_key ` (set old - set new)))"
  using replace_split [OF assms(2,1)]
proof (elim disjE exE conjE)
  assume "isl r" "fw_rest view w' = fw_rest view w"
  then show ?thesis by (cases r) (auto simp: fw_rest_def)
next
  fix old new w1
  assume e: "entries (w_env w) fd before = Inr old" "entries (w_env w) fd after = Inr new"
    and k: "fw_rest view w1 = fw_rest view w"
    and c: "replace_changes fd (minus_list old new) (minus_list new old) w1 = (r, w')"
  have v: "view (fw_daemon w1) = view (fw_daemon w)" using k by (simp add: fw_rest_def)
  have sets: "set (minus_list old new) \<union> set (minus_list new old) = set old - set new \<union> (set new - set old)" by (auto simp: minus_list_def)
  note V = replace_changes_view [OF assms(1) c, unfolded sets v]
  show ?thesis
  proof (cases r)
    case (Inl err)
    show ?thesis
    proof (cases "err = PolicyError ''Firewall apply failed; rollback is INCOMPLETE. Review incoming access.''")
      case True
      then show ?thesis using Inl e replace_unaffected [OF assms e] by auto
    next
      case False
      then show ?thesis using V Inl e by auto
    qed
  next
    case (Inr u)
    have "n \<in> view (fw_daemon w') (z, p) \<longleftrightarrow> (z, n, p) \<in> entry_key ` (set new - set old)
        \<or> n \<in> view (fw_daemon w) (z, p) \<and> (z, n, p) \<notin> entry_key ` (set old - set new)" for z n p
      using V Inr by (simp add: apply_entries_mem)
    then show ?thesis using e Inr by auto
  qed
qed

text \<open>The entries of a policy are those of rules in force, so none of them has expired.\<close>

lemma entries_alive:
  assumes "entries e fd rules = Inr es" "x \<in> set es" shows "alive e (snd (snd (snd x)))"
proof -
  from assms obtain ess where m: "py_map (rule_entries e fd) (zip (incoming_rules rules) [0..<length (incoming_rules rules)]) = Inr ess"
    and es: "es = remdups (concat ess)" by (auto simp: entries_def Let_def py_simps)
  from assms(2) es obtain ys where ys: "ys \<in> set ess" "x \<in> set ys" by auto
  from m ys(1) obtain r i where re: "rule_entries e fd (r, i) = Inr ys"
    by (auto simp: py_map_Inr_all2 list_all2_conv_all_nth in_set_conv_nth)
  then have "ys = [] \<or> lifecycle e r = Inr ''SAVED''"
    by (auto simp: rule_entries_def Let_def py_simps split: if_splits)
  then have "lifecycle e r = Inr ''SAVED''" using ys(2) by auto
  then have "dget r ''expires_at'' = VNone \<or> py_ge (env_now e) (dget r ''expires_at'') = Inr False"
    by (auto simp: lifecycle_def py_simps split: if_splits)
  then show ?thesis
    using re ys(2) by (auto simp: rule_entries_def Let_def py_simps alive_def split: if_splits)
qed

section \<open>A concrete replacement\<close>

lemma demo_catalog: "\<exists>c v. catalog demo_firewalld demo_fworld = (Inr c, v) \<and> in_catalog c demo_incoming
    \<and> w_env v = demo_env \<and> fw_daemon v = fw_daemon demo_fworld"
  by (simp add: catalog_def catalog_details_def s_bind_def daemon_def demo_firewalld_def demo_fworld_def monotonic_def
      s_guard_def s_try_def in_catalog_def demo_incoming_def Let_def)

lemma demo_replace: "\<exists>v. replace demo_firewalld [] [VDict demo_incoming] demo_fworld = (Inr (), v)"
proof -
  obtain c v where c: "catalog demo_firewalld demo_fworld = (Inr c, v)" "in_catalog c demo_incoming"
    "w_env v = demo_env" "fw_daemon v = fw_daemon demo_fworld" using demo_catalog by blast
  have i: "incoming_rules [VDict demo_incoming] = [demo_incoming]" by (simp add: incoming_rules_def demo_incoming_def)
  have n: "demo_native \<noteq> ''external''" by (simp add: demo_native_def)
  have x: "expiry_seconds demo_env (VInt 4600) = Inr 3600"
    by (simp add: expiry_seconds_def demo_env_def)
  show ?thesis
    using c i n
    by (simp add: replace_def s_bind_def s_guard_def demo_entries demo_entries_none minus_list_def
        replace_changes_def replace_entry_def confirm_entry_def rich_set_def daemon_def change_native_def
        x demo_firewalld_def [THEN arg_cong, of fd_rich] demo_firewalld_def [THEN arg_cong, of fd_add])
       (simp add: demo_fworld_def demo_list_def)
qed

theorem replace_all_or_nothing_witness:
  "\<exists>v. replace demo_firewalld [] [VDict demo_incoming] demo_fworld = (Inr (), v)
    \<and> demo_native \<in> demo_view (fw_daemon v) (''public'', ''runtime'')
    \<and> ''external'' \<in> demo_view (fw_daemon v) (''public'', ''runtime'')"
proof -
  obtain v where v: "replace demo_firewalld [] [VDict demo_incoming] demo_fworld = (Inr (), v)"
    using demo_replace by blast
  have e: "w_env demo_fworld = demo_env" by (simp add: demo_fworld_def)
  have "''external'' \<in> demo_view (fw_daemon demo_fworld) (''public'', ''runtime'')"
    by (simp add: demo_view_def demo_fworld_def)
  with replace_all_or_nothing [OF demo_lawful v] v show ?thesis
    by (auto simp: e demo_entries demo_entries_none entry_key_def)
qed

lemma old_expiry_alive:
  assumes "\<forall>x \<in> set old. alive e (snd (snd (snd x)))" shows "alive e (old_expiry old key)"
proof (cases "map_of (map (\<lambda>x. (entry_key x, snd (snd (snd x)))) (rev old)) key")
  case None
  then show ?thesis by (simp add: old_expiry_def alive_def)
next
  case (Some v)
  then have "v \<in> (\<lambda>x. snd (snd (snd x))) ` set old" using map_of_SomeD [OF Some] by auto
  then show ?thesis using assms Some by (auto simp: old_expiry_def)
qed

text \<open>
  C26: Capture and restore. After a \<open>restore\<close> that reports success, whatever happened since the capture, each captured
  entry is there exactly when it was there at the capture and has not expired, and every other rich rule of every zone and plane
  is as it was before the restore. So when only captured entries had changed and none has expired, all rich rules are
  as at the capture.
\<close>

theorem capture_restore_roundtrip:
  assumes "fd_lawful fd view" "capture fd before after w = (Inr records, w1)"
    and "entries (w_env w) fd before = Inr old" "entries (w_env w) fd after = Inr new"
    and "restore fd records v = (Inr u, v')"
  shows "(\<forall>z n p. n \<in> view (fw_daemon v') (z, p) \<longleftrightarrow>
        (if (z, n, p) \<in> entry_key ` (set old - set new \<union> (set new - set old))
         then n \<in> view (fw_daemon w) (z, p) \<and> alive (w_env v) (old_expiry old (z, n, p))
         else n \<in> view (fw_daemon v) (z, p)))
    \<and> (unaffected (entry_key ` (set old - set new \<union> (set new - set old))) (view (fw_daemon w)) (view (fw_daemon v))
        \<and> (\<forall>x \<in> set old. alive (w_env v) (snd (snd (snd x)))) \<longrightarrow> view (fw_daemon v') = view (fw_daemon w))"
proof -
  note R = restore_capture [OF assms]
  have "view (fw_daemon v') = view (fw_daemon w)"
    if "unaffected (entry_key ` (set old - set new \<union> (set new - set old))) (view (fw_daemon w)) (view (fw_daemon v))"
      and al: "\<forall>x \<in> set old. alive (w_env v) (snd (snd (snd x)))"
  proof (intro ext set_eqI)
    fix k :: "string \<times> string" and n
    obtain z p where k: "k = (z, p)" by fastforce
    show "n \<in> view (fw_daemon v') k \<longleftrightarrow> n \<in> view (fw_daemon w) k"
      using R [of n z p] that(1) [unfolded unaffected_def] old_expiry_alive [OF al] k by auto
  qed
  then show ?thesis using R by blast
qed

lemma demo_capture: "\<exists>v. capture demo_firewalld [] [VDict demo_incoming] demo_fworld
    = (Inr [native_record (''public'', demo_native, ''runtime'') False VNone], v)"
proof -
  have n: "demo_native \<noteq> ''external''" by (simp add: demo_native_def)
  have e: "w_env demo_fworld = demo_env" by (simp add: demo_fworld_def)
  have r: "fd_rich demo_firewalld z p d = (Inr (demo_list d (z, p)), d)" for z p d by (simp add: demo_firewalld_def)
  have l: "demo_list (fw_daemon demo_fworld) (''public'', ''runtime'') = [''external'']"
    by (simp add: demo_list_def demo_fworld_def)
  show ?thesis
    by (simp add: capture_def e demo_entries demo_entries_none changed_entries_def minus_list_def s_bind_def s_guard_def
        Let_def capture_step_def entry_key_def snapshot_def rich_set_def daemon_def r l n old_expiry_def)
qed

lemma demo_restore:
  assumes "fw_daemon v = fw_daemon w" "\<And>z p d. fd_rich fd z p d = (Inr (demo_list d (z, p)), d)"
    "demo_list (fw_daemon v) (z, p) = ns" "n \<notin> set ns" "plane_of p = p"
  shows "\<exists>v'. restore fd [native_record (z, n, p) False VNone] v = (Inr (), v')"
  using assms
  by (simp add: restore_def restore_step_def restore_record_def native_record_def s_bind_def s_try_def s_guard_def
      str_field_def rich_set_def daemon_def still_present_def py_eq_def)

theorem capture_restore_roundtrip_witness:
  "\<exists>records w1 v'. capture demo_firewalld [] [VDict demo_incoming] demo_fworld = (Inr records, w1)
    \<and> restore demo_firewalld records w1 = (Inr (), v') \<and> demo_view (fw_daemon v') = demo_view (fw_daemon demo_fworld)"
proof -
  define records where "records = [native_record (''public'', demo_native, ''runtime'') False VNone]"
  obtain w1 where c: "capture demo_firewalld [] [VDict demo_incoming] demo_fworld = (Inr records, w1)"
    using demo_capture by (auto simp: records_def)
  obtain old new keys where k: "fw_rest demo_view w1 = fw_rest demo_view demo_fworld"
    using capture_records [OF demo_lawful c] by blast
  have e: "w_env demo_fworld = demo_env" by (simp add: demo_fworld_def)
  have v: "demo_view (fw_daemon w1) = demo_view (fw_daemon demo_fworld)" using k by (simp add: fw_rest_def)
  have "demo_native \<notin> demo_view (fw_daemon w1) (''public'', ''runtime'')"
    unfolding v by (simp add: demo_view_def demo_fworld_def demo_native_def)
  then have "demo_native \<notin> set (demo_list (fw_daemon w1) (''public'', ''runtime''))"
    by (auto simp: demo_view_def demo_list_def split: option.splits)
  then obtain v' where r: "restore demo_firewalld records w1 = (Inr (), v')"
    using demo_restore [of w1 w1 demo_firewalld "''public''" "''runtime''" _ demo_native]
    by (auto simp: records_def demo_firewalld_def plane_of_def)
  have "demo_view (fw_daemon v') = demo_view (fw_daemon demo_fworld)"
    using capture_restore_roundtrip [OF demo_lawful c _ _ r, unfolded e, OF demo_entries_none demo_entries] v by simp
  with c r show ?thesis by blast
qed

section \<open>observe\<close>








end
