(* ===== verification/Rule_Transactions_Props.thy ===== *)
theory Rule_Transactions_Props
  imports Rule_Transactions Network_Firewall_Props
begin

text \<open>
  What the reviewed transactions guarantee: preparing changes nothing but the list of reviews,
  a review is applied at most once and only for its owner, a failed change leaves the policy
  and the firewall as they were, and an interrupted one is undone by \<open>recover\<close>.
\<close>

section \<open>Frame\<close>

text \<open>The two files, the rich rules, the undo list and the clock.\<close>

definition outside :: "'d fw_view \<Rightarrow> ('d, 'z) rworld_scheme
    \<Rightarrow> stored_file option \<times> stored_file option \<times> (string \<times> string \<Rightarrow> string set) \<times> (string \<times> undo_entry) list \<times> rat" where
  "outside view w = (w_policy_file w, w_backup_file w, view (fw_daemon w), rm_undo w, rm_clock w)"

lemma keeps_of_rest:
  assumes "keeps (fw_rest view) m" "keeps rm_undo m" "keeps rm_clock m"
  shows "keeps (outside view) m"
  using assms unfolding keeps_def outside_def fw_rest_def pworld.truncate_def by (metis pworld.ext_inject prod.inject)

lemma keeps_pending_frame [keeps_intros]:
  "keeps (outside view) (s_modify (\<lambda>w. w\<lparr>rm_pending := g w\<rparr>))"
  "keeps (outside view) (s_modify (\<lambda>w. w\<lparr>rm_counter := h w\<rparr>))"
  by (auto intro!: keeps_modify simp: outside_def)

lemma daemon_frame: "(\<And>w d. f (w\<lparr>fw_daemon := d\<rparr>) = f w) \<Longrightarrow> keeps f (daemon m)"
  by (auto simp: keeps_def daemon_def split: prod.splits)

lemma monotonic_frame: "(\<And>w d. f (w\<lparr>fw_daemon := d\<rparr>) = f w) \<Longrightarrow> keeps f (monotonic fd)"
  by (auto simp: keeps_def monotonic_def split: prod.splits)

text \<open>The adapter touches only the daemon and its cache.\<close>

lemma details_frame: "(\<And>w d. f (w\<lparr>fw_daemon := d\<rparr>) = f w) \<Longrightarrow> keeps f (service_details fd t ns)"
  by (induction ns) (auto intro!: keeps_intros daemon_frame monotonic_frame)

lemma catalog_frame:
  assumes "\<And>w d. f (w\<lparr>fw_daemon := d\<rparr>) = f w" "\<And>w c. f (w\<lparr>fw_cache := c\<rparr>) = f w"
  shows "keeps f (catalog fd)"
  unfolding catalog_def catalog_details_def Let_def
  by (intro keeps_intros daemon_frame monotonic_frame details_frame assms)

lemma capture_frame:
  assumes "\<And>w d. f (w\<lparr>fw_daemon := d\<rparr>) = f w"
  shows "keeps f (capture fd before after)"
proof -
  have "keeps f (capture_step fd old acc x)" for old acc x
    unfolding capture_step_def snapshot_def rich_set_def Let_def
    by (intro keeps_intros daemon_frame assms)
  then show ?thesis unfolding capture_def Let_def by (intro keeps_intros keeps_fold)
qed

lemma restore_frame:
  assumes "\<And>w d. f (w\<lparr>fw_daemon := d\<rparr>) = f w"
  shows "keeps f (restore fd records)"
proof -
  have "keeps f (restore_step fd k r)" for k r
    unfolding restore_step_def restore_record_def rich_set_def change_native_def Let_def
    by (intro keeps_intros daemon_frame assms)
  then show ?thesis unfolding restore_def by (intro keeps_intros keeps_fold)
qed

lemma capture_keeps_view:
  assumes "fd_lawful fd view" shows "keeps (fw_rest view) (capture fd before after)"
proof -
  have "keeps (fw_rest view) (capture_step fd old acc x)" for old acc x
    unfolding capture_step_def snapshot_def Let_def by (intro keeps_intros keeps_rich assms)
  then show ?thesis unfolding capture_def Let_def by (intro keeps_intros keeps_fold)
qed

lemma outside_catalog: "fd_lawful fd view \<Longrightarrow> keeps (outside view) (catalog fd)"
  by (intro keeps_of_rest keeps_catalog catalog_frame) simp_all

lemma outside_capture: "fd_lawful fd view \<Longrightarrow> keeps (outside view) (capture fd before after)"
  by (intro keeps_of_rest capture_keeps_view capture_frame) simp_all

lemma outside_read: "keeps (outside view) store_read"
  unfolding keeps_def using store_read_disk by (fastforce simp: same_disk_def outside_def)

lemma prepare_plan_frame:
  assumes "fd_lawful fd view" shows "keeps (outside view) (prepare_plan fd resolver actor provider request policy)"
  unfolding prepare_plan_def
  by (intro keeps_intros outside_catalog assms)

lemma register_frame:
  assumes "fd_lawful fd view" shows "keeps (outside view) (register fd actor provider policy pl)"
  unfolding register_def
  by (intro keeps_intros outside_capture assms)

lemma prepare_frame:
  assumes "fd_lawful fd view" shows "keeps (outside view) (prepare fd resolver actor request)"
  unfolding prepare_def Let_def
  by (intro keeps_intros outside_read prepare_plan_frame register_frame assms)

section \<open>prepare\<close>

lemma length_alist_update: "length (AList.update k v xs) \<le> Suc (length xs)"
  by (induction xs) auto

lemma register_bound:
  assumes "register fd actor provider policy pl w = (Inr token, w')"
  shows "length (rm_pending w') \<le> 32"
    and "\<exists>t. map_of (rm_pending w') token = Some t \<and> t_actor t = actor \<and> t_provider t = provider \<and> t_before t = policy
      \<and> t_after t = pl_candidate pl \<and> \<not> t_cancelled t \<and> \<not> t_applying t"
proof -
  define p where "p = filter (\<lambda>p. rm_clock w < t_deadline (snd p)) (rm_pending w)"
  from assms obtain native w1 where n: "length p < 32"
    and c: "(if provider = ''incoming''
       then s_bind (capture fd (rules_of policy) (rules_of (pl_candidate pl))) (\<lambda>ns. s_ret (Some ns)) else s_ret None)
       (w\<lparr>rm_pending := p, rm_counter := Suc (rm_counter w)\<rparr>) = (Inr native, w1)"
    and w': "w' = w1\<lparr>rm_pending := AList.update token
       \<lparr>t_actor = actor, t_provider = provider, t_before = policy, t_after = pl_candidate pl,
         t_deadline = rm_clock w1 + 180, t_cancelled = False, t_applying = False, t_changes = pl_changes pl,
         t_native_before = native\<rparr> (rm_pending w1)\<rparr>"
    unfolding register_def p_def by (auto simp: act_simps)
  have "keeps rm_pending (if provider = ''incoming''
       then s_bind (capture fd (rules_of policy) (rules_of (pl_candidate pl))) (\<lambda>ns. s_ret (Some ns)) else s_ret None)"
    by (intro keeps_intros capture_frame) simp
  from keepsD [OF this c] have "rm_pending w1 = p" by simp
  then show "length (rm_pending w') \<le> 32"
    using n length_alist_update [of token _ p] by (simp add: w') (meson Suc_leI le_trans)
  show "\<exists>t. map_of (rm_pending w') token = Some t \<and> t_actor t = actor \<and> t_provider t = provider \<and> t_before t = policy
      \<and> t_after t = pl_candidate pl \<and> \<not> t_cancelled t \<and> \<not> t_applying t"
    by (simp add: w' update_conv')
qed

text \<open>
  Preparing a review changes nothing. Whatever the request, and whether or not it is accepted, the
  policy file, its recovery copy, the firewall rules, the undo list and the clock are untouched;
  an accepted request leaves at most 32 pending reviews.
\<close>

theorem prepare_changes_nothing:
  assumes "fd_lawful fd view" "prepare fd resolver actor request w = (r, w')"
  shows "outside view w' = outside view w \<and> (\<not> isl r \<longrightarrow> length (rm_pending w') \<le> 32)"
proof -
  have "length (rm_pending w') \<le> 32" if "r = Inr rv" for rv
  proof -
    from assms(2) that obtain provider policy pl token v where
      "register fd actor provider policy pl v = (Inr token, w')"
      unfolding prepare_def Let_def by (auto simp: act_simps)
    then show ?thesis by (rule register_bound(1))
  qed
  then show ?thesis using keepsD [OF prepare_frame [OF assms(1)] assms(2)] by (cases r) auto
qed

definition demo_rworld :: "demo_rules rworld" where
  "demo_rworld = \<lparr>w_env = demo_env, w_store = new_store,
     w_policy_file = Some \<lparr>f_json = Inr (VDict demo_policy), f_size = 90, f_mtime = 1\<rparr>, w_backup_file = None,
     w_io = (\<lambda>n. Some (int n + 2)), w_step = 0, fw_daemon = [((''public'', ''runtime''), [''external''])], fw_cache = None,
     rm_firewall = True, rm_pending = [], rm_undo = [], rm_clock = 100, rm_uuids = (\<lambda>n. ''0123456789abcdef0123''),
     rm_tokens = (\<lambda>n. ''token''), rm_counter = 0\<rparr>"

definition demo_request :: val where
  "demo_request = VDict [(''provider'', VStr ''application''), (''revision'', VInt 0),
     (''commands'', VList [VDict [(''operation'', VStr ''threat_settings''), (''enabled'', VBool False)]])]"

lemma demo_read: "store_read demo_rworld = (Inr (policy_defaults demo_policy), demo_rworld\<lparr>w_store :=
    new_store\<lparr>st_last_good := Some (policy_defaults demo_policy), st_signature := Some (1, 90)\<rparr>\<rparr>)"
  by (simp add: store_read_def demo_rworld_def load_file_def MAX_BYTES_def new_store_def demo_migrate)

lemma demo_gets:
  "dget (policy_defaults demo_policy) ''firewall_pending'' = VNone" "dget (policy_defaults demo_policy) ''revision'' = VInt 0"
  "dget (policy_defaults demo_policy) ''rules'' = VList []"
  unfolding demo_defaults by (simp_all add: demo_policy_def)

lemma demo_prepare: "\<exists>rv w'. prepare demo_firewalld None 1000 demo_request demo_rworld = (Inr rv, w')"
proof -
  define w where "w = demo_rworld\<lparr>w_store :=
    new_store\<lparr>st_last_good := Some (policy_defaults demo_policy), st_signature := Some (1, 90)\<rparr>\<rparr>"
  have f: "rm_undo w = []" "rm_pending w = []" "rm_clock w = 100" "rm_firewall w" "rm_counter w = 0" "rm_tokens w = (\<lambda>n. ''token'')"
    by (simp_all add: w_def demo_rworld_def)
  show ?thesis
    by (simp add: prepare_def prepare_plan_def register_def demo_request_def demo_read s_bind_def s_guard_def demo_gets
        request_commands_def run_command_def find_rule_def cmd_threat_settings_def rules_of_def warn_def change_def
        MAX_RULES_def f Let_def flip: w_def)
qed

theorem prepare_changes_nothing_witness:
  "\<exists>rv w'. prepare demo_firewalld None 1000 demo_request demo_rworld = (Inr rv, w')
    \<and> outside demo_view w' = outside demo_view demo_rworld \<and> length (rm_pending w') \<le> 32"
proof -
  obtain rv w' where p: "prepare demo_firewalld None 1000 demo_request demo_rworld = (Inr rv, w')"
    using demo_prepare by blast
  from prepare_changes_nothing [OF demo_lawful p] p show ?thesis by auto
qed

section \<open>apply: the reviewed transaction\<close>

lemma claim_review_Inr:
  assumes "claim_review actor token w = (Inr t, w')"
  obtains t0 where "map_of (rm_pending w) token = Some t0" "t_actor t0 = actor" "\<not> t_cancelled t0"
    "rm_clock w < t_deadline t0" "\<not> t_applying t0" "t = t0\<lparr>t_applying := True\<rparr>"
    "w' = w\<lparr>rm_pending := AList.update token t (rm_pending w)\<rparr>"
  using assms by (auto simp: claim_review_def Let_def not_le split: option.splits if_splits)

lemma claim_review_Inl: "claim_review actor token w = (Inl e, w') \<Longrightarrow> w' = w"
  by (auto simp: claim_review_def Let_def split: option.splits if_splits)

lemma apply_review_Inr:
  assumes "apply_review fd actor token authorize w = (Inr r, w')"
  obtains t w1 w2 saved w3 undo w4 where "claim_review actor token w = (Inr t, w1)" "authorize token t w1 = (Inr (), w2)"
    "apply_locked fd token t w2 = (Inr saved, w3)" "record_undo actor t saved w3 = (Inr undo, w4)"
    "r = (dget saved ''revision'', undo)" "w' = forget_review token w4"
  using assms by (auto simp: apply_review_def act_simps)

lemma apply_review_Inl:
  assumes "apply_review fd actor token authorize w = (Inl e, w')"
  shows "w' = w \<or> (\<exists>t w1 v. claim_review actor token w = (Inr t, w1) \<and> w' = forget_review token v
    \<and> (authorize token t w1 = (Inl e, v) \<or> (\<exists>w2. authorize token t w1 = (Inr (), w2) \<and> apply_locked fd token t w2 = (Inl e, v))))"
  using assms claim_review_Inl
  by (auto simp: apply_review_def act_simps record_undo_def Let_def)

text \<open>
  C5: A review is applied only for its owner and only once. A successful \<open>apply\<close> means that the token
  was pending for this caller, not cancelled, not expired and not already being applied, and that
  authentication succeeded; afterwards the token is gone, so a second \<open>apply\<close> of it is refused.
\<close>

theorem apply_needs_own_live_review:
  assumes "apply_review fd actor token authorize w = (Inr r, w')"
  shows "(\<exists>t w2. map_of (rm_pending w) token = Some t \<and> t_actor t = actor \<and> \<not> t_cancelled t \<and> rm_clock w < t_deadline t
      \<and> \<not> t_applying t
      \<and> authorize token (t\<lparr>t_applying := True\<rparr>) (w\<lparr>rm_pending := AList.update token (t\<lparr>t_applying := True\<rparr>) (rm_pending w)\<rparr>) = (Inr (), w2))
    \<and> map_of (rm_pending w') token = None
    \<and> apply_review fd actor' token authorize' w'
      = (Inl (PolicyError ''This review expired, was cancelled, or belongs to another caller.''), w')"
  using assms
proof (cases rule: apply_review_Inr)
  case (1 t w1 w2 saved w3 undo w4)
  from 1(1) obtain t0 where "map_of (rm_pending w) token = Some t0 \<and> t_actor t0 = actor \<and> \<not> t_cancelled t0
    \<and> rm_clock w < t_deadline t0 \<and> \<not> t_applying t0 \<and> t = t0\<lparr>t_applying := True\<rparr>
    \<and> w1 = w\<lparr>rm_pending := AList.update token t (rm_pending w)\<rparr>"
    by (rule claim_review_Inr) blast
  moreover have n: "map_of (rm_pending w') token = None" by (simp add: 1(6) forget_review_def delete_conv')
  moreover have "apply_review fd actor' token authorize' w'
      = (Inl (PolicyError ''This review expired, was cancelled, or belongs to another caller.''), w')"
    by (simp add: apply_review_def s_bind_def claim_review_def n)
  ultimately show ?thesis using 1(2) by blast
qed

section \<open>apply: outgoing rules\<close>

lemma outside_forget: "outside view (forget_review token w) = outside view w"
  by (simp add: outside_def forget_review_def)

definition files :: "'d fw_view \<Rightarrow> ('d, 'z) rworld_scheme \<Rightarrow> stored_file option \<times> (string \<times> string \<Rightarrow> string set)" where
  "files view w = (w_policy_file w, view (fw_daemon w))"

lemma write_keeps_daemon:
  "keeps fw_daemon (store_write p x)" "keeps fw_daemon store_read"
  "keeps rm_pending (store_write p x)" "keeps rm_pending store_read"
  "keeps w_env (store_write p x)" "keeps w_env store_read"
  by (intro store_write_frame; simp)+

lemma write_failed_files: "store_write p x w = (Inl e, w') \<Longrightarrow> files view w' = files view w"
proof -
  assume a: "store_write p x w = (Inl e, w')"
  show ?thesis using store_write_Inl(1) [OF a] keepsD [OF write_keeps_daemon(1) a] by (simp add: files_def)
qed

lemma read_files: "store_read w = (r, w') \<Longrightarrow> files view w' = files view w"
proof -
  assume a: "store_read w = (r, w')"
  show ?thesis using same_diskD [OF store_read_disk [OF a]] keepsD [OF write_keeps_daemon(2) a] by (simp add: files_def)
qed

text \<open>The transaction seen under the lock is the claimed one, but for its cancel flag.\<close>

lemma apply_locked_application:
  assumes "apply_locked fd token t0 w = (r, w')"
    and t: "t = (case map_of (rm_pending w) token of Some t \<Rightarrow> t | None \<Rightarrow> t0)" and p: "t_provider t \<noteq> ''incoming''"
  shows "case r of Inl e \<Rightarrow> files view w' = files view w
    | Inr saved \<Rightarrow> \<exists>policy w1. store_read w = (Inr policy, w1) \<and> py_eq (dget policy ''revision'') (dget (t_before t) ''revision'')
        \<and> store_write (t_after t) (dget policy ''revision'') w1 = (Inr saved, w')"
proof -
  obtain rr w1 where rd: "store_read w = (rr, w1)" by fastforce
  have pend: "rm_pending w1 = rm_pending w" using keepsD [OF write_keeps_daemon(4) rd] .
  have f1: "files view w1 = files view w" by (rule read_files [OF rd])
  show ?thesis
  proof (cases rr)
    case (Inl e)
    then show ?thesis using assms(1) rd f1 by (auto simp: apply_locked_def s_bind_def)
  next
    case (Inr policy)
    obtain rw w2 where wr: "store_write (t_after t) (dget policy ''revision'') w1 = (rw, w2)" by fastforce
    have tt: "(case map_of (rm_pending w1) token of Some t \<Rightarrow> t | None \<Rightarrow> t0) = t" using pend t by simp
    show ?thesis
    proof (cases "\<not> t_cancelled t \<and> rm_clock w1 < t_deadline t \<and> py_eq (dget policy ''revision'') (dget (t_before t) ''revision'')")
      case False
      then show ?thesis using assms(1) rd Inr f1 tt by (auto simp: apply_locked_def s_bind_def s_guard_def split: if_splits)
    next
      case True
      show ?thesis
        using assms(1) rd Inr f1 tt True p wr write_failed_files [OF _, of _ _ w1]
        by (cases rw) (auto simp: apply_locked_def s_bind_def s_guard_def apply_journal_def s_catch_def apply_rollback_def)
    qed
  qed
qed

section \<open>apply: incoming rules\<close>

text \<open>A replacement touches nothing but the daemon and the cached catalogue.\<close>

lemma change_frame: "(\<And>w d. f (w\<lparr>fw_daemon := d\<rparr>) = f w) \<Longrightarrow> keeps f (change_native fd z n p b t)"
  unfolding change_native_def by (intro keeps_intros daemon_frame)

lemma rich_frame: "(\<And>w d. f (w\<lparr>fw_daemon := d\<rparr>) = f w) \<Longrightarrow> keeps f (rich_set fd z p)"
  unfolding rich_set_def by (intro daemon_frame)

lemma replace_loop_frame:
  assumes F: "\<And>w d. f (w\<lparr>fw_daemon := d\<rparr>) = f w"
  shows "replace_loop fd remove dn xs w = (err, dn', w') \<Longrightarrow> f w' = f w"
proof (induction xs arbitrary: dn w)
  case (Cons x xs)
  have a: "keeps f (replace_entry fd remove dn x)"
    unfolding replace_entry_def by (intro keeps_intros rich_frame change_frame F)
  have b: "keeps f (confirm_entry fd remove x)"
    unfolding confirm_entry_def by (intro keeps_intros rich_frame F)
  obtain r w1 where r: "replace_entry fd remove dn x w = (r, w1)" by fastforce
  obtain q w2 where q: "confirm_entry fd remove x w1 = (q, w2)" by fastforce
  show ?case
    using Cons r q keepsD [OF a r] keepsD [OF b q]
    by (cases r; cases q) (auto split: if_splits)
qed simp

lemma undo_frame:
  assumes F: "\<And>w d. f (w\<lparr>fw_daemon := d\<rparr>) = f w"
  shows "undo_completed fd k xs w = (m, w') \<Longrightarrow> f w' = f w"
proof (induction xs arbitrary: k w)
  case (Cons x xs)
  obtain z n p b t where x: "x = (z, n, p, b, t)" by (cases x)
  obtain r v where c: "change_native fd z n p b t w = (r, v)" by fastforce
  show ?case using Cons c keepsD [OF change_frame [OF F] c] by (cases r) (auto simp: x)
qed simp

lemma replace_failed_frame:
  assumes F: "\<And>w d. f (w\<lparr>fw_daemon := d\<rparr>) = f w"
  shows "keeps f (replace_failed fd err dn)"
  unfolding keeps_def replace_failed_def by (auto dest: undo_frame [of f, OF F] split: prod.splits if_splits)

lemma replace_changes_frame:
  assumes F: "\<And>w d. f (w\<lparr>fw_daemon := d\<rparr>) = f w"
    and a: "replace_changes fd removed added w = (r, w')"
  shows "f w' = f w"
proof -
  obtain e1 d1 w1 where 1: "replace_loop fd True [] (sort_key entry_key removed) w = (e1, d1, w1)"
    using prod_cases3 by blast
  obtain e2 d2 w2 where 2: "replace_loop fd False d1 (sort_key entry_key added) w1 = (e2, d2, w2)"
    using prod_cases3 by blast
  note E = replace_loop_frame [OF F 1] replace_loop_frame [OF F 2]
  show ?thesis
    using a 1 2 E keepsD [OF replace_failed_frame [OF F], of _ _ _ w1] keepsD [OF replace_failed_frame [OF F], of _ _ _ w2]
    by (cases e1; cases e2) (auto simp: replace_changes_def)
qed

lemma replace_frame:
  assumes F: "\<And>w d. f (w\<lparr>fw_daemon := d\<rparr>) = f w" "\<And>w c. f (w\<lparr>fw_cache := c\<rparr>) = f w"
  shows "keeps f (replace fd before after)"
proof -
  have c: "keeps f (replace_changes fd removed added)" for removed added
    unfolding keeps_def using replace_changes_frame [of f] F(1) by blast
  show ?thesis unfolding replace_def by (intro keeps_intros catalog_frame c F)
qed

text \<open>\<open>apply\<close> and \<open>prepare\<close> touch only the part of the world that belongs to the transactions.\<close>

lemma apply_locked_frame:
  assumes F: "\<And>w d. f (w\<lparr>fw_daemon := d\<rparr>) = f w" "\<And>w c. f (w\<lparr>fw_cache := c\<rparr>) = f w"
    and S: "\<And>w s. f (w\<lparr>w_store := s\<rparr>) = f w" "\<And>w x. f (w\<lparr>w_policy_file := x\<rparr>) = f w"
      "\<And>w x. f (w\<lparr>w_backup_file := x\<rparr>) = f w" "\<And>w x. f (w\<lparr>w_step := x\<rparr>) = f w"
  shows "keeps f (apply_locked fd token t)"
  unfolding apply_locked_def apply_journal_def apply_rollback_def
  by (intro keeps_intros store_write_frame replace_frame restore_frame capture_frame F S)

lemma prepare_more_frame:
  assumes F: "\<And>w d. f (w\<lparr>fw_daemon := d\<rparr>) = f w" "\<And>w c. f (w\<lparr>fw_cache := c\<rparr>) = f w"
    and S: "\<And>w s. f (w\<lparr>w_store := s\<rparr>) = f w" "\<And>w x. f (w\<lparr>rm_pending := x\<rparr>) = f w" "\<And>w x. f (w\<lparr>rm_counter := x\<rparr>) = f w"
  shows "keeps f (prepare fd resolver actor request)"
proof -
  have read: "keeps f store_read" unfolding keeps_def using store_read_disk S(1) by (fastforce simp: same_disk_def)
  have mods: "keeps f (s_modify (\<lambda>w. w\<lparr>rm_pending := g w\<rparr>))" "keeps f (s_modify (\<lambda>w. w\<lparr>rm_counter := h w\<rparr>))" for g h
    by (intro keeps_modify S)+
  show ?thesis unfolding prepare_def prepare_plan_def register_def Let_def
    by (intro keeps_intros mods read catalog_frame capture_frame F)
qed

text \<open>The review that \<open>prepare\<close> returns is pending for its caller for 180 seconds.\<close>

lemma prepare_registers:
  assumes "prepare fd resolver actor request w = (Inr rv, w')"
  shows "\<exists>t. map_of (rm_pending w') (rv_transaction rv) = Some t \<and> t_actor t = actor \<and> t_deadline t = rm_clock w' + 180"
proof -
  from assms obtain pl policy provider v where "register fd actor provider policy pl v = (Inr (rv_transaction rv), w')"
    by (auto simp: prepare_def act_simps Let_def)
  then show ?thesis unfolding register_def by (auto simp: act_simps update_conv')
qed

lemma replace_env: "keeps w_env (replace fd before after)"
  by (rule replace_frame) simp_all

lemma write_view: "store_write p x w = (r, w') \<Longrightarrow> fw_daemon w' = fw_daemon w \<and> w_env w' = w_env w"
  using keepsD [OF write_keeps_daemon(1)] keepsD [OF write_keeps_daemon(5)] by blast

text \<open>The change itself, successful or not, touches nothing but the captured entries.\<close>

lemma change_touches:
  assumes L: "fd_lawful fd view"
    and b: "s_bind (replace fd before after) (\<lambda>_. store_write p x) w = (r, w')"
    and e: "entries (w_env w) fd before = Inr old" "entries (w_env w) fd after = Inr new"
  shows "unaffected (entry_key ` (set old - set new \<union> (set new - set old))) (view (fw_daemon w)) (view (fw_daemon w'))
    \<and> w_env w' = w_env w"
proof -
  obtain q w1 where q: "replace fd before after w = (q, w1)" by fastforce
  note U = replace_unaffected [OF L q e] and E = keepsD [OF replace_env q]
  show ?thesis
  proof (cases q)
    case (Inl err)
    then show ?thesis using b q U E by (simp add: s_bind_def)
  next
    case (Inr u)
    then have "store_write p x w1 = (r, w')" using b q by (simp add: s_bind_def)
    from write_view [OF this] U E show ?thesis by simp
  qed
qed

lemma rollback_view:
  assumes L: "fd_lawful fd view" and c: "capture fd before after w = (Inr ns, w1)"
    and e: "entries (w_env w) fd before = Inr old" "entries (w_env w) fd after = Inr new"
    and v: "unaffected (entry_key ` (set old - set new \<union> (set new - set old))) (view (fw_daemon w)) (view (fw_daemon v))"
      "w_env v = w_env w"
    and r: "apply_rollback fd t policy (Some ns) err0 v = (Inl err, v')"
      "err \<noteq> PolicyError ''Policy save failed and firewall rollback is INCOMPLETE.''"
  shows "view (fw_daemon v') = view (fw_daemon w)"
proof -
  from r obtain u v1 s where re: "restore fd ns v = (Inr u, v1)"
    and wr: "store_write (t_before t) (dget policy ''revision'') v1 = (Inr s, v')"
    by (auto simp: apply_rollback_def act_simps s_bind_def s_try_def split: prod.splits sum.splits)
  have al: "\<forall>x \<in> set old. alive (w_env v) (snd (snd (snd x)))" using entries_alive [OF e(1)] v(2) by simp
  have "n \<in> view (fw_daemon v1) (z, p) \<longleftrightarrow> n \<in> view (fw_daemon w) (z, p)" for n z p
    using restore_capture [OF L c e re, of n z p] old_expiry_alive [OF al, of "(z, n, p)"] v(1) [unfolded unaffected_def, rule_format, of z n p]
    by (simp split: if_splits)
  then show ?thesis using write_view [OF wr] by (auto simp: fun_eq_iff)
qed

lemma capture_entries:
  assumes "capture fd before after w = (Inr ns, w1)"
  obtains old new where "entries (w_env w) fd before = Inr old" "entries (w_env w) fd after = Inr new"
  using assms by (auto simp: capture_def Let_def act_simps)

lemma journal_view:
  assumes "fd_lawful fd view" shows "keeps (\<lambda>w. view (fw_daemon w)) (apply_journal fd t policy)"
proof -
  have "keeps (\<lambda>w. view (fw_daemon w)) (capture fd before after)" for before after
    using keepsD [OF capture_keeps_view [OF assms]] unfolding keeps_def fw_rest_def by blast
  moreover have "keeps (\<lambda>w. view (fw_daemon w)) (store_write p x)" for p x
    using write_view unfolding keeps_def by metis
  ultimately show ?thesis unfolding apply_journal_def by (intro keeps_intros)
qed

lemma apply_locked_incoming:
  assumes L: "fd_lawful fd view" and a: "apply_locked fd token t0 w = (Inl err, w')"
    and n: "err \<noteq> PolicyError ''Policy save failed and firewall rollback is INCOMPLETE.''"
    and p: "t_provider (case map_of (rm_pending w) token of Some t \<Rightarrow> t | None \<Rightarrow> t0) = ''incoming''"
  shows "view (fw_daemon w') = view (fw_daemon w)"
proof -
  define t where "t = (case map_of (rm_pending w) token of Some t \<Rightarrow> t | None \<Rightarrow> t0)"
  obtain rr w1 where rd: "store_read w = (rr, w1)" by fastforce
  have w1: "rm_pending w1 = rm_pending w" "view (fw_daemon w1) = view (fw_daemon w)" "w_env w1 = w_env w"
    using keepsD [OF write_keeps_daemon(4) rd] keepsD [OF write_keeps_daemon(2) rd] keepsD [OF write_keeps_daemon(6) rd] by simp_all
  have tt: "(case map_of (rm_pending w1) token of Some t \<Rightarrow> t | None \<Rightarrow> t0) = t" by (simp add: t_def w1)
  have tp: "t_provider t = ''incoming''" using p by (simp add: t_def)
  show ?thesis
  proof (cases "\<exists>policy j w2. rr = Inr policy \<and> apply_journal fd t policy w1 = (Inr j, w2)
      \<and> \<not> t_cancelled t \<and> rm_clock w1 < t_deadline t \<and> py_eq (dget policy ''revision'') (dget (t_before t) ''revision'')")
    case False
    have j: "view (fw_daemon w2) = view (fw_daemon w1)" if "apply_journal fd t policy w1 = (Inl e, w2)" for e policy w2
      using keepsD [OF journal_view [OF L] that] .
    show ?thesis
      using False a rd j w1(2) tt
      by (cases rr) (auto simp: apply_locked_def s_bind_def s_guard_def split: if_splits prod.splits sum.splits)
  next
    case True
    then obtain policy j w2 where rr: "rr = Inr policy" and j: "apply_journal fd t policy w1 = (Inr j, w2)"
      and ok: "\<not> t_cancelled t" "rm_clock w1 < t_deadline t" "py_eq (dget policy ''revision'') (dget (t_before t) ''revision'')" by blast
    from j tp obtain ns w1' policy' x where c: "capture fd (rules_of (t_before t)) (rules_of (t_after t)) w1 = (Inr ns, w1')"
      and wr: "store_write (journal_policy policy ns) x w1' = (Inr policy', w2)" and jj: "j = (Some ns, policy')"
      by (auto simp: apply_journal_def act_simps)
    have w1': "view (fw_daemon w1') = view (fw_daemon w1)" "w_env w1' = w_env w1"
      using keepsD [OF outside_capture [OF L] c] keepsD [OF capture_frame c, of w_env] by (simp_all add: outside_def)
    have w2: "view (fw_daemon w2) = view (fw_daemon w1)" "w_env w2 = w_env w1" using write_view [OF wr] w1' by simp_all
    obtain old new where e: "entries (w_env w1) fd (rules_of (t_before t)) = Inr old" "entries (w_env w1) fd (rules_of (t_after t)) = Inr new"
      using capture_entries [OF c] .
    obtain r3 w3 where b: "s_bind (replace fd (rules_of (t_before t)) (rules_of (t_after t))) (\<lambda>_. store_write (t_after t) (dget policy' ''revision'')) w2 = (r3, w3)"
      by fastforce
    note T = change_touches [OF L b e [folded w2(2)], unfolded w2]
    show ?thesis
    proof (cases r3)
      case (Inr s)
      then show ?thesis using a rd rr ok j jj tt b by (simp add: apply_locked_def s_bind_def [of store_read] s_bind_def [of "apply_journal _ _ _"] s_bind_def [of "s_guard _ _"] s_guard_def s_catch_def)
    next
      case (Inl err0)
      then have "apply_rollback fd t policy' (Some ns) err0 w3 = (Inl err, w')"
        using a rd rr ok j jj tt b by (simp add: apply_locked_def s_bind_def [of store_read] s_bind_def [of "apply_journal _ _ _"] s_bind_def [of "s_guard _ _"] s_guard_def s_catch_def)
      from rollback_view [OF L c e _ _ this n] T w1(2) show ?thesis by simp
    qed
  qed
qed

text \<open>
  C6: A failed change is harmless. When the locked part of \<open>apply\<close> raises, at whichever step, the rich
  rules of the firewall are as they were when the lock was taken, unless the error itself says
  that the roll back is incomplete; an outgoing change also leaves the policy file untouched.
\<close>

theorem apply_failure_harmless:
  assumes "fd_lawful fd view" "apply_locked fd token t0 w = (Inl err, w')"
    "err \<noteq> PolicyError ''Policy save failed and firewall rollback is INCOMPLETE.''"
  shows "view (fw_daemon w') = view (fw_daemon w)
    \<and> (t_provider (case map_of (rm_pending w) token of Some t \<Rightarrow> t | None \<Rightarrow> t0) \<noteq> ''incoming''
       \<longrightarrow> w_policy_file w' = w_policy_file w)"
proof (cases "t_provider (case map_of (rm_pending w) token of Some t \<Rightarrow> t | None \<Rightarrow> t0) = ''incoming''")
  case True
  then show ?thesis using apply_locked_incoming [OF assms True] by simp
next
  case False
  then show ?thesis using apply_locked_application [OF assms(2) refl False, of view] by (simp add: files_def)
qed

definition demo_txn :: txn where
  "demo_txn = \<lparr>t_actor = 1000, t_provider = ''application'', t_before = demo_policy,
     t_after = demo_policy, t_deadline = 200, t_cancelled = False, t_applying = False, t_changes = [],
     t_native_before = None\<rparr>"

definition demo_applying :: "demo_rules rworld" where
  "demo_applying = demo_rworld\<lparr>rm_pending := [(''token'', demo_txn)]\<rparr>"

lemma demo_apply_locked:
  assumes "w_io w = w_io demo_rworld \<or> w_io w = (\<lambda>_. None)" "w = demo_applying\<lparr>w_io := io\<rparr>"
  shows "\<exists>w'. apply_locked demo_firewalld ''token'' demo_txn w
    = (if w_io w = (\<lambda>_. None) then Inl (OSError ''replace'') else Inr (dput (policy_defaults demo_policy) ''revision'' (VInt 1)), w')"
proof -
  define w1 where "w1 = w\<lparr>w_store := new_store\<lparr>st_last_good := Some (policy_defaults demo_policy), st_signature := Some (1, 90)\<rparr>\<rparr>"
  have r: "store_read w = (Inr (policy_defaults demo_policy), w1)" "store_read w1 = (Inr (policy_defaults demo_policy), w1)"
    by (simp_all add: w1_def assms(2) demo_applying_def store_read_def demo_rworld_def load_file_def MAX_BYTES_def new_store_def demo_migrate)
  have g: "dget demo_policy ''revision'' = VInt 0" by (simp add: demo_policy_def)
  have t: "t_after demo_txn = demo_policy" "t_before demo_txn = demo_policy" "\<not> t_cancelled demo_txn" "t_deadline demo_txn = 200"
    "t_provider demo_txn = ''application''" by (simp_all add: demo_txn_def)
  have f: "map_of (rm_pending w1) ''token'' = Some demo_txn" "rm_clock w1 = 100" "w_env w1 = demo_env" "w_io w1 = w_io w"
    by (simp_all add: w1_def assms(2) demo_applying_def demo_rworld_def)
  have io: "w_io demo_rworld = (\<lambda>n. Some (int n + 2))" by (simp add: demo_rworld_def)
  have ne: "(\<lambda>n. Some (int n + 2)) \<noteq> (\<lambda>_. None)" by (auto simp: fun_eq_iff)
  show ?thesis
    using assms(1) demo_size
    by (elim disjE)
      (simp_all add: apply_locked_def s_bind_def r s_guard_def f t g demo_gets apply_journal_def s_catch_def apply_rollback_def
        store_write_def demo_revision demo_migrate Let_def replace_file_def refresh_backup_def io ne)
qed

theorem apply_failure_harmless_witness:
  "\<exists>w'. apply_locked demo_firewalld ''token'' demo_txn (demo_applying\<lparr>w_io := \<lambda>_. None\<rparr>) = (Inl (OSError ''replace''), w')
    \<and> w_policy_file w' = w_policy_file demo_applying \<and> demo_view (fw_daemon w') = demo_view (fw_daemon demo_applying)"
proof -
  define w where "w = demo_applying\<lparr>w_io := \<lambda>_. None\<rparr>"
  obtain w' where a: "apply_locked demo_firewalld ''token'' demo_txn w = (Inl (OSError ''replace''), w')"
    using demo_apply_locked [of w "\<lambda>_. None"] by (auto simp: w_def)
  have "map_of (rm_pending w) ''token'' = Some demo_txn" by (simp add: w_def demo_applying_def)
  then have "w_policy_file w' = w_policy_file w \<and> demo_view (fw_daemon w') = demo_view (fw_daemon w)"
    using apply_failure_harmless [OF demo_lawful a] by (simp add: demo_txn_def)
  then show ?thesis using a by (simp add: w_def)
qed

section \<open>apply: completion\<close>

lemma store_read_again:
  assumes "store_read w = (Inr p, w1)" shows "store_read w1 = (Inr p, w1)"
proof -
  have failed: "read_failed err w1 = (Inr p, w1)" "st_error (w_store w1) \<noteq> None" "\<exists>s. w1 = w\<lparr>w_store := s\<rparr>"
    if "read_failed err w = (Inr p, w1)" for err
    using that by (auto simp: read_failed_def read_backup_def Let_def split: if_splits option.splits sum.splits)
  show ?thesis
  proof (cases "w_policy_file w")
    case None
    then have "read_failed (OSError ''stat'') w = (Inr p, w1)" using assms by (simp add: store_read_def)
    from failed [OF this] None show ?thesis by (auto simp: store_read_def)
  next
    case (Some f)
    show ?thesis
    proof (cases "st_last_good (w_store w) \<noteq> None \<and> st_signature (w_store w) = Some (f_mtime f, f_size f) \<and> st_error (w_store w) = None")
      case True
      then have "w1 = w" using assms Some by (simp add: store_read_def)
      then show ?thesis using assms by simp
    next
      case False
      show ?thesis
      proof (cases "load_file (w_env w) ''Network policy exceeds its size limit.'' f")
        case (Inl err)
        then have r: "read_failed err w = (Inr p, w1)" using assms Some False by (auto simp: store_read_def Let_def)
        obtain s where "w1 = w\<lparr>w_store := s\<rparr>" using failed(3) [OF r] ..
        then show ?thesis using failed(1,2) [OF r] Some Inl by (auto simp: store_read_def Let_def)
      next
        case (Inr q)
        then show ?thesis using assms Some False by (auto simp: store_read_def Let_def)
      qed
    qed
  qed
qed

lemma store_read_pending:
  "store_read (w\<lparr>rm_pending := x\<rparr>) = (case store_read w of (r, w') \<Rightarrow> (r, w'\<lparr>rm_pending := x\<rparr>))"
  by (auto simp: store_read_def read_failed_def read_backup_def Let_def split: option.splits sum.splits)

lemma store_write_completes:
  assumes r: "store_read w = (Inr prev, w1)" "dindex prev ''revision'' = Inr (VInt i)"
    and m: "migrate (w_env w) (VDict p) = Inr q" "length (policy_text (w_env w) (dput q ''revision'' (VInt (i + 1)))) \<le> MAX_BYTES"
    and io: "w_io w (w_step w) \<noteq> None" "w_io w (Suc (w_step w)) \<noteq> None"
  shows "\<exists>w'. store_write p (VInt i) w = (Inr (dput q ''revision'' (VInt (i + 1))), w')"
proof -
  obtain s where w1: "w1 = w\<lparr>w_store := s\<rparr>" using store_read_disk [OF r(1)] by (auto simp: same_disk_def)
  obtain a b where ab: "w_io w (w_step w) = Some a" "w_io w (Suc (w_step w)) = Some b" using io by auto
  obtain u w4 where f: "refresh_backup (dput q ''revision'' (VInt (i + 1)))
      (w\<lparr>w_store := s, w_backup_file := Some (policy_file (w_env w) prev a), w_step := Suc (Suc (w_step w)),
         w_policy_file := Some (policy_file (w_env w) (dput q ''revision'' (VInt (i + 1))) b)\<rparr>) = (u, w4)"
    by fastforce
  then have "u = Inr ()" using refresh_backup_Inr by blast
  then show ?thesis
    using r m ab f by (simp add: store_write_def s_bind_def s_guard_def w1 replace_file_def Let_def)
qed

lemma apply_outgoing_runs:
  assumes t: "map_of (rm_pending w) token = Some t" "t_actor t = actor" "\<not> t_cancelled t" "rm_clock w < t_deadline t"
      "\<not> t_applying t" "t_provider t \<noteq> ''incoming''" "dget (t_before t) ''revision'' = VInt i"
    and r: "store_read w = (Inr policy, w1)" "dindex policy ''revision'' = Inr (VInt i)"
    and m: "migrate (w_env w) (VDict (t_after t)) = Inr q"
      "length (policy_text (w_env w) (dput q ''revision'' (VInt (i + 1)))) \<le> MAX_BYTES"
    and io: "w_io w (w_step w) \<noteq> None" "w_io w (Suc (w_step w)) \<noteq> None"
  shows "\<exists>undo u w'. apply_review fd actor token (\<lambda>_ _. s_ret ()) w = (Inr (VInt (i + 1), undo), w')
    \<and> map_of (rm_undo w') undo = Some u \<and> u_actor u = actor \<and> u_before u = t_before t \<and> u_revision u = VInt (i + 1)
    \<and> map_of (rm_pending w') token = None"
proof -
  define t' where "t' = t\<lparr>t_applying := True\<rparr>"
  define ps where "ps = AList.update token t' (rm_pending w)"
  define v where "v = w\<lparr>rm_pending := ps\<rparr>"
  obtain st where w1: "w1 = w\<lparr>w_store := st\<rparr>" using store_read_disk [OF r(1)] by (auto simp: same_disk_def)
  define v1 where "v1 = v\<lparr>w_store := st\<rparr>"
  have rd: "store_read v = (Inr policy, v1)" using r(1) by (simp add: v_def v1_def store_read_pending w1)
  have c: "claim_review actor token w = (Inr t', v)" using t by (simp add: claim_review_def t'_def v_def ps_def Let_def)
  have rv: "dget policy ''revision'' = VInt i" using r(2) by (auto simp: dindex_def dget_def split: option.splits)
  have p: "map_of (rm_pending v1) token = Some t'" by (simp add: v1_def v_def ps_def update_conv')
  have "\<exists>v2. store_write (t_after t) (VInt i) v1 = (Inr (dput q ''revision'' (VInt (i + 1))), v2)"
    by (rule store_write_completes [OF store_read_again [OF rd] r(2)]) (use m io in \<open>simp_all add: v1_def v_def\<close>)
  then obtain v2 where wr: "store_write (t_after t) (VInt i) v1 = (Inr (dput q ''revision'' (VInt (i + 1))), v2)" ..
  have l: "apply_locked fd token t' v = (Inr (dput q ''revision'' (VInt (i + 1))), v2)"
    using rd p t wr rv by (simp add: apply_locked_def s_bind_def s_guard_def apply_journal_def s_catch_def t'_def v1_def v_def)
  show ?thesis
    using c l t(2) by (simp add: apply_review_def s_bind_def s_finally_def record_undo_def Let_def forget_review_def
        add_undo_def update_conv' delete_conv' t'_def)
qed

lemma demo_applying_ok:
  "map_of (rm_pending demo_applying) ''token'' = Some demo_txn"
  "store_read demo_applying = (Inr (policy_defaults demo_policy), demo_applying\<lparr>w_store :=
    new_store\<lparr>st_last_good := Some (policy_defaults demo_policy), st_signature := Some (1, 90)\<rparr>\<rparr>)"
  by (simp_all add: demo_applying_def store_read_pending demo_read)

lemma demo_env_applying:
  "w_env demo_applying = demo_env" "w_io demo_applying n = Some (int n + 2)" "rm_clock demo_applying = 100"
  "t_actor demo_txn = 1000" "\<not> t_cancelled demo_txn" "t_deadline demo_txn = 200" "\<not> t_applying demo_txn"
  "t_provider demo_txn = ''application''" "t_after demo_txn = demo_policy" "dget (t_before demo_txn) ''revision'' = VInt 0"
  by (simp_all add: demo_applying_def demo_rworld_def demo_txn_def demo_policy_def)

lemma demo_applied:
  "\<exists>r w'. apply_review demo_firewalld 1000 ''token'' (\<lambda>_ _. s_ret ()) demo_applying = (Inr r, w')"
  using apply_outgoing_runs [OF demo_applying_ok(1), of 1000 0, OF _ _ _ _ _ _ demo_applying_ok(2) demo_revision,
      of "policy_defaults demo_policy" demo_firewalld] demo_size demo_migrate demo_env_applying
  by auto

text \<open>
  C20: An approved outgoing change goes through. If the caller owns a live review made against the
  current revision, authentication succeeds, the new policy is valid and fits, and the disk takes
  the two replacements, then \<open>apply\<close> returns the next revision and an undo reference that is on
  record for this caller, and the review is gone.
\<close>

theorem apply_completes:
  assumes "map_of (rm_pending w) token = Some t" "t_actor t = actor" "\<not> t_cancelled t" "rm_clock w < t_deadline t"
      "\<not> t_applying t" "t_provider t \<noteq> ''incoming''" "dget (t_before t) ''revision'' = VInt i"
    and "store_read w = (Inr policy, w1)" "dindex policy ''revision'' = Inr (VInt i)"
    and "migrate (w_env w) (VDict (t_after t)) = Inr q"
      "length (policy_text (w_env w) (dput q ''revision'' (VInt (i + 1)))) \<le> MAX_BYTES"
    and "w_io w (w_step w) \<noteq> None" "w_io w (Suc (w_step w)) \<noteq> None"
  shows "\<exists>undo u w'. apply_review fd actor token (\<lambda>_ _. s_ret ()) w = (Inr (VInt (i + 1), undo), w')
    \<and> map_of (rm_undo w') undo = Some u \<and> u_actor u = actor \<and> u_before u = t_before t \<and> u_revision u = VInt (i + 1)
    \<and> map_of (rm_pending w') token = None"
  using assms by (rule apply_outgoing_runs)

theorem apply_completes_witness:
  "\<exists>undo w'. apply_review demo_firewalld 1000 ''token'' (\<lambda>_ _. s_ret ()) demo_applying = (Inr (VInt 1, undo), w')
    \<and> map_of (rm_pending w') ''token'' = None"
  using apply_completes [OF demo_applying_ok(1), of 1000 0, OF _ _ _ _ _ _ demo_applying_ok(2) demo_revision,
      of "policy_defaults demo_policy" demo_firewalld] demo_size demo_migrate demo_env_applying
  by auto

theorem apply_needs_own_live_review_witness:
  "\<exists>r w'. apply_review demo_firewalld 1000 ''token'' (\<lambda>_ _. s_ret ()) demo_applying = (Inr r, w')
    \<and> map_of (rm_pending w') ''token'' = None
    \<and> apply_review demo_firewalld 1000 ''token'' (\<lambda>_ _. s_ret ()) w'
      = (Inl (PolicyError ''This review expired, was cancelled, or belongs to another caller.''), w')"
proof -
  obtain r w' where "apply_review demo_firewalld 1000 ''token'' (\<lambda>_ _. s_ret ()) demo_applying = (Inr r, w')"
    using demo_applied by blast
  from apply_needs_own_live_review [OF this, where actor' = 1000 and authorize' = "\<lambda>_ _. s_ret ()"] this
  show ?thesis by blast
qed

end
