(* ===== verification/Py_Clean.thy ===== *)
theory Py_Clean
  imports Py_Text
begin

text \<open>
  Text handling shared by the projections: the bounded printable form of a value (the helpers
  \<open>_clean\<close> and \<open>_text\<close> of several modules), upper case, the text of an exception, and UTC
  timestamps in ISO 8601 form.
\<close>

section \<open>Bounded printable text\<close>

definition clean :: "env \<Rightarrow> val \<Rightarrow> nat \<Rightarrow> string" where
  "clean e v maximum = take maximum (filter printable (py_str e (py_or v (VStr []))))"

text \<open>\<open>bounded\<close> does not replace a false value by the empty text first.\<close>

definition bounded :: "env \<Rightarrow> val \<Rightarrow> nat \<Rightarrow> string" where
  "bounded e v maximum = take maximum (filter printable (py_str e v))"

text \<open>\<open>x or None\<close> on a text.\<close>

definition or_none :: "string \<Rightarrow> val" where
  "or_none s = (if s = [] then VNone else VStr s)"

text \<open>
  The interface of a text filter: what it returns is within the bound and printable, and it
  leaves such a text alone.
\<close>

locale text_filter =
  fixes f :: "val \<Rightarrow> nat \<Rightarrow> string"
  assumes filter_bound: "length (f v n) \<le> n"
    and filter_printable: "list_all printable (f v n)"
    and filter_fix: "list_all printable s \<Longrightarrow> length s \<le> n \<Longrightarrow> f (VStr s) n = s"
begin

lemma filter_idem: "f (VStr (f v n)) n = f v n"
  by (rule filter_fix) (rule filter_printable, rule filter_bound)

lemma filter_narrow: "m \<le> n \<Longrightarrow> length (f (VStr (f v m)) n) \<le> m"
  using filter_fix [of "f v m" n] filter_printable [of v m] filter_bound [of v m] by simp

lemma filter_chars: "c \<in> set (f v n) \<Longrightarrow> printable c"
  using filter_printable [of v n] by (auto simp: list_all_iff)

end

lemma py_or_str [simp]: "py_or (VStr s) (VStr []) = VStr s"
  by (simp add: py_or_def)

lemma take_filter_printable:
  "list_all printable s \<Longrightarrow> length s \<le> n \<Longrightarrow> take n (filter printable s) = s"
  by (simp add: list_all_iff)

interpretation cleaned: text_filter "clean e" for e
  by unfold_locales (auto simp: clean_def list_all_iff take_filter_printable dest: in_set_takeD)

interpretation limited: text_filter "bounded e" for e
  by unfold_locales (auto simp: bounded_def list_all_iff take_filter_printable dest: in_set_takeD)

lemma clean_none [simp]: "clean e VNone n = []"
  by (simp add: clean_def py_or_def)

lemma clean_or_none_again:
  "or_none (clean e (or_none (clean e v n)) n) = or_none (clean e v n)"
  using cleaned.filter_idem [of e v n] by (simp add: or_none_def)

section \<open>Upper case\<close>

text \<open>
  \<open>str.upper\<close> on the Latin-1 code points. The micro sign and y with diaeresis have their upper
  case outside Latin-1 and are kept.
\<close>

definition upper_char :: "char \<Rightarrow> string" where
  "upper_char c = (if is_lower_az c \<or> (224 \<le> code c \<and> code c \<le> 254 \<and> code c \<noteq> 247) then [char_of (code c - 32)]
     else if code c = 223 then ''SS'' else [c])"

definition py_upper :: "string \<Rightarrow> string" where
  "py_upper s = concat (map upper_char s)"

definition replace_char :: "char \<Rightarrow> char \<Rightarrow> string \<Rightarrow> string" where
  "replace_char a b s = map (\<lambda>c. if c = a then b else c) s"

text \<open>\<open>str.title\<close> on ASCII letters: the first letter of each run of letters is a capital.\<close>

definition is_letter :: "char \<Rightarrow> bool" where
  "is_letter c \<longleftrightarrow> is_lower_az c \<or> is_upper_az c \<or> (192 \<le> code c \<and> code c \<noteq> 215 \<and> code c \<noteq> 247)
     \<or> code c = 170 \<or> code c = 181 \<or> code c = 186"

fun title_from :: "bool \<Rightarrow> string \<Rightarrow> string" where
  "title_from inside [] = []"
| "title_from inside (c # s) =
     (if inside then [lower_char c] else if code c = 223 then ''Ss'' else upper_char c) @ title_from (is_letter c) s"

definition py_title :: "string \<Rightarrow> string" where
  "py_title s = title_from False s"

section \<open>The text of an exception\<close>

fun exc_str :: "exc \<Rightarrow> string" where
  "exc_str (PolicyError s) = s"
| "exc_str (ValueError s) = s"
| "exc_str TypeError = ''TypeError''"
| "exc_str (KeyError s) = repr_str s"
| "exc_str (OSError s) = s"
| "exc_str (UsbGuardError state s) = s"
| "exc_str (OtherError s) = s"

section \<open>Timestamps\<close>

text \<open>
  Times are seconds since the epoch, UTC. The civil date of a day number counts from March, in
  eras of 400 years (146,097 days).
\<close>

definition civil :: "int \<Rightarrow> int \<times> int \<times> int" where
  "civil days = (let z = days + 719468; era = z div 146097; doe = z mod 146097;
       yoe = (doe - doe div 1460 + doe div 36524 - doe div 146096) div 365;
       doy = doe - (365 * yoe + yoe div 4 - yoe div 100);
       mp = (5 * doy + 2) div 153;
       d = doy - (153 * mp + 2) div 5 + 1;
       m = (if mp < 10 then mp + 3 else mp - 9) in
     (yoe + era * 400 + (if m \<le> 2 then 1 else 0), m, d))"

definition pad :: "nat \<Rightarrow> int \<Rightarrow> string" where
  "pad n i = (let s = int_str i in replicate (n - length s) (CHR ''0'') @ s)"

text \<open>\<open>isoformat()\<close> of a UTC time with the offset written as Z.\<close>

definition iso_seconds :: "int \<Rightarrow> string" where
  "iso_seconds s = (case civil (s div 86400) of (y, m, d) \<Rightarrow> let t = s mod 86400 in
     pad 4 y @ ''-'' @ pad 2 m @ ''-'' @ pad 2 d @ ''T''
     @ pad 2 (t div 3600) @ '':'' @ pad 2 (t div 60 mod 60) @ '':'' @ pad 2 (t mod 60))"

definition iso :: "rat \<Rightarrow> string" where
  "iso t = iso_seconds \<lfloor>t\<rfloor> @ ''Z''"

definition iso_micro :: "rat \<Rightarrow> string" where
  "iso_micro t = (let u = \<lfloor>t * 1000000\<rfloor> mod 1000000 in
     iso_seconds \<lfloor>t\<rfloor> @ (if u = 0 then [] else ''.'' @ pad 6 u) @ ''Z'')"

end
