(* ===== verification/Feodo.thy ===== *)
theory Feodo
  imports Py_Clean Network_Rules Py_Canon
begin

text \<open>
  \<open>feodo.py\<close>: the snapshot of known command-and-control servers. The feed is validated and
  normalized, kept on disk, and consulted for every connection.
\<close>

section \<open>The snapshot\<close>

definition FEODO_PROVIDER :: string where "FEODO_PROVIDER = ''feodo-recommended''"

definition SNAPSHOT_SCHEMA :: string where "SNAPSHOT_SCHEMA = ''greyward.feodo/v1''"

definition MAX_FEED_BYTES :: nat where "MAX_FEED_BYTES = 4 * 1024 * 1024"

definition MAX_INDICATORS :: nat where "MAX_INDICATORS = 4096"

definition default_snapshot :: dict where
  "default_snapshot = [(''schema'', VStr SNAPSHOT_SCHEMA), (''provider'', VStr FEODO_PROVIDER),
     (''state'', VStr ''INITIALIZING''), (''fetched_at'', VNone), (''last_successful_update'', VNone),
     (''indicator_count'', VInt 0), (''indicators'', VList []),
     (''error'', VStr ''The first Feodo snapshot has not been received yet.'')]"

text \<open>
  Reading a file and parsing it: \<open>OSError\<close>, or the \<open>JSONDecodeError\<close> of the parser. A file that
  is not UTF-8 raises \<open>UnicodeDecodeError\<close>, which the handlers do not name.
\<close>

fun is_json_error :: "exc \<Rightarrow> bool" where
  "is_json_error (OSError s) = True"
| "is_json_error (ValueError s) = (s = ''JSONDecodeError'')"
| "is_json_error e = False"

text \<open>One indicator from an address field and a port; \<open>None\<close> where the loop skips it.\<close>

definition indicator :: "env \<Rightarrow> dict \<Rightarrow> string \<Rightarrow> dict option py" where
  "indicator e item field =
    (case ip_address (py_str e (py_or (dget item field) (VStr []))) of
       None \<Rightarrow> Inr None
     | Some a \<Rightarrow> (case py_int (dget item ''port'') of
         Inl x \<Rightarrow> if is_value_or_type_error x then Inr None else Inl x
       | Inr port \<Rightarrow> if \<not> (1 \<le> port \<and> port \<le> 65535) then Inr None
           else Inr (Some [(''ip'', VStr (ip_str a)), (''port'', VInt port),
             (''malware'', or_none (clean e (dget item ''malware'') 96))])))"

fun load_indicators :: "env \<Rightarrow> val list \<Rightarrow> val list py" where
  "load_indicators e [] = Inr []"
| "load_indicators e (VDict item # items) = py_bind (indicator e item ''ip'') (\<lambda>i.
     py_bind (load_indicators e items) (\<lambda>rest.
     Inr (case i of None \<Rightarrow> rest | Some d \<Rightarrow> VDict d # rest)))"
| "load_indicators e (item # items) = load_indicators e items"

definition snapshot_state :: "env \<Rightarrow> dict \<Rightarrow> string" where
  "snapshot_state e v = (let s = py_upper (py_str e (py_or (dget v ''state'') (VStr ''ERROR''))) in
     if s \<in> set [''READY'', ''EMPTY'', ''STALE'', ''ERROR'', ''INITIALIZING''] then s else ''ERROR'')"

definition load_snapshot :: "env \<Rightarrow> val py \<Rightarrow> dict py" where
  "load_snapshot e content = (case content of
       Inl x \<Rightarrow> if is_json_error x then Inr default_snapshot else Inl x
     | Inr (VDict v) \<Rightarrow>
         if dget v ''schema'' \<noteq> VStr SNAPSHOT_SCHEMA \<or> \<not> is_list (dget v ''indicators'') then Inr default_snapshot
         else py_bind (load_indicators e (take MAX_INDICATORS (as_list (dget v ''indicators'')))) (\<lambda>normalized.
           Inr (dput (dput (dput (dput v ''indicators'' (VList normalized))
             ''indicator_count'' (VInt (int (length normalized)))) ''provider'' (VStr FEODO_PROVIDER))
             ''state'' (VStr (snapshot_state e v))))
     | Inr _ \<Rightarrow> Inr default_snapshot)"

section \<open>The feed\<close>

definition normalize_entry :: "env \<Rightarrow> val \<Rightarrow> dict option py" where
  "normalize_entry e item = (case item of VDict d \<Rightarrow> indicator e d ''ip_address'' | _ \<Rightarrow> Inr None)"

type_synonym feed_map = "((string \<times> int) \<times> dict) list"

definition feed_key :: "dict \<Rightarrow> string \<times> int" where
  "feed_key d = (as_str (dget d ''ip''), as_int (dget d ''port''))"

definition feed_step :: "env \<Rightarrow> feed_map \<Rightarrow> val \<Rightarrow> feed_map py" where
  "feed_step e acc item = py_bind (normalize_entry e item) (\<lambda>n. case n of
       None \<Rightarrow> Inl (ValueError ''The Feodo response contains an invalid IP or port.'')
     | Some d \<Rightarrow> let acc' = (if map_of acc (feed_key d) = None then acc @ [(feed_key d, d)] else acc) in
         if MAX_INDICATORS < length acc' then Inl (ValueError ''The Feodo response exceeds the indicator limit.'')
         else Inr acc')"

definition normalize_feed :: "env \<Rightarrow> val \<Rightarrow> dict list py" where
  "normalize_feed e payload = (case payload of
       VList items \<Rightarrow> py_bind (py_fold (feed_step e) [] items) (\<lambda>acc. Inr (map snd acc))
     | _ \<Rightarrow> Inl (ValueError ''The Feodo response must be a JSON array.''))"

text \<open>What the handler of \<open>update_feed\<close> catches.\<close>

fun is_update_error :: "exc \<Rightarrow> bool" where
  "is_update_error (OSError s) = True"
| "is_update_error (ValueError s) = True"
| "is_update_error (PolicyError s) = True"
| "is_update_error (OtherError s) = (s = ''UnicodeDecodeError'')"
| "is_update_error e = False"

text \<open>
  A download: the number of bytes and what they parse to, or the error of the transfer.
  \<open>fetch_feed\<close> reads at most one byte more than the limit.
\<close>

type_synonym download = "(nat \<times> val py) py"

definition fetch_feed :: "download \<Rightarrow> download" where
  "fetch_feed response = py_bind response (\<lambda>(n, v).
     if MAX_FEED_BYTES < min n (MAX_FEED_BYTES + 1)
     then Inl (ValueError ''The Feodo response is larger than the safety limit.'') else Inr (n, v))"

definition updated_snapshot :: "string \<Rightarrow> dict list \<Rightarrow> dict" where
  "updated_snapshot timestamp indicators = [(''schema'', VStr SNAPSHOT_SCHEMA), (''provider'', VStr FEODO_PROVIDER),
     (''state'', VStr (if indicators \<noteq> [] then ''READY'' else ''EMPTY'')), (''fetched_at'', VStr timestamp),
     (''last_successful_update'', VStr timestamp), (''indicator_count'', VInt (int (length indicators))),
     (''indicators'', VList (map VDict indicators)), (''error'', VNone)]"

definition failed_snapshot :: "env \<Rightarrow> dict \<Rightarrow> exc \<Rightarrow> dict" where
  "failed_snapshot e current x = dput (dput current
     ''state'' (VStr (if truthy (dget current ''last_successful_update'') then ''STALE'' else ''ERROR'')))
     ''error'' (VStr (let s = clean e (VStr (exc_str x)) 240 in if s = [] then ''The Feodo update failed.'' else s))"

text \<open>\<open>_load_snapshot_from\<close>: the raw snapshot of a path other than the default one.\<close>

definition load_snapshot_from :: "val py \<Rightarrow> dict py" where
  "load_snapshot_from content = (case content of
       Inl x \<Rightarrow> if is_json_error x then Inr default_snapshot else Inl x
     | Inr (VDict v) \<Rightarrow> Inr v
     | Inr _ \<Rightarrow> Inr default_snapshot)"

text \<open>
  \<open>update_feed\<close> on the content of the snapshot file. \<open>writable\<close> says whether the atomic
  replacement succeeds; the second result is the content afterwards.
\<close>

definition feed_indicators :: "env \<Rightarrow> download \<Rightarrow> dict list py" where
  "feed_indicators e fetched = py_bind fetched (\<lambda>(n, payload).
     if MAX_FEED_BYTES < n then Inl (ValueError ''The Feodo response is larger than the safety limit.'')
     else py_bind payload (normalize_feed e))"

definition update_feed :: "env \<Rightarrow> bool \<Rightarrow> rat \<Rightarrow> download \<Rightarrow> bool \<Rightarrow> val py \<Rightarrow> dict py \<times> val py" where
  "update_feed e default_path now fetched writable content =
    (case (if default_path then load_snapshot e content else load_snapshot_from content) of
       Inl x \<Rightarrow> (Inl x, content)
     | Inr current \<Rightarrow>
         (case py_catch (py_bind (feed_indicators e fetched) (\<lambda>indicators.
             Inr (updated_snapshot (iso now) indicators)))
           is_update_error (\<lambda>x. Inr (failed_snapshot e current x)) of
           Inl x \<Rightarrow> (Inl x, content)
         | Inr updated \<Rightarrow> if writable then (Inr updated, Inr (sort_keys (VDict updated)))
             else (Inl (OSError ''replace''), content)))"

section \<open>Matching\<close>

fun find_indicator :: "string \<Rightarrow> int \<Rightarrow> val list \<Rightarrow> dict option py" where
  "find_indicator address port [] = Inr None"
| "find_indicator address port (i # is) =
     (case i of VDict d \<Rightarrow>
         if dget d ''ip'' = VStr address
         then py_bind (py_int (py_or (dget_or d ''port'' (VInt 0)) (VInt 0))) (\<lambda>p.
           if p = port then Inr (Some d) else find_indicator address port is)
         else find_indicator address port is
     | _ \<Rightarrow> Inl (OtherError ''AttributeError''))"

definition matching_indicator :: "env \<Rightarrow> connection \<Rightarrow> val py \<Rightarrow> dict option py" where
  "matching_indicator e c content = (case ip_address (c_dst_ip c) of
       None \<Rightarrow> Inr None
     | Some a \<Rightarrow> py_bind (load_snapshot e content) (\<lambda>source.
         find_indicator (ip_str a) (c_dst_port c) (as_list (dget_or source ''indicators'' (VList [])))))"

definition blocked_threat :: "val \<Rightarrow> bool" where
  "blocked_threat item \<longleftrightarrow> is_dict item \<and> vget item ''decision'' = VStr ''BLOCKED'' \<and> is_dict (vget item ''threat'')"

text \<open>\<open>xs[-n:]\<close>: the last entries.\<close>

definition last_n :: "nat \<Rightarrow> 'a list \<Rightarrow> 'a list" where
  "last_n n xs = drop (length xs - n) xs"

record threat_report =
  tr_enabled :: bool
  tr_state :: val
  tr_last_update :: val
  tr_count :: int
  tr_error :: val
  tr_blocked :: "val list"

definition threat_status :: "env \<Rightarrow> dict \<Rightarrow> val list \<Rightarrow> val py \<Rightarrow> threat_report py" where
  "threat_status e policy activity content = py_bind (load_snapshot e content) (\<lambda>snapshot.
     let enabled = (case dget policy ''threat_intel'' of
         VDict config \<Rightarrow> truthy (dget_or config ''enabled'' (VBool True)) | _ \<Rightarrow> True) in
     py_bind (py_int (py_or (dget_or snapshot ''indicator_count'' (VInt 0)) (VInt 0))) (\<lambda>n.
     Inr \<lparr>tr_enabled = enabled,
       tr_state = (if \<not> enabled then VStr ''DISABLED'' else dget_or snapshot ''state'' (VStr ''ERROR'')),
       tr_last_update = dget snapshot ''last_successful_update'', tr_count = n, tr_error = dget snapshot ''error'',
       tr_blocked = rev (last_n 64 (filter blocked_threat activity))\<rparr>))"

end
