(* ===== verification/Control_Policy.thy ===== *)
theory Control_Policy
  imports Feodo Policy_Store
begin

text \<open>
  The decision procedure of \<open>control_plane.py\<close>: \<open>load_policy\<close>, the addresses of active VPN
  resolvers, and \<open>select_policy_rule\<close> with its tiers: threat exceptions, threat indicators, the
  reviewed rules in order, managed DNS, and the default.
\<close>

section \<open>load_policy\<close>

definition DNS_POLICY_PORTS :: "int list" where "DNS_POLICY_PORTS = [53, 853]"

definition DNS_PROVIDER_ADDRESSES :: "string list" where
  "DNS_PROVIDER_ADDRESSES = [''9.9.9.9'', ''149.112.112.112'', ''2620:fe::fe'', ''2620:fe::9'',
     ''76.76.2.2'', ''76.76.10.2'', ''2606:1a40::2'', ''2606:1a40:1::2'',
     ''94.140.14.14'', ''94.140.15.15'', ''2a10:50c0::ad1:ff'', ''2a10:50c0::ad2:ff'']"

definition VPN_DEVICE_TYPES :: "string list" where
  "VPN_DEVICE_TYPES = [''openvpn'', ''tun'', ''tap'', ''vpn'', ''wireguard'']"

definition LOCAL_RESOLVER_ADDRESSES :: "string list" where
  "LOCAL_RESOLVER_ADDRESSES = [''127.0.0.53'', ''127.0.0.54'', ''::1'']"

definition default_policy :: dict where
  "default_policy = [(''default_action'', VStr ''allow''), (''default_duration'', VStr ''once''),
     (''interactive_prompts'', VBool False),
     (''dns_policy'', VDict [(''enforce'', VBool True), (''ports'', VList (map VInt DNS_POLICY_PORTS))]),
     (''threat_intel'', VDict [(''enabled'', VBool True), (''provider'', VStr ''feodo-recommended'')]),
     (''rules'', VList [])]"

fun is_policy_error :: "exc \<Rightarrow> bool" where
  "is_policy_error (PolicyError s) = True"
| "is_policy_error e = False"

text \<open>Without a valid policy the default is to deny.\<close>

definition deny_policy :: "exc \<Rightarrow> dict" where
  "deny_policy err = dput (dput default_policy ''default_action'' (VStr ''deny'')) ''policy_error'' (VStr (exc_str err))"

definition load_policy :: "('a pworld_scheme, dict) act" where
  "load_policy = s_catch store_read is_policy_error (\<lambda>err. s_ret (deny_policy err))"

section \<open>Resolver addresses of active VPN links\<close>

text \<open>
  \<open>nmcli\<close> is a parameter: its output and exit status for an argument list, or \<open>None\<close> when it
  cannot be run or does not finish.
\<close>

type_synonym nmcli = "string list \<Rightarrow> (int \<times> string) option"

text \<open>\<open>str.splitlines()\<close>.\<close>

definition is_line_break :: "char \<Rightarrow> bool" where
  "is_line_break c \<longleftrightarrow> (10 \<le> code c \<and> code c \<le> 13) \<or> (28 \<le> code c \<and> code c \<le> 30) \<or> code c = 133"

fun splitlines_from :: "string \<Rightarrow> string \<Rightarrow> string list" where
  "splitlines_from acc [] = (if acc = [] then [] else [rev acc])"
| "splitlines_from acc [c] = (if is_line_break c then [rev acc] else [rev (c # acc)])"
| "splitlines_from acc (c # d # s) =
     (if code c = 13 \<and> code d = 10 then rev acc # splitlines_from [] s
      else if is_line_break c then rev acc # splitlines_from [] (d # s)
      else splitlines_from (c # acc) (d # s))"

definition splitlines :: "string \<Rightarrow> string list" where
  "splitlines s = splitlines_from [] s"

text \<open>\<open>s.partition(c)\<close>: the part after the first separator, if there is one.\<close>

definition after_first :: "char \<Rightarrow> string \<Rightarrow> string option" where
  "after_first c s = (case dropWhile (\<lambda>x. x \<noteq> c) s of [] \<Rightarrow> None | _ # rest \<Rightarrow> Some rest)"

text \<open>Backslash-colon becomes colon.\<close>

fun unescape_colons :: "string \<Rightarrow> string" where
  "unescape_colons (a # b # s) = (if code a = 92 \<and> b = CHR '':'' then CHR '':'' # unescape_colons s
     else a # unescape_colons (b # s))"
| "unescape_colons s = s"

definition dns_line_addresses :: "string \<Rightarrow> string list" where
  "dns_line_addresses line = (case after_first (CHR '':'') line of
       None \<Rightarrow> []
     | Some v \<Rightarrow> [ip_str a. candidate \<leftarrow> split_on (CHR '','') (unescape_colons v),
         a \<leftarrow> (case ip_address (py_strip candidate) of None \<Rightarrow> [] | Some a \<Rightarrow> [a])])"

definition active_vpn_device :: "string \<Rightarrow> string option" where
  "active_vpn_device line = (case split_on (CHR '':'') line of
       device # device_type # state # _ \<Rightarrow>
         if py_lower device_type \<notin> set VPN_DEVICE_TYPES \<or> \<not> startswith (py_lower state) ''connected'' then None
         else Some device
     | _ \<Rightarrow> None)"

definition device_dns_addresses :: "nmcli \<Rightarrow> string \<Rightarrow> string list" where
  "device_dns_addresses run device =
    (case run [''-t'', ''-f'', ''IP4.DNS,IP6.DNS'', ''device'', ''show'', device] of
       Some (status, out) \<Rightarrow> if status \<noteq> 0 then [] else concat (map dns_line_addresses (splitlines out))
     | None \<Rightarrow> [])"

definition active_vpn_dns_addresses :: "nmcli \<Rightarrow> string list" where
  "active_vpn_dns_addresses run =
    (case run [''-t'', ''-f'', ''DEVICE,TYPE,STATE'', ''device'', ''status''] of
       Some (status, out) \<Rightarrow> if status \<noteq> 0 then [] else concat (map (\<lambda>line. case active_vpn_device line of
           None \<Rightarrow> [] | Some device \<Rightarrow> device_dns_addresses run device) (splitlines out))
     | None \<Rightarrow> [])"

section \<open>The host\<close>

text \<open>
  What the decision depends on besides the policy: the content of the threat snapshot, \<open>nmcli\<close>,
  and the resolver addresses that \<open>secure_dns_split\<close> and \<open>secure_dns_reconciler\<close> observe on the bus.
\<close>

record resolver_view =
  rv_snapshot :: "val py"
  rv_nmcli :: nmcli
  rv_private :: "string list"
  rv_default :: "string list"

section \<open>select_policy_rule\<close>

text \<open>The cleaned destination address of a connection; \<open>None\<close> when it is empty.\<close>

definition destination_ip :: "env \<Rightarrow> connection \<Rightarrow> val" where
  "destination_ip e c = or_none (clean e (VStr (c_dst_ip c)) 64)"

definition destination_host :: "env \<Rightarrow> connection \<Rightarrow> val" where
  "destination_host e c = or_none (clean e (VStr (c_dst_host c)) 160)"

definition rule_port :: "dict \<Rightarrow> int py" where
  "rule_port r = py_int (py_or (dget_or r ''port'' (VInt 0)) (VInt 0))"

text \<open>\<open>matches(rule, exact_application=True)\<close>: the dedicated false-positive exception.\<close>

definition exact_application :: "env \<Rightarrow> connection \<Rightarrow> dict \<Rightarrow> bool py" where
  "exact_application e c r =
    (if dget r ''path'' \<noteq> VStr (c_process_path c) \<or> dget r ''action'' \<noteq> VStr ''allow''
        \<or> dget r ''ip'' \<noteq> destination_ip e c then Inr False
     else py_bind (rule_port r) (\<lambda>port.
       Inr (port = c_dst_port c \<and> truthy (destination_ip e c) \<and> c_dst_port c \<noteq> 0
         \<and> (dget r ''uid'' = VNone \<or> py_eq (dget r ''uid'') (VInt (c_user_id c))))))"

definition is_exception :: "env \<Rightarrow> connection \<Rightarrow> val \<Rightarrow> bool py" where
  "is_exception e c item = (case item of
       VDict r \<Rightarrow> if dget r ''tier'' = VStr ''THREAT_EXCEPTION'' then exact_application e c r else Inr False
     | _ \<Rightarrow> Inr False)"

fun py_find :: "('a \<Rightarrow> bool py) \<Rightarrow> 'a list \<Rightarrow> 'a option py" where
  "py_find f [] = Inr None"
| "py_find f (x # xs) = py_bind (f x) (\<lambda>b. if b then Inr (Some x) else py_find f xs)"

definition threat_exception :: "env \<Rightarrow> connection \<Rightarrow> val list \<Rightarrow> dict option py" where
  "threat_exception e c rules = py_bind (py_find (is_exception e c) rules) (\<lambda>r. Inr (map_option as_dict r))"

definition threat_enabled :: "dict \<Rightarrow> bool py" where
  "threat_enabled policy = (case dget_or policy ''threat_intel'' (VDict []) of
       VDict config \<Rightarrow> Inr (dget_or config ''enabled'' (VBool True) = VBool True)
     | _ \<Rightarrow> Inl (OtherError ''AttributeError''))"

definition threat_indicator :: "env \<Rightarrow> resolver_view \<Rightarrow> connection \<Rightarrow> dict \<Rightarrow> dict option \<Rightarrow> dict option py" where
  "threat_indicator e h c policy exception = py_bind (threat_enabled policy) (\<lambda>enabled.
     if enabled \<and> exception = None then matching_indicator e c (rv_snapshot h) else Inr None)"

definition threat_rule_of :: "env \<Rightarrow> dict \<Rightarrow> dict" where
  "threat_rule_of e i = dupdate i [(''tier'', VStr ''THREAT''), (''path'', VStr ''*''), (''action'', VStr ''deny''),
     (''duration'', VStr ''always''), (''name'', VStr ''GREYWARD Feodo known malicious C2''),
     (''indicator_id'', VStr (py_str e (dget i ''ip'') @ '':'' @ py_str e (dget i ''port'')))]"

type_synonym decision = "val \<times> val \<times> dict option"

definition verdict :: "string \<Rightarrow> string \<Rightarrow> dict \<Rightarrow> decision" where
  "verdict action duration r = (VStr action, VStr duration, Some r)"

text \<open>The user tier: the first rule in order that matches and may decide.\<close>

fun user_rule :: "env \<Rightarrow> connection \<Rightarrow> dict list \<Rightarrow> decision option py" where
  "user_rule e c [] = Inr None"
| "user_rule e c (r # rs) = py_bind (matches e r c) (\<lambda>m.
     if \<not> m then user_rule e c rs
     else py_bind (dindex r ''action'') (\<lambda>action.
       if c_dst_port c \<in> set DNS_POLICY_PORTS \<and> action = VStr ''allow'' \<and> dget r ''dns_exception'' \<noteq> VBool True
       then user_rule e c rs
       else Inr (Some (action, VStr ''once'', Some r))))"

definition candidates :: "dict \<Rightarrow> dict list" where
  "candidates policy = [r. VDict r \<leftarrow> as_list (dget policy ''rules''), dget r ''provider'' = VStr ''application'']"

definition named_rule :: "string \<Rightarrow> string \<Rightarrow> int \<Rightarrow> string \<Rightarrow> dict" where
  "named_rule path address port name = [(''path'', VStr path), (''ip'', VStr address), (''port'', VInt port), (''name'', VStr name)]"

text \<open>The managed-DNS tier, for ports 53 and 853.\<close>

definition dns_decision :: "resolver_view \<Rightarrow> connection \<Rightarrow> decision" where
  "dns_decision h c = (let path = c_process_path c; port = c_dst_port c; ip = c_dst_ip c in
     if port = 53 \<and> ip \<in> set LOCAL_RESOLVER_ADDRESSES
     then verdict ''allow'' ''always'' (named_rule ''*'' ip port ''GREYWARD local resolver stub'')
     else if endswith path ''/systemd-resolved'' \<and> port = 853 \<and> ip \<in> set DNS_PROVIDER_ADDRESSES
     then verdict ''allow'' ''always'' [(''path'', VStr path), (''port'', VInt port), (''name'', VStr ''GREYWARD managed resolver upstream'')]
     else if endswith path ''/systemd-resolved'' \<and> port = 53 \<and> ip \<in> set (active_vpn_dns_addresses (rv_nmcli h))
     then verdict ''allow'' ''always'' (named_rule path ip port ''GREYWARD active VPN resolver upstream'')
     else if path = ''/usr/lib/systemd/systemd-resolved'' \<and> ip \<in> set (rv_private h)
     then verdict ''allow'' ''always'' (named_rule path ip port ''GREYWARD private-domain resolver upstream'')
     else if path = ''/usr/lib/systemd/systemd-resolved'' \<and> ip \<in> set (rv_default h)
     then verdict ''allow'' ''always'' (named_rule path ip port ''GREYWARD explicit Network Default resolver upstream'')
     else verdict ''deny'' ''always'' [(''path'', VStr ''*''), (''port'', VInt port),
       (''name'', VStr ''GREYWARD deny direct DNS outside managed resolver'')])"

definition dns_enforced :: "dict \<Rightarrow> bool py" where
  "dns_enforced policy = (case dget_or policy ''dns_policy'' (VDict []) of
       VDict d \<Rightarrow> Inr (dget d ''enforce'' = VBool True)
     | _ \<Rightarrow> Inl (OtherError ''AttributeError''))"

text \<open>\<open>select_policy_rule\<close> once the policy is loaded.\<close>

definition select_rule :: "env \<Rightarrow> resolver_view \<Rightarrow> connection \<Rightarrow> dict \<Rightarrow> decision py" where
  "select_rule e h c policy =
     py_bind (dindex policy ''rules'') (\<lambda>_.
     py_bind (threat_exception e c (as_list (dget policy ''rules''))) (\<lambda>exception.
     py_bind (threat_indicator e h c policy exception) (\<lambda>indicator.
     case indicator of
       Some i \<Rightarrow> Inr (verdict ''deny'' ''always'' (threat_rule_of e i))
     | None \<Rightarrow> py_bind (user_rule e c (candidates policy)) (\<lambda>user.
         case user of
           Some d \<Rightarrow> Inr d
         | None \<Rightarrow> py_bind (dns_enforced policy) (\<lambda>enforced.
             if enforced \<and> c_dst_port c \<in> set DNS_POLICY_PORTS then Inr (dns_decision h c)
             else py_bind (dindex policy ''default_action'') (\<lambda>action.
               py_bind (dindex policy ''default_duration'') (\<lambda>duration.
               Inr (action, duration, exception))))))))"

definition select_policy_rule :: "resolver_view \<Rightarrow> connection \<Rightarrow> ('a pworld_scheme, decision) act" where
  "select_policy_rule h c = s_bind load_policy (\<lambda>policy.
     s_bind (s_get w_env) (\<lambda>e. s_lift (select_rule e h c policy)))"

end
