(* ===== verification/Network_State.thy ===== *)
theory Network_State
  imports Control_Policy
begin

text \<open>
  The class \<open>NetworkState\<close> of \<open>control_plane.py\<close>: the bounded record of recent connections, its
  coalescing of provisional and authoritative reports, the pruning by age, the daemon's rules and
  heartbeat, and the projections read by the user interface.
\<close>

section \<open>Data\<close>

definition MAX_NETWORK_ACTIVITY :: nat where "MAX_NETWORK_ACTIVITY = 4096"

definition NETWORK_ACTIVITY_RETENTION_SECONDS :: rat where "NETWORK_ACTIVITY_RETENTION_SECONDS = 1800"

definition MAX_NETWORK_RULES :: nat where "MAX_NETWORK_RULES = 128"

definition NETWORK_STALE_SECONDS :: rat where "NETWORK_STALE_SECONDS = 30"

text \<open>
  What a report needs from outside: \<open>sh_event_time\<close> parses a timestamp (\<open>process_identity.event_time\<close>,
  which uses the local time zone for a time without offset), \<open>sh_instance_key\<close> identifies a process
  instance from the kernel, and \<open>sh_country\<close> resolves the country of a destination. \<open>sh_now\<close> is the
  clock; one handler runs at one clock reading.
\<close>

record state_host =
  sh_now :: rat
  sh_event_time :: "string \<Rightarrow> rat option"
  sh_instance_key :: "int \<Rightarrow> string \<Rightarrow> int \<Rightarrow> string option"
  sh_country :: "string \<Rightarrow> string \<Rightarrow> dict"

record net_dest =
  nd_host :: "string option"
  nd_ip :: "string option"
  nd_port :: int
  nd_country :: dict

record net_threat =
  nt_ip :: "string option"
  nt_port :: int
  nt_malware :: "string option"
  nt_indicator :: "string option"

record net_event =
  ne_id :: string
  ne_process_key :: "string option"
  ne_pid :: "int option"
  ne_uid :: int
  ne_connection :: string
  ne_occurred :: string
  ne_application :: string
  ne_executable :: "string option"
  ne_dest :: net_dest
  ne_protocol :: "string option"
  ne_decision :: string
  ne_rule :: "string option"
  ne_source :: string
  ne_threat :: "net_threat option"
  ne_sequence :: nat

record net_state =
  ns_connected :: bool
  ns_version :: string
  ns_last_seen :: "rat option"
  ns_stats :: dict
  ns_rules :: "dict list"
  ns_activity :: "net_event list"
  ns_session :: string
  ns_next :: nat
  ns_retained :: "(string \<times> rat) list"
  ns_matches :: "(val \<times> dict) list"
  ns_telemetry :: "dict list"

definition new_state :: "string \<Rightarrow> net_state" where
  "new_state session = \<lparr>ns_connected = False, ns_version = [], ns_last_seen = None, ns_stats = [], ns_rules = [],
     ns_activity = [], ns_session = ''network-'' @ take 16 session, ns_next = 0, ns_retained = [], ns_matches = [],
     ns_telemetry = []\<rparr>"

definition opt_text :: "string \<Rightarrow> string option" where
  "opt_text s = (if s = [] then None else Some s)"

section \<open>Recording a connection\<close>

definition application_name :: "env \<Rightarrow> val \<Rightarrow> string" where
  "application_name e path = (let v = clean e path 240;
       parts = filter (\<lambda>p. p \<noteq> [] \<and> p \<noteq> ''.'') (split_on (CHR ''/'') v) in
     if v = [] then ''Unknown application''
     else if parts = [] then v else last parts)"

definition destination :: "env \<Rightarrow> state_host \<Rightarrow> connection \<Rightarrow> net_dest" where
  "destination e h c = (let host = clean e (VStr (c_dst_host c)) 160; address = clean e (VStr (c_dst_ip c)) 64 in
     \<lparr>nd_host = opt_text host, nd_ip = opt_text address, nd_port = c_dst_port c, nd_country = sh_country h address host\<rparr>)"

definition decision_of :: "string \<Rightarrow> string" where
  "decision_of action = (let a = py_lower action in
     if a = ''allow'' then ''ALLOWED'' else if a = ''deny'' \<or> a = ''reject'' then ''BLOCKED'' else ''UNKNOWN'')"

definition same_connection :: "net_event \<Rightarrow> net_event \<Rightarrow> bool" where
  "same_connection l r \<longleftrightarrow> ne_executable l = ne_executable r \<and> nd_host (ne_dest l) = nd_host (ne_dest r)
     \<and> nd_ip (ne_dest l) = nd_ip (ne_dest r) \<and> nd_port (ne_dest l) = nd_port (ne_dest r)
     \<and> ne_decision l = ne_decision r \<and> ne_protocol l = ne_protocol r \<and> ne_pid l = ne_pid r
     \<and> ne_uid l = ne_uid r \<and> ne_connection l = ne_connection r"

definition within_window :: "state_host \<Rightarrow> string \<Rightarrow> string \<Rightarrow> bool" where
  "within_window h l r = (case (sh_event_time h l, sh_event_time h r) of
       (Some a, Some b) \<Rightarrow> \<bar>a - b\<bar> \<le> 15 | _ \<Rightarrow> False)"

definition event_stamp :: "state_host \<Rightarrow> string \<Rightarrow> string" where
  "event_stamp h occurred = (let t = (if occurred = [] then iso (sh_now h) else occurred) in
     case sh_event_time h t of None \<Rightarrow> t | Some s \<Rightarrow> iso_micro s)"

definition opt_str :: "string option \<Rightarrow> string" where
  "opt_str s = (case s of None \<Rightarrow> ''None'' | Some t \<Rightarrow> t)"

definition or_empty :: "string option \<Rightarrow> string" where
  "or_empty s = (case s of None \<Rightarrow> [] | Some t \<Rightarrow> t)"

definition connection_key :: "env \<Rightarrow> connection \<Rightarrow> string option \<Rightarrow> net_dest \<Rightarrow> string" where
  "connection_key e c protocol d = take 40 (env_sha256 e (join ''|'' [int_str (c_user_id c), int_str (c_process_id c),
     opt_str protocol, clean e (VStr (c_src_ip c)) 64, int_str (c_src_port c), or_empty (nd_ip d), int_str (nd_port d)]))"

definition event_identity :: "env \<Rightarrow> connection \<Rightarrow> string \<Rightarrow> string option \<Rightarrow> net_dest \<Rightarrow> string \<Rightarrow> string \<Rightarrow> string" where
  "event_identity e c key protocol d decision t = ''network-'' @ take 24 (env_sha256 e (join ''|'' [key,
     int_str (c_user_id c), int_str (c_process_id c), opt_str protocol, clean e (VStr (c_process_path c)) 240,
     or_empty (nd_host d), or_empty (nd_ip d), int_str (nd_port d), decision, t]))"

text \<open>The new event, before it has a sequence number and a threat.\<close>

definition base_event :: "env \<Rightarrow> state_host \<Rightarrow> connection \<Rightarrow> string \<Rightarrow> string \<Rightarrow> string \<Rightarrow> string \<Rightarrow> net_event" where
  "base_event e h c action source occurred rule_name =
    (let path = clean e (VStr (c_process_path c)) 240; d = destination e h c; decision = decision_of action;
         t = event_stamp h occurred; protocol = opt_text (py_lower (clean e (VStr (c_protocol c)) 24));
         key = connection_key e c protocol d in
     \<lparr>ne_id = event_identity e c key protocol d decision t,
       ne_process_key = sh_instance_key h (c_process_id c) t (c_user_id c),
       ne_pid = (if c_process_id c = 0 then None else Some (c_process_id c)), ne_uid = c_user_id c, ne_connection = key,
       ne_occurred = t, ne_application = application_name e (VStr path), ne_executable = opt_text path, ne_dest = d,
       ne_protocol = protocol, ne_decision = decision, ne_rule = opt_text (clean e (VStr rule_name) 160),
       ne_source = source, ne_threat = None, ne_sequence = 0\<rparr>)"

text \<open>
  A threat seen on an earlier report of the same connection carries over. The comparison uses the
  executable as text, so it never succeeds for a process without a path.
\<close>

definition inherited_threat :: "env \<Rightarrow> state_host \<Rightarrow> connection \<Rightarrow> net_event \<Rightarrow> net_event list \<Rightarrow> net_threat option" where
  "inherited_threat e h c ev activity = (case find (\<lambda>x.
       same_connection x (ev\<lparr>ne_executable := Some (clean e (VStr (c_process_path c)) 240)\<rparr>)
       \<and> within_window h (ne_occurred ev) (ne_occurred x) \<and> ne_threat x \<noteq> None) activity of
     None \<Rightarrow> None | Some x \<Rightarrow> ne_threat x)"

definition threat_of :: "env \<Rightarrow> net_dest \<Rightarrow> dict \<Rightarrow> net_threat" where
  "threat_of e d t = \<lparr>nt_ip = nd_ip d, nt_port = nd_port d, nt_malware = opt_text (clean e (dget t ''malware'') 96),
     nt_indicator = opt_text (clean e (dget t ''indicator_id'') 96)\<rparr>"

text \<open>A carried-over threat is cleaned again into the new event.\<close>

definition threat_again :: "env \<Rightarrow> net_dest \<Rightarrow> net_threat \<Rightarrow> net_threat" where
  "threat_again e d t = \<lparr>nt_ip = nd_ip d, nt_port = nd_port d,
     nt_malware = opt_text (clean e (of_str_opt (nt_malware t)) 96),
     nt_indicator = opt_text (clean e (of_str_opt (nt_indicator t)) 96)\<rparr>"

definition event_threat :: "env \<Rightarrow> state_host \<Rightarrow> connection \<Rightarrow> dict option \<Rightarrow> net_event \<Rightarrow> net_event list \<Rightarrow> net_threat option" where
  "event_threat e h c threat ev activity = (case threat of
       Some t \<Rightarrow> if t \<noteq> [] then Some (threat_of e (ne_dest ev) t)
         else map_option (threat_again e (ne_dest ev)) (inherited_threat e h c ev activity)
     | None \<Rightarrow> map_option (threat_again e (ne_dest ev)) (inherited_threat e h c ev activity))"

definition retained_of :: "(string \<times> rat) list \<Rightarrow> net_event list \<Rightarrow> (string \<times> rat) list" where
  "retained_of retained activity = [(ne_id ev, t). ev \<leftarrow> activity,
     t \<leftarrow> (case map_of retained (ne_id ev) of None \<Rightarrow> [] | Some t \<Rightarrow> [t])]"

definition prune_activity :: "rat \<Rightarrow> net_state \<Rightarrow> net_state" where
  "prune_activity now s = (let cutoff = now - NETWORK_ACTIVITY_RETENTION_SECONDS;
       kept = last_n MAX_NETWORK_ACTIVITY (filter (\<lambda>ev. cutoff \<le>
         (case map_of (ns_retained s) (ne_id ev) of None \<Rightarrow> now | Some t \<Rightarrow> t)) (ns_activity s)) in
     s\<lparr>ns_activity := kept, ns_retained := retained_of (ns_retained s) kept\<rparr>)"

definition telemetry_dict :: "net_state \<Rightarrow> net_event \<Rightarrow> dict" where
  "telemetry_dict s ev = (let blocked = (ne_decision ev = ''BLOCKED'');
       attribution = (if ne_executable ev \<noteq> None then ''EXACT'' else ''UNKNOWN'') in
     [(''event_id'', VStr (ne_id ev)), (''occurred_at'', VStr (ne_occurred ev)),
      (''component'', VStr ''opensnitch-control-plane''), (''source'', VStr (ne_source ev)), (''category'', VStr ''NETWORK''),
      (''event_type'', VStr ''CONNECTION_ATTEMPT''), (''action'', VStr ''CONNECT''), (''outcome'', VStr (ne_decision ev)),
      (''severity'', VStr (if blocked then ''NOTICE'' else ''INFO'')),
      (''assessment'', VStr (if blocked then ''NOTEWORTHY'' else ''NORMAL'')), (''session_id'', VStr (ns_session s)),
      (''application'', VStr (ne_application ev)),
      (''destination'', VDict [(''host'', of_str_opt (nd_host (ne_dest ev))), (''ip'', of_str_opt (nd_ip (ne_dest ev))),
         (''port'', VInt (nd_port (ne_dest ev)))]),
      (''protocol'', of_str_opt (ne_protocol ev)), (''port'', VInt (nd_port (ne_dest ev))), (''decision'', VStr (ne_decision ev)),
      (''correlation'', VDict [(''session_id'', VStr (ns_session s))]),
      (''details'', VDict [(''rule_name'', of_str_opt (ne_rule ev)), (''network_event_type'', VStr ''CONNECTION_ATTEMPT''),
         (''process_key'', of_str_opt (ne_process_key ev)), (''pid'', case ne_pid ev of None \<Rightarrow> VNone | Some i \<Rightarrow> VInt i)]),
      (''quality'', VDict [(''source_state'', VStr ''AVAILABLE''), (''attribution'', VStr attribution), (''confidence'', VStr attribution)]),
      (''relations'', VList []), (''retention_class'', VStr ''investigation'')])"

text \<open>Appending: the event gets the next sequence number and is retained from now.\<close>

definition append_event :: "rat \<Rightarrow> net_event \<Rightarrow> net_state \<Rightarrow> net_state" where
  "append_event now ev s0 = (let s = prune_activity now s0; n = Suc (ns_next s); ev' = ev\<lparr>ne_sequence := n\<rparr>;
       activity = last_n MAX_NETWORK_ACTIVITY (ns_activity s @ [ev']);
       retained = retained_of (AList.update (ne_id ev) now (ns_retained s)) activity in
     s\<lparr>ns_next := n, ns_activity := activity, ns_retained := retained,
       ns_telemetry := ns_telemetry s @ [telemetry_dict s ev']\<rparr>)"

definition provisional :: "state_host \<Rightarrow> net_event \<Rightarrow> net_event \<Rightarrow> bool" where
  "provisional h ev x \<longleftrightarrow> same_connection x ev \<and> ne_source x = ''greyward-policy'' \<and> within_window h (ne_occurred ev) (ne_occurred x)"

text \<open>
  \<open>_record\<close>. The policy's own report is provisional: it is dropped when the daemon has already
  reported the connection, and replaced when the daemon's report arrives.
\<close>

definition record_connection :: "env \<Rightarrow> state_host \<Rightarrow> connection \<Rightarrow> string \<Rightarrow> string \<Rightarrow> string \<Rightarrow> string \<Rightarrow> dict option
    \<Rightarrow> net_state \<Rightarrow> net_state" where
  "record_connection e h c action source occurred rule_name threat s =
    (let base = base_event e h c action source occurred rule_name;
         ev = base\<lparr>ne_threat := event_threat e h c threat base (ns_activity s)\<rparr> in
     if source = ''greyward-policy'' \<and> list_ex (\<lambda>x. same_connection x ev \<and> ne_source x = ''opensnitch-statistics''
          \<and> within_window h (ne_occurred ev) (ne_occurred x)) (ns_activity s)
     then s
     else let s' = (if source = ''opensnitch-statistics''
            then s\<lparr>ns_activity := filter (\<lambda>x. \<not> provisional h ev x) (ns_activity s)\<rparr> else s) in
       if list_ex (\<lambda>x. ne_id x = ne_id ev) (ns_activity s') then s'
       else append_event (sh_now h) ev s')"

section \<open>Heartbeat and subscription\<close>

record daemon_event =
  de_connection :: "connection option"
  de_rule :: "(string \<times> string) option"
  de_time :: string

record daemon_stats =
  ds_version :: string
  ds_connections :: int
  ds_accepted :: int
  ds_dropped :: int
  ds_rule_hits :: int
  ds_rule_misses :: int
  ds_rules :: int
  ds_events :: "daemon_event list"

definition record_daemon_event :: "env \<Rightarrow> state_host \<Rightarrow> net_state \<Rightarrow> daemon_event \<Rightarrow> net_state" where
  "record_daemon_event e h s ev = (case de_connection ev of
       None \<Rightarrow> s
     | Some c \<Rightarrow> if c_process_path c = [] then s
         else (let action = (case de_rule ev of None \<Rightarrow> [] | Some (a, n) \<Rightarrow> a);
                   name = (case de_rule ev of None \<Rightarrow> [] | Some (a, n) \<Rightarrow> n);
                   t = clean e (VStr (de_time ev)) 64 in
           record_connection e h c action ''opensnitch-statistics'' (if t = [] then iso (sh_now h) else t) name None s))"

definition pinged :: "env \<Rightarrow> state_host \<Rightarrow> daemon_stats \<Rightarrow> net_state \<Rightarrow> net_state" where
  "pinged e h d s = foldl (record_daemon_event e h)
     (s\<lparr>ns_connected := True, ns_version := clean e (VStr (ds_version d)) 32, ns_last_seen := Some (sh_now h),
        ns_stats := [(''connections'', VInt (ds_connections d)), (''accepted'', VInt (ds_accepted d)),
          (''dropped'', VInt (ds_dropped d)), (''rule_hits'', VInt (ds_rule_hits d)),
          (''rule_misses'', VInt (ds_rule_misses d)), (''rules'', VInt (ds_rules d))]\<rparr>) (ds_events d)"

datatype operator = Operator (op_operand: string) (op_data: string) (op_list: "operator list")

record daemon_rule =
  dr_name :: string
  dr_action :: string
  dr_duration :: string
  dr_enabled :: bool
  dr_operator :: "operator option"

text \<open>\<open>str.isdigit\<close> also accepts the superscript digits, which \<open>int\<close> refuses.\<close>

definition is_digit_text :: "string \<Rightarrow> bool" where
  "is_digit_text s \<longleftrightarrow> s \<noteq> [] \<and> list_all (\<lambda>c. is_digit c \<or> code c = 178 \<or> code c = 179 \<or> code c = 185) s"

text \<open>The application and destination that the children of a list operator name.\<close>

fun scope_children :: "env \<Rightarrow> operator list \<Rightarrow> val \<times> dict \<Rightarrow> (val \<times> dict) py" where
  "scope_children e [] acc = Inr acc"
| "scope_children e (ch # chs) (app, dest) =
     (let operand = clean e (VStr (op_operand ch)) 40; data = clean e (VStr (op_data ch)) 240 in
      if operand = ''process.path'' then scope_children e chs (VStr data, dest)
      else if operand = ''dest.host'' then scope_children e chs (app, dput dest ''host'' (VStr data))
      else if operand = ''dest.ip'' then scope_children e chs (app, dput dest ''ip'' (VStr data))
      else if operand = ''dest.port'' then
        (if is_digit_text data then py_bind (py_int (VStr data)) (\<lambda>p. scope_children e chs (app, dput dest ''port'' (VInt p)))
         else scope_children e chs (app, dput dest ''port'' VNone))
      else scope_children e chs (app, dest))"

definition rule_scope :: "env \<Rightarrow> operator option \<Rightarrow> (val \<times> val) py" where
  "rule_scope e operator = (case operator of
       None \<Rightarrow> Inr (VNone, VNone)
     | Some oper \<Rightarrow>
         let operand = clean e (VStr (op_operand oper)) 40;
             app = (if operand = ''process.path'' then VStr (clean e (VStr (op_data oper)) 240) else VNone) in
         if operand = ''list''
         then py_bind (scope_children e (op_list oper) (app, [(''host'', VNone), (''ip'', VNone), (''port'', VNone)]))
           (\<lambda>(app', dest). Inr (app', if list_ex (\<lambda>p. truthy (snd p)) dest then VDict dest else VNone))
         else Inr (app, VNone))"

definition daemon_rule_dict :: "env \<Rightarrow> daemon_rule \<Rightarrow> string \<Rightarrow> dict option py" where
  "daemon_rule_dict e r source =
    (let name = clean e (VStr (dr_name r)) 160; action = py_lower (dr_action r);
         data = (case dr_operator r of None \<Rightarrow> [] | Some oper \<Rightarrow> clean e (VStr (op_data oper)) 240) in
     if action \<notin> set [''allow'', ''deny'', ''reject''] then Inr None
     else py_bind (rule_scope e (dr_operator r)) (\<lambda>(app, dest). Inr (Some [
       (''id'', VStr (''rule-'' @ take 20 (env_sha256 e (if name \<noteq> [] then name else if data \<noteq> [] then data else action)))),
       (''name'', VStr (if name \<noteq> [] then name else ''Unnamed rule'')), (''source'', VStr source),
       (''action'', VStr (if action = ''allow'' then ''ALLOW'' else ''BLOCK'')),
       (''duration'', VStr (replace_char (CHR '' '') (CHR ''_'') (py_upper (clean e (VStr (dr_duration r)) 32)))),
       (''enabled'', VBool (dr_enabled r)), (''scope'', VDict [(''application'', app), (''destination'', dest)]),
       (''mutable'', VBool (source = ''GREYWARD''))])))"

text \<open>The heartbeat fields are set before the rules are read, also when reading them raises.\<close>

definition subscribed :: "env \<Rightarrow> state_host \<Rightarrow> string \<Rightarrow> daemon_rule list \<Rightarrow> (net_state, unit) act" where
  "subscribed e h version rules s =
    (let s1 = s\<lparr>ns_connected := True, ns_version := clean e (VStr version) 32, ns_last_seen := Some (sh_now h)\<rparr> in
     case py_map (\<lambda>r. daemon_rule_dict e r (if startswith (dr_name r) ''greyward-'' then ''GREYWARD_DAEMON'' else ''OPENSNITCH'')) rules of
       Inl x \<Rightarrow> (Inl x, s1)
     | Inr rows \<Rightarrow> (Inr (), s1\<lparr>ns_rules := last_n MAX_NETWORK_RULES (map the (filter (\<lambda>r. r \<noteq> None) rows))\<rparr>))"

section \<open>Projections\<close>

record app_row =
  ap_application :: string
  ap_executable :: "string option"
  ap_allowed :: nat
  ap_blocked :: nat
  ap_unknown :: nat
  ap_last_seen :: string
  ap_destinations :: "string list"

definition app_key :: "net_event \<Rightarrow> string" where
  "app_key ev = (case ne_executable ev of Some x \<Rightarrow> x | None \<Rightarrow> ne_application ev)"

definition dest_name :: "net_event \<Rightarrow> string option" where
  "dest_name ev = (case nd_host (ne_dest ev) of Some x \<Rightarrow> Some x | None \<Rightarrow> nd_ip (ne_dest ev))"

definition count_decision :: "string \<Rightarrow> app_row \<Rightarrow> app_row" where
  "count_decision decision r = (if decision = ''ALLOWED'' then r\<lparr>ap_allowed := Suc (ap_allowed r)\<rparr>
     else if decision = ''BLOCKED'' then r\<lparr>ap_blocked := Suc (ap_blocked r)\<rparr>
     else r\<lparr>ap_unknown := Suc (ap_unknown r)\<rparr>)"

definition update_app :: "net_event \<Rightarrow> app_row \<Rightarrow> app_row" where
  "update_app ev r = (let r1 = count_decision (ne_decision ev) r;
       r2 = r1\<lparr>ap_last_seen := max (ap_last_seen r1) (ne_occurred ev)\<rparr> in
     case dest_name ev of
       None \<Rightarrow> r2
     | Some d \<Rightarrow> if d \<in> set (ap_destinations r2) then r2
         else r2\<lparr>ap_destinations := last_n 8 (ap_destinations r2 @ [d])\<rparr>)"

definition new_app :: "net_event \<Rightarrow> app_row" where
  "new_app ev = \<lparr>ap_application = ne_application ev, ap_executable = ne_executable ev, ap_allowed = 0, ap_blocked = 0,
     ap_unknown = 0, ap_last_seen = ne_occurred ev, ap_destinations = []\<rparr>"

definition add_app :: "(string \<times> app_row) list \<Rightarrow> net_event \<Rightarrow> (string \<times> app_row) list" where
  "add_app apps ev = (let r = (case map_of apps (app_key ev) of None \<Rightarrow> new_app ev | Some r \<Rightarrow> r) in
     AList.update (app_key ev) (update_app ev r) apps)"

definition applications :: "net_event list \<Rightarrow> app_row list" where
  "applications activity = map snd (foldl add_app [] activity)"

record bucket =
  bk_started :: string
  bk_total :: nat
  bk_allowed :: nat
  bk_blocked :: nat
  bk_unknown :: nat

record activity_counts =
  ac_total :: nat
  ac_allowed :: nat
  ac_blocked :: nat
  ac_unknown :: nat
  ac_buckets :: "bucket list"

definition count_bucket :: "string \<Rightarrow> bucket \<Rightarrow> bucket" where
  "count_bucket decision b = (let b1 = b\<lparr>bk_total := Suc (bk_total b)\<rparr> in
     if decision = ''ALLOWED'' then b1\<lparr>bk_allowed := Suc (bk_allowed b1)\<rparr>
     else if decision = ''BLOCKED'' then b1\<lparr>bk_blocked := Suc (bk_blocked b1)\<rparr>
     else b1\<lparr>bk_unknown := Suc (bk_unknown b1)\<rparr>)"

definition minute :: "rat \<Rightarrow> int" where
  "minute t = \<lfloor>t\<rfloor> div 60"

text \<open>The bucket of a retention time: minutes after the first of the thirty.\<close>

definition bucket_index :: "rat \<Rightarrow> rat \<Rightarrow> int" where
  "bucket_index now t = minute t - (minute now - 29)"

definition count_event :: "rat \<Rightarrow> (string \<times> rat) list \<Rightarrow> activity_counts \<Rightarrow> net_event \<Rightarrow> activity_counts" where
  "count_event now retained a ev = (let d = ne_decision ev;
       a1 = (if d = ''ALLOWED'' then a\<lparr>ac_allowed := Suc (ac_allowed a)\<rparr>
             else if d = ''BLOCKED'' then a\<lparr>ac_blocked := Suc (ac_blocked a)\<rparr> else a\<lparr>ac_unknown := Suc (ac_unknown a)\<rparr>);
       a2 = a1\<lparr>ac_total := Suc (ac_total a1)\<rparr> in
     case map_of retained (ne_id ev) of
       None \<Rightarrow> a2
     | Some t \<Rightarrow> let i = bucket_index now t in
         if 0 \<le> i \<and> i < int (length (ac_buckets a2))
         then a2\<lparr>ac_buckets := (ac_buckets a2)[nat i := count_bucket d (ac_buckets a2 ! nat i)]\<rparr> else a2)"

definition empty_buckets :: "rat \<Rightarrow> bucket list" where
  "empty_buckets now = map (\<lambda>i. \<lparr>bk_started = iso (of_int ((minute now - 29 + int i) * 60)), bk_total = 0, bk_allowed = 0,
     bk_blocked = 0, bk_unknown = 0\<rparr>) [0..<30]"

definition activity_summary :: "rat \<Rightarrow> net_state \<Rightarrow> activity_counts" where
  "activity_summary now s0 = (let s = prune_activity now s0 in
     foldl (count_event now (ns_retained s))
       \<lparr>ac_total = 0, ac_allowed = 0, ac_blocked = 0, ac_unknown = 0, ac_buckets = empty_buckets now\<rparr> (ns_activity s))"

definition daemon_state :: "rat \<Rightarrow> net_state \<Rightarrow> string" where
  "daemon_state now s = (case ns_last_seen s of
       None \<Rightarrow> ''UNAVAILABLE''
     | Some t \<Rightarrow> if \<not> ns_connected s then ''UNAVAILABLE''
         else if NETWORK_STALE_SECONDS < now - t then ''DEGRADED'' else ''OPERATING'')"

definition policy_row :: "env \<Rightarrow> dict \<Rightarrow> dict py" where
  "policy_row e item = py_bind (rule_port item) (\<lambda>port.
     Inr [(''id'', rule_id e item),
       (''name'', VStr (clean e (py_or (dget item ''name'') (VStr (''GREYWARD '' @ application_name e (dget item ''path'')))) 160)),
       (''source'', VStr ''GREYWARD''), (''action'', VStr (if dget item ''action'' = VStr ''allow'' then ''ALLOW'' else ''BLOCK'')),
       (''duration'', VStr (replace_char (CHR '' '') (CHR ''_'') (py_upper (clean e (dget_or item ''duration'' (VStr ''always'')) 32)))),
       (''enabled'', VBool True),
       (''scope'', VDict [(''application'', VStr (clean e (dget item ''path'') 240)),
         (''destination'', if truthy (dget item ''host'') \<or> truthy (dget item ''ip'') \<or> truthy (dget item ''port'')
           then VDict [(''host'', or_none (clean e (dget item ''host'') 160)), (''ip'', or_none (clean e (dget item ''ip'') 64)),
             (''port'', VInt port)] else VNone)]),
       (''mutable'', VBool True), (''tier'', dget_or item ''tier'' (VStr ''GREYWARD''))])"

definition shown_rule :: "val \<Rightarrow> bool" where
  "shown_rule v \<longleftrightarrow> is_dict v \<and> truthy (vget v ''path'') \<and> str_in (vget v ''action'') [''allow'', ''deny'', ''reject'']"

definition policy_rows :: "env \<Rightarrow> dict \<Rightarrow> dict list py" where
  "policy_rows e policy = py_map (\<lambda>v. policy_row e (as_dict v)) (filter shown_rule (as_list (dget policy ''rules'')))"

record net_snapshot =
  sn_generated :: string
  sn_fresh_until :: string
  sn_revision :: val
  sn_policy_error :: val
  sn_state :: string
  sn_health :: string
  sn_version :: "string option"
  sn_stats :: dict
  sn_rule_mutation :: string
  sn_applications :: "app_row list"
  sn_activity :: "net_event list"
  sn_session :: string
  sn_next :: nat
  sn_summary :: activity_counts
  sn_threat :: threat_report
  sn_exceptions :: "dict list"
  sn_rules :: "dict list"

text \<open>\<open>snapshot\<close> with the policy loaded and the events as seen by the threat report.\<close>

definition event_val :: "net_event \<Rightarrow> val" where
  "event_val ev = VDict ([(''event_id'', VStr (ne_id ev)), (''decision'', VStr (ne_decision ev))]
     @ (case ne_threat ev of None \<Rightarrow> [] | Some t \<Rightarrow> [(''threat'', VDict [(''ip'', of_str_opt (nt_ip t)), (''port'', VInt (nt_port t)),
         (''malware'', of_str_opt (nt_malware t)), (''indicator_id'', of_str_opt (nt_indicator t))])]))"

definition make_snapshot :: "env \<Rightarrow> rat \<Rightarrow> val py \<Rightarrow> val \<Rightarrow> dict \<Rightarrow> net_state \<Rightarrow> net_snapshot py" where
  "make_snapshot e now content store_error policy s =
    (let state = daemon_state now s in
     py_bind (dindex policy ''rules'') (\<lambda>_.
     py_bind (policy_rows e policy) (\<lambda>rows.
     py_bind (threat_status e policy (map event_val (ns_activity s)) content) (\<lambda>threat.
     Inr \<lparr>sn_generated = iso now, sn_fresh_until = iso (now + NETWORK_STALE_SECONDS), sn_revision = dget policy ''revision'',
       sn_policy_error = py_or (dget policy ''policy_error'') store_error, sn_state = state,
       sn_health = (if state = ''OPERATING'' then (if ns_activity s = [] then ''IDLE'' else ''ACTIVE'') else state),
       sn_version = opt_text (ns_version s), sn_stats = ns_stats s,
       sn_rule_mutation = (if state = ''OPERATING'' then ''TYPED_POLICY'' else ''UNAVAILABLE''),
       sn_applications = applications (ns_activity s), sn_activity = rev (ns_activity s), sn_session = ns_session s,
       sn_next = ns_next s, sn_summary = activity_summary now s, sn_threat = threat,
       sn_exceptions = filter (\<lambda>r. dget r ''tier'' = VStr ''THREAT_EXCEPTION'') rows,
       sn_rules = last_n MAX_NETWORK_RULES (rows @ ns_rules s)\<rparr>))))"

text \<open>\<open>activity_response\<close>: the part of the record after a sequence number, newest first.\<close>

definition clamp_since :: "val \<Rightarrow> int py" where
  "clamp_since v = (case py_int v of Inr i \<Rightarrow> Inr (max 0 i)
     | Inl x \<Rightarrow> if is_value_or_type_error x then Inr 0 else Inl x)"

definition clamp_limit :: "val \<Rightarrow> int py" where
  "clamp_limit v = (case py_int v of Inr i \<Rightarrow> Inr (max 1 (min 256 i))
     | Inl x \<Rightarrow> if is_value_or_type_error x then Inr 256 else Inl x)"

definition needs_reset :: "int \<Rightarrow> net_event list \<Rightarrow> bool" where
  "needs_reset since ordered \<longleftrightarrow> since = 0
     \<or> (case ordered of [] \<Rightarrow> False | ev # _ \<Rightarrow> ne_sequence ev \<noteq> 0 \<and> since < int (ne_sequence ev) - 1)"

definition select_events :: "int \<Rightarrow> int \<Rightarrow> net_event list \<Rightarrow> net_event list" where
  "select_events since limit ordered = take (nat limit)
     (if needs_reset since ordered then rev ordered else filter (\<lambda>ev. since < int (ne_sequence ev)) (rev ordered))"

record activity_page =
  pg_reset :: bool
  pg_next :: nat
  pg_session :: string
  pg_events :: "net_event list"

definition activity_page_of :: "val \<Rightarrow> val \<Rightarrow> net_state \<Rightarrow> activity_page py" where
  "activity_page_of since_sequence limit s = py_bind (clamp_since since_sequence) (\<lambda>since.
     py_bind (clamp_limit limit) (\<lambda>n.
     Inr \<lparr>pg_reset = needs_reset since (ns_activity s), pg_next = ns_next s, pg_session = ns_session s,
       pg_events = select_events since n (ns_activity s)\<rparr>))"

end
