(* ===== verification/Control_Plane.thy ===== *)
theory Control_Plane
  imports Network_State
begin

text \<open>
  The classes \<open>SecurityContextStore\<close> and \<open>ControlPlane\<close> of \<open>control_plane.py\<close>: the handlers of the
  daemon's requests, what they write for the user boundary, and the answer to \<open>AskRule\<close>.
\<close>

section \<open>State\<close>

definition MAX_EVENTS :: nat where "MAX_EVENTS = 64"

record blocked_event =
  be_id :: string
  be_kind :: string
  be_occurred :: string
  be_detail :: string
  be_threat :: "dict option"

record context_summary =
  cs_state :: string
  cs_generated :: string
  cs_fresh_until :: string
  cs_review_count :: nat
  cs_live_kind :: string
  cs_events :: "blocked_event list"

text \<open>\<open>cw_disk\<close>: whether the runtime directory accepts the two projections.\<close>

record cworld = pworld +
  cw_net :: net_state
  cw_events :: "blocked_event list"
  cw_connected :: bool
  cw_version :: string
  cw_last_seen :: rat
  cw_host :: state_host
  cw_view :: resolver_view
  cw_disk :: bool
  cw_summary :: "context_summary option"
  cw_projection :: "net_snapshot option"

section \<open>Writing the projections\<close>

definition net_snapshot_act :: "('z cworld_scheme, net_snapshot) act" where
  "net_snapshot_act = s_bind (s_modify (\<lambda>w. w\<lparr>cw_net := prune_activity (sh_now (cw_host w)) (cw_net w)\<rparr>)) (\<lambda>_.
     s_bind load_policy (\<lambda>policy.
     s_bind (s_get id) (\<lambda>w.
     s_lift (make_snapshot (w_env w) (sh_now (cw_host w)) (rv_snapshot (cw_view w))
       (case st_error (w_store w) of None \<Rightarrow> VNone | Some err \<Rightarrow> VStr (exc_str err)) policy (cw_net w)))))"

definition network_write :: "('z cworld_scheme, unit) act" where
  "network_write = s_bind net_snapshot_act (\<lambda>snap.
     s_bind (s_get cw_disk) (\<lambda>ok.
     s_bind (s_guard ok (OSError ''replace'')) (\<lambda>_.
     s_modify (\<lambda>w. w\<lparr>cw_projection := Some snap\<rparr>))))"

definition summary_of :: "rat \<Rightarrow> bool \<Rightarrow> blocked_event list \<Rightarrow> context_summary" where
  "summary_of now linked events =
    \<lparr>cs_state = (if events \<noteq> [] then ''REVIEW NEEDED'' else if linked then ''SECURE'' else ''UNAVAILABLE''),
      cs_generated = iso now, cs_fresh_until = iso (now + 120), cs_review_count = length events,
      cs_live_kind = (if events \<noteq> [] then ''REVIEW NEEDED'' else ''PROTECTED''), cs_events = last_n MAX_EVENTS events\<rparr>"

definition context_write :: "('z cworld_scheme, unit) act" where
  "context_write = s_bind (s_get cw_disk) (\<lambda>ok.
     s_bind (s_guard ok (OSError ''replace'')) (\<lambda>_.
     s_bind (s_modify (\<lambda>w. w\<lparr>cw_summary := Some (summary_of (sh_now (cw_host w)) (cw_connected w) (cw_events w))\<rparr>)) (\<lambda>_.
     network_write)))"

section \<open>The store's handlers\<close>

definition store_subscribed :: "string \<Rightarrow> daemon_rule list \<Rightarrow> ('z cworld_scheme, unit) act" where
  "store_subscribed version rules =
     s_bind (s_modify (\<lambda>w. w\<lparr>cw_connected := True, cw_version := bounded (w_env w) (VStr version) 32, cw_last_seen := sh_now (cw_host w)\<rparr>)) (\<lambda>_.
     s_bind (\<lambda>w. case subscribed (w_env w) (cw_host w) version rules (cw_net w) of (r, s) \<Rightarrow> (r, w\<lparr>cw_net := s\<rparr>)) (\<lambda>_.
     context_write))"

definition store_pinged :: "daemon_stats \<Rightarrow> ('z cworld_scheme, unit) act" where
  "store_pinged stats =
     s_bind (s_modify (\<lambda>w. w\<lparr>cw_connected := True, cw_version := bounded (w_env w) (VStr (ds_version stats)) 32, cw_last_seen := sh_now (cw_host w)\<rparr>)) (\<lambda>_.
     s_bind (s_modify (\<lambda>w. w\<lparr>cw_net := pinged (w_env w) (cw_host w) stats (cw_net w)\<rparr>)) (\<lambda>_.
     context_write))"

definition is_threat :: "dict option \<Rightarrow> bool" where
  "is_threat selected = (case selected of None \<Rightarrow> False | Some r \<Rightarrow> dget r ''tier'' = VStr ''THREAT'')"

definition blocked_destination :: "env \<Rightarrow> connection \<Rightarrow> string" where
  "blocked_destination e c = bounded e (VStr (if c_dst_host c \<noteq> [] then c_dst_host c
     else if c_dst_ip c \<noteq> [] then c_dst_ip c else ''unknown destination'')) 160"

definition blocked_path :: "env \<Rightarrow> connection \<Rightarrow> string" where
  "blocked_path e c = bounded e (VStr (if c_process_path c \<noteq> [] then c_process_path c else ''unknown application'')) 160"

definition blocked_id :: "env \<Rightarrow> connection \<Rightarrow> string" where
  "blocked_id e c = ''opensnitch-'' @ take 24 (env_sha256 e (join ''|'' [blocked_path e c, blocked_destination e c, int_str (c_dst_port c)]))"

definition new_blocked :: "env \<Rightarrow> rat \<Rightarrow> connection \<Rightarrow> dict option \<Rightarrow> blocked_event" where
  "new_blocked e now c selected = \<lparr>be_id = blocked_id e c,
     be_kind = (if is_threat selected then ''NETWORK_THREAT_BLOCKED'' else ''APP_CONNECTION_BLOCKED''), be_occurred = iso now,
     be_detail = bounded e (VStr (blocked_path e c @ '' was blocked from connecting to '' @ blocked_destination e c @ '':''
       @ int_str (c_dst_port c) @ ''.'')) 320,
     be_threat = (if is_threat selected then Some [(''provider'', VStr ''feodo-recommended''), (''ip'', VStr (c_dst_ip c)),
       (''port'', VInt (c_dst_port c)), (''malware'', dget (the selected) ''malware''), (''indicator_id'', dget (the selected) ''indicator_id'')]
       else None)\<rparr>"

text \<open>The last event with the identifier gets the new time; otherwise one is appended.\<close>

fun touch_last :: "string \<Rightarrow> string \<Rightarrow> blocked_event list \<Rightarrow> blocked_event list option" where
  "touch_last i t [] = None"
| "touch_last i t (x # xs) = (case touch_last i t xs of
       Some ys \<Rightarrow> Some (x # ys)
     | None \<Rightarrow> if be_id x = i then Some (x\<lparr>be_occurred := t\<rparr> # xs) else None)"

definition note_blocked :: "env \<Rightarrow> rat \<Rightarrow> connection \<Rightarrow> dict option \<Rightarrow> blocked_event list \<Rightarrow> blocked_event list" where
  "note_blocked e now c selected events = (case touch_last (blocked_id e c) (iso now) events of
       Some es \<Rightarrow> es
     | None \<Rightarrow> last_n MAX_EVENTS (events @ [new_blocked e now c selected]))"

definition note_denied :: "connection \<Rightarrow> dict option \<Rightarrow> 'z cworld_scheme \<Rightarrow> 'z cworld_scheme" where
  "note_denied c selected w = (let e = w_env w; h = cw_host w; threat = (if is_threat selected then selected else None) in
     w\<lparr>cw_events := note_blocked e (sh_now h) c selected (cw_events w),
       cw_net := record_connection e h c ''deny'' ''greyward-policy'' []
         (case threat of None \<Rightarrow> [] | Some r \<Rightarrow> py_str e (py_or (dget_or r ''name'' (VStr [])) (VStr []))) threat (cw_net w)\<rparr>)"

definition blocked :: "connection \<Rightarrow> dict option \<Rightarrow> ('z cworld_scheme, unit) act" where
  "blocked c selected = s_bind (s_modify (note_denied c selected)) (\<lambda>_. context_write)"

section \<open>ControlPlane\<close>

definition ping :: "int \<Rightarrow> daemon_stats \<Rightarrow> ('z cworld_scheme, int) act" where
  "ping ident stats = s_bind (store_pinged stats) (\<lambda>_. s_ret ident)"

definition subscribe :: "string \<Rightarrow> daemon_rule list \<Rightarrow> ('z cworld_scheme, string \<times> daemon_rule list) act" where
  "subscribe version rules = s_bind (store_subscribed version rules) (\<lambda>_. s_ret (version, rules))"

text \<open>
  The count of decisions per rule, restarted when the rule was edited. A rule without
  \<open>updated_at\<close> that was not seen before has no count to read, and the lookup raises.
\<close>

definition count_match :: "dict \<Rightarrow> string \<Rightarrow> (val \<times> dict) list \<Rightarrow> (val \<times> dict) list py" where
  "count_match selected last_seen seen =
    (let key = dget selected ''id''; version = dget selected ''updated_at'';
         observed = (case map_of seen key of None \<Rightarrow> [] | Some d \<Rightarrow> d);
         current = (if py_eq (dget observed ''version'') version then observed
           else [(''version'', version), (''decisions'', VInt 0)]) in
     py_bind (dindex current ''decisions'') (\<lambda>n.
     py_bind (py_add_int n 1) (\<lambda>m.
     let updated = AList.update key (dput (dput current ''decisions'' m) ''last_seen'' (VStr last_seen)) seen in
     Inr (if 1024 < length updated then tl updated else updated))))"

record daemon_reply =
  dp_name :: string
  dp_action :: val
  dp_duration :: string
  dp_operators :: "(string \<times> string) list"

definition reply_operators :: "connection \<Rightarrow> (string \<times> string) list" where
  "reply_operators c = filter (\<lambda>p. snd p \<noteq> []) [(''process.path'', c_process_path c), (''user.id'', int_str (c_user_id c)),
     (''dest.ip'', c_dst_ip c), (''dest.port'', int_str (c_dst_port c)), (''source.port'', int_str (c_src_port c)),
     (''protocol'', c_protocol c)]"

definition reply_rule :: "env \<Rightarrow> connection \<Rightarrow> decision \<Rightarrow> daemon_reply" where
  "reply_rule e c d = (case d of (action, duration, selected) \<Rightarrow>
     let seed = (case selected of Some r \<Rightarrow> if r \<noteq> [] then VDict r else VDict [(''action'', action)]
           | None \<Rightarrow> VDict [(''action'', action)]);
         digest = take 12 (env_sha256 e (json_dumps e '', '' '': '' seed)) in
     \<lparr>dp_name = ''greyward-'' @ py_str e action @ ''-'' @ digest, dp_action = action, dp_duration = ''once'',
       dp_operators = reply_operators c\<rparr>)"

definition note_match :: "dict option \<Rightarrow> ('z cworld_scheme, unit) act" where
  "note_match selected = (case selected of
       None \<Rightarrow> s_ret ()
     | Some r \<Rightarrow> if \<not> truthy (dget r ''id'') then s_ret ()
         else s_bind (s_get id) (\<lambda>w.
           s_bind (s_lift (count_match r (iso (sh_now (cw_host w))) (ns_matches (cw_net w)))) (\<lambda>m.
           s_modify (\<lambda>w. w\<lparr>cw_net := (cw_net w)\<lparr>ns_matches := m\<rparr>\<rparr>))))"

definition record_allowed :: "connection \<Rightarrow> val \<Rightarrow> dict option \<Rightarrow> ('z cworld_scheme, unit) act" where
  "record_allowed c action selected =
     s_bind (s_modify (\<lambda>w. let e = w_env w in w\<lparr>cw_net := record_connection e (cw_host w) c (py_str e (py_or action (VStr [])))
       ''greyward-policy'' [] (case selected of None \<Rightarrow> [] | Some r \<Rightarrow> py_str e (py_or (dget_or r ''name'' (VStr [])) (VStr [])))
       (if is_threat selected then selected else None) (cw_net w)\<rparr>)) (\<lambda>_.
     network_write)"

definition ask_rule :: "connection \<Rightarrow> ('z cworld_scheme, daemon_reply) act" where
  "ask_rule c = s_bind (s_get cw_view) (\<lambda>h.
     s_bind (select_policy_rule h c) (\<lambda>d.
     case d of (action, duration, selected) \<Rightarrow>
     s_bind (note_match selected) (\<lambda>_.
     s_bind (if str_in action [''deny'', ''reject''] then blocked c selected else record_allowed c action selected) (\<lambda>_.
     s_bind (s_get w_env) (\<lambda>e. s_ret (reply_rule e c d))))))"

fun notifications :: "nat \<Rightarrow> ('z cworld_scheme, unit) act" where
  "notifications 0 = s_ret ()"
| "notifications (Suc n) = s_bind context_write (\<lambda>_. notifications n)"

end
