(* ===== verification/Feodo_Props.thy ===== *)
theory Feodo_Props
  imports Feodo
begin

text \<open>
  What the threat snapshot guarantees: a validated feed is bounded and free of duplicates, a
  connection is matched exactly when the feed lists its address and port, and a failed update
  keeps the indicators of the last good one.
\<close>

section \<open>Indicators\<close>

definition indicator_ok :: "dict \<Rightarrow> bool" where
  "indicator_ok d \<longleftrightarrow> (\<exists>a p s. d = [(''ip'', VStr (ip_str a)), (''port'', VInt p), (''malware'', or_none s)]
     \<and> wf_ip a \<and> 1 \<le> p \<and> p \<le> 65535 \<and> list_all printable s \<and> length s \<le> 96)"

lemma indicator_Some:
  assumes "indicator e item field = Inr (Some d)" shows "indicator_ok d"
proof -
  from assms obtain a p where a: "ip_address (py_str e (py_or (dget item field) (VStr []))) = Some a"
    and d: "d = [(''ip'', VStr (ip_str a)), (''port'', VInt p), (''malware'', or_none (clean e (dget item ''malware'') 96))]"
    and p: "1 \<le> p" "p \<le> 65535"
    by (auto simp: indicator_def split: option.splits sum.splits if_splits)
  show ?thesis unfolding indicator_ok_def
    by (rule exI [of _ a], rule exI [of _ p], rule exI [of _ "clean e (dget item ''malware'') 96"])
       (use d p addr.parse_wf [OF a] cleaned.filter_bound cleaned.filter_printable in auto)
qed

lemma indicator_okE:
  assumes "indicator_ok d"
  obtains a p s where "d = [(''ip'', VStr (ip_str a)), (''port'', VInt p), (''malware'', or_none s)]"
    "wf_ip a" "1 \<le> p" "p \<le> 65535" "list_all printable s" "length s \<le> 96"
  using assms unfolding indicator_ok_def by blast

lemma ip_str_not_Nil: "wf_ip a \<Longrightarrow> ip_str a \<noteq> []"
proof
  assume "wf_ip a" "ip_str a = []"
  then have "ip_address [] = Some a" using addr.parse_print by fastforce
  moreover have "ip_address [] = None" by code_simp
  ultimately show False by simp
qed

text \<open>An indicator read back from the file is the same.\<close>

lemma indicator_again:
  assumes d: "indicator_ok d"
    and f: "dget d' ''ip'' = dget d ''ip''" "dget d' ''port'' = dget d ''port''" "dget d' ''malware'' = dget d ''malware''"
  shows "indicator e d' ''ip'' = Inr (Some d)"
  using d
proof (cases rule: indicator_okE)
  case (1 a p s)
  have "or_none (clean e (or_none s) 96) = or_none s"
    using cleaned.filter_fix [OF 1(5,6), of e] by (auto simp: or_none_def)
  moreover have "py_or (VStr (ip_str a)) (VStr []) = VStr (ip_str a)" by simp
  ultimately show ?thesis
    using f addr.parse_print [OF 1(2)] 1 by (simp add: indicator_def)
qed

lemma indicator_wf: "indicator_ok d \<Longrightarrow> wf_dict d"
  by (elim indicator_okE) (auto simp: wf_dict_def or_none_def)

lemma indicator_sorted:
  assumes "indicator_ok d"
  shows "indicator e (sort_dict d) ''ip'' = Inr (Some d)"
proof (rule indicator_again [OF assms])
  have s: "sort_keys (dget d k) = dget d k" if "k = ''ip'' \<or> k = ''port'' \<or> k = ''malware''" for k
    using assms that by (elim indicator_okE disjE) (auto simp: or_none_def)
  show "dget (sort_dict d) ''ip'' = dget d ''ip''" "dget (sort_dict d) ''port'' = dget d ''port''"
    "dget (sort_dict d) ''malware'' = dget d ''malware''"
    using dget_sort_dict [OF indicator_wf [OF assms]] s by simp_all
qed

lemma load_indicators_ok: "load_indicators e xs = Inr ys \<Longrightarrow> \<exists>ds. ys = map VDict ds \<and> list_all indicator_ok ds \<and> length ds \<le> length xs"
proof (induction e xs arbitrary: ys rule: load_indicators.induct)
  case (2 e item items)
  then obtain i rest where i: "indicator e item ''ip'' = Inr i" and r: "load_indicators e items = Inr rest"
    and ys: "ys = (case i of None \<Rightarrow> rest | Some d \<Rightarrow> VDict d # rest)" by (auto simp: py_simps)
  obtain ds where ds: "rest = map VDict ds" "list_all indicator_ok ds" "length ds \<le> length items"
    using "2.IH" i r by auto
  show ?case
  proof (cases i)
    case None
    then show ?thesis using ds ys by auto
  next
    case (Some d)
    then have "ys = map VDict (d # ds) \<and> list_all indicator_ok (d # ds)"
      using ds ys indicator_Some i by simp
    then show ?thesis using ds(3) by (intro exI [of _ "d # ds"]) simp
  qed
qed fastforce+

lemma load_indicators_again:
  "list_all indicator_ok ds \<Longrightarrow> load_indicators e (map (\<lambda>d. VDict (sort_dict d)) ds) = Inr (map VDict ds)"
  by (induction ds) (simp_all add: indicator_sorted)

section \<open>The feed\<close>

definition feed_ok :: "feed_map \<Rightarrow> bool" where
  "feed_ok acc \<longleftrightarrow> distinct (map fst acc) \<and> length acc \<le> MAX_INDICATORS
     \<and> (\<forall>(k, d) \<in> set acc. indicator_ok d \<and> k = feed_key d)"

lemma feed_step_ok:
  assumes "feed_step e acc item = Inr acc'" "feed_ok acc"
  shows "feed_ok acc' \<and> (\<exists>d. normalize_entry e item = Inr (Some d) \<and> fst ` set acc' = insert (feed_key d) (fst ` set acc))"
proof -
  from assms(1) obtain d where d: "normalize_entry e item = Inr (Some d)"
    and a: "acc' = (if map_of acc (feed_key d) = None then acc @ [(feed_key d, d)] else acc)" "length acc' \<le> MAX_INDICATORS"
    by (auto simp: feed_step_def py_simps Let_def not_less split: option.splits if_splits)
  have ok: "indicator_ok d" using d by (auto simp: normalize_entry_def intro: indicator_Some split: val.splits)
  show ?thesis
  proof (cases "map_of acc (feed_key d)")
    case None
    then have "feed_key d \<notin> fst ` set acc" by (simp add: map_of_eq_None_iff)
    then show ?thesis using None a d ok assms(2) by (auto simp: feed_ok_def)
  next
    case (Some x)
    then have "feed_key d \<in> fst ` set acc" by (metis domI dom_map_of_conv_image_fst)
    then show ?thesis using Some a d assms(2) by (auto simp: insert_absorb)
  qed
qed

lemma feed_fold_ok:
  assumes "py_fold (feed_step e) acc items = Inr acc'" "feed_ok acc"
  shows "feed_ok acc' \<and> fst ` set acc' = fst ` set acc \<union> {feed_key d | d item. item \<in> set items \<and> normalize_entry e item = Inr (Some d)}"
  using assms
proof (induction items arbitrary: acc)
  case (Cons x xs)
  then obtain acc1 where s: "feed_step e acc x = Inr acc1" and f: "py_fold (feed_step e) acc1 xs = Inr acc'"
    by (auto simp: py_simps)
  from feed_step_ok [OF s Cons.prems(2)] obtain d where ok: "feed_ok acc1" and d: "normalize_entry e x = Inr (Some d)"
    and k: "fst ` set acc1 = insert (feed_key d) (fst ` set acc)" by blast
  show ?case using Cons.IH [OF f ok] d k by auto
qed simp

lemma feed_fold_items:
  "py_fold (feed_step e) acc items = Inr acc' \<Longrightarrow> item \<in> set items \<Longrightarrow> \<exists>d. normalize_entry e item = Inr (Some d)"
proof (induction items arbitrary: acc)
  case (Cons x xs)
  then obtain acc1 where s: "feed_step e acc x = Inr acc1" and f: "py_fold (feed_step e) acc1 xs = Inr acc'"
    by (auto simp: py_simps)
  have "\<exists>d. normalize_entry e x = Inr (Some d)"
    using s by (auto simp: feed_step_def py_simps split: option.splits)
  then show ?case using Cons.IH [OF f] Cons.prems(2) by auto
qed simp

lemma normalize_feed_ok:
  assumes "normalize_feed e (VList items) = Inr ds"
  shows "list_all indicator_ok ds" "length ds \<le> MAX_INDICATORS" "distinct (map feed_key ds)"
    "feed_key ` set ds = {feed_key d | d item. item \<in> set items \<and> normalize_entry e item = Inr (Some d)}"
proof -
  from assms obtain acc where f: "py_fold (feed_step e) [] items = Inr acc" and ds: "ds = map snd acc"
    by (auto simp: normalize_feed_def py_simps)
  have "feed_ok []" by (simp add: feed_ok_def)
  note F = feed_fold_ok [OF f this]
  have k: "map feed_key ds = map fst acc" using F by (force simp: feed_ok_def ds)
  show "list_all indicator_ok ds" using F by (auto simp: feed_ok_def ds list_all_iff)
  show "length ds \<le> MAX_INDICATORS" using F by (simp add: feed_ok_def ds)
  show "distinct (map feed_key ds)" using F by (simp add: k feed_ok_def)
  have "feed_key ` set ds = fst ` set acc" using k by (metis set_map)
  then show "feed_key ` set ds = {feed_key d | d item. item \<in> set items \<and> normalize_entry e item = Inr (Some d)}"
    using F by simp
qed

text \<open>
  C36: A feed that is accepted is safe to enforce: at most 4,096 indicators, no address and port
  twice, every entry a canonical address with a port between 1 and 65535, and each of them comes
  from the feed and each feed entry is among them. A feed with one bad entry is refused as a whole.
\<close>

theorem feed_validated:
  assumes "normalize_feed e (VList items) = Inr ds"
  shows "length ds \<le> 4096 \<and> distinct (map feed_key ds)
    \<and> (\<forall>d \<in> set ds. \<exists>a p. feed_key d = (ip_str a, p) \<and> ip_address (ip_str a) = Some a \<and> 1 \<le> p \<and> p \<le> 65535)
    \<and> feed_key ` set ds = {feed_key d | d item. item \<in> set items \<and> normalize_entry e item = Inr (Some d)}
    \<and> (\<forall>item \<in> set items. \<exists>d. normalize_entry e item = Inr (Some d))"
proof -
  note N = normalize_feed_ok [OF assms]
  have "\<exists>a p. feed_key d = (ip_str a, p) \<and> ip_address (ip_str a) = Some a \<and> 1 \<le> p \<and> p \<le> 65535" if "d \<in> set ds" for d
  proof -
    from N(1) that have "indicator_ok d" by (simp add: list_all_iff)
    then show ?thesis
    proof (cases rule: indicator_okE)
      case (1 a p s)
      then show ?thesis using addr.parse_print [OF 1(2)] by (auto simp: feed_key_def)
    qed
  qed
  moreover have "\<exists>d. normalize_entry e item = Inr (Some d)" if "item \<in> set items" for item
    using assms feed_fold_items that by (fastforce simp: normalize_feed_def py_simps)
  ultimately show ?thesis using N by (auto simp: MAX_INDICATORS_def)
qed

definition demo_host :: env where
  "demo_host = \<lparr>env_now = VInt 1000, env_boot = Some ''boot-a'', env_uuid = ''0123456789abcdef0123'', env_idna = (\<lambda>s. None),
     env_sha256 = (\<lambda>s. ''00000000000000000000''), env_float_repr = (\<lambda>q. ''0.5'')\<rparr>"

definition demo_feed :: "val list" where
  "demo_feed = [VDict [(''ip_address'', VStr ''192.0.2.7''), (''port'', VInt 443), (''malware'', VStr ''Dridex'')],
     VDict [(''ip_address'', VStr ''192.0.2.7''), (''port'', VStr ''443'')]]"

definition demo_indicator :: dict where
  "demo_indicator = [(''ip'', VStr ''192.0.2.7''), (''port'', VInt 443), (''malware'', VStr ''Dridex'')]"

lemma demo_address: "v4_str 3221225991 = ''192.0.2.7''" "ip_address ''192.0.2.7'' = Some (IPv4 3221225991)"
proof -
  show s: "v4_str 3221225991 = ''192.0.2.7''"
    by (simp add: v4_str_def nat_str.simps digit_char_def) code_simp
  show "ip_address ''192.0.2.7'' = Some (IPv4 3221225991)"
    using addr.parse_print [of "IPv4 3221225991"] s by simp
qed

lemma demo_int: "int_of_str ''443'' = Some 443"
  by code_simp

lemma demo_clean: "clean e (VStr ''Dridex'') 96 = ''Dridex''"
  by (rule cleaned.filter_fix) code_simp+

lemma demo_normalize_feed: "normalize_feed e (VList demo_feed) = Inr [demo_indicator]"
  by (simp add: normalize_feed_def demo_feed_def feed_step_def normalize_entry_def indicator_def demo_address demo_clean
      demo_int or_none_def feed_key_def MAX_INDICATORS_def demo_indicator_def)

theorem feed_validated_witness:
  "normalize_feed demo_host (VList demo_feed) = Inr [demo_indicator] \<and> length [demo_indicator] \<le> 4096
    \<and> (\<exists>d. normalize_entry demo_host (hd demo_feed) = Inr (Some d))"
proof -
  have "hd demo_feed \<in> set demo_feed" by (simp add: demo_feed_def)
  then show ?thesis using feed_validated [OF demo_normalize_feed] demo_normalize_feed by blast
qed

section \<open>Updating and matching\<close>

lemma find_indicator_ok:
  assumes "list_all indicator_ok ds"
  shows "find_indicator s p (map VDict ds) = Inr (find (\<lambda>d. feed_key d = (s, p)) ds)"
  using assms
proof (induction ds)
  case (Cons d ds)
  from Cons.prems have "indicator_ok d" by simp
  then show ?case
  proof (cases rule: indicator_okE)
    case (1 a q t)
    then show ?thesis using Cons by (auto simp: feed_key_def py_or_def)
  qed
qed simp

text \<open>What a snapshot with valid indicators gives when it is written and loaded again.\<close>

lemma load_written:
  assumes "wf_dict u" "dget u ''schema'' = VStr SNAPSHOT_SCHEMA" "dget u ''indicators'' = VList (map VDict ds)"
    "list_all indicator_ok ds" "length ds \<le> MAX_INDICATORS"
  shows "\<exists>s. load_snapshot e (Inr (sort_keys (VDict u))) = Inr s \<and> dget_or s ''indicators'' (VList []) = VList (map VDict ds)"
proof -
  note g = dget_sort_dict [OF assms(1)]
  have i: "dget (sort_dict u) ''indicators'' = VList (map (\<lambda>d. VDict (sort_dict d)) ds)"
    using g [of "''indicators''"] assms(3) by (simp add: sort_keys_dict del: sort_keys.simps(2)) 
  have "take MAX_INDICATORS ds = ds" using assms(5) by simp
  then show ?thesis
    using g [of "''schema''"] assms(2) i load_indicators_again [OF assms(4), of e]
    by (simp add: load_snapshot_def sort_keys_dict take_map dget_or_dput del: sort_keys.simps(2))
qed

lemma matching_loaded:
  assumes "load_snapshot e content = Inr s" "dget_or s ''indicators'' (VList []) = VList (map VDict ds)" "list_all indicator_ok ds"
  shows "matching_indicator e c content = Inr (case ip_address (c_dst_ip c) of None \<Rightarrow> None
    | Some a \<Rightarrow> find (\<lambda>d. feed_key d = (ip_str a, c_dst_port c)) ds)"
  using assms find_indicator_ok [OF assms(3)] by (simp add: matching_indicator_def split: option.splits)

lemma updated_fields:
  "dget (updated_snapshot t ds) ''schema'' = VStr SNAPSHOT_SCHEMA" "dget (updated_snapshot t ds) ''indicators'' = VList (map VDict ds)"
  by (simp_all add: updated_snapshot_def)

lemma updated_wf: "list_all indicator_ok ds \<Longrightarrow> wf_dict (updated_snapshot t ds)"
  using indicator_wf by (auto simp: updated_snapshot_def wf_dict_def list_all_iff simp del: wf_val.simps(2) simp add: wf_val.simps)

text \<open>
  C22: The snapshot blocks exactly what the feed lists. After an accepted update, a connection finds an
  indicator if and only if some entry of the downloaded feed has its address (in any spelling)
  and its port, and looking it up never raises.
\<close>

theorem update_matches_feed:
  assumes "normalize_feed e (VList items) = Inr ds" "n \<le> MAX_FEED_BYTES" "load_snapshot e content = Inr current"
    "update_feed e True now (Inr (n, Inr (VList items))) True content = (r, content')"
  shows "\<exists>m. matching_indicator e c content' = Inr m
    \<and> (m \<noteq> None \<longleftrightarrow> (\<exists>a item d. ip_address (c_dst_ip c) = Some a \<and> item \<in> set items
        \<and> normalize_entry e item = Inr (Some d) \<and> feed_key d = (ip_str a, c_dst_port c)))"
proof -
  note N = normalize_feed_ok [OF assms(1)]
  define u where "u = updated_snapshot (iso now) ds"
  have c': "content' = Inr (sort_keys (VDict u))"
    using assms by (simp add: update_feed_def py_catch_def u_def feed_indicators_def)
  obtain s where s: "load_snapshot e content' = Inr s" "dget_or s ''indicators'' (VList []) = VList (map VDict ds)"
    using load_written [OF updated_wf [OF N(1)] updated_fields N(1,2), of e "iso now"] by (auto simp: c' u_def)
  note M = matching_loaded [OF s N(1), of c]
  have "find (\<lambda>d. feed_key d = k) ds \<noteq> None \<longleftrightarrow> (\<exists>d item. item \<in> set items \<and> normalize_entry e item = Inr (Some d) \<and> feed_key d = k)" for k
  proof -
    have "find (\<lambda>d. feed_key d = k) ds \<noteq> None \<longleftrightarrow> k \<in> feed_key ` set ds" by (auto simp: find_None_iff)
    then show ?thesis unfolding N(4) by blast
  qed
  then show ?thesis using M by (auto split: option.splits)
qed

definition demo_peer :: connection where
  "demo_peer = \<lparr>c_process_path = ''/usr/bin/curl'', c_process_id = 7, c_user_id = 1000, c_protocol = ''tcp'', c_src_ip = ''192.0.2.1'',
     c_src_port = 50000, c_dst_ip = ''192.0.2.7'', c_dst_host = [], c_dst_port = 443\<rparr>"

theorem update_matches_feed_witness:
  "\<exists>r content'. update_feed demo_host True 0 (Inr (100, Inr (VList demo_feed))) True (Inl (OSError ''missing'')) = (r, content')
    \<and> (\<exists>i. matching_indicator demo_host demo_peer content' = Inr (Some i))"
proof -
  obtain r content' where u: "update_feed demo_host True 0 (Inr (100, Inr (VList demo_feed))) True (Inl (OSError ''missing'')) = (r, content')"
    by fastforce
  have "load_snapshot demo_host (Inl (OSError ''missing'')) = Inr default_snapshot" by (simp add: load_snapshot_def)
  note T = update_matches_feed [OF demo_normalize_feed _ this u, of demo_peer]
  have "\<exists>a item d. ip_address (c_dst_ip demo_peer) = Some a \<and> item \<in> set demo_feed
      \<and> normalize_entry demo_host item = Inr (Some d) \<and> feed_key d = (ip_str a, c_dst_port demo_peer)"
  proof (intro exI conjI)
    show "ip_address (c_dst_ip demo_peer) = Some (IPv4 3221225991)" by (simp add: demo_peer_def demo_address)
    show "hd demo_feed \<in> set demo_feed" by (simp add: demo_feed_def)
    show "normalize_entry demo_host (hd demo_feed) = Inr (Some demo_indicator)"
      by (simp add: demo_feed_def normalize_entry_def indicator_def demo_address demo_clean or_none_def demo_indicator_def)
    show "feed_key demo_indicator = (ip_str (IPv4 3221225991), c_dst_port demo_peer)"
      by (simp add: feed_key_def demo_indicator_def demo_peer_def demo_address)
  qed
  then show ?thesis using T u by (auto simp: MAX_FEED_BYTES_def)
qed

lemma load_snapshot_fields:
  assumes "load_snapshot e content = Inr s" "\<And>v. content = Inr v \<Longrightarrow> wf_val v"
  shows "wf_dict s \<and> dget s ''schema'' = VStr SNAPSHOT_SCHEMA
    \<and> (\<exists>ds. dget s ''indicators'' = VList (map VDict ds) \<and> dhas s ''indicators'' \<and> list_all indicator_ok ds \<and> length ds \<le> MAX_INDICATORS)"
proof (cases "s = default_snapshot")
  case True
  then show ?thesis
    by (auto simp: default_snapshot_def wf_dict_def intro: exI [of _ "[]"])
next
  case False
  then obtain v xs ys where v: "content = Inr (VDict v)" "dget v ''schema'' = VStr SNAPSHOT_SCHEMA"
    and ys: "load_indicators e (take MAX_INDICATORS xs) = Inr ys"
    and s: "s = dput (dput (dput (dput v ''indicators'' (VList ys)) ''indicator_count'' (VInt (int (length ys))))
      ''provider'' (VStr FEODO_PROVIDER)) ''state'' (VStr (snapshot_state e v))"
    using assms(1) by (auto simp: load_snapshot_def py_simps split: sum.splits val.splits if_splits)
  obtain ds where ds: "ys = map VDict ds" "list_all indicator_ok ds" "length ds \<le> MAX_INDICATORS"
    using load_indicators_ok [OF ys] by auto
  have "wf_dict v" using assms(2) v by (simp add: wf_dict_def)
  moreover have "wf_val (VList ys)" using ds indicator_wf by (auto simp: list_all_iff wf_dict_def)
  ultimately have "wf_dict s" unfolding s by (intro wf_dput) simp_all
  then show ?thesis using v ds by (auto simp: s)
qed

text \<open>
  C30: A failed update does not disarm the protection. Whatever goes wrong in the download, in parsing
  or in validation, the snapshot that is written matches the same connections as before.
\<close>

theorem failed_update_keeps_indicators:
  assumes "load_snapshot e content = Inr current" "\<And>v. content = Inr v \<Longrightarrow> wf_val v"
    "feed_indicators e fetched = Inl x"
    "update_feed e True now fetched writable content = (r, content')"
  shows "matching_indicator e c content' = matching_indicator e c content"
proof (cases "content' = content")
  case False
  then obtain x' where c': "content' = Inr (sort_keys (VDict (failed_snapshot e current x')))"
    using assms(1,3,4) by (auto simp: update_feed_def py_catch_def split: if_splits)
  from load_snapshot_fields [OF assms(1,2)] obtain ds where f: "wf_dict current" "dget current ''schema'' = VStr SNAPSHOT_SCHEMA"
    and i: "dget current ''indicators'' = VList (map VDict ds)" "dhas current ''indicators''" "list_all indicator_ok ds" "length ds \<le> MAX_INDICATORS"
    by blast
  define u where "u = failed_snapshot e current x'"
  have u: "wf_dict u" "dget u ''schema'' = VStr SNAPSHOT_SCHEMA" "dget u ''indicators'' = VList (map VDict ds)"
    using f i by (auto simp: u_def failed_snapshot_def Let_def intro!: wf_dput)
  obtain s where s: "load_snapshot e content' = Inr s" "dget_or s ''indicators'' (VList []) = VList (map VDict ds)"
    using load_written [OF u i(3,4), of e] by (auto simp: c' u_def)
  have "dget_or current ''indicators'' (VList []) = VList (map VDict ds)" using i(1,2) by (simp add: dget_or_if_dhas)
  then show ?thesis using matching_loaded [OF s i(3)] matching_loaded [OF assms(1) _ i(3)] by simp
qed simp

theorem failed_update_keeps_indicators_witness:
  "\<exists>r content'. update_feed demo_host True 0 (Inl (OSError ''timed out'')) True (Inr (VDict (updated_snapshot ''t'' [demo_indicator]))) = (r, content')
    \<and> matching_indicator demo_host demo_peer content' = matching_indicator demo_host demo_peer (Inr (VDict (updated_snapshot ''t'' [demo_indicator])))"
proof -
  define content :: "val py" where "content = Inr (VDict (updated_snapshot ''t'' [demo_indicator]))"
  have ok: "indicator_ok demo_indicator"
    using normalize_feed_ok(1) [OF demo_normalize_feed] by simp
  have w: "wf_val v" if "content = Inr v" for v
    using that updated_wf [of "[demo_indicator]" "''t''"] ok by (simp add: content_def wf_dict_def)
  have "load_indicators demo_host [VDict demo_indicator] = Inr [VDict demo_indicator]"
    using indicator_again [OF ok refl refl refl] by simp
  then obtain current where l: "load_snapshot demo_host content = Inr current"
    by (auto simp: content_def load_snapshot_def updated_fields MAX_INDICATORS_def)
  obtain r content' where u: "update_feed demo_host True 0 (Inl (OSError ''timed out'')) True content = (r, content')" by fastforce
  from failed_update_keeps_indicators [OF l w _ u] u show ?thesis by (simp add: content_def feed_indicators_def)
qed

end
