(* ===== verification/Control_Policy_Props.thy ===== *)
theory Control_Policy_Props
  imports Control_Policy Feodo_Props Network_Rules_Matching Network_Rules_Props
begin

text \<open>
  What the decision procedure guarantees: a listed server is reachable only through its dedicated
  exception, managed DNS cannot be bypassed by a general rule, the user tier is decided by the
  first rule in the reviewed order, and without a readable policy the answer is to deny.
\<close>

section \<open>Searching\<close>

lemma py_find_Some: "py_find f xs = Inr (Some x) \<Longrightarrow> x \<in> set xs \<and> f x = Inr True"
  by (induction xs) (auto simp: py_simps split: if_splits)

lemma threat_exception_Some:
  assumes "threat_exception e c rules = Inr (Some r)"
  shows "VDict r \<in> set rules" "dget r ''tier'' = VStr ''THREAT_EXCEPTION''" "dget r ''path'' = VStr (c_process_path c)"
    "dget r ''action'' = VStr ''allow''" "dget r ''ip'' = destination_ip e c" "rule_port r = Inr (c_dst_port c)"
    "dget r ''uid'' = VNone \<or> py_eq (dget r ''uid'') (VInt (c_user_id c))"
proof -
  from assms obtain v where v: "py_find (is_exception e c) rules = Inr (Some v)" "r = as_dict v"
    by (auto simp: threat_exception_def py_simps)
  from py_find_Some [OF v(1)] have "v \<in> set rules" "is_exception e c v = Inr True" by simp_all
  then have "VDict r \<in> set rules \<and> dget r ''tier'' = VStr ''THREAT_EXCEPTION'' \<and> exact_application e c r = Inr True"
    using v(2) by (auto simp: is_exception_def split: val.splits if_splits)
  then show "VDict r \<in> set rules" "dget r ''tier'' = VStr ''THREAT_EXCEPTION''" "dget r ''path'' = VStr (c_process_path c)"
    "dget r ''action'' = VStr ''allow''" "dget r ''ip'' = destination_ip e c" "rule_port r = Inr (c_dst_port c)"
    "dget r ''uid'' = VNone \<or> py_eq (dget r ''uid'') (VInt (c_user_id c))"
    by (auto simp: exact_application_def py_simps split: if_splits)
qed

lemma user_rule_Some:
  "user_rule e c rs = Inr (Some d) \<Longrightarrow> \<exists>r a. r \<in> set rs \<and> matches e r c = Inr True \<and> dindex r ''action'' = Inr a
    \<and> d = (a, VStr ''once'', Some r)
    \<and> \<not> (c_dst_port c \<in> set DNS_POLICY_PORTS \<and> a = VStr ''allow'' \<and> dget r ''dns_exception'' \<noteq> VBool True)"
  by (induction rs) (auto simp: py_simps split: if_splits)

lemma candidates_iff: "r \<in> set (candidates policy) \<longleftrightarrow> VDict r \<in> set (as_list (dget policy ''rules'')) \<and> dget r ''provider'' = VStr ''application''"
  by (auto simp: candidates_def split: val.splits) 

lemma select_rule_cases:
  assumes "select_rule e h c policy = Inr d"
  obtains (threat) x i where "threat_exception e c (as_list (dget policy ''rules'')) = Inr x" "threat_indicator e h c policy x = Inr (Some i)"
      "d = verdict ''deny'' ''always'' (threat_rule_of e i)"
    | (user) x where "threat_exception e c (as_list (dget policy ''rules'')) = Inr x" "threat_indicator e h c policy x = Inr None"
      "user_rule e c (candidates policy) = Inr (Some d)"
    | (dns) x where "threat_exception e c (as_list (dget policy ''rules'')) = Inr x" "threat_indicator e h c policy x = Inr None"
      "user_rule e c (candidates policy) = Inr None" "dns_enforced policy = Inr True" "c_dst_port c \<in> set DNS_POLICY_PORTS"
      "d = dns_decision h c"
    | (default) x a u en where "threat_exception e c (as_list (dget policy ''rules'')) = Inr x" "threat_indicator e h c policy x = Inr None"
      "user_rule e c (candidates policy) = Inr None" "dns_enforced policy = Inr en" "\<not> (en \<and> c_dst_port c \<in> set DNS_POLICY_PORTS)"
      "dindex policy ''default_action'' = Inr a" "dindex policy ''default_duration'' = Inr u" "d = (a, u, x)"
proof -
  from assms obtain x i where x: "threat_exception e c (as_list (dget policy ''rules'')) = Inr x" "threat_indicator e h c policy x = Inr i"
    by (auto simp: select_rule_def py_simps)
  have r: "\<exists>v. dindex policy ''rules'' = Inr v" using assms by (auto simp: select_rule_def py_simps)
  note S = assms [unfolded select_rule_def]
  show thesis
  proof (cases i)
    case (Some j)
    then show ?thesis using S r x threat by auto
  next
    case None
    then obtain user where u: "user_rule e c (candidates policy) = Inr user" using S r x by (auto simp: py_simps)
    show ?thesis
    proof (cases user)
      case (Some d')
      then show ?thesis using S r x None u that(2) by auto
    next
      case N: None
      then obtain en where en: "dns_enforced policy = Inr en" using S r x None u by (auto simp: py_simps)
      show ?thesis
      proof (cases "en \<and> c_dst_port c \<in> set DNS_POLICY_PORTS")
        case True
        then have "d = dns_decision h c" using S r x None u N en by auto
        then show ?thesis using that(3) True x None u N en by simp
      next
        case False
        then obtain a b where "dindex policy ''default_action'' = Inr a" "dindex policy ''default_duration'' = Inr b" "d = (a, b, x)"
          using S r x None u N en by (auto simp: py_simps)
        then show ?thesis using that(4) False x None u N en by simp
      qed
    qed
  qed
qed

section \<open>The threat tier\<close>

text \<open>
  C1: Threat blocking. While threat protection is on, a connection whose address and port are in the
  threat snapshot is denied for good, whatever the user rules say, unless the policy holds the
  dedicated exception for exactly this executable, address, port and user.
\<close>

theorem threat_denied_unless_excepted:
  assumes "select_rule e h c policy = Inr (action, duration, selected)"
    "threat_enabled policy = Inr True" "matching_indicator e c (rv_snapshot h) = Inr (Some i)"
  shows "action = VStr ''deny'' \<and> duration = VStr ''always''
    \<or> (\<exists>r. VDict r \<in> set (as_list (dget policy ''rules'')) \<and> dget r ''tier'' = VStr ''THREAT_EXCEPTION''
        \<and> dget r ''action'' = VStr ''allow'' \<and> dget r ''path'' = VStr (c_process_path c) \<and> dget r ''ip'' = destination_ip e c
        \<and> rule_port r = Inr (c_dst_port c) \<and> (dget r ''uid'' = VNone \<or> py_eq (dget r ''uid'') (VInt (c_user_id c))))"
proof -
  from assms(1) obtain x j where x: "threat_exception e c (as_list (dget policy ''rules'')) = Inr x" "threat_indicator e h c policy x = Inr j"
    by (auto simp: select_rule_def py_simps)
  show ?thesis
  proof (cases x)
    case None
    then have "j = Some i" using assms(2,3) x(2) by (simp add: threat_indicator_def)
    then show ?thesis using assms(1) x by (auto simp: select_rule_def verdict_def py_simps)
  next
    case (Some r)
    then show ?thesis using threat_exception_Some [OF x(1) [unfolded Some]] by blast
  qed
qed

text \<open>A policy with a general allow rule, and a snapshot that lists the peer.\<close>

definition demo_snapshot :: "val py" where
  "demo_snapshot = Inr (VDict (updated_snapshot ''t'' [demo_indicator]))"

definition demo_view_of :: resolver_view where
  "demo_view_of = \<lparr>rv_snapshot = demo_snapshot, rv_nmcli = (\<lambda>a. None), rv_private = [], rv_default = []\<rparr>"

lemma demo_matching: "matching_indicator demo_host demo_peer demo_snapshot = Inr (Some demo_indicator)"
proof -
  have ok: "indicator_ok demo_indicator" using normalize_feed_ok(1) [OF demo_normalize_feed] by simp
  have "load_indicators demo_host [VDict demo_indicator] = Inr [VDict demo_indicator]"
    using indicator_again [OF ok refl refl refl] by simp
  then obtain s where "load_snapshot demo_host demo_snapshot = Inr s" "dget_or s ''indicators'' (VList []) = VList (map VDict [demo_indicator])"
    by (auto simp: demo_snapshot_def load_snapshot_def updated_fields MAX_INDICATORS_def)
  from matching_loaded [OF this, of demo_peer] ok show ?thesis
    by (simp add: demo_peer_def demo_address feed_key_def demo_indicator_def)
qed

lemma demo_select: "\<exists>d. select_rule demo_host demo_view_of demo_peer default_policy = Inr d"
  by (simp add: select_rule_def default_policy_def threat_exception_def threat_indicator_def threat_enabled_def
      demo_view_of_def demo_matching verdict_def)

theorem threat_denied_unless_excepted_witness:
  "\<exists>u s. select_rule demo_host demo_view_of demo_peer default_policy = Inr (VStr ''deny'', u, s)"
proof -
  obtain a u s where d: "select_rule demo_host demo_view_of demo_peer default_policy = Inr (a, u, s)" using demo_select by auto
  have "threat_enabled default_policy = Inr True" by (simp add: threat_enabled_def default_policy_def)
  from threat_denied_unless_excepted [OF d this, of demo_indicator] demo_matching
  have "a = VStr ''deny''" by (auto simp: demo_view_of_def default_policy_def)
  with d show ?thesis by blast
qed

section \<open>Managed DNS\<close>

lemma dns_allow:
  assumes "dns_decision h c = (VStr ''allow'', u, s)"
  shows "c_dst_port c = 53 \<and> c_dst_ip c \<in> set LOCAL_RESOLVER_ADDRESSES
    \<or> endswith (c_process_path c) ''/systemd-resolved''
      \<and> (c_dst_port c = 853 \<and> c_dst_ip c \<in> set DNS_PROVIDER_ADDRESSES
        \<or> c_dst_port c = 53 \<and> c_dst_ip c \<in> set (active_vpn_dns_addresses (rv_nmcli h))
        \<or> c_dst_ip c \<in> set (rv_private h) \<union> set (rv_default h))"
proof -
  have "endswith ''/usr/lib/systemd/systemd-resolved'' ''/systemd-resolved''" by code_simp
  then show ?thesis
    using assms by (auto simp: dns_decision_def Let_def verdict_def split: if_splits)
qed

text \<open>
  C2: Managed DNS cannot be bypassed. When the policy enforces managed DNS, a connection to port 53 or
  853 is allowed only to the local stub, by \<open>systemd-resolved\<close> to an approved or observed upstream,
  or by a matching rule that carries the explicit DNS exception.
\<close>

theorem managed_dns_no_bypass:
  assumes "select_rule e h c policy = Inr (VStr ''allow'', duration, selected)"
    "dns_enforced policy = Inr True" "c_dst_port c = 53 \<or> c_dst_port c = 853"
  shows "(\<exists>r. selected = Some r \<and> VDict r \<in> set (as_list (dget policy ''rules'')) \<and> matches e r c = Inr True
        \<and> dget r ''dns_exception'' = VBool True)
    \<or> c_dst_port c = 53 \<and> c_dst_ip c \<in> set LOCAL_RESOLVER_ADDRESSES
    \<or> endswith (c_process_path c) ''/systemd-resolved''
      \<and> (c_dst_port c = 853 \<and> c_dst_ip c \<in> set DNS_PROVIDER_ADDRESSES
        \<or> c_dst_port c = 53 \<and> c_dst_ip c \<in> set (active_vpn_dns_addresses (rv_nmcli h))
        \<or> c_dst_ip c \<in> set (rv_private h) \<union> set (rv_default h))"
  using assms(1)
proof (cases rule: select_rule_cases)
  case (threat x i)
  then show ?thesis by (simp add: verdict_def)
next
  case (user x)
  have "c_dst_port c \<in> set DNS_POLICY_PORTS" using assms(3) by (auto simp: DNS_POLICY_PORTS_def)
  with user_rule_Some [OF user(3)] obtain r where "r \<in> set (candidates policy)" "matches e r c = Inr True"
    "selected = Some r" "dget r ''dns_exception'' = VBool True" by auto
  then show ?thesis by (auto simp: candidates_iff)
next
  case (dns x)
  then show ?thesis using dns_allow [of h c duration selected] by simp
next
  case (default x a u en)
  then show ?thesis using assms(2,3) by (auto simp: DNS_POLICY_PORTS_def)
qed

definition demo_stub :: connection where
  "demo_stub = demo_peer\<lparr>c_dst_ip := ''127.0.0.53'', c_dst_port := 53\<rparr>"

lemma demo_stub_unlisted: "matching_indicator demo_host demo_stub (Inl (OSError ''missing'')) = Inr None"
  by (simp add: matching_indicator_def load_snapshot_def default_snapshot_def split: option.splits)

theorem managed_dns_no_bypass_witness:
  "\<exists>u s. select_rule demo_host (demo_view_of\<lparr>rv_snapshot := Inl (OSError ''missing'')\<rparr>) demo_stub default_policy = Inr (VStr ''allow'', u, s)
    \<and> c_dst_ip demo_stub \<in> set LOCAL_RESOLVER_ADDRESSES"
proof -
  let ?h = "demo_view_of\<lparr>rv_snapshot := Inl (OSError ''missing'')\<rparr>"
  have en: "dns_enforced default_policy = Inr True" by (simp add: dns_enforced_def default_policy_def)
  have p: "candidates default_policy = []" "dindex default_policy ''rules'' = Inr (VList [])" "dget default_policy ''rules'' = VList []"
    "threat_enabled default_policy = Inr True"
    by (simp_all add: candidates_def default_policy_def threat_enabled_def)
  have c: "c_dst_port demo_stub = 53" "c_dst_ip demo_stub = ''127.0.0.53''" by (simp_all add: demo_stub_def)
  have "\<exists>u s. select_rule demo_host ?h demo_stub default_policy = Inr (VStr ''allow'', u, s)"
    by (simp add: select_rule_def p c threat_exception_def threat_indicator_def demo_stub_unlisted en
        dns_decision_def verdict_def DNS_POLICY_PORTS_def LOCAL_RESOLVER_ADDRESSES_def)
  then obtain u s where d: "select_rule demo_host ?h demo_stub default_policy = Inr (VStr ''allow'', u, s)" by blast
  have n: "\<not> endswith (c_process_path demo_stub) ''/systemd-resolved''" by code_simp
  from managed_dns_no_bypass [OF d en] n show ?thesis
    using d by (auto simp: default_policy_def demo_stub_def)
qed

section \<open>The user tier\<close>

lemma rule_ok_matches:
  assumes "rule_ok r" "dget r ''provider'' = VStr ''application''" "num_val (env_now e) \<noteq> None"
  shows "matches e r c = Inr (in_force e r \<and> covers (app_of r) c) \<and> dindex r ''action'' = Inr (dget r ''action'')"
proof -
  obtain k t where r: "r = k @ t" and k: "common_ok k"
    and t: "if dget k ''provider'' = VStr ''application'' then app_ok k t else in_ok k t"
    using assms(1) unfolding rule_ok_def by blast
  have has: "dhas k ''provider''" "dhas k ''action''" using common_has [OF k] by simp_all
  then have p: "dget k ''provider'' = VStr ''application''"
    using assms(2) rule_get_common(1) [OF k] r by simp
  with t have "app_ok k t" by simp
  from matches_app [OF k p this assms(3)] rule_get_common [OF k has(2)] show ?thesis
    by (auto simp: r dindex_def dget_def dhas_def split: option.splits)
qed

text \<open>When a rule that covers a connection also decides it: an allow rule does not decide a DNS port.\<close>

definition may_decide :: "connection \<Rightarrow> dict \<Rightarrow> bool" where
  "may_decide c r \<longleftrightarrow> (c_dst_port c = 53 \<or> c_dst_port c = 853) \<longrightarrow> dget r ''action'' = VStr ''allow'' \<longrightarrow> dget r ''dns_exception'' = VBool True"

text \<open>
  C8: The reviewed order is authoritative. On normalized rules the loop of the user tier never raises
  and returns the action of the first rule, in list order, that is in force, covers the connection
  and may decide it; it returns nothing when there is no such rule.
\<close>

theorem user_tier_first_match:
  assumes "\<forall>r \<in> set rs. rule_ok r \<and> dget r ''provider'' = VStr ''application''" "num_val (env_now e) \<noteq> None"
  shows "user_rule e c rs = Inr (map_option (\<lambda>r. (dget r ''action'', VStr ''once'', Some r))
    (find (\<lambda>r. in_force e r \<and> covers (app_of r) c \<and> may_decide c r) rs))"
  using assms(1)
proof (induction rs)
  case (Cons r rs)
  have d: "c_dst_port c \<in> set DNS_POLICY_PORTS \<longleftrightarrow> c_dst_port c = 53 \<or> c_dst_port c = 853" by (simp add: DNS_POLICY_PORTS_def)
  from Cons rule_ok_matches [of r e c] assms(2) show ?case by (auto simp: may_decide_def d)
qed simp

lemma demo_normal_ok: "rule_ok demo_normal" "dget demo_normal ''provider'' = VStr ''application''"
  using normalize_ok [OF demo_normalize] by (simp_all add: demo_normal_def)

theorem user_tier_first_match_witness:
  "user_rule demo_env demo_connection [demo_normal] = Inr (map_option (\<lambda>r. (dget r ''action'', VStr ''once'', Some r))
    (find (\<lambda>r. in_force demo_env r \<and> covers (app_of r) demo_connection \<and> may_decide demo_connection r) [demo_normal]))"
  by (rule user_tier_first_match) (simp_all add: demo_normal_ok, simp add: demo_env_def)

section \<open>Failing closed\<close>

lemma load_policy_cases:
  assumes "load_policy w = (r, w')"
  obtains (read) p where "store_read w = (Inr p, w')" "r = Inr p"
    | (denied) err where "store_read w = (Inl err, w')" "is_policy_error err" "r = Inr (deny_policy err)"
    | (raised) err where "store_read w = (Inl err, w')" "\<not> is_policy_error err" "r = Inl err"
  using assms by (auto simp: load_policy_def s_catch_def split: prod.splits sum.splits if_splits)




section \<open>A setting that reads differently\<close>

text \<open>
  The decision tests \<open>enabled is True\<close>, the status report its truth value. For a stored number 1 the
  report says that blocking is on, and no connection is checked.
\<close>

lemma enabled_number_reported_not_enforced:
  "threat_enabled [(''threat_intel'', VDict [(''enabled'', VInt 1)])] = Inr False
    \<and> (\<forall>e t. threat_status e [(''threat_intel'', VDict [(''enabled'', VInt 1)])] [] (Inl (OSError ''missing'')) = Inr t \<longrightarrow> tr_enabled t)"
  by (auto simp: threat_enabled_def threat_status_def load_snapshot_def default_snapshot_def py_or_def)

end
