(* ===== verification/Network_State_Props.thy ===== *)
theory Network_State_Props
  imports Network_State Feodo_Props
begin

text \<open>
  The invariants of the record of connections: it is bounded, its events have distinct identifiers
  and increasing sequence numbers, each has a retention time, a connection is never shown twice as
  a provisional and an authoritative report, and a client that polls sees every new event.
\<close>

section \<open>The last entries of a list\<close>

lemma last_n_length [simp]: "length (last_n n xs) = min n (length xs)"
  by (simp add: last_n_def)

lemma last_n_subset: "set (last_n n xs) \<subseteq> set xs"
  by (simp add: last_n_def set_drop_subset)

lemma last_n_all [simp]: "length xs \<le> n \<Longrightarrow> last_n n xs = xs"
  by (simp add: last_n_def)

lemma last_n_map: "last_n n (map f xs) = map f (last_n n xs)"
  by (simp add: last_n_def drop_map)

lemma last_n_distinct: "distinct xs \<Longrightarrow> distinct (last_n n xs)"
  by (simp add: last_n_def)

lemma last_n_sorted: "sorted_wrt P xs \<Longrightarrow> sorted_wrt P (last_n n xs)"
  by (simp add: last_n_def sorted_wrt_drop)

lemma last_n_snoc: "0 < n \<Longrightarrow> x \<in> set (last_n n (xs @ [x]))"
  by (simp add: last_n_def)

section \<open>The invariant\<close>

definition activity_ok :: "net_state \<Rightarrow> bool" where
  "activity_ok s \<longleftrightarrow> length (ns_activity s) \<le> MAX_NETWORK_ACTIVITY \<and> distinct (map ne_id (ns_activity s))
     \<and> sorted_wrt (<) (map ne_sequence (ns_activity s))
     \<and> (\<forall>ev \<in> set (ns_activity s). 0 < ne_sequence ev \<and> ne_sequence ev \<le> ns_next s \<and> map_of (ns_retained s) (ne_id ev) \<noteq> None)"

lemma retained_of_get:
  "ev \<in> set activity \<Longrightarrow> map_of retained (ne_id ev) \<noteq> None \<Longrightarrow> map_of (retained_of retained activity) (ne_id ev) = map_of retained (ne_id ev)"
  by (induction activity) (auto simp: retained_of_def split: option.splits)

lemma activity_ok_new: "activity_ok (new_state session)"
  by (simp add: activity_ok_def new_state_def)

text \<open>Fewer events keep the invariant.\<close>

lemma activity_ok_filter:
  assumes "activity_ok s"
  shows "activity_ok (s\<lparr>ns_activity := filter P (ns_activity s)\<rparr>)"
  using assms length_filter_le [of P "ns_activity s"]
  by (auto simp: activity_ok_def distinct_map_filter intro: sorted_wrt_filter [of _ _ P, unfolded o_def] simp del: length_filter_le)
     (simp add: sorted_wrt_map sorted_wrt_filter)

lemma prune_activity_ok: assumes "activity_ok s" shows "activity_ok (prune_activity now s)"
proof -
  define P :: "net_event \<Rightarrow> bool" where "P ev \<longleftrightarrow> now - NETWORK_ACTIVITY_RETENTION_SECONDS \<le>
    (case map_of (ns_retained s) (ne_id ev) of None \<Rightarrow> now | Some t \<Rightarrow> t)" for ev
  define kept where "kept = last_n MAX_NETWORK_ACTIVITY (filter P (ns_activity s))"
  have p: "prune_activity now s = s\<lparr>ns_activity := kept, ns_retained := retained_of (ns_retained s) kept\<rparr>"
    by (simp add: prune_activity_def Let_def kept_def P_def [abs_def])
  note F = activity_ok_filter [OF assms, of P]
  have sub: "set kept \<subseteq> set (ns_activity s)" using last_n_subset unfolding kept_def by fastforce
  show ?thesis unfolding p
    using F sub assms retained_of_get [of _ kept "ns_retained s"]
    by (auto simp: activity_ok_def kept_def last_n_map [symmetric] last_n_distinct last_n_sorted dest!: subsetD)
qed

lemma prune_recent:
  assumes "activity_ok s" "ev \<in> set (ns_activity (prune_activity now s))"
  shows "\<exists>t. map_of (ns_retained (prune_activity now s)) (ne_id ev) = Some t \<and> now - t \<le> NETWORK_ACTIVITY_RETENTION_SECONDS"
proof -
  have ev: "ev \<in> set (ns_activity s)"
    "now - NETWORK_ACTIVITY_RETENTION_SECONDS \<le> (case map_of (ns_retained s) (ne_id ev) of None \<Rightarrow> now | Some t \<Rightarrow> t)"
    using assms(2) last_n_subset by (fastforce simp: prune_activity_def Let_def)+
  then obtain t where t: "map_of (ns_retained s) (ne_id ev) = Some t" using assms(1) by (auto simp: activity_ok_def)
  have "map_of (ns_retained (prune_activity now s)) (ne_id ev) = Some t"
    using retained_of_get [of ev "ns_activity (prune_activity now s)" "ns_retained s"] assms(2) t
    by (simp add: prune_activity_def Let_def)
  then show ?thesis using ev(2) t by (auto simp: algebra_simps)
qed

lemma prune_next [simp]: "ns_next (prune_activity now s) = ns_next s"
  by (simp add: prune_activity_def Let_def)

lemma prune_subset: "set (ns_activity (prune_activity now s)) \<subseteq> set (ns_activity s)"
  using last_n_subset by (fastforce simp: prune_activity_def Let_def)

lemma append_event_ok:
  assumes "activity_ok s0" "\<forall>x \<in> set (ns_activity s0). ne_id x \<noteq> ne_id ev"
  shows "activity_ok (append_event now ev s0)"
proof -
  define s where "s = prune_activity now s0"
  define act where "act = last_n MAX_NETWORK_ACTIVITY (ns_activity s @ [ev\<lparr>ne_sequence := Suc (ns_next s)\<rparr>])"
  define ret where "ret = AList.update (ne_id ev) now (ns_retained s)"
  have ok: "activity_ok s" unfolding s_def by (rule prune_activity_ok [OF assms(1)])
  have new: "\<forall>x \<in> set (ns_activity s). ne_id x \<noteq> ne_id ev" using assms(2) prune_subset by (fastforce simp: s_def)
  have d: "distinct (map ne_id act)"
    unfolding act_def last_n_map [symmetric] using ok new by (intro last_n_distinct) (auto simp: activity_ok_def)
  have q: "sorted_wrt (<) (map ne_sequence act)"
    unfolding act_def last_n_map [symmetric] using ok
    by (intro last_n_sorted) (auto simp: activity_ok_def sorted_wrt_append less_Suc_eq_le)
  have e: "0 < ne_sequence x \<and> ne_sequence x \<le> Suc (ns_next s) \<and> map_of ret (ne_id x) \<noteq> None" if "x \<in> set act" for x
    using that last_n_subset ok unfolding act_def ret_def
    by (fastforce simp: activity_ok_def update_conv' dest!: subsetD [OF last_n_subset])
  have "map_of (retained_of ret act) (ne_id x) \<noteq> None" if "x \<in> set act" for x
    using retained_of_get [OF that, of ret] e [OF that] by simp
  then show ?thesis
    using d q e by (simp add: activity_ok_def append_event_def Let_def s_def [symmetric] act_def [symmetric] ret_def [symmetric])
       (simp add: act_def)
qed

lemma record_connection_ok:
  assumes "activity_ok s"
  shows "activity_ok (record_connection e h c action source occurred name threat s)"
  using assms activity_ok_filter [OF assms] append_event_ok
  by (auto simp: record_connection_def Let_def list_ex_iff)

lemma record_daemon_event_ok: "activity_ok s \<Longrightarrow> activity_ok (record_daemon_event e h s ev)"
  by (auto simp: record_daemon_event_def Let_def intro: record_connection_ok split: option.splits)

lemma pinged_ok: assumes "activity_ok s" shows "activity_ok (pinged e h d s)"
proof -
  have f: "activity_ok (foldl (record_daemon_event e h) s' evs)" if "activity_ok s'" for s' evs
    using that by (induction evs arbitrary: s') (simp_all add: record_daemon_event_ok)
  show ?thesis unfolding pinged_def by (rule f) (use assms in \<open>simp add: activity_ok_def\<close>)
qed

text \<open>
  C28: The record of connections stays well formed. Reports, heartbeats, subscriptions and pruning keep
  at most 4,096 events with distinct identifiers and strictly increasing sequence numbers, none
  above the last number given out, each with its retention time; after pruning, none is older than 30 minutes.
\<close>

theorem activity_invariant:
  assumes "activity_ok s"
  shows "activity_ok (record_connection e h c action source occurred name threat s) \<and> activity_ok (pinged e h d s)
    \<and> activity_ok (snd (subscribed e h version rules s)) \<and> activity_ok (prune_activity now s)
    \<and> (\<forall>ev \<in> set (ns_activity (prune_activity now s)).
        \<exists>t. map_of (ns_retained (prune_activity now s)) (ne_id ev) = Some t \<and> now - t \<le> 1800)"
proof -
  have "activity_ok (snd (subscribed e h version rules s))"
    using assms by (simp add: subscribed_def Let_def activity_ok_def split: sum.splits)
  then show ?thesis
    using assms record_connection_ok pinged_ok prune_activity_ok prune_recent
    by (auto simp: NETWORK_ACTIVITY_RETENTION_SECONDS_def)
qed

definition demo_state_host :: state_host where
  "demo_state_host = \<lparr>sh_now = 1000, sh_event_time = (\<lambda>t. Some 1000), sh_instance_key = (\<lambda>p t u. None), sh_country = (\<lambda>a h. [])\<rparr>"

theorem activity_invariant_witness:
  "activity_ok (record_connection demo_host demo_state_host demo_peer ''deny'' ''greyward-policy'' [] [] None (new_state ''0123''))"
  using activity_invariant [OF activity_ok_new] by blast

section \<open>One report per connection\<close>

lemma same_connection_sym: "same_connection x y \<Longrightarrow> same_connection y x"
  by (simp add: same_connection_def)

lemma within_window_sym: "within_window h a b = within_window h b a"
  by (auto simp: within_window_def abs_minus_commute split: option.splits)

definition reported_once :: "state_host \<Rightarrow> net_event list \<Rightarrow> bool" where
  "reported_once h activity \<longleftrightarrow> (\<forall>x \<in> set activity. \<forall>y \<in> set activity. ne_source x = ''greyward-policy'' \<longrightarrow> ne_source y = ''opensnitch-statistics''
     \<longrightarrow> same_connection x y \<longrightarrow> \<not> within_window h (ne_occurred x) (ne_occurred y))"

lemma append_event_activity:
  "set (ns_activity (append_event now ev s)) \<subseteq> insert (ev\<lparr>ne_sequence := Suc (ns_next s)\<rparr>) (set (ns_activity s))"
  using last_n_subset [of MAX_NETWORK_ACTIVITY "ns_activity (prune_activity now s) @ [ev\<lparr>ne_sequence := Suc (ns_next s)\<rparr>]"] prune_subset [of now s]
  by (auto simp: append_event_def Let_def)

lemma base_event_source [simp]: "ne_source (base_event e h c action source occurred name) = source"
  by (simp add: base_event_def Let_def)

text \<open>A new report may join when no report of the other kind shows the same connection in its window.\<close>

lemma reported_once_Cons:
  assumes "reported_once h xs"
    and policy: "\<And>y. ne_source ev = ''greyward-policy'' \<Longrightarrow> y \<in> set xs \<Longrightarrow> ne_source y = ''opensnitch-statistics'' \<Longrightarrow> same_connection y ev
      \<Longrightarrow> \<not> within_window h (ne_occurred ev) (ne_occurred y)"
    and statistics: "\<And>x. ne_source ev = ''opensnitch-statistics'' \<Longrightarrow> x \<in> set xs \<Longrightarrow> ne_source x = ''greyward-policy'' \<Longrightarrow> same_connection x ev
      \<Longrightarrow> \<not> within_window h (ne_occurred ev) (ne_occurred x)"
  shows "reported_once h (ev # xs)"
proof -
  have "\<not> within_window h (ne_occurred x) (ne_occurred y)"
    if "x \<in> set (ev # xs)" "y \<in> set (ev # xs)" "ne_source x = ''greyward-policy''" "ne_source y = ''opensnitch-statistics''" "same_connection x y" for x y
  proof -
    have "x = ev \<or> x \<in> set xs" "y = ev \<or> y \<in> set xs" using that(1,2) by auto
    then consider "x = ev" "y = ev" | "x = ev" "y \<in> set xs" | "x \<in> set xs" "y = ev" | "x \<in> set xs" "y \<in> set xs" by blast
    then show ?thesis
    proof cases
      case 1
      then show ?thesis using that(3,4) by simp
    next
      case 2
      then show ?thesis using policy [of y] that same_connection_sym by auto
    next
      case 3
      then show ?thesis using statistics [of x] that within_window_sym [of h] by auto
    next
      case 4
      then show ?thesis using that assms(1) by (auto simp: reported_once_def)
    qed
  qed
  then show ?thesis unfolding reported_once_def by blast
qed

lemma reported_once_subset: "set ys \<subseteq> set xs \<Longrightarrow> reported_once h xs \<Longrightarrow> reported_once h ys"
  unfolding reported_once_def by blast

text \<open>
  C27: One connection, one report. If no connection is shown both as the policy's provisional report and
  as the daemon's authoritative one within the coalescing window, then that still holds after any
  further report: the provisional one is dropped or replaced.
\<close>

theorem no_double_report:
  assumes "reported_once h (ns_activity s)"
  shows "reported_once h (ns_activity (record_connection e h c action source occurred name threat s))"
proof -
  define ev where "ev = (base_event e h c action source occurred name)
    \<lparr>ne_threat := event_threat e h c threat (base_event e h c action source occurred name) (ns_activity s)\<rparr>"
  define s' where "s' = (if source = ''opensnitch-statistics''
    then s\<lparr>ns_activity := filter (\<lambda>x. \<not> provisional h ev x) (ns_activity s)\<rparr> else s)"
  define r where "r = record_connection e h c action source occurred name threat s"
  have src: "ne_source ev = source" by (simp add: ev_def)
  have old: "reported_once h (ns_activity s')" using assms by (auto simp: reported_once_def s'_def)
  show ?thesis
  proof (cases "r = s \<or> r = s'")
    case True
    then show ?thesis using assms old by (auto simp: r_def)
  next
    case False
    define ev' where "ev' = ev\<lparr>ne_sequence := Suc (ns_next s')\<rparr>"
    have rc: "r = (if source = ''greyward-policy'' \<and> list_ex (\<lambda>x. same_connection x ev \<and> ne_source x = ''opensnitch-statistics''
        \<and> within_window h (ne_occurred ev) (ne_occurred x)) (ns_activity s) then s
      else if list_ex (\<lambda>x. ne_id x = ne_id ev) (ns_activity s') then s' else append_event (sh_now h) ev s')"
      unfolding r_def record_connection_def Let_def ev_def s'_def by (rule refl)
    from False rc have r: "r = append_event (sh_now h) ev s'" by (simp split: if_splits)
    from False rc have stat: "source = ''greyward-policy'' \<Longrightarrow> \<forall>x \<in> set (ns_activity s). ne_source x = ''opensnitch-statistics'' \<longrightarrow> same_connection x ev
         \<longrightarrow> \<not> within_window h (ne_occurred ev) (ne_occurred x)"
      by (force simp: list_ex_iff split: if_splits)
    have prov: "\<forall>x \<in> set (ns_activity s'). ne_source x = ''greyward-policy'' \<longrightarrow> same_connection x ev \<longrightarrow> \<not> within_window h (ne_occurred ev) (ne_occurred x)"
      if "source = ''opensnitch-statistics''" using that by (auto simp: s'_def provisional_def)
    have f: "same_connection x ev' = same_connection x ev" "ne_occurred ev' = ne_occurred ev" "ne_source ev' = source" for x
      using src by (simp_all add: ev'_def same_connection_def)
    have sub: "source = ''greyward-policy'' \<Longrightarrow> set (ns_activity s') \<subseteq> set (ns_activity s)" by (auto simp: s'_def)
    have "reported_once h (ev' # ns_activity s')"
      by (rule reported_once_Cons [OF old]) (use stat prov sub f in auto)
    moreover have "set (ns_activity r) \<subseteq> set (ev' # ns_activity s')"
      using append_event_activity [of "sh_now h" ev s'] unfolding r ev'_def [symmetric] by simp
    ultimately show ?thesis unfolding r_def [symmetric] by (rule reported_once_subset [rotated])
  qed
qed

theorem no_double_report_witness:
  "reported_once demo_state_host (ns_activity (record_connection demo_host demo_state_host demo_peer ''deny'' ''opensnitch-statistics'' [] [] None
     (record_connection demo_host demo_state_host demo_peer ''deny'' ''greyward-policy'' [] [] None (new_state ''0123''))))"
proof -
  have "reported_once demo_state_host (ns_activity (new_state ''0123''))" by (simp add: reported_once_def new_state_def)
  then show ?thesis by (intro no_double_report)
qed

section \<open>Polling\<close>

text \<open>
  Polling. Whatever a client asks for, a page holds at most 256 events; and when the record need not
  be reset and the new events fit the page, the page is exactly the events after the client's
  sequence number, newest first.
\<close>

theorem page_complete:
  assumes "activity_page_of since limit s = Inr p"
  shows "length (pg_events p) \<le> 256
    \<and> (\<forall>i n. clamp_since since = Inr i \<and> clamp_limit limit = Inr n \<and> \<not> pg_reset p
        \<and> length (filter (\<lambda>ev. i < int (ne_sequence ev)) (ns_activity s)) \<le> nat n
        \<longrightarrow> pg_events p = rev (filter (\<lambda>ev. i < int (ne_sequence ev)) (ns_activity s)))"
proof -
  from assms obtain i n where c: "clamp_since since = Inr i" "clamp_limit limit = Inr n"
    and p: "p = \<lparr>pg_reset = needs_reset i (ns_activity s), pg_next = ns_next s, pg_session = ns_session s,
       pg_events = select_events i n (ns_activity s)\<rparr>"
    by (auto simp: activity_page_of_def py_simps)
  have "n \<le> 256" using c(2) by (auto simp: clamp_limit_def split: sum.splits if_splits)
  then show ?thesis using c by (auto simp: p select_events_def simp flip: rev_filter)
qed

theorem page_complete_witness:
  "\<exists>p. activity_page_of (VStr ''7'') VNone (new_state ''0123'') = Inr p \<and> length (pg_events p) \<le> 256"
proof -
  have "int_of_str ''7'' = Some 7" by code_simp
  then obtain p where "activity_page_of (VStr ''7'') VNone (new_state ''0123'') = Inr p"
    by (auto simp: activity_page_of_def clamp_since_def clamp_limit_def is_value_or_type_error_def)
  with page_complete [OF this] show ?thesis by blast
qed

end
