(* ===== verification/Py_Invariants.thy ===== *)
theory Py_Invariants
  imports Py_State
begin

text \<open>
  Invariants of stateful code: \<open>preserves P m\<close> says that the action \<open>m\<close> keeps the predicate \<open>P\<close> of the
  world, also when it raises. The locale \<open>step_invariant\<close> lifts an invariant of the steps of a component
  to its runs.
\<close>

section \<open>Actions\<close>

definition preserves :: "('w \<Rightarrow> bool) \<Rightarrow> ('w, 'a) act \<Rightarrow> bool" where
  "preserves P m \<longleftrightarrow> (\<forall>w r w'. P w \<longrightarrow> m w = (r, w') \<longrightarrow> P w')"

lemma preserves_basic: "preserves P (s_ret x)" "preserves P (s_raise e)" "preserves P (s_lift m)" "preserves P (s_get g)" "preserves P (s_guard b e)"
  by (auto simp: preserves_def s_guard_def)

lemma preserves_pair: "preserves P (Pair r)" and keeps_pair [keeps_intros]: "keeps f (Pair r)"
  by (auto simp: preserves_def keeps_def)

lemma preserves_bind: "preserves P m \<Longrightarrow> (\<And>x. preserves P (k x)) \<Longrightarrow> preserves P (s_bind m k)"
proof -
  assume m: "preserves P m" and k: "\<And>x. preserves P (k x)"
  have "P w'" if "P w" "s_bind m k w = (r, w')" for w r w'
  proof (cases "m w")
    case (Pair x v)
    then have "P v" using m that(1) by (auto simp: preserves_def)
    then show ?thesis using that(2) Pair k by (cases x) (auto simp: s_bind_def preserves_def)
  qed
  then show ?thesis unfolding preserves_def by blast
qed

lemma preserves_modify: "(\<And>w. P w \<Longrightarrow> P (g w)) \<Longrightarrow> preserves P (s_modify g)"
  by (simp add: preserves_def)

lemma preserves_if: "preserves P m \<Longrightarrow> preserves P k \<Longrightarrow> preserves P (if b then m else k)"
  by simp

lemma preserves_option: "preserves P m \<Longrightarrow> (\<And>x. preserves P (g x)) \<Longrightarrow> preserves P (case p of None \<Rightarrow> m | Some x \<Rightarrow> g x)"
  by (cases p) simp_all

lemma preserves_prod: "(\<And>a b. preserves P (g a b)) \<Longrightarrow> preserves P (case p of (a, b) \<Rightarrow> g a b)"
  by (cases p) simp

lemma preserves_keeps: "keeps f m \<Longrightarrow> (\<And>v w. f v = f w \<Longrightarrow> P v = P w) \<Longrightarrow> preserves P m"
  unfolding preserves_def keeps_def by blast

lemma preserves_snd: "preserves P m \<Longrightarrow> P w \<Longrightarrow> P (snd (m w))"
  unfolding preserves_def by (metis prod.collapse)

lemmas preserves_intros = preserves_basic preserves_pair preserves_bind preserves_modify preserves_if preserves_option preserves_prod

section \<open>Runs\<close>

locale step_invariant =
  fixes step :: "'s \<Rightarrow> 's \<Rightarrow> bool" and inv :: "'s \<Rightarrow> bool"
  assumes step_inv: "inv s \<Longrightarrow> step s t \<Longrightarrow> inv t"
begin

lemma run_inv: "inv s \<Longrightarrow> step\<^sup>*\<^sup>* s t \<Longrightarrow> inv t"
  by (rotate_tac 1, induction rule: rtranclp_induct) (auto intro: step_inv)

lemma trace_inv: "inv s \<Longrightarrow> step\<^sup>*\<^sup>* s t \<Longrightarrow> step t u \<Longrightarrow> inv t \<and> inv u"
  using run_inv step_inv by blast

end

end
