(* ===== verification/Control_Plane_Props.thy ===== *)
theory Control_Plane_Props
  imports Control_Plane Control_Policy_Props Network_State_Props Rule_Transactions Py_Invariants
begin

text \<open>
  What the handlers of the control plane guarantee: an answer is the decision of the policy, for one
  connection only, it leaves the policy files alone and a denial is shown for review; the counters
  and lists stay bounded. The last section shows the answer that fails.
\<close>

section \<open>Frame\<close>

lemma load_policy_files: "keeps (\<lambda>w. (w_policy_file w, w_backup_file w)) load_policy"
proof -
  have "keeps (\<lambda>w. (w_policy_file w, w_backup_file w)) store_read"
    unfolding keeps_def using store_read_disk by (fastforce simp: same_disk_def)
  then show ?thesis unfolding load_policy_def by (intro keeps_intros)
qed

lemma load_policy_frame:
  assumes "\<And>w s. f (w\<lparr>w_store := s\<rparr>) = f w" shows "keeps f load_policy"
proof -
  have "keeps f store_read"
    unfolding keeps_def using store_read_disk assms by (fastforce simp: same_disk_def)
  then show ?thesis unfolding load_policy_def by (intro keeps_intros)
qed

lemma network_write_frame:
  assumes "\<And>w s. f (w\<lparr>w_store := s\<rparr>) = f w" "\<And>w s. f (w\<lparr>cw_projection := s\<rparr>) = f w" "\<And>w s. f (w\<lparr>cw_net := s\<rparr>) = f w"
  shows "keeps f network_write"
  unfolding network_write_def net_snapshot_act_def
  by (intro keeps_intros load_policy_frame assms)

lemma context_write_frame:
  assumes "\<And>w s. f (w\<lparr>w_store := s\<rparr>) = f w" "\<And>w s. f (w\<lparr>cw_projection := s\<rparr>) = f w" "\<And>w s. f (w\<lparr>cw_net := s\<rparr>) = f w"
    "\<And>w s. f (w\<lparr>cw_summary := s\<rparr>) = f w"
  shows "keeps f context_write"
  unfolding context_write_def by (intro keeps_intros network_write_frame assms)

lemma select_frame: "(\<And>w s. f (w\<lparr>w_store := s\<rparr>) = f w) \<Longrightarrow> keeps f (select_policy_rule h c)"
  unfolding select_policy_rule_def by (intro keeps_intros load_policy_frame)

lemma note_match_frame: "(\<And>w s. f (w\<lparr>cw_net := s\<rparr>) = f w) \<Longrightarrow> keeps f (note_match selected)"
  unfolding note_match_def by (intro keeps_intros) auto

lemma blocked_frame:
  assumes "\<And>w s. f (w\<lparr>w_store := s\<rparr>) = f w" "\<And>w s. f (w\<lparr>cw_projection := s\<rparr>) = f w" "\<And>w s. f (w\<lparr>cw_net := s\<rparr>) = f w"
    "\<And>w s. f (w\<lparr>cw_summary := s\<rparr>) = f w" "\<And>w s. f (w\<lparr>cw_events := s\<rparr>) = f w"
  shows "keeps f (blocked c selected)"
  unfolding blocked_def note_denied_def Let_def by (intro keeps_intros context_write_frame) (simp_all add: assms)

lemma record_allowed_frame:
  assumes "\<And>w s. f (w\<lparr>w_store := s\<rparr>) = f w" "\<And>w s. f (w\<lparr>cw_projection := s\<rparr>) = f w" "\<And>w s. f (w\<lparr>cw_net := s\<rparr>) = f w"
  shows "keeps f (record_allowed c action selected)"
  unfolding record_allowed_def Let_def by (intro keeps_intros network_write_frame) (simp_all add: assms)

lemma ask_rule_frame:
  assumes "\<And>w s. f (w\<lparr>w_store := s\<rparr>) = f w" "\<And>w s. f (w\<lparr>cw_projection := s\<rparr>) = f w" "\<And>w s. f (w\<lparr>cw_net := s\<rparr>) = f w"
    "\<And>w s. f (w\<lparr>cw_summary := s\<rparr>) = f w" "\<And>w s. f (w\<lparr>cw_events := s\<rparr>) = f w"
  shows "keeps f (ask_rule c)"
  unfolding ask_rule_def
  by (intro keeps_intros select_frame note_match_frame blocked_frame record_allowed_frame) (simp_all add: assms)

section \<open>Blocked connections\<close>

lemma touch_last_Some:
  "touch_last i t xs = Some ys \<Longrightarrow> map be_id ys = map be_id xs \<and> i \<in> set (map be_id ys) \<and> (\<exists>y \<in> set ys. be_id y = i \<and> be_occurred y = t)"
  by (induction xs arbitrary: ys) (fastforce split: option.splits if_splits)+

lemma touch_last_None: "touch_last i t xs = None \<longleftrightarrow> i \<notin> set (map be_id xs)"
  by (induction xs) (auto split: option.splits)

lemma new_blocked_fields [simp]:
  "be_id (new_blocked e now c selected) = blocked_id e c" "be_occurred (new_blocked e now c selected) = iso now"
  by (simp_all add: new_blocked_def)

lemma note_blocked_mem:
  "\<exists>x \<in> set (note_blocked e now c selected events). be_id x = blocked_id e c \<and> be_occurred x = iso now"
proof (cases "touch_last (blocked_id e c) (iso now) events")
  case None
  have "new_blocked e now c selected \<in> set (last_n MAX_EVENTS (events @ [new_blocked e now c selected]))"
    by (rule last_n_snoc) (simp add: MAX_EVENTS_def)
  then show ?thesis using None by (intro bexI [of _ "new_blocked e now c selected"]) (simp_all add: note_blocked_def)
next
  case (Some es)
  then show ?thesis using touch_last_Some by (fastforce simp: note_blocked_def)
qed

lemma note_blocked_ok:
  assumes "length events \<le> MAX_EVENTS" "distinct (map be_id events)"
  shows "length (note_blocked e now c selected events) \<le> MAX_EVENTS \<and> distinct (map be_id (note_blocked e now c selected events))"
proof (cases "touch_last (blocked_id e c) (iso now) events")
  case None
  then have "distinct (map be_id (events @ [new_blocked e now c selected]))"
    using assms(2) by (auto simp: touch_last_None)
  from last_n_distinct [OF this, of MAX_EVENTS] show ?thesis using None by (simp add: note_blocked_def last_n_map del: map_append)
next
  case (Some es)
  then have "map be_id es = map be_id events" using touch_last_Some by blast
  then show ?thesis using Some assms by (metis length_map note_blocked_def option.simps(5))
qed

lemma context_write_summary:
  assumes "context_write w = (Inr u, w')"
  shows "cw_summary w' = Some (summary_of (sh_now (cw_host w)) (cw_connected w) (cw_events w))"
proof -
  from assms obtain v where "v = w\<lparr>cw_summary := Some (summary_of (sh_now (cw_host w)) (cw_connected w) (cw_events w))\<rparr>"
    and n: "network_write v = (Inr u, w')"
    by (auto simp: context_write_def act_simps)
  moreover have "cw_summary w' = cw_summary v"
    by (rule keepsD [OF network_write_frame n]) simp_all
  ultimately show ?thesis by simp
qed

section \<open>The answer to the daemon\<close>

lemma ask_rule_Inr:
  assumes "ask_rule c w = (Inr reply, w')"
  obtains action duration selected w1 w2 where "select_policy_rule (cw_view w) c w = (Inr (action, duration, selected), w1)"
    "note_match selected w1 = (Inr (), w2)"
    "(if str_in action [''deny'', ''reject''] then blocked c selected else record_allowed c action selected) w2 = (Inr (), w')"
    "reply = reply_rule (w_env w') c (action, duration, selected)"
  using assms by (auto simp: ask_rule_def act_simps split: prod.splits)

text \<open>
  C23: An answer to the daemon is the decision of the policy and nothing more. When \<open>AskRule\<close> returns, it
  carries the action that \<open>select_policy_rule\<close> chose, with duration once so that the daemon keeps
  nothing, and neither the policy file nor its copy has changed; a denied connection is on the review
  list with the current time and the published summary asks for review.
\<close>

theorem ask_rule_answers_policy:
  assumes "ask_rule c w = (Inr reply, w')"
  shows "\<exists>action duration selected w1. select_policy_rule (cw_view w) c w = (Inr (action, duration, selected), w1)
    \<and> dp_action reply = action \<and> dp_duration reply = ''once''
    \<and> w_policy_file w' = w_policy_file w \<and> w_backup_file w' = w_backup_file w
    \<and> (str_in action [''deny'', ''reject''] \<longrightarrow>
        (\<exists>x \<in> set (cw_events w'). be_id x = blocked_id (w_env w) c \<and> be_occurred x = iso (sh_now (cw_host w)))
        \<and> (\<exists>sm. cw_summary w' = Some sm \<and> cs_state sm = ''REVIEW NEEDED''))"
  using assms
proof (cases rule: ask_rule_Inr)
  case (1 action duration selected w1 w2)
  have files: "(w_policy_file w', w_backup_file w') = (w_policy_file w, w_backup_file w)"
    by (rule keepsD [OF ask_rule_frame assms]) simp_all
  have w2: "(w_env w2, cw_host w2) = (w_env w, cw_host w)"
    using keepsD [OF select_frame 1(1), of "\<lambda>w. (w_env w, cw_host w)"] keepsD [OF note_match_frame 1(2), of "\<lambda>w. (w_env w, cw_host w)"] by simp
  have "(\<exists>x \<in> set (cw_events w'). be_id x = blocked_id (w_env w) c \<and> be_occurred x = iso (sh_now (cw_host w)))
      \<and> (\<exists>sm. cw_summary w' = Some sm \<and> cs_state sm = ''REVIEW NEEDED'')" if "str_in action [''deny'', ''reject'']"
  proof -
    define v where "v = note_denied c selected w2"
    have ev: "cw_events v = note_blocked (w_env w2) (sh_now (cw_host w2)) c selected (cw_events w2)"
      by (simp add: v_def note_denied_def Let_def)
    have cw: "context_write v = (Inr (), w')" using 1(3) that by (simp add: blocked_def v_def)
    have "cw_events w' = cw_events v" by (rule keepsD [OF context_write_frame cw]) simp_all
    moreover have "cw_events v \<noteq> []" using note_blocked_mem [of "w_env w2" "sh_now (cw_host w2)" c selected "cw_events w2"] ev by auto
    ultimately show ?thesis
      using note_blocked_mem [of "w_env w2" "sh_now (cw_host w2)" c selected "cw_events w2"] ev context_write_summary [OF cw] w2
      by (simp add: summary_of_def)
  qed
  then show ?thesis using 1 files by (auto simp: reply_rule_def Let_def)
qed

section \<open>Bounds\<close>

definition control_ok :: "'z cworld_scheme \<Rightarrow> bool" where
  "control_ok w \<longleftrightarrow> activity_ok (cw_net w) \<and> length (ns_matches (cw_net w)) \<le> 1024
     \<and> length (cw_events w) \<le> MAX_EVENTS \<and> distinct (map be_id (cw_events w))"

definition control_part :: "'z cworld_scheme \<Rightarrow> net_state \<times> blocked_event list" where
  "control_part w = (cw_net w, cw_events w)"

lemma control_ok_load: "preserves control_ok load_policy"
  by (rule preserves_keeps [OF load_policy_frame [of control_part]]) (simp_all add: control_part_def control_ok_def)

lemma prune_matches [simp]: "ns_matches (prune_activity now s) = ns_matches s"
  by (simp add: prune_activity_def Let_def)

lemma control_ok_network_write: "preserves control_ok network_write"
  unfolding network_write_def net_snapshot_act_def
  by (intro preserves_intros control_ok_load) (auto simp: control_ok_def prune_activity_ok)

lemma control_ok_context_write: "preserves control_ok context_write"
  unfolding context_write_def by (intro preserves_intros control_ok_network_write) (simp add: control_ok_def)

lemma record_connection_matches [simp]: "ns_matches (record_connection e h c action source occurred name threat s) = ns_matches s"
  by (simp add: record_connection_def append_event_def Let_def)

lemma pinged_matches [simp]: "ns_matches (pinged e h d s) = ns_matches s"
proof -
  have "ns_matches (foldl (record_daemon_event e h) s' evs) = ns_matches s'" for s' evs
    by (induction evs arbitrary: s') (simp_all add: record_daemon_event_def Let_def split: option.splits)
  then show ?thesis by (simp add: pinged_def)
qed

lemma count_match_bound:
  assumes "count_match r t seen = Inr m" "length seen \<le> 1024" shows "length m \<le> 1024"
proof -
  have "length (AList.update k v seen) \<le> Suc (length seen)" for k v by (induction seen) auto
  moreover from assms(1) obtain k v where "m = (if 1024 < length (AList.update k v seen) then tl (AList.update k v seen) else AList.update k v seen)"
    unfolding count_match_def Let_def py_bind_eq_Inr by blast
  ultimately show ?thesis using assms(2) by (metis (no_types) Nitpick.size_list_simp(2) Suc_leI diff_le_mono diff_Suc_1 length_tl le_trans not_less not_less_eq_eq)
qed

lemma control_ok_note_match: "preserves control_ok (note_match selected)"
proof (cases "\<exists>r. selected = Some r \<and> truthy (dget r ''id'')")
  case True
  then obtain r where r: "selected = Some r" "truthy (dget r ''id'')" by blast
  have "control_ok w'" if ok: "control_ok w" and n: "note_match selected w = (x, w')" for w x w'
  proof (cases "count_match r (iso (sh_now (cw_host w))) (ns_matches (cw_net w))")
    case (Inl e)
    then show ?thesis using ok n r by (simp add: note_match_def)
  next
    case (Inr m)
    have "length m \<le> 1024" by (rule count_match_bound [OF Inr]) (use ok in \<open>simp add: control_ok_def\<close>)
    then show ?thesis using ok n r Inr by (auto simp: note_match_def control_ok_def activity_ok_def)
  qed
  then show ?thesis unfolding preserves_def by blast
next
  case False
  then show ?thesis by (auto simp: note_match_def preserves_def split: option.splits)
qed

lemma control_ok_blocked: "preserves control_ok (blocked c selected)"
  unfolding blocked_def note_denied_def Let_def
  by (intro preserves_intros control_ok_context_write) (auto simp: control_ok_def record_connection_ok note_blocked_ok)

lemma control_ok_allowed: "preserves control_ok (record_allowed c action selected)"
  unfolding record_allowed_def Let_def
  by (intro preserves_intros control_ok_network_write) (auto simp: control_ok_def record_connection_ok)

lemma control_ok_ask: "preserves control_ok (ask_rule c)"
  unfolding ask_rule_def select_policy_rule_def
  by (intro preserves_intros control_ok_load control_ok_note_match control_ok_blocked control_ok_allowed)

lemma control_ok_pinged: "preserves control_ok (store_pinged stats)"
  unfolding store_pinged_def
  by (intro preserves_intros control_ok_context_write) (auto simp: control_ok_def pinged_ok)

lemma subscribed_control_ok:
  assumes "control_ok w" "subscribed (w_env w) (cw_host w) version rules (cw_net w) = (r, s)"
  shows "control_ok (w\<lparr>cw_net := s\<rparr>)"
proof -
  have "activity_ok s \<and> ns_matches s = ns_matches (cw_net w)"
    using assms by (auto simp: subscribed_def Let_def control_ok_def activity_ok_def split: sum.splits)
  then show ?thesis using assms(1) by (simp add: control_ok_def)
qed

lemma control_ok_subscribed: "preserves control_ok (store_subscribed version rules)"
proof -
  have "preserves control_ok (\<lambda>w. case subscribed (w_env w) (cw_host w) version rules (cw_net w) of (r, s) \<Rightarrow> (r, w\<lparr>cw_net := s\<rparr>))"
    unfolding preserves_def using subscribed_control_ok by (auto split: prod.splits)
  then show ?thesis
    unfolding store_subscribed_def by (intro preserves_intros control_ok_context_write) (auto simp: control_ok_def)
qed

text \<open>
  C29: The control plane stays bounded. Every handler, whether it returns or raises, keeps the record of
  connections well formed, at most 1,024 rule counters, and at most 64 review events with distinct
  identifiers.
\<close>

theorem control_plane_bounded:
  assumes "control_ok w"
  shows "control_ok (snd (ask_rule c w)) \<and> control_ok (snd (store_pinged stats w))
    \<and> control_ok (snd (store_subscribed version rules w)) \<and> control_ok (snd (context_write w))"
  using assms control_ok_ask [of c] control_ok_pinged [of stats] control_ok_subscribed [of version rules] control_ok_context_write
  unfolding preserves_def by (metis surjective_pairing)

section \<open>Concrete answers\<close>

definition demo_cworld :: "dict \<Rightarrow> cworld" where
  "demo_cworld policy = \<lparr>w_env = demo_host,
     w_store = new_store\<lparr>st_last_good := Some policy, st_signature := Some (1, 90)\<rparr>,
     w_policy_file = Some \<lparr>f_json = Inr (VDict policy), f_size = 90, f_mtime = 1\<rparr>, w_backup_file = None,
     w_io = (\<lambda>n. Some (int n + 2)), w_step = 0, cw_net = new_state ''0123'', cw_events = [], cw_connected = True, cw_version = [],
     cw_last_seen = 0, cw_host = demo_state_host, cw_view = demo_view_of, cw_disk = True, cw_summary = None, cw_projection = None\<rparr>"

lemma demo_cworld_load [simp]:
  "w_policy_file w = w_policy_file (demo_cworld policy) \<Longrightarrow> w_store w = w_store (demo_cworld policy) \<Longrightarrow> load_policy w = (Inr policy, w)"
  by (simp add: load_policy_def s_catch_def store_read_def demo_cworld_def new_store_def)

lemma demo_threat_status: "\<exists>t. threat_status demo_host default_policy activity demo_snapshot = Inr t"
proof -
  have ok: "indicator_ok demo_indicator" using normalize_feed_ok(1) [OF demo_normalize_feed] by simp
  have "load_indicators demo_host [VDict demo_indicator] = Inr [VDict demo_indicator]"
    using indicator_again [OF ok refl refl refl] by simp
  then show ?thesis
    by (simp add: threat_status_def demo_snapshot_def load_snapshot_def updated_fields MAX_INDICATORS_def py_or_def Let_def)
qed

lemma demo_context_write:
  assumes "w_policy_file w = w_policy_file (demo_cworld default_policy)" "w_store w = w_store (demo_cworld default_policy)"
    "w_env w = demo_host" "cw_view w = demo_view_of" "cw_disk w"
  shows "\<exists>w'. context_write w = (Inr (), w')"
proof -
  define v where "v = w\<lparr>cw_summary := Some (summary_of (sh_now (cw_host w)) (cw_connected w) (cw_events w)),
    cw_net := prune_activity (sh_now (cw_host w)) (cw_net w)\<rparr>"
  have v: "load_policy v = (Inr default_policy, v)" using assms(1,2) by (intro demo_cworld_load) (simp_all add: v_def)
  have f: "w_env v = demo_host" "cw_view v = demo_view_of" "cw_disk v" using assms by (simp_all add: v_def)
  have rows: "policy_rows e default_policy = Inr []" "dindex default_policy ''rules'' = Inr (VList [])" for e
    by (simp_all add: policy_rows_def default_policy_def)
  obtain t where t: "threat_status demo_host default_policy (map event_val (ns_activity (cw_net v))) demo_snapshot = Inr t"
    using demo_threat_status by blast
  have "\<exists>w'. network_write (w\<lparr>cw_summary := Some (summary_of (sh_now (cw_host w)) (cw_connected w) (cw_events w))\<rparr>) = (Inr (), w')"
    unfolding network_write_def net_snapshot_act_def
    using v f rows t by (simp add: s_bind_def s_guard_def make_snapshot_def Let_def demo_view_of_def flip: v_def)
  then show ?thesis using assms(5) by (simp add: context_write_def s_bind_def s_guard_def)
qed

lemma demo_ask: "\<exists>reply w'. ask_rule demo_peer (demo_cworld default_policy) = (Inr reply, w')"
proof -
  let ?w = "demo_cworld default_policy"
  obtain u r where d: "select_rule demo_host demo_view_of demo_peer default_policy = Inr (VStr ''deny'', u, Some r)" "dget r ''id'' = VNone"
    by (simp add: select_rule_def default_policy_def threat_exception_def threat_indicator_def threat_enabled_def
      demo_view_of_def demo_matching verdict_def threat_rule_of_def dupdate_def demo_indicator_def)
  have f: "cw_view ?w = demo_view_of" "w_env ?w = demo_host" by (simp_all add: demo_cworld_def)
  have s: "select_policy_rule (cw_view ?w) demo_peer ?w = (Inr (VStr ''deny'', u, Some r), ?w)"
    using d(1) by (simp add: select_policy_rule_def s_bind_def f)
  obtain w' where "context_write (note_denied demo_peer (Some r) ?w) = (Inr (), w')"
    using demo_context_write [of "note_denied demo_peer (Some r) ?w"] by (auto simp: note_denied_def Let_def demo_cworld_def)
  then show ?thesis using s d(2) f by (simp add: ask_rule_def s_bind_def note_match_def blocked_def)
qed

theorem ask_rule_answers_policy_witness:
  "\<exists>reply w'. ask_rule demo_peer (demo_cworld default_policy) = (Inr reply, w') \<and> dp_duration reply = ''once''
    \<and> w_policy_file w' = w_policy_file (demo_cworld default_policy)"
proof -
  obtain reply w' where "ask_rule demo_peer (demo_cworld default_policy) = (Inr reply, w')" using demo_ask by blast
  from ask_rule_answers_policy [OF this] this show ?thesis by blast
qed

theorem control_plane_bounded_witness:
  "control_ok (demo_cworld default_policy) \<and> control_ok (snd (ask_rule demo_peer (demo_cworld default_policy)))"
proof -
  have "control_ok (demo_cworld default_policy)"
    by (simp add: control_ok_def demo_cworld_def activity_ok_new) (simp add: new_state_def)
  from this control_plane_bounded [OF this] show ?thesis by blast
qed

section \<open>An exception that breaks the answer\<close>

text \<open>
  C38: The answer fails for a connection under a threat exception. The exception written by the review
  has an identifier but no modification time, so the counter of decisions is read before it
  exists: when no user rule decides, \<open>AskRule\<close> raises \<open>KeyError\<close> instead of answering, and because
  the counter is never created every further request for the connection raises too.
\<close>

theorem exception_answer_raises:
  assumes "load_policy w = (Inr policy, w1)" "dindex policy ''rules'' = Inr (VList rules)"
    "threat_exception (w_env w1) c rules = Inr (Some (as_dict (threat_rule e0 actor path address port)))"
    "threat_enabled policy = Inr b" "user_rule (w_env w1) c (candidates policy) = Inr None" "dns_enforced policy = Inr b'"
    "c_dst_port c \<noteq> 53" "c_dst_port c \<noteq> 853" "dindex policy ''default_action'' = Inr a" "dindex policy ''default_duration'' = Inr u"
    "map_of (ns_matches (cw_net w1)) (VStr (''greyward-'' @ env_uuid e0)) = None"
  shows "ask_rule c w = (Inl (KeyError ''decisions''), w1)"
proof -
  have d: "dget policy ''rules'' = VList rules" using assms(2) by (auto simp: dindex_def dget_def split: option.splits)
  have r: "dget (as_dict (threat_rule e0 actor path address port)) ''id'' = VStr (''greyward-'' @ env_uuid e0)"
    "dget (as_dict (threat_rule e0 actor path address port)) ''updated_at'' = VNone" by (simp_all add: threat_rule_def)
  have "select_policy_rule (cw_view w) c w = (Inr (a, u, Some (as_dict (threat_rule e0 actor path address port))), w1)"
    using assms d by (simp add: select_policy_rule_def s_bind_def select_rule_def threat_indicator_def DNS_POLICY_PORTS_def)
  moreover have "note_match (Some (as_dict (threat_rule e0 actor path address port))) w1 = (Inl (KeyError ''decisions''), w1)"
    using assms(11) by (simp add: note_match_def r count_match_def dindex_def)
  ultimately show ?thesis by (simp add: ask_rule_def s_bind_def)
qed

definition demo_exception :: dict where
  "demo_exception = as_dict (threat_rule demo_host 1000 ''/usr/bin/curl'' ''192.0.2.7'' 443)"

definition demo_excepted :: dict where
  "demo_excepted = dput default_policy ''rules'' (VList [VDict demo_exception])"

lemma demo_destination: "destination_ip demo_host demo_peer = VStr ''192.0.2.7''"
proof -
  have "clean demo_host (VStr ''192.0.2.7'') 64 = ''192.0.2.7''" by (rule cleaned.filter_fix) code_simp+
  then show ?thesis by (simp add: destination_ip_def demo_peer_def or_none_def)
qed

lemma demo_threat_exception: "threat_exception demo_host demo_peer [VDict demo_exception] = Inr (Some demo_exception)"
  by (simp add: threat_exception_def is_exception_def exact_application_def demo_destination)
     (simp add: demo_exception_def threat_rule_def rule_port_def py_or_def demo_peer_def)

theorem exception_answer_raises_witness:
  "ask_rule demo_peer (demo_cworld demo_excepted) = (Inl (KeyError ''decisions''), demo_cworld demo_excepted)"
proof (rule exception_answer_raises)
  show "load_policy (demo_cworld demo_excepted) = (Inr demo_excepted, demo_cworld demo_excepted)" by simp
  show "dindex demo_excepted ''rules'' = Inr (VList [VDict demo_exception])" by (simp add: demo_excepted_def)
  show "threat_exception (w_env (demo_cworld demo_excepted)) demo_peer [VDict demo_exception]
      = Inr (Some (as_dict (threat_rule demo_host 1000 ''/usr/bin/curl'' ''192.0.2.7'' 443)))"
    using demo_threat_exception by (simp add: demo_cworld_def flip: demo_exception_def)
  show "threat_enabled demo_excepted = Inr True" "dns_enforced demo_excepted = Inr True"
    by (simp_all add: threat_enabled_def dns_enforced_def demo_excepted_def default_policy_def)
  have "candidates demo_excepted = []"
    by (simp add: candidates_def demo_excepted_def demo_exception_def threat_rule_def)
  then show "user_rule (w_env (demo_cworld demo_excepted)) demo_peer (candidates demo_excepted) = Inr None" by simp
  show "c_dst_port demo_peer \<noteq> 53" "c_dst_port demo_peer \<noteq> 853" by (simp_all add: demo_peer_def)
  show "dindex demo_excepted ''default_action'' = Inr (VStr ''allow'')" "dindex demo_excepted ''default_duration'' = Inr (VStr ''once'')"
    by (simp_all add: demo_excepted_def default_policy_def)
  show "map_of (ns_matches (cw_net (demo_cworld demo_excepted))) (VStr (''greyward-'' @ env_uuid demo_host)) = None"
    by (simp add: demo_cworld_def new_state_def)
qed

end
