(* ===== verification/Sensor_Health.thy ===== *)
theory Sensor_Health
  imports Py_Clean Py_Invariants
begin

text \<open>
  \<open>sensor_health.py\<close>: the class \<open>ProbeTracker\<close>. A probe is a process that was started on purpose; the
  sensor is healthy when the execution is reported back.
\<close>

section \<open>The tracker\<close>

record tracker =
  pt_pending :: "(int \<times> rat) list"
  pt_verified :: "rat option"
  pt_latency :: "rat option"
  pt_matches :: nat
  pt_sent :: nat

definition new_tracker :: tracker where
  "new_tracker = \<lparr>pt_pending = [], pt_verified = None, pt_latency = None, pt_matches = 0, pt_sent = 0\<rparr>"

text \<open>The loop that drops the oldest entries: more than eight, or the first one older than a minute.\<close>

fun expire_pending :: "rat \<Rightarrow> (int \<times> rat) list \<Rightarrow> (int \<times> rat) list" where
  "expire_pending now [] = []"
| "expire_pending now ((pid, t) # ps) =
     (if 8 < length ((pid, t) # ps) \<or> 60 < now - t then expire_pending now ps else (pid, t) # ps)"

definition issue :: "int \<Rightarrow> rat \<Rightarrow> tracker \<Rightarrow> tracker" where
  "issue pid now t = t\<lparr>pt_pending := expire_pending now (AList.update pid now (pt_pending t)), pt_sent := Suc (pt_sent t)\<rparr>"

text \<open>\<open>(raw.get(k) or {}).get(k2) or {}\<close>.\<close>

definition nested_process :: "dict \<Rightarrow> dict py" where
  "nested_process raw = py_bind (py_get (py_or (dget raw ''process_exec'') (VDict [])) ''process'') (\<lambda>p.
     case py_or p (VDict []) of VDict d \<Rightarrow> Inr d | _ \<Rightarrow> Inl (OtherError ''AttributeError''))"

definition pending_of :: "val \<Rightarrow> (int \<times> rat) list \<Rightarrow> (int \<times> rat) option" where
  "pending_of pid ps = find (\<lambda>p. py_eq pid (VInt (fst p))) ps"

text \<open>
  \<open>observe\<close>: \<open>wall\<close> is the wall clock and \<open>now\<close> the monotonic clock of the call; \<open>event_time\<close> parses the
  time of the report.
\<close>

definition observe_probe :: "env \<Rightarrow> (string \<Rightarrow> rat option) \<Rightarrow> rat \<Rightarrow> dict \<Rightarrow> rat \<Rightarrow> (tracker, bool) act" where
  "observe_probe e event_time wall raw now t =
    (case nested_process raw of
       Inl x \<Rightarrow> (Inl x, t)
     | Inr p \<Rightarrow> if \<not> hashable (dget p ''pid'') then (Inl TypeError, t)
         else (case pending_of (dget p ''pid'') (pt_pending t) of
           None \<Rightarrow> (Inr False, t)
         | Some (pid, sent) \<Rightarrow>
             if \<not> py_eq (dget p ''uid'') (VInt 0) \<or> dget p ''binary'' \<noteq> VStr ''/usr/bin/true'' then (Inr False, t)
             else (case event_time (py_str e (dget raw ''time'')) of
               None \<Rightarrow> (Inr False, t)
             | Some seen \<Rightarrow> if 5 < \<bar>(wall - now + sent) - seen\<bar> then (Inr False, t)
                 else (Inr True, t\<lparr>pt_pending := AList.delete pid (pt_pending t), pt_verified := Some now,
                   pt_latency := Some (max 0 (now - sent)), pt_matches := Suc (pt_matches t)\<rparr>))))"

definition probe_state :: "rat \<Rightarrow> tracker \<Rightarrow> string" where
  "probe_state now t = (if (case pt_verified t of None \<Rightarrow> False | Some v \<Rightarrow> now - v \<le> 40) then ''VERIFIED''
     else if pt_sent t < 2 then ''PENDING'' else ''MISSING'')"

section \<open>Runs\<close>

inductive tracker_step :: "env \<Rightarrow> (string \<Rightarrow> rat option) \<Rightarrow> tracker \<Rightarrow> tracker \<Rightarrow> bool" for e event_time where
  step_issue: "tracker_step e event_time t (issue pid now t)"
| step_observe: "tracker_step e event_time t (snd (observe_probe e event_time wall raw now t))"

lemma expire_pending_suffix: "\<exists>n. expire_pending now ps = drop n ps"
proof (induction now ps rule: expire_pending.induct)
  case (2 now pid t ps)
  show ?case
  proof (cases "8 < length ((pid, t) # ps) \<or> 60 < now - t")
    case True
    then obtain n where "expire_pending now ps = drop n ps" using "2.IH" by blast
    then have "expire_pending now ((pid, t) # ps) = drop (Suc n) ((pid, t) # ps)" using True by auto
    then show ?thesis by blast
  next
    case False
    then have "expire_pending now ((pid, t) # ps) = drop 0 ((pid, t) # ps)" by auto
    then show ?thesis by blast
  qed
qed simp

lemma expire_pending_bound: "length (expire_pending now ps) \<le> 8"
  by (induction now ps rule: expire_pending.induct) auto

lemma expire_pending_head: "expire_pending now ps = (pid, t) # rest \<Longrightarrow> now - t \<le> 60"
  by (induction now ps rule: expire_pending.induct) (auto split: if_splits)

text \<open>What holds along every run.\<close>

definition tracker_ok :: "tracker \<Rightarrow> bool" where
  "tracker_ok t \<longleftrightarrow> length (pt_pending t) \<le> 8 \<and> distinct (map fst (pt_pending t)) \<and> pt_matches t + length (pt_pending t) \<le> pt_sent t
     \<and> (pt_verified t = None \<longleftrightarrow> pt_matches t = 0) \<and> (\<forall>l. pt_latency t = Some l \<longrightarrow> 0 \<le> l)"

lemma length_update_le: "length (AList.update k v xs) \<le> Suc (length xs)"
  by (induction xs) auto

lemma issue_ok: assumes "tracker_ok t" shows "tracker_ok (issue pid now t)"
proof -
  obtain n where n: "expire_pending now (AList.update pid now (pt_pending t)) = drop n (AList.update pid now (pt_pending t))"
    using expire_pending_suffix by blast
  have "distinct (map fst (AList.update pid now (pt_pending t)))" using assms by (simp add: tracker_ok_def distinct_update)
  then have "distinct (map fst (drop n (AList.update pid now (pt_pending t))))" by (simp add: drop_map [symmetric])
  moreover have "length (drop n (AList.update pid now (pt_pending t))) \<le> Suc (length (pt_pending t))"
    using length_update_le [of pid now "pt_pending t"] by simp
  ultimately show ?thesis
    using assms expire_pending_bound [of now "AList.update pid now (pt_pending t)"] by (auto simp: tracker_ok_def issue_def n)
qed

lemma observe_True:
  assumes "observe_probe e event_time wall raw now t = (Inr True, t')"
  obtains pid sent where "(pid, sent) \<in> set (pt_pending t)" "t' = t\<lparr>pt_pending := AList.delete pid (pt_pending t), pt_verified := Some now,
    pt_latency := Some (max 0 (now - sent)), pt_matches := Suc (pt_matches t)\<rparr>"
proof -
  from assms obtain p pid sent where f: "pending_of (dget p ''pid'') (pt_pending t) = Some (pid, sent)"
    and t': "t' = t\<lparr>pt_pending := AList.delete pid (pt_pending t), pt_verified := Some now,
      pt_latency := Some (max 0 (now - sent)), pt_matches := Suc (pt_matches t)\<rparr>"
    by (auto simp: observe_probe_def split: sum.splits option.splits if_splits)
  from f have "(pid, sent) \<in> set (pt_pending t)" by (auto simp: pending_of_def find_Some_iff in_set_conv_nth)
  then show ?thesis using t' that by blast
qed

lemma observe_not_True:
  "observe_probe e event_time wall raw now t = (r, t') \<Longrightarrow> r \<noteq> Inr True \<Longrightarrow> t' = t"
  by (auto simp: observe_probe_def split: sum.splits option.splits if_splits prod.splits)

lemma delete_shrinks: "distinct (map fst xs) \<Longrightarrow> (k, v) \<in> set xs \<Longrightarrow> Suc (length (AList.delete k xs)) = length xs"
proof (induction xs)
  case (Cons x xs)
  show ?case
  proof (cases "fst x = k")
    case True
    then have "k \<notin> fst ` set xs" using Cons.prems(1) by auto
    then show ?thesis using True by (simp add: delete_simps delete_id)
  next
    case False
    then show ?thesis using Cons by (auto simp: delete_simps)
  qed
qed simp

lemma observe_ok: assumes "tracker_ok t" "observe_probe e event_time wall raw now t = (r, t')" shows "tracker_ok t'"
proof (cases "r = Inr True")
  case True
  obtain pid sent where m: "(pid, sent) \<in> set (pt_pending t)" and t': "t' = t\<lparr>pt_pending := AList.delete pid (pt_pending t),
    pt_verified := Some now, pt_latency := Some (max 0 (now - sent)), pt_matches := Suc (pt_matches t)\<rparr>"
    using observe_True [OF assms(2) [unfolded True]] .
  have "Suc (length (AList.delete pid (pt_pending t))) = length (pt_pending t)"
    using delete_shrinks [OF _ m] assms(1) by (simp add: tracker_ok_def)
  then show ?thesis using assms(1) by (auto simp: t' tracker_ok_def distinct_delete)
next
  case False
  then show ?thesis using observe_not_True [OF assms(2)] assms(1) by simp
qed

interpretation tracker: step_invariant "tracker_step e event_time" tracker_ok for e event_time
proof
  fix s t assume ok: "tracker_ok s" and step: "tracker_step e event_time s t"
  from step show "tracker_ok t"
  proof (cases rule: tracker_step.cases)
    case (step_issue pid now)
    then show ?thesis using issue_ok ok by simp
  next
    case (step_observe wall raw now)
    then show ?thesis using observe_ok [OF ok surjective_pairing] by simp
  qed
qed

text \<open>
  Probes are accounted for. Along every run of the tracker, at most eight probes are pending, each
  issued probe is verified at most once (verified and pending probes never exceed those sent), a
  verification time exists exactly when a probe was verified, and latencies are not negative.
\<close>

theorem probes_accounted:
  assumes "(tracker_step e event_time)\<^sup>*\<^sup>* new_tracker t"
  shows "length (pt_pending t) \<le> 8 \<and> pt_matches t + length (pt_pending t) \<le> pt_sent t
    \<and> (pt_verified t = None \<longleftrightarrow> pt_matches t = 0) \<and> (\<forall>l. pt_latency t = Some l \<longrightarrow> 0 \<le> l)"
proof -
  have "tracker_ok new_tracker" by (simp add: tracker_ok_def new_tracker_def)
  then have "tracker_ok t" using assms by (rule tracker.run_inv)
  then show ?thesis by (simp add: tracker_ok_def)
qed

theorem probes_accounted_witness:
  "pt_pending (issue 7 0 new_tracker) = [(7, 0)] \<and> pt_matches (issue 7 0 new_tracker) + length (pt_pending (issue 7 0 new_tracker)) \<le> pt_sent (issue 7 0 new_tracker)"
proof -
  have "(tracker_step e event_time)\<^sup>*\<^sup>* new_tracker (issue 7 0 new_tracker)" for e :: env and event_time :: "string \<Rightarrow> rat option"
    by (rule r_into_rtranclp) (rule step_issue)
  from probes_accounted [OF this] show ?thesis by (simp add: issue_def new_tracker_def)
qed

end
