(* ===== verification/Summaries.thy ===== *)
theory Summaries
  imports Py_Clean
begin

text \<open>
  \<open>summaries.py\<close>: the weekly summary. It counts the events of the last seven days, each identifier
  once, and states in words what they show.
\<close>

section \<open>Selection\<close>

definition SUMMARY_MAX_EVENTS :: nat where "SUMMARY_MAX_EVENTS = 64"

definition MAX_LINES :: nat where "MAX_LINES = 12"

text \<open>
  \<open>parse\<close> is \<open>datetime.fromisoformat\<close> with a time without offset read as UTC; \<open>None\<close> for what it refuses.
\<close>

definition parse_time :: "(string \<Rightarrow> rat option) \<Rightarrow> val \<Rightarrow> rat option" where
  "parse_time parse v = (case v of VStr s \<Rightarrow> parse s | _ \<Rightarrow> None)"

definition week_seconds :: rat where "week_seconds = 604800"

definition in_window :: "(string \<Rightarrow> rat option) \<Rightarrow> rat \<Rightarrow> dict \<Rightarrow> bool" where
  "in_window parse end_time d = (case parse_time parse (dget d ''occurred_at'') of
       None \<Rightarrow> False | Some t \<Rightarrow> end_time - week_seconds \<le> t \<and> t \<le> end_time)"

definition event_name :: "dict \<Rightarrow> string option" where
  "event_name d = (case dget d ''event_id'' of VStr s \<Rightarrow> Some s | _ \<Rightarrow> None)"

fun select_events_from :: "(string \<Rightarrow> rat option) \<Rightarrow> rat \<Rightarrow> string list \<Rightarrow> val list \<Rightarrow> dict list" where
  "select_events_from parse end_time seen [] = []"
| "select_events_from parse end_time seen (v # vs) = (case v of
       VDict d \<Rightarrow> (case event_name d of
           None \<Rightarrow> select_events_from parse end_time seen vs
         | Some i \<Rightarrow> if i \<in> set seen \<or> \<not> in_window parse end_time d then select_events_from parse end_time seen vs
             else d # select_events_from parse end_time (i # seen) vs)
     | _ \<Rightarrow> select_events_from parse end_time seen vs)"

definition bounded_events :: "(string \<Rightarrow> rat option) \<Rightarrow> rat \<Rightarrow> val list \<Rightarrow> dict list" where
  "bounded_events parse end_time events = take SUMMARY_MAX_EVENTS (select_events_from parse end_time [] events)"

section \<open>The summary\<close>

definition kind_count :: "env \<Rightarrow> string \<Rightarrow> dict list \<Rightarrow> nat" where
  "kind_count e k ds = length (filter (\<lambda>d. py_str e (dget d ''kind'') = k) ds)"

definition is_scan :: "dict \<Rightarrow> bool" where
  "is_scan d \<longleftrightarrow> dget d ''kind'' = VStr ''USB_SCAN_RESULT''"

definition count_line :: "nat \<Rightarrow> string \<Rightarrow> string list" where
  "count_line n s = (if n = 0 then [] else [nat_str n @ s])"

definition clean_line :: string where
  "clean_line = ''No known malware detected in available scan results''"

definition malware_line :: "nat \<Rightarrow> nat \<Rightarrow> nat \<Rightarrow> string" where
  "malware_line scans threats unavailable = (if threats \<noteq> 0 then nat_str threats @ '' known malware detection(s) reported by available scans''
     else if scans \<noteq> 0 \<and> unavailable = 0 then clean_line
     else if scans \<noteq> 0 then ''Malware status unavailable for some scan results''
     else ''No malware conclusion available; no removable-media scan evidence'')"

text \<open>A scan whose state is a list or dictionary cannot be looked up in the set of states.\<close>

definition summary_lines :: "env \<Rightarrow> dict list \<Rightarrow> string list py" where
  "summary_lines e selected =
    (let scans = kind_count e ''USB_SCAN_RESULT'' selected;
         threats = length (filter (\<lambda>d. is_scan d \<and> dget d ''state'' = VStr ''THREAT'') selected);
         unavailable = length (filter (\<lambda>d. is_scan d \<and> str_in (dget d ''state'') [''UNAVAILABLE'', ''TIMEOUT'', ''ERROR'']) selected) in
     if list_ex (\<lambda>d. is_scan d \<and> \<not> hashable (dget d ''state'')) selected then Inl TypeError
     else Inr ([''Weekly security summary''] @ count_line (kind_count e ''INBOUND_ATTACK_ACTIVITY'' selected) '' inbound security attempts blocked''
     @ count_line (kind_count e ''APP_CONNECTION_BLOCKED'' selected) '' application connections blocked''
     @ count_line scans '' removable-media scans'' @ [malware_line scans threats unavailable]
     @ count_line (kind_count e ''PERSISTENCE_CHANGE_DETECTED'' selected) '' persistence configuration change(s) detected''))"

definition allowed_kinds :: "string list" where
  "allowed_kinds = [''APP_CONNECTION_BLOCKED'', ''INBOUND_ATTACK_ACTIVITY'', ''PERSISTENCE_CHANGE_DETECTED'', ''USB_SCAN_RESULT'']"

record weekly =
  wk_start :: string
  wk_end :: string
  wk_lines :: "string list"
  wk_counts :: "(string \<times> nat) list"
  wk_evidence :: nat

definition weekly_summary :: "env \<Rightarrow> (string \<Rightarrow> rat option) \<Rightarrow> rat \<Rightarrow> val list \<Rightarrow> weekly py" where
  "weekly_summary e parse end_time events = (let selected = bounded_events parse end_time events in
     py_bind (summary_lines e selected) (\<lambda>lines. Inr
     \<lparr>wk_start = iso_micro (end_time - week_seconds), wk_end = iso_micro end_time,
       wk_lines = take MAX_LINES lines,
       wk_counts = filter (\<lambda>p. snd p \<noteq> 0) (map (\<lambda>k. (k, kind_count e k selected)) allowed_kinds),
       wk_evidence = length selected\<rparr>))"

section \<open>Properties\<close>

lemma select_events_ok:
  "set (select_events_from parse end_time seen vs) \<subseteq> {d. VDict d \<in> set vs \<and> in_window parse end_time d}
   \<and> distinct (map event_name (select_events_from parse end_time seen vs))
   \<and> (\<forall>d \<in> set (select_events_from parse end_time seen vs). \<exists>i. event_name d = Some i \<and> i \<notin> set seen)"
proof (induction vs arbitrary: seen)
  case (Cons v vs)
  show ?case
  proof (cases "\<exists>d i. v = VDict d \<and> event_name d = Some i \<and> i \<notin> set seen \<and> in_window parse end_time d")
    case True
    then obtain d i where v: "v = VDict d" "event_name d = Some i" "i \<notin> set seen" "in_window parse end_time d" by blast
    then show ?thesis using Cons.IH [of "i # seen"] by fastforce
  next
    case False
    then have "select_events_from parse end_time seen (v # vs) = select_events_from parse end_time seen vs"
      by (auto split: val.splits option.splits)
    then show ?thesis using Cons.IH [of seen] by auto
  qed
qed simp

lemma select_events_append:
  "\<exists>seen'. select_events_from parse end_time seen (xs @ ys) = select_events_from parse end_time seen xs @ select_events_from parse end_time seen' ys"
proof (induction xs arbitrary: seen)
  case (Cons v vs)
  show ?case
  proof (cases "\<exists>d i. v = VDict d \<and> event_name d = Some i \<and> i \<notin> set seen \<and> in_window parse end_time d")
    case True
    then obtain d i where v: "v = VDict d" "event_name d = Some i" "i \<notin> set seen" "in_window parse end_time d" by blast
    then show ?thesis using Cons.IH [of "i # seen"] by auto
  next
    case False
    then have "select_events_from parse end_time seen (v # zs) = select_events_from parse end_time seen zs" for zs
      by (auto split: val.splits option.splits)
    then show ?thesis using Cons.IH [of seen] by simp
  qed
qed auto

lemma clean_line_not_others:
  "nat_str n @ '' inbound security attempts blocked'' \<noteq> clean_line" "nat_str n @ '' application connections blocked'' \<noteq> clean_line"
  "nat_str n @ '' removable-media scans'' \<noteq> clean_line" "nat_str n @ '' persistence configuration change(s) detected'' \<noteq> clean_line"
  "nat_str n @ '' known malware detection(s) reported by available scans'' \<noteq> clean_line"
proof -
  have d: "nat_str n @ t \<noteq> clean_line" for t
  proof
    assume "nat_str n @ t = clean_line"
    then have "hd (nat_str n) = CHR ''N''" using nat_str_not_Nil [of n] by (metis clean_line_def hd_append2 list.sel(1))
    moreover have "is_digit (hd (nat_str n))" using nat_str_digits [of n] nat_str_not_Nil [of n] by (auto simp: list_all_iff)
    moreover have "\<not> is_digit (CHR ''N'')" by code_simp
    ultimately show False by simp
  qed
  show "nat_str n @ '' inbound security attempts blocked'' \<noteq> clean_line" "nat_str n @ '' application connections blocked'' \<noteq> clean_line"
    "nat_str n @ '' removable-media scans'' \<noteq> clean_line" "nat_str n @ '' persistence configuration change(s) detected'' \<noteq> clean_line"
    "nat_str n @ '' known malware detection(s) reported by available scans'' \<noteq> clean_line"
    by (rule d)+
qed

lemma clean_line_claim:
  assumes "summary_lines e selected = Inr lines" and "clean_line \<in> set lines"
  shows "(\<exists>d \<in> set selected. py_str e (dget d ''kind'') = ''USB_SCAN_RESULT'')
    \<and> (\<forall>d \<in> set selected. is_scan d \<longrightarrow> \<not> str_in (dget d ''state'') [''THREAT'', ''UNAVAILABLE'', ''TIMEOUT'', ''ERROR''])"
proof -
  define scans where "scans = kind_count e ''USB_SCAN_RESULT'' selected"
  define threats where "threats = length (filter (\<lambda>d. is_scan d \<and> dget d ''state'' = VStr ''THREAT'') selected)"
  define unavailable where "unavailable = length (filter (\<lambda>d. is_scan d \<and> str_in (dget d ''state'') [''UNAVAILABLE'', ''TIMEOUT'', ''ERROR'']) selected)"
  have w: "''Weekly security summary'' \<noteq> clean_line" by (simp add: clean_line_def)
  have cl: "clean_line \<notin> set (count_line n t)" if "\<And>n. nat_str n @ t \<noteq> clean_line" for n t
    using that [of n] by (auto simp: count_line_def)
  have "malware_line scans threats unavailable = clean_line"
    using assms w cl [OF clean_line_not_others(1)] cl [OF clean_line_not_others(2)] cl [OF clean_line_not_others(3)] cl [OF clean_line_not_others(4)]
    by (auto simp: summary_lines_def Let_def scans_def threats_def unavailable_def split: if_splits)
  then have z: "scans \<noteq> 0" "threats = 0" "unavailable = 0"
    using clean_line_not_others(5) by (auto simp: malware_line_def clean_line_def split: if_splits)
  from z(1) have "\<exists>d \<in> set selected. py_str e (dget d ''kind'') = ''USB_SCAN_RESULT''"
    by (auto simp: scans_def kind_count_def filter_empty_conv)
  moreover have "\<not> str_in (dget d ''state'') [''THREAT'', ''UNAVAILABLE'', ''TIMEOUT'', ''ERROR'']" if "d \<in> set selected" "is_scan d" for d
    using z(2,3) that by (auto simp: threats_def unavailable_def filter_empty_conv str_in_iff)
  ultimately show ?thesis by blast
qed

text \<open>
  C39: The summary claims a clean result only with evidence. The line that says no known malware was
  detected appears only when a scan of the week is among the counted events and none of the counted
  scans found a threat or failed; no event is counted twice and at most 64 are counted.
\<close>

theorem clean_claim_has_evidence:
  assumes "weekly_summary e parse end_time events = Inr wk" and "clean_line \<in> set (wk_lines wk)"
  shows "(\<exists>d \<in> set (bounded_events parse end_time events). VDict d \<in> set events \<and> in_window parse end_time d \<and> py_str e (dget d ''kind'') = ''USB_SCAN_RESULT'')
    \<and> (\<forall>d \<in> set (bounded_events parse end_time events). is_scan d \<longrightarrow> \<not> str_in (dget d ''state'') [''THREAT'', ''UNAVAILABLE'', ''TIMEOUT'', ''ERROR''])
    \<and> distinct (map event_name (bounded_events parse end_time events)) \<and> wk_evidence wk \<le> 64"
proof -
  define selected where "selected = bounded_events parse end_time events"
  obtain lines where l: "summary_lines e selected = Inr lines" and t: "wk_lines wk = take MAX_LINES lines" and n: "wk_evidence wk = length selected"
    using assms(1) by (auto simp: weekly_summary_def Let_def selected_def py_bind_eq_Inr)
  have "clean_line \<in> set lines" using assms(2) unfolding t by (rule in_set_takeD)
  note claim = clean_line_claim [OF l this]
  have "set selected \<subseteq> {d. VDict d \<in> set events \<and> in_window parse end_time d} \<and> distinct (map event_name selected)"
    using select_events_ok [of parse end_time "[]" events]
    by (auto simp: selected_def bounded_events_def take_map [symmetric] dest: in_set_takeD)
  then show ?thesis
    using claim n by (auto simp: selected_def bounded_events_def SUMMARY_MAX_EVENTS_def)
qed

definition demo_scan :: dict where
  "demo_scan = [(''event_id'', VStr ''a''), (''occurred_at'', VStr ''t''), (''kind'', VStr ''USB_SCAN_RESULT''), (''state'', VStr ''CLEAN'')]"

theorem clean_claim_has_evidence_witness:
  "\<forall>e. \<exists>wk. weekly_summary e (\<lambda>s. Some 0) 0 [VDict demo_scan] = Inr wk \<and> clean_line \<in> set (wk_lines wk) \<and> wk_evidence wk \<le> 64"
proof
  fix e :: env
  have s: "bounded_events (\<lambda>s. Some 0) 0 [VDict demo_scan] = [demo_scan]"
    by (simp add: bounded_events_def event_name_def demo_scan_def in_window_def parse_time_def week_seconds_def SUMMARY_MAX_EVENTS_def)
  have "kind_count e k [demo_scan] = (if k = ''USB_SCAN_RESULT'' then 1 else 0)" for k
    by (simp add: kind_count_def demo_scan_def)
  then have "\<exists>wk. weekly_summary e (\<lambda>s. Some 0) 0 [VDict demo_scan] = Inr wk \<and> clean_line \<in> set (wk_lines wk)"
    by (simp add: weekly_summary_def Let_def s summary_lines_def count_line_def malware_line_def MAX_LINES_def py_bind_def)
       (simp add: demo_scan_def hashable_def)
  then obtain wk where wk: "weekly_summary e (\<lambda>s. Some 0) 0 [VDict demo_scan] = Inr wk" "clean_line \<in> set (wk_lines wk)" by blast
  from clean_claim_has_evidence [OF this] wk
  show "\<exists>wk. weekly_summary e (\<lambda>s. Some 0) 0 [VDict demo_scan] = Inr wk \<and> clean_line \<in> set (wk_lines wk) \<and> wk_evidence wk \<le> 64" by blast
qed

text \<open>
  Once 64 events are counted, the summary does not depend on what follows them, not even on a scan
  that found a threat.
\<close>

lemma summary_ignores_later_events:
  assumes "SUMMARY_MAX_EVENTS \<le> length (select_events_from parse end_time [] xs)"
  shows "weekly_summary e parse end_time (xs @ ys) = weekly_summary e parse end_time xs"
proof -
  obtain seen where "select_events_from parse end_time [] (xs @ ys) = select_events_from parse end_time [] xs @ select_events_from parse end_time seen ys"
    using select_events_append by blast
  then show ?thesis using assms by (simp add: weekly_summary_def bounded_events_def)
qed

end
