(* ===== verification/Findings.thy ===== *)
theory Findings
  imports Py_Clean
begin

text \<open>
  \<open>findings.py\<close> and \<open>aggregation.py\<close>: the rules that turn an event or a device into a finding, and the
  digest that both user interfaces show.
\<close>

section \<open>Findings\<close>

text \<open>The value if it is a mapping, else an empty one.\<close>

definition mapping_or_empty :: "val \<Rightarrow> dict" where
  "mapping_or_empty v = (case v of VDict d \<Rightarrow> d | _ \<Rightarrow> [])"

definition event_kind :: "string \<Rightarrow> string" where
  "event_kind category = (if category = ''UPDATE'' then ''UPDATE_FAILURE'' else if category = ''RECOVERY'' then ''RECOVERY_FAILURE''
     else if category = ''SERVICE'' then ''SERVICE_FAILURE'' else ''CAPABILITY_FAILURE'')"

definition event_subject :: "env \<Rightarrow> dict \<Rightarrow> string" where
  "event_subject e item = (let c = mapping_or_empty (dget item ''correlation'');
       s = clean e (py_or (py_or (py_or (dget c ''unit'') (dget c ''operation_id'')) (dget c ''transaction_id'')) (dget item ''component'')) 160 in
     if s = [] then ''unknown'' else s)"

definition event_finding :: "env \<Rightarrow> dict \<Rightarrow> dict option" where
  "event_finding e item =
    (let outcome = py_upper (clean e (py_or (dget item ''outcome'') (dget item ''state'')) 32);
         category = py_upper (clean e (dget item ''category'') 48);
         event_type = py_upper (clean e (py_or (dget item ''event_type'') (dget item ''kind'')) 96) in
     if outcome \<notin> set [''FAILURE'', ''FAILED'', ''ERROR'']
        \<or> category \<notin> set [''SERVICE'', ''UPDATE'', ''RECOVERY'', ''CAPABILITY'', ''CONFIGURATION''] then None
     else let subject = event_subject e item; kind = event_kind category;
              details = mapping_or_empty (dget item ''details''); summary = clean e (dget details ''error'') 240 in
       Some [(''finding_id'', VStr (py_lower kind @ '':'' @ subject)), (''kind'', VStr kind), (''subject_key'', VStr subject),
         (''state'', VStr ''UNRESOLVED''), (''severity'', VStr ''ERROR''),
         (''title'', VStr (py_title (replace_char (CHR ''_'') (CHR '' '') event_type))),
         (''summary'', VStr (if summary = [] then ''A security operation failed.'' else summary)),
         (''destination'', VStr (if category = ''UPDATE'' then ''updates'' else if category = ''RECOVERY'' then ''devices'' else ''overview'')),
         (''last_seen'', VStr (clean e (dget item ''occurred_at'') 64)),
         (''evidence'', VList [VStr (clean e (dget item ''event_id'') 96)])])"

definition external_class :: "env \<Rightarrow> dict \<Rightarrow> bool" where
  "external_class e item \<longleftrightarrow> startswith (py_upper (clean e (dget item ''device_class'') 48)) ''EXTERNAL_''"

definition device_finding :: "env \<Rightarrow> dict \<Rightarrow> dict option" where
  "device_finding e item =
    (let identity = clean e (dget item ''identity_id'') 96;
         trusted = (truthy (dget item ''trusted'') \<or> truthy (dget item ''reviewed''));
         attached = truthy (dget item ''connected'') in
     if \<not> external_class e item \<or> identity = [] then None
     else Some [(''finding_id'', VStr (''device-unknown:'' @ identity)), (''kind'', VStr ''UNKNOWN_EXTERNAL_DEVICE''),
       (''subject_key'', VStr identity),
       (''state'', VStr (if trusted then ''RESOLVED'' else if attached then ''UNRESOLVED'' else ''HISTORY_ONLY'')),
       (''severity'', VStr ''WARNING''), (''title'', VStr ''Unknown external device''),
       (''summary'', VStr (if attached \<and> \<not> trusted then ''Review this connected external device.''
          else ''The device is retained as recent history.'')),
       (''destination'', VStr ''devices''), (''first_seen'', VStr (clean e (dget item ''first_seen'') 64)),
       (''last_seen'', VStr (clean e (dget item ''last_seen'') 64)),
       (''resolved_at'', if trusted then VStr (clean e (dget item ''last_seen'') 64) else VNone),
       (''evidence'', VList (if truthy (dget item ''last_event_id'') then [VStr (clean e (dget item ''last_event_id'') 96)] else []))])"

section \<open>The digest\<close>

definition IMPORTANT_TYPES :: "string list" where
  "IMPORTANT_TYPES = [''SENSITIVE_ACCESS_BLOCKED'', ''CONTROL_STATE_CHANGE'', ''CONFIGURATION_CHANGE'', ''UPDATE_PHASE'',
     ''RECOVERY_POINT_CREATED'', ''RECOVERY_POINT_ASSOCIATED'', ''BACKUP_COMPLETED'', ''BACKUP_VERIFICATION'', ''SERVICE_FAILURE'',
     ''SERVICE_RESTART'', ''DEVICE_CONNECTED'', ''DEVICE_DISCONNECTED'', ''DEVICE_UNKNOWN'', ''USB_DEVICE_BLOCKED'']"

text \<open>
  \<open>parse\<close> stands for \<open>datetime.fromisoformat\<close> with a time without offset read as UTC. What does not
  parse counts as the first representable time.
\<close>

definition digest_time :: "env \<Rightarrow> (string \<Rightarrow> rat option) \<Rightarrow> val \<Rightarrow> rat" where
  "digest_time e parse v = (case parse (py_str e v) of Some t \<Rightarrow> t | None \<Rightarrow> - 62135596800)"

definition upper_text :: "env \<Rightarrow> val \<Rightarrow> nat \<Rightarrow> string" where
  "upper_text e v n = py_upper (clean e v n)"

definition event_summary :: "env \<Rightarrow> dict \<Rightarrow> dict" where
  "event_summary e item = [(''event_id'', VStr (clean e (dget item ''event_id'') 96)),
     (''occurred_at'', VStr (clean e (dget item ''occurred_at'') 64)), (''component'', VStr (clean e (dget item ''component'') 96)),
     (''category'', VStr (clean e (dget item ''category'') 48)),
     (''event_type'', VStr (clean e (py_or (dget item ''event_type'') (dget item ''kind'')) 96)),
     (''outcome'', VStr (upper_text e (py_or (dget item ''outcome'') (dget item ''state'')) 32)),
     (''severity'', VStr (upper_text e (py_or (dget item ''severity'') (VStr ''INFO'')) 24)),
     (''assessment'', VStr (upper_text e (py_or (dget item ''assessment'') (VStr ''NOTEWORTHY'')) 32)),
     (''title'', VStr (clean e (py_or (py_or (py_or (dget item ''title'') (dget item ''event_type'')) (dget item ''kind'')) (VStr ''Security activity'')) 140)),
     (''summary'', VStr (clean e (py_or (py_or (dget item ''summary'') (dget item ''detail'')) (VStr ''Recorded by GREYWARD.'')) 280))]"

definition device_row :: "dict \<Rightarrow> dict" where
  "device_row item = map (\<lambda>k. (k, dget item k)) [''identity_id'', ''name'', ''device_class'', ''first_seen'', ''last_seen'', ''connected'',
     ''identity_confidence'', ''state'']"

record device_digest =
  dd_state :: string
  dd_connected :: "nat option"
  dd_unknown :: "dict list"
  dd_unknown_count :: "nat option"

definition device_part :: "env \<Rightarrow> (string \<Rightarrow> rat option) \<Rightarrow> val \<Rightarrow> rat \<Rightarrow> device_digest py" where
  "device_part e parse device_state current =
    (let value = mapping_or_empty device_state;
         source = (let s = upper_text e (dget value ''source_state'') 32 in if s = [] then ''UNAVAILABLE'' else s) in
     py_bind (py_iter (dget_or value ''devices'' (VList []))) (\<lambda>items.
     let records = [d. VDict d \<leftarrow> items] in
     if source \<noteq> ''AVAILABLE'' then Inr \<lparr>dd_state = source, dd_connected = None, dd_unknown = [], dd_unknown_count = None\<rparr>
     else let external = filter (external_class e) records;
              unknown = filter (\<lambda>d. \<not> truthy (dget d ''trusted'') \<and> \<not> truthy (dget d ''reviewed'')
                \<and> current - 7 * 86400 \<le> digest_time e parse (dget d ''first_seen'')) external in
       Inr \<lparr>dd_state = ''AVAILABLE'', dd_connected = Some (length (filter (\<lambda>d. truthy (dget d ''connected'')) external)),
         dd_unknown = map device_row (take 32 unknown), dd_unknown_count = Some (length unknown)\<rparr>))"

definition is_important :: "env \<Rightarrow> dict \<Rightarrow> bool" where
  "is_important e item \<longleftrightarrow> upper_text e (py_or (dget item ''event_type'') (dget item ''kind'')) 96 \<in> set IMPORTANT_TYPES
     \<or> upper_text e (dget item ''assessment'') 32 \<in> set [''DEGRADED'', ''FAILED'', ''POTENTIALLY_SUSPICIOUS'']
     \<or> upper_text e (py_or (dget item ''outcome'') (dget item ''state'')) 32 \<in> set [''FAILURE'', ''FAILED'', ''ERROR'']"

text \<open>The events of the summary that the history does not have yet are added.\<close>

definition add_recent :: "dict list \<Rightarrow> val \<Rightarrow> dict list" where
  "add_recent events item = (case item of
       VDict d \<Rightarrow> if truthy (dget d ''event_id'') \<and> \<not> list_ex (\<lambda>x. py_eq (dget x ''event_id'') (dget d ''event_id'')) events
         then events @ [d] else events
     | _ \<Rightarrow> events)"

text \<open>\<open>sorted(xs, key=k, reverse=True)\<close>: descending, equal elements in their original order.\<close>

definition sorted_reverse :: "('a \<Rightarrow> 'b::linorder) \<Rightarrow> 'a list \<Rightarrow> 'a list" where
  "sorted_reverse k xs = rev (sort_key k (rev xs))"

definition recent_activity :: "env \<Rightarrow> (string \<Rightarrow> rat option) \<Rightarrow> dict list \<Rightarrow> dict list" where
  "recent_activity e parse events = take 16 (map (event_summary e) (filter (is_important e)
     (sorted_reverse (\<lambda>d. digest_time e parse (dget d ''occurred_at''))
       (sorted_reverse (\<lambda>d. py_str e (dget d ''event_id'')) events))))"

definition is_blocked_network :: "env \<Rightarrow> dict \<Rightarrow> bool" where
  "is_blocked_network e item \<longleftrightarrow> upper_text e (dget item ''category'') 32 = ''NETWORK'' \<and> upper_text e (dget item ''decision'') 24 = ''BLOCKED''"

record security_digest =
  sd_generated :: string
  sd_available :: bool
  sd_findings :: "dict list"
  sd_unresolved :: nat
  sd_recent :: "dict list"
  sd_devices :: device_digest
  sd_network_state :: string
  sd_blocked_recent :: nat

definition is_telemetry_error :: "exc \<Rightarrow> bool" where
  "is_telemetry_error x \<longleftrightarrow> (case x of OSError s \<Rightarrow> True | OtherError s \<Rightarrow> s = ''TelemetryError'' | _ \<Rightarrow> False)"

text \<open>
  \<open>build_security_digest\<close>. \<open>history\<close> and \<open>findings\<close> are the results of the telemetry store's \<open>query\<close>
  and \<open>list_findings\<close>.
\<close>

definition build_security_digest :: "env \<Rightarrow> (string \<Rightarrow> rat option) \<Rightarrow> rat \<Rightarrow> dict list py \<Rightarrow> dict list py
    \<Rightarrow> val \<Rightarrow> val \<Rightarrow> val \<Rightarrow> security_digest py" where
  "build_security_digest e parse current history findings summary network device_state =
     py_bind (py_catch (py_bind history (\<lambda>h. Inr (True, h))) is_telemetry_error (\<lambda>_. Inr (False, []))) (\<lambda>(ok, events0).
     py_bind (if is_dict summary then py_iter (dget_or (as_dict summary) ''recent_events'' (VList [])) else Inr []) (\<lambda>recent.
     let events = foldl add_recent events0 recent in
     py_bind (device_part e parse device_state current) (\<lambda>devices.
     py_bind (py_catch (if ok then py_bind findings (\<lambda>fs. Inr (True, fs)) else Inr (False, [])) is_telemetry_error (\<lambda>_. Inr (False, []))) (\<lambda>(ok', fs).
     let opensnitch = mapping_or_empty (dget (mapping_or_empty network) ''opensnitch'');
         state = upper_text e (dget opensnitch ''state'') 24 in
     Inr \<lparr>sd_generated = iso current, sd_available = ok', sd_findings = take 16 fs, sd_unresolved = length fs,
       sd_recent = recent_activity e parse events, sd_devices = devices,
       sd_network_state = (if state = [] then ''UNAVAILABLE'' else state),
       sd_blocked_recent = length (filter (is_blocked_network e) events)\<rparr>))))"

section \<open>Properties\<close>

text \<open>The field of a finding.\<close>

lemma event_finding_Some:
  assumes "event_finding e item = Some f"
  shows "dget f ''state'' = VStr ''UNRESOLVED''"
    "\<exists>kind subject. dget f ''finding_id'' = VStr (py_lower kind @ '':'' @ subject) \<and> dget f ''kind'' = VStr kind \<and> dget f ''subject_key'' = VStr subject
      \<and> subject \<noteq> [] \<and> length subject \<le> 160"
    "upper_text e (dget item ''category'') 48 \<noteq> ''NETWORK''"
proof -
  have "event_subject e item \<noteq> [] \<and> length (event_subject e item) \<le> 160"
    using cleaned.filter_bound by (auto simp: event_subject_def Let_def)
  then show "dget f ''state'' = VStr ''UNRESOLVED''"
    "\<exists>kind subject. dget f ''finding_id'' = VStr (py_lower kind @ '':'' @ subject) \<and> dget f ''kind'' = VStr kind \<and> dget f ''subject_key'' = VStr subject
      \<and> subject \<noteq> [] \<and> length subject \<le> 160"
    "upper_text e (dget item ''category'') 48 \<noteq> ''NETWORK''"
    using assms by (auto simp: event_finding_def upper_text_def Let_def split: if_splits)
qed

end
