(* ===== verification/Scan_Cache.thy ===== *)
theory Scan_Cache
  imports Py_Clean Findings
begin

text \<open>
  \<open>scan_cache.py\<close>: receipts of file scans. A receipt describes the bytes that were scanned through a
  fingerprint of the whole tree; it is honoured only while the tree and the definitions are the same.
\<close>

section \<open>The fingerprint of a tree\<close>

definition MAX_TREE_ENTRIES :: nat where "MAX_TREE_ENTRIES = 4096"

definition POLICY_GENERATION :: string where "POLICY_GENERATION = ''scope-1''"

definition generation :: "env \<Rightarrow> dict \<Rightarrow> string option" where
  "generation e info = (if \<not> truthy (dget info ''engine_version'') \<or> \<not> truthy (dget info ''database_version'') then None
     else Some (join ''|'' [POLICY_GENERATION, py_str e (dget info ''engine_version''), py_str e (dget info ''database_version'')]))"

datatype file_kind = Symlink | Regular | Directory | Special

record file_meta =
  fm_kind :: file_kind
  fm_dev :: int
  fm_ino :: int
  fm_mode :: int
  fm_size :: int
  fm_mtime :: int
  fm_ctime :: int

text \<open>The file system as the code sees it: \<open>None\<close> where the call raises \<open>OSError\<close>.\<close>

record filesystem =
  fs_lstat :: "string \<Rightarrow> file_meta option"
  fs_children :: "string \<Rightarrow> string list option"

text \<open>One hashed line: the path relative to the parent of the root, and the metadata.\<close>

definition entry_line :: "env \<Rightarrow> string \<Rightarrow> file_meta \<Rightarrow> string" where
  "entry_line e relative m = json_dumps e '', '' '': '' (VList [VStr relative, VInt (fm_dev m), VInt (fm_ino m), VInt (fm_mode m),
     VInt (fm_size m), VInt (fm_mtime m), VInt (fm_ctime m)])"

type_synonym visit = "string \<times> string"

definition child_visit :: "visit \<Rightarrow> string \<Rightarrow> visit" where
  "child_visit v name = (fst v @ ''/'' @ name, snd v @ ''/'' @ name)"

text \<open>
  The loop. The stack holds the entries still to visit, next one first; each has its full and its
  relative path. The result lists the visited entries with their metadata.
\<close>

function walk :: "filesystem \<Rightarrow> visit list \<Rightarrow> nat \<Rightarrow> (visit \<times> file_meta) list option" where
  "walk fs [] seen = Some []"
| "walk fs (v # stack) seen = (case fs_lstat fs (fst v) of
       None \<Rightarrow> None
     | Some m \<Rightarrow>
         if fm_kind m = Symlink \<or> fm_kind m = Special then None
         else if MAX_TREE_ENTRIES < Suc seen then None
         else if fm_kind m = Directory
         then (case fs_children fs (fst v) of
             None \<Rightarrow> None
           | Some names \<Rightarrow> if MAX_TREE_ENTRIES < length names + Suc seen then None
               else map_option (\<lambda>es. (v, m) # es) (walk fs (map (child_visit v) (sort names) @ stack) (Suc seen)))
         else map_option (\<lambda>es. (v, m) # es) (walk fs stack (Suc seen)))"
  by pat_completeness auto

termination
  by (relation "measure (\<lambda>(fs, stack, seen). Suc MAX_TREE_ENTRIES - seen)") auto

text \<open>\<open>fingerprint\<close>: \<open>path\<close> is the root and \<open>name\<close> its last component.\<close>

definition tree_fingerprint :: "env \<Rightarrow> filesystem \<Rightarrow> string \<Rightarrow> string \<Rightarrow> string option" where
  "tree_fingerprint e fs path name = map_option (\<lambda>es. env_sha256 e (concat (map (\<lambda>(v, m). entry_line e (snd v) m) es)))
     (walk fs [(path, name)] 0)"

section \<open>Receipts\<close>









section \<open>The walk covers the tree\<close>

lemma walk_step:
  assumes "walk fs (v # stack) seen = Some es"
  obtains m es' where "fs_lstat fs (fst v) = Some m" "es = (v, m) # es'" "fm_kind m = Regular \<or> fm_kind m = Directory" "Suc seen \<le> MAX_TREE_ENTRIES"
    "fm_kind m = Directory \<Longrightarrow> \<exists>names. fs_children fs (fst v) = Some names \<and> walk fs (map (child_visit v) (sort names) @ stack) (Suc seen) = Some es'"
    "fm_kind m = Regular \<Longrightarrow> walk fs stack (Suc seen) = Some es'"
proof -
  from assms obtain m where m: "fs_lstat fs (fst v) = Some m" "fm_kind m \<noteq> Symlink" "fm_kind m \<noteq> Special" "Suc seen \<le> MAX_TREE_ENTRIES"
    by (auto split: option.splits if_splits)
  show thesis
  proof (cases "fm_kind m")
    case Directory
    then show ?thesis using assms m that [of m] by (auto split: option.splits if_splits)
  next
    case Regular
    then show ?thesis using assms m that [of m] by (auto split: option.splits if_splits)
  qed (use m in auto)
qed

definition covers_tree :: "filesystem \<Rightarrow> (visit \<times> file_meta) list \<Rightarrow> bool" where
  "covers_tree fs es \<longleftrightarrow> (\<forall>(v, m) \<in> set es. fs_lstat fs (fst v) = Some m \<and> (fm_kind m = Regular \<or> fm_kind m = Directory)
     \<and> (fm_kind m = Directory \<longrightarrow> (\<exists>names. fs_children fs (fst v) = Some names \<and> (\<forall>n \<in> set names. child_visit v n \<in> fst ` set es))))"

lemma walk_covers:
  "walk fs stack seen = Some es \<Longrightarrow> covers_tree fs es \<and> set stack \<subseteq> fst ` set es \<and> (stack \<noteq> [] \<longrightarrow> length es + seen \<le> MAX_TREE_ENTRIES)"
proof (induction fs stack seen arbitrary: es rule: walk.induct)
  case (1 fs seen)
  then show ?case by (simp add: covers_tree_def)
next
  case (2 fs v stack seen)
  from "2.prems" show ?case
  proof (cases rule: walk_step)
    case (1 m es')
    have ih: "covers_tree fs es' \<and> set stack \<subseteq> fst ` set es' \<and> length es' + Suc seen \<le> MAX_TREE_ENTRIES
      \<and> (fm_kind m = Directory \<longrightarrow> (\<exists>names. fs_children fs (fst v) = Some names \<and> (\<forall>n \<in> set names. child_visit v n \<in> fst ` set es')))"
    proof (cases "fm_kind m = Directory")
      case True
      then obtain names where n: "fs_children fs (fst v) = Some names"
        "walk fs (map (child_visit v) (sort names) @ stack) (Suc seen) = Some es'" using 1(5) by blast
      then have "\<not> MAX_TREE_ENTRIES < length names + Suc seen"
        using "2.prems" 1(1) True by (auto split: if_splits)
      then have "covers_tree fs es' \<and> set (map (child_visit v) (sort names) @ stack) \<subseteq> fst ` set es'
        \<and> (map (child_visit v) (sort names) @ stack \<noteq> [] \<longrightarrow> length es' + Suc seen \<le> MAX_TREE_ENTRIES)"
        using "2.IH"(1) [OF 1(1) _ _ True n(1) _ n(2)] True 1(4) by auto
      then have c: "covers_tree fs es'" and sub: "child_visit v ` set names \<union> set stack \<subseteq> fst ` set es'"
        and l: "map (child_visit v) (sort names) @ stack \<noteq> [] \<longrightarrow> length es' + Suc seen \<le> MAX_TREE_ENTRIES" by simp_all
      have "length es' + Suc seen \<le> MAX_TREE_ENTRIES"
      proof (cases "map (child_visit v) (sort names) @ stack = []")
        case True
        then have "es' = []" using n(2) by simp
        then show ?thesis using 1(4) by simp
      qed (use l in blast)
      then show ?thesis using c sub n(1) by auto
    next
      case False
      then have r: "fm_kind m = Regular" using 1(3) by simp
      have "covers_tree fs es' \<and> set stack \<subseteq> fst ` set es' \<and> (stack \<noteq> [] \<longrightarrow> length es' + Suc seen \<le> MAX_TREE_ENTRIES)"
        using "2.IH"(2) [OF 1(1) _ _ False 1(6) [OF r]] r 1(4) by auto
      moreover have "es' = []" if "stack = []" using 1(6) [OF r] that by simp
      ultimately show ?thesis using r 1(4) by (cases "stack = []") simp_all
    qed
    then have "covers_tree fs es" using 1(1,2,3) by (fastforce simp: covers_tree_def)
    then show ?thesis using ih 1(2) by auto
  qed
qed

text \<open>
  The fingerprint is bounded and complete. On any file system, also a cyclic or endless one, it ends
  after at most 4,096 entries; if it gives a value, that is the hash of the metadata of the selected
  entry and of every child of every directory among them, none of which is a link or special file.
\<close>

theorem fingerprint_complete:
  assumes "tree_fingerprint e fs path name = Some d"
  shows "\<exists>es. d = env_sha256 e (concat (map (\<lambda>(v, m). entry_line e (snd v) m) es)) \<and> length es \<le> 4096
    \<and> (path, name) \<in> fst ` set es \<and> covers_tree fs es"
proof -
  from assms obtain es where w: "walk fs [(path, name)] 0 = Some es"
    and d: "d = env_sha256 e (concat (map (\<lambda>(v, m). entry_line e (snd v) m) es))" by (auto simp: tree_fingerprint_def)
  from walk_covers [OF w] d show ?thesis by (intro exI [of _ es]) (simp add: MAX_TREE_ENTRIES_def)
qed

definition demo_file :: file_meta where
  "demo_file = \<lparr>fm_kind = Regular, fm_dev = 1, fm_ino = 2, fm_mode = 3, fm_size = 4, fm_mtime = 5, fm_ctime = 6\<rparr>"

definition demo_fs :: filesystem where
  "demo_fs = \<lparr>fs_lstat = (\<lambda>p. Some (if p = ''/d'' then demo_file\<lparr>fm_kind := Directory\<rparr> else demo_file)), fs_children = (\<lambda>p. Some [''f''])\<rparr>"

theorem fingerprint_complete_witness:
  "\<forall>e. \<exists>d es. tree_fingerprint e demo_fs ''/d'' ''d'' = Some d \<and> length es \<le> 4096 \<and> (''/d'', ''d'') \<in> fst ` set es \<and> covers_tree demo_fs es"
proof
  fix e
  obtain d where d: "tree_fingerprint e demo_fs ''/d'' ''d'' = Some d"
    by (auto simp: tree_fingerprint_def demo_fs_def demo_file_def child_visit_def MAX_TREE_ENTRIES_def)
  from fingerprint_complete [OF d] d show "\<exists>d es. tree_fingerprint e demo_fs ''/d'' ''d'' = Some d \<and> length es \<le> 4096
    \<and> (''/d'', ''d'') \<in> fst ` set es \<and> covers_tree demo_fs es" by blast
qed

section \<open>A receipt is honoured only for what was scanned\<close>











end
