(* ===== verification/Network_Patterns.thy ===== *)
theory Network_Patterns
  imports Ip_Address Py_Clean
begin

text \<open>
  \<open>network_patterns.py\<close>: recognition of service sweeps in recorded connections. Every actor has one
  sliding window per destination (distinct ports) and per local prefix and service port (distinct hosts).
  The theorem compares the incremental windows with a declarative count over the whole history.
\<close>

section \<open>Address classes\<close>

text \<open>The properties of \<open>ipaddress\<close>; an IPv4-mapped address has those of the mapped address.\<close>

definition in_block :: "nat \<Rightarrow> nat \<Rightarrow> nat \<Rightarrow> nat \<Rightarrow> bool" where
  "in_block bits p block n \<longleftrightarrow> n div 2 ^ (bits - p) = block"

definition special_v4 :: "nat \<Rightarrow> bool" where
  "special_v4 n \<longleftrightarrow> in_block 32 8 127 n \<or> in_block 32 16 43518 n \<or> in_block 32 4 14 n \<or> n = 0 \<or> in_block 32 4 15 n"

text \<open>The reserved blocks as pairs of prefix length and leading bits.\<close>

definition RESERVED_V6 :: "(nat \<times> nat) list" where
  "RESERVED_V6 = [(8, 0), (8, 1), (7, 1), (6, 1), (5, 1), (4, 1), (3, 2), (3, 3), (3, 4), (3, 5), (3, 6),
     (4, 14), (5, 30), (6, 62), (9, 508)]"

definition special_v6 :: "nat \<Rightarrow> bool" where
  "special_v6 n \<longleftrightarrow> (if in_block 128 96 65535 n then special_v4 (n mod 2 ^ 32)
     else n = 1 \<or> in_block 128 10 1018 n \<or> in_block 128 8 255 n \<or> n = 0
       \<or> list_ex (\<lambda>(p, block). in_block 128 p block n) RESERVED_V6)"

fun special_address :: "ipaddr \<Rightarrow> bool" where
  "special_address (IPv4 n) = special_v4 n"
| "special_address (IPv6 n z) = special_v6 n"

section \<open>Normalized observations\<close>

definition SOURCES :: "string list" where
  "SOURCES = [''opensnitch'', ''opensnitch-statistics'', ''greyward-policy'', ''opensnitch-stats'', ''opensnitch-notification'']"

definition MAX_RECORDS :: nat where "MAX_RECORDS = 4096"

definition PATTERN_WINDOW :: rat where "PATTERN_WINDOW = 60"

definition SERVICE_PORTS :: "int list" where
  "SERVICE_PORTS = [21, 22, 23, 135, 139, 445, 1433, 2375, 3306, 3389, 5432, 5900, 6379, 9200, 27017]"

text \<open>
  An actor is a kernel process instance or an application of a user. The user of an instance is any
  value of the record; tuples with equal components are one key, hence its canonical form.
\<close>

datatype actor = Instance string val | Application string int

record observation =
  ob_id :: string
  ob_time :: rat
  ob_actors :: "actor list"
  ob_address :: string
  ob_port :: int
  ob_protocol :: string
  ob_subnet :: string

definition is_process_key :: "val \<Rightarrow> bool" where
  "is_process_key v \<longleftrightarrow> is_str v \<and> length (as_str v) = 40 \<and> list_all is_hex_lower (as_str v)"

definition is_application :: "val \<Rightarrow> val \<Rightarrow> bool" where
  "is_application executable uid \<longleftrightarrow> is_str executable \<and> startswith (as_str executable) ''/''
     \<and> (case uid of VInt i \<Rightarrow> 0 \<le> i | _ \<Rightarrow> False)"

definition event_actors :: "val \<Rightarrow> val \<Rightarrow> val \<Rightarrow> actor list" where
  "event_actors key executable uid =
    (if is_process_key key then [Instance (as_str key) (canon uid)] else [])
    @ (if is_application executable uid then [Application (as_str executable) (as_int uid)] else [])"

text \<open>\<open>repr\<close> of the tuple that names an event without identifier.\<close>

definition repr_tuple :: "string list \<Rightarrow> string" where
  "repr_tuple parts = ''('' @ join '', '' parts @ '')''"

definition event_digest :: "env \<Rightarrow> val \<Rightarrow> val \<Rightarrow> val \<Rightarrow> rat \<Rightarrow> string \<Rightarrow> int \<Rightarrow> string \<Rightarrow> val \<Rightarrow> string" where
  "event_digest e key executable uid when address port protocol decision = env_sha256 e (repr_tuple [
     (if is_process_key key then repr_tuple [repr_str ''instance'', py_repr e key, py_repr e uid]
      else repr_tuple [repr_str ''application'', py_repr e executable, py_repr e uid]),
     py_repr e (VFloat (Fin when)), repr_str address, int_str port, repr_str protocol, py_repr e decision])"

definition subnet_of :: "ipaddr \<Rightarrow> string option" where
  "subnet_of a = map_option net_str (ip_network (ip_str a @ (if ip_version a = 4 then ''/24'' else ''/64'')))"

definition lookup_or_details :: "dict \<Rightarrow> val \<Rightarrow> string \<Rightarrow> val py" where
  "lookup_or_details event details k = (if truthy (dget event k) then Inr (dget event k) else py_get details k)"

text \<open>
  \<open>normalized\<close>. \<open>event_time\<close> stands for the reading of a timestamp. Every producer writes the identifier
  as a text; another truthy value is outside the model.
\<close>

definition observe_event :: "env \<Rightarrow> dict \<Rightarrow> dict \<Rightarrow> rat \<Rightarrow> ipaddr \<Rightarrow> int \<Rightarrow> string \<Rightarrow> val \<Rightarrow> observation option py" where
  "observe_event e event dest when address port protocol decision =
    (let details = py_or (dget event ''details'') (VDict []); uid = dget event ''actor_uid'' in
     py_bind (lookup_or_details event details ''executable'') (\<lambda>executable.
     py_bind (lookup_or_details event details ''process_key'') (\<lambda>key.
       if event_actors key executable uid = [] then Inr None
       else py_bind (case dget event ''event_id'' of
           VStr s \<Rightarrow> Inr (if s = [] then event_digest e key executable uid when (ip_str address) port protocol decision else s)
         | v \<Rightarrow> if truthy v then Inl (OtherError ''event_id'')
             else Inr (event_digest e key executable uid when (ip_str address) port protocol decision)) (\<lambda>ident.
         case subnet_of address of
           None \<Rightarrow> Inl (ValueError ''network'')
         | Some subnet \<Rightarrow> Inr (Some \<lparr>ob_id = ident, ob_time = when, ob_actors = event_actors key executable uid,
             ob_address = ip_str address, ob_port = port, ob_protocol = protocol, ob_subnet = subnet\<rparr>)))))"

definition normalized :: "env \<Rightarrow> (val \<Rightarrow> rat option) \<Rightarrow> val \<Rightarrow> observation option py" where
  "normalized e event_time v = (case v of
       VDict event \<Rightarrow>
         if \<not> hashable (dget event ''source'') then Inl TypeError
         else if \<not> str_in (dget event ''source'') SOURCES then Inr None
         else (case py_or (dget event ''destination'') (VDict []) of
             VDict dest \<Rightarrow>
               let port = dget_or dest ''port'' (dget event ''port'');
                   protocol = removesuffix (py_lower (py_str e (py_or (dget event ''protocol'') (VStr [])))) ''6'';
                   decision = dget_or event ''decision'' (dget event ''outcome'') in
               (case (ip_address_val (py_or (dget dest ''ip'') (VStr [])), event_time (dget event ''occurred_at''), port) of
                  (None, _, _) \<Rightarrow> Inr None
                | (Some address, Some when, VInt p) \<Rightarrow>
                    if protocol \<notin> set [''tcp'', ''udp''] \<or> p < 1 \<or> 65535 < p then Inr None
                    else if \<not> hashable decision then Inl TypeError
                    else if \<not> str_in decision [''ALLOWED'', ''BLOCKED''] then Inr None
                    else if special_address address then Inr None
                    else observe_event e event dest when address p protocol decision
                | _ \<Rightarrow> Inr None)
           | _ \<Rightarrow> Inr None)
     | _ \<Rightarrow> Inr None)"

section \<open>Windows\<close>

datatype target = Port int | Host string

datatype group = Vertical actor string | Horizontal actor string int

fun group_actor :: "group \<Rightarrow> actor" where
  "group_actor (Vertical a d) = a" | "group_actor (Horizontal a s p) = a"

fun group_target :: "group \<Rightarrow> observation \<Rightarrow> target" where
  "group_target (Vertical a d) e = Port (ob_port e)"
| "group_target (Horizontal a s p) e = Host (ob_address e)"

fun threshold :: "group \<Rightarrow> nat" where
  "threshold (Vertical a d) = 12" | "threshold (Horizontal a s p) = 16"

definition observation_groups :: "observation \<Rightarrow> group list" where
  "observation_groups e = concat (map (\<lambda>a. Vertical a (ob_address e)
     # (if ob_port e \<in> set SERVICE_PORTS then [Horizontal a (ob_subnet e) (ob_port e)] else [])) (ob_actors e))"

text \<open>A window: the observations of the last minute, oldest first, and how often each target occurs.\<close>

type_synonym window = "(rat \<times> target) list \<times> (target \<times> nat) list"

definition forget_target :: "target \<Rightarrow> (target \<times> nat) list \<Rightarrow> (target \<times> nat) list" where
  "forget_target t counts = (case map_of counts t of
       Some (Suc (Suc n)) \<Rightarrow> AList.update t (Suc n) counts
     | _ \<Rightarrow> AList.delete t counts)"

fun expire_window :: "rat \<Rightarrow> window \<Rightarrow> window" where
  "expire_window limit ([], counts) = ([], counts)"
| "expire_window limit ((t, x) # queue, counts) =
     (if t < limit then expire_window limit (queue, forget_target x counts) else ((t, x) # queue, counts))"

definition add_target :: "rat \<Rightarrow> target \<Rightarrow> window \<Rightarrow> window" where
  "add_target t x w = (fst w @ [(t, x)], AList.update x (case map_of (snd w) x of None \<Rightarrow> 1 | Some n \<Rightarrow> Suc n) (snd w))"

definition slide :: "observation \<Rightarrow> group \<Rightarrow> window \<Rightarrow> window" where
  "slide e g w = add_target (ob_time e) (group_target g e) (expire_window (ob_time e - PATTERN_WINDOW) w)"

record factor =
  fa_code :: string
  fa_points :: int
  fa_explanation :: string
  fa_observations :: nat
  fa_distinct :: nat
  fa_kernel :: bool
  fa_first :: rat
  fa_last :: rat

definition is_instance :: "group \<Rightarrow> bool" where
  "is_instance g = (case group_actor g of Instance k u \<Rightarrow> True | Application x u \<Rightarrow> False)"

definition sweep_text :: "group \<Rightarrow> nat \<Rightarrow> int \<Rightarrow> string" where
  "sweep_text g n port = (case g of
       Vertical a d \<Rightarrow> nat_str n @ '' distinct TCP service ports on one destination''
     | Horizontal a s p \<Rightarrow> nat_str n @ '' destinations in one local network prefix on TCP port '' @ int_str port)
     @ (if is_instance g then [] else '' across observed instances of the same application and user'')
     @ '' within 60 seconds. This resembles service discovery; an authorized scanner may be legitimate.''"

definition group_factor :: "observation \<Rightarrow> group \<Rightarrow> rat list \<Rightarrow> nat \<Rightarrow> factor list" where
  "group_factor e g ts n = (if n < threshold g then []
     else [\<lparr>fa_code = (case g of Vertical a d \<Rightarrow> ''SERVICE_PORT_SWEEP'' | Horizontal a s p \<Rightarrow> ''SERVICE_HOST_SWEEP''),
       fa_points = 35, fa_explanation = sweep_text g n (ob_port e), fa_observations = length ts, fa_distinct = n,
       fa_kernel = is_instance g, fa_first = hd ts, fa_last = ob_time e\<rparr>])"

text \<open>\<open>max\<close> over the factors: the first one with the largest key.\<close>

definition factor_less :: "factor \<Rightarrow> factor \<Rightarrow> bool" where
  "factor_less f g \<longleftrightarrow> fa_distinct f < fa_distinct g \<or> (fa_distinct f = fa_distinct g \<and> \<not> fa_kernel f \<and> fa_kernel g)"

fun best_factor :: "factor list \<Rightarrow> factor option" where
  "best_factor [] = None"
| "best_factor (f # fs) = Some (foldl (\<lambda>b x. if factor_less b x then x else b) f fs)"

type_synonym windows = "group \<Rightarrow> window"

definition slide_group :: "observation \<Rightarrow> windows \<times> factor list \<Rightarrow> group \<Rightarrow> windows \<times> factor list" where
  "slide_group e acc g = (let w = slide e g (fst acc g) in
     ((fst acc)(g := w), snd acc @ group_factor e g (map fst (fst w)) (length (snd w))))"

definition evaluate_step :: "windows \<times> (string \<times> factor) list \<Rightarrow> observation \<Rightarrow> windows \<times> (string \<times> factor) list" where
  "evaluate_step st e = (if ob_protocol e \<noteq> ''tcp'' then st
     else let (ws, factors) = foldl (slide_group e) (fst st, []) (observation_groups e) in
       (ws, case best_factor factors of None \<Rightarrow> snd st | Some f \<Rightarrow> AList.update (ob_id e) f (snd st)))"

definition evaluate_ordered :: "observation list \<Rightarrow> (string \<times> factor) list" where
  "evaluate_ordered es = snd (foldl evaluate_step (\<lambda>g. ([], []), []) es)"

text \<open>The last 4,096 records, one per identifier, in the order of time and identifier.\<close>

definition ordered_observations :: "env \<Rightarrow> (val \<Rightarrow> rat option) \<Rightarrow> val list \<Rightarrow> observation list py" where
  "ordered_observations e event_time events = py_bind (py_map (normalized e event_time) (drop (length events - MAX_RECORDS) events))
     (\<lambda>values. Inr (sort_key (\<lambda>x. (ob_time x, ob_id x))
        (map snd (foldl (\<lambda>unique v. case v of None \<Rightarrow> unique | Some x \<Rightarrow> AList.update (ob_id x) x unique) [] values))))"

definition hashable_actor :: "actor \<Rightarrow> bool" where
  "hashable_actor a = (case a of Instance k u \<Rightarrow> hashable u | Application x u \<Rightarrow> True)"

text \<open>An instance whose user is a list or dictionary cannot be a key of the windows.\<close>

definition evaluate :: "env \<Rightarrow> (val \<Rightarrow> rat option) \<Rightarrow> val list \<Rightarrow> (string \<times> factor) list py" where
  "evaluate e event_time events = py_bind (ordered_observations e event_time events) (\<lambda>es.
     if list_ex (\<lambda>x. ob_protocol x = ''tcp'' \<and> list_ex (\<lambda>a. \<not> hashable_actor a) (ob_actors x)) es then Inl TypeError
     else Inr (evaluate_ordered es))"

section \<open>A window is the history of the last minute\<close>

definition counts_ok :: "(rat \<times> target) list \<Rightarrow> (target \<times> nat) list \<Rightarrow> bool" where
  "counts_ok queue counts \<longleftrightarrow> distinct (map fst counts)
     \<and> (\<forall>x. map_of counts x = (let n = count_list (map snd queue) x in if n = 0 then None else Some n))"

lemma counts_ok_forget:
  assumes "counts_ok ((t, x) # queue) counts"
  shows "counts_ok queue (forget_target x counts)"
proof -
  have m: "map_of counts y = (let n = count_list (x # map snd queue) y in if n = 0 then None else Some n)" for y
    using assms by (simp add: counts_ok_def)
  have d: "distinct (map fst counts)" using assms by (simp add: counts_ok_def)
  show ?thesis
  proof (cases "count_list (map snd queue) x")
    case 0
    then have "forget_target x counts = AList.delete x counts" using m [of x] by (simp add: forget_target_def)
    then show ?thesis using 0 m d by (simp add: counts_ok_def distinct_delete delete_conv' Let_def)
  next
    case (Suc n)
    then have "forget_target x counts = AList.update x (Suc n) counts" using m [of x] by (simp add: forget_target_def)
    then show ?thesis using Suc m d by (simp add: counts_ok_def distinct_update update_conv' Let_def)
  qed
qed

lemma expire_window_eq:
  "counts_ok queue counts \<Longrightarrow>
   fst (expire_window limit (queue, counts)) = dropWhile (\<lambda>p. fst p < limit) queue
   \<and> counts_ok (fst (expire_window limit (queue, counts))) (snd (expire_window limit (queue, counts)))"
  by (induction limit "(queue, counts)" arbitrary: queue counts rule: expire_window.induct)
    (auto dest: counts_ok_forget)

lemma counts_ok_add:
  assumes "counts_ok queue counts"
  shows "counts_ok (fst (add_target t x (queue, counts))) (snd (add_target t x (queue, counts)))"
proof -
  have m: "map_of counts y = (let n = count_list (map snd queue) y in if n = 0 then None else Some n)" for y
    using assms by (simp add: counts_ok_def)
  show ?thesis using assms m [of x]
    by (auto simp: counts_ok_def add_target_def distinct_update update_conv' Let_def split: if_splits)
qed

lemma counts_ok_length:
  assumes "counts_ok queue counts"
  shows "length counts = card (snd ` set queue)"
proof -
  have "set (map fst counts) = dom (map_of counts)" by (simp add: dom_map_of_conv_image_fst)
  also have "\<dots> = set (map snd queue)"
    using assms by (auto simp: counts_ok_def dom_def Let_def count_list_0_iff split: if_splits)
  finally have "set (map fst counts) = snd ` set queue" by simp
  moreover have "length counts = card (set (map fst counts))" using assms distinct_card [of "map fst counts"] by (simp add: counts_ok_def)
  ultimately show ?thesis by simp
qed

definition in_group :: "group \<Rightarrow> observation \<Rightarrow> bool" where
  "in_group g x \<longleftrightarrow> ob_protocol x = ''tcp'' \<and> g \<in> set (observation_groups x)"

definition group_history :: "observation list \<Rightarrow> group \<Rightarrow> (rat \<times> target) list" where
  "group_history es g = map (\<lambda>x. (ob_time x, group_target g x)) (filter (in_group g) es)"

definition recent_targets :: "observation list \<Rightarrow> observation \<Rightarrow> group \<Rightarrow> (rat \<times> target) list" where
  "recent_targets es e g = filter (\<lambda>p. ob_time e - 60 \<le> fst p) (group_history es g)"

text \<open>The queue is the history of the group without entries older than a minute before a processed one.\<close>

definition window_ok :: "observation list \<Rightarrow> group \<Rightarrow> window \<Rightarrow> bool" where
  "window_ok es g w \<longleftrightarrow> counts_ok (fst w) (snd w)
     \<and> (\<exists>old. group_history es g = old @ fst w \<and> (\<forall>p \<in> set old. \<exists>x \<in> set es. fst p < ob_time x - 60))"

lemma filter_dropWhile_sorted:
  "sorted (map fst xs) \<Longrightarrow> filter (\<lambda>p. l \<le> fst p) xs = dropWhile (\<lambda>p. fst p < l) xs" for l :: "'a::linorder"
proof (induction xs)
  case (Cons a xs)
  show ?case
  proof (cases "fst a < l")
    case False
    then have "\<forall>p \<in> set (a # xs). l \<le> fst p" using Cons.prems by fastforce
    then have "filter (\<lambda>p. l \<le> fst p) (a # xs) = a # xs" by (simp add: filter_id_conv del: filter.simps)
    then show ?thesis using False by simp
  qed (use Cons in simp)
qed simp

lemma group_history_sorted: "sorted (map ob_time es) \<Longrightarrow> sorted (map fst (group_history es g))"
  by (simp add: group_history_def o_def sorted_filter)

lemma slide_recent:
  assumes w: "window_ok es g w" and "sorted (map ob_time (es @ [e]))" and "in_group g e"
  shows "fst (slide e g w) = recent_targets (es @ [e]) e g" "window_ok (es @ [e]) g (slide e g w)"
proof -
  obtain queue counts where q: "w = (queue, counts)" by fastforce
  from w q obtain old where h: "group_history es g = old @ queue" and old: "\<forall>p \<in> set old. \<exists>x \<in> set es. fst p < ob_time x - 60"
    and c: "counts_ok queue counts" by (auto simp: window_ok_def)
  have le: "\<forall>x \<in> set es. ob_time x \<le> ob_time e" and s: "sorted (map ob_time es)" using assms(2) by (auto simp: sorted_append)
  then have gone: "\<forall>p \<in> set old. fst p < ob_time e - 60" using old by fastforce
  have sq: "sorted (map fst queue)" using group_history_sorted [OF s, of g] h by (simp add: sorted_append)
  let ?d = "dropWhile (\<lambda>p. fst p < ob_time e - 60) queue"
  have x: "fst (expire_window (ob_time e - 60) (queue, counts)) = ?d"
    "counts_ok ?d (snd (expire_window (ob_time e - 60) (queue, counts)))" using expire_window_eq [OF c, of "ob_time e - 60"] by auto
  have new: "group_history (es @ [e]) g = old @ queue @ [(ob_time e, group_target g e)]"
    using h assms(3) by (simp add: group_history_def)
  have "filter (\<lambda>p. ob_time e - 60 \<le> fst p) old = []" using gone by (auto simp: filter_empty_conv)
  then have "recent_targets (es @ [e]) e g = ?d @ [(ob_time e, group_target g e)]"
    using filter_dropWhile_sorted [OF sq, of "ob_time e - 60"] by (simp add: recent_targets_def new)
  then show r: "fst (slide e g w) = recent_targets (es @ [e]) e g"
    by (simp add: slide_def add_target_def q x PATTERN_WINDOW_def)
  have ok: "counts_ok (fst (slide e g w)) (snd (slide e g w))"
    using counts_ok_add [OF x(2), of "ob_time e" "group_target g e"] x(1)
    by (metis slide_def q PATTERN_WINDOW_def prod.collapse)
  have "fst (slide e g w) = ?d @ [(ob_time e, group_target g e)]" by (simp add: slide_def add_target_def q x PATTERN_WINDOW_def)
  moreover have "queue = takeWhile (\<lambda>p. fst p < ob_time e - 60) queue @ ?d" by simp
  ultimately have "group_history (es @ [e]) g = (old @ takeWhile (\<lambda>p. fst p < ob_time e - 60) queue) @ fst (slide e g w)"
    using new by simp
  moreover have "\<forall>p \<in> set (old @ takeWhile (\<lambda>p. fst p < ob_time e - 60) queue). \<exists>x \<in> set (es @ [e]). fst p < ob_time x - 60"
    using gone by (auto dest: set_takeWhileD)
  ultimately show "window_ok (es @ [e]) g (slide e g w)" using ok unfolding window_ok_def by blast
qed

lemma window_ok_other:
  assumes "window_ok es g w" "\<not> in_group g e"
  shows "window_ok (es @ [e]) g w"
proof -
  have "group_history (es @ [e]) g = group_history es g" using assms(2) by (simp add: group_history_def)
  then show ?thesis using assms(1) unfolding window_ok_def by auto
qed

lemma slide_groups:
  "distinct gs \<Longrightarrow> foldl (slide_group e) (ws, fs) gs =
    (\<lambda>g. if g \<in> set gs then slide e g (ws g) else ws g,
     fs @ concat (map (\<lambda>g. group_factor e g (map fst (fst (slide e g (ws g)))) (length (snd (slide e g (ws g))))) gs))"
proof (induction gs arbitrary: ws fs)
  case (Cons g gs)
  have "concat (map (\<lambda>h. group_factor e h (map fst (fst (slide e h ((ws(g := v)) h)))) (length (snd (slide e h ((ws(g := v)) h))))) gs)
    = concat (map (\<lambda>h. group_factor e h (map fst (fst (slide e h (ws h)))) (length (snd (slide e h (ws h))))) gs)" for v
    using Cons.prems by (intro arg_cong [where f = concat] map_cong) auto
  then show ?case using Cons by (auto simp: slide_group_def Let_def fun_eq_iff)
qed simp

lemma observation_groups_distinct: "distinct (ob_actors e) \<Longrightarrow> distinct (observation_groups e)"
proof -
  have "distinct as \<Longrightarrow> distinct (concat (map (\<lambda>a. Vertical a d # (if b then [Horizontal a s p] else [])) as))" for as d b s p
    by (induction as) auto
  then show "distinct (ob_actors e) \<Longrightarrow> distinct (observation_groups e)" by (simp add: observation_groups_def)
qed

section \<open>The reported sweeps\<close>

text \<open>
  The factors of an observation, counted over the whole history up to it: per group the distinct targets
  of all its TCP observations within the last 60 seconds.
\<close>

definition sweep_factors :: "observation list \<Rightarrow> observation \<Rightarrow> factor list" where
  "sweep_factors es e = (if ob_protocol e \<noteq> ''tcp'' then []
     else concat (map (\<lambda>g. group_factor e g (map fst (recent_targets es e g)) (card (snd ` set (recent_targets es e g))))
       (observation_groups e)))"

lemma evaluate_step_eq:
  assumes ok: "\<And>g. window_ok es g (ws g)" and s: "sorted (map ob_time (es @ [e]))" and d: "distinct (ob_actors e)"
  shows "\<exists>ws'. evaluate_step (ws, r) e
      = (ws', case best_factor (sweep_factors (es @ [e]) e) of None \<Rightarrow> r | Some f \<Rightarrow> AList.update (ob_id e) f r)
    \<and> (\<forall>g. window_ok (es @ [e]) g (ws' g))"
proof (cases "ob_protocol e = ''tcp''")
  case True
  have g: "in_group g e \<longleftrightarrow> g \<in> set (observation_groups e)" for g using True by (simp add: in_group_def)
  let ?ws = "\<lambda>g. if g \<in> set (observation_groups e) then slide e g (ws g) else ws g"
  have "group_factor e g (map fst (fst (slide e g (ws g)))) (length (snd (slide e g (ws g))))
    = group_factor e g (map fst (recent_targets (es @ [e]) e g)) (card (snd ` set (recent_targets (es @ [e]) e g)))"
    if "g \<in> set (observation_groups e)" for g
  proof -
    have "window_ok (es @ [e]) g (slide e g (ws g))" "fst (slide e g (ws g)) = recent_targets (es @ [e]) e g"
      using slide_recent [OF ok s] that g by auto
    then show ?thesis using counts_ok_length by (fastforce simp: window_ok_def)
  qed
  then have "concat (map (\<lambda>g. group_factor e g (map fst (fst (slide e g (ws g)))) (length (snd (slide e g (ws g))))) (observation_groups e))
    = sweep_factors (es @ [e]) e" using True by (simp add: sweep_factors_def cong: map_cong)
  then have "evaluate_step (ws, r) e = (?ws, case best_factor (sweep_factors (es @ [e]) e) of None \<Rightarrow> r | Some f \<Rightarrow> AList.update (ob_id e) f r)"
    using True slide_groups [OF observation_groups_distinct [OF d], of e ws "[]"]
    by (simp add: evaluate_step_def split: option.split)
  moreover have "window_ok (es @ [e]) g (?ws g)" for g
    using slide_recent(2) [OF ok s] window_ok_other [OF ok] g by auto
  ultimately show ?thesis by blast
next
  case False
  then have "window_ok (es @ [e]) g (ws g)" for g using window_ok_other [OF ok] by (simp add: in_group_def)
  then show ?thesis using False by (simp add: evaluate_step_def sweep_factors_def)
qed

lemma evaluate_run:
  assumes "sorted (map ob_time es)" "\<forall>e \<in> set es. distinct (ob_actors e)" "distinct (map ob_id es)"
  shows "\<exists>ws r. foldl evaluate_step (\<lambda>g. ([], []), []) es = (ws, r) \<and> (\<forall>g. window_ok es g (ws g))
    \<and> (\<forall>i. i \<notin> ob_id ` set es \<longrightarrow> map_of r i = None)
    \<and> (\<forall>pre e post. es = pre @ e # post \<longrightarrow> map_of r (ob_id e) = best_factor (sweep_factors (pre @ [e]) e))"
  using assms
proof (induction es rule: rev_induct)
  case Nil
  then show ?case by (simp add: window_ok_def counts_ok_def group_history_def)
next
  case (snoc e es)
  then obtain ws r where ih: "foldl evaluate_step (\<lambda>g. ([], []), []) es = (ws, r)" "\<And>g. window_ok es g (ws g)"
    "\<And>i. i \<notin> ob_id ` set es \<Longrightarrow> map_of r i = None"
    "\<And>pre x post. es = pre @ x # post \<Longrightarrow> map_of r (ob_id x) = best_factor (sweep_factors (pre @ [x]) x)"
    by (auto simp: sorted_append)
  have "distinct (ob_actors e)" using snoc.prems(2) by simp
  from evaluate_step_eq [OF ih(2) snoc.prems(1) this, of r] obtain ws' where
    st: "evaluate_step (ws, r) e = (ws', case best_factor (sweep_factors (es @ [e]) e) of None \<Rightarrow> r | Some f \<Rightarrow> AList.update (ob_id e) f r)"
    and ok: "\<And>g. window_ok (es @ [e]) g (ws' g)" by blast
  let ?r = "case best_factor (sweep_factors (es @ [e]) e) of None \<Rightarrow> r | Some f \<Rightarrow> AList.update (ob_id e) f r"
  have new: "ob_id e \<notin> ob_id ` set es" using snoc.prems(3) by auto
  have at: "map_of ?r (ob_id e) = best_factor (sweep_factors (es @ [e]) e)"
    using ih(3) [OF new] by (auto simp: update_conv' split: option.splits)
  have other: "map_of ?r i = map_of r i" if "i \<noteq> ob_id e" for i
    using that by (auto simp: update_conv' split: option.splits)
  have "map_of ?r (ob_id x) = best_factor (sweep_factors (pre @ [x]) x)" if "es @ [e] = pre @ x # post" for pre x post
  proof (cases post rule: rev_cases)
    case Nil
    then show ?thesis using that at by simp
  next
    case (snoc post' y)
    then have es: "es = pre @ x # post'" using that by simp
    then have "ob_id x \<noteq> ob_id e" using new by auto
    then show ?thesis using other ih(4) [OF es] by simp
  qed
  then show ?case using ih(1,3) st ok other by auto
qed

lemma event_actors_distinct: "distinct (event_actors key executable uid)"
  by (simp add: event_actors_def)

lemma observe_event_actors:
  "observe_event e event dest when address port protocol decision = Inr (Some x) \<Longrightarrow> distinct (ob_actors x)"
  by (auto simp: observe_event_def Let_def py_simps event_actors_distinct split: if_splits option.splits)

lemma normalized_actors: "normalized e event_time v = Inr (Some x) \<Longrightarrow> distinct (ob_actors x)"
  by (auto simp: normalized_def Let_def split: val.splits if_splits option.splits dest: observe_event_actors)

lemma unique_by_id:
  "\<forall>(i, x) \<in> set u. i = ob_id x \<Longrightarrow> distinct (map fst u) \<Longrightarrow>
   (let u' = foldl (\<lambda>unique v. case v of None \<Rightarrow> unique | Some x \<Rightarrow> AList.update (ob_id x) x unique) u values in
     (\<forall>(i, x) \<in> set u'. i = ob_id x) \<and> distinct (map fst u') \<and> snd ` set u' \<subseteq> snd ` set u \<union> {x. Some x \<in> set values})"
proof (induction "values" arbitrary: u)
  case (Cons v vs)
  show ?case
  proof (cases v)
    case None
    then show ?thesis using Cons by (auto simp: Let_def)
  next
    case (Some x)
    let ?u = "AList.update (ob_id x) x u"
    have sub: "set ?u \<subseteq> insert (ob_id x, x) (set u)" by (induction u) auto
    then have "\<forall>(i, x) \<in> set ?u. i = ob_id x" "distinct (map fst ?u)" using Cons.prems by (auto simp: distinct_update)
    note ih = Cons.IH [OF this]
    have "snd ` set ?u \<union> {x. Some x \<in> set vs} \<subseteq> snd ` set u \<union> {x. Some x \<in> set (v # vs)}" using sub Some by auto
    then show ?thesis using ih Some by (simp add: Let_def) (blast intro: subset_trans)
  qed
qed (auto simp: Let_def)

lemma ordered_observations_ok:
  assumes "ordered_observations e event_time events = Inr es"
  shows "sorted (map ob_time es)" "distinct (map ob_id es)" "\<forall>x \<in> set es. distinct (ob_actors x)"
proof -
  from assms obtain vs where v: "py_map (normalized e event_time) (drop (length events - MAX_RECORDS) events) = Inr vs"
    and es: "es = sort_key (\<lambda>x. (ob_time x, ob_id x))
      (map snd (foldl (\<lambda>unique v. case v of None \<Rightarrow> unique | Some x \<Rightarrow> AList.update (ob_id x) x unique) [] vs))"
    by (auto simp: ordered_observations_def py_simps)
  let ?u = "foldl (\<lambda>unique v. case v of None \<Rightarrow> unique | Some x \<Rightarrow> AList.update (ob_id x) x unique) [] vs"
  have u: "\<forall>(i, x) \<in> set ?u. i = ob_id x" "distinct (map fst ?u)" "snd ` set ?u \<subseteq> {x. Some x \<in> set vs}"
    using unique_by_id [of "[]" vs] by (simp_all add: Let_def)
  have "sorted (map (\<lambda>x. (ob_time x, ob_id x)) es)" by (simp add: es)
  then show "sorted (map ob_time es)" by (auto simp: sorted_iff_nth_mono less_eq_prod_def prod_le_def dest: order.strict_implies_order)
  have "map ob_id (map snd ?u) = map fst ?u" using u(1) by auto
  then have "card (ob_id ` set (map snd ?u)) = length ?u"
    using distinct_card [of "map ob_id (map snd ?u)"] u(2) by (metis length_map set_map)
  then have "card (set (map ob_id es)) = length (map ob_id es)" by (simp add: es)
  then show "distinct (map ob_id es)" by (rule card_distinct)
  show "\<forall>x \<in> set es. distinct (ob_actors x)"
  proof
    fix x assume "x \<in> set es"
    then have "Some x \<in> set vs" using u(3) by (auto simp: es)
    then obtain y where "normalized e event_time y = Inr (Some x)"
      using v by (auto simp: py_map_Inr_all2 list_all2_conv_all_nth in_set_conv_nth)
    then show "distinct (ob_actors x)" by (rule normalized_actors)
  qed
qed

text \<open>
  C17: Service sweeps. The incremental evaluation with its queues and counters reports for every
  observation exactly the factor that a count over the whole ordered history gives: the distinct targets
  of the same actor, destination (or prefix and service port) among the TCP observations of the last 60
  seconds, never later evidence, and nothing below 12 ports or 16 hosts.
\<close>

theorem sweeps_equal_history_count:
  assumes "ordered_observations e event_time events = Inr (pre @ x # post)"
    and "evaluate e event_time events = Inr result"
  shows "map_of result (ob_id x) = best_factor (sweep_factors (pre @ [x]) x)"
proof -
  note ok = ordered_observations_ok [OF assms(1)]
  have "result = evaluate_ordered (pre @ x # post)"
    using assms by (auto simp: evaluate_def py_simps split: if_splits)
  then show ?thesis using evaluate_run [OF ok(1,3,2)] by (auto simp: evaluate_ordered_def)
qed

definition demo_connection :: "nat \<Rightarrow> dict" where
  "demo_connection n = [(''source'', VStr ''opensnitch''), (''destination'', VDict [(''ip'', VStr ''10.0.0.1'')]), (''port'', VInt (int n)),
     (''protocol'', VStr ''tcp''), (''decision'', VStr ''ALLOWED''), (''executable'', VStr ''/x''), (''actor_uid'', VInt 5), (''event_id'', VStr (replicate n (CHR ''a'')))]"

definition demo_observation :: "nat \<Rightarrow> observation" where
  "demo_observation n = \<lparr>ob_id = replicate n (CHR ''a''), ob_time = 0, ob_actors = [Application ''/x'' 5], ob_address = ''10.0.0.1'',
     ob_port = int n, ob_protocol = ''tcp'', ob_subnet = ''10.0.0.0/24''\<rparr>"

lemma demo_ip: "v4_str 167772161 = ''10.0.0.1''" "ip_address ''10.0.0.1'' = Some (IPv4 167772161)"
  "subnet_of (IPv4 167772161) = Some ''10.0.0.0/24''" "\<not> special_v4 167772161"
proof -
  show s: "v4_str 167772161 = ''10.0.0.1''" by (simp add: v4_str_def nat_str.simps digit_char_def) code_simp
  show a: "ip_address ''10.0.0.1'' = Some (IPv4 167772161)" using addr.parse_print [of "IPv4 167772161"] s by simp
  have n: "v4_str 167772160 = ''10.0.0.0''" by (simp add: v4_str_def nat_str.simps digit_char_def) code_simp
  have "ipv4_address ''10.0.0.1'' = Some (IPv4 167772161)" using a by (auto simp: ip_address_def ipv6_address_def split: option.splits prod.splits)
  moreover have "nat_str 24 = ''24''" by (simp add: nat_str.simps digit_char_def) code_simp
  ultimately show "subnet_of (IPv4 167772161) = Some ''10.0.0.0/24''"
    by (simp add: subnet_of_def s ip_network_def ipv4_network_def v4_netmask_def prefix_string_def parse_base_def digit_value_def
        is_digit_def code_def mask_ip_def net_str_def n)
  show "\<not> special_v4 167772161" by (simp add: special_v4_def in_block_def)
qed

lemma demo_normalized:
  assumes "0 < n" "n \<le> 65535"
  shows "normalized e (\<lambda>v. Some 0) (VDict (demo_connection n)) = Inr (Some (demo_observation n))"
  using assms
  by (simp add: normalized_def demo_connection_def demo_observation_def dget_def dget_or_def hashable_def str_in_def SOURCES_def py_or_def
      py_lower_def lower_char_def is_upper_az_def code_def removesuffix_def endswith_def startswith_def demo_ip observe_event_def
      lookup_or_details_def event_actors_def is_process_key_def is_application_def py_bind_def Let_def)

lemma update_new: "k \<notin> fst ` set w \<Longrightarrow> AList.update k y w = w @ [(k, y)]"
  by (induction w) auto

lemma unique_append:
  "distinct (map fst u @ map ob_id xs) \<Longrightarrow>
   foldl (\<lambda>unique v. case v of None \<Rightarrow> unique | Some x \<Rightarrow> AList.update (ob_id x) x unique) u (map Some xs) = u @ map (\<lambda>x. (ob_id x, x)) xs"
proof (induction xs arbitrary: u)
  case (Cons x xs)
  have "AList.update (ob_id x) x u = u @ [(ob_id x, x)]" using Cons.prems by (intro update_new) simp
  then show ?case using Cons.IH [of "u @ [(ob_id x, x)]"] Cons.prems by simp
qed simp

lemma sort_key_sorted: "sorted (map k xs) \<Longrightarrow> sort_key k xs = xs"
  by (induction xs) (simp_all add: insort_is_Cons)

lemma demo_ordered:
  "ordered_observations e (\<lambda>v. Some 0) (map (\<lambda>n. VDict (demo_connection n)) [1..<13]) = Inr (map demo_observation [1..<13])"
proof -
  have m: "py_map (normalized e (\<lambda>v. Some 0)) (map (\<lambda>n. VDict (demo_connection n)) [1..<13]) = Inr (map Some (map demo_observation [1..<13]))"
    by (auto simp: py_map_Inr_all2 list_all2_map1 list_all2_map2 demo_normalized intro!: list.rel_refl_strong)
  have "distinct (map ob_id (map demo_observation [1..<13]))"
    by (auto simp: distinct_map demo_observation_def inj_on_def)
  then have u: "foldl (\<lambda>unique v. case v of None \<Rightarrow> unique | Some x \<Rightarrow> AList.update (ob_id x) x unique) [] (map Some (map demo_observation [1..<13]))
    = map (\<lambda>x. (ob_id x, x)) (map demo_observation [1..<13])"
    using unique_append [of "[]" "map demo_observation [1..<13]"] by (simp del: map_map)
  have "replicate n c \<le> replicate m c" if "n \<le> m" for n m and c :: char
    using that
  proof (induction n arbitrary: m)
    case (Suc n)
    then show ?case by (cases m) simp_all
  qed simp
  then have "sorted (map (\<lambda>n. (0::rat, replicate n (CHR ''a''))) [1..<13])"
    by (auto simp: sorted_iff_nth_mono less_eq_prod_def prod_le_def)
  then have "sort_key (\<lambda>x. (ob_time x, ob_id x)) (map demo_observation [1..<13]) = map demo_observation [1..<13]"
    by (intro sort_key_sorted) (simp add: demo_observation_def o_def)
  then show ?thesis using m u by (simp add: ordered_observations_def MAX_RECORDS_def o_def py_bind_def)
qed

theorem sweeps_equal_history_count_witness:
  "\<forall>e. \<exists>f. best_factor (sweep_factors (map demo_observation [1..<13]) (demo_observation 12)) = Some f
    \<and> (case evaluate e (\<lambda>v. Some 0) (map (\<lambda>n. VDict (demo_connection n)) [1..<13]) of
         Inl x \<Rightarrow> False | Inr result \<Rightarrow> map_of result (ob_id (demo_observation 12)) = Some f)"
proof
  fix e
  have split: "[1..<13] = [1..<12] @ [12::nat]" by (simp add: upt_rec)
  have o: "ordered_observations e (\<lambda>v. Some 0) (map (\<lambda>n. VDict (demo_connection n)) [1..<13])
    = Inr (map demo_observation [1..<12] @ demo_observation 12 # [])" unfolding demo_ordered using split by (simp only: map_append list.map)
  obtain result where r: "evaluate e (\<lambda>v. Some 0) (map (\<lambda>n. VDict (demo_connection n)) [1..<13]) = Inr result"
    unfolding evaluate_def demo_ordered
    by (auto simp: py_bind_def list_ex_iff demo_observation_def hashable_actor_def)
  have g: "observation_groups (demo_observation n) = Vertical (Application ''/x'' 5) ''10.0.0.1'' #
      (if int n \<in> set SERVICE_PORTS then [Horizontal (Application ''/x'' 5) ''10.0.0.0/24'' (int n)] else [])" for n
    by (simp add: observation_groups_def demo_observation_def)
  have "recent_targets (map demo_observation [1..<13]) (demo_observation 12) (Vertical (Application ''/x'' 5) ''10.0.0.1'')
    = map (\<lambda>n. (0, Port (int n))) [1..<13]"
  proof -
    have "filter (in_group (Vertical (Application ''/x'' 5) ''10.0.0.1'')) (map demo_observation [1..<13]) = map demo_observation [1..<13]"
      by (auto simp: filter_id_conv in_group_def g) (simp_all add: demo_observation_def)
    then show ?thesis by (simp add: recent_targets_def group_history_def o_def filter_map) (simp add: demo_observation_def)
  qed
  moreover have "card ((\<lambda>n. Port (int n)) ` {1..<13}) = 12" by (subst card_image) (auto simp: inj_on_def)
  ultimately have "best_factor (sweep_factors (map demo_observation [1..<13]) (demo_observation 12)) \<noteq> None"
    using g [of 12] by (simp add: sweep_factors_def SERVICE_PORTS_def group_factor_def image_image) (simp add: demo_observation_def)
  moreover have "map demo_observation [1..<12] @ [demo_observation 12] = map demo_observation [1..<13]" unfolding split by simp
  ultimately show "\<exists>f. best_factor (sweep_factors (map demo_observation [1..<13]) (demo_observation 12)) = Some f
    \<and> (case evaluate e (\<lambda>v. Some 0) (map (\<lambda>n. VDict (demo_connection n)) [1..<13]) of
         Inl x \<Rightarrow> False | Inr result \<Rightarrow> map_of result (ob_id (demo_observation 12)) = Some f)"
    using sweeps_equal_history_count [OF o r] r by auto
qed

end
