(* ===== verification/Policy_Service.thy ===== *)
theory Policy_Service
  imports Rule_Transactions Py_Clean
begin

text \<open>
  \<open>network_policy_service.py\<close>: the D-Bus boundary of the rule transactions. It decodes requests, checks
  the caller, the state of the connection engine and a fresh authentication, and calls the rule manager.
  What it asks of other services (the bus, the account database, systemd, logind, polkit, the published
  projection) is the record \<open>sysbus\<close>; every answer depends on the moment of the call, so two calls may
  give different answers.
\<close>

section \<open>What the service asks of the system\<close>

record unit_info =
  ui_state :: string
  ui_pid :: int
  ui_started :: int

record projection_file =
  pf_uid :: int
  pf_mode :: nat
  pf_size :: nat
  pf_json :: "val py"
  pf_mtime :: rat

record session_facts =
  sf_remote :: bool
  sf_locked :: bool
  sf_active :: bool
  sf_seat :: string

record user_facts =
  uf_state :: string
  uf_display :: string
  uf_session :: string

record sysbus =
  sb_uid :: "nat \<Rightarrow> string \<Rightarrow> int py"
  sb_passwd :: "nat \<Rightarrow> int \<Rightarrow> (int \<times> string) py"
  sb_wheel :: "nat \<Rightarrow> (int \<times> string list) py"
  sb_unit :: "nat \<Rightarrow> string \<Rightarrow> unit_info py"
  sb_projection :: "nat \<Rightarrow> projection_file py"
  sb_user :: "nat \<Rightarrow> int \<Rightarrow> user_facts py"
  sb_session :: "nat \<Rightarrow> string \<Rightarrow> session_facts py"
  sb_polkit :: "nat \<Rightarrow> string \<Rightarrow> string \<Rightarrow> string \<Rightarrow> (bool \<times> bool \<times> dict) py"
  sb_executable :: "string \<Rightarrow> (string \<times> bool \<times> nat) py"
  sb_firewall_state :: "nat \<Rightarrow> string py"
  sb_json :: "string \<Rightarrow> val py"
  sb_isotime :: "string \<Rightarrow> rat py"
  sb_now :: "nat \<Rightarrow> rat"

text \<open>The service keeps two worker slots and the tokens that are being authenticated.\<close>

record 'd sworld = "'d rworld" +
  sv_moment :: nat
  sv_slots :: nat
  sv_auth :: "string list"

definition bus_call :: "(nat \<Rightarrow> 'a py) \<Rightarrow> (('d, 'z) sworld_scheme, 'a) act" where
  "bus_call f w = (f (sv_moment w), w\<lparr>sv_moment := Suc (sv_moment w)\<rparr>)"

section \<open>Requests and replies\<close>

definition resolve_executable :: "sysbus \<Rightarrow> string \<Rightarrow> string py" where
  "resolve_executable sb path = py_bind (sb_executable sb path) (\<lambda>(resolved, regular, mode).
     if \<not> regular \<or> \<not> (bit mode 0 \<or> bit mode 3 \<or> bit mode 6) then Inl (PolicyError ''Choose an installed executable file.'')
     else Inr resolved)"

text \<open>The length of the UTF-8 encoding.\<close>

definition utf8_length :: "string \<Rightarrow> nat" where
  "utf8_length s = sum_list (map (\<lambda>c. if code c < 128 then 1 else 2) s)"

definition decode :: "sysbus \<Rightarrow> string \<Rightarrow> dict py" where
  "decode sb payload = (if MAX_BYTES < utf8_length payload \<or> CHR 0x00 \<in> set payload
     then Inl (PolicyError ''Network request exceeds its size limit.'')
     else py_bind (sb_json sb payload) (\<lambda>v. case v of VDict d \<Rightarrow> Inr d
       | _ \<Rightarrow> Inl (PolicyError ''A structured network request is required.'')))"

definition failure :: "string \<Rightarrow> val" where
  "failure detail = VDict [(''ok'', VBool False), (''state'', VStr ''REFUSED''), (''detail'', VStr (take 500 detail))]"

definition legacy_remove_id :: "string \<Rightarrow> string py" where
  "legacy_remove_id s = (if length s \<noteq> 29 \<or> \<not> startswith s ''greyward-'' \<or> \<not> list_all is_hex_lower (drop 9 s)
     then Inl (PolicyError ''A bounded GREYWARD rule identifier is required.'') else Inr s)"

section \<open>The caller and the engine\<close>

definition peer :: "sysbus \<Rightarrow> string \<Rightarrow> bool \<Rightarrow> (('d, 'z) sworld_scheme, int) act" where
  "peer sb sender admin = s_bind (s_guard (sender \<noteq> []) (PolicyError ''Authenticated D-Bus sender is required.'')) (\<lambda>_.
     s_bind (bus_call (\<lambda>m. sb_uid sb m sender)) (\<lambda>uid.
     if \<not> admin \<or> uid = 0 then s_ret uid
     else s_bind (bus_call (\<lambda>m. sb_passwd sb m uid)) (\<lambda>(gid, name).
       s_bind (bus_call (sb_wheel sb)) (\<lambda>(wheel, members).
       s_bind (s_guard (gid = wheel \<or> name \<in> set members) (PolicyError ''An administrator account is required.'')) (\<lambda>_.
       s_ret uid)))))"

definition engine_projection :: "sysbus \<Rightarrow> (('d, 'z) sworld_scheme, val \<times> rat) act" where
  "engine_projection sb = s_bind (bus_call (sb_projection sb)) (\<lambda>f.
     s_bind (s_guard (pf_uid f = 0 \<and> \<not> bit (pf_mode f) 1 \<and> \<not> bit (pf_mode f) 4 \<and> pf_size f \<le> 8 * 1024 * 1024)
       (PolicyError ''The network engine projection is not trusted or exceeds its limit.'')) (\<lambda>_.
     s_bind (s_lift (pf_json f)) (\<lambda>v. s_ret (v, pf_mtime f))))"

definition unit_running :: "sysbus \<Rightarrow> string \<Rightarrow> (('d, 'z) sworld_scheme, unit_info) act" where
  "unit_running sb name = s_bind (bus_call (\<lambda>m. sb_unit sb m name)) (\<lambda>u.
     s_bind (s_guard (ui_state u = ''active'' \<and> 1 < ui_pid u) (PolicyError ''The application connection engine is unavailable.''))
     (\<lambda>_. s_ret u))"

definition engine_live_since :: "sysbus \<Rightarrow> (('d, 'z) sworld_scheme, rat) act" where
  "engine_live_since sb = s_bind (unit_running sb ''greyward-opensnitch-control-plane.service'') (\<lambda>u.
     s_bind (unit_running sb ''opensnitch.service'') (\<lambda>_.
     s_bind (s_guard (ui_started u \<noteq> 0) (PolicyError ''The engine generation could not be verified.'')) (\<lambda>_.
     s_ret (of_int (ui_started u) / 1000000))))"

text \<open>\<open>v.get('opensnitch', {}).get(k)\<close>.\<close>

definition opensnitch_get :: "dict \<Rightarrow> string \<Rightarrow> val py" where
  "opensnitch_get d k = py_get (dget_or d ''opensnitch'' (VDict [])) k"

definition schema_confirmed :: "val \<Rightarrow> bool py" where
  "schema_confirmed v = (case v of
       VDict d \<Rightarrow> if truthy (dget d ''policy_error'') \<or> dget d ''rules_schema'' \<noteq> VStr RULES_SCHEMA then Inr False
         else py_bind (opensnitch_get d ''state'') (\<lambda>s. Inr (str_in s [''OPERATING'', ''DEGRADED'']))
     | _ \<Rightarrow> Inl (OtherError ''AttributeError''))"

definition engine_ready :: "sysbus \<Rightarrow> (('d, 'z) sworld_scheme, dict) act" where
  "engine_ready sb = s_bind (engine_projection sb) (\<lambda>(v, modified).
     s_bind (s_lift (schema_confirmed v)) (\<lambda>ok.
     s_bind (s_guard ok (PolicyError ''The matching network engine is unavailable or has not confirmed the new rule contract. No rules were changed.'')) (\<lambda>_.
     s_bind (engine_live_since sb) (\<lambda>started.
     s_bind (s_guard (started \<le> modified) (PolicyError ''The current engine generation has not acknowledged this rule contract.'')) (\<lambda>_.
     s_bind (s_lift (opensnitch_get (as_dict v) ''last_seen'')) (\<lambda>seen.
     s_bind (s_guard (truthy seen) (PolicyError ''The current engine generation has not acknowledged this rule contract.'')) (\<lambda>_.
     s_ret (as_dict v))))))))"

section \<open>Authentication\<close>

definition local_session :: "sysbus \<Rightarrow> int \<Rightarrow> (('d, 'z) sworld_scheme, unit) act" where
  "local_session sb uid = s_bind (bus_call (\<lambda>m. sb_user sb m uid)) (\<lambda>u.
     s_bind (s_guard (uf_state u = ''active'') (PolicyError ''An active local administrator session is required.'')) (\<lambda>_.
     s_bind (s_guard (uf_display u \<noteq> []) (PolicyError ''A local desktop session is required.'')) (\<lambda>_.
     s_bind (bus_call (\<lambda>m. sb_session sb m (uf_session u))) (\<lambda>f.
     s_guard (\<not> sf_remote f \<and> \<not> sf_locked f \<and> sf_active f \<and> sf_seat f \<noteq> [])
       (PolicyError ''An active, unlocked local desktop session is required.'')))))"

text \<open>
  The check by polkit names the transaction and the revision it starts from (the text of the prompt
  is left out). While it waits for the user, other requests run: \<open>others\<close> is their effect.
\<close>

definition check_authorization :: "(('d, 'z) sworld_scheme \<Rightarrow> ('d, 'z) sworld_scheme) \<Rightarrow> sysbus \<Rightarrow> string \<Rightarrow> string \<Rightarrow> txn
    \<Rightarrow> (('d, 'z) sworld_scheme, unit) act" where
  "check_authorization others sb sender token t = s_bind (s_get w_env) (\<lambda>e.
     s_bind (bus_call (\<lambda>m. sb_polkit sb m sender token (py_str e (dget (t_before t) ''revision'')))) (\<lambda>(authorized, challenge, details).
     s_bind (s_modify others) (\<lambda>_.
     s_guard (authorized \<and> \<not> challenge \<and> \<not> truthy (dget details ''polkit.temporary_authorization_id''))
       (PolicyError ''Fresh authentication was cancelled or refused.''))))"

definition authorize :: "(('d, 'z) sworld_scheme \<Rightarrow> ('d, 'z) sworld_scheme) \<Rightarrow> sysbus \<Rightarrow> string \<Rightarrow> int \<Rightarrow> string \<Rightarrow> txn
    \<Rightarrow> (('d, 'z) sworld_scheme, unit) act" where
  "authorize others sb sender uid token t = s_bind (peer sb sender True) (\<lambda>u.
     s_bind (s_guard (u = uid) (PolicyError ''The originating caller changed.'')) (\<lambda>_.
     if uid = 0 then s_ret ()
     else s_finally (s_bind (local_session sb uid) (\<lambda>_.
       s_bind (s_modify (\<lambda>w. w\<lparr>sv_auth := token # sv_auth w\<rparr>)) (\<lambda>_.
       s_bind (check_authorization others sb sender token t) (\<lambda>_.
       s_bind (peer sb sender True) (\<lambda>v.
       s_bind (s_guard (v = uid) (PolicyError ''The originating caller exited or changed.'')) (\<lambda>_.
       s_bind (engine_ready sb) (\<lambda>_. s_ret ()))))))) (\<lambda>w. w\<lparr>sv_auth := removeAll token (sv_auth w)\<rparr>)))"

section \<open>Requests of the previous interface\<close>

definition legacy_exception :: "dict \<Rightarrow> val list py" where
  "legacy_exception v = (case py_or (dget v ''destination'') (VDict []) of
       VDict d \<Rightarrow> if dget v ''action'' \<noteq> VStr ''allow'' \<or> truthy (dget d ''host'') \<or> dget_or v ''duration'' (VStr ''always'') \<noteq> VStr ''always''
         then Inl (PolicyError ''A threat exception must allow an exact IP and port.'')
         else Inr [VDict [(''operation'', VStr ''threat_exception''), (''rule'', VDict [(''path'', dget v ''application''),
           (''action'', VStr ''allow''), (''ip'', dget d ''ip''), (''port'', dget d ''port'')])]]
     | _ \<Rightarrow> if dget v ''action'' \<noteq> VStr ''allow'' then Inl (PolicyError ''A threat exception must allow an exact IP and port.'')
         else Inl (OtherError ''AttributeError''))"

definition legacy_destinations :: "dict \<Rightarrow> val list" where
  "legacy_destinations d = concat (map (\<lambda>k. if truthy (dget d k) then [VDict [(''kind'', VStr k), (''value'', dget d k)]] else []) [''host'', ''ip''])"

definition legacy_rule :: "dict \<Rightarrow> val list py" where
  "legacy_rule v =
    (if \<not> str_in (dget v ''action'') [''allow'', ''deny'', ''block'', ''reject''] then Inl (PolicyError ''Unsupported network action.'')
     else let duration = dget_or v ''duration'' (VStr ''always'') in
       if duration = VStr ''once'' then Inl (PolicyError ''Allow once requires a live pending request; use the rule editor for temporary rules.'')
       else if \<not> str_in duration [''always'', ''until_restart'', ''until restart''] then Inl (PolicyError ''Unsupported legacy duration.'')
       else (case py_or (dget v ''destination'') (VDict []) of
           VDict d \<Rightarrow>
             let both = (truthy (dget d ''host'') \<and> truthy (dget d ''ip''));
                 rule = [(''path'', dget v ''application''), (''name'', py_or (dget v ''name'') (VStr ''Application connection rule'')),
                   (''action'', VStr (if dget v ''action'' = VStr ''allow'' then ''allow'' else ''deny'')),
                   (''lifetime'', VStr (if str_in duration [''until_restart'', ''until restart''] then ''boot'' else ''permanent'')),
                   (''ports'', VList (if truthy (dget d ''port'') then [dget d ''port''] else [])),
                   (''destinations'', VList (if both then [VDict [(''kind'', VStr ''ip''), (''value'', dget d ''ip'')]] else legacy_destinations d))]
                   @ (if both then [(''required_host'', dget d ''host'')] else []) in
             Inr [VDict [(''operation'', VStr ''upsert''), (''rule'', VDict rule)]]
         | _ \<Rightarrow> Inl (OtherError ''AttributeError'')))"

definition legacy_commands :: "string \<Rightarrow> dict \<Rightarrow> val list py" where
  "legacy_commands legacy v =
    (if legacy = ''remove'' then Inr [VDict [(''operation'', VStr ''delete''), (''id'', dget v ''id'')]]
     else if legacy = ''threat-setting'' then py_bind (dindex v ''enabled'') (\<lambda>b. Inr [VDict [(''operation'', VStr ''threat_settings''), (''enabled'', b)]])
     else if legacy = ''threat-exception'' then legacy_exception v
     else legacy_rule v)"

section \<open>dispatch\<close>

definition request_value :: "sysbus \<Rightarrow> string option \<Rightarrow> string \<Rightarrow> dict py" where
  "request_value sb legacy payload = (if legacy = Some ''remove''
     then py_bind (legacy_remove_id payload) (\<lambda>i. Inr [(''id'', VStr i)]) else decode sb payload)"

text \<open>A request of the previous interface is prepared here; its review is applied at once.\<close>

definition request_token :: "'d firewalld \<Rightarrow> sysbus \<Rightarrow> int \<Rightarrow> string option \<Rightarrow> dict \<Rightarrow> (('d, 'z) sworld_scheme, val) act" where
  "request_token fd sb uid legacy v = (case legacy of
       None \<Rightarrow> s_ret (dget v ''transaction'')
     | Some l \<Rightarrow> s_bind store_read (\<lambda>policy.
         s_bind (s_lift (dindex policy ''revision'')) (\<lambda>revision.
         s_bind (s_lift (legacy_commands l v)) (\<lambda>commands.
         s_bind (prepare fd (Some (resolve_executable sb)) uid (VDict [(''provider'', VStr ''application''), (''revision'', revision),
           (''commands'', VList commands)])) (\<lambda>review. s_ret (VStr (rv_transaction review)))))))"

definition saved_reply :: "val \<times> string \<Rightarrow> val" where
  "saved_reply r = VDict [(''ok'', VBool True), (''state'', VStr ''SAVED''), (''revision'', fst r), (''undo'', VStr (snd r)),
     (''detail'', VStr ''Policy saved. Application changes affect future decisions; this is not proof that a connection matched.'')]"

definition work :: "'d firewalld \<Rightarrow> (('d, 'z) sworld_scheme \<Rightarrow> ('d, 'z) sworld_scheme) \<Rightarrow> sysbus \<Rightarrow> string \<Rightarrow> string \<Rightarrow> string option
    \<Rightarrow> (('d, 'z) sworld_scheme, val) act" where
  "work fd others sb payload sender legacy = s_bind (peer sb sender True) (\<lambda>uid.
     s_bind (engine_ready sb) (\<lambda>_.
     s_bind (s_lift (request_value sb legacy payload)) (\<lambda>v.
     s_bind (request_token fd sb uid legacy v) (\<lambda>token.
     case token of
       VStr s \<Rightarrow> s_bind (apply_review fd uid s (authorize others sb sender uid)) (\<lambda>r. s_ret (saved_reply r))
     | _ \<Rightarrow> s_raise (PolicyError ''A reviewed transaction is required.'')))))"

definition answer :: "(('d, 'z) sworld_scheme, val) act \<Rightarrow> (('d, 'z) sworld_scheme, val) act" where
  "answer m = s_catch m (\<lambda>_. True) (\<lambda>err. s_ret (failure (exc_str err)))"

definition dispatch :: "'d firewalld \<Rightarrow> (('d, 'z) sworld_scheme \<Rightarrow> ('d, 'z) sworld_scheme) \<Rightarrow> sysbus \<Rightarrow> string \<Rightarrow> string \<Rightarrow> string option
    \<Rightarrow> (('d, 'z) sworld_scheme, val) act" where
  "dispatch fd others sb payload sender legacy = s_bind (s_get sv_slots) (\<lambda>n.
     if n = 0 then s_ret (failure ''Another network review is being authenticated. Retry when it completes.'')
     else s_bind (s_modify (\<lambda>w. w\<lparr>sv_slots := sv_slots w - 1\<rparr>)) (\<lambda>_.
       s_finally (answer (work fd others sb payload sender legacy)) (\<lambda>w. w\<lparr>sv_slots := Suc (sv_slots w)\<rparr>)))"

section \<open>The other methods\<close>

definition service_init :: "'d firewalld \<Rightarrow> (('d, 'z) sworld_scheme, unit) act" where
  "service_init fd = s_bind (recover fd) (\<lambda>_. s_modify (\<lambda>w. w\<lparr>sv_slots := 2, sv_auth := []\<rparr>))"

definition is_dbus_error :: "exc \<Rightarrow> bool" where
  "is_dbus_error err = (err = OtherError ''DBusException'')"

definition get_firewall_state :: "sysbus \<Rightarrow> string \<Rightarrow> (('d, 'z) sworld_scheme, string) act" where
  "get_firewall_state sb sender = s_bind (peer sb sender False) (\<lambda>_.
     s_catch (s_bind (bus_call (sb_firewall_state sb)) (\<lambda>s. s_ret (if s = ''RUNNING'' then ''running'' else ''not-running'')))
       is_dbus_error (\<lambda>_. s_ret ''unavailable''))"

definition preview_reply :: "review \<Rightarrow> val" where
  "preview_reply r = VDict [(''ok'', VBool True), (''state'', VStr ''REVIEW''), (''transaction'', VStr (rv_transaction r)),
     (''revision'', rv_revision r), (''changes'', VList (rv_changes r)), (''warnings'', VList (map VStr (rv_warnings r))), (''expires_in'', VInt 180),
     (''detail'', VStr ''Review these exact changes, then authenticate to apply. No policy has changed.'')]"

definition preview :: "'d firewalld \<Rightarrow> sysbus \<Rightarrow> string \<Rightarrow> string \<Rightarrow> (('d, 'z) sworld_scheme, val) act" where
  "preview fd sb payload sender = answer (s_bind (engine_ready sb) (\<lambda>_.
     s_bind (peer sb sender True) (\<lambda>uid.
     s_bind (s_lift (decode sb payload)) (\<lambda>v.
     s_bind (prepare fd (Some (resolve_executable sb)) uid (VDict v)) (\<lambda>r. s_ret (preview_reply r))))))"

definition apply_method :: "'d firewalld \<Rightarrow> (('d, 'z) sworld_scheme \<Rightarrow> ('d, 'z) sworld_scheme) \<Rightarrow> sysbus \<Rightarrow> string \<Rightarrow> string
    \<Rightarrow> (('d, 'z) sworld_scheme, val) act" where
  "apply_method fd others sb payload sender = dispatch fd others sb payload sender None"

text \<open>A cancelled review also stops its running authentication; that call has no effect on this state.\<close>

definition cancel_method :: "sysbus \<Rightarrow> string \<Rightarrow> string \<Rightarrow> (('d, 'z) sworld_scheme, val) act" where
  "cancel_method sb payload sender = answer (s_bind (s_lift (decode sb payload)) (\<lambda>v.
     s_bind (peer sb sender True) (\<lambda>uid.
     s_bind (case dget v ''transaction'' of
         VStr token \<Rightarrow> cancel uid token
       | t \<Rightarrow> s_raise (if hashable t then PolicyError ''Review not found.'' else TypeError)) (\<lambda>_.
     s_ret (VDict [(''ok'', VBool True), (''state'', VStr ''CANCELLED'')])))))"

definition set_rule :: "'d firewalld \<Rightarrow> (('d, 'z) sworld_scheme \<Rightarrow> ('d, 'z) sworld_scheme) \<Rightarrow> sysbus \<Rightarrow> string \<Rightarrow> string
    \<Rightarrow> (('d, 'z) sworld_scheme, val) act" where
  "set_rule fd others sb payload sender = dispatch fd others sb payload sender (Some ''rule'')"

definition set_threat_exception :: "'d firewalld \<Rightarrow> (('d, 'z) sworld_scheme \<Rightarrow> ('d, 'z) sworld_scheme) \<Rightarrow> sysbus \<Rightarrow> string \<Rightarrow> string
    \<Rightarrow> (('d, 'z) sworld_scheme, val) act" where
  "set_threat_exception fd others sb payload sender = dispatch fd others sb payload sender (Some ''threat-exception'')"

definition set_threat_intel :: "'d firewalld \<Rightarrow> (('d, 'z) sworld_scheme \<Rightarrow> ('d, 'z) sworld_scheme) \<Rightarrow> sysbus \<Rightarrow> string \<Rightarrow> string
    \<Rightarrow> (('d, 'z) sworld_scheme, val) act" where
  "set_threat_intel fd others sb payload sender = s_bind (s_get w_env) (\<lambda>e. case sb_json sb payload of
       Inl err \<Rightarrow> if is_value_or_type_error err then s_ret (failure (exc_str err)) else s_raise err
     | Inr (VBool b) \<Rightarrow> dispatch fd others sb (json_dumps e '', '' '': '' (VDict [(''enabled'', VBool b)])) sender (Some ''threat-setting'')
     | Inr _ \<Rightarrow> s_ret (failure ''Enablement must be boolean.''))"

definition remove_rule :: "'d firewalld \<Rightarrow> (('d, 'z) sworld_scheme \<Rightarrow> ('d, 'z) sworld_scheme) \<Rightarrow> sysbus \<Rightarrow> string \<Rightarrow> string
    \<Rightarrow> (('d, 'z) sworld_scheme, val) act" where
  "remove_rule fd others sb payload sender = dispatch fd others sb payload sender (Some ''remove'')"

text \<open>\<open>ListRules\<close>: the rows of the previous interface.\<close>

definition upper_val :: "val \<Rightarrow> val py" where
  "upper_val v = (case v of VStr s \<Rightarrow> Inr (VStr (py_upper s)) | _ \<Rightarrow> Inl (OtherError ''AttributeError''))"

definition legacy_row :: "env \<Rightarrow> val \<Rightarrow> val py" where
  "legacy_row e v = (case v of
       VDict r \<Rightarrow> py_bind (dindex r ''name'') (\<lambda>name.
         py_bind (py_bind (dindex r ''action'') upper_val) (\<lambda>action.
         py_bind (upper_val (dget_or r ''lifetime'' (VStr ''always''))) (\<lambda>duration.
         Inr (VDict [(''id'', rule_id e r), (''name'', name), (''action'', action), (''source'', VStr ''GREYWARD''), (''mutable'', VBool True),
           (''enabled'', dget_or r ''enabled'' (VBool True)), (''duration'', duration), (''tier'', dget_or r ''tier'' (VStr ''GREYWARD'')),
           (''scope'', VDict [(''application'', dget r ''path''), (''destination'', VDict [(''host'', dget r ''required_host''),
             (''ip'', dget r ''ip''), (''port'', dget r ''port'')])])]))))
     | _ \<Rightarrow> Inl (OtherError ''AttributeError''))"

definition list_rules :: "(('d, 'z) sworld_scheme, val) act" where
  "list_rules = answer (s_bind store_read (\<lambda>policy. s_bind (s_get w_env) (\<lambda>e.
     s_bind (s_lift (py_map (legacy_row e) (rules_of policy))) (\<lambda>rows.
     s_ret (VDict [(''ok'', VBool True), (''rules'', VList rows)])))))"

section \<open>GetRules\<close>

record rules_view =
  gv_page :: listing_page
  gv_applications :: "val list"
  gv_edit :: bool
  gv_detail :: "string option"

definition application_entry :: "val \<Rightarrow> val list py" where
  "application_entry v = (case v of
       VDict a \<Rightarrow> Inr (if truthy (dget a ''executable'') then [VDict [(''path'', dget a ''executable''), (''name'', dget a ''application'')]] else [])
     | _ \<Rightarrow> Inl (OtherError ''AttributeError''))"

definition engine_applications :: "dict \<Rightarrow> val list py" where
  "engine_applications d = (case dget_or d ''applications'' (VList []) of
       VList xs \<Rightarrow> py_bind (py_map application_entry (take 256 xs)) (\<lambda>rows. Inr (concat rows))
     | VStr s \<Rightarrow> if s = [] then Inr [] else Inl (OtherError ''AttributeError'')
     | _ \<Rightarrow> Inl TypeError)"

text \<open>One row: a saved rule that the engine has loaded, or has already applied to a connection.\<close>

definition mark_rule :: "dict \<Rightarrow> dict \<Rightarrow> dict \<times> exc option" where
  "mark_rule d r = (if dget r ''provider'' \<noteq> VStr ''application'' \<or> dget r ''state'' \<noteq> VStr ''SAVED'' then (r, None)
     else let r' = dput r ''state'' (VStr ''LOADED'') in
       case dget_or d ''policy_matches'' (VDict []) of
         VDict ms \<Rightarrow> (case dget_or ms (as_str (dget r ''id'')) (VDict []) of
             VDict ob \<Rightarrow> if \<not> py_eq (dget ob ''version'') (dget r ''updated_at'') then (r', None)
               else (case num_val (dget_or ob ''decisions'' (VInt 0)) of
                   None \<Rightarrow> (r', Some TypeError)
                 | Some n \<Rightarrow> if f_le n (Fin 0) \<or> n = NaN then (r', None)
                     else (dput (dput r' ''state'' (VStr ''OBSERVED'')) ''observed'' (VDict ob), None))
           | _ \<Rightarrow> (r', Some (OtherError ''AttributeError'')))
       | _ \<Rightarrow> (r', Some (OtherError ''AttributeError'')))"

fun mark_rules :: "dict \<Rightarrow> dict list \<Rightarrow> dict list \<times> exc option" where
  "mark_rules d [] = ([], None)"
| "mark_rules d (r # rs) = (case mark_rule d r of
     (r', Some err) \<Rightarrow> (r' # rs, Some err)
   | (r', None) \<Rightarrow> (case mark_rules d rs of (rs', err) \<Rightarrow> (r' # rs', err)))"

definition engine_fresh :: "sysbus \<Rightarrow> rat \<Rightarrow> dict \<Rightarrow> bool py" where
  "engine_fresh sb now d = py_bind (dindex d ''fresh_until'') (\<lambda>v. case v of
       VStr s \<Rightarrow> py_bind (sb_isotime sb s) (\<lambda>t. Inr (now < t))
     | _ \<Rightarrow> Inl (OtherError ''AttributeError''))"

definition engine_loaded :: "dict \<Rightarrow> listing_page \<Rightarrow> bool \<Rightarrow> bool py" where
  "engine_loaded d page fresh = (if \<not> fresh \<or> \<not> py_eq (dget d ''policy_revision'') (lp_revision page) then Inr False
     else py_bind (opensnitch_get d ''state'') (\<lambda>s. Inr (s = VStr ''OPERATING'')))"

definition overlay :: "sysbus \<Rightarrow> rat \<Rightarrow> dict \<Rightarrow> rules_view \<Rightarrow> rules_view \<times> exc option" where
  "overlay sb now d v = (case engine_applications d of
       Inl err \<Rightarrow> (v, Some err)
     | Inr apps \<Rightarrow> let v' = v\<lparr>gv_applications := apps\<rparr> in
         case py_bind (engine_fresh sb now d) (engine_loaded d (gv_page v)) of
           Inl err \<Rightarrow> (v', Some err)
         | Inr loaded \<Rightarrow> if \<not> loaded then (v', None)
             else (case mark_rules d (lp_rules (gv_page v)) of
               (rules, err) \<Rightarrow> (v'\<lparr>gv_page := (gv_page v)\<lparr>lp_rules := rules\<rparr>\<rparr>, err)))"

definition is_listing_error :: "exc \<Rightarrow> bool" where
  "is_listing_error err = (case err of OtherError s \<Rightarrow> s = ''DBusException'' | _ \<Rightarrow> True)"

definition refuse_edit :: "exc \<Rightarrow> rules_view \<Rightarrow> rules_view" where
  "refuse_edit err v = v\<lparr>gv_edit := False, gv_detail := Some (take 240 (exc_str err))\<rparr>"

definition with_engine :: "sysbus \<Rightarrow> rules_view \<Rightarrow> (('d, 'z) sworld_scheme, rules_view) act" where
  "with_engine sb v = s_bind (s_try (engine_ready sb)) (\<lambda>r.
     s_bind (s_get (\<lambda>w. sb_now sb (sv_moment w))) (\<lambda>now.
     let (v', err) = (case r of Inl x \<Rightarrow> (v, Some x) | Inr d \<Rightarrow> overlay sb now d v) in
     case err of
       None \<Rightarrow> s_ret v'
     | Some x \<Rightarrow> if is_listing_error x then s_ret (refuse_edit x v') else s_raise x))"

fun is_policy_refusal :: "exc \<Rightarrow> bool" where
  "is_policy_refusal (PolicyError s) = True" | "is_policy_refusal err = False"

text \<open>An exception that leaves \<open>get_rules\<close> is answered with \<open>failure\<close>.\<close>

definition get_rules :: "'d firewalld \<Rightarrow> sysbus \<Rightarrow> string \<Rightarrow> string \<Rightarrow> (('d, 'z) sworld_scheme, rules_view) act" where
  "get_rules fd sb payload sender = s_bind (peer sb sender False) (\<lambda>uid.
     s_bind (s_lift (decode sb payload)) (\<lambda>query.
     s_bind (listing fd query) (\<lambda>page.
     s_bind (with_engine sb \<lparr>gv_page = page, gv_applications = [], gv_edit = lp_healthy page, gv_detail = None\<rparr>) (\<lambda>v.
     s_catch (s_bind (peer sb sender True) (\<lambda>_. s_ret v)) is_policy_refusal (\<lambda>_. s_ret (v\<lparr>gv_edit := False\<rparr>))))))"

end
