(* ===== verification/Policy_Service_Props.thy ===== *)
theory Policy_Service_Props
  imports Policy_Service Rule_Transactions_Props Py_Invariants
begin

text \<open>
  What the D-Bus boundary guarantees: no change without an administrator, a ready engine and a fresh
  local authentication of the same caller for the same transaction; refused requests leave the firewall
  alone and give their worker slot back; the reading methods change nothing.
\<close>

section \<open>What a successful check means\<close>

definition admin_at :: "sysbus \<Rightarrow> nat \<Rightarrow> int \<Rightarrow> bool" where
  "admin_at sb m uid \<longleftrightarrow> uid = 0 \<or> (\<exists>gid name wheel members. sb_passwd sb m uid = Inr (gid, name)
     \<and> sb_wheel sb (Suc m) = Inr (wheel, members) \<and> (gid = wheel \<or> name \<in> set members))"

definition caller_at :: "sysbus \<Rightarrow> nat \<Rightarrow> string \<Rightarrow> int \<Rightarrow> bool" where
  "caller_at sb m sender uid \<longleftrightarrow> sender \<noteq> [] \<and> sb_uid sb m sender = Inr uid \<and> admin_at sb (Suc m) uid"

definition session_at :: "sysbus \<Rightarrow> nat \<Rightarrow> int \<Rightarrow> bool" where
  "session_at sb m uid \<longleftrightarrow> (\<exists>u f. sb_user sb m uid = Inr u \<and> uf_state u = ''active'' \<and> uf_display u \<noteq> []
     \<and> sb_session sb (Suc m) (uf_session u) = Inr f \<and> \<not> sf_remote f \<and> \<not> sf_locked f \<and> sf_active f \<and> sf_seat f \<noteq> [])"

definition polkit_at :: "sysbus \<Rightarrow> nat \<Rightarrow> env \<Rightarrow> string \<Rightarrow> string \<Rightarrow> txn \<Rightarrow> bool" where
  "polkit_at sb m e sender token t \<longleftrightarrow> (\<exists>details. sb_polkit sb m sender token (py_str e (dget (t_before t) ''revision'')) = Inr (True, False, details)
     \<and> \<not> truthy (dget details ''polkit.temporary_authorization_id''))"

text \<open>A projection owned by root and not writable by others, newer than the running engine, with the rule contract.\<close>

definition engine_at :: "sysbus \<Rightarrow> nat \<Rightarrow> bool" where
  "engine_at sb m \<longleftrightarrow> (\<exists>f d u v. sb_projection sb m = Inr f \<and> pf_uid f = 0 \<and> \<not> bit (pf_mode f) 1 \<and> \<not> bit (pf_mode f) 4
     \<and> pf_json f = Inr (VDict d) \<and> dget d ''rules_schema'' = VStr RULES_SCHEMA \<and> \<not> truthy (dget d ''policy_error'')
     \<and> sb_unit sb (Suc m) ''greyward-opensnitch-control-plane.service'' = Inr u \<and> ui_state u = ''active'' \<and> 1 < ui_pid u
     \<and> sb_unit sb (Suc (Suc m)) ''opensnitch.service'' = Inr v \<and> ui_state v = ''active'' \<and> 1 < ui_pid v
     \<and> of_int (ui_started u) / 1000000 \<le> pf_mtime f)"

lemma bus_call_eq [act_simps]: "bus_call f w = (r, w') \<longleftrightarrow> f (sv_moment w) = r \<and> w' = w\<lparr>sv_moment := Suc (sv_moment w)\<rparr>"
  by (auto simp: bus_call_def)

lemma bus_ahead: "preserves (\<lambda>v. n \<le> sv_moment v) (bus_call f)"
  by (simp add: preserves_def bus_call_def)

lemma peer_Inr:
  fixes w :: "('a, 'b) sworld_scheme"
  assumes "peer sb sender True w = (Inr uid, w')"
  shows "caller_at sb (sv_moment w) sender uid \<and> w' = w\<lparr>sv_moment := sv_moment w'\<rparr> \<and> sv_moment w < sv_moment w'"
proof -
  have "caller_at sb (sv_moment w) sender uid \<and> (\<exists>k. w' = w\<lparr>sv_moment := k\<rparr>)"
    using assms by (auto simp: peer_def act_simps caller_at_def admin_at_def split: if_splits)
  moreover have "Suc (sv_moment w) \<le> sv_moment w'"
  proof -
    define rest :: "int \<Rightarrow> (('a, 'b) sworld_scheme, int) act" where "rest u = (if \<not> True \<or> u = 0 then s_ret u
      else s_bind (bus_call (\<lambda>m. sb_passwd sb m u)) (\<lambda>(gid, name). s_bind (bus_call (sb_wheel sb)) (\<lambda>(wheel, members).
        s_bind (s_guard (gid = wheel \<or> name \<in> set members) (PolicyError ''An administrator account is required.'')) (\<lambda>_. s_ret u))))" for u
    have "preserves (\<lambda>v. n \<le> sv_moment v) (rest u)" for u n
      unfolding rest_def by (intro preserves_intros bus_ahead)
    moreover from assms obtain u where "rest u (w\<lparr>sv_moment := Suc (sv_moment w)\<rparr>) = (Inr uid, w')"
      unfolding peer_def rest_def [symmetric] by (auto simp: act_simps)
    ultimately show ?thesis unfolding preserves_def by force
  qed
  ultimately show ?thesis by auto
qed

lemma schema_confirmed_True: "schema_confirmed v = Inr True \<Longrightarrow> \<exists>d. v = VDict d \<and> dget d ''rules_schema'' = VStr RULES_SCHEMA \<and> \<not> truthy (dget d ''policy_error'')"
  by (auto simp: schema_confirmed_def split: val.splits if_splits)

lemma engine_ready_Inr:
  assumes "engine_ready sb w = (Inr d, w')"
  shows "engine_at sb (sv_moment w) \<and> w' = w\<lparr>sv_moment := sv_moment w'\<rparr> \<and> sv_moment w < sv_moment w'"
  using assms
  by (auto simp: engine_ready_def engine_projection_def engine_live_since_def unit_running_def act_simps engine_at_def
      dest!: schema_confirmed_True)

lemma local_session_Inr:
  assumes "local_session sb uid w = (Inr x, w')"
  shows "session_at sb (sv_moment w) uid \<and> w' = w\<lparr>sv_moment := sv_moment w'\<rparr> \<and> sv_moment w < sv_moment w'"
  using assms by (auto simp: local_session_def act_simps session_at_def)

text \<open>
  The caller is root, or was authenticated for this transaction between the moments \<open>lo\<close> and \<open>hi\<close>: first the
  session, then polkit, then the same caller again, then the engine again.
\<close>

definition authenticated :: "sysbus \<Rightarrow> nat \<Rightarrow> nat \<Rightarrow> env \<Rightarrow> string \<Rightarrow> int \<Rightarrow> string \<Rightarrow> txn \<Rightarrow> bool" where
  "authenticated sb lo hi e sender uid token t \<longleftrightarrow> uid = 0 \<or> (\<exists>m1 m2 m3 m4. lo \<le> m1 \<and> m1 < m2 \<and> m2 < m3 \<and> m3 < m4 \<and> m4 < hi
     \<and> session_at sb m1 uid \<and> polkit_at sb m2 e sender token t \<and> caller_at sb m3 sender uid \<and> engine_at sb m4)"

text \<open>Other requests may run while polkit asks; the bus only moves on.\<close>

definition forward :: "(('d, 'z) sworld_scheme \<Rightarrow> ('d, 'z) sworld_scheme) \<Rightarrow> bool" where
  "forward others \<longleftrightarrow> (\<forall>w. sv_moment w \<le> sv_moment (others w))"

lemma check_authorization_Inr:
  assumes "check_authorization others sb sender token t w = (Inr x, w')" "forward others"
  shows "polkit_at sb (sv_moment w) (w_env w) sender token t \<and> sv_moment w < sv_moment w'"
proof -
  from assms(1) have p: "polkit_at sb (sv_moment w) (w_env w) sender token t" and w': "w' = others (w\<lparr>sv_moment := Suc (sv_moment w)\<rparr>)"
    by (auto simp: check_authorization_def act_simps polkit_at_def)
  have "sv_moment (w\<lparr>sv_moment := Suc (sv_moment w)\<rparr>) \<le> sv_moment w'" unfolding w' using assms(2) unfolding forward_def by blast
  then show ?thesis using p by simp
qed

lemma authorize_Inr:
  assumes "authorize others sb sender uid token t w = (Inr x, w')" "forward others"
  shows "authenticated sb (sv_moment w) (sv_moment w') (w_env w) sender uid token t \<and> sv_moment w < sv_moment w'"
proof (cases "uid = 0")
  case True
  with assms(1) obtain w1 where p: "peer sb sender True w = (Inr uid, w1)" and "w' = w1" by (auto simp: authorize_def act_simps)
  then show ?thesis using peer_Inr [OF p] True by (auto simp: authenticated_def)
next
  case False
  with assms(1) obtain w1 w2 v where p: "peer sb sender True w = (Inr uid, w1)"
    and s: "local_session sb uid w1 = (Inr (), w2)"
    and rest: "s_bind (check_authorization others sb sender token t) (\<lambda>_. s_bind (peer sb sender True) (\<lambda>v.
       s_bind (s_guard (v = uid) (PolicyError ''The originating caller exited or changed.'')) (\<lambda>_. s_bind (engine_ready sb) (\<lambda>_. s_ret ()))))
       (w2\<lparr>sv_auth := token # sv_auth w2\<rparr>) = (Inr (), v)"
    and w': "w' = v\<lparr>sv_auth := removeAll token (sv_auth v)\<rparr>"
    by (auto simp: authorize_def s_finally_eq act_simps)
  obtain k1 k2 where k: "w1 = w\<lparr>sv_moment := k1\<rparr>" "w2 = w1\<lparr>sv_moment := k2\<rparr>" "sv_moment w < k1" "k1 < k2"
    using peer_Inr [OF p] local_session_Inr [OF s] by metis
  from rest obtain w3 w4 d where c: "check_authorization others sb sender token t (w2\<lparr>sv_auth := token # sv_auth w2\<rparr>) = (Inr (), w3)"
    and p2: "peer sb sender True w3 = (Inr uid, w4)" and e: "engine_ready sb w4 = (Inr d, v)"
    by (auto simp: act_simps)
  have "polkit_at sb k2 (w_env w) sender token t" "k2 < sv_moment w3" using check_authorization_Inr [OF c assms(2)] k by simp_all
  moreover have "session_at sb k1 uid" using local_session_Inr [OF s] k by simp
  moreover have "caller_at sb (sv_moment w3) sender uid" "sv_moment w3 < sv_moment w4" using peer_Inr [OF p2] by auto
  moreover have "engine_at sb (sv_moment w4)" "sv_moment w4 < sv_moment v" using engine_ready_Inr [OF e] by auto
  ultimately show ?thesis using k(3,4) unfolding authenticated_def w'
    by (intro conjI disjI2 exI [of _ k1] exI [of _ k2] exI [of _ "sv_moment w3"] exI [of _ "sv_moment w4"]) simp_all
qed

section \<open>No change without authority\<close>

lemma failure_not_ok: "vget (failure s) ''ok'' = VBool False"
  by (simp add: failure_def vget_def dget_def)

lemma answer_ok:
  assumes "answer m w = (r, w')" "r = Inr reply" "vget reply ''ok'' = VBool True"
  shows "m w = (Inr reply, w')"
  using assms by (auto simp: answer_def s_catch_def failure_not_ok split: prod.splits sum.splits)

lemma dispatch_ok:
  assumes "dispatch fd others sb payload sender legacy w = (Inr reply, w')" "vget reply ''ok'' = VBool True"
  obtains w1 where "sv_moment w' = sv_moment w1" and "work fd others sb payload sender legacy (w\<lparr>sv_slots := sv_slots w - 1\<rparr>) = (Inr reply, w1)"
proof -
  have "sv_slots w \<noteq> 0"
  proof
    assume "sv_slots w = 0"
    then show False using assms by (auto simp: dispatch_def failure_not_ok)
  qed
  then obtain w1 where a: "answer (work fd others sb payload sender legacy) (w\<lparr>sv_slots := sv_slots w - 1\<rparr>) = (Inr reply, w1)"
    and "sv_moment w' = sv_moment w1"
    using assms(1) by (auto simp: dispatch_def s_finally_eq)
  with that [OF _ answer_ok [OF a refl assms(2)]] show thesis by blast
qed

lemma token_kept:
  assumes "\<And>w d. f (w\<lparr>fw_daemon := d\<rparr>) = f w" "\<And>w c. f (w\<lparr>fw_cache := c\<rparr>) = f w" "\<And>w s. f (w\<lparr>w_store := s\<rparr>) = f w"
    "\<And>w x. f (w\<lparr>rm_pending := x\<rparr>) = f w" "\<And>w x. f (w\<lparr>rm_counter := x\<rparr>) = f w"
  shows "keeps f (request_token fd sb uid legacy v)"
proof -
  have "keeps f store_read" unfolding keeps_def using store_read_disk assms(3) by (fastforce simp: same_disk_def)
  then show ?thesis unfolding request_token_def by (intro keeps_intros prepare_more_frame assms)
qed

text \<open>
  The review a request names: for \<open>Apply\<close> one that was pending when the request came in, for a method of the
  previous interface one that the request itself has just made.
\<close>

definition own_review :: "sysbus \<Rightarrow> string \<Rightarrow> string option \<Rightarrow> ('d, 'z) sworld_scheme \<Rightarrow> int \<Rightarrow> string \<Rightarrow> txn \<Rightarrow> bool" where
  "own_review sb payload legacy w uid token t \<longleftrightarrow> t_actor t = uid \<and> \<not> t_cancelled t \<and> rm_clock w < t_deadline t
     \<and> (case legacy of None \<Rightarrow> map_of (rm_pending w) token = Some t \<and> (\<exists>v. request_value sb legacy payload = Inr v \<and> dget v ''transaction'' = VStr token)
        | Some _ \<Rightarrow> t_deadline t = rm_clock w + 180)"

lemma own_review_request: "own_review sb payload legacy (w\<lparr>sv_slots := n, sv_moment := k\<rparr>) uid token t = own_review sb payload legacy w uid token t"
  by (cases legacy) (simp_all add: own_review_def)

lemma token_review:
  assumes run: "request_token fd sb uid legacy v w = (Inr (VStr token), w')" and v: "request_value sb legacy payload = Inr v"
    and t: "map_of (rm_pending w') token = Some t" "t_actor t = uid" "\<not> t_cancelled t" "rm_clock w' < t_deadline t"
  shows "own_review sb payload legacy w uid token t"
proof -
  have clock: "rm_clock w' = rm_clock w" using keepsD [OF token_kept run, of rm_clock] by simp
  show ?thesis
  proof (cases legacy)
    case None
    then show ?thesis using run v t by (auto simp: request_token_def own_review_def)
  next
    case (Some l)
    with run obtain rv request u where "prepare fd (Some (resolve_executable sb)) uid request u = (Inr rv, w')" "token = rv_transaction rv"
      by (auto simp: request_token_def act_simps)
    then show ?thesis using prepare_registers t clock Some by (fastforce simp: own_review_def)
  qed
qed

lemma work_Inr:
  assumes "work fd others sb payload sender legacy w = (Inr reply, w')"
  obtains uid w1 d w2 req token v r where "peer sb sender True w = (Inr uid, w1)" "engine_ready sb w1 = (Inr d, w2)"
    "request_value sb legacy payload = Inr req" "request_token fd sb uid legacy req w2 = (Inr (VStr token), v)"
    "apply_review fd uid token (authorize others sb sender uid) v = (Inr r, w')" "reply = saved_reply r"
proof -
  from assms obtain uid w1 d w2 req token v where p: "peer sb sender True w = (Inr uid, w1)" and e: "engine_ready sb w1 = (Inr d, w2)"
    and q: "request_value sb legacy payload = Inr req" "request_token fd sb uid legacy req w2 = (Inr token, v)"
    and a: "(case token of
       VStr s \<Rightarrow> s_bind (apply_review fd uid s (authorize others sb sender uid)) (\<lambda>r. s_ret (saved_reply r))
     | _ \<Rightarrow> s_raise (PolicyError ''A reviewed transaction is required.'')) v = (Inr reply, w')"
    by (auto simp: work_def act_simps)
  from a obtain s where "token = VStr s" by (cases token) simp_all
  with a obtain r where "apply_review fd uid s (authorize others sb sender uid) v = (Inr r, w')" "reply = saved_reply r"
    by (auto simp: act_simps)
  with p e q \<open>token = VStr s\<close> show thesis by (intro that) simp_all
qed

lemma apply_review_moment:
  assumes "apply_review fd uid token auth v = (Inr r, w')"
  obtains t0 t w1 w2 where "map_of (rm_pending v) token = Some t0" "t_actor t0 = uid" "\<not> t_cancelled t0" "rm_clock v < t_deadline t0"
    "t = t0\<lparr>t_applying := True\<rparr>" "w1 = v\<lparr>rm_pending := AList.update token t (rm_pending v)\<rparr>"
    "auth token t w1 = (Inr (), w2)" "sv_moment w' = sv_moment w2"
proof -
  from assms obtain t w1 w2 saved w3 where c: "claim_review uid token v = (Inr t, w1)" and au: "auth token t w1 = (Inr (), w2)"
    and l: "apply_locked fd token t w2 = (Inr saved, w3)" and m: "sv_moment w' = sv_moment w3"
    by (auto simp: apply_review_def act_simps record_undo_def Let_def forget_review_def)
  have "sv_moment w3 = sv_moment w2" using keepsD [OF apply_locked_frame l, of sv_moment] by simp
  with c au m that show thesis by (elim claim_review_Inr) auto
qed

text \<open>
  C4: No change without authority. Whenever a method that changes rules (\<open>Apply\<close> and the four of the
  previous interface, all through \<open>dispatch\<close>) reports success, then, at moments within this request and in
  this order: the caller was an administrator; the engine had confirmed the rule contract; the review was
  this caller's own live one, for \<open>Apply\<close> the pending review that the request names; and, unless the caller is
  root, in an active, unlocked local session polkit gave a fresh authorization for this review, after which
  the same caller was still there and the engine still ready. This holds for every interleaving with other
  requests during the authentication.
\<close>

theorem change_needs_authority:
  fixes w :: "('d, 'z) sworld_scheme"
  assumes "dispatch fd others sb payload sender legacy w = (Inr reply, w')" "vget reply ''ok'' = VBool True" "forward others"
  shows "\<exists>uid token t m. caller_at sb (sv_moment w) sender uid \<and> sv_moment w < m \<and> m < sv_moment w' \<and> engine_at sb m
    \<and> own_review sb payload legacy w uid token t \<and> authenticated sb m (sv_moment w') (w_env w) sender uid token t"
  using assms(1,2)
proof (rule dispatch_ok)
  fix w1 :: "('d, 'z) sworld_scheme"
  assume end_moment: "sv_moment w' = sv_moment w1"
  assume "work fd others sb payload sender legacy (w\<lparr>sv_slots := sv_slots w - 1\<rparr>) = (Inr reply, w1)"
  then show ?thesis
  proof (rule work_Inr)
    fix uid w2 d w3 req token v r
    assume p: "peer sb sender True (w\<lparr>sv_slots := sv_slots w - 1\<rparr>) = (Inr uid, w2)" and e: "engine_ready sb w2 = (Inr d, w3)"
      and q: "request_value sb legacy payload = Inr req" and tk: "request_token fd sb uid legacy req w3 = (Inr (VStr token), v)"
      and a: "apply_review fd uid token (authorize others sb sender uid) v = (Inr r, w1)"
    obtain k1 k2 where k: "w2 = w\<lparr>sv_slots := sv_slots w - 1, sv_moment := k1\<rparr>" "w3 = w2\<lparr>sv_moment := k2\<rparr>" "sv_moment w < k1" "k1 < k2"
      using peer_Inr [OF p] engine_ready_Inr [OF e] by (metis (no_types, lifting) sworld.select_convs(1) sworld.surjective sworld.update_convs(1) sworld.update_convs(2))
    have m: "sv_moment v = k2" "w_env v = w_env w" using keepsD [OF token_kept tk, of sv_moment] keepsD [OF token_kept tk, of w_env] k by simp_all
    from a show ?thesis
    proof (rule apply_review_moment)
      fix t0 t w4 w5
      assume t0: "map_of (rm_pending v) token = Some t0" "t_actor t0 = uid" "\<not> t_cancelled t0" "rm_clock v < t_deadline t0"
        and t: "t = t0\<lparr>t_applying := True\<rparr>" and w4: "w4 = v\<lparr>rm_pending := AList.update token t (rm_pending v)\<rparr>"
        and au: "authorize others sb sender uid token t w4 = (Inr (), w5)" and w5: "sv_moment w1 = sv_moment w5"
      have "own_review sb payload legacy w uid token t0" using token_review [OF tk q t0] k by (simp add: own_review_request)
      moreover have "authenticated sb k2 (sv_moment w') (w_env w) sender uid token t0" "k2 < sv_moment w'"
        using authorize_Inr [OF au assms(3)] t w4 m w5 end_moment by (simp_all add: authenticated_def polkit_at_def)
      moreover have "engine_at sb k1" "caller_at sb (sv_moment w) sender uid" using engine_ready_Inr [OF e] peer_Inr [OF p] k by simp_all
      moreover have "authenticated sb k1 (sv_moment w') (w_env w) sender uid token t0"
        using \<open>authenticated sb k2 _ _ _ _ _ _\<close> k(4) unfolding authenticated_def by (meson less_imp_le order_trans)
      ultimately show ?thesis using k(3,4) by (intro exI [of _ uid] exI [of _ token] exI [of _ t0] exI [of _ k1]) simp
    qed
  qed
qed

section \<open>Refused requests\<close>

lemma outside_moment [simp]: "outside view (w\<lparr>sv_moment := k\<rparr>) = outside view w"
  "outside view (w\<lparr>sv_slots := n\<rparr>) = outside view w" "outside view (w\<lparr>sv_auth := a\<rparr>) = outside view w"
  by (simp_all add: outside_def)

lemma bus_frame: "(\<And>w k. f (w\<lparr>sv_moment := k\<rparr>) = f w) \<Longrightarrow> keeps f (bus_call g)"
  by (auto simp: keeps_def bus_call_def)

lemma keeps_finally: "(\<And>w. f (g w) = f w) \<Longrightarrow> keeps f m \<Longrightarrow> keeps f (s_finally m g)"
  unfolding keeps_def s_finally_def by (auto split: prod.splits)

lemma peer_frame: "(\<And>w k. f (w\<lparr>sv_moment := k\<rparr>) = f w) \<Longrightarrow> keeps f (peer sb sender admin)"
  unfolding peer_def by (intro keeps_intros bus_frame)

lemma engine_frame: "(\<And>w k. f (w\<lparr>sv_moment := k\<rparr>) = f w) \<Longrightarrow> keeps f (engine_ready sb)"
  unfolding engine_ready_def engine_projection_def engine_live_since_def unit_running_def by (intro keeps_intros bus_frame)

lemma authorize_frame:
  assumes "\<And>w k. f (w\<lparr>sv_moment := k\<rparr>) = f w" "\<And>w a. f (w\<lparr>sv_auth := a\<rparr>) = f w" "\<And>w. f (others w) = f w"
  shows "keeps f (authorize others sb sender uid token t)"
  unfolding authorize_def local_session_def check_authorization_def
  by (intro keeps_intros keeps_finally peer_frame engine_frame bus_frame assms)

lemma request_token_frame:
  assumes "fd_lawful fd view" shows "keeps (outside view) (request_token fd sb uid legacy v)"
  unfolding request_token_def
  by (intro keeps_intros outside_read prepare_frame assms)

lemma answer_frame: "keeps f m \<Longrightarrow> keeps f (answer m)"
  unfolding answer_def by (intro keeps_intros)

definition rules_of_firewall :: "'d fw_view \<Rightarrow> ('d, 'z) rworld_scheme \<Rightarrow> string \<times> string \<Rightarrow> string set" where
  "rules_of_firewall view w = view (fw_daemon w)"

lemma keeps_view: "keeps (outside view) m \<Longrightarrow> m w = (r, w') \<Longrightarrow> view (fw_daemon w') = view (fw_daemon w)"
  using keepsD [of "outside view" m w r w'] by (simp add: outside_def)

text \<open>The failed change itself: what the transactions guarantee, for an authentication that keeps the rules.\<close>

lemma apply_refused_view:
  assumes L: "fd_lawful fd view" and a: "apply_review fd actor token auth w = (Inl err, w')"
    and au: "\<And>t. keeps (\<lambda>w. view (fw_daemon w)) (auth token t)"
    and n: "err \<noteq> PolicyError ''Policy save failed and firewall rollback is INCOMPLETE.''"
  shows "view (fw_daemon w') = view (fw_daemon w)"
proof -
  have locked: "view (fw_daemon v) = view (fw_daemon w2)" if "apply_locked fd token t w2 = (Inl err, v)" for t w2 v
  proof (cases "t_provider (case map_of (rm_pending w2) token of Some t \<Rightarrow> t | None \<Rightarrow> t) = ''incoming''")
    case True
    then show ?thesis by (rule apply_locked_incoming [OF L that n])
  next
    case False
    then show ?thesis using apply_locked_application [OF that refl False, of view] by (simp add: files_def)
  qed
  have claim: "view (fw_daemon w1) = view (fw_daemon w)" if "claim_review actor token w = (Inr t, w1)" for t w1
    using that by (auto elim: claim_review_Inr)
  consider "w' = w" | t w1 v where "claim_review actor token w = (Inr t, w1)" "w' = forget_review token v"
    "auth token t w1 = (Inl err, v) \<or> (\<exists>w2. auth token t w1 = (Inr (), w2) \<and> apply_locked fd token t w2 = (Inl err, v))"
    using apply_review_Inl [OF a] by blast
  then show ?thesis
  proof cases
    case 2
    from 2(3) have "view (fw_daemon v) = view (fw_daemon w1)"
    proof
      assume "auth token t w1 = (Inl err, v)"
      then show ?thesis by (rule keepsD [OF au])
    next
      assume "\<exists>w2. auth token t w1 = (Inr (), w2) \<and> apply_locked fd token t w2 = (Inl err, v)"
      then obtain w2 where "auth token t w1 = (Inr (), w2)" and l: "apply_locked fd token t w2 = (Inl err, v)" by blast
      then show ?thesis using keepsD [OF au] locked [OF l] by simp
    qed
    then show ?thesis using claim [OF 2(1)] 2(2) by (simp add: forget_review_def)
  qed simp
qed

lemma work_refused_view:
  assumes L: "fd_lawful fd view" and a: "work fd (\<lambda>w. w) sb payload sender legacy w = (Inl err, w')"
    and n: "err \<noteq> PolicyError ''Policy save failed and firewall rollback is INCOMPLETE.''"
  shows "view (fw_daemon w') = view (fw_daemon w)"
proof -
  let ?f = "\<lambda>w. view (fw_daemon w)"
  have p: "keeps ?f (peer sb sender True)" "keeps ?f (engine_ready sb)" by (intro peer_frame engine_frame; simp)+
  have au: "keeps ?f (authorize (\<lambda>w. w) sb sender uid token t)" for uid token t by (intro authorize_frame) simp_all
  have rt: "?f v' = ?f v" if "request_token fd sb uid legacy x v = (r, v')" for uid x v r v'
    using keeps_view [OF request_token_frame [OF L] that] .
  have tok: "?f v' = ?f v" if "(case token of
       VStr s \<Rightarrow> s_bind (apply_review fd uid s (authorize (\<lambda>w. w) sb sender uid)) (\<lambda>r. s_ret (saved_reply r))
     | _ \<Rightarrow> s_raise (PolicyError ''A reviewed transaction is required.'')) v = (Inl err, v')" for token uid v v'
  proof (cases token)
    case (VStr s)
    then have "apply_review fd uid s (authorize (\<lambda>w. w) sb sender uid) v = (Inl err, v')" using that by (auto simp: act_simps)
    from apply_refused_view [OF L this _ n] au show ?thesis by blast
  qed (use that in simp_all)
  from a show ?thesis
    unfolding work_def
    by (auto simp: act_simps dest!: keepsD [OF p(1)] keepsD [OF p(2)] rt tok)
qed

text \<open>
  C25: A refused request leaves the firewall alone. If a method that changes rules does not report
  success, the rich rules of every zone are those from before, unless the reply itself says that the
  rollback is incomplete. (No other request runs during the authentication here.)
\<close>

theorem refused_keeps_firewall:
  assumes "fd_lawful fd view" "dispatch fd (\<lambda>w. w) sb payload sender legacy w = (r, w')"
    and "\<forall>reply. r = Inr reply \<longrightarrow> vget reply ''ok'' \<noteq> VBool True
      \<and> vget reply ''detail'' \<noteq> VStr ''Policy save failed and firewall rollback is INCOMPLETE.''"
  shows "view (fw_daemon w') = view (fw_daemon w)"
proof (cases "sv_slots w = 0")
  case True
  then show ?thesis using assms(2) by (auto simp: dispatch_def)
next
  case False
  let ?w = "w\<lparr>sv_slots := sv_slots w - 1\<rparr>"
  obtain q v where wk: "work fd (\<lambda>w. w) sb payload sender legacy ?w = (q, v)" by fastforce
  have w': "w' = v\<lparr>sv_slots := Suc (sv_slots v)\<rparr>" and r: "r = (case q of Inl err \<Rightarrow> Inr (failure (exc_str err)) | Inr x \<Rightarrow> Inr x)"
    using assms(2) False wk by (auto simp: dispatch_def s_finally_def answer_def s_catch_def split: sum.splits)
  show ?thesis
  proof (cases q)
    case (Inl err)
    then have "vget (failure (exc_str err)) ''detail'' \<noteq> VStr ''Policy save failed and firewall rollback is INCOMPLETE.''"
      using assms(3) r by simp
    then have "err \<noteq> PolicyError ''Policy save failed and firewall rollback is INCOMPLETE.''"
      by (auto simp: failure_def vget_def dget_def)
    from work_refused_view [OF assms(1) wk [unfolded Inl] this] show ?thesis by (simp add: w')
  next
    case (Inr reply)
    then obtain x where "reply = saved_reply x" using wk by (auto elim: work_Inr)
    then have "vget reply ''ok'' = VBool True" by (simp add: saved_reply_def vget_def dget_def)
    then show ?thesis using assms(3) r Inr by simp
  qed
qed

section \<open>Reading methods\<close>

text \<open>The remaining read calls of the daemon keep its rich rules too.\<close>

definition fd_reads_only :: "'d firewalld \<Rightarrow> 'd fw_view \<Rightarrow> bool" where
  "fd_reads_only fd view \<longleftrightarrow> (\<forall>d r d'. fd_active_zones fd d = (r, d') \<longrightarrow> view d' = view d)
     \<and> (\<forall>z p d r d'. fd_zone_services fd z p d = (r, d') \<longrightarrow> view d' = view d)
     \<and> (\<forall>z p d r d'. fd_zone_ports fd z p d = (r, d') \<longrightarrow> view d' = view d)"

lemma daemon_outside: "(\<And>d r d'. m d = (r, d') \<Longrightarrow> view d' = view d) \<Longrightarrow> keeps (outside view) (daemon m)"
  by (auto simp: keeps_def daemon_def outside_def split: prod.splits)

lemma rich_outside: "fd_lawful fd view \<Longrightarrow> keeps (outside view) (rich_set fd z p)"
  unfolding rich_set_def by (rule daemon_outside) (simp add: fd_lawfulD(1))

lemma observe_outside: assumes "fd_lawful fd view" shows "keeps (outside view) (observe fd rules)"
proof -
  have "keeps (outside view) (observe_rule fd acc x)" for acc x
    unfolding observe_rule_def snapshot_def Let_def by (intro keeps_intros rich_outside assms)
  then show ?thesis unfolding observe_def Let_def by (intro keeps_intros keeps_fold)
qed

lemma external_outside:
  assumes "fd_lawful fd view" "fd_reads_only fd view" shows "keeps (outside view) (external fd rules)"
proof -
  have d: "keeps (outside view) (daemon (fd_active_zones fd))" "keeps (outside view) (daemon (fd_zone_services fd z p))"
    "keeps (outside view) (daemon (fd_zone_ports fd z p))" for z p
    using assms(2) by (auto intro!: daemon_outside simp: fd_reads_only_def)
  have "keeps (outside view) (external_plane fd own acc x)" for own acc x
    unfolding external_plane_def Let_def by (intro keeps_intros d rich_outside assms)
  then show ?thesis unfolding external_def by (intro keeps_intros keeps_fold d)
qed

lemma listing_outside:
  assumes "fd_lawful fd view" "fd_reads_only fd view" shows "keeps (outside view) (listing fd query)"
  unfolding listing_def listing_incoming_def Let_def
  by (intro keeps_intros outside_read outside_catalog observe_outside external_outside assms)

lemma cancel_outside: "keeps (outside view) (cancel uid token)"
  by (auto simp: keeps_def cancel_def outside_def split: option.splits if_splits)

lemma cancel_case_outside:
  "keeps (outside view) (case v of VStr token \<Rightarrow> cancel uid token | t \<Rightarrow> s_raise (if hashable t then PolicyError ''Review not found.'' else TypeError))"
  by (cases v) (auto intro: keeps_intros cancel_outside)

lemma preview_outside: "fd_lawful fd view \<Longrightarrow> keeps (outside view) (preview fd sb payload sender)"
  unfolding preview_def by (intro answer_frame keeps_intros engine_frame peer_frame prepare_frame) simp_all

lemma cancel_method_outside: "keeps (outside view) (cancel_method sb payload sender)"
  unfolding cancel_method_def by (intro answer_frame keeps_intros peer_frame cancel_case_outside) simp_all

lemma list_rules_outside: "keeps (outside view) list_rules"
  unfolding list_rules_def by (intro answer_frame keeps_intros outside_read)

lemma get_rules_outside:
  assumes "fd_lawful fd view" "fd_reads_only fd view" shows "keeps (outside view) (get_rules fd sb payload sender)"
  unfolding get_rules_def with_engine_def Let_def
  by (intro keeps_intros peer_frame engine_frame listing_outside assms) simp_all

lemma get_firewall_state_outside: "keeps (outside view) (get_firewall_state sb sender)"
  unfolding get_firewall_state_def by (intro keeps_intros peer_frame bus_frame) simp_all

text \<open>
  The reading methods and the review. \<open>GetRules\<close>, \<open>ListRules\<close>, \<open>GetFirewallState\<close>, \<open>Preview\<close> and
  \<open>Cancel\<close> change neither the policy file nor its backup, nor a rich rule, nor the undo list, whatever the
  outcome.
\<close>

theorem reading_changes_nothing:
  assumes "fd_lawful fd view" "fd_reads_only fd view"
  shows "(\<forall>w. outside view (snd (get_rules fd sb payload sender w)) = outside view w)
    \<and> (\<forall>w. outside view (snd (preview fd sb payload sender w)) = outside view w)
    \<and> (\<forall>w. outside view (snd (cancel_method sb payload sender w)) = outside view w)
    \<and> (\<forall>w. outside view (snd (list_rules w)) = outside view w)
    \<and> (\<forall>w. outside view (snd (get_firewall_state sb sender w)) = outside view w)"
proof -
  have k: "outside view (snd (m w)) = outside view w" if "keeps (outside view) m" for m w
    using keepsD [OF that, of w "fst (m w)" "snd (m w)"] by simp
  show ?thesis
    using k [OF get_rules_outside [OF assms]] k [OF preview_outside [OF assms(1)]] k [OF cancel_method_outside]
      k [OF list_rules_outside] k [OF get_firewall_state_outside] by blast
qed

section \<open>An example\<close>

definition demo_projection :: dict where
  "demo_projection = [(''rules_schema'', VStr RULES_SCHEMA), (''opensnitch'', VDict [(''state'', VStr ''OPERATING''), (''last_seen'', VStr ''t'')])]"

definition demo_unit :: unit_info where
  "demo_unit = \<lparr>ui_state = ''active'', ui_pid = 7, ui_started = 1000000\<rparr>"

definition demo_file_info :: projection_file where
  "demo_file_info = \<lparr>pf_uid = 0, pf_mode = 0, pf_size = 10, pf_json = Inr (VDict demo_projection), pf_mtime = 2\<rparr>"

definition demo_user :: user_facts where
  "demo_user = \<lparr>uf_state = ''active'', uf_display = ''c1'', uf_session = ''/s''\<rparr>"

definition demo_session :: session_facts where
  "demo_session = \<lparr>sf_remote = False, sf_locked = False, sf_active = True, sf_seat = ''seat0''\<rparr>"

definition demo_sb :: sysbus where
  "demo_sb = \<lparr>sb_uid = (\<lambda>m s. Inr 1000), sb_passwd = (\<lambda>m u. Inr (10, ''admin'')), sb_wheel = (\<lambda>m. Inr (10, [])),
     sb_unit = (\<lambda>m n. Inr demo_unit), sb_projection = (\<lambda>m. Inr demo_file_info), sb_user = (\<lambda>m u. Inr demo_user),
     sb_session = (\<lambda>m s. Inr demo_session), sb_polkit = (\<lambda>m s t r. Inr (True, False, [])),
     sb_executable = (\<lambda>p. Inr (p, True, 73)), sb_firewall_state = (\<lambda>m. Inr ''RUNNING''),
     sb_json = (\<lambda>s. Inr (VDict [(''transaction'', VStr ''token'')])), sb_isotime = (\<lambda>s. Inr 0), sb_now = (\<lambda>m. 0)\<rparr>"

definition demo_sworld :: "demo_rules sworld" where
  "demo_sworld = \<lparr>w_env = demo_env, w_store = new_store,
     w_policy_file = Some \<lparr>f_json = Inr (VDict demo_policy), f_size = 90, f_mtime = 1\<rparr>, w_backup_file = None,
     w_io = (\<lambda>n. Some (int n + 2)), w_step = 0, fw_daemon = [((''public'', ''runtime''), [''external''])], fw_cache = None,
     rm_firewall = True, rm_pending = [(''token'', demo_txn)], rm_undo = [], rm_clock = 100, rm_uuids = (\<lambda>n. ''0123456789abcdef0123''),
     rm_tokens = (\<lambda>n. ''token''), rm_counter = 0, sv_moment = 0, sv_slots = 2, sv_auth = []\<rparr>"

lemma demo_peer_call: "s \<noteq> [] \<Longrightarrow> peer demo_sb s True w = (Inr 1000, w\<lparr>sv_moment := Suc (Suc (Suc (sv_moment w)))\<rparr>)"
  by (simp add: peer_def demo_sb_def bus_call_def s_bind_def s_guard_def)

lemma demo_engine_call: "\<exists>d. engine_ready demo_sb w = (Inr d, w\<lparr>sv_moment := Suc (Suc (Suc (sv_moment w)))\<rparr>)"
  by (simp add: engine_ready_def engine_projection_def engine_live_since_def unit_running_def demo_sb_def bus_call_def s_bind_def s_guard_def
      demo_file_info_def schema_confirmed_def demo_projection_def opensnitch_get_def dget_def dget_or_def str_in_def demo_unit_def)

lemma demo_session_call: "local_session demo_sb uid w = (Inr (), w\<lparr>sv_moment := Suc (Suc (sv_moment w))\<rparr>)"
  by (simp add: local_session_def demo_sb_def bus_call_def s_bind_def s_guard_def demo_user_def demo_session_def)

lemma demo_check: "check_authorization (\<lambda>w. w) demo_sb s token t v = (Inr (), v\<lparr>sv_moment := Suc (sv_moment v)\<rparr>)"
  by (simp add: check_authorization_def demo_sb_def bus_call_def s_bind_def s_guard_def dget_def)

lemma demo_authorize:
  assumes "s \<noteq> []" "sv_auth w = []"
  shows "\<exists>k. authorize (\<lambda>w. w) demo_sb s 1000 token t w = (Inr (), w\<lparr>sv_moment := k\<rparr>)"
proof -
  define w1 where "w1 = w\<lparr>sv_moment := sv_moment w + 3\<rparr>"
  define w2 where "w2 = w\<lparr>sv_moment := sv_moment w + 9, sv_auth := [token]\<rparr>"
  have p1: "peer demo_sb s True w = (Inr 1000, w1)" by (simp add: demo_peer_call assms w1_def numeral_3_eq_3)
  obtain d where e: "engine_ready demo_sb w2 = (Inr d, w2\<lparr>sv_moment := Suc (Suc (Suc (sv_moment w2)))\<rparr>)"
    using demo_engine_call [of w2] by blast
  have "check_authorization (\<lambda>w. w) demo_sb s token t (w1\<lparr>sv_moment := Suc (Suc (sv_moment w1)), sv_auth := [token]\<rparr>)
      = (Inr (), w\<lparr>sv_moment := sv_moment w + 6, sv_auth := [token]\<rparr>)" by (simp add: demo_check w1_def)
  moreover have "peer demo_sb s True (w\<lparr>sv_moment := sv_moment w + 6, sv_auth := [token]\<rparr>) = (Inr 1000, w2)"
    by (simp add: demo_peer_call assms w2_def)
  ultimately have "s_bind (local_session demo_sb 1000) (\<lambda>_. s_bind (s_modify (\<lambda>w. w\<lparr>sv_auth := token # sv_auth w\<rparr>)) (\<lambda>_.
       s_bind (check_authorization (\<lambda>w. w) demo_sb s token t) (\<lambda>_. s_bind (peer demo_sb s True) (\<lambda>v.
       s_bind (s_guard (v = 1000) (PolicyError ''The originating caller exited or changed.'')) (\<lambda>_.
       s_bind (engine_ready demo_sb) (\<lambda>_. s_ret ())))))) w1 = (Inr (), w2\<lparr>sv_moment := Suc (Suc (Suc (sv_moment w2)))\<rparr>)"
    using assms(2) by (simp add: s_bind_def demo_session_call s_guard_def e w1_def)
  then have "authorize (\<lambda>w. w) demo_sb s 1000 token t w = (Inr (), w2\<lparr>sv_moment := Suc (Suc (Suc (sv_moment w2))), sv_auth := []\<rparr>)"
    using p1 by (simp add: authorize_def s_bind_def [of "peer demo_sb s True"] s_bind_def [of "s_guard True e" for e] s_guard_def s_finally_def w2_def)
  moreover have "w2\<lparr>sv_moment := Suc (Suc (Suc (sv_moment w2))), sv_auth := []\<rparr> = w\<lparr>sv_moment := Suc (Suc (Suc (sv_moment w2)))\<rparr>"
    using assms(2) by (simp add: w2_def)
  ultimately show ?thesis by auto
qed

lemma demo_locked:
  assumes "map_of (rm_pending w) ''token'' = Some t" "\<not> t_cancelled t" "rm_clock w < t_deadline t" "t_provider t = ''application''"
    "dget (t_before t) ''revision'' = VInt 0" "t_after t = demo_policy" "w_store w = new_store" "w_env w = demo_env"
    "w_policy_file w = w_policy_file demo_sworld" "w_io w = w_io demo_sworld"
  shows "\<exists>saved v. apply_locked fd ''token'' t w = (Inr saved, v)"
proof -
  define w1 where "w1 = w\<lparr>w_store := new_store\<lparr>st_last_good := Some (policy_defaults demo_policy), st_signature := Some (1, 90)\<rparr>\<rparr>"
  have rd: "store_read w = (Inr (policy_defaults demo_policy), w1)"
    using assms(7-9) by (simp add: store_read_def w1_def demo_sworld_def load_file_def MAX_BYTES_def new_store_def demo_migrate)
  have "\<exists>v. store_write demo_policy (VInt 0) w1 = (Inr (dput (policy_defaults demo_policy) ''revision'' (VInt (0 + 1))), v)"
    by (rule store_write_completes [OF store_read_again [OF rd] demo_revision])
      (use assms demo_size in \<open>simp_all add: w1_def demo_migrate demo_sworld_def\<close>)
  then show ?thesis
    using assms rd demo_gets by (auto simp: apply_locked_def s_bind_def s_guard_def apply_journal_def s_catch_def w1_def)
qed

lemma demo_dispatch:
  "\<exists>reply w'. dispatch demo_firewalld (\<lambda>w. w) demo_sb ''{}'' '':1.5'' None demo_sworld = (Inr reply, w') \<and> vget reply ''ok'' = VBool True"
proof -
  define t where "t = demo_txn\<lparr>t_applying := True\<rparr>"
  define w where "w k = demo_sworld\<lparr>sv_slots := 1, sv_moment := k\<rparr>" for k
  define v where "v k = (w k)\<lparr>rm_pending := [(''token'', t)]\<rparr>" for k
  have claim: "claim_review 1000 ''token'' (w k) = (Inr t, v k)" for k
    by (simp add: claim_review_def w_def v_def t_def demo_sworld_def demo_env_applying Let_def)
  have "sv_auth (v k) = []" for k by (simp add: v_def w_def demo_sworld_def)
  then have au: "\<exists>j. authorize (\<lambda>w. w) demo_sb '':1.5'' 1000 ''token'' t (v k) = (Inr (), v j)" for k
    using demo_authorize [of "'':1.5''" "v k" "''token''" t] by (auto simp: v_def w_def demo_sworld_def)
  have lk: "\<exists>saved v'. apply_locked demo_firewalld ''token'' t (v k) = (Inr saved, v')" for k
    by (rule demo_locked) (simp_all add: v_def w_def t_def demo_sworld_def demo_env_applying)
  have ap: "\<exists>r w'. apply_review demo_firewalld 1000 ''token'' (authorize (\<lambda>w. w) demo_sb '':1.5'' 1000) (w k) = (Inr r, w')" for k
  proof -
    obtain j where j: "authorize (\<lambda>w. w) demo_sb '':1.5'' 1000 ''token'' t (v k) = (Inr (), v j)" using au by blast
    obtain saved v' where s: "apply_locked demo_firewalld ''token'' t (v j) = (Inr saved, v')" using lk by blast
    show ?thesis by (simp add: apply_review_def s_bind_def s_finally_def claim j s record_undo_def Let_def)
  qed
  have start: "demo_sworld\<lparr>sv_slots := sv_slots demo_sworld - 1\<rparr> = w 0" by (simp add: w_def demo_sworld_def)
  have dec: "decode demo_sb ''{}'' = Inr [(''transaction'', VStr ''token'')]"
    by (simp add: decode_def utf8_length_def MAX_BYTES_def demo_sb_def py_bind_def)
  obtain d where e: "engine_ready demo_sb (w 3) = (Inr d, w 6)" using demo_engine_call [of "w 3"] by (auto simp: w_def)
  have pe: "peer demo_sb '':1.5'' True (w k) = (Inr 1000, w (k + 3))" for k by (simp add: demo_peer_call w_def numeral_3_eq_3)
  obtain r w' where r: "apply_review demo_firewalld 1000 ''token'' (authorize (\<lambda>w. w) demo_sb '':1.5'' 1000) (w 6) = (Inr r, w')" using ap by blast
  have wk: "work demo_firewalld (\<lambda>w. w) demo_sb ''{}'' '':1.5'' None (w 0) = (Inr (saved_reply r), w')"
    using r by (simp add: work_def s_bind_def pe e request_value_def dec request_token_def dget_def)
  have "sv_slots demo_sworld \<noteq> 0" by (simp add: demo_sworld_def)
  then show ?thesis
    using wk by (simp add: dispatch_def start [simplified] s_finally_def answer_def s_catch_def) (simp add: saved_reply_def vget_def dget_def)
qed

theorem change_needs_authority_witness:
  "\<exists>reply w'. dispatch demo_firewalld (\<lambda>w. w) demo_sb ''{}'' '':1.5'' None demo_sworld = (Inr reply, w')
    \<and> (\<exists>uid token t m. caller_at demo_sb (sv_moment demo_sworld) '':1.5'' uid \<and> own_review demo_sb ''{}'' None demo_sworld uid token t
      \<and> authenticated demo_sb m (sv_moment w') (w_env demo_sworld) '':1.5'' uid token t)"
proof -
  obtain reply w' where d: "dispatch demo_firewalld (\<lambda>w. w) demo_sb ''{}'' '':1.5'' None demo_sworld = (Inr reply, w')"
    and ok: "vget reply ''ok'' = VBool True" using demo_dispatch by blast
  have "forward (\<lambda>w :: demo_rules sworld. w)" by (simp add: forward_def)
  from change_needs_authority [OF d ok this] d show ?thesis by blast
qed

theorem refused_keeps_firewall_witness:
  "\<exists>r w'. dispatch demo_firewalld (\<lambda>w. w) demo_sb ''{}'' [] None demo_sworld = (r, w')
    \<and> demo_view (fw_daemon w') = demo_view (fw_daemon demo_sworld)"
proof -
  obtain w' where d: "dispatch demo_firewalld (\<lambda>w. w) demo_sb ''{}'' [] None demo_sworld
    = (Inr (failure ''Authenticated D-Bus sender is required.''), w')"
    by (simp add: dispatch_def demo_sworld_def s_finally_def answer_def s_catch_def work_def peer_def s_bind_def s_guard_def)
  have "\<forall>reply. (Inr (failure ''Authenticated D-Bus sender is required.'') :: val py) = Inr reply \<longrightarrow> vget reply ''ok'' \<noteq> VBool True
      \<and> vget reply ''detail'' \<noteq> VStr ''Policy save failed and firewall rollback is INCOMPLETE.''"
    by (simp add: failure_def vget_def dget_def)
  from refused_keeps_firewall [OF demo_lawful d this] d show ?thesis by blast
qed

lemma demo_reads_only: "fd_reads_only demo_firewalld demo_view"
  by (simp add: fd_reads_only_def demo_firewalld_def)

theorem reading_changes_nothing_witness:
  "outside demo_view (snd (preview demo_firewalld demo_sb ''{}'' '':1.5'' demo_sworld)) = outside demo_view demo_sworld
   \<and> outside demo_view (snd (get_rules demo_firewalld demo_sb ''{}'' '':1.5'' demo_sworld)) = outside demo_view demo_sworld"
  using reading_changes_nothing [OF demo_lawful demo_reads_only] by blast

end
