(* ===== verification/Py_Loops.thy ===== *)
theory Py_Loops
  imports Py_Invariants Py_Clean "HOL-Library.Multiset"
begin

text \<open>
  What the assembling code of the services shares: loops over a list for their effect, attribute access on
  values that should be dictionaries, slices, D-Bus errors, and \<open>sorted\<close> with a comparison that may raise.
\<close>

section \<open>Values\<close>

text \<open>\<open>x in S\<close> for a set or dictionary with text keys: an unhashable value raises.\<close>

definition in_keys :: "val \<Rightarrow> string list \<Rightarrow> bool py" where
  "in_keys v ks = (if hashable v then Inr (str_in v ks) else Inl TypeError)"

text \<open>Code whose first use of a value is \<open>.get\<close>.\<close>

definition as_mapping :: "val \<Rightarrow> dict py" where
  "as_mapping v = (case v of VDict d \<Rightarrow> Inr d | _ \<Rightarrow> Inl (OtherError ''AttributeError''))"

text \<open>\<open>v[:n]\<close>: a dictionary takes no slice.\<close>

definition py_slice :: "nat \<Rightarrow> val \<Rightarrow> val py" where
  "py_slice n v = (case v of VList xs \<Rightarrow> Inr (VList (take n xs)) | VStr s \<Rightarrow> Inr (VStr (take n s)) | _ \<Rightarrow> Inl TypeError)"

text \<open>Text concatenation with a value.\<close>

definition py_concat :: "string \<Rightarrow> val \<Rightarrow> string py" where
  "py_concat s v = (case v of VStr t \<Rightarrow> Inr (s @ t) | _ \<Rightarrow> Inl TypeError)"

text \<open>\<open>str.capitalize\<close> on Latin-1: the first character as a title, the others in lower case.\<close>

definition py_capitalize :: "string \<Rightarrow> string" where
  "py_capitalize s = (case s of [] \<Rightarrow> [] | c # t \<Rightarrow> (if code c = 223 then ''Ss'' else upper_char c) @ py_lower t)"

lemma in_keys_Inr [simp]: "in_keys v ks = Inr b \<longleftrightarrow> hashable v \<and> b = str_in v ks"
  by (auto simp: in_keys_def)

lemma as_mapping_Inr [simp]: "as_mapping v = Inr d \<longleftrightarrow> v = VDict d"
  by (cases v) (simp_all add: as_mapping_def)

lemma py_concat_Inr [simp]: "py_concat s v = Inr r \<longleftrightarrow> (\<exists>t. v = VStr t \<and> r = s @ t)"
  by (cases v) (auto simp: py_concat_def)

section \<open>D-Bus errors\<close>

text \<open>D-Bus errors carry their name.\<close>

definition dbus_error :: "string \<Rightarrow> exc" where
  "dbus_error name = OtherError (''dbus:'' @ name)"

fun is_dbus :: "exc \<Rightarrow> bool" where
  "is_dbus (OtherError s) = startswith s ''dbus:''" | "is_dbus err = False"

definition dbus_name :: "exc \<Rightarrow> string option" where
  "dbus_name err = (case err of OtherError s \<Rightarrow> if startswith s ''dbus:'' then Some (drop 5 s) else None | _ \<Rightarrow> None)"

lemma dbus_name_error [simp]: "dbus_name (dbus_error name) = Some name"
  by (simp add: dbus_name_def dbus_error_def startswith_def)

section \<open>Loops\<close>

fun s_each :: "('b \<Rightarrow> ('w, unit) act) \<Rightarrow> 'b list \<Rightarrow> ('w, unit) act" where
  "s_each f [] = s_ret ()"
| "s_each f (x # xs) = s_bind (f x) (\<lambda>_. s_each f xs)"

lemma preserves_each: "(\<And>x. preserves P (f x)) \<Longrightarrow> preserves P (s_each f xs)"
  by (induction xs) (auto intro: preserves_intros)

lemma s_each_append: "s_each f (xs @ ys) = s_bind (s_each f xs) (\<lambda>_. s_each f ys)"
  by (induction xs) (auto simp: fun_eq_iff s_bind_def split: prod.splits sum.splits)

text \<open>A loop that ends ran its body on each element.\<close>

lemma s_each_ran:
  assumes "s_each f xs w = (Inr u, w')" and "x \<in> set xs"
  obtains v v' where "f x v = (Inr (), v')" and "\<exists>ys. s_each f ys v' = (Inr (), w')"
proof -
  from assms(2) obtain ys zs where xs: "xs = ys @ x # zs" by (meson split_list)
  then show ?thesis using assms(1) that by (auto simp: s_each_append s_bind_eq_Inr)
qed

section \<open>Sorting\<close>

text \<open>\<open>a < b\<close> on scalars; other values are not comparable.\<close>

definition py_less :: "val \<Rightarrow> val \<Rightarrow> bool py" where
  "py_less a b = (case (a, b) of
       (VStr s, VStr t) \<Rightarrow> Inr (s < t)
     | _ \<Rightarrow> (case (num_val a, num_val b) of (Some x, Some y) \<Rightarrow> Inr (f_le x y \<and> \<not> f_le y x) | _ \<Rightarrow> Inl TypeError))"

fun insert_by :: "('a \<Rightarrow> 'a \<Rightarrow> bool py) \<Rightarrow> 'a \<Rightarrow> 'a list \<Rightarrow> 'a list py" where
  "insert_by before x [] = Inr [x]"
| "insert_by before x (y # ys) = py_bind (before y x) (\<lambda>b. if b then py_bind (insert_by before x ys) (\<lambda>zs. Inr (y # zs)) else Inr (x # y # ys))"

text \<open>\<open>sorted(xs)\<close>: stable, and raises when two elements that have to be compared are not comparable.\<close>

fun py_sorted :: "('a \<Rightarrow> 'a \<Rightarrow> bool py) \<Rightarrow> 'a list \<Rightarrow> 'a list py" where
  "py_sorted before [] = Inr []"
| "py_sorted before (x # xs) = py_bind (py_sorted before xs) (insert_by before x)"

lemma insert_by_mset: "insert_by before x xs = Inr ys \<Longrightarrow> mset ys = add_mset x (mset xs)"
  by (induction xs arbitrary: ys) (auto simp: py_bind_eq_Inr split: if_splits)

lemma py_sorted_mset: "py_sorted before xs = Inr ys \<Longrightarrow> mset ys = mset xs"
  by (induction xs arbitrary: ys) (auto simp: py_bind_eq_Inr dest: insert_by_mset)

lemma py_sorted_set: "py_sorted before xs = Inr ys \<Longrightarrow> set ys = set xs"
  by (metis py_sorted_mset set_mset_mset)

locale ranked_order =
  fixes before :: "'a \<Rightarrow> 'a \<Rightarrow> bool py" and rank :: "'a \<Rightarrow> nat"
  assumes below: "before a b = Inr c \<Longrightarrow> if c then rank a \<le> rank b else rank b \<le> rank a"
begin

lemma insert_by_sorted:
  "insert_by before x xs = Inr ys \<Longrightarrow> sorted (map rank xs) \<Longrightarrow> sorted (map rank ys)"
proof (induction xs arbitrary: ys)
  case (Cons y xs)
  from Cons.prems(1) obtain b where b: "before y x = Inr b"
    and r: "(if b then py_bind (insert_by before x xs) (\<lambda>zs. Inr (y # zs)) else Inr (x # y # xs)) = Inr ys"
    by (auto simp: py_bind_eq_Inr)
  show ?case
  proof (cases b)
    case True
    then obtain zs where z: "insert_by before x xs = Inr zs" "ys = y # zs" using r by (auto simp: py_bind_eq_Inr)
    then have "set zs = insert x (set xs)" using insert_by_mset by (metis set_mset_add_mset_insert set_mset_mset)
    then show ?thesis using z Cons True below [OF b] by auto
  next
    case False
    then show ?thesis using r Cons.prems(2) below [OF b] by (force dest: order_trans)
  qed
qed simp

lemma py_sorted_sorted: "py_sorted before xs = Inr ys \<Longrightarrow> sorted (map rank ys)"
  by (induction xs arbitrary: ys) (auto simp: py_bind_eq_Inr intro: insert_by_sorted)

text \<open>No element comes ahead of the first one of the result.\<close>

lemma first_is_least:
  assumes "py_sorted before xs = Inr ys" and "x \<in> set xs"
  shows "rank (hd ys) \<le> rank x"
proof -
  have "x \<in> set ys" using assms py_sorted_set by metis
  then show ?thesis using py_sorted_sorted [OF assms(1)] by (cases ys) auto
qed

end

end
