(* ===== verification/Secure_Dns_Link.thy ===== *)
theory Secure_Dns_Link
  imports Ip_Address Py_Loops Feodo
begin

text \<open>
  The lower half of \<open>secure_dns_reconciler.py\<close>: providers, the stored choice of the user, the properties
  of a resolver link and the calls that read and change them. The resolver, NetworkManager and the clock
  are the record \<open>resolver\<close> over an arbitrary state; each of its calls may raise and may change that state.
\<close>

section \<open>Providers\<close>

record provider =
  pv_label :: string
  pv_sni :: string
  pv_addresses :: "string list"

definition MODES :: "string list" where
  "MODES = [''Automatic'', ''Privacy'', ''NetworkDefault'']"

definition PROVIDER_ORDER :: "string list" where
  "PROVIDER_ORDER = [''quad9'', ''controld'', ''adguard'']"

definition PROVIDERS :: "(string \<times> provider) list" where
  "PROVIDERS = [
     (''quad9'', \<lparr>pv_label = ''Quad9'', pv_sni = ''dns.quad9.net'',
        pv_addresses = [''9.9.9.9'', ''149.112.112.112'', ''2620:fe::fe'', ''2620:fe::9'']\<rparr>),
     (''controld'', \<lparr>pv_label = ''Control D'', pv_sni = ''p2.freedns.controld.com'',
        pv_addresses = [''76.76.2.2'', ''76.76.10.2'', ''2606:1a40::2'', ''2606:1a40:1::2'']\<rparr>),
     (''adguard'', \<lparr>pv_label = ''AdGuard Public'', pv_sni = ''dns.adguard-dns.com'',
        pv_addresses = [''94.140.14.14'', ''94.140.15.15'', ''2a10:50c0::ad1:ff'', ''2a10:50c0::ad2:ff'']\<rparr>)]"

definition is_provider :: "string \<Rightarrow> bool" where
  "is_provider k \<longleftrightarrow> k \<in> set (map fst PROVIDERS)"

definition provider_of :: "string \<Rightarrow> provider py" where
  "provider_of k = (case map_of PROVIDERS k of None \<Rightarrow> Inl (KeyError k) | Some p \<Rightarrow> Inr p)"

section \<open>The stored choice\<close>

record dns_policy =
  sp_value :: dict
  sp_desired :: string
  sp_order :: "string list"
  sp_provider :: string

definition read_json :: "val py \<Rightarrow> dict \<Rightarrow> dict py" where
  "read_json content fallback = (case content of
       Inl x \<Rightarrow> if is_json_error x then Inr fallback else Inl x
     | Inr (VDict d) \<Rightarrow> Inr d
     | Inr _ \<Rightarrow> Inr fallback)"

definition default_dns_policy :: dict where
  "default_dns_policy = [(''desired_policy'', VStr ''Automatic''), (''provider'', VStr ''quad9''),
     (''provider_order'', VList (map VStr PROVIDER_ORDER)), (''custom'', VNone)]"

fun append_missing :: "string list \<Rightarrow> string list \<Rightarrow> string list" where
  "append_missing order [] = order"
| "append_missing order (k # ks) = append_missing (if k \<in> set order then order else order @ [k]) ks"

definition provider_order :: "val \<Rightarrow> string list py" where
  "provider_order v = py_bind (py_map (\<lambda>x. in_keys x (map fst PROVIDERS)) (case v of VList xs \<Rightarrow> xs | _ \<Rightarrow> map VStr PROVIDER_ORDER)) (\<lambda>flags.
     Inr (append_missing (map (\<lambda>p. as_str (fst p)) (filter snd (zip (case v of VList xs \<Rightarrow> xs | _ \<Rightarrow> map VStr PROVIDER_ORDER) flags))) PROVIDER_ORDER))"

definition load_dns_policy :: "val py \<Rightarrow> dns_policy py" where
  "load_dns_policy content = py_bind (read_json content default_dns_policy) (\<lambda>value.
     py_bind (in_keys (dget value ''desired_policy'') MODES) (\<lambda>known.
     let desired = (if known then as_str (dget value ''desired_policy'') else ''Automatic'') in
     py_bind (provider_order (dget value ''provider_order'')) (\<lambda>order.
     py_bind (in_keys (dget value ''provider'') (map fst PROVIDERS)) (\<lambda>chosen.
     let provider = (if chosen then as_str (dget value ''provider'') else hd order) in
     Inr \<lparr>sp_value = dput (dput (dput value ''desired_policy'' (VStr desired)) ''provider_order'' (VList (map VStr order))) ''provider'' (VStr provider),
       sp_desired = desired, sp_order = order, sp_provider = provider\<rparr>))))"

section \<open>Links\<close>

record dns_server =
  ds_family :: int
  ds_address :: "nat list"
  ds_port :: int
  ds_name :: string

record link_props =
  lk_dns :: "dns_server list"
  lk_current :: "dns_server option"
  lk_dot :: string
  lk_dnssec :: string
  lk_default_route :: bool
  lk_domains :: "(string \<times> bool) list"

record link_snapshot =
  sn_ifindex :: int
  sn_dns :: "dns_server list"
  sn_dot :: string
  sn_dnssec :: string
  sn_default_route :: bool
  sn_domains :: "(string \<times> bool) list"

record nm_device =
  nd_state :: int
  nd_interface :: string
  nd_type :: int
  nd_ifindex :: "int py"

record 'd resolver =
  rd_devices :: "('d, nm_device list) act"
  rd_link :: "int \<Rightarrow> ('d, link_props) act"
  rd_global :: "('d, link_props) act"
  rd_set_dns :: "int \<Rightarrow> dns_server list \<Rightarrow> ('d, unit) act"
  rd_set_dot :: "int \<Rightarrow> string \<Rightarrow> ('d, unit) act"
  rd_set_dnssec :: "int \<Rightarrow> string \<Rightarrow> ('d, unit) act"
  rd_set_default_route :: "int \<Rightarrow> bool \<Rightarrow> ('d, unit) act"
  rd_revert :: "int \<Rightarrow> ('d, unit) act"
  rd_resolve :: "int \<Rightarrow> ('d, bool \<times> nat) act"
  rd_reload :: "('d, unit) act"
  rd_monotonic :: "'d \<Rightarrow> rat \<times> 'd"
  rd_sleep :: "'d \<Rightarrow> 'd"

datatype config_file = ConfigMissing | ConfigSymlink | ConfigText string

record 'd dworld =
  dn_daemon :: 'd
  dn_policy_file :: "val py"
  dn_snapshot :: "link_snapshot option"
  dn_private :: "link_snapshot option"
  dn_config :: config_file
  dn_read_only :: bool
  dn_now :: rat
  dn_io :: "nat \<Rightarrow> bool"
  dn_step :: nat

definition ask :: "('d, 'a) act \<Rightarrow> (('d, 'z) dworld_scheme, 'a) act" where
  "ask m w = (case m (dn_daemon w) of (r, d) \<Rightarrow> (r, w\<lparr>dn_daemon := d\<rparr>))"

text \<open>A change of one file: it may raise \<open>OSError\<close> and then leaves the file as it was.\<close>

definition file_op :: "(('d, 'z) dworld_scheme \<Rightarrow> ('d, 'z) dworld_scheme) \<Rightarrow> (('d, 'z) dworld_scheme, unit) act" where
  "file_op f w = (let w' = w\<lparr>dn_step := Suc (dn_step w)\<rparr> in
     if dn_io w (dn_step w) then (Inr (), f w') else (Inl (OSError ''write''), w'))"

definition is_link_error :: "exc \<Rightarrow> bool" where
  "is_link_error err \<longleftrightarrow> is_dbus err \<or> (case err of OSError s \<Rightarrow> True | KeyError s \<Rightarrow> True | _ \<Rightarrow> is_value_error err)"

record dns_device =
  dv_interface :: string
  dv_ifindex :: int
  dv_vpn :: bool

definition vpn_name :: "string \<Rightarrow> bool" where
  "vpn_name s \<longleftrightarrow> list_ex (startswith s) [''tun'', ''tap'', ''wg'', ''ppp'']"

definition device_of :: "nm_device \<Rightarrow> dns_device list py" where
  "device_of n = (if nd_state n \<noteq> 100 \<or> nd_interface n = [] \<or> nd_interface n = ''lo'' then Inr []
     else py_bind (nd_ifindex n) (\<lambda>i. Inr [\<lparr>dv_interface = nd_interface n, dv_ifindex = i, dv_vpn = (nd_type n = 53 \<or> vpn_name (nd_interface n))\<rparr>]))"

definition active_devices :: "'d resolver \<Rightarrow> (('d, 'z) dworld_scheme, dns_device list) act" where
  "active_devices rd = s_bind (ask (rd_devices rd)) (\<lambda>ns. s_bind (s_lift (py_map device_of ns)) (\<lambda>ds. s_ret (concat ds)))"

definition domains_of :: "link_props \<Rightarrow> string list" where
  "domains_of p = map fst (lk_domains p)"

definition bytes_value :: "nat list \<Rightarrow> nat" where
  "bytes_value bs = foldl (\<lambda>n b. n * 256 + b) 0 bs"

text \<open>\<open>str(ipaddress.ip_address(bytes(address)))\<close>.\<close>

definition bytes_text :: "nat list \<Rightarrow> string option" where
  "bytes_text bs = (if length bs = 4 then Some (ip_str (IPv4 (bytes_value bs)))
     else if length bs = 16 then Some (ip_str (IPv6 (bytes_value bs) None)) else None)"

definition packed :: "ipaddr \<Rightarrow> nat list" where
  "packed a = map (\<lambda>i. ip_int a div 256 ^ (ip_bits a div 8 - Suc i) mod 256) [0..<ip_bits a div 8]"

record server_view =
  sw_address :: string
  sw_port :: int
  sw_name :: string
  sw_family :: int

definition server_of :: "link_props \<Rightarrow> server_view option" where
  "server_of p = (case lk_current p of None \<Rightarrow> None | Some s \<Rightarrow> (case bytes_text (ds_address s) of None \<Rightarrow> None
     | Some a \<Rightarrow> Some \<lparr>sw_address = a, sw_port = ds_port s, sw_name = ds_name s, sw_family = ds_family s\<rparr>))"

definition is_yes :: "string \<Rightarrow> bool" where
  "is_yes s \<longleftrightarrow> py_lower s \<in> set [''yes'', ''true'']"

definition transport :: "link_props \<Rightarrow> bool \<Rightarrow> string" where
  "transport p vpn = (if vpn then ''VPNTunnel'' else if is_yes (lk_dot p) then ''DoT'' else ''Plain'')"

definition mutation_enabled :: "(('d, 'z) dworld_scheme, bool) act" where
  "mutation_enabled = s_get (\<lambda>w. \<not> dn_read_only w)"

definition provider_entry :: "string \<Rightarrow> string \<Rightarrow> dns_server py" where
  "provider_entry sni text = (case ip_address text of None \<Rightarrow> Inl (ValueError text)
     | Some a \<Rightarrow> Inr \<lparr>ds_family = (if ip_version a = 4 then 2 else 10), ds_address = packed a, ds_port = 853, ds_name = sni\<rparr>)"

definition provider_dns :: "provider \<Rightarrow> dns_server list py" where
  "provider_dns p = py_map (provider_entry (pv_sni p)) (pv_addresses p)"

definition take_snapshot :: "int \<Rightarrow> link_props \<Rightarrow> link_snapshot" where
  "take_snapshot i p = \<lparr>sn_ifindex = i, sn_dns = lk_dns p, sn_dot = lk_dot p, sn_dnssec = lk_dnssec p,
     sn_default_route = lk_default_route p, sn_domains = []\<rparr>"

definition server_key :: "dns_server \<Rightarrow> int \<times> nat list \<times> string" where
  "server_key s = (ds_family s, ds_address s, ds_name s)"

definition managed :: "link_props \<Rightarrow> provider \<Rightarrow> bool" where
  "managed p pv \<longleftrightarrow> (case provider_dns pv of Inl _ \<Rightarrow> False | Inr expected \<Rightarrow> server_key ` set (lk_dns p) = server_key ` set expected)
     \<and> is_yes (lk_dot p) \<and> is_yes (lk_dnssec p)"

definition apply_link :: "'d resolver \<Rightarrow> int \<Rightarrow> provider \<Rightarrow> (('d, 'z) dworld_scheme, unit) act" where
  "apply_link rd i pv = s_bind (s_lift (provider_dns pv)) (\<lambda>servers.
     s_bind (ask (rd_set_dns rd i servers)) (\<lambda>_.
     s_bind (ask (rd_set_dot rd i ''yes'')) (\<lambda>_. ask (rd_set_dnssec rd i ''yes''))))"

definition managed_provider :: "link_props \<Rightarrow> string option" where
  "managed_provider p = map_option fst (find (\<lambda>(k, pv). managed p pv) PROVIDERS)"

text \<open>The link carries settings of this service: of the given provider, or of any.\<close>

definition is_ours :: "provider option \<Rightarrow> link_props \<Rightarrow> bool" where
  "is_ours pv p = (case pv of None \<Rightarrow> managed_provider p \<noteq> None | Some v \<Rightarrow> managed p v)"

definition restore_link :: "'d resolver \<Rightarrow> link_snapshot option \<Rightarrow> provider option \<Rightarrow> (('d, 'z) dworld_scheme, bool) act" where
  "restore_link rd snapshot pv = (case snapshot of
       None \<Rightarrow> s_ret False
     | Some s \<Rightarrow> s_bind (ask (rd_link rd (sn_ifindex s))) (\<lambda>current.
         if \<not> is_ours pv current then s_ret False
         else s_bind (ask (rd_set_dns rd (sn_ifindex s) (sn_dns s))) (\<lambda>_.
           s_bind (ask (rd_set_dot rd (sn_ifindex s) (sn_dot s))) (\<lambda>_.
           s_bind (ask (rd_set_dnssec rd (sn_ifindex s) (sn_dnssec s))) (\<lambda>_.
           s_bind (ask (rd_set_default_route rd (sn_ifindex s) (sn_default_route s))) (\<lambda>_. s_ret True))))))"

definition revert_managed_link :: "'d resolver \<Rightarrow> int \<Rightarrow> provider option \<Rightarrow> (('d, 'z) dworld_scheme, bool) act" where
  "revert_managed_link rd i pv = s_bind (ask (rd_link rd i)) (\<lambda>current.
     if \<not> is_ours pv current then s_ret False else s_bind (ask (rd_revert rd i)) (\<lambda>_. s_ret True))"

definition matches_provider :: "link_props \<Rightarrow> provider \<Rightarrow> bool" where
  "matches_provider p pv = (case server_of p of None \<Rightarrow> False
     | Some s \<Rightarrow> sw_name s = pv_sni pv \<or> sw_address s \<in> set (pv_addresses pv))"

text \<open>The flags of an answer: from the network, confidential and authenticated.\<close>

definition flags_ok :: "nat \<Rightarrow> bool" where
  "flags_ok flags \<longleftrightarrow> bit flags 18 \<and> bit flags 9 \<and> bit flags 23"

definition dbus_text :: "exc \<Rightarrow> string" where
  "dbus_text err = (let name = drop 5 (exc_str err) in take 160 (if name = [] then exc_str err else name))"

definition probe :: "'d resolver \<Rightarrow> int \<Rightarrow> (('d, 'z) dworld_scheme, bool \<times> bool \<times> string option) act" where
  "probe rd i = s_bind (if i = 0 then ask (rd_global rd) else ask (rd_link rd i)) (\<lambda>p.
     s_catch (s_bind (ask (rd_resolve rd i)) (\<lambda>(answers, flags).
         s_ret (is_yes (lk_dot p), is_yes (lk_dnssec p), if answers \<and> flags_ok flags then None else Some ''ResolverValidationFailed'')))
       is_dbus (\<lambda>err. s_ret (is_yes (lk_dot p), is_yes (lk_dnssec p), Some (dbus_text err))))"

end
