(* ===== verification/Secure_Dns.thy ===== *)
theory Secure_Dns
  imports Secure_Dns_Link
begin

text \<open>
  The upper half of \<open>secure_dns_reconciler.py\<close> and \<open>secure_dns_split.py\<close>: one run of the reconciler over
  the active link, the separate public scope for links with private domains, the service methods and the
  restore at shutdown.
\<close>

section \<open>The public scope of a link with private domains\<close>

definition nl :: string where "nl = [CHR 0x0A]"

definition RESET_CONFIGURATION :: string where
  "RESET_CONFIGURATION = ''# Managed by greyward-secure-dns; scope removal in progress.'' @ nl @ ''[Resolve]'' @ nl @ ''DNS='' @ nl @ ''Domains='' @ nl"

definition server_text :: "string \<Rightarrow> string \<Rightarrow> string" where
  "server_text sni address = (if CHR '':'' \<in> set address then ''['' @ address @ '']'' else address) @ '':853#'' @ sni"

definition configuration :: "provider \<Rightarrow> string" where
  "configuration pv = ''# Managed by greyward-secure-dns; runtime public scope only.'' @ nl @ ''[Resolve]'' @ nl @ ''DNS='' @ nl @ ''DNS=''
     @ join '' '' (map (server_text (pv_sni pv)) (pv_addresses pv)) @ nl @ ''Domains='' @ nl @ ''Domains=~.'' @ nl @ ''FallbackDNS='' @ nl
     @ ''DNSOverTLS=yes'' @ nl @ ''DNSSEC=yes'' @ nl"

text \<open>Whose text the configuration file holds: none, the reset marker or a provider's.\<close>

definition owned_configuration :: "config_file \<Rightarrow> string option py" where
  "owned_configuration c = (case c of
       ConfigSymlink \<Rightarrow> Inl (ValueError ''Secure DNS runtime configuration is a symlink'')
     | ConfigMissing \<Rightarrow> Inr None
     | ConfigText text \<Rightarrow> if text = RESET_CONFIGURATION then Inr (Some ''reset'')
         else (case find (\<lambda>(k, pv). text = configuration pv) PROVIDERS of
             Some (k, pv) \<Rightarrow> Inr (Some k)
           | None \<Rightarrow> Inl (ValueError ''Secure DNS runtime configuration has a foreign owner'')))"

definition get_owner :: "(('d, 'z) dworld_scheme, string option) act" where
  "get_owner = s_bind (s_get dn_config) (\<lambda>c. s_lift (owned_configuration c))"

definition write_configuration :: "string \<Rightarrow> (('d, 'z) dworld_scheme, unit) act" where
  "write_configuration text = file_op (\<lambda>w. w\<lparr>dn_config := ConfigText text\<rparr>)"

definition same_link :: "link_props \<Rightarrow> link_snapshot \<Rightarrow> bool" where
  "same_link p s \<longleftrightarrow> lk_dns p = sn_dns s \<and> lk_domains p = sn_domains s"

text \<open>
  The waiting loops: poll the global scope until it is as wanted, at most until the deadline of
  8 seconds, sleeping 0.05 seconds between polls. The fuel covers 162 polls.
\<close>

fun wait_until :: "nat \<Rightarrow> 'd resolver \<Rightarrow> rat \<Rightarrow> (link_props \<Rightarrow> bool) \<Rightarrow> exc \<Rightarrow> (('d, 'z) dworld_scheme, unit) act" where
  "wait_until 0 rd deadline ok err = s_raise (OtherError ''fuel'')"
| "wait_until (Suc n) rd deadline ok err = s_bind (ask (rd_global rd)) (\<lambda>p.
     if ok p then s_ret ()
     else s_bind (ask (\<lambda>d. case rd_monotonic rd d of (t, d') \<Rightarrow> (Inr t, d'))) (\<lambda>t.
       if deadline \<le> t then s_raise err
       else s_bind (ask (\<lambda>d. (Inr (), rd_sleep rd d))) (\<lambda>_. wait_until n rd deadline ok err)))"

definition POLLS :: nat where "POLLS = 162"

definition wait_for :: "'d resolver \<Rightarrow> (link_props \<Rightarrow> bool) \<Rightarrow> exc \<Rightarrow> (('d, 'z) dworld_scheme, unit) act" where
  "wait_for rd ok err = s_bind (ask (\<lambda>d. case rd_monotonic rd d of (t, d') \<Rightarrow> (Inr t, d'))) (\<lambda>t.
     wait_until POLLS rd (t + 8) ok err)"

definition remove_scope :: "'d resolver \<Rightarrow> (('d, 'z) dworld_scheme, unit) act" where
  "remove_scope rd = s_bind (write_configuration RESET_CONFIGURATION) (\<lambda>_.
     s_bind (ask (rd_reload rd)) (\<lambda>_.
     s_bind (wait_for rd (\<lambda>p. lk_dns p = [] \<and> lk_domains p = []) (ValueError ''Secure DNS scope removal was not observed'')) (\<lambda>_.
     s_bind (file_op (\<lambda>w. w\<lparr>dn_config := ConfigMissing\<rparr>)) (\<lambda>_. ask (rd_reload rd)))))"

definition forget_private :: "(('d, 'z) dworld_scheme, unit) act" where
  "forget_private = file_op (\<lambda>w. w\<lparr>dn_private := None\<rparr>)"

definition or_no :: "string \<Rightarrow> string" where
  "or_no s = (if s = [] then ''no'' else s)"

text \<open>The private link is still as this service left it.\<close>

definition still_pinned :: "link_props \<Rightarrow> link_snapshot \<Rightarrow> bool" where
  "still_pinned p s \<longleftrightarrow> same_link p s \<and> \<not> lk_default_route p \<and> lk_dot p = or_no (sn_dot s) \<and> lk_dnssec p = or_no (sn_dnssec s)"

definition restore_private :: "'d resolver \<Rightarrow> link_snapshot \<Rightarrow> (('d, 'z) dworld_scheme, unit) act" where
  "restore_private rd s = s_bind (s_try (ask (rd_link rd (sn_ifindex s)))) (\<lambda>r. case r of
       Inl err \<Rightarrow> if err = dbus_error ''org.freedesktop.resolve1.NoSuchLink'' then forget_private else s_raise err
     | Inr current \<Rightarrow> s_bind (if \<not> still_pinned current s then s_ret ()
         else s_bind (ask (rd_set_default_route rd (sn_ifindex s) (sn_default_route s))) (\<lambda>_.
           s_bind (ask (rd_set_dot rd (sn_ifindex s) (sn_dot s))) (\<lambda>_. ask (rd_set_dnssec rd (sn_ifindex s) (sn_dnssec s))))) (\<lambda>_.
         forget_private))"

definition split_restore :: "'d resolver \<Rightarrow> (('d, 'z) dworld_scheme, unit) act" where
  "split_restore rd = s_bind (s_get dn_private) (\<lambda>snapshot.
     s_bind get_owner (\<lambda>owner.
     s_bind (if owner = None then s_ret () else remove_scope rd) (\<lambda>_.
     case snapshot of None \<Rightarrow> s_ret () | Some s \<Rightarrow> restore_private rd s)))"

text \<open>The servers that only \<open>systemd-resolved\<close> may contact for the private scope.\<close>

definition private_servers :: "link_snapshot \<Rightarrow> string list py" where
  "private_servers s = py_map (\<lambda>x. case bytes_text (ds_address x) of None \<Rightarrow> Inl (ValueError ''address'') | Some a \<Rightarrow> Inr a) (sn_dns s)"

definition public_root :: "link_props \<Rightarrow> bool" where
  "public_root g \<longleftrightarrow> lk_domains g = [(''.'', True)]"

definition active_private_addresses :: "'d resolver \<Rightarrow> (('d, 'z) dworld_scheme, string list) act" where
  "active_private_addresses rd = s_bind (s_get dn_private) (\<lambda>snapshot.
     s_bind get_owner (\<lambda>owner.
     case (snapshot, owner) of
       (Some s, Some k) \<Rightarrow> if \<not> is_provider k then s_ret []
         else s_bind (ask (rd_link rd (sn_ifindex s))) (\<lambda>p.
           s_bind (ask (rd_global rd)) (\<lambda>g.
           s_bind (s_lift (provider_of k)) (\<lambda>pv.
           if \<not> same_link p s \<or> lk_default_route p \<or> \<not> managed g pv \<or> \<not> public_root g \<or> sn_domains s = []
              \<or> list_ex (\<lambda>x. fst x = ''.'') (sn_domains s)
           then s_ret [] else s_lift (private_servers s))))
     | _ \<Rightarrow> s_ret []))"

section \<open>The published state\<close>

record dns_state =
  bs_desired :: string
  bs_effective :: string
  bs_owner :: string
  bs_transport :: string
  bs_provider :: "string option"
  bs_order :: "string list"
  bs_encryption :: string
  bs_validation :: string
  bs_reason :: "string option"
  bs_link :: "string option"
  bs_vpn_links :: "string list"
  bs_domains :: "string list"
  bs_resolver :: "server_view option"
  bs_last :: "string option"
  bs_mutation :: bool
  bs_private :: "string list"
  bs_generated :: string
  bs_configured :: "string option"
  bs_dns_owner :: "string option"
  bs_routing :: "(string \<times> string list \<times> bool) option"

definition base_state :: "dns_policy \<Rightarrow> bool \<Rightarrow> rat \<Rightarrow> dns_state" where
  "base_state p mutation now = \<lparr>bs_desired = sp_desired p, bs_effective = ''Disconnected'', bs_owner = ''None'', bs_transport = ''None'',
     bs_provider = Some (sp_provider p), bs_order = sp_order p, bs_encryption = ''Unknown'', bs_validation = ''Unknown'',
     bs_reason = Some ''NoActiveLink'', bs_link = None, bs_vpn_links = [], bs_domains = [], bs_resolver = None, bs_last = None,
     bs_mutation = mutation, bs_private = [], bs_generated = iso now,
     bs_configured = None, bs_dns_owner = None, bs_routing = None\<rparr>"

definition unavailable :: "string \<Rightarrow> dns_state \<Rightarrow> dns_state" where
  "unavailable reason b = b\<lparr>bs_effective := ''Unavailable'', bs_owner := ''None'', bs_transport := ''None'', bs_encryption := ''Unavailable'',
     bs_validation := ''Unavailable'', bs_reason := Some reason\<rparr>"

definition secured :: "rat \<Rightarrow> dns_state \<Rightarrow> dns_state" where
  "secured now b = b\<lparr>bs_effective := ''SecureProvider'', bs_owner := ''Greyward'', bs_transport := ''DoT'', bs_encryption := ''Enabled'',
     bs_validation := ''Enabled'', bs_reason := None, bs_last := Some (iso now)\<rparr>"

text \<open>What is seen of a tunnel is reported, its encryption and leak protection stay unknown.\<close>

definition vpn_owned :: "dns_policy \<Rightarrow> string \<Rightarrow> link_props \<Rightarrow> rat \<Rightarrow> dns_state \<Rightarrow> dns_state" where
  "vpn_owned policy interface p now b = b\<lparr>bs_effective := ''VPNOwned'', bs_owner := ''VPN'', bs_transport := ''VPNTunnel'', bs_encryption := ''Unknown'',
     bs_validation := ''Unknown'', bs_configured := Some (sp_provider policy), bs_provider := None,
     bs_dns_owner := Some (if bs_resolver b = None then ''UNKNOWN'' else ''VPN''),
     bs_routing := Some (interface, bs_domains b, lk_default_route p), bs_reason := None, bs_last := Some (iso now)\<rparr>"

definition network_default :: "rat \<Rightarrow> link_props \<Rightarrow> dns_state \<Rightarrow> dns_state" where
  "network_default now p b = (let enc = is_yes (lk_dot p); val = is_yes (lk_dnssec p) in
     b\<lparr>bs_effective := ''NetworkDefault'', bs_owner := ''Network'', bs_transport := transport p False,
       bs_encryption := (if enc then ''Enabled'' else ''Not guaranteed''), bs_validation := (if val then ''Enabled'' else ''Not guaranteed''),
       bs_reason := (if enc \<or> val then None else Some ''NetworkDnsOnly''), bs_last := Some (iso now)\<rparr>)"

section \<open>reconcile: a link with private domains\<close>

definition no_error :: "string option \<Rightarrow> bool" where
  "no_error pe \<longleftrightarrow> pe = None \<or> pe = Some []"

definition pin_private :: "'d resolver \<Rightarrow> int \<Rightarrow> link_props \<Rightarrow> link_snapshot \<Rightarrow> (('d, 'z) dworld_scheme, unit) act" where
  "pin_private rd i p s = s_bind (if lk_dot p \<noteq> or_no (sn_dot s) then ask (rd_set_dot rd i (or_no (sn_dot s))) else s_ret ()) (\<lambda>_.
     s_bind (if lk_dnssec p \<noteq> or_no (sn_dnssec s) then ask (rd_set_dnssec rd i (or_no (sn_dnssec s))) else s_ret ()) (\<lambda>_.
     if lk_default_route p then ask (rd_set_default_route rd i False) else s_ret ()))"

definition install_scope :: "'d resolver \<Rightarrow> string \<Rightarrow> provider \<Rightarrow> string option \<Rightarrow> (('d, 'z) dworld_scheme, string option) act" where
  "install_scope rd key pv owner = s_bind (if owner \<noteq> Some key then s_ret True
       else s_bind (ask (rd_global rd)) (\<lambda>g. s_ret (\<not> managed g pv))) (\<lambda>needed.
     if \<not> needed then s_ret owner
     else s_bind (write_configuration (configuration pv)) (\<lambda>_. s_bind (ask (rd_reload rd)) (\<lambda>_. s_ret (Some key))))"

fun try_scopes :: "'d resolver \<Rightarrow> int \<Rightarrow> link_snapshot \<Rightarrow> string option \<Rightarrow> dns_state \<Rightarrow> string list \<Rightarrow> (('d, 'z) dworld_scheme, dns_state) act" where
  "try_scopes rd i s owner b [] = s_ret (unavailable ''AllProvidersUnavailable'' b)"
| "try_scopes rd i s owner b (key # keys) = s_bind (s_lift (provider_of key)) (\<lambda>pv.
     s_bind (install_scope rd key pv owner) (\<lambda>owner'.
     s_bind (wait_for rd (\<lambda>g. managed g pv) (ValueError ''Secure DNS public scope reload was not observed'')) (\<lambda>_.
     s_bind (probe rd 0) (\<lambda>(encrypted, validated, pe).
     s_bind (ask (rd_global rd)) (\<lambda>current.
     let b' = b\<lparr>bs_resolver := server_of current, bs_provider := Some key\<rparr> in
     s_bind (ask (rd_link rd i)) (\<lambda>p.
     if no_error pe \<and> encrypted \<and> validated \<and> matches_provider current pv \<and> public_root current \<and> same_link p s \<and> \<not> lk_default_route p
     then s_bind (s_get dn_now) (\<lambda>now. s_ret (secured now b'))
     else try_scopes rd i s owner' b' keys))))))"

text \<open>A leftover reset marker or a snapshot of another link is cleaned up first.\<close>

definition clean_private :: "'d resolver \<Rightarrow> int \<Rightarrow> link_props \<Rightarrow> (('d, 'z) dworld_scheme, link_snapshot option \<times> link_props) act" where
  "clean_private rd i p0 = s_bind get_owner (\<lambda>owner.
     s_bind (if owner = Some ''reset'' then s_bind (split_restore rd) (\<lambda>_. ask (rd_link rd i)) else s_ret p0) (\<lambda>p.
     s_bind (s_get dn_private) (\<lambda>snapshot.
     case snapshot of
       Some s \<Rightarrow> if sn_ifindex s \<noteq> i \<or> \<not> same_link p s
         then s_bind (split_restore rd) (\<lambda>_. s_bind (ask (rd_link rd i)) (\<lambda>p'. s_ret (None, p'))) else s_ret (Some s, p)
     | None \<Rightarrow> s_ret (None, p))))"

definition private_snapshot :: "int \<Rightarrow> link_props \<Rightarrow> link_snapshot option \<Rightarrow> (('d, 'z) dworld_scheme, link_snapshot) act" where
  "private_snapshot i p snapshot = (case snapshot of
       Some s \<Rightarrow> s_ret s
     | None \<Rightarrow> let s = (take_snapshot i p)\<lparr>sn_domains := lk_domains p\<rparr> in
         s_bind (file_op (\<lambda>w. w\<lparr>dn_private := Some s\<rparr>)) (\<lambda>_. s_ret s))"

definition split_reconcile :: "'d resolver \<Rightarrow> int \<Rightarrow> link_props \<Rightarrow> dns_state \<Rightarrow> dns_policy \<Rightarrow> (('d, 'z) dworld_scheme, dns_state) act" where
  "split_reconcile rd i p0 b policy = s_bind (clean_private rd i p0) (\<lambda>(snapshot, p).
     s_bind get_owner (\<lambda>owner.
     s_bind (ask (rd_global rd)) (\<lambda>g.
     if owner = None \<and> (lk_dns g \<noteq> [] \<or> lk_domains g \<noteq> [])
     then s_ret (b\<lparr>bs_effective := ''Unavailable'', bs_reason := Some ''SplitDnsAmbiguous''\<rparr>)
     else s_bind (private_snapshot i p snapshot) (\<lambda>s.
       s_bind (pin_private rd i p s) (\<lambda>_.
       s_bind (s_lift (private_servers s)) (\<lambda>servers.
       try_scopes rd i s owner (b\<lparr>bs_private := servers\<rparr>) (sp_order policy)))))))"

section \<open>A simple link\<close>

definition forget_snapshot :: "(('d, 'z) dworld_scheme, unit) act" where
  "forget_snapshot = file_op (\<lambda>w. w\<lparr>dn_snapshot := None\<rparr>)"

text \<open>The network's own servers are given back when the user chose them.\<close>

definition give_back :: "'d resolver \<Rightarrow> int \<Rightarrow> link_props \<Rightarrow> (('d, 'z) dworld_scheme, link_props) act" where
  "give_back rd i p = s_bind (s_get dn_snapshot) (\<lambda>snapshot.
     s_bind (if (case snapshot of None \<Rightarrow> False | Some s \<Rightarrow> sn_ifindex s = i)
       then s_bind (restore_link rd snapshot None) (\<lambda>ok. if ok then s_bind forget_snapshot (\<lambda>_. ask (rd_link rd i)) else s_ret p)
       else s_ret p) (\<lambda>p1.
     if managed_provider p1 = None then s_ret p1
     else s_bind (revert_managed_link rd i None) (\<lambda>ok. if ok then s_bind forget_snapshot (\<lambda>_. ask (rd_link rd i)) else s_ret p1)))"

record attempt =
  at_selected :: "string option"
  at_error :: "string option"
  at_props :: link_props

definition try_one :: "'d resolver \<Rightarrow> int \<Rightarrow> string \<Rightarrow> provider \<Rightarrow> attempt \<Rightarrow> (('d, 'z) dworld_scheme, attempt) act" where
  "try_one rd i key pv a = s_bind (if managed (at_props a) pv then s_ret (at_props a)
       else s_bind (apply_link rd i pv) (\<lambda>_. ask (rd_link rd i))) (\<lambda>p1 w.
     case s_bind (probe rd i) (\<lambda>r. s_bind (ask (rd_link rd i)) (\<lambda>p. s_ret (r, p))) w of
       (Inl err, w') \<Rightarrow> if is_link_error err then (Inr (a\<lparr>at_error := Some (take 160 (exc_str err)), at_props := p1\<rparr>), w') else (Inl err, w')
     | (Inr ((encrypted, validated, pe), p), w') \<Rightarrow>
         (Inr (if no_error pe \<and> encrypted \<and> validated \<and> matches_provider p pv
            then a\<lparr>at_selected := Some key, at_error := None, at_props := p\<rparr>
            else a\<lparr>at_error := Some (case pe of None \<Rightarrow> ''ResolverValidationFailed'' | Some [] \<Rightarrow> ''ResolverValidationFailed'' | Some t \<Rightarrow> t), at_props := p\<rparr>), w'))"

text \<open>An exception while a provider is set up is remembered and the next provider is tried.\<close>

fun try_providers :: "'d resolver \<Rightarrow> int \<Rightarrow> attempt \<Rightarrow> string list \<Rightarrow> (('d, 'z) dworld_scheme, attempt) act" where
  "try_providers rd i a [] = s_ret a"
| "try_providers rd i a (key # keys) = s_bind (s_lift (provider_of key)) (\<lambda>pv.
     s_bind (s_catch (try_one rd i key pv a) is_link_error (\<lambda>err. s_ret (a\<lparr>at_error := Some (take 160 (exc_str err))\<rparr>))) (\<lambda>a'.
     if at_selected a' \<noteq> None then s_ret a' else try_providers rd i a' keys))"

definition use_providers :: "'d resolver \<Rightarrow> int \<Rightarrow> link_props \<Rightarrow> dns_policy \<Rightarrow> (('d, 'z) dworld_scheme, attempt) act" where
  "use_providers rd i p policy = s_bind (s_get dn_snapshot) (\<lambda>snapshot.
     s_bind (if managed_provider p = None \<and> snapshot = None
       then file_op (\<lambda>w. w\<lparr>dn_snapshot := Some (take_snapshot i p)\<rparr>) else s_ret ()) (\<lambda>_.
     try_providers rd i \<lparr>at_selected = None, at_error = None, at_props = p\<rparr> (sp_order policy)))"

text \<open>After a failed attempt the link gets back what it had.\<close>

definition undo_attempt :: "'d resolver \<Rightarrow> int \<Rightarrow> (('d, 'z) dworld_scheme, unit) act" where
  "undo_attempt rd i = s_bind (s_catch (s_bind (s_get dn_snapshot) (\<lambda>snapshot.
       s_bind (restore_link rd snapshot None) (\<lambda>ok. if ok then s_ret True
         else s_bind (ask (rd_link rd i)) (\<lambda>p. if managed_provider p = None then s_ret False else revert_managed_link rd i None))))
       is_link_error (\<lambda>_. s_ret False)) (\<lambda>restored. if restored then forget_snapshot else s_ret ())"

definition judge :: "dns_policy \<Rightarrow> bool \<Rightarrow> rat \<Rightarrow> attempt \<Rightarrow> dns_state \<Rightarrow> dns_state" where
  "judge policy several now a b = (let desired = sp_desired policy; p = at_props a in
     if at_error a \<noteq> None \<and> at_error a \<noteq> Some [] then unavailable (if desired = ''Automatic'' then ''AllProvidersUnavailable'' else ''ResolverUnreachable'') b
     else if desired = ''NetworkDefault'' then network_default now p b
     else if desired \<in> set [''Automatic'', ''Privacy''] \<and> (several \<or> bs_domains b \<noteq> []) then unavailable ''SplitDnsAmbiguous'' b
     else if is_yes (lk_dot p) \<and> is_yes (lk_dnssec p) \<and> (case at_selected a of None \<Rightarrow> False
        | Some k \<Rightarrow> (case map_of PROVIDERS k of None \<Rightarrow> False | Some pv \<Rightarrow> matches_provider p pv)) then secured now b
     else unavailable (if desired = ''Automatic'' then ''DoTUnavailable'' else ''ResolverUnreachable'') b)"

definition simple_link :: "'d resolver \<Rightarrow> int \<Rightarrow> bool \<Rightarrow> link_props \<Rightarrow> dns_policy \<Rightarrow> dns_state \<Rightarrow> (('d, 'z) dworld_scheme, dns_state) act" where
  "simple_link rd i several p0 policy b = s_bind mutation_enabled (\<lambda>mutable.
     s_bind (if mutable \<and> sp_desired policy = ''NetworkDefault'' then give_back rd i p0 else s_ret p0) (\<lambda>p.
     s_bind (if mutable \<and> sp_desired policy \<in> set [''Automatic'', ''Privacy''] \<and> bs_domains b = [] \<and> \<not> several
       then use_providers rd i p policy else s_ret \<lparr>at_selected = None, at_error = None, at_props = p\<rparr>) (\<lambda>a.
     let b1 = (case at_selected a of None \<Rightarrow> b | Some k \<Rightarrow> b\<lparr>bs_provider := Some k\<rparr>);
         b2 = b1\<lparr>bs_resolver := server_of (at_props a), bs_domains := domains_of (at_props a)\<rparr> in
     s_bind (if at_error a \<noteq> None \<and> at_error a \<noteq> Some [] \<and> sp_desired policy = ''Automatic'' then undo_attempt rd i else s_ret ()) (\<lambda>_.
     s_bind (s_get dn_now) (\<lambda>now. s_ret (judge policy several now a b2))))))"

section \<open>One run\<close>

definition split_eligible :: "dns_device list \<Rightarrow> link_props \<Rightarrow> bool" where
  "split_eligible devices p \<longleftrightarrow> \<not> list_ex dv_vpn devices \<and> length devices = 1 \<and> domains_of p \<noteq> [] \<and> ''.'' \<notin> set (domains_of p)
     \<and> lk_dns p \<noteq> [] \<and> managed_provider p = None"

definition run_link :: "'d resolver \<Rightarrow> dns_policy \<Rightarrow> dns_device list \<Rightarrow> dns_state \<Rightarrow> (('d, 'z) dworld_scheme, dns_state) act" where
  "run_link rd policy devices base = (let vpn = filter dv_vpn devices; primary = (if vpn = [] then hd devices else hd vpn); i = dv_ifindex primary in
     s_bind mutation_enabled (\<lambda>mutable.
     s_bind (ask (rd_link rd i)) (\<lambda>p0.
     let eligible = split_eligible devices p0 in
     s_bind (if mutable \<and> (sp_desired policy = ''NetworkDefault'' \<or> \<not> eligible)
       then s_bind (split_restore rd) (\<lambda>_. ask (rd_link rd i)) else s_ret p0) (\<lambda>p.
     let b = base\<lparr>bs_vpn_links := map dv_interface vpn, bs_link := Some (dv_interface primary), bs_domains := domains_of p, bs_resolver := server_of p\<rparr> in
     s_bind (s_get dn_now) (\<lambda>now.
     if vpn \<noteq> [] then s_ret (vpn_owned policy (dv_interface primary) p now b)
     else if mutable \<and> sp_desired policy \<in> set [''Automatic'', ''Privacy''] \<and> eligible then split_reconcile rd i p b policy
     else simple_link rd i (1 < length devices) p policy b)))))"

definition dns_run :: "'d resolver \<Rightarrow> (('d, 'z) dworld_scheme, dns_state) act" where
  "dns_run rd = s_bind (s_bind (s_get dn_policy_file) (\<lambda>c. s_lift (load_dns_policy c))) (\<lambda>policy.
     s_bind mutation_enabled (\<lambda>mutable.
     s_bind (s_get dn_now) (\<lambda>now.
     s_bind (active_devices rd) (\<lambda>devices.
     if devices = [] then s_bind (if mutable then split_restore rd else s_ret ()) (\<lambda>_. s_ret (base_state policy mutable now))
     else run_link rd policy devices (base_state policy mutable now)))))"

section \<open>The service\<close>

text \<open>The service adds the published state file to the world.\<close>

record 'd nworld = "'d dworld" +
  dn_published :: "dns_state option"
  dn_pending_refresh :: bool

definition is_run_error :: "exc \<Rightarrow> bool" where
  "is_run_error err \<longleftrightarrow> is_dbus err \<or> (case err of OSError s \<Rightarrow> True | _ \<Rightarrow> is_value_error err)"

text \<open>The state after a failed run. The published dictionary has only the fields of the policy, the effective state and the reason; the fields about links are empty here.\<close>

definition failed_state :: "dns_policy \<Rightarrow> bool \<Rightarrow> rat \<Rightarrow> dns_state" where
  "failed_state policy mutable now = (base_state policy mutable now)\<lparr>bs_effective := ''Unavailable'', bs_reason := Some ''ResolverUnreachable''\<rparr>"

definition refresh :: "'d resolver \<Rightarrow> (('d, 'z) nworld_scheme, dns_state) act" where
  "refresh rd = s_bind (s_catch (dns_run rd) is_run_error (\<lambda>_.
       s_bind (s_get dn_policy_file) (\<lambda>c. s_bind (s_lift (load_dns_policy c)) (\<lambda>policy.
       s_bind mutation_enabled (\<lambda>mutable. s_bind (s_get dn_now) (\<lambda>now. s_ret (failed_state policy mutable now))))))) (\<lambda>value.
     s_bind (file_op (\<lambda>w. w\<lparr>dn_published := Some value\<rparr>)) (\<lambda>_. s_ret value))"

text \<open>A burst of change signals schedules one refresh.\<close>

definition schedule_refresh :: "(('d, 'z) nworld_scheme, unit) act" where
  "schedule_refresh = s_modify (\<lambda>w. w\<lparr>dn_pending_refresh := True\<rparr>)"

definition scheduled_refresh :: "'d resolver \<Rightarrow> (('d, 'z) nworld_scheme, dns_state) act" where
  "scheduled_refresh rd = s_bind (s_modify (\<lambda>w. w\<lparr>dn_pending_refresh := False\<rparr>)) (\<lambda>_. refresh rd)"

datatype dns_reply = Invalid string | ReadOnly dns_state | Saved dns_state | Retried dns_state

definition save_choice :: "'d resolver \<Rightarrow> string \<Rightarrow> string \<Rightarrow> (('d, 'z) nworld_scheme, dns_reply) act" where
  "save_choice rd key v = s_bind mutation_enabled (\<lambda>mutable.
     if \<not> mutable then s_bind (refresh rd) (\<lambda>st. s_ret (ReadOnly st))
     else s_bind (s_get dn_policy_file) (\<lambda>c. s_bind (s_lift (load_dns_policy c)) (\<lambda>policy.
       s_bind (file_op (\<lambda>w. w\<lparr>dn_policy_file := Inr (VDict (dput (sp_value policy) key (VStr v)))\<rparr>)) (\<lambda>_.
       s_bind (refresh rd) (\<lambda>st. s_ret (Saved st))))))"

definition set_mode :: "'d resolver \<Rightarrow> string \<Rightarrow> (('d, 'z) nworld_scheme, dns_reply) act" where
  "set_mode rd mode = (if mode \<notin> set MODES then s_ret (Invalid ''Unsupported Secure DNS mode.'') else save_choice rd ''desired_policy'' mode)"

definition set_provider :: "'d resolver \<Rightarrow> string \<Rightarrow> (('d, 'z) nworld_scheme, dns_reply) act" where
  "set_provider rd provider = (if \<not> is_provider (py_lower provider) then s_ret (Invalid ''Unsupported Secure DNS provider.'')
     else save_choice rd ''provider'' (py_lower provider))"

definition retry_secure_dns :: "'d resolver \<Rightarrow> (('d, 'z) nworld_scheme, dns_reply) act" where
  "retry_secure_dns rd = s_bind (refresh rd) (\<lambda>st. s_ret (Retried st))"

definition restore_runtime :: "'d resolver \<Rightarrow> (('d, 'z) dworld_scheme, unit) act" where
  "restore_runtime rd = s_bind (split_restore rd) (\<lambda>_.
     s_bind (s_get dn_snapshot) (\<lambda>snapshot.
     case snapshot of
       None \<Rightarrow> s_ret ()
     | Some s \<Rightarrow> s_bind (s_catch (s_bind (restore_link rd (Some s) None) (\<lambda>ok. if ok then s_ret True else revert_managed_link rd (sn_ifindex s) None))
         is_link_error (\<lambda>_. s_ret False)) (\<lambda>restored. if restored then forget_snapshot else s_ret ())))"

end
