(* ===== verification/Secure_Dns_Recording.thy ===== *)
theory Secure_Dns_Recording
  imports Secure_Dns
begin

text \<open>
  The readings of a run. \<open>recorded rd\<close> is the resolver \<open>rd\<close> that also notes what it reported: the
  properties of a scope and the answer to a query. A run with it takes the same course as a run with
  \<open>rd\<close> (\<open>recording_transparent\<close>), so its notes are what the resolver reported in that run.
\<close>

section \<open>Recording\<close>

datatype reading = ScopeRead int link_props | Answered int bool nat

definition rec_op :: "('a \<Rightarrow> reading set) \<Rightarrow> ('d, 'a) act \<Rightarrow> ('d \<times> reading set, 'a) act" where
  "rec_op f m p = (case m (fst p) of (r, d) \<Rightarrow> (r, d, snd p \<union> (case r of Inl _ \<Rightarrow> {} | Inr x \<Rightarrow> f x)))"

abbreviation silent :: "('d, 'a) act \<Rightarrow> ('d \<times> reading set, 'a) act" where
  "silent \<equiv> rec_op (\<lambda>_. {})"

definition recorded :: "'d resolver \<Rightarrow> ('d \<times> reading set) resolver" where
  "recorded rd = \<lparr>rd_devices = silent (rd_devices rd), rd_link = (\<lambda>i. rec_op (\<lambda>p. {ScopeRead i p}) (rd_link rd i)),
     rd_global = rec_op (\<lambda>p. {ScopeRead 0 p}) (rd_global rd), rd_set_dns = (\<lambda>i x. silent (rd_set_dns rd i x)), rd_set_dot = (\<lambda>i x. silent (rd_set_dot rd i x)),
     rd_set_dnssec = (\<lambda>i x. silent (rd_set_dnssec rd i x)), rd_set_default_route = (\<lambda>i x. silent (rd_set_default_route rd i x)),
     rd_revert = (\<lambda>i. silent (rd_revert rd i)), rd_resolve = (\<lambda>i. rec_op (\<lambda>(answers, flags). {Answered i answers flags}) (rd_resolve rd i)),
     rd_reload = silent (rd_reload rd), rd_monotonic = (\<lambda>p. case rd_monotonic rd (fst p) of (t, d) \<Rightarrow> (t, d, snd p)),
     rd_sleep = (\<lambda>p. (rd_sleep rd (fst p), snd p))\<rparr>"

lemma recorded_sel [simp]:
  "rd_devices (recorded rd) = silent (rd_devices rd)" "rd_link (recorded rd) i = rec_op (\<lambda>p. {ScopeRead i p}) (rd_link rd i)"
  "rd_global (recorded rd) = rec_op (\<lambda>p. {ScopeRead 0 p}) (rd_global rd)" "rd_set_dns (recorded rd) i x = silent (rd_set_dns rd i x)"
  "rd_set_dot (recorded rd) i t = silent (rd_set_dot rd i t)" "rd_set_dnssec (recorded rd) i t = silent (rd_set_dnssec rd i t)"
  "rd_set_default_route (recorded rd) i b = silent (rd_set_default_route rd i b)" "rd_revert (recorded rd) i = silent (rd_revert rd i)"
  "rd_resolve (recorded rd) i = rec_op (\<lambda>(answers, flags). {Answered i answers flags}) (rd_resolve rd i)" "rd_reload (recorded rd) = silent (rd_reload rd)"
  by (simp_all add: recorded_def)

text \<open>The same world with the notes \<open>S\<close>.\<close>

definition with_log :: "reading set \<Rightarrow> ('d, 'z) dworld_scheme \<Rightarrow> ('d \<times> reading set, 'z) dworld_scheme" where
  "with_log S w = \<lparr>dn_daemon = (dn_daemon w, S), dn_policy_file = dn_policy_file w, dn_snapshot = dn_snapshot w, dn_private = dn_private w,
     dn_config = dn_config w, dn_read_only = dn_read_only w, dn_now = dn_now w, dn_io = dn_io w, dn_step = dn_step w, \<dots> = dworld.more w\<rparr>"

definition logged :: "('d \<times> reading set, 'z) dworld_scheme \<Rightarrow> reading set" where
  "logged v = snd (dn_daemon v)"

lemma with_log_sel [simp]:
  "dn_daemon (with_log S w) = (dn_daemon w, S)" "dn_policy_file (with_log S w) = dn_policy_file w" "dn_snapshot (with_log S w) = dn_snapshot w"
  "dn_private (with_log S w) = dn_private w" "dn_config (with_log S w) = dn_config w" "dn_read_only (with_log S w) = dn_read_only w"
  "dn_now (with_log S w) = dn_now w" "dn_io (with_log S w) = dn_io w" "dn_step (with_log S w) = dn_step w" "logged (with_log S w) = S"
  by (simp_all add: with_log_def logged_def)

lemma with_log_ex: "\<exists>w. v = with_log (logged v) w"
proof
  show "v = with_log (logged v) \<lparr>dn_daemon = fst (dn_daemon v), dn_policy_file = dn_policy_file v, dn_snapshot = dn_snapshot v, dn_private = dn_private v,
     dn_config = dn_config v, dn_read_only = dn_read_only v, dn_now = dn_now v, dn_io = dn_io v, dn_step = dn_step v, \<dots> = dworld.more v\<rparr>"
    by (simp add: with_log_def logged_def)
qed

section \<open>Simulation\<close>

text \<open>The second action does what the first does, and only adds notes.\<close>

definition sim :: "(('d, 'z) dworld_scheme, 'a) act \<Rightarrow> (('d \<times> reading set, 'z) dworld_scheme, 'a) act \<Rightarrow> bool" where
  "sim m m' \<longleftrightarrow> (\<forall>w S. \<exists>S'. S \<subseteq> S' \<and> m' (with_log S w) = (fst (m w), with_log S' (snd (m w))))"

named_theorems sim_intros

lemma simD: assumes "sim m m'" obtains S' where "S \<subseteq> S'" "m' (with_log S w) = (fst (m w), with_log S' (snd (m w)))"
  using assms unfolding sim_def by blast

lemma sim_grows: assumes "sim m m'" "m' v = (r, v')" shows "logged v \<subseteq> logged v'"
proof -
  obtain w where w: "v = with_log (logged v) w" using with_log_ex by blast
  from simD [OF assms(1)] obtain S' where "logged v \<subseteq> S'" "m' (with_log (logged v) w) = (fst (m w), with_log S' (snd (m w)))" by blast
  then show ?thesis using assms(2) w by simp
qed

lemma sim_basic [sim_intros]: "sim (s_ret x) (s_ret x)" "sim (s_raise e) (s_raise e)" "sim (s_lift m) (s_lift m)"
  by (auto simp: sim_def)

lemma sim_get [sim_intros]: "(\<And>S w. g (with_log S w) = f w) \<Longrightarrow> sim (s_get f) (s_get g)"
  by (auto simp: sim_def)

lemma sim_ask [sim_intros]: "sim (ask m) (ask (rec_op f m))"
  unfolding sim_def ask_def rec_op_def
proof (intro allI)
  fix w S
  obtain r d where m: "m (dn_daemon w) = (r, d)" by fastforce
  then show "\<exists>S'. S \<subseteq> S' \<and> (case (case m (fst (dn_daemon (with_log S w))) of (r, d) \<Rightarrow> (r, d, snd (dn_daemon (with_log S w)) \<union> (case r of Inl x \<Rightarrow> {} | Inr x \<Rightarrow> f x))) of (r, d) \<Rightarrow>
      (r, with_log S w\<lparr>dn_daemon := d\<rparr>)) = (fst (case m (dn_daemon w) of (r, d) \<Rightarrow> (r, w\<lparr>dn_daemon := d\<rparr>)), with_log S' (snd (case m (dn_daemon w) of (r, d) \<Rightarrow> (r, w\<lparr>dn_daemon := d\<rparr>))))"
    by (intro exI [of _ "S \<union> (case r of Inl x \<Rightarrow> {} | Inr x \<Rightarrow> f x)"]) (simp add: with_log_def)
qed

lemma sim_clock [sim_intros]:
  "sim (ask (\<lambda>d. case rd_monotonic rd d of (t, d') \<Rightarrow> (Inr t, d'))) (ask (\<lambda>d. case rd_monotonic (recorded rd) d of (t, d') \<Rightarrow> (Inr t, d')))"
  "sim (ask (\<lambda>d. (Inr (), rd_sleep rd d))) (ask (\<lambda>d. (Inr (), rd_sleep (recorded rd) d)))"
  by (auto simp: sim_def ask_def recorded_def with_log_def split: prod.splits)

lemma sim_file [sim_intros]: assumes "\<And>S w. g (with_log S w) = with_log S (f w)" shows "sim (file_op f) (file_op g)"
proof -
  have step: "with_log S w\<lparr>dn_step := n\<rparr> = with_log S (w\<lparr>dn_step := n\<rparr>)" for S n and w :: "('d, 'z) dworld_scheme" by (simp add: with_log_def)
  show ?thesis unfolding sim_def file_op_def Let_def by (auto simp: step assms)
qed

lemma sim_bind [sim_intros]: assumes "sim m m'" "\<And>x. sim (k x) (k' x)" shows "sim (s_bind m k) (s_bind m' k')"
  unfolding sim_def
proof (intro allI)
  fix w S
  obtain S1 where 1: "S \<subseteq> S1" "m' (with_log S w) = (fst (m w), with_log S1 (snd (m w)))" using simD [OF assms(1)] by blast
  show "\<exists>S'. S \<subseteq> S' \<and> s_bind m' k' (with_log S w) = (fst (s_bind m k w), with_log S' (snd (s_bind m k w)))"
  proof (cases "m w")
    case (Pair r w1)
    show ?thesis
    proof (cases r)
      case (Inl e)
      then show ?thesis using 1 Pair by (intro exI [of _ S1]) (simp add: s_bind_def)
    next
      case (Inr x)
      obtain S2 where "S1 \<subseteq> S2" "k' x (with_log S1 w1) = (fst (k x w1), with_log S2 (snd (k x w1)))" using simD [OF assms(2)] by blast
      then show ?thesis using 1 Pair Inr by (intro exI [of _ S2]) (auto simp: s_bind_def)
    qed
  qed
qed

lemma sim_try [sim_intros]: assumes "sim m m'" shows "sim (s_try m) (s_try m')"
  unfolding sim_def
proof (intro allI)
  fix w S
  obtain S1 where "S \<subseteq> S1" "m' (with_log S w) = (fst (m w), with_log S1 (snd (m w)))" using simD [OF assms] by blast
  then show "\<exists>S'. S \<subseteq> S' \<and> s_try m' (with_log S w) = (fst (s_try m w), with_log S' (snd (s_try m w)))"
    by (intro exI [of _ S1]) (simp add: s_try_def case_prod_beta)
qed

lemma catch_as_bind: "s_catch m P h = s_bind (s_try m) (\<lambda>r. case r of Inl e \<Rightarrow> if P e then h e else s_raise e | Inr x \<Rightarrow> s_ret x)"
  by (intro ext) (simp add: s_catch_def s_bind_def s_try_def split: prod.splits sum.splits)

lemma sim_if [sim_intros]: "(b \<Longrightarrow> sim m m') \<Longrightarrow> (\<not> b \<Longrightarrow> sim k k') \<Longrightarrow> sim (if b then m else k) (if b then m' else k')"
  by simp

lemma sim_case_sum [sim_intros]: "(\<And>e. sim (f e) (f' e)) \<Longrightarrow> (\<And>x. sim (g x) (g' x)) \<Longrightarrow>
    sim (case r of Inl e \<Rightarrow> f e | Inr x \<Rightarrow> g x) (case r of Inl e \<Rightarrow> f' e | Inr x \<Rightarrow> g' x)"
  by (cases r) simp_all

lemma sim_case_prod [sim_intros]: "(\<And>a b. sim (f a b) (f' a b)) \<Longrightarrow> sim (case p of (a, b) \<Rightarrow> f a b) (case p of (a, b) \<Rightarrow> f' a b)"
  by (cases p) simp

lemma sim_case_option [sim_intros]: "sim m m' \<Longrightarrow> (\<And>x. sim (f x) (f' x)) \<Longrightarrow>
    sim (case p of None \<Rightarrow> m | Some x \<Rightarrow> f x) (case p of None \<Rightarrow> m' | Some x \<Rightarrow> f' x)"
  by (cases p) simp_all

lemma sim_catch [sim_intros]: "sim m m' \<Longrightarrow> (\<And>e. sim (h e) (h' e)) \<Longrightarrow> sim (s_catch m P h) (s_catch m' P h')"
  unfolding catch_as_bind by (intro sim_intros)

section \<open>Runs\<close>

lemma sim_mutation_enabled [sim_intros]: "sim mutation_enabled mutation_enabled"
  unfolding mutation_enabled_def by (intro sim_intros) (simp_all add: with_log_def)

lemma sim_get_owner [sim_intros]: "sim get_owner get_owner"
  unfolding get_owner_def by (intro sim_intros) (simp_all add: with_log_def)

lemma sim_forget_private [sim_intros]: "sim forget_private forget_private"
  unfolding forget_private_def by (intro sim_intros) (simp_all add: with_log_def)

lemma sim_forget_snapshot [sim_intros]: "sim forget_snapshot forget_snapshot"
  unfolding forget_snapshot_def by (intro sim_intros) (simp_all add: with_log_def)

lemma sim_write_configuration [sim_intros]: "sim (write_configuration text) (write_configuration text)"
  unfolding write_configuration_def by (intro sim_intros) (simp_all add: with_log_def)

lemma sim_private_snapshot [sim_intros]: "sim (private_snapshot i p s) (private_snapshot i p s)"
  unfolding private_snapshot_def Let_def by (intro sim_intros) (simp_all add: with_log_def)

lemma sim_wait_until [sim_intros]: "sim (wait_until n rd deadline ok err) (wait_until n (recorded rd) deadline ok err)"
proof (induction n)
  case 0
  show ?case unfolding wait_until.simps by (rule sim_intros)
next
  case (Suc n)
  show ?case unfolding wait_until.simps recorded_sel by (intro sim_intros Suc)
qed

lemma sim_wait_for [sim_intros]: "sim (wait_for rd ok err) (wait_for (recorded rd) ok err)"
  unfolding wait_for_def recorded_sel Let_def by (intro sim_intros)

lemma sim_remove_scope [sim_intros]: "sim (remove_scope rd) (remove_scope (recorded rd))"
  unfolding remove_scope_def recorded_sel Let_def by (intro sim_intros) (simp_all add: with_log_def)

lemma sim_restore_private [sim_intros]: "sim (restore_private rd s) (restore_private (recorded rd) s)"
  unfolding restore_private_def recorded_sel Let_def by (intro sim_intros)

lemma sim_split_restore [sim_intros]: "sim (split_restore rd) (split_restore (recorded rd))"
  unfolding split_restore_def recorded_sel Let_def by (intro sim_intros) (simp_all add: with_log_def)

lemma sim_probe [sim_intros]: "sim (probe rd i) (probe (recorded rd) i)"
  unfolding probe_def recorded_sel Let_def by (intro sim_intros)

lemma sim_apply_link [sim_intros]: "sim (apply_link rd i pv) (apply_link (recorded rd) i pv)"
  unfolding apply_link_def recorded_sel Let_def by (intro sim_intros)

lemma sim_restore_link [sim_intros]: "sim (restore_link rd s pv) (restore_link (recorded rd) s pv)"
  unfolding restore_link_def recorded_sel Let_def by (intro sim_intros)

lemma sim_revert_managed_link [sim_intros]: "sim (revert_managed_link rd i pv) (revert_managed_link (recorded rd) i pv)"
  unfolding revert_managed_link_def recorded_sel Let_def by (intro sim_intros)

lemma sim_give_back [sim_intros]: "sim (give_back rd i p) (give_back (recorded rd) i p)"
  unfolding give_back_def recorded_sel Let_def by (intro sim_intros) (simp_all add: with_log_def)

lemma sim_pin_private [sim_intros]: "sim (pin_private rd i p s) (pin_private (recorded rd) i p s)"
  unfolding pin_private_def recorded_sel Let_def by (intro sim_intros)

lemma sim_install_scope [sim_intros]: "sim (install_scope rd key pv owner) (install_scope (recorded rd) key pv owner)"
  unfolding install_scope_def recorded_sel Let_def by (intro sim_intros)

lemma sim_clean_private [sim_intros]: "sim (clean_private rd i p) (clean_private (recorded rd) i p)"
  unfolding clean_private_def recorded_sel Let_def by (intro sim_intros) (simp_all add: with_log_def)

lemma sim_active_devices [sim_intros]: "sim (active_devices rd) (active_devices (recorded rd))"
  unfolding active_devices_def recorded_sel Let_def by (intro sim_intros)

lemma try_one_as_bind: "try_one rd i key pv a = s_bind (if managed (at_props a) pv then s_ret (at_props a) else s_bind (apply_link rd i pv) (\<lambda>_. ask (rd_link rd i))) (\<lambda>p1.
     s_bind (s_try (s_bind (probe rd i) (\<lambda>r. s_bind (ask (rd_link rd i)) (\<lambda>p. s_ret (r, p))))) (\<lambda>r. case r of
       Inl err \<Rightarrow> if is_link_error err then s_ret (a\<lparr>at_error := Some (take 160 (exc_str err)), at_props := p1\<rparr>) else s_raise err
     | Inr ((encrypted, validated, pe), p) \<Rightarrow>
         s_ret (if no_error pe \<and> encrypted \<and> validated \<and> matches_provider p pv
            then a\<lparr>at_selected := Some key, at_error := None, at_props := p\<rparr>
            else a\<lparr>at_error := Some (case pe of None \<Rightarrow> ''ResolverValidationFailed'' | Some [] \<Rightarrow> ''ResolverValidationFailed'' | Some t \<Rightarrow> t), at_props := p\<rparr>)))"
  unfolding try_one_def by (rule s_bind_cong [OF refl], intro ext) (simp add: s_bind_def s_try_def split: prod.splits sum.splits)

lemma sim_try_one [sim_intros]: "sim (try_one rd i key pv a) (try_one (recorded rd) i key pv a)"
  unfolding try_one_as_bind recorded_sel by (intro sim_intros)

lemma sim_try_providers [sim_intros]: "sim (try_providers rd i a keys) (try_providers (recorded rd) i a keys)"
proof (induction keys arbitrary: a)
  case Nil
  show ?case unfolding try_providers.simps by (rule sim_intros)
next
  case (Cons key keys)
  show ?case unfolding try_providers.simps by (intro sim_intros Cons)
qed

lemma sim_try_scopes [sim_intros]: "sim (try_scopes rd i s owner b keys) (try_scopes (recorded rd) i s owner b keys)"
proof (induction keys arbitrary: owner b)
  case Nil
  show ?case unfolding try_scopes.simps by (rule sim_intros)
next
  case (Cons key keys)
  show ?case unfolding try_scopes.simps recorded_sel Let_def by (intro sim_intros Cons) simp
qed

lemma sim_use_providers [sim_intros]: "sim (use_providers rd i p policy) (use_providers (recorded rd) i p policy)"
  unfolding use_providers_def recorded_sel Let_def by (intro sim_intros) (simp_all add: with_log_def)

lemma sim_undo_attempt [sim_intros]: "sim (undo_attempt rd i) (undo_attempt (recorded rd) i)"
  unfolding undo_attempt_def recorded_sel Let_def by (intro sim_intros) (simp_all add: with_log_def)

lemma sim_split_reconcile [sim_intros]: "sim (split_reconcile rd i p b policy) (split_reconcile (recorded rd) i p b policy)"
  unfolding split_reconcile_def recorded_sel Let_def by (intro sim_intros)

lemma sim_simple_link [sim_intros]: "sim (simple_link rd i several p policy b) (simple_link (recorded rd) i several p policy b)"
  unfolding simple_link_def recorded_sel Let_def by (intro sim_intros) (simp_all add: with_log_def)

lemma sim_run_link [sim_intros]: "sim (run_link rd policy devices b) (run_link (recorded rd) policy devices b)"
  unfolding run_link_def recorded_sel Let_def by (intro sim_intros) (simp_all add: with_log_def)

text \<open>Recording does not change the course of a run.\<close>

lemma recording_transparent: "sim (dns_run rd) (dns_run (recorded rd))"
  unfolding dns_run_def by (intro sim_intros) simp_all

end
