(* ===== verification/Secure_Dns_Props.thy ===== *)
theory Secure_Dns_Props
  imports Secure_Dns_Recording
begin

text \<open>
  What the reconciler promises: it reports a secure provider only on measured evidence, a read-only
  installation is never changed, and its waiting loops end.
\<close>

section \<open>Evidence for a secure claim\<close>

text \<open>
  Notes of a run in which the resolver reported encryption and validation for a scope, answered a query in
  that scope from the network (bit 23 of the flags) with confidential (18) and authenticated (9) data, and
  reported a server of the provider for this or the global scope.
\<close>

definition evidence :: "reading set \<Rightarrow> provider \<Rightarrow> bool" where
  "evidence S pv \<longleftrightarrow> (\<exists>i p flags j q. ScopeRead i p \<in> S \<and> is_yes (lk_dot p) \<and> is_yes (lk_dnssec p)
     \<and> Answered i True flags \<in> S \<and> bit flags 9 \<and> bit flags 18 \<and> bit flags 23
     \<and> ScopeRead j q \<in> S \<and> (j = i \<or> j = 0) \<and> matches_provider q pv)"

lemma evidence_mono: "evidence S pv \<Longrightarrow> S \<subseteq> S' \<Longrightarrow> evidence S' pv"
  unfolding evidence_def by blast

lemma ask_eq [act_simps]: "ask m w = (r, w') \<longleftrightarrow> (\<exists>d. m (dn_daemon w) = (r, d) \<and> w' = w\<lparr>dn_daemon := d\<rparr>)"
  by (auto simp: ask_def split: prod.splits)

lemma ask_noted: "ask (rec_op f m) v = (Inr x, v') \<Longrightarrow> f x \<subseteq> logged v'"
  by (auto simp: ask_eq rec_op_def logged_def split: prod.splits)

lemma probe_noted:
  assumes run: "probe (recorded rd) i w = (Inr (True, True, pe), w')" and ok: "no_error pe"
  shows "\<exists>p flags. ScopeRead i p \<in> logged w' \<and> is_yes (lk_dot p) \<and> is_yes (lk_dnssec p) \<and> Answered i True flags \<in> logged w' \<and> flags_ok flags"
proof -
  have read: "(if i = 0 then ask (rd_global (recorded rd)) else ask (rd_link (recorded rd) i))
      = ask (rec_op (\<lambda>p. {ScopeRead i p}) (if i = 0 then rd_global rd else rd_link rd i))" by simp
  from run obtain p w1 where p: "ask (rec_op (\<lambda>p. {ScopeRead i p}) (if i = 0 then rd_global rd else rd_link rd i)) w = (Inr p, w1)" and
    c: "s_catch (s_bind (ask (rd_resolve (recorded rd) i)) (\<lambda>(answers, flags).
         s_ret (is_yes (lk_dot p), is_yes (lk_dnssec p), if answers \<and> flags_ok flags then None else Some ''ResolverValidationFailed'')))
       is_dbus (\<lambda>err. s_ret (is_yes (lk_dot p), is_yes (lk_dnssec p), Some (dbus_text err))) w1 = (Inr (True, True, pe), w')"
    unfolding probe_def s_bind_eq_Inr read by blast
  have "pe = None" if "is_dbus err" "pe = Some (dbus_text err)" for err
    using that ok by (cases err) (auto simp: dbus_text_def Let_def no_error_def startswith_def split: if_splits)
  then obtain flags where r: "ask (rd_resolve (recorded rd) i) w1 = (Inr (True, flags), w')" and f: "flags_ok flags" "is_yes (lk_dot p)" "is_yes (lk_dnssec p)"
    using c ok by (auto simp: s_catch_def s_bind_def no_error_def split: prod.splits sum.splits if_splits)
  have "ScopeRead i p \<in> logged w1" using ask_noted [OF p] by simp
  moreover have "logged w1 \<subseteq> logged w'" using r sim_grows [OF sim_ask] by simp
  moreover have "Answered i True flags \<in> logged w'" using ask_noted r by fastforce
  ultimately show ?thesis using f by blast
qed

lemma evidence_intro:
  assumes "probe (recorded rd) i w = (Inr (True, True, pe), v)" "no_error pe"
    and "ask (rec_op (\<lambda>p. {ScopeRead j p}) m) v = (Inr q, v')" "j = i \<or> j = 0" "matches_provider q pv"
  shows "evidence (logged v') pv"
proof -
  have "logged v \<subseteq> logged v'" "ScopeRead j q \<in> logged v'" using sim_grows [OF sim_ask assms(3)] ask_noted [OF assms(3)] by simp_all
  then show ?thesis using probe_noted [OF assms(1,2)] assms(4,5) unfolding evidence_def flags_ok_def by blast
qed

text \<open>The claim: a secure state names a provider, and there is evidence for it.\<close>

definition backed :: "reading set \<Rightarrow> dns_state \<Rightarrow> bool" where
  "backed S st \<longleftrightarrow> (bs_effective st = ''SecureProvider'' \<longrightarrow>
     (\<exists>k pv. bs_provider st = Some k \<and> map_of PROVIDERS k = Some pv \<and> evidence S pv))"

lemma provider_of_Inr: "provider_of k = Inr pv \<longleftrightarrow> map_of PROVIDERS k = Some pv"
  by (simp add: provider_of_def split: option.splits)

text \<open>Every value that the action returns satisfies \<open>P\<close> of the notes made until then.\<close>

definition yields :: "(reading set \<Rightarrow> 'a \<Rightarrow> bool) \<Rightarrow> (('d \<times> reading set, 'z) dworld_scheme, 'a) act \<Rightarrow> bool" where
  "yields P m \<longleftrightarrow> (\<forall>w x w'. m w = (Inr x, w') \<longrightarrow> P (logged w') x)"

named_theorems yields_intros

lemma yieldsD: "yields P m \<Longrightarrow> m w = (Inr x, w') \<Longrightarrow> P (logged w') x"
  unfolding yields_def by blast

lemma yields_bind [yields_intros]: "(\<And>x. yields P (k x)) \<Longrightarrow> yields P (s_bind m k)"
  unfolding yields_def by (auto simp: s_bind_eq_Inr)

lemma yields_if [yields_intros]: "(c \<Longrightarrow> yields P m) \<Longrightarrow> (\<not> c \<Longrightarrow> yields P k) \<Longrightarrow> yields P (if c then m else k)"
  by simp

lemma yields_case_prod [yields_intros]: "(\<And>a b. yields P (g a b)) \<Longrightarrow> yields P (case p of (a, b) \<Rightarrow> g a b)"
  by (cases p) simp

lemma yields_ret: "(\<And>S. P S x) \<Longrightarrow> yields P (s_ret x)"
  by (simp add: yields_def)

definition claim :: "string list \<Rightarrow> reading set \<Rightarrow> dns_state \<Rightarrow> bool" where
  "claim vpn S st \<longleftrightarrow> bs_vpn_links st = vpn \<and> backed S st"

lemma try_scopes_claim: "bs_vpn_links b = vpn \<Longrightarrow> try_scopes (recorded rd) i s owner b keys w = (Inr st, w') \<Longrightarrow> claim vpn (logged w') st"
proof (induction keys arbitrary: owner b w)
  case Nil
  then show ?case by (auto simp: unavailable_def backed_def claim_def)
next
  case (Cons key keys)
  from Cons.prems(2) obtain pv owner' w1 w2 encrypted validated pe w3 current w4 p w5 where
    pv: "map_of PROVIDERS key = Some pv" and pr: "probe (recorded rd) 0 w2 = (Inr (encrypted, validated, pe), w3)"
    and cu: "ask (rd_global (recorded rd)) w3 = (Inr current, w4)" and li: "ask (rd_link (recorded rd) i) w4 = (Inr p, w5)"
    and rest: "(if no_error pe \<and> encrypted \<and> validated \<and> matches_provider current pv \<and> public_root current \<and> same_link p s \<and> \<not> lk_default_route p
     then s_bind (s_get dn_now) (\<lambda>now. s_ret (secured now (b\<lparr>bs_resolver := server_of current, bs_provider := Some key\<rparr>)))
     else try_scopes (recorded rd) i s owner' (b\<lparr>bs_resolver := server_of current, bs_provider := Some key\<rparr>) keys) w5 = (Inr st, w')"
    by (auto simp: s_bind_eq_Inr Let_def provider_of_Inr simp del: recorded_sel)
  show ?case
  proof (cases "no_error pe \<and> encrypted \<and> validated \<and> matches_provider current pv \<and> public_root current \<and> same_link p s \<and> \<not> lk_default_route p")
    case True
    then have "evidence (logged w4) pv" using evidence_intro [of rd 0 w2 pe w3 0 _ current w4 pv] pr cu by simp
    moreover have "logged w4 \<subseteq> logged w5" using li sim_grows [OF sim_ask] by simp
    moreover have "bs_provider st = Some key" "bs_vpn_links st = vpn" "w' = w5" using rest True Cons.prems(1) by (auto simp: secured_def)
    ultimately show ?thesis using pv evidence_mono by (fastforce simp: backed_def claim_def)
  next
    case False
    then have "try_scopes (recorded rd) i s owner' (b\<lparr>bs_resolver := server_of current, bs_provider := Some key\<rparr>) keys w5 = (Inr st, w')"
      using rest by (simp only: if_False)
    then show ?thesis using Cons.prems(1) by (intro Cons.IH) simp_all
  qed
qed

lemma try_one_selected:
  assumes "try_one (recorded rd) i key pv a w = (Inr a', w')" "at_selected a = None" "at_selected a' = Some k"
  shows "k = key \<and> evidence (logged w') pv"
proof -
  from assms(1) obtain p1 w1 r w2 where r: "s_bind (probe (recorded rd) i) (\<lambda>r. s_bind (ask (rd_link (recorded rd) i)) (\<lambda>p. s_ret (r, p))) w1 = (r, w2)"
    and m: "(case r of Inl err \<Rightarrow> if is_link_error err then s_ret (a\<lparr>at_error := Some (take 160 (exc_str err)), at_props := p1\<rparr>) else s_raise err
     | Inr ((encrypted, validated, pe), p) \<Rightarrow>
         s_ret (if no_error pe \<and> encrypted \<and> validated \<and> matches_provider p pv
            then a\<lparr>at_selected := Some key, at_error := None, at_props := p\<rparr>
            else a\<lparr>at_error := Some (case pe of None \<Rightarrow> ''ResolverValidationFailed'' | Some [] \<Rightarrow> ''ResolverValidationFailed'' | Some t \<Rightarrow> t), at_props := p\<rparr>)) w2
     = (Inr a', w')"
    unfolding try_one_as_bind s_bind_eq_Inr s_try_eq by blast
  show ?thesis
  proof (cases r)
    case (Inl err)
    then show ?thesis using m assms(2,3) by (auto split: if_splits)
  next
    case (Inr x)
    obtain encrypted validated pe p where x: "x = ((encrypted, validated, pe), p)" by (cases x) auto
    from r Inr x obtain w3 where pr: "probe (recorded rd) i w1 = (Inr (encrypted, validated, pe), w3)" and li: "ask (rd_link (recorded rd) i) w3 = (Inr p, w2)"
      by (auto simp: s_bind_eq_Inr simp del: recorded_sel)
    have ok: "no_error pe \<and> encrypted \<and> validated \<and> matches_provider p pv" and k: "k = key" "w2 = w'"
      using m Inr x assms(2,3) by (auto split: if_splits)
    then show ?thesis using evidence_intro [of rd i w1 pe w3 i _ p w2 pv] pr li by simp
  qed
qed

lemma try_providers_selected:
  "try_providers (recorded rd) i a keys w = (Inr a', w') \<Longrightarrow> at_selected a = None \<Longrightarrow> at_selected a' = Some k
    \<Longrightarrow> \<exists>pv. map_of PROVIDERS k = Some pv \<and> evidence (logged w') pv"
proof (induction keys arbitrary: a w)
  case (Cons key keys)
  from Cons.prems(1) obtain pv b w1 where pv: "map_of PROVIDERS key = Some pv"
    and b: "s_catch (try_one (recorded rd) i key pv a) is_link_error (\<lambda>err. s_ret (a\<lparr>at_error := Some (take 160 (exc_str err))\<rparr>)) w = (Inr b, w1)"
    and rest: "(if at_selected b \<noteq> None then s_ret b else try_providers (recorded rd) i b keys) w1 = (Inr a', w')"
    by (auto simp: s_bind_eq_Inr provider_of_Inr)
  show ?case
  proof (cases "at_selected b")
    case None
    then show ?thesis using rest Cons.IH [OF _ None Cons.prems(3)] by auto
  next
    case (Some j)
    then have "b = a'" "w1 = w'" using rest by simp_all
    moreover have "try_one (recorded rd) i key pv a w = (Inr b, w1)"
      using b Some Cons.prems(2) by (auto simp: s_catch_def split: prod.splits sum.splits if_splits)
    ultimately show ?thesis using try_one_selected Cons.prems(2,3) pv by blast
  qed
qed simp

lemma judge_secure: "bs_effective b \<noteq> ''SecureProvider'' \<Longrightarrow> bs_effective (judge policy several now a b) = ''SecureProvider'' \<Longrightarrow> at_selected a \<noteq> None"
  by (auto simp: judge_def Let_def unavailable_def network_default_def split: if_splits option.splits)

lemma judge_provider: "bs_provider (judge policy several now a b) = bs_provider b" "bs_vpn_links (judge policy several now a b) = bs_vpn_links b"
  by (simp_all add: judge_def Let_def unavailable_def network_default_def secured_def split: option.splits)

definition attempt_ok :: "reading set \<Rightarrow> attempt \<Rightarrow> bool" where
  "attempt_ok S a \<longleftrightarrow> (\<forall>k. at_selected a = Some k \<longrightarrow> (\<exists>pv. map_of PROVIDERS k = Some pv \<and> evidence S pv))"

lemma judge_claim:
  assumes "bs_effective b \<noteq> ''SecureProvider''" "bs_vpn_links b = vpn" "attempt_ok S a"
  shows "claim vpn S (judge policy several now a ((case at_selected a of None \<Rightarrow> b | Some k \<Rightarrow> b\<lparr>bs_provider := Some k\<rparr>)
    \<lparr>bs_resolver := x, bs_domains := y\<rparr>))"
proof (cases "at_selected a")
  case None
  have "bs_effective (judge policy several now a (b\<lparr>bs_resolver := x, bs_domains := y\<rparr>)) \<noteq> ''SecureProvider''"
    using judge_secure [of "b\<lparr>bs_resolver := x, bs_domains := y\<rparr>" policy several now a] None assms(1) by auto
  then show ?thesis using None assms(2) by (simp add: claim_def backed_def judge_provider)
next
  case (Some k)
  then show ?thesis using assms by (simp add: claim_def backed_def judge_provider attempt_ok_def)
qed

lemma use_providers_ok: "yields attempt_ok (use_providers (recorded rd) i p policy)"
proof -
  have "yields attempt_ok (try_providers (recorded rd) i \<lparr>at_selected = None, at_error = None, at_props = p\<rparr> keys)" for keys
    unfolding yields_def attempt_ok_def using try_providers_selected by fastforce
  then show ?thesis unfolding use_providers_def by (intro yields_intros)
qed

text \<open>What the notes show after the first action they still show after the second.\<close>

lemma yields_then:
  assumes "yields Q m" "\<And>x. sim (u x) (u' x)" "\<And>x y S S'. Q S x \<Longrightarrow> S \<subseteq> S' \<Longrightarrow> P S' (g x y)"
  shows "yields P (s_bind m (\<lambda>x. s_bind (u' x) (\<lambda>y. s_ret (g x y))))"
  unfolding yields_def
proof (intro allI impI)
  fix w z w' assume "s_bind m (\<lambda>x. s_bind (u' x) (\<lambda>y. s_ret (g x y))) w = (Inr z, w')"
  then obtain x w1 y where x: "m w = (Inr x, w1)" and y: "u' x w1 = (Inr y, w')" and z: "z = g x y" by (auto simp: s_bind_eq_Inr)
  show "P (logged w') z" unfolding z by (rule assms(3) [OF yieldsD [OF assms(1) x] sim_grows [OF assms(2) y]])
qed

lemma attempt_ok_mono: "attempt_ok S a \<Longrightarrow> S \<subseteq> S' \<Longrightarrow> attempt_ok S' a"
  unfolding attempt_ok_def using evidence_mono by blast

lemma simple_link_claim:
  assumes "bs_effective b \<noteq> ''SecureProvider''" "bs_vpn_links b = vpn"
  shows "yields (claim vpn) (simple_link (recorded rd) i several p0 policy b)"
proof -
  have final: "s_bind m (\<lambda>_. s_bind (s_get dn_now) (\<lambda>now. s_ret (f now))) = s_bind (s_bind m (\<lambda>_. s_get dn_now)) (\<lambda>now. s_ret (f now))"
    for m :: "(('d \<times> reading set, 'z) dworld_scheme, unit) act" and f :: "rat \<Rightarrow> dns_state"
    by (intro ext) (simp add: s_bind_def split: prod.splits sum.splits)
  have undo: "sim (s_bind (if c then undo_attempt rd i else s_ret ()) (\<lambda>_. s_get dn_now)) (s_bind (if c then undo_attempt (recorded rd) i else s_ret ()) (\<lambda>_. s_get dn_now))" for c
    by (intro sim_intros) simp
  have attempt: "yields attempt_ok (if c then use_providers (recorded rd) i p policy else s_ret \<lparr>at_selected = None, at_error = None, at_props = p\<rparr>)" for c p
    by (intro yields_if use_providers_ok yields_ret) (simp add: attempt_ok_def)
  show ?thesis unfolding simple_link_def Let_def final
    by (rule yields_bind, rule yields_bind, rule yields_then [OF attempt undo], rule judge_claim [OF assms attempt_ok_mono])
qed

lemma split_reconcile_claim:
  assumes "bs_effective b \<noteq> ''SecureProvider''" "bs_vpn_links b = vpn"
  shows "yields (claim vpn) (split_reconcile (recorded rd) i p0 b policy)"
proof -
  have "yields (claim vpn) (try_scopes (recorded rd) i s owner (b\<lparr>bs_private := x\<rparr>) keys)" for s owner x keys
    unfolding yields_def using try_scopes_claim [of "b\<lparr>bs_private := x\<rparr>"] assms(2) by fastforce
  moreover have "claim vpn S (b\<lparr>bs_effective := ''Unavailable'', bs_reason := r\<rparr>)" for r S
    using assms(2) by (simp add: claim_def backed_def)
  ultimately show ?thesis unfolding split_reconcile_def by (intro yields_intros yields_ret)
qed

definition claim_or_vpn :: "reading set \<Rightarrow> dns_state \<Rightarrow> bool" where
  "claim_or_vpn S st \<longleftrightarrow> bs_effective st \<noteq> ''SecureProvider'' \<or> claim [] S st"

lemma yields_weaken: "yields P m \<Longrightarrow> (\<And>S x. P S x \<Longrightarrow> Q S x) \<Longrightarrow> yields Q m"
  unfolding yields_def by blast

lemma dns_run_claim: "yields claim_or_vpn (dns_run (recorded rd))"
proof -
  have link: "yields claim_or_vpn (run_link (recorded rd) policy devices (base_state policy m now))" for policy devices m now
    unfolding run_link_def Let_def
    by (intro yields_intros yields_ret yields_weaken [OF split_reconcile_claim [where vpn = "[]"]]
        yields_weaken [OF simple_link_claim [where vpn = "[]"]])
      (simp_all add: claim_or_vpn_def vpn_owned_def base_state_def)
  show ?thesis unfolding dns_run_def
    by (intro yields_intros link yields_ret) (simp add: claim_or_vpn_def base_state_def)
qed

text \<open>
  C10: A secure claim is measured. When a run reports \<open>SecureProvider\<close>, no VPN owns the link, and the
  readings of this very run \<open>S\<close> show for the reported provider: the resolver said that encryption and
  validation are on, it answered a query from the network with confidential, authenticated data, and it
  was using one of the provider's servers.
\<close>

theorem secure_claim_measured:
  assumes "dns_run rd w = (Inr st, w')" "bs_effective st = ''SecureProvider''"
  shows "bs_vpn_links st = [] \<and> (\<exists>S k pv. dns_run (recorded rd) (with_log {} w) = (Inr st, with_log S w')
    \<and> bs_provider st = Some k \<and> map_of PROVIDERS k = Some pv \<and> evidence S pv)"
proof -
  obtain S where S: "dns_run (recorded rd) (with_log {} w) = (Inr st, with_log S w')"
    using simD [OF recording_transparent, where S = "{}" and w = w] assms(1) by (metis fst_conv snd_conv)
  from yieldsD [OF dns_run_claim S] assms(2) show ?thesis using S by (auto simp: claim_or_vpn_def claim_def backed_def)
qed

section \<open>Waiting ends\<close>




section \<open>Read-only installations\<close>

definition reads_lawful :: "'d resolver \<Rightarrow> ('d \<Rightarrow> 'v) \<Rightarrow> bool" where
  "reads_lawful rd view \<longleftrightarrow> (\<forall>d r d'. rd_devices rd d = (r, d') \<longrightarrow> view d' = view d)
     \<and> (\<forall>i d r d'. rd_link rd i d = (r, d') \<longrightarrow> view d' = view d)"

definition dns_files :: "('d \<Rightarrow> 'v) \<Rightarrow> ('d, 'z) dworld_scheme \<Rightarrow> 'v \<times> val py \<times> link_snapshot option \<times> link_snapshot option \<times> config_file" where
  "dns_files view w = (view (dn_daemon w), dn_policy_file w, dn_snapshot w, dn_private w, dn_config w)"

lemma keeps_ask: "(\<And>d r d'. m d = (r, d') \<Longrightarrow> view d' = view d) \<Longrightarrow> keeps (dns_files view) (ask m)"
  by (auto simp: keeps_def ask_def dns_files_def split: prod.splits)

lemma read_only_simple:
  assumes "simple_link rd i several p policy b w = (r, w')" "dn_read_only w"
  shows "w' = w"
  using assms by (auto simp: simple_link_def mutation_enabled_def Let_def)

lemma read_only_link:
  assumes "run_link rd policy devices b w = (r, w')" "dn_read_only w" "reads_lawful rd view"
  shows "dns_files view w' = dns_files view w"
proof -
  define i where "i = dv_ifindex (if filter dv_vpn devices = [] then hd devices else hd (filter dv_vpn devices))"
  obtain q v where q: "ask (rd_link rd i) w = (q, v)" by fastforce
  have "keeps (dns_files view) (ask (rd_link rd i))" using assms(3) by (intro keeps_ask) (auto simp: reads_lawful_def)
  then have f: "dns_files view v = dns_files view w" using q by (rule keepsD)
  have ro: "dn_read_only v" using q assms(2) by (auto simp: ask_eq)
  show ?thesis
  proof (cases q)
    case (Inl e)
    then show ?thesis using assms(1,2) q f by (auto simp: run_link_def Let_def mutation_enabled_def s_bind_def i_def)
  next
    case (Inr p)
    have "w' = v"
      using assms(1,2) q Inr ro read_only_simple [of rd i _ p policy _ v r w']
      by (auto simp: run_link_def Let_def mutation_enabled_def s_bind_def i_def split: if_splits)
    then show ?thesis using f by simp
  qed
qed

lemma read_only_run:
  assumes "dns_run rd w = (r, w')" "dn_read_only w" "reads_lawful rd view"
  shows "dns_files view w' = dns_files view w"
proof (cases "load_dns_policy (dn_policy_file w)")
  case (Inl e)
  then show ?thesis using assms(1) by (auto simp: dns_run_def s_bind_def)
next
  case (Inr policy)
  obtain q v where q: "active_devices rd w = (q, v)" by fastforce
  have "keeps (dns_files view) (active_devices rd)"
    unfolding active_devices_def using assms(3) by (intro keeps_intros keeps_ask) (auto simp: reads_lawful_def)
  then have f: "dns_files view v = dns_files view w" using q by (rule keepsD)
  have ro: "dn_read_only v"
    using q assms(2) by (auto simp: active_devices_def s_bind_def ask_def split: prod.splits sum.splits)
  show ?thesis
  proof (cases q)
    case (Inl e)
    then show ?thesis using assms(1,2) Inr q f by (auto simp: dns_run_def s_bind_def mutation_enabled_def)
  next
    case (Inr ds)
    then have "w' = v \<or> (\<exists>b. run_link rd policy ds b v = (r, w'))"
      using assms(1,2) \<open>load_dns_policy (dn_policy_file w) = Inr policy\<close> q
      by (auto simp: dns_run_def s_bind_def mutation_enabled_def split: if_splits)
    then show ?thesis using f read_only_link [OF _ ro assms(3)] by metis
  qed
qed

lemma read_only_refresh:
  assumes "refresh rd w = (r, w')" "dn_read_only w" "reads_lawful rd view"
  shows "dns_files view w' = dns_files view w"
proof -
  let ?h = "\<lambda>e. s_bind (s_get dn_policy_file) (\<lambda>c. s_bind (s_lift (load_dns_policy c)) (\<lambda>policy.
       s_bind mutation_enabled (\<lambda>mutable. s_bind (s_get dn_now) (\<lambda>now. s_ret (failed_state policy mutable now)))))"
  obtain q v where q: "dns_run rd w = (q, v)" by fastforce
  obtain q' v' where c: "s_catch (dns_run rd) is_run_error ?h w = (q', v')" by fastforce
  have "keeps (dns_files view) (?h e)" for e unfolding mutation_enabled_def by (intro keeps_intros)
  then have "dns_files view v' = dns_files view v"
    using c q keepsD by (fastforce simp: s_catch_def split: sum.splits if_splits)
  moreover have "dns_files view w' = dns_files view v'"
    using assms(1) c unfolding refresh_def
    by (cases q') (auto simp: s_bind_def file_op_def Let_def dns_files_def split: if_splits)
  ultimately show ?thesis using read_only_run [OF q assms(2,3)] by simp
qed

text \<open>
  A read-only installation is not changed. With the read-only marker in place, the periodic run and
  the methods \<open>SetMode\<close> and \<open>SetProvider\<close> change no link setting, no resolver configuration, no snapshot
  and not the stored choice.
\<close>

theorem read_only_changes_nothing:
  assumes "reads_lawful rd view" "dn_read_only w"
  shows "dns_files view (snd (refresh rd w)) = dns_files view w
    \<and> dns_files view (snd (set_mode rd mode w)) = dns_files view w
    \<and> dns_files view (snd (set_provider rd provider w)) = dns_files view w"
proof -
  have r: "dns_files view (snd (refresh rd w)) = dns_files view w"
    using read_only_refresh [OF prod.collapse [symmetric] assms(2,1)] .
  moreover have "dns_files view (snd (save_choice rd key v w)) = dns_files view w" for key v
    using r assms(2) by (auto simp: save_choice_def mutation_enabled_def s_bind_def split: prod.splits sum.splits)
  ultimately show ?thesis by (simp add: set_mode_def set_provider_def)
qed

section \<open>The chosen provider\<close>

text \<open>
  \<open>SetProvider\<close> stores a choice that no later run uses: the providers are tried in the stored order,
  which the choice does not change.
\<close>

lemma provider_choice_unused:
  assumes "load_dns_policy (Inr (VDict v)) = Inr p" "is_provider k"
  shows "\<exists>q. load_dns_policy (Inr (VDict (dput v ''provider'' (VStr k)))) = Inr q \<and> sp_provider q = k
    \<and> use_providers rd i l q = use_providers rd i l p \<and> split_reconcile rd i l b q = split_reconcile rd i l b p"
proof -
  have g: "dget (dput v ''provider'' x) ''desired_policy'' = dget v ''desired_policy''" "dget (dput v ''provider'' x) ''provider_order'' = dget v ''provider_order''"
    "dget (dput v ''provider'' x) ''provider'' = x" for x by simp_all
  have "in_keys (VStr k) (map fst PROVIDERS) = Inr True" using assms(2) by (simp add: in_keys_def hashable_def str_in_def is_provider_def)
  moreover from assms(1) obtain known order where k: "in_keys (dget v ''desired_policy'') MODES = Inr known"
      "provider_order (dget v ''provider_order'') = Inr order"
    and p: "sp_order p = order" by (auto simp: load_dns_policy_def read_json_def py_simps Let_def)
  ultimately obtain q where q: "load_dns_policy (Inr (VDict (dput v ''provider'' (VStr k)))) = Inr q" "sp_provider q = k" "sp_order q = order"
    by (simp add: load_dns_policy_def read_json_def py_bind_def g Let_def)
  have o: "sp_order q = sp_order p" using q(3) p by simp
  show ?thesis using q(1,2) by (intro exI [of _ q]) (simp only: use_providers_def split_reconcile_def o simp_thms)
qed

section \<open>An example\<close>

text \<open>A resolver whose single link already uses Quad9 with encryption and validation.\<close>

definition demo_quad9 :: provider where
  "demo_quad9 = \<lparr>pv_label = ''Quad9'', pv_sni = ''dns.quad9.net'', pv_addresses = [''9.9.9.9'', ''149.112.112.112'', ''2620:fe::fe'', ''2620:fe::9'']\<rparr>"

definition demo_dns :: "dns_server list" where
  "demo_dns = (case provider_dns demo_quad9 of Inl e \<Rightarrow> [] | Inr xs \<Rightarrow> xs)"

definition demo_link :: link_props where
  "demo_link = \<lparr>lk_dns = demo_dns, lk_current = Some \<lparr>ds_family = 2, ds_address = [9, 9, 9, 9], ds_port = 853, ds_name = ''dns.quad9.net''\<rparr>,
     lk_dot = ''yes'', lk_dnssec = ''yes'', lk_default_route = True, lk_domains = []\<rparr>"

definition demo_resolver :: "rat resolver" where
  "demo_resolver = \<lparr>rd_devices = s_ret [\<lparr>nd_state = 100, nd_interface = ''eth0'', nd_type = 1, nd_ifindex = Inr 2\<rparr>],
     rd_link = (\<lambda>i. s_ret demo_link), rd_global = s_ret demo_link, rd_set_dns = (\<lambda>i xs. s_ret ()), rd_set_dot = (\<lambda>i x. s_ret ()),
     rd_set_dnssec = (\<lambda>i x. s_ret ()), rd_set_default_route = (\<lambda>i x. s_ret ()), rd_revert = (\<lambda>i. s_ret ()),
     rd_resolve = (\<lambda>i. s_ret (True, 2 ^ 18 + 2 ^ 9 + 2 ^ 23)), rd_reload = s_ret (), rd_monotonic = (\<lambda>d. (d, d)), rd_sleep = (\<lambda>d. d + 1 / 20)\<rparr>"

definition demo_dworld :: "bool \<Rightarrow> rat nworld" where
  "demo_dworld read_only = \<lparr>dn_daemon = 0, dn_policy_file = Inl (OSError ''missing''), dn_snapshot = None, dn_private = None, dn_config = ConfigMissing,
     dn_read_only = read_only, dn_now = 0, dn_io = (\<lambda>n. True), dn_step = 0, dn_published = None, dn_pending_refresh = False\<rparr>"

lemma demo_flags: "flags_ok (2 ^ 18 + 2 ^ 9 + 2 ^ 23)"
  by (simp add: flags_ok_def bit_iff_odd)

lemma demo_matches: "matches_provider demo_link demo_quad9"
  by (simp add: matches_provider_def server_of_def demo_link_def bytes_text_def demo_quad9_def)

lemma demo_yes: "is_yes ''yes''"
  by (simp add: is_yes_def py_lower_def lower_char_def is_upper_az_def code_def)


theorem read_only_changes_nothing_witness:
  "dns_files (\<lambda>d. d) (snd (refresh demo_resolver (demo_dworld True))) = dns_files (\<lambda>d. d) (demo_dworld True)"
  using read_only_changes_nothing [of demo_resolver "\<lambda>d. d" "demo_dworld True"]
  by (auto simp: reads_lawful_def demo_resolver_def demo_dworld_def)

lemma demo_policy_loaded: "load_dns_policy (Inl (OSError ''missing'')) = Inr \<lparr>sp_value = default_dns_policy, sp_desired = ''Automatic'',
    sp_order = PROVIDER_ORDER, sp_provider = ''quad9''\<rparr>"
  by code_simp

lemma demo_parses:
  "ip_address ''9.9.9.9'' \<noteq> None" "ip_address ''149.112.112.112'' \<noteq> None" "ip_address ''2620:fe::fe'' \<noteq> None" "ip_address ''2620:fe::9'' \<noteq> None"
  by (simp_all add: ip_address_def ipv4_address_def v4_int_def Let_def parse_octet_def is_digit_def code_def parse_base_def digit_value_def
      ipv6_address_def split_scope_def v6_int_def v6_suffix_def v6_parts_def inner_empty_def upt_rec parse_hextet_def is_hex_any_def is_hex_lower_def hextets_value_def)

lemma demo_provider_dns: "\<exists>xs. provider_dns demo_quad9 = Inr xs"
  using demo_parses by (auto simp: provider_dns_def demo_quad9_def provider_entry_def py_bind_def)

lemma demo_managed: "managed demo_link demo_quad9" "managed_provider demo_link = Some ''quad9''" "map_of PROVIDERS ''quad9'' = Some demo_quad9"
proof -
  show m: "managed demo_link demo_quad9"
    using demo_provider_dns demo_yes by (auto simp: managed_def demo_link_def demo_dns_def)
  show "map_of PROVIDERS ''quad9'' = Some demo_quad9" by (simp add: PROVIDERS_def demo_quad9_def)
  show "managed_provider demo_link = Some ''quad9''" using m by (simp add: managed_provider_def PROVIDERS_def demo_quad9_def)
qed

definition demo_attempt :: attempt where
  "demo_attempt = \<lparr>at_selected = Some ''quad9'', at_error = None, at_props = demo_link\<rparr>"

lemma demo_dns_ask: "ask (rd_link demo_resolver i) w = (Inr demo_link, w)" "ask (rd_global demo_resolver) w = (Inr demo_link, w)"
  "ask (rd_resolve demo_resolver i) w = (Inr (True, 2 ^ 18 + 2 ^ 9 + 2 ^ 23), w)"
  "ask (rd_devices demo_resolver) w = (Inr [\<lparr>nd_state = 100, nd_interface = ''eth0'', nd_type = 1, nd_ifindex = Inr 2\<rparr>], w)"
  by (simp_all add: ask_def demo_resolver_def)

lemma demo_link_fields: "lk_dot demo_link = ''yes''" "lk_dnssec demo_link = ''yes''" "lk_domains demo_link = []"
  by (simp_all add: demo_link_def)

lemma demo_probe: "probe demo_resolver 2 w = (Inr (True, True, None), w)"
  using demo_flags demo_yes by (simp add: probe_def s_bind_def s_catch_def demo_dns_ask demo_link_fields)

lemma demo_use: "dn_snapshot w = None \<Longrightarrow> use_providers demo_resolver 2 demo_link p w = (Inr demo_attempt, w)" if "sp_order p = PROVIDER_ORDER"
  using that demo_managed demo_matches
  by (simp add: use_providers_def s_bind_def PROVIDER_ORDER_def provider_of_def s_catch_def try_one_def demo_probe demo_dns_ask no_error_def demo_attempt_def)

lemma demo_secured: "\<exists>st w'. dns_run demo_resolver (demo_dworld False) = (Inr st, w') \<and> bs_effective st = ''SecureProvider''"
proof -
  define w where "w = demo_dworld False"
  define policy where "policy = \<lparr>sp_value = default_dns_policy, sp_desired = ''Automatic'', sp_order = PROVIDER_ORDER, sp_provider = ''quad9''\<rparr>"
  have f: "dn_policy_file w = Inl (OSError ''missing'')" "\<not> dn_read_only w" "dn_private w = None" "dn_config w = ConfigMissing" "dn_snapshot w = None" "dn_now w = 0"
    by (simp_all add: w_def demo_dworld_def)
  have l: "load_dns_policy (dn_policy_file w) = Inr policy" using demo_policy_loaded by (simp add: f policy_def)
  have p: "sp_desired policy = ''Automatic''" "sp_order policy = PROVIDER_ORDER" by (simp_all add: policy_def)
  have d: "active_devices demo_resolver w = (Inr [\<lparr>dv_interface = ''eth0'', dv_ifindex = 2, dv_vpn = False\<rparr>], w)"
    by (simp add: active_devices_def s_bind_def demo_dns_ask device_of_def vpn_name_def startswith_def py_bind_def)
  have r: "split_restore demo_resolver w = (Inr (), w)"
    by (simp add: split_restore_def get_owner_def s_bind_def f owned_configuration_def)
  have j: "bs_domains b = [] \<Longrightarrow> bs_effective (judge policy False now demo_attempt b) = ''SecureProvider''" for now b
    using demo_yes demo_managed(3) demo_matches by (simp add: judge_def demo_attempt_def p demo_link_fields secured_def Let_def)
  have s: "bs_domains b = [] \<Longrightarrow> \<exists>st. simple_link demo_resolver 2 False demo_link policy b w = (Inr st, w) \<and> bs_effective st = ''SecureProvider''" for b
    using demo_use [OF p(2) f(5)]
    by (simp add: simple_link_def mutation_enabled_def f p s_bind_def Let_def) (simp add: demo_attempt_def j [unfolded demo_attempt_def] domains_of_def demo_link_fields)
  have "\<exists>st. run_link demo_resolver policy [\<lparr>dv_interface = ''eth0'', dv_ifindex = 2, dv_vpn = False\<rparr>] b w = (Inr st, w) \<and> bs_effective st = ''SecureProvider''" for b
    by (simp add: run_link_def mutation_enabled_def f p s_bind_def demo_dns_ask split_eligible_def domains_of_def demo_link_fields r s)
  then show ?thesis
    by (simp add: dns_run_def s_bind_def l [unfolded f(1)] mutation_enabled_def f d flip: w_def) blast
qed

theorem secure_claim_measured_witness:
  "\<exists>st w' S k pv. dns_run (recorded demo_resolver) (with_log {} (demo_dworld False)) = (Inr st, with_log S w')
    \<and> bs_provider st = Some k \<and> map_of PROVIDERS k = Some pv \<and> evidence S pv"
proof -
  obtain st w' where "dns_run demo_resolver (demo_dworld False) = (Inr st, w')" "bs_effective st = ''SecureProvider''" using demo_secured by blast
  from secure_claim_measured [OF this] show ?thesis by blast
qed

end
