(* ===== verification/Notices.thy ===== *)
theory Notices
  imports Py_Loops
begin

text \<open>
  \<open>scan_notices.py\<close> and \<open>security_notices.py\<close>: which conditions become a notice. Notices are
  dictionaries, as the shell and the notification router read them. Reading a timestamp is the parameter
  \<open>parse\<close>: the time of a text with an offset, \<open>None\<close> for any other text.
\<close>

section \<open>Scan results\<close>

record scan_style =
  ss_color :: string
  ss_label :: string
  ss_artwork :: string

definition STYLES :: "(string \<times> scan_style) list" where
  "STYLES = [
     (''CLEAN'', \<lparr>ss_color = ''#A7D8B7'', ss_label = ''No threats detected'', ss_artwork = ''clean''\<rparr>),
     (''PARTIAL'', \<lparr>ss_color = ''#E9C484'', ss_label = ''Scan incomplete'', ss_artwork = ''review''\<rparr>),
     (''FAILED'', \<lparr>ss_color = ''#E9C484'', ss_label = ''Scan did not finish'', ss_artwork = ''review''\<rparr>),
     (''UNAVAILABLE'', \<lparr>ss_color = ''#E9C484'', ss_label = ''Scanner unavailable'', ss_artwork = ''review''\<rparr>),
     (''CANCELLED'', \<lparr>ss_color = ''#BDCADA'', ss_label = ''Scan cancelled'', ss_artwork = ''neutral''\<rparr>),
     (''EMPTY'', \<lparr>ss_color = ''#BDCADA'', ss_label = ''No files inspected'', ss_artwork = ''neutral''\<rparr>),
     (''THREAT'', \<lparr>ss_color = ''#F0A3AA'', ss_label = ''Threat detected'', ss_artwork = ''threat''\<rparr>)]"

definition notice_count :: "val \<Rightarrow> int option" where
  "notice_count v = (case v of VInt i \<Rightarrow> if 0 \<le> i \<and> i \<le> 10000000 then Some i else None | _ \<Rightarrow> None)"

text \<open>\<open>Path(s).name\<close>.\<close>

definition path_name :: "string \<Rightarrow> string" where
  "path_name s = (let parts = filter (\<lambda>p. p \<noteq> [] \<and> p \<noteq> ''.'') (split_on (CHR ''/'') s) in if parts = [] then [] else last parts)"

definition subject :: "env \<Rightarrow> val \<Rightarrow> string" where
  "subject e v = (let s = take 100 (map (\<lambda>c. if printable c then c else CHR '' '') (path_name (py_str e (py_or v (VStr ''Selected files''))))) in
     if s = [] then ''Selected files'' else s)"

text \<open>\<open>html.escape\<close>.\<close>

definition escape_char :: "char \<Rightarrow> string" where
  "escape_char c = (if c = CHR ''&'' then ''&amp;'' else if c = CHR ''<'' then ''&lt;'' else if c = CHR ''>'' then ''&gt;''
     else if c = CHR 0x22 then ''&quot;'' else if c = CHR 0x27 then ''&#x27;'' else [c])"

definition html_escape :: "string \<Rightarrow> string" where
  "html_escape s = concat (map escape_char s)"

definition in_quotes :: "string \<Rightarrow> string" where
  "in_quotes s = [CHR 0x22] @ s @ [CHR 0x22]"

definition appearance :: "env \<Rightarrow> dict \<Rightarrow> (string \<times> string) option py" where
  "appearance e notice = (if \<not> hashable (dget notice ''kind'') then Inl TypeError
     else if \<not> str_in (dget notice ''kind'') [''scan-result'', ''malware''] then Inr None
     else if \<not> hashable (dget notice ''scan_status'') then Inl TypeError
     else (case dget notice ''scan_status'' of
         VStr state \<Rightarrow> (case map_of STYLES state of
             None \<Rightarrow> Inr None
           | Some st \<Rightarrow>
               let caption = py_str e (py_or (dget notice ''scan_caption'') (VStr (if state = ''THREAT'' then ''Review this finding in File security'' else ''View the result in File security''))) in
               Inr (Some (''<font color='' @ in_quotes (ss_color st) @ '' size='' @ in_quotes ''5'' @ ''><b>'' @ ss_label st @ ''</b></font><br/><font size='' @ in_quotes ''4'' @ ''>''
                 @ html_escape caption @ ''</font>'',
                 ''file:///usr/share/greyward-security-center/scan-notifications/greyward-scan-'' @ ss_artwork st @ ''.svg?design=2'')))
       | _ \<Rightarrow> Inr None))"

definition dot_text :: string where "dot_text = '' '' @ [CHR 0xB7] @ '' ''"

text \<open>Status, title and severity of a finished scan; \<open>None\<close> for a state that gives no notice.\<close>

definition scan_outcome :: "val \<Rightarrow> int option \<Rightarrow> int option \<Rightarrow> int option \<Rightarrow> (string \<times> string \<times> string) option py" where
  "scan_outcome state inspected errors skipped =
    (if state = VStr ''COMPLETED'' \<and> (errors \<noteq> Some 0 \<or> skipped \<noteq> Some 0 \<or> inspected = None)
     then Inr (Some (''PARTIAL'', ''Scan incomplete'', ''WARNING''))
     else if state = VStr ''COMPLETED'' \<and> inspected = Some 0 then Inr (Some (''EMPTY'', ''Scan finished'', ''INFO''))
     else if state = VStr ''COMPLETED''
     then Inr (Some (''CLEAN'', ''Scan complete'' @ dot_text @ int_str (the inspected) @ (if inspected = Some 1 then '' file'' else '' files''), ''INFO''))
     else if state = VStr ''CANCELLED'' then Inr (Some (''CANCELLED'', ''Scan cancelled'', ''INFO''))
     else if \<not> hashable state then Inl TypeError
     else if str_in state [''FAILED'', ''PARTIAL'', ''INTERRUPTED'', ''TIMEOUT'']
     then Inr (Some (if state = VStr ''PARTIAL'' then ''PARTIAL'' else ''FAILED'', ''Scan incomplete'', ''WARNING''))
     else Inr None)"

definition scan_caption :: "string \<Rightarrow> int option \<Rightarrow> string" where
  "scan_caption status inspected =
    (if status = ''CLEAN'' then int_str (the inspected) @ (if inspected = Some 1 then '' file checked'' else '' files checked'')
     else if status = ''PARTIAL'' then ''Some files could not be checked''
     else if status = ''FAILED'' then ''The scan could not be completed''
     else if status = ''CANCELLED'' then ''No complete result was recorded''
     else if status = ''EMPTY'' then ''The selection contained no scannable files''
     else ''View the result in File security'')"

definition scan_notice :: "string \<Rightarrow> string \<Rightarrow> string \<Rightarrow> string \<Rightarrow> string \<Rightarrow> string \<Rightarrow> dict" where
  "scan_notice reference status title severity name caption = [(''id'', VStr (''scan-result:'' @ reference)), (''kind'', VStr ''scan-result''),
     (''severity'', VStr severity), (''title'', VStr title),
     (''detail'', VStr ((case map_of STYLES status of None \<Rightarrow> [] | Some st \<Rightarrow> ss_label st) @ dot_text @ name)), (''route'', VStr ''files''),
     (''actions'', VList [VDict [(''id'', VStr ''open''), (''label'', VStr ''View scan'')]]), (''timeout_ms'', VInt (if severity = ''INFO'' then 8000 else 12000)),
     (''scan_status'', VStr status), (''scan_subject'', VStr name), (''notification_title'', VStr name), (''scan_caption'', VStr caption)]"

definition mapping :: "val \<Rightarrow> dict" where
  "mapping v = (case v of VDict d \<Rightarrow> d | _ \<Rightarrow> [])"

text \<open>One scan that ended within the last minute, was not in the background and found nothing.\<close>

definition scan_result :: "env \<Rightarrow> (string \<Rightarrow> rat option) \<Rightarrow> rat \<Rightarrow> string \<Rightarrow> dict \<Rightarrow> dict list py" where
  "scan_result e parse now reference scan =
    (let scope = mapping (dget scan ''scope'') in
     if truthy (dget scope ''background'') \<or> notice_count (dget scan ''detection_count'') \<noteq> Some 0 then Inr []
     else (case parse (py_str e (py_or (dget scan ''ended_at'') (VStr []))) of
         None \<Rightarrow> Inr []
       | Some ended \<Rightarrow>
           if \<not> (0 \<le> now - ended \<and> now - ended < 60) then Inr []
           else let inspected = notice_count (dget scan ''files_inspected'') in
             py_bind (scan_outcome (dget scan ''state'') inspected (notice_count (dget scan ''error_count'')) (notice_count (dget scan ''skipped_count''))) (\<lambda>r.
             case r of None \<Rightarrow> Inr []
             | Some (status, title, severity) \<Rightarrow>
                 Inr [scan_notice reference status title severity (subject e (dget scope ''label'')) (scan_caption status inspected)])))"

fun scan_results_from :: "env \<Rightarrow> (string \<Rightarrow> rat option) \<Rightarrow> rat \<Rightarrow> string list \<Rightarrow> val list \<Rightarrow> dict list py" where
  "scan_results_from e parse now seen [] = Inr []"
| "scan_results_from e parse now seen (v # vs) = (case v of
       VDict scan \<Rightarrow> let reference = py_str e (py_or (dget scan ''operation_id'') (VStr [])) in
         if reference = [] \<or> reference \<in> set seen then scan_results_from e parse now seen vs
         else py_bind (scan_result e parse now reference scan) (\<lambda>xs.
           py_bind (scan_results_from e parse now (reference # seen) vs) (\<lambda>ys. Inr (xs @ ys)))
     | _ \<Rightarrow> scan_results_from e parse now seen vs)"

definition scan_results :: "env \<Rightarrow> (string \<Rightarrow> rat option) \<Rightarrow> rat \<Rightarrow> dict \<Rightarrow> dict list py" where
  "scan_results e parse now files = (if dget files ''state'' \<noteq> VStr ''AVAILABLE'' then Inr []
     else scan_results_from e parse now [] (py_or (dget files ''latest_scan'') (VDict []) # take 8 (as_list (dget files ''recent_scans''))))"

section \<open>Notices\<close>

definition DAY :: int where "DAY = 86400"

definition notice_item :: "val \<Rightarrow> string \<Rightarrow> string \<Rightarrow> val \<Rightarrow> val \<Rightarrow> string \<Rightarrow> val list \<Rightarrow> dict \<Rightarrow> dict" where
  "notice_item key kind severity title detail route actions extra = dupdate [(''id'', key), (''kind'', VStr kind), (''severity'', VStr severity),
     (''title'', title), (''detail'', detail), (''route'', VStr route), (''actions'', VList actions),
     (''timeout_ms'', VInt (if severity = ''CRITICAL'' then 0 else 10000))] extra"

definition recent :: "env \<Rightarrow> (string \<Rightarrow> rat option) \<Rightarrow> val \<Rightarrow> rat \<Rightarrow> bool" where
  "recent e parse v current = (case parse (py_str e v) of None \<Rightarrow> False | Some t \<Rightarrow> 0 \<le> current - t \<and> current - t \<le> 900)"

text \<open>The preference file: anything but a stored \<open>True\<close> means that sensor starts are not announced.\<close>

definition read_preference :: "val py \<Rightarrow> bool py" where
  "read_preference content = (case content of
       Inl err \<Rightarrow> (case err of OSError s \<Rightarrow> Inr False | _ \<Rightarrow> if is_value_error err then Inr False else Inl err)
     | Inr (VDict d) \<Rightarrow> Inr (dget d ''sensor_start'' = VBool True)
     | Inr _ \<Rightarrow> Inr False)"

text \<open>\<open>writable\<close> is whether the replacement of the file succeeds.\<close>

definition set_sensor_start :: "bool \<Rightarrow> val \<Rightarrow> (val py, bool) act" where
  "set_sensor_start writable enabled content = (case enabled of
       VBool b \<Rightarrow> if writable then (read_preference (Inr (VDict [(''sensor_start'', VBool b)])), Inr (VDict [(''sensor_start'', VBool b)]))
         else (Inl (OSError ''write''), content)
     | _ \<Rightarrow> (Inl (ValueError ''sensor_start must be a boolean''), content))"

section \<open>Sensor starts\<close>

record sensor_starts =
  sx_active :: "string list option"
  sx_pending :: "(string \<times> rat \<times> dict) list"
  sx_sequence :: nat

definition new_sensor_starts :: sensor_starts where
  "new_sensor_starts = \<lparr>sx_active = None, sx_pending = [], sx_sequence = 0\<rparr>"

definition sensor_signals :: "dict \<Rightarrow> dict list py" where
  "sensor_signals capsule = (case dget_or capsule ''signals'' (VList []) of
       VList vs \<Rightarrow> py_bind (py_map (\<lambda>v. case v of VDict d \<Rightarrow> Inr d | _ \<Rightarrow> Inl (OtherError ''AttributeError'')) (take 64 vs)) (\<lambda>ds.
         Inr (filter (\<lambda>d. dget d ''category'' = VStr ''ACTIVE_SENSOR'') ds))
     | _ \<Rightarrow> Inl TypeError)"

text \<open>The active sensors by identifier; a later signal of an identifier replaces an earlier one.\<close>

definition active_sensors :: "env \<Rightarrow> dict list \<Rightarrow> (string \<times> dict) list" where
  "active_sensors e signals = foldl (\<lambda>acc d. AList.update (py_str e (dget d ''signal_id'')) d acc) []
     (filter (\<lambda>d. dget d ''state'' = VStr ''ACTIVE'' \<and> truthy (dget d ''signal_id'')) signals)"

definition start_notice :: "env \<Rightarrow> string \<Rightarrow> dict \<Rightarrow> nat \<Rightarrow> dict" where
  "start_notice e key signal n =
    (let label = (if startswith key ''camera'' then ''Camera'' else ''Microphone'');
         app = take 120 (py_str e (py_or (dget signal ''application'') (VStr ''Unidentified application''))) in
     notice_item (VStr (''sensor-start:'' @ take 20 (env_sha256 e key) @ '':'' @ nat_str n)) ''sensor-start'' ''INFO'' (VStr (label @ '' started''))
       (VStr (app @ '' is using your '' @ py_lower label @ ''.'')) ''privacy'' [] [(''timeout_ms'', VInt 6000)])"

definition announce :: "env \<Rightarrow> rat \<Rightarrow> (string \<times> dict) list \<Rightarrow> sensor_starts \<Rightarrow> string \<Rightarrow> sensor_starts" where
  "announce e current active st key = (let n = Suc (sx_sequence st) in
     st\<lparr>sx_sequence := n, sx_pending := AList.update key (current + 15, start_notice e key (case map_of active key of None \<Rightarrow> [] | Some d \<Rightarrow> d) n) (sx_pending st)\<rparr>)"

definition unknown_signal :: "dict list \<Rightarrow> bool py" where
  "unknown_signal signals = py_any (\<lambda>d. if hashable (dget d ''state'') then Inr (\<not> str_in (dget d ''state'') [''ACTIVE'', ''INACTIVE'']) else Inl TypeError) signals"

definition collect :: "env \<Rightarrow> dict \<Rightarrow> bool \<Rightarrow> rat \<Rightarrow> (sensor_starts, dict list) act" where
  "collect e capsule enabled current st = (case sensor_signals capsule of
       Inl err \<Rightarrow> (Inl err, st)
     | Inr signals \<Rightarrow> (case unknown_signal signals of
         Inl err \<Rightarrow> (Inl err, st)
       | Inr unknown \<Rightarrow>
         if signals = [] \<or> unknown then (Inr [], st\<lparr>sx_pending := []\<rparr>)
         else let active = active_sensors e signals; keys = map fst active;
             started = (case sx_active st of None \<Rightarrow> [] | Some old \<Rightarrow> filter (\<lambda>k. k \<notin> set old) keys);
             st1 = st\<lparr>sx_active := Some keys, sx_pending := filter (\<lambda>p. fst p \<in> set keys \<and> current < fst (snd p)) (sx_pending st)\<rparr> in
           if \<not> enabled then (Inr [], st1\<lparr>sx_pending := []\<rparr>)
           else let st2 = foldl (announce e current active) st1 (sort started) in (Inr (map (\<lambda>p. snd (snd p)) (sx_pending st2)), st2)))"

section \<open>Updates\<close>

definition restart_notice :: dict where
  "restart_notice = notice_item (VStr ''updates-restart'') ''update-notice'' ''INFO'' (VStr ''Restart required'')
     (VStr ''Update Center has prepared updates. Restart when convenient to finish installing them.'') ''updates'' [] [(''reminder_seconds'', VInt DAY)]"

definition security_notice :: "nat \<Rightarrow> dict" where
  "security_notice n = notice_item (VStr ''updates-security'') ''update-notice'' ''INFO'' (VStr ''Security updates available'')
     (VStr (''Update Center verified '' @ nat_str n @ '' available security update(s). Review them when convenient.'')) ''updates'' [] [(''reminder_seconds'', VInt DAY)]"

definition verified_fix :: "env \<Rightarrow> (string \<Rightarrow> rat option) \<Rightarrow> rat \<Rightarrow> dict \<Rightarrow> val \<Rightarrow> bool py" where
  "verified_fix e parse current providers v = (case v of
       VDict r \<Rightarrow> if \<not> hashable (dget r ''provider'') then Inl TypeError
         else let provider = (case dget r ''provider'' of VStr k \<Rightarrow> mapping (dget providers k) | _ \<Rightarrow> []) in
           Inr (dget r ''update_available'' = VBool True \<and> dget r ''security_relevance'' = VStr ''SECURITY_FIX''
             \<and> \<not> truthy (dget (mapping (dget r ''metadata'')) ''compatibility_hold'') \<and> dget provider ''state'' = VStr ''AVAILABLE''
             \<and> dget (mapping (dget r ''provider_health'')) ''state'' = VStr ''AVAILABLE''
             \<and> recent e parse (dget provider ''last_successful_at'') current \<and> recent e parse (dget r ''observed_at'') current)
     | _ \<Rightarrow> Inr False)"

definition update_notices :: "env \<Rightarrow> (string \<Rightarrow> rat option) \<Rightarrow> val \<Rightarrow> rat \<Rightarrow> string \<Rightarrow> dict list py" where
  "update_notices e parse snapshot current boot = (case snapshot of
       VDict s \<Rightarrow>
         if dget s ''schema'' \<noteq> VStr ''org.greyward.update/v1'' then Inr []
         else let t = mapping (dget s ''transaction'');
             notices = (if dget t ''phase'' = VStr ''READY_TO_RESTART'' \<and> dget t ''restart_required'' = VStr ''REQUIRED'' \<and> boot \<noteq> []
               \<and> dget t ''boot_id'' = VStr boot then [restart_notice] else []) in
           if \<not> recent e parse (dget s ''generated_at'') current \<or> truthy (dget s ''snapshot_error'') then Inr notices
           else if \<not> hashable (dget t ''phase'') then Inl TypeError
           else if dget t ''phase'' \<noteq> VNone \<and> \<not> str_in (dget t ''phase'') [''IDLE'', ''COMPLETE'', ''FAILED'', ''CANCELLED''] then Inr notices
           else (case dget s ''records'' of
               VList rs \<Rightarrow> py_bind (py_map (verified_fix e parse current (mapping (dget s ''providers''))) (take 10000 rs)) (\<lambda>bs.
                 let n = length (filter (\<lambda>b. b) bs) in Inr (notices @ (if n = 0 then [] else [security_notice n])))
             | _ \<Rightarrow> Inr notices)
     | _ \<Rightarrow> Inr [])"

end
