(* ===== verification/Notification_Router.thy ===== *)
theory Notification_Router
  imports Notices
begin

text \<open>
  \<open>notification_router.py\<close>: the one publisher of desktop notifications. It keeps which notice is shown
  under which identifier, which were acknowledged, when reminders were last delivered and which scan
  results were shown. The notification server is the record \<open>notifier\<close> over an arbitrary state.
\<close>

section \<open>State\<close>

record notice_record =
  nr_id :: "int option"
  nr_item :: "dict option"
  nr_ack :: bool
  nr_signature :: "string option"

definition new_record :: notice_record where
  "new_record = \<lparr>nr_id = None, nr_item = None, nr_ack = False, nr_signature = None\<rparr>"

record notification =
  nf_replaces :: int
  nf_icon :: string
  nf_title :: val
  nf_body :: string
  nf_actions :: "val list"
  nf_hints :: dict
  nf_timeout :: val

record 'd notifier =
  nt_owner :: "('d, string) act"
  nt_notify :: "notification \<Rightarrow> ('d, int) act"
  nt_close :: "int \<Rightarrow> ('d, unit) act"

text \<open>
  \<open>rt_dispatched\<close> records the actions handed to the application, \<open>rt_sent\<close> the delivered notifications.
  \<open>rt_reminder_file\<close> is what parsing the reminder file gives, \<open>rt_writable\<close> whether its
  n-th replacement succeeds and \<open>rt_saves\<close> counts the replacements.
  The other saved file is read as an argument of \<open>router_init\<close>; writing it is left out.
\<close>

record 'd router =
  rt_daemon :: 'd
  rt_env :: env
  rt_records :: "(string \<times> notice_record) list"
  rt_owner :: string
  rt_connected :: bool
  rt_completed :: "(string \<times> rat) list"
  rt_closing :: "int list"
  rt_since :: "(string \<times> rat) list"
  rt_reminders :: dict
  rt_now :: rat
  rt_monotonic :: rat
  rt_dispatched :: "(dict \<times> string) list"
  rt_sent :: "(string \<times> dict \<times> rat) list"
  rt_reminder_file :: "val py"
  rt_writable :: "nat \<Rightarrow> bool"
  rt_saves :: nat

definition server_call :: "('d, 'a) act \<Rightarrow> (('d, 'z) router_scheme, 'a) act" where
  "server_call m w = (case m (rt_daemon w) of (r, d) \<Rightarrow> (r, w\<lparr>rt_daemon := d\<rparr>))"

definition is_server_error :: "exc \<Rightarrow> bool" where
  "is_server_error err = (err = OtherError ''DBusException'')"

section \<open>Loading\<close>

definition load_reminders :: "val py \<Rightarrow> dict py" where
  "load_reminders content = (case content of
       Inl err \<Rightarrow> (case err of OSError s \<Rightarrow> Inr [] | _ \<Rightarrow> if is_value_error err then Inr [] else Inl err)
     | Inr (VDict d) \<Rightarrow> Inr d
     | Inr _ \<Rightarrow> Inr [])"

text \<open>The newest 128 entries of the last day.\<close>

definition newest_scans :: "(string \<times> rat) list \<Rightarrow> (string \<times> rat) list" where
  "newest_scans xs = (let s = sort_key snd xs in drop (length s - 128) s)"

definition load_completed :: "rat \<Rightarrow> dict \<Rightarrow> (string \<times> rat) list" where
  "load_completed now saved = newest_scans (concat (map (\<lambda>(k, v). case num_val v of
       Some (Fin t) \<Rightarrow> if length k < 128 \<and> 0 \<le> now - t \<and> now - t < 86400 then [(k, t)] else []
     | _ \<Rightarrow> []) saved))"

definition load_reminder_file :: "(('d, 'z) router_scheme, unit) act" where
  "load_reminder_file = s_bind (s_get (\<lambda>w. load_reminders (rt_reminder_file w))) (\<lambda>m. s_bind (s_lift m) (\<lambda>d.
     s_modify (\<lambda>w. w\<lparr>rt_reminders := d\<rparr>)))"

text \<open>
  A start of the service. \<open>saved\<close> is the content of the delivery file: the records, the scans already
  shown and the owner; \<open>None\<close> when it is missing or unreadable.
\<close>

definition router_init :: "((string \<times> notice_record) list \<times> val \<times> string) option \<Rightarrow> (('d, 'z) router_scheme, unit) act" where
  "router_init saved = s_bind (s_modify (\<lambda>w. w\<lparr>rt_records := [], rt_owner := [], rt_connected := False, rt_completed := [], rt_closing := [], rt_since := []\<rparr>)) (\<lambda>_.
     s_bind load_reminder_file (\<lambda>_.
     case saved of None \<Rightarrow> s_ret ()
     | Some (records, scans, owner) \<Rightarrow> s_modify (\<lambda>w. w\<lparr>rt_records := records, rt_owner := owner,
         rt_completed := (case scans of VDict d \<Rightarrow> load_completed (rt_now w) d | _ \<Rightarrow> [])\<rparr>)))"

definition save_reminders :: "('d, 'z) router_scheme \<Rightarrow> ('d, 'z) router_scheme" where
  "save_reminders w = (if rt_writable w (rt_saves w) then w\<lparr>rt_reminder_file := Inr (VDict (rt_reminders w)), rt_saves := Suc (rt_saves w)\<rparr>
     else w\<lparr>rt_saves := Suc (rt_saves w)\<rparr>)"

section \<open>Connection and callbacks\<close>

definition connect :: "'d notifier \<Rightarrow> (('d, 'z) router_scheme, bool) act" where
  "connect nt = s_catch (s_bind (server_call (nt_owner nt)) (\<lambda>owner.
       s_bind (s_modify (\<lambda>w. if rt_connected w \<and> owner = rt_owner w then w
         else w\<lparr>rt_records := (if owner = rt_owner w then rt_records w else map (\<lambda>(k, r). (k, r\<lparr>nr_id := Some 0\<rparr>)) (rt_records w)),
           rt_owner := owner, rt_connected := True\<rparr>)) (\<lambda>_. s_ret True)))
     is_server_error (\<lambda>_. s_bind (s_modify (\<lambda>w. w\<lparr>rt_connected := False\<rparr>)) (\<lambda>_. s_ret False))"

definition item_of :: "notice_record \<Rightarrow> dict" where
  "item_of r = (case nr_item r of None \<Rightarrow> [] | Some d \<Rightarrow> d)"

definition put_record :: "string \<Rightarrow> notice_record \<Rightarrow> (('d, 'z) router_scheme, unit) act" where
  "put_record key r = s_modify (\<lambda>w. w\<lparr>rt_records := AList.update key r (rt_records w)\<rparr>)"

text \<open>\<open>x['id']\<close> of every action; the generator is only consumed for a notice that is not about USB.\<close>

definition action_ids :: "dict \<Rightarrow> val list py" where
  "action_ids item = py_bind (py_iter (dget_or item ''actions'' (VList []))) (py_map (\<lambda>a. py_index a ''id''))"

definition action_invoked :: "'d notifier \<Rightarrow> int \<Rightarrow> string \<Rightarrow> (('d, 'z) router_scheme, unit) act" where
  "action_invoked nt i action = s_bind (s_get (\<lambda>w. find (\<lambda>p. nr_id (snd p) = Some i) (rt_records w))) (\<lambda>found. case found of
       None \<Rightarrow> s_ret ()
     | Some (key, r) \<Rightarrow>
         if action = ''dismiss'' \<and> dget (item_of r) ''kind'' = VStr ''application-security''
         then s_bind (s_get rt_connected) (\<lambda>c. s_bind (if c then s_bind (s_try (server_call (nt_close nt i))) (\<lambda>_. s_ret ()) else s_ret ()) (\<lambda>_.
           put_record key (r\<lparr>nr_ack := True, nr_id := Some 0\<rparr>)))
         else s_bind (if dget (item_of r) ''kind'' = VStr ''usb'' then s_ret [] else s_lift (action_ids (item_of r))) (\<lambda>extra.
           if action \<in> set [''open'', ''default''] \<or> VStr action \<in> set extra
           then s_modify (\<lambda>w. w\<lparr>rt_dispatched := rt_dispatched w @ [(item_of r, if action = ''default'' then ''open'' else action)]\<rparr>)
           else s_ret ()))"

definition close_record :: "int \<Rightarrow> int \<Rightarrow> notice_record \<Rightarrow> notice_record" where
  "close_record i reason r = (if nr_id r = Some i then r\<lparr>nr_id := Some 0, nr_ack := (reason \<in> {1, 2} \<or> nr_ack r)\<rparr> else r)"

definition notification_closed :: "int \<Rightarrow> int \<Rightarrow> (('d, 'z) router_scheme, unit) act" where
  "notification_closed i reason = s_modify (\<lambda>w. if i \<in> set (rt_closing w) then w\<lparr>rt_closing := removeAll i (rt_closing w)\<rparr>
     else w\<lparr>rt_records := map (\<lambda>(k, r). (k, close_record i reason r)) (rt_records w)\<rparr>)"

section \<open>Eligible notices\<close>

definition item_id :: "dict \<Rightarrow> string" where
  "item_id d = as_str (dget d ''id'')"

text \<open>A warning with a stability time is held back until it has lasted that long.\<close>

definition deferral :: "dict \<Rightarrow> rat option" where
  "deferral item = (if dget item ''severity'' \<noteq> VStr ''WARNING'' then None
     else (case dget_or item ''notification_stability_seconds'' (VInt 0) of
         VInt i \<Rightarrow> if 0 < i \<and> i \<le> 300 then Some (of_int i) else None
       | VFloat (Fin q) \<Rightarrow> if 0 < q \<and> q \<le> 300 then Some q else None
       | _ \<Rightarrow> None))"

definition consider_item :: "rat \<Rightarrow> (string \<times> rat) list \<times> dict list \<Rightarrow> dict \<Rightarrow> (string \<times> rat) list \<times> dict list" where
  "consider_item now acc item = (case deferral item of
       None \<Rightarrow> (AList.delete (item_id item) (fst acc), snd acc @ [item])
     | Some stability \<Rightarrow> let since = (case map_of (fst acc) (item_id item) of None \<Rightarrow> now | Some t \<Rightarrow> t) in
         (AList.update (item_id item) since (fst acc), if stability \<le> now - since then snd acc @ [item] else snd acc))"

definition eligible_items :: "dict list \<Rightarrow> (('d, 'z) router_scheme, dict list) act" where
  "eligible_items items w = (let kept = filter (\<lambda>p. fst p \<in> set (map item_id items)) (rt_since w);
       r = foldl (consider_item (rt_monotonic w)) (kept, []) items in (Inr (snd r), w\<lparr>rt_since := fst r\<rparr>))"

section \<open>Delivery\<close>

definition retract :: "'d notifier \<Rightarrow> string \<Rightarrow> (('d, 'z) router_scheme, unit) act" where
  "retract nt key = s_bind (s_get (\<lambda>w. map_of (rt_records w) key)) (\<lambda>found.
     s_bind (s_modify (\<lambda>w. w\<lparr>rt_records := AList.delete key (rt_records w)\<rparr>)) (\<lambda>_.
     case (case found of None \<Rightarrow> None | Some r \<Rightarrow> nr_id r) of
       None \<Rightarrow> s_ret ()
     | Some i \<Rightarrow> if i = 0 then s_ret ()
         else s_bind (s_modify (\<lambda>w. w\<lparr>rt_closing := i # rt_closing w\<rparr>)) (\<lambda>_.
           s_catch (server_call (nt_close nt i)) is_server_error (\<lambda>_. s_ret ()))))"

definition is_reminder :: "string \<Rightarrow> dict \<Rightarrow> bool" where
  "is_reminder key item \<longleftrightarrow> key \<in> set [''updates-security'', ''updates-restart''] \<and> py_eq (dget item ''reminder_seconds'') (VInt DAY)"

text \<open>A reminder of this category was delivered less than a day ago.\<close>

definition reminded :: "rat \<Rightarrow> val \<Rightarrow> bool" where
  "reminded now v = (case num_val v of Some (Fin t) \<Rightarrow> now - t < of_int DAY | Some PosInf \<Rightarrow> True | _ \<Rightarrow> False)"

definition escalated :: "dict \<Rightarrow> dict \<Rightarrow> bool" where
  "escalated current old \<longleftrightarrow> dget current ''severity'' = VStr ''CRITICAL'' \<and> dget old ''severity'' \<noteq> VStr ''CRITICAL''"

definition signature_of :: "env \<Rightarrow> dict \<Rightarrow> string" where
  "signature_of e item = json_dumps e '', '' '': '' (sort_keys (VDict item))"

text \<open>Whether a notice is delivered now.\<close>

definition wanted :: "env \<Rightarrow> rat \<Rightarrow> dict \<Rightarrow> (string \<times> rat) list \<Rightarrow> string \<Rightarrow> notice_record \<Rightarrow> dict \<Rightarrow> dict \<Rightarrow> bool" where
  "wanted e now reminders completed key r old current \<longleftrightarrow>
     \<not> (dget current ''kind'' = VStr ''scan-result'' \<and> key \<in> set (map fst completed))
     \<and> (if is_reminder key current then \<not> reminded now (dget reminders key)
        else \<not> (nr_ack r \<and> \<not> escalated current old)
          \<and> \<not> (nr_signature r = Some (signature_of e current) \<and> nr_id r \<noteq> None \<and> nr_id r \<noteq> Some 0))"

definition offered_actions :: "dict \<Rightarrow> val list py" where
  "offered_actions item = (if dget item ''kind'' = VStr ''usb'' then Inr [VStr ''open'', VStr ''Review'']
     else py_bind (py_bind (py_iter (dget_or item ''actions'' (VList []))) (py_map (\<lambda>a.
         py_bind (py_index a ''id'') (\<lambda>i. py_bind (py_index a ''label'') (\<lambda>l. Inr [i, l]))))) (\<lambda>xss.
       Inr (if concat xss = [] then [VStr ''open'', VStr ''Review''] else concat xss)))"

definition is_gauge :: "string \<Rightarrow> bool" where
  "is_gauge s \<longleftrightarrow> (let n = drop 22 s in startswith s ''greyward-intelligence-'' \<and> (n = ''100'' \<or> (n \<noteq> [] \<and> length n \<le> 2 \<and> list_all is_digit n)))"

definition notification_hints :: "env \<Rightarrow> dict \<Rightarrow> bool \<Rightarrow> dict py" where
  "notification_hints e item quiet = py_bind (dindex item ''severity'') (\<lambda>severity. py_bind (dindex item ''kind'') (\<lambda>kind.
     let base = [(''desktop-entry'', VStr ''systems.mantis.greyward.securitycenter''), (''urgency'', VInt (if severity = VStr ''CRITICAL'' then 2 else 1)),
           (''category'', VStr (if kind = VStr ''usb'' then ''device'' else ''system'')), (''suppress-sound'', VBool quiet), (''x-greyward-quiet'', VBool quiet),
           (''x-greyward-severity'', severity)];
         gauge = py_str e (dget_or item ''icon'' (VStr [])) in
     Inr (base @ (if kind = VStr ''behavioral'' then [(''x-greyward-threat-score'', dget_or item ''behavioral_score'' (VInt 0)),
         (''x-greyward-threat-class'', dget_or item ''behavioral_class'' (VStr ''UNKNOWN''))]
         @ (if is_gauge gauge then [(''image-path'', VStr (''/usr/share/icons/hicolor/scalable/apps/'' @ gauge @ ''.svg''))] else []) else []))))"

definition escape_val :: "val \<Rightarrow> string py" where
  "escape_val v = (case v of VStr s \<Rightarrow> Inr (html_escape s) | _ \<Rightarrow> Inl (OtherError ''AttributeError''))"

definition make_notification :: "env \<Rightarrow> notice_record \<Rightarrow> bool \<Rightarrow> dict \<Rightarrow> notification py" where
  "make_notification e r quiet item = py_bind (offered_actions item) (\<lambda>actions.
     py_bind (notification_hints e item quiet) (\<lambda>hints.
     py_bind (appearance e item) (\<lambda>styled.
     py_bind (dindex item ''detail'') (\<lambda>detail.
     py_bind (escape_val (dget_or item ''notification_detail'' detail)) (\<lambda>body.
     py_bind (dindex item ''title'') (\<lambda>title.
     Inr \<lparr>nf_replaces = (case nr_id r of None \<Rightarrow> 0 | Some i \<Rightarrow> i),
       nf_icon = (case styled of None \<Rightarrow> ''greyward-security-status'' | Some (b, icon) \<Rightarrow> icon), nf_title = dget_or item ''notification_title'' title,
       nf_body = (case styled of None \<Rightarrow> body | Some (b, icon) \<Rightarrow> b), nf_actions = actions,
       nf_hints = hints @ (if styled = None then [] else [(''x-greyward-scan-state'', dget item ''scan_status'')]),
       nf_timeout = dget_or item ''timeout_ms'' (VInt 10000)\<rparr>))))))"

definition note_reminder :: "string \<Rightarrow> dict \<Rightarrow> ('d, 'z) router_scheme \<Rightarrow> ('d, 'z) router_scheme" where
  "note_reminder key current w = (if is_reminder key current
     then save_reminders (w\<lparr>rt_reminders := dput (rt_reminders w) key (VFloat (Fin (rt_now w)))\<rparr>) else w)"

definition mark_delivered :: "string \<Rightarrow> dict \<Rightarrow> notice_record \<Rightarrow> int \<Rightarrow> ('d, 'z) router_scheme \<Rightarrow> ('d, 'z) router_scheme" where
  "mark_delivered key current r i w = note_reminder key current (w\<lparr>
     rt_records := AList.update key (r\<lparr>nr_id := Some i, nr_signature := Some (signature_of (rt_env w) current), nr_ack := False\<rparr>) (rt_records w),
     rt_completed := (if dget current ''kind'' = VStr ''scan-result'' then newest_scans (AList.update key (rt_now w) (rt_completed w)) else rt_completed w),
     rt_sent := rt_sent w @ [(key, current, rt_now w)]\<rparr>)"

text \<open>A notice that was shown before replaces the old one without a sound.\<close>

definition is_quiet :: "string \<Rightarrow> notice_record \<Rightarrow> dict \<Rightarrow> dict \<Rightarrow> bool" where
  "is_quiet key r old current \<longleftrightarrow> nr_signature r \<noteq> None \<and> nr_signature r \<noteq> Some [] \<and> \<not> escalated current old \<and> \<not> is_reminder key current"

text \<open>The call of the server; \<open>False\<close> when it failed and the loop stops.\<close>

definition send_notice :: "'d notifier \<Rightarrow> string \<Rightarrow> dict \<Rightarrow> notice_record \<Rightarrow> notification \<Rightarrow> (('d, 'z) router_scheme, bool) act" where
  "send_notice nt key current r n = s_catch (s_bind (server_call (nt_notify nt n)) (\<lambda>i. s_bind (s_modify (mark_delivered key current r i)) (\<lambda>_. s_ret True)))
     is_server_error (\<lambda>_. s_bind (s_modify (\<lambda>w. w\<lparr>rt_connected := False\<rparr>)) (\<lambda>_. s_ret False))"

definition deliver :: "'d notifier \<Rightarrow> string \<times> dict \<Rightarrow> (('d, 'z) router_scheme, bool) act" where
  "deliver nt p = (case p of (key, current) \<Rightarrow>
     s_bind (s_get (\<lambda>w. case map_of (rt_records w) key of None \<Rightarrow> new_record | Some r \<Rightarrow> r)) (\<lambda>r0.
     s_bind (put_record key (r0\<lparr>nr_item := Some current\<rparr>)) (\<lambda>_.
     s_bind (s_get (\<lambda>w. wanted (rt_env w) (rt_now w) (rt_reminders w) (rt_completed w) key (r0\<lparr>nr_item := Some current\<rparr>) (item_of r0) current)) (\<lambda>go.
     if \<not> go then s_ret True
     else s_bind (s_get (\<lambda>w. make_notification (rt_env w) r0 (is_quiet key r0 (item_of r0) current) current)) (\<lambda>m.
       s_bind (s_lift m) (\<lambda>n. send_notice nt key current (r0\<lparr>nr_item := Some current\<rparr>) n))))))"

fun deliver_all :: "'d notifier \<Rightarrow> (string \<times> dict) list \<Rightarrow> (('d, 'z) router_scheme, unit) act" where
  "deliver_all nt [] = s_ret ()"
| "deliver_all nt (p # ps) = s_bind (deliver nt p) (\<lambda>ok. if ok then deliver_all nt ps else s_ret ())"

fun retract_all :: "'d notifier \<Rightarrow> string list \<Rightarrow> (('d, 'z) router_scheme, unit) act" where
  "retract_all nt [] = s_ret ()"
| "retract_all nt (k # ks) = s_bind (retract nt k) (\<lambda>_. retract_all nt ks)"

definition reconcile_notices :: "'d notifier \<Rightarrow> dict list \<Rightarrow> (('d, 'z) router_scheme, unit) act" where
  "reconcile_notices nt items = s_bind (connect nt) (\<lambda>ok. if \<not> ok then s_ret ()
     else let observed = foldl (\<lambda>acc x. AList.update (item_id x) x acc) [] items in
       s_bind (s_get (\<lambda>w. filter (\<lambda>k. k \<notin> set (map fst observed)) (map fst (rt_records w)))) (\<lambda>gone.
       s_bind (retract_all nt gone) (\<lambda>_. deliver_all nt observed)))"

section \<open>Opening a page\<close>

definition ROUTES :: "string list" where
  "ROUTES = [''overview'', ''devices'', ''privacy'', ''network'', ''threats'', ''files'', ''updates'', ''evidence'', ''activity'', ''history'', ''protected-data'', ''intelligence'']"

definition hex_reference :: "string \<Rightarrow> nat \<Rightarrow> string \<Rightarrow> bool" where
  "hex_reference lead n s \<longleftrightarrow> startswith s lead \<and> length s = length lead + n \<and> list_all is_hex_lower (drop (length lead) s)"

text \<open>The command that opens a page, or nothing.\<close>

definition open_route :: "string \<Rightarrow> string option \<Rightarrow> string list option" where
  "open_route route0 reference = (let route = (if route0 = ''intelligence'' then ''history'' else route0);
       command = [''/usr/bin/greyward-security-center-route'', route] in
     if route \<notin> set ROUTES then None
     else (case reference of
         None \<Rightarrow> Some command
       | Some s \<Rightarrow> if route \<in> set [''history'', ''activity'']
           then (if hex_reference ''incident-'' 24 s then Some (command @ [s]) else None)
           else if route = ''protected-data'' \<and> hex_reference ''resource_'' 64 s then Some (command @ [s]) else None))"

end
