(* ===== verification/Notification_Router_Props.thy ===== *)
theory Notification_Router_Props
  imports Notification_Router Py_Invariants
begin

text \<open>
  What the notification router guarantees along every run, in which deliveries, clicks, closed
  notifications, restarts of the service and changes of the clock interleave in any order.
\<close>

section \<open>Runs\<close>

inductive router_step :: "'d notifier \<Rightarrow> 'd router \<Rightarrow> 'd router \<Rightarrow> bool" for nt where
  step_reconcile: "router_step nt w (snd (reconcile_notices nt items w))"
| step_eligible: "router_step nt w (snd (eligible_items items w))"
| step_action: "router_step nt w (snd (action_invoked nt i action w))"
| step_closed: "router_step nt w (snd (notification_closed i reason w))"
| step_start: "router_step nt w (snd (router_init saved w))"
| step_clock: "router_step nt w (w\<lparr>rt_now := now, rt_monotonic := monotonic\<rparr>)"

section \<open>The daily limit of reminders\<close>

text \<open>The times at which a reminder of a category was delivered, and that they lie a day apart.\<close>

definition reminder_times :: "string \<Rightarrow> (string \<times> dict \<times> rat) list \<Rightarrow> rat list" where
  "reminder_times key sent = map (\<lambda>(k, item, t). t) (filter (\<lambda>(k, item, t). k = key \<and> is_reminder k item) sent)"

fun a_day_apart :: "rat list \<Rightarrow> bool" where
  "a_day_apart (s # t # ts) \<longleftrightarrow> s + 86400 \<le> t \<and> a_day_apart (t # ts)"
| "a_day_apart ts \<longleftrightarrow> True"

lemma a_day_apart_snoc: "a_day_apart (ts @ [t]) \<longleftrightarrow> a_day_apart ts \<and> (ts = [] \<or> last ts + 86400 \<le> t)"
  by (induction ts rule: a_day_apart.induct) auto

definition notes_last :: "string \<Rightarrow> (string \<times> dict \<times> rat) list \<Rightarrow> dict \<Rightarrow> bool" where
  "notes_last key sent d \<longleftrightarrow> reminder_times key sent = [] \<or> dget d key = VFloat (Fin (last (reminder_times key sent)))"

definition reminders_ok :: "string \<Rightarrow> ('d, 'z) router_scheme \<Rightarrow> bool" where
  "reminders_ok key w \<longleftrightarrow> (\<forall>n. rt_writable w n) \<and> a_day_apart (reminder_times key (rt_sent w)) \<and> notes_last key (rt_sent w) (rt_reminders w)
     \<and> (reminder_times key (rt_sent w) = [] \<or> (\<exists>d. rt_reminder_file w = Inr (VDict d) \<and> notes_last key (rt_sent w) d))"

definition reminder_part :: "('d, 'z) router_scheme \<Rightarrow> rat \<times> dict \<times> (string \<times> dict \<times> rat) list \<times> val py \<times> (nat \<Rightarrow> bool)" where
  "reminder_part w = (rt_now w, rt_reminders w, rt_sent w, rt_reminder_file w, rt_writable w)"

lemma reminders_ok_part: "reminder_part v = reminder_part w \<Longrightarrow> reminders_ok key v = reminders_ok key w"
  by (simp add: reminder_part_def reminders_ok_def)

lemma keeps_server_call: "(\<And>w d. f (w\<lparr>rt_daemon := d\<rparr>) = f w) \<Longrightarrow> keeps f (server_call m)"
  by (auto simp: keeps_def server_call_def split: prod.splits)

lemmas router_keeps = keeps_server_call keeps_intros

lemma part_call: "keeps reminder_part (server_call m)"
  by (intro router_keeps) (simp add: reminder_part_def)

lemma part_connect: "keeps reminder_part (connect nt)"
  unfolding connect_def by (intro router_keeps) (simp_all add: reminder_part_def)

lemma part_put: "keeps reminder_part (put_record key r)"
  unfolding put_record_def by (intro router_keeps) (simp_all add: reminder_part_def)

lemma part_retract: "keeps reminder_part (retract nt key)"
  unfolding retract_def by (intro router_keeps) (simp_all add: reminder_part_def)

lemma part_retract_all: "keeps reminder_part (retract_all nt ks)"
  by (induction ks) (auto intro!: keeps_intros part_retract)

lemma part_action: "keeps reminder_part (action_invoked nt i action)"
  unfolding action_invoked_def by (intro part_put router_keeps) (simp_all add: reminder_part_def)

lemma part_closed: "keeps reminder_part (notification_closed i reason)"
  unfolding notification_closed_def by (intro router_keeps) (simp_all add: reminder_part_def)

lemma part_eligible: "keeps reminder_part (eligible_items items)"
  by (simp add: keeps_def eligible_items_def Let_def reminder_part_def)

lemmas reminders_frame = preserves_keeps [OF _ reminders_ok_part]

text \<open>A delivery that the limit allows keeps it.\<close>

lemma reminder_times_snoc: "reminder_times key (xs @ [(k, item, t)]) = reminder_times key xs @ (if k = key \<and> is_reminder k item then [t] else [])"
  by (simp add: reminder_times_def)

lemma mark_delivered_sent [simp]: "rt_sent (mark_delivered k item r i w) = rt_sent w @ [(k, item, rt_now w)]"
  "rt_writable (mark_delivered k item r i w) = rt_writable w"
  by (simp_all add: mark_delivered_def note_reminder_def save_reminders_def)

lemma mark_delivered_reminders: "rt_reminders (mark_delivered k item r i w) = (if is_reminder k item then dput (rt_reminders w) k (VFloat (Fin (rt_now w))) else rt_reminders w)"
  "\<forall>n. rt_writable w n \<Longrightarrow> rt_reminder_file (mark_delivered k item r i w)
     = (if is_reminder k item then Inr (VDict (dput (rt_reminders w) k (VFloat (Fin (rt_now w))))) else rt_reminder_file w)"
  by (simp_all add: mark_delivered_def note_reminder_def save_reminders_def)

lemma reminded_last: "notes_last key sent d \<Longrightarrow> \<not> reminded now (dget d key) \<Longrightarrow> reminder_times key sent = [] \<or> last (reminder_times key sent) + 86400 \<le> now"
  by (auto simp: notes_last_def reminded_def DAY_def)

lemma mark_delivered_ok:
  assumes ok: "reminders_ok key w" and due: "is_reminder k item \<Longrightarrow> \<not> reminded (rt_now w) (dget (rt_reminders w) k)"
  shows "reminders_ok key (mark_delivered k item r i w)"
proof -
  have w: "\<forall>n. rt_writable w n" and apart: "a_day_apart (reminder_times key (rt_sent w))" and last: "notes_last key (rt_sent w) (rt_reminders w)"
    using ok by (simp_all add: reminders_ok_def)
  show ?thesis
  proof (cases "k = key \<and> is_reminder k item")
    case True
    then have "reminder_times key (rt_sent w) = [] \<or> last (reminder_times key (rt_sent w)) + 86400 \<le> rt_now w"
      using reminded_last [OF last] due by blast
    then show ?thesis using conjunct1 [OF True] conjunct2 [OF True] w apart
      by (simp add: reminders_ok_def notes_last_def reminder_times_snoc mark_delivered_reminders a_day_apart_snoc)
  next
    case False
    then show ?thesis using ok last w
      by (auto simp: reminders_ok_def notes_last_def reminder_times_snoc mark_delivered_reminders)
  qed
qed

lemma wanted_due: "wanted e now d done k r old item \<Longrightarrow> is_reminder k item \<Longrightarrow> \<not> reminded now (dget d k)"
  by (simp add: wanted_def)

lemma send_ok:
  assumes ok: "reminders_ok key w" and due: "is_reminder k item \<Longrightarrow> \<not> reminded (rt_now w) (dget (rt_reminders w) k)"
    and run: "send_notice nt k item r n w = (res, w')"
  shows "reminders_ok key w'"
proof (cases "server_call (nt_notify nt n) w")
  case (Pair x v)
  then have part: "reminder_part v = reminder_part w" by (rule keepsD [OF part_call])
  then have v: "reminders_ok key v" "rt_now v = rt_now w" "rt_reminders v = rt_reminders w"
    using ok reminders_ok_part by (auto simp: reminder_part_def)
  have closed: "reminders_ok key (v\<lparr>rt_connected := False\<rparr>)"
    by (subst reminders_ok_part [where w = v]) (simp_all add: reminder_part_def v)
  show ?thesis
  proof (cases x)
    case (Inl e)
    then show ?thesis using run Pair v closed by (auto simp: send_notice_def s_catch_def s_bind_def split: if_splits)
  next
    case (Inr i)
    then have "w' = mark_delivered k item r i v" using run Pair by (simp add: send_notice_def s_catch_def s_bind_def)
    then show ?thesis using mark_delivered_ok [where w = v] v due by simp
  qed
qed

lemma deliver_ok: "preserves (reminders_ok key) (deliver nt p)"
proof -
  have "reminders_ok key w'" if ok: "reminders_ok key w" and run: "deliver nt (k, item) w = (res, w')" for k item w w' res
  proof -
    define r0 where "r0 = (case map_of (rt_records w) k of None \<Rightarrow> new_record | Some r \<Rightarrow> r)"
    define r where "r = r0\<lparr>nr_item := Some item\<rparr>"
    define v where "v = w\<lparr>rt_records := AList.update k r (rt_records w)\<rparr>"
    note names = r0_def [symmetric] r_def [symmetric] v_def [symmetric]
    have v: "reminders_ok key v"
      by (subst reminders_ok_part [where w = w]) (simp_all add: reminder_part_def v_def ok)
    show ?thesis
    proof (cases "wanted (rt_env v) (rt_now v) (rt_reminders v) (rt_completed v) k r (item_of r0) item")
      case False
      then show ?thesis using run v by (simp add: deliver_def put_record_def names)
    next
      case True
      show ?thesis
      proof (cases "make_notification (rt_env v) r0 (is_quiet k r0 (item_of r0) item) item")
        case (Inl e)
        then show ?thesis using run v True by (simp add: deliver_def put_record_def names)
      next
        case (Inr n)
        then have "send_notice nt k item r n v = (res, w')" using run True by (simp add: deliver_def put_record_def names)
        then show ?thesis using send_ok [OF v] wanted_due [OF True] by blast
      qed
    qed
  qed
  then show ?thesis by (cases p) (auto simp: preserves_def)
qed

lemma deliver_all_ok: "preserves (reminders_ok key) (deliver_all nt ps)"
  by (induction ps) (auto intro!: preserves_intros deliver_ok)

lemma reconcile_ok: "preserves (reminders_ok key) (reconcile_notices nt items)"
  unfolding reconcile_notices_def Let_def
  by (intro preserves_bind preserves_if preserves_basic deliver_all_ok reminders_frame [OF part_connect] reminders_frame [OF part_retract_all])

lemma init_ok: "preserves (reminders_ok key) (router_init saved)"
proof -
  have load: "preserves (reminders_ok key) load_reminder_file"
    unfolding preserves_def load_reminder_file_def
    by (auto simp: load_reminders_def reminders_ok_def notes_last_def s_bind_def split: sum.splits val.splits exc.splits if_splits)
  have frame: "reminders_ok key w \<Longrightarrow> reminder_part (g w) = reminder_part w \<Longrightarrow> reminders_ok key (g w)" for w g
    using reminders_ok_part by blast
  show ?thesis unfolding router_init_def
    by (intro load preserves_intros; rule frame; simp add: reminder_part_def)
qed

lemma reminders_clock: "reminders_ok key (w\<lparr>rt_now := now, rt_monotonic := monotonic\<rparr>) = reminders_ok key w"
  by (simp add: reminders_ok_def)

interpretation reminder_limit: step_invariant "router_step nt" "reminders_ok key" for nt key
proof
  fix s t assume ok: "reminders_ok key s" and step: "router_step nt s t"
  note frames = part_eligible part_action part_closed
  from step show "reminders_ok key t"
    by (cases rule: router_step.cases)
      (use ok in \<open>auto intro: preserves_snd reconcile_ok init_ok frames [THEN reminders_frame] simp: reminders_clock\<close>)
qed

text \<open>
  C24: Reminders keep their daily limit. While every write of the reminder file succeeds, two reminders of the same
  category are delivered at least a day apart, in every run: over restarts of the service and of the
  notification server, whatever notices come and go, and also when the clock is set back.
\<close>

theorem reminders_a_day_apart:
  assumes "rt_sent w = []" and "\<forall>n. rt_writable w n" and "(router_step nt)\<^sup>*\<^sup>* w w'"
  shows "a_day_apart (reminder_times key (rt_sent w'))"
proof -
  have "reminders_ok key w" using assms(1,2) by (simp add: reminders_ok_def notes_last_def reminder_times_def)
  then have "reminders_ok key w'" using assms(3) by (rule reminder_limit.run_inv)
  then show ?thesis by (simp add: reminders_ok_def)
qed

section \<open>USB notices\<close>

text \<open>
  An action that reaches the application from a notice about a USB device; approving the device is an
  action of the notice itself, not of the notification.
\<close>

definition only_opens :: "dict \<times> string \<Rightarrow> bool" where
  "only_opens p \<longleftrightarrow> dget (fst p) ''kind'' = VStr ''usb'' \<longrightarrow> snd p = ''open''"

definition dispatch_ok :: "('d, 'z) router_scheme \<Rightarrow> bool" where
  "dispatch_ok w \<longleftrightarrow> list_all only_opens (rt_dispatched w)"

lemma dispatch_frame: "keeps rt_dispatched m \<Longrightarrow> preserves dispatch_ok m"
  by (rule preserves_keeps [where f = rt_dispatched]) (simp_all add: dispatch_ok_def)

lemma dispatched_mark [simp]: "rt_dispatched (mark_delivered k item r i w) = rt_dispatched w"
  by (simp add: mark_delivered_def note_reminder_def save_reminders_def)

lemma dispatched_deliver: "keeps rt_dispatched (deliver nt p)"
  unfolding deliver_def put_record_def send_notice_def by (intro router_keeps) simp_all

lemma dispatched_deliver_all: "keeps rt_dispatched (deliver_all nt ps)"
  by (induction ps) (auto intro!: keeps_intros dispatched_deliver)

lemma dispatched_retract: "keeps rt_dispatched (retract nt key)"
  unfolding retract_def by (intro router_keeps) simp_all

lemma dispatched_retract_all: "keeps rt_dispatched (retract_all nt ks)"
  by (induction ks) (auto intro!: keeps_intros dispatched_retract)

lemma dispatched_reconcile: "keeps rt_dispatched (reconcile_notices nt items)"
  unfolding reconcile_notices_def connect_def Let_def
  by (intro dispatched_retract_all dispatched_deliver_all router_keeps) simp_all

lemma dispatched_rest: "keeps rt_dispatched (eligible_items items)" "keeps rt_dispatched (notification_closed i reason)" "keeps rt_dispatched (router_init saved)"
  unfolding notification_closed_def router_init_def load_reminder_file_def
  by (simp add: keeps_def eligible_items_def Let_def, (intro router_keeps; simp)+)

lemma dispatch_one: "only_opens (item_of r, if action = ''default'' then ''open'' else action) \<Longrightarrow>
  preserves dispatch_ok (s_modify (\<lambda>w. w\<lparr>rt_dispatched := rt_dispatched w @ [(item_of r, if action = ''default'' then ''open'' else action)]\<rparr>))"
  by (rule preserves_modify) (simp add: dispatch_ok_def)

lemma dispatch_usb:
  assumes "dget (item_of r) ''kind'' = VStr ''usb''" and "action \<in> set [''open'', ''default''] \<or> VStr action \<in> set []"
  shows "only_opens (item_of r, if action = ''default'' then ''open'' else action)"
  using assms by (auto simp: only_opens_def)

lemma dispatch_action: "preserves dispatch_ok (action_invoked nt i action)"
proof -
  have dismiss: "preserves dispatch_ok (s_bind (s_get rt_connected) (\<lambda>c. s_bind (if c then s_bind (s_try (server_call (nt_close nt i))) (\<lambda>_. s_ret ()) else s_ret ())
      (\<lambda>_. put_record key r)))" for key r
    unfolding put_record_def by (rule dispatch_frame, intro router_keeps) simp_all
  have click: "preserves dispatch_ok (s_bind (if dget (item_of r) ''kind'' = VStr ''usb'' then s_ret [] else s_lift (action_ids (item_of r))) (\<lambda>extra.
      if action \<in> set [''open'', ''default''] \<or> VStr action \<in> set extra
      then s_modify (\<lambda>w. w\<lparr>rt_dispatched := rt_dispatched w @ [(item_of r, if action = ''default'' then ''open'' else action)]\<rparr>)
      else s_ret ()))" for r
  proof (cases "dget (item_of r) ''kind'' = VStr ''usb''")
    case True
    have "preserves dispatch_ok (if action \<in> set [''open'', ''default''] \<or> VStr action \<in> set []
      then s_modify (\<lambda>w. w\<lparr>rt_dispatched := rt_dispatched w @ [(item_of r, if action = ''default'' then ''open'' else action)]\<rparr>)
      else s_ret ())"
      by (cases "action \<in> set [''open'', ''default''] \<or> VStr action \<in> set []")
        (simp_all only: if_True if_False preserves_basic dispatch_one [OF dispatch_usb [OF True]])
    then show ?thesis by (simp add: True s_bind_def preserves_def)
  next
    case False
    then have "only_opens (item_of r, if action = ''default'' then ''open'' else action)" by (simp add: only_opens_def)
    then show ?thesis by (intro preserves_intros dispatch_one)
  qed
  show ?thesis unfolding action_invoked_def
    by (intro preserves_bind [OF preserves_basic(4)] preserves_option preserves_prod preserves_if preserves_basic dismiss click)
qed

lemma dispatch_clock: "dispatch_ok (w\<lparr>rt_now := now, rt_monotonic := monotonic\<rparr>) = dispatch_ok w"
  by (simp add: dispatch_ok_def)

interpretation dispatching: step_invariant "router_step nt" dispatch_ok for nt
proof
  fix s t assume ok: "dispatch_ok s" and step: "router_step nt s t"
  note frames = dispatched_reconcile dispatched_rest
  from step show "dispatch_ok t"
    by (cases rule: router_step.cases)
      (use ok in \<open>auto intro: preserves_snd dispatch_action frames [THEN dispatch_frame] simp: dispatch_clock\<close>)
qed

text \<open>
  A notification about a USB device never triggers anything but opening the review page. In every
  run and for every identifier and action name that a notification server sends, the actions handed to the
  application for a USB notice are only \<open>open\<close>; in particular a device is never trusted from there.
\<close>

theorem usb_notice_only_opens:
  assumes "rt_dispatched w = []" and "(router_step nt)\<^sup>*\<^sup>* w w'" and "(item, action) \<in> set (rt_dispatched w')"
    and "dget item ''kind'' = VStr ''usb''"
  shows "action = ''open''"
proof -
  have "dispatch_ok w" using assms(1) by (simp add: dispatch_ok_def)
  then have "dispatch_ok w'" using assms(2) by (rule dispatching.run_inv)
  then have "only_opens (item, action)" using assms(3) by (auto simp: dispatch_ok_def list_all_iff)
  then show ?thesis using assms(4) by (simp add: only_opens_def)
qed

section \<open>An example run\<close>

definition demo_notifier :: "unit notifier" where
  "demo_notifier = \<lparr>nt_owner = s_ret '':1.5'', nt_notify = (\<lambda>n. s_ret 7), nt_close = (\<lambda>i. s_ret ())\<rparr>"

definition demo_router :: "unit router" where
  "demo_router = \<lparr>rt_daemon = (), rt_env = \<lparr>env_now = VInt 0, env_boot = None, env_uuid = [], env_idna = (\<lambda>s. None), env_sha256 = (\<lambda>s. s), env_float_repr = (\<lambda>q. [])\<rparr>,
     rt_records = [], rt_owner = [], rt_connected = False, rt_completed = [], rt_closing = [], rt_since = [], rt_reminders = [], rt_now = 0, rt_monotonic = 0,
     rt_dispatched = [], rt_sent = [], rt_reminder_file = Inl (OSError ''missing''), rt_writable = (\<lambda>n. True), rt_saves = 0\<rparr>"

definition demo_usb :: dict where
  "demo_usb = notice_item (VStr ''usb-1'') ''usb'' ''WARNING'' (VStr ''New device'') (VStr ''A device waits for review'') ''devices'' [VDict [(''id'', VStr ''trust''), (''label'', VStr ''Trust'')]] []"

text \<open>A security reminder is delivered, withheld before the day is over, and delivered again a day later.\<close>

definition demo_day :: "unit router" where
  "demo_day = (let r = snd \<circ> reconcile_notices demo_notifier [security_notice 2];
       wait = (\<lambda>t w. w\<lparr>rt_now := t, rt_monotonic := t\<rparr>) in
     r (wait 86400 (r (wait 86399 (r demo_router)))))"

lemma demo_security_id: "item_id (security_notice 2) = ''updates-security''" "is_reminder ''updates-security'' (security_notice 2)"
  "dget (security_notice 2) ''kind'' = VStr ''update-notice''"
  by (simp_all add: security_notice_def notice_item_def item_id_def is_reminder_def dupdate_def dput_def dget_def DAY_def)

lemma demo_security_made: "\<exists>n. make_notification e r q (security_notice 2) = Inr n"
  by (simp add: make_notification_def security_notice_def notice_item_def offered_actions_def notification_hints_def appearance_def escape_val_def
    dupdate_def dput_def dget_def dget_or_def dindex_def DAY_def hashable_def nat_str.simps digit_char_def)

lemma demo_connect: "\<exists>v. connect demo_notifier w = (Inr True, v) \<and> rt_sent v = rt_sent w \<and> rt_reminders v = rt_reminders w \<and> rt_now v = rt_now w
    \<and> map fst (rt_records v) = map fst (rt_records w) \<and> rt_dispatched v = rt_dispatched w"
  by (simp add: connect_def demo_notifier_def server_call_def s_catch_def s_bind_def comp_def case_prod_beta)

lemma unit_daemon: "w\<lparr>rt_daemon := ()\<rparr> = w"
  by (cases w) simp

lemma demo_send: "send_notice demo_notifier key item r n w = (Inr True, mark_delivered key item r 7 w)"
  by (simp add: send_notice_def demo_notifier_def server_call_def s_catch_def s_bind_def unit_daemon)

lemma mark_delivered_records: "rt_records (mark_delivered key item r i w)
    = AList.update key (r\<lparr>nr_id := Some i, nr_signature := Some (signature_of (rt_env w) item), nr_ack := False\<rparr>) (rt_records w)"
  by (simp add: mark_delivered_def note_reminder_def save_reminders_def)

lemma demo_reconcile:
  assumes known: "filter (\<lambda>k. k \<noteq> key) (map fst (rt_records w)) = []"
    and item: "item_id item = key" "is_reminder key item" "dget item ''kind'' \<noteq> VStr ''scan-result''" "\<And>e r q. \<exists>n. make_notification e r q item = Inr n"
  shows "let w' = snd (reconcile_notices demo_notifier [item] w); late = reminded (rt_now w) (dget (rt_reminders w) key) in
     rt_sent w' = rt_sent w @ (if late then [] else [(key, item, rt_now w)])
     \<and> dget (rt_reminders w') key = (if late then dget (rt_reminders w) key else VFloat (Fin (rt_now w)))
     \<and> filter (\<lambda>k. k \<noteq> key) (map fst (rt_records w')) = []"
proof -
  obtain v where v: "connect demo_notifier w = (Inr True, v)" "rt_sent v = rt_sent w" "rt_reminders v = rt_reminders w" "rt_now v = rt_now w"
    "map fst (rt_records v) = map fst (rt_records w)" using demo_connect by blast
  have keys: "filter (\<lambda>k. k \<noteq> key) (map fst (AList.update key r xs)) = filter (\<lambda>k. k \<noteq> key) (map fst xs)" for r and xs :: "(string \<times> notice_record) list"
    by (induction xs) auto
  define r0 where "r0 = (case map_of (rt_records v) key of None \<Rightarrow> new_record | Some r \<Rightarrow> r)"
  obtain n where n: "make_notification (rt_env v) r0 (is_quiet key r0 (item_of r0) item) item = Inr n" using item(4) by blast
  have last: "(\<lambda>ok. if ok then deliver_all demo_notifier [] else s_ret ()) = (\<lambda>ok. s_ret ())" by (intro ext) simp
  have "reconcile_notices demo_notifier [item] w = s_bind (deliver demo_notifier (key, item)) (\<lambda>ok. s_ret ()) v"
    using v(1,5) known by (simp add: reconcile_notices_def item(1) last s_bind_def [of "connect demo_notifier"])
  then show ?thesis using item(2,3) n v known
    by (cases "reminded (rt_now v) (dget (rt_reminders v) key)")
      (simp_all add: Let_def deliver_def put_record_def s_bind_def [of "\<lambda>w. _ w"] wanted_def r0_def [symmetric] keys
        demo_send mark_delivered_reminders mark_delivered_records)
qed

lemma run_reconcile: "(router_step nt)\<^sup>*\<^sup>* w v \<Longrightarrow> (router_step nt)\<^sup>*\<^sup>* w (snd (reconcile_notices nt items v))"
  and run_action: "(router_step nt)\<^sup>*\<^sup>* w v \<Longrightarrow> (router_step nt)\<^sup>*\<^sup>* w (snd (action_invoked nt i action v))"
  and run_clock: "(router_step nt)\<^sup>*\<^sup>* w v \<Longrightarrow> (router_step nt)\<^sup>*\<^sup>* w (v\<lparr>rt_now := now, rt_monotonic := monotonic\<rparr>)"
  by (erule rtranclp.rtrancl_into_rtrancl; rule router_step.intros)+

lemma demo_day_times: "reminder_times ''updates-security'' (rt_sent demo_day) = [0, 86400]"
proof -
  define r where "r = (\<lambda>w :: unit router. snd (reconcile_notices demo_notifier [security_notice 2] w))"
  define wait where "wait = (\<lambda>t (w :: unit router). w\<lparr>rt_now := t, rt_monotonic := t\<rparr>)"
  define P where "P = (\<lambda>w :: unit router. filter (\<lambda>k. k \<noteq> ''updates-security'') (map fst (rt_records w)) = [])"
  have step: "P w \<Longrightarrow> rt_sent (r w) = rt_sent w @ (if reminded (rt_now w) (dget (rt_reminders w) ''updates-security'') then [] else [(''updates-security'', security_notice 2, rt_now w)])
     \<and> dget (rt_reminders (r w)) ''updates-security'' = (if reminded (rt_now w) (dget (rt_reminders w) ''updates-security'') then dget (rt_reminders w) ''updates-security'' else VFloat (Fin (rt_now w)))
     \<and> P (r w)" for w
    using demo_reconcile [of "''updates-security''" w "security_notice 2"] demo_security_id demo_security_made by (simp add: P_def r_def Let_def)
  have clock: "P (wait t w) = P w" "rt_sent (wait t w) = rt_sent w" "rt_reminders (wait t w) = rt_reminders w" "rt_now (wait t w) = t" for t w
    by (simp_all add: P_def wait_def)
  have start: "P demo_router" "rt_sent demo_router = []" "dget (rt_reminders demo_router) ''updates-security'' = VNone" "rt_now demo_router = 0"
    by (simp_all add: P_def demo_router_def)
  have fresh: "\<not> reminded 0 VNone" "reminded 86399 (VFloat (Fin 0))" "\<not> reminded 86400 (VFloat (Fin 0))" by (simp_all add: reminded_def DAY_def)
  have day: "demo_day = r (wait 86400 (r (wait 86399 (r demo_router))))" by (simp add: demo_day_def r_def wait_def)
  show ?thesis using step [of demo_router] step [of "wait 86399 (r demo_router)"] step [of "wait 86400 (r (wait 86399 (r demo_router)))"]
    by (simp add: day clock start fresh reminder_times_def demo_security_id)
qed

theorem reminders_a_day_apart_witness:
  "reminder_times ''updates-security'' (rt_sent demo_day) = [0, 86400] \<and> a_day_apart (reminder_times ''updates-security'' (rt_sent demo_day))"
proof -
  have "(router_step demo_notifier)\<^sup>*\<^sup>* demo_router demo_day"
    unfolding demo_day_def Let_def comp_apply by (intro run_reconcile run_clock rtranclp.rtrancl_refl)
  then have "a_day_apart (reminder_times ''updates-security'' (rt_sent demo_day))"
    by (rule reminders_a_day_apart [rotated 2]) (simp_all add: demo_router_def)
  then show ?thesis by (simp only: demo_day_times simp_thms)
qed

text \<open>The USB notice lists \<open>trust\<close>; neither that action nor any other but opening goes through.\<close>

definition demo_shown :: "unit router" where
  "demo_shown = demo_router\<lparr>rt_records := [(''usb-1'', \<lparr>nr_id = Some 7, nr_item = Some demo_usb, nr_ack = False, nr_signature = None\<rparr>)]\<rparr>"

definition demo_clicks :: "unit router" where
  "demo_clicks = snd (action_invoked demo_notifier 7 ''default'' (snd (action_invoked demo_notifier 7 ''trust'' demo_shown)))"

lemma demo_usb_kind: "dget demo_usb ''kind'' = VStr ''usb''"
  by (simp add: demo_usb_def notice_item_def dupdate_def dget_def)

lemma demo_clicks_dispatched: "rt_dispatched demo_clicks = [(demo_usb, ''open'')]"
  by (simp add: demo_clicks_def action_invoked_def demo_shown_def demo_router_def demo_usb_kind item_of_def)

theorem usb_notice_only_opens_witness:
  "rt_dispatched demo_clicks = [(demo_usb, ''open'')] \<and> snd (last (rt_dispatched demo_clicks)) = ''open''"
proof -
  have run: "(router_step demo_notifier)\<^sup>*\<^sup>* demo_shown demo_clicks" unfolding demo_clicks_def by (intro run_action rtranclp.rtrancl_refl)
  have start: "rt_dispatched demo_shown = []" by (simp add: demo_shown_def demo_router_def)
  have shown: "(demo_usb, snd (last (rt_dispatched demo_clicks))) \<in> set (rt_dispatched demo_clicks)" by (simp add: demo_clicks_dispatched)
  show ?thesis using usb_notice_only_opens [OF start run shown demo_usb_kind] by (simp only: demo_clicks_dispatched simp_thms)
qed

end
