(* ===== verification/Shell_Experience.thy ===== *)
theory Shell_Experience
  imports Notices
begin

text \<open>
  \<open>shell_experience.py\<close>: one presentation of posture, activity and the conditions that need attention, put
  together from what the providers report. The two lists that the function appends to are the record
  \<open>draft\<close>; everything is read from dictionaries whose values may have any type, and a use the type does not
  support raises as in the source. \<open>wall\<close> is the clock, which does not move while a presentation is built;
  \<open>parse\<close> reads a time stamp with an offset and \<open>reformat\<close> is its \<open>isoformat()\<close>. The ellipsis of one caption,
  which is outside Latin-1, is written as three dots.
\<close>

section \<open>Building blocks\<close>

record draft =
  dr_pending :: "dict list"
  dr_activity :: "dict list"

definition empty_draft :: draft where
  "empty_draft = \<lparr>dr_pending = [], dr_activity = []\<rparr>"

definition pend :: "dict \<Rightarrow> (draft, unit) act" where
  "pend x = s_modify (\<lambda>d. d\<lparr>dr_pending := dr_pending d @ [x]\<rparr>)"

definition show_activity :: "dict \<Rightarrow> (draft, unit) act" where
  "show_activity x = s_modify (\<lambda>d. d\<lparr>dr_activity := dr_activity d @ [x]\<rparr>)"

definition RANK :: "(string \<times> nat) list" where
  "RANK = [(''CRITICAL'', 0), (''ACTION'', 1), (''WARNING'', 2), (''INFO'', 3)]"

definition shell_action :: "string \<Rightarrow> string \<Rightarrow> val" where
  "shell_action key label = VDict [(''id'', VStr key), (''label'', VStr label)]"

text \<open>A warning about a provider, and one that has to last half a minute before it is announced.\<close>

definition warning :: "string \<Rightarrow> string \<Rightarrow> val \<Rightarrow> string \<Rightarrow> dict \<Rightarrow> dict" where
  "warning key title detail route extra = notice_item (VStr key) ''provider'' ''WARNING'' (VStr title) detail route [] extra"

definition settled :: dict where
  "settled = [(''notification_stability_seconds'', VInt 30)]"

definition has_id :: "string \<Rightarrow> dict list \<Rightarrow> bool" where
  "has_id key xs = list_ex (\<lambda>x. dget x ''id'' = VStr key) xs"

section \<open>Denied accesses and the privacy capsule\<close>

definition access_block :: "env \<Rightarrow> val \<Rightarrow> (draft, unit) act" where
  "access_block e v = s_bind (s_lift (as_mapping v)) (\<lambda>block.
     let reference = py_str e (py_or (dget block ''resource_ref'') (VStr [])) in
     if \<not> startswith reference ''resource_'' \<or> \<not> is_int (dget block ''count'') then s_ret ()
     else pend (notice_item (VStr (''application-block:'' @ reference)) ''application-security'' ''INFO'' (VStr ''Sensitive access blocked'')
       (VStr (''Protected Data denied access. Application identity is unknown. '' @ py_str e (dget block ''count'') @ '' recorded attempt(s).''))
       ''protected-data'' [shell_action ''open'' ''Review'', shell_action ''dismiss'' ''Dismiss'']
       [(''resource_ref'', VStr reference), (''timeout_ms'', VInt 8000)]))"

definition sensor_active :: "env \<Rightarrow> dict \<Rightarrow> (draft, unit) act" where
  "sensor_active e signal = s_bind (s_lift (dindex signal ''signal_id'')) (\<lambda>key.
     let camera = startswith (py_str e (dget_or signal ''signal_id'' (VStr []))) ''camera'' in
     show_activity [(''id'', key), (''kind'', VStr (if camera then ''camera'' else ''microphone'')),
       (''icon'', VStr (if camera then ''videocam'' else ''mic'')), (''title'', VStr (if camera then ''Camera in use'' else ''Microphone in use'')),
       (''detail'', py_or (dget signal ''application'') (VStr ''Application could not be identified'')), (''route'', VStr ''privacy'')])"

definition sensor_lost :: "(draft, unit) act" where
  "sensor_lost = s_bind (s_get dr_pending) (\<lambda>pending.
     if has_id ''sensor-unavailable'' pending then s_ret ()
     else pend (warning ''sensor-unavailable'' ''Privacy activity unavailable'' (VStr ''Live microphone and camera use cannot be confirmed.'') ''privacy'' []))"

definition clipboard_signal :: "dict \<Rightarrow> (draft, unit) act" where
  "clipboard_signal signal = s_bind (s_lift (py_in (VStr ''clear_clipboard'') (dget_or signal ''actions'' (VList [])))) (\<lambda>clear.
     pend (notice_item (dget_or signal ''event_id'' (VStr ''clipboard'')) ''clipboard'' ''ACTION'' (VStr ''Sensitive text on clipboard'')
       (VStr ''Clear it when you have finished pasting.'') ''privacy'' (if clear then [shell_action ''clear_clipboard'' ''Clear clipboard''] else []) []))"

definition capsule_signal :: "env \<Rightarrow> val \<Rightarrow> (draft, unit) act" where
  "capsule_signal e v = s_bind (s_lift (as_mapping v)) (\<lambda>signal.
     let category = dget signal ''category''; state = dget signal ''state'' in
     if category = VStr ''ACTIVE_SENSOR'' \<and> state = VStr ''ACTIVE'' then sensor_active e signal
     else s_bind (s_lift (if category = VStr ''ACTIVE_SENSOR'' then in_keys state [''UNAVAILABLE'', ''STALE''] else Inr False)) (\<lambda>lost.
     if lost then sensor_lost
     else if category = VStr ''DEGRADED_PROTECTION'' \<and> state = VStr ''DEGRADED''
     then pend (warning ''secure-dns'' ''Secure DNS needs attention'' (dget_or signal ''detail'' (VStr ''Encrypted DNS is unavailable.'')) ''network'' settled)
     else if category = VStr ''SENSITIVE_DATA'' \<and> state = VStr ''ACTIVE'' then clipboard_signal signal
     else s_ret ()))"

section \<open>USB devices\<close>

definition UNFINISHED :: "string list" where
  "UNFINISHED = [''PENDING'', ''VERIFYING'', ''INDETERMINATE'']"

text \<open>The approvals under way while the devices cannot be read.\<close>

definition usb_operation :: "string \<times> val \<Rightarrow> (draft, unit) act" where
  "usb_operation entry = (case entry of (ref, v) \<Rightarrow> s_bind (s_lift (as_mapping v)) (\<lambda>op.
     s_bind (s_lift (in_keys (dget op ''state'') UNFINISHED)) (\<lambda>unfinished.
     if unfinished then pend (notice_item (VStr (''usb:'' @ ref)) ''usb'' ''ACTION'' (VStr ''Device approval'')
         (py_or (dget op ''detail'') (VStr ''Waiting for authorization...'')) ''devices'' []
         [(''connection_ref'', VStr ref), (''operation'', dget op ''state'')])
     else s_ret ())))"

definition blocked_device :: "dict \<Rightarrow> val \<Rightarrow> val \<Rightarrow> (draft, unit) act" where
  "blocked_device device ref v = s_bind (s_lift (as_mapping v)) (\<lambda>op.
     s_bind (s_lift (in_keys (dget op ''state'') UNFINISHED)) (\<lambda>busy.
     s_bind (s_lift (py_concat ''usb:'' ref)) (\<lambda>key.
     let name = py_or (dget device ''name'') (VStr ''USB device'');
         offers = shell_action ''trust_once'' ''Trust once'' # (if truthy (dget device ''can_persist'') then [shell_action ''trust_always'' ''Trust always''] else []) in
     s_bind (s_lift (py_concat [] name)) (\<lambda>text.
     pend (notice_item (VStr key) ''usb'' ''ACTION'' name (py_or (dget op ''detail'') (VStr ''Blocked until you approve this device.'')) ''devices''
       (if busy then [] else offers)
       [(''connection_ref'', ref), (''operation'', dget_or op ''state'' (VStr ''IDLE'')), (''notification_title'', VStr ''USB device needs approval''),
        (''notification_detail'', VStr (text @ '': Open the GREYWARD taskbar panel to approve this device.''))])))))"

definition authorized_device :: "dict \<Rightarrow> val \<Rightarrow> (draft, unit) act" where
  "authorized_device device ref = s_bind (s_lift (py_concat ''usb:'' ref)) (\<lambda>key.
     show_activity [(''id'', VStr key), (''kind'', VStr ''usb''), (''icon'', VStr ''usb''), (''title'', py_or (dget device ''name'') (VStr ''USB device'')),
       (''detail'', VStr (if truthy (dget device ''trusted'') then ''Trusted device connected'' else ''Allowed for this connection'')), (''route'', VStr ''devices'')])"

definition operation_of :: "dict \<Rightarrow> val \<Rightarrow> val py" where
  "operation_of operations ref = (if hashable ref then Inr (case ref of VStr r \<Rightarrow> dget_or operations r (VDict []) | _ \<Rightarrow> VDict []) else Inl TypeError)"

definition usb_device :: "dict \<Rightarrow> val \<Rightarrow> (draft, unit) act" where
  "usb_device operations v = s_bind (s_lift (as_mapping v)) (\<lambda>device.
     if truthy (dget device ''controller'') then s_ret ()
     else let ref = dget_or device ''connection_ref'' (VStr []) in
       s_bind (s_lift (operation_of operations ref)) (\<lambda>op.
       s_bind (s_lift (in_keys (dget device ''state'') [''BLOCK'', ''REJECT''])) (\<lambda>blocked.
       if blocked then blocked_device device ref op
       else if truthy (dget device ''authorized'') then authorized_device device ref
       else s_ret ())))"

definition usb_section :: "dict \<Rightarrow> val list \<Rightarrow> bool \<Rightarrow> dict \<Rightarrow> (draft, unit) act" where
  "usb_section shell devices usb_error operations =
    (if usb_error then s_bind (if dget shell ''evaluated_checks'' = VNone
         then pend (warning ''usb-unavailable'' ''Device protection unavailable'' (VStr ''Connected device permissions cannot be confirmed.'') ''devices'' settled)
         else s_ret ()) (\<lambda>_. s_each usb_operation operations)
     else s_each (usb_device operations) (take 64 devices))"

section \<open>Checks, firewall and network protection\<close>

text \<open>\<open>by_id.get(key, {})\<close> over the checks that are dictionaries: a later check replaces an earlier one.\<close>

definition check_table :: "val list \<Rightarrow> dict list py" where
  "check_table checks = (let ds = [d. VDict d \<leftarrow> checks] in
     if list_ex (\<lambda>d. \<not> hashable (dget d ''check_id'')) ds then Inl TypeError else Inr ds)"

definition check_of :: "dict list \<Rightarrow> string \<Rightarrow> dict" where
  "check_of ds key = (case find (\<lambda>d. dget d ''check_id'' = VStr key) (rev ds) of None \<Rightarrow> [] | Some d \<Rightarrow> d)"

definition evaluated_check :: "dict list \<Rightarrow> string \<times> string \<times> string \<Rightarrow> (draft, unit) act" where
  "evaluated_check ds row = (case row of (check_id, reference, title) \<Rightarrow>
     s_bind (s_lift (in_keys (dget_or (check_of ds check_id) ''state'' (VStr ''UNAVAILABLE'')) [''REVIEW_NEEDED'', ''ACTION_REQUIRED'', ''UNKNOWN'', ''UNAVAILABLE''])) (\<lambda>open.
     if open then pend (warning reference title (VStr ''Review this protection check in System checks.'') ''evidence'' ((''check_id'', VStr check_id) # settled))
     else s_ret ()))"

definition checks_section :: "dict \<Rightarrow> (draft, unit) act" where
  "checks_section shell = (case dget shell ''evaluated_checks'' of
       VList checks \<Rightarrow> s_bind (s_lift (check_table checks)) (\<lambda>ds.
         s_each (evaluated_check ds) [(''network.active-connection'', ''firewall-unavailable'', ''Firewall needs attention''),
           (''devices.usbguard.posture'', ''usb-unavailable'', ''Device protection needs attention'')])
     | _ \<Rightarrow> s_ret ())"

text \<open>\<open>d.get(key, {}).get(field)\<close>.\<close>

definition nested :: "dict \<Rightarrow> string \<Rightarrow> string \<Rightarrow> val py" where
  "nested d key field = py_get (dget_or d key (VDict [])) field"

definition firewall_section :: "dict \<Rightarrow> (draft, unit) act" where
  "firewall_section shell = (if dget shell ''evaluated_checks'' \<noteq> VNone then s_ret ()
     else s_bind (s_lift (nested shell ''firewall'' ''state'')) (\<lambda>state.
       s_bind (s_lift (in_keys state [''UNAVAILABLE'', ''DISABLED'', ''INACTIVE''])) (\<lambda>down.
       if down then pend (warning ''firewall-unavailable'' ''Firewall needs attention'' (VStr ''Firewall protection cannot be confirmed.'') ''network'' settled)
       else s_ret ())))"

definition opensnitch_section :: "val \<Rightarrow> (draft, unit) act" where
  "opensnitch_section v = s_bind (s_lift (as_mapping v)) (\<lambda>opensnitch.
     s_bind (s_lift (in_keys (dget opensnitch ''state'') [''DEGRADED'', ''UNAVAILABLE''])) (\<lambda>down.
     if down then pend (warning ''network-protection'' ''Network protection needs attention''
         (py_or (dget opensnitch ''detail'') (VStr ''Application protection cannot be confirmed.'')) ''network'' [])
     else s_ret ()))"

definition threat_section :: "val \<Rightarrow> (draft, unit) act" where
  "threat_section v = s_bind (s_lift (as_mapping (py_or v (VDict [])))) (\<lambda>threat.
     if \<not> truthy (dget threat ''enabled'') then s_ret ()
     else s_bind (s_lift (in_keys (dget threat ''state'') [''ERROR'', ''STALE'', ''UNAVAILABLE''])) (\<lambda>down.
       if down then pend (warning ''threat-feed'' ''Threat blocking needs attention'' (VStr ''The threat feed is unavailable or outdated.'') ''threats'' [])
       else s_ret ()))"

text \<open>A connection to a known threat that was blocked in the last five minutes, once per application and address.\<close>

definition blocked_connection :: "env \<Rightarrow> (string \<Rightarrow> rat option) \<Rightarrow> rat \<Rightarrow> val \<Rightarrow> (draft, unit) act" where
  "blocked_connection e parse wall v = s_bind (s_lift (as_mapping v)) (\<lambda>event.
     if dget event ''decision'' \<noteq> VStr ''BLOCKED'' \<or> \<not> truthy (dget event ''threat'') then s_ret ()
     else (case parse (py_str e (py_or (dget event ''occurred_at'') (dget event ''timestamp''))) of
         None \<Rightarrow> s_ret ()
       | Some t \<Rightarrow> if wall - t > 300 then s_ret ()
         else s_bind (s_lift (py_get (dget event ''threat'') ''ip'')) (\<lambda>ip.
           let app = take 80 (py_str e (py_or (dget event ''application'') (VStr ''An application'')));
               key = ''network:'' @ take 24 (env_sha256 e (app @ py_str e ip)) in
           s_bind (s_get dr_pending) (\<lambda>pending.
           if has_id key pending then s_ret ()
           else pend (notice_item (VStr key) ''network'' ''INFO'' (VStr ''Malicious connection blocked'')
             (VStr (app @ '' was prevented from reaching a known threat.'')) ''threats'' [] [(''timeout_ms'', VInt 8000)])))))"

section \<open>Files and malware protection\<close>

definition detected_file :: "env \<Rightarrow> val \<Rightarrow> (draft, unit) act" where
  "detected_file e v = s_bind (s_lift (as_mapping v)) (\<lambda>detection.
     s_bind (s_lift (in_keys (dget detection ''state'') [''DETECTED'', ''QUARANTINE_FAILED'', ''QUARANTINE_PENDING''])) (\<lambda>open.
     if \<not> open \<or> dget detection ''source_status'' = VStr ''MISSING'' then s_ret ()
     else let reference = py_str e (py_or (py_or (dget detection ''detection_id'') (dget detection ''id'')) (VStr []));
         name = subject e (py_or (py_or (dget detection ''original_path'') (dget detection ''path'')) (VStr ''A file'')) in
       pend (notice_item (VStr (''detection:'' @ reference)) ''malware'' ''CRITICAL'' (VStr ''Threat detected'') (VStr (name @ '' needs review in File Security.'')) ''files''
         [shell_action ''open'' ''Review finding''] [(''scan_status'', VStr ''THREAT''), (''scan_subject'', VStr name), (''notification_title'', VStr name)])))"

definition scan_section :: "env \<Rightarrow> dict \<Rightarrow> (draft, unit) act" where
  "scan_section e files = (let scan = py_or (dget files ''active_scan'') (VDict []) in
     if truthy scan then s_bind (s_lift (as_mapping scan)) (\<lambda>s.
       show_activity [(''id'', VStr (''scan:'' @ py_str e (dget_or s ''operation_id'' (VStr ''active'')))), (''kind'', VStr ''scan''), (''icon'', VStr ''search''),
         (''title'', VStr ''Scanning files''), (''detail'', VStr ''View scan progress in Security Center''), (''route'', VStr ''files'')])
     else if dget files ''state'' = VStr ''UNAVAILABLE''
     then pend (warning ''scanner-unavailable'' ''File protection unavailable'' (VStr ''Scan status cannot be confirmed.'') ''files'' [])
     else s_ret ())"

definition malware_state :: "dict \<Rightarrow> dict \<Rightarrow> val py" where
  "malware_state shell files = (case dget files ''clamav'' of
       VDict m \<Rightarrow> Inr (dget_or m ''status'' (VStr ''UNAVAILABLE''))
     | _ \<Rightarrow> nested shell ''malware'' ''state'')"

definition malware_section :: "dict \<Rightarrow> val \<Rightarrow> (draft, unit) act" where
  "malware_section files state =
     s_bind (if state = VStr ''INITIALIZING''
       then show_activity [(''id'', VStr ''definitions-initializing''), (''kind'', VStr ''malware''), (''icon'', VStr ''shield''),
         (''title'', VStr ''Preparing malware protection''), (''route'', VStr ''files''),
         (''detail'', VStr ''Threat definitions are being initialized. Scanning readiness is not yet confirmed.'')]
       else s_ret ()) (\<lambda>_.
     s_bind (s_lift (in_keys state [''OUTDATED'', ''UNAVAILABLE'', ''UPDATING''])) (\<lambda>down.
     if down then s_bind (s_lift (as_mapping (py_or (dget files ''clamav'') (VDict [])))) (\<lambda>malware.
       pend (warning ''definitions'' ''Malware protection needs attention''
         (py_or (dget malware ''detail'') (VStr ''Check the scanning engine and threat definitions.'')) ''files'' []))
     else s_ret ()))"

section \<open>Recorded changes and updates\<close>

definition change_event :: "env \<Rightarrow> val \<Rightarrow> (draft, unit) act" where
  "change_event e v = s_bind (s_lift (as_mapping v)) (\<lambda>event.
     let key = py_str e (dget_or event ''event_id'' (VStr [])) in
     if startswith key ''usbguard-'' then s_ret ()
     else s_bind (s_lift (dindex event ''event_id'')) (\<lambda>i.
       pend (notice_item (VStr (py_str e i)) ''security'' (if startswith key ''persistence-'' then ''INFO'' else ''WARNING'')
         (py_or (dget event ''title'') (VStr ''Security change detected'')) (py_or (dget event ''detail'') (VStr ''Review the recorded change.'')) ''overview'' [] [])))"

definition update_section :: "env \<Rightarrow> dict \<Rightarrow> (draft, unit) act" where
  "update_section e shell = s_bind (s_lift (as_mapping (dget_or shell ''update'' (VDict [])))) (\<lambda>update.
     if truthy (dget update ''active'') \<or> dget update ''phase'' = VStr ''READY_TO_RESTART''
     then let progress = dget update ''progress'' in
       show_activity [(''id'', VStr ''updates''), (''kind'', VStr ''update''), (''icon'', VStr ''system_update''),
         (''title'', VStr (if dget update ''phase'' = VStr ''READY_TO_RESTART'' then ''Restart required'' else ''Updating your system'')),
         (''detail'', VStr (if is_number progress then py_str e progress @ ''% completed'' else ''Review updates in Security Center'')), (''route'', VStr ''updates'')]
     else if dget update ''phase'' = VStr ''FAILED''
     then pend (notice_item (VStr ''update-failed'') ''operation'' ''WARNING'' (VStr ''Update could not finish'')
       (py_or (dget update ''error'') (VStr ''Review the update result before retrying.'')) ''updates'' [] [])
     else s_ret ())"

section \<open>Details\<close>

definition spaced :: "string \<Rightarrow> string" where
  "spaced s = py_capitalize (replace_char (CHR ''_'') (CHR '' '') s)"

definition detail_text :: "env \<Rightarrow> val \<Rightarrow> string" where
  "detail_text e v = (case map_of [(''SECUREPROVIDER'', ''Encrypted''), (''SECURE_PROVIDER'', ''Encrypted''), (''SYSTEM'', ''System default'')] (py_upper (py_str e v)) of
       Some t \<Rightarrow> t | None \<Rightarrow> spaced (py_str e (py_or v (VStr ''UNAVAILABLE''))))"

text \<open>\<open>entry["value"] = value\<close> for the first row with the label, or a new row.\<close>

fun put_detail :: "string \<Rightarrow> string \<Rightarrow> dict list \<Rightarrow> dict list" where
  "put_detail label v [] = [[(''label'', VStr label), (''value'', VStr v)]]"
| "put_detail label v (row # rows) = (if dget row ''label'' = VStr label then dput row ''value'' (VStr v) # rows else row # put_detail label v rows)"

definition check_text :: "env \<Rightarrow> dict \<Rightarrow> string" where
  "check_text e check = (if truthy (dget check ''accepted_deviation'') then ''Reviewed exception''
     else spaced (py_str e (dget_or check ''state'' (VStr ''UNAVAILABLE''))))"

definition vpn_detail :: "val \<Rightarrow> dict" where
  "vpn_detail v = (let state = (if str_in v [''ACTIVE'', ''OFF''] then v else VStr ''UNAVAILABLE'') in
     [(''label'', VStr ''VPN''), (''state'', state),
      (''value'', VStr (if state = VStr ''ACTIVE'' then ''Active'' else if state = VStr ''OFF'' then ''Off'' else ''Unavailable''))])"

definition shell_details :: "env \<Rightarrow> dict \<Rightarrow> val \<Rightarrow> dict list py" where
  "shell_details e shell opensnitch = py_bind (py_get opensnitch ''state'') (\<lambda>v1. py_bind (nested shell ''firewall'' ''state'') (\<lambda>v2.
     py_bind (nested shell ''secure_dns'' ''state'') (\<lambda>v3. py_bind (nested shell ''privacy'' ''profile'') (\<lambda>v4.
     let rows = map (\<lambda>(l, v). [(''label'', VStr l), (''value'', VStr (detail_text e v))])
       [(''Network protection'', v1), (''Firewall'', v2), (''Secure DNS'', v3), (''Privacy profile'', v4)] in
     py_bind (case dget shell ''evaluated_checks'' of
         VList checks \<Rightarrow> py_bind (check_table checks) (\<lambda>ds.
           Inr (put_detail ''Device protection'' (check_text e (check_of ds ''devices.usbguard.posture''))
             (put_detail ''Firewall'' (check_text e (check_of ds ''network.active-connection'')) rows)))
       | _ \<Rightarrow> Inr rows) (\<lambda>rows'.
     py_bind (as_mapping (dget_or shell ''vpn'' (VDict []))) (\<lambda>vpn. let state = dget_or vpn ''state'' (VStr ''UNAVAILABLE'') in
     if hashable state then Inr (rows' @ [vpn_detail state]) else Inl TypeError))))))"

section \<open>Items that can no longer be confirmed\<close>

definition stale_detail :: string where
  "stale_detail = ''Current state cannot be confirmed. Review when protection is available.''"

definition stale_item :: "dict \<Rightarrow> dict" where
  "stale_item previous = dupdate previous [(''actions'', VList []), (''stale'', VBool True), (''detail'', VStr stale_detail), (''notification_detail'', VStr stale_detail)]"

definition previous_item :: "bool \<Rightarrow> bool \<Rightarrow> val list \<Rightarrow> val \<Rightarrow> (draft, unit) act" where
  "previous_item usb_error files_lost present v = s_bind (s_lift (as_mapping v)) (\<lambda>previous.
     if (dget previous ''kind'' = VStr ''usb'' \<and> usb_error) \<or> (dget previous ''kind'' = VStr ''malware'' \<and> files_lost)
     then if \<not> hashable (dget previous ''id'') then s_raise TypeError
       else if py_mem (dget previous ''id'') present then s_ret () else pend (stale_item previous)
     else s_ret ())"

definition previous_section :: "dict \<Rightarrow> bool \<Rightarrow> val list \<Rightarrow> (draft, unit) act" where
  "previous_section files usb_error previous = s_bind (s_get dr_pending) (\<lambda>pending. let present = map (\<lambda>x. dget x ''id'') pending in
     if list_all hashable present then s_each (previous_item usb_error (dget files ''state'' = VStr ''UNAVAILABLE'') present) previous else s_raise TypeError)"

section \<open>Order and grouping\<close>

text \<open>\<open>{x["id"]: x for x in pending}.values()\<close>: a later item takes the place of an earlier one.\<close>

definition put_item :: "(val \<times> dict) list \<Rightarrow> dict \<Rightarrow> (val \<times> dict) list py" where
  "put_item acc x = py_bind (dindex x ''id'') (\<lambda>i. if hashable i then Inr (AList.update (canon i) x acc) else Inl TypeError)"

definition distinct_items :: "dict list \<Rightarrow> dict list py" where
  "distinct_items xs = py_bind (py_fold put_item [] xs) (\<lambda>acc. Inr (map snd acc))"

definition item_rank :: "dict \<Rightarrow> nat py" where
  "item_rank x = py_bind (dindex x ''severity'') (\<lambda>s. if \<not> hashable s then Inl TypeError
     else (case s of VStr k \<Rightarrow> (case map_of RANK k of None \<Rightarrow> Inl (KeyError k) | Some n \<Rightarrow> Inr n) | _ \<Rightarrow> Inl (KeyError [])))"

definition ranked_item :: "dict \<Rightarrow> (nat \<times> dict) py" where
  "ranked_item x = py_bind (item_rank x) (\<lambda>n. Inr (n, x))"

definition item_before :: "nat \<times> dict \<Rightarrow> nat \<times> dict \<Rightarrow> bool py" where
  "item_before a b = (if fst a \<noteq> fst b then Inr (fst a < fst b) else py_less (dget (snd a) ''id'') (dget (snd b) ''id''))"

text \<open>The keys are computed before anything is compared.\<close>

definition sorted_items :: "dict list \<Rightarrow> dict list py" where
  "sorted_items pending = py_bind (distinct_items pending) (\<lambda>xs. py_bind (py_map ranked_item xs) (\<lambda>rs.
     py_bind (py_sorted item_before rs) (\<lambda>ys. Inr (map snd ys))))"

text \<open>Uses of one sensor are one entry that lists the applications.\<close>

definition joined :: "val list \<Rightarrow> string py" where
  "joined members = (if list_all is_str members then Inr (join '', '' (first_unique (map as_str members))) else Inl TypeError)"

fun merge_activity :: "dict \<Rightarrow> dict list \<Rightarrow> dict list py" where
  "merge_activity entry [] = Inr [dput entry ''members'' (VList [dget entry ''detail''])]"
| "merge_activity entry (g # gs) = (if dget g ''kind'' = dget entry ''kind''
     then let members = as_list (dget g ''members'') @ [dget entry ''detail''] in
       py_bind (joined members) (\<lambda>text. Inr (dput (dput g ''members'' (VList members)) ''detail'' (VStr text) # gs))
     else py_bind (merge_activity entry gs) (\<lambda>hs. Inr (g # hs)))"

definition group_activity :: "dict list \<Rightarrow> dict \<Rightarrow> dict list py" where
  "group_activity grouped entry = (if str_in (dget entry ''kind'') [''microphone'', ''camera''] then merge_activity entry grouped
     else Inr (grouped @ [dput entry ''members'' (VList [dget entry ''detail''])]))"

section \<open>The presentation\<close>

text \<open>What \<open>build_experience\<close> is called with.\<close>

record reports =
  rp_shell :: dict
  rp_capsule :: dict
  rp_devices :: "val list"
  rp_usb_error :: bool
  rp_files :: dict
  rp_network :: dict
  rp_operations :: dict
  rp_previous_items :: "val list"
  rp_access_blocks :: "val list"

text \<open>All that is appended to the two lists before the details are put together.\<close>

definition network_sections :: "env \<Rightarrow> (string \<Rightarrow> rat option) \<Rightarrow> rat \<Rightarrow> reports \<Rightarrow> (draft, unit) act" where
  "network_sections e parse wall r =
     s_bind (checks_section (rp_shell r)) (\<lambda>_.
     s_bind (firewall_section (rp_shell r)) (\<lambda>_.
     s_bind (opensnitch_section (dget_or (rp_network r) ''opensnitch'' (VDict []))) (\<lambda>_.
     s_bind (threat_section (dget (rp_network r) ''threat_intel'')) (\<lambda>_.
     s_bind (s_lift (py_iter (dget_or (rp_network r) ''activity'' (VList [])))) (\<lambda>events.
     s_each (blocked_connection e parse wall) events)))))"

definition file_sections :: "env \<Rightarrow> (string \<Rightarrow> rat option) \<Rightarrow> rat \<Rightarrow> reports \<Rightarrow> (draft, unit) act" where
  "file_sections e parse current r =
     s_bind (s_lift (py_bind (py_slice 64 (dget_or (rp_files r) ''detections'' (VList []))) py_iter)) (\<lambda>detections.
     s_bind (s_each (detected_file e) detections) (\<lambda>_.
     s_bind (scan_section e (rp_files r)) (\<lambda>_.
     s_bind (s_lift (scan_results e parse current (rp_files r))) (\<lambda>results.
     s_bind (s_each pend results) (\<lambda>_.
     s_bind (s_lift (malware_state (rp_shell r) (rp_files r))) (malware_section (rp_files r)))))))"

definition experience_sections :: "env \<Rightarrow> (string \<Rightarrow> rat option) \<Rightarrow> rat \<Rightarrow> rat \<Rightarrow> reports \<Rightarrow> (draft, unit) act" where
  "experience_sections e parse wall current r =
     s_bind (s_each (access_block e) (take 64 (rp_access_blocks r))) (\<lambda>_.
     s_bind (s_lift (py_iter (dget_or (rp_capsule r) ''signals'' (VList [])))) (\<lambda>signals.
     s_bind (s_each (capsule_signal e) signals) (\<lambda>_.
     s_bind (usb_section (rp_shell r) (rp_devices r) (rp_usb_error r) (rp_operations r)) (\<lambda>_.
     s_bind (network_sections e parse wall r) (\<lambda>_.
     s_bind (file_sections e parse current r) (\<lambda>_.
     s_bind (s_lift (py_iter (dget_or (rp_shell r) ''notification_events'' (VList [])))) (\<lambda>changes.
     s_bind (s_each (change_event e) changes) (\<lambda>_.
     update_section e (rp_shell r)))))))))"

definition shell_severity :: "dict list \<Rightarrow> val \<Rightarrow> val" where
  "shell_severity pending posture = (case pending of x # _ \<Rightarrow> dget x ''severity'' | [] \<Rightarrow> VStr (if posture = VStr ''REVIEW NEEDED'' then ''WARNING'' else ''INFO''))"

definition good_posture :: "val \<Rightarrow> bool" where
  "good_posture posture = str_in posture [''SECURE'', ''PROTECTED'']"

text \<open>Label and reason.\<close>

definition shell_label :: "dict list \<Rightarrow> val \<Rightarrow> val \<Rightarrow> bool \<Rightarrow> string \<times> string" where
  "shell_label pending severity posture initializing =
    (if initializing \<and> severity = VStr ''INFO'' \<and> good_posture posture then (''Preparing protection'', ''Malware scanning readiness is not yet confirmed'')
     else (if severity = VStr ''CRITICAL'' then ''Threat needs attention'' else if severity = VStr ''ACTION'' then ''Action needed''
         else if severity = VStr ''WARNING'' then ''Review needed'' else if good_posture posture then ''Protected'' else ''Status unavailable'',
       if pending \<noteq> [] \<and> severity \<noteq> VStr ''INFO'' then if severity = VStr ''CRITICAL'' then ''Review the detected threat''
         else if severity = VStr ''ACTION'' then ''A decision is required'' else ''Some protection needs attention''
       else if posture = VStr ''REVIEW NEEDED'' then ''Review system checks''
       else if good_posture posture then ''Protection is operating'' else ''Security providers cannot confirm current status''))"

definition display_until :: "(string \<Rightarrow> rat option) \<Rightarrow> (string \<Rightarrow> string) \<Rightarrow> rat \<Rightarrow> dict \<Rightarrow> val \<Rightarrow> val py" where
  "display_until parse reformat current shell posture = (let until = dget shell ''fresh_until'' in
     if posture = VStr ''UNAVAILABLE'' then Inr (VStr (iso_micro (current + 30)))
     else if \<not> truthy until then Inr until
     else (case until of
         VStr s \<Rightarrow> Inr (VStr (case parse s of
             None \<Rightarrow> iso_micro (current + 12)
           | Some t \<Rightarrow> if current + 12 < t then reformat s else iso_micro (current + 12)))
       | _ \<Rightarrow> Inl (OtherError ''AttributeError'')))"

definition presentation :: "dict \<Rightarrow> val \<Rightarrow> val \<Rightarrow> string \<times> string \<Rightarrow> val \<Rightarrow> dict list \<Rightarrow> dict list \<Rightarrow> dict list \<Rightarrow> dict" where
  "presentation shell until posture caption severity pending activity details =
     [(''schema'', VStr ''greyward.security.experience/v1''), (''fresh_until'', dget shell ''fresh_until''), (''display_fresh_until'', until),
      (''posture'', posture), (''label'', VStr (fst caption)), (''reason'', VStr (snd caption)), (''severity'', severity), (''items'', VList (map VDict pending)),
      (''activity'', VList (map VDict (take 32 activity))), (''details'', VList (map VDict details)),
      (''capabilities'', dget_or shell ''capabilities'' (VDict [])), (''privacy'', dget_or shell ''privacy'' (VDict []))]"

text \<open>Everything after the two lists are complete.\<close>

definition finish_experience :: "(string \<Rightarrow> rat option) \<Rightarrow> (string \<Rightarrow> string) \<Rightarrow> rat \<Rightarrow> dict \<Rightarrow> bool \<Rightarrow> dict list \<Rightarrow> draft \<Rightarrow> dict py" where
  "finish_experience parse reformat current shell initializing details d =
     py_bind (sorted_items (dr_pending d)) (\<lambda>items. let pending = take 64 items in
     py_bind (py_fold group_activity [] (dr_activity d)) (\<lambda>activity.
     py_bind (as_mapping (dget_or shell ''posture'' (VDict []))) (\<lambda>p. let posture = dget_or p ''state'' (VStr ''UNAVAILABLE'');
         severity = shell_severity pending posture in
     if severity = VStr ''INFO'' \<and> \<not> hashable posture then Inl TypeError
     else py_bind (display_until parse reformat current shell posture) (\<lambda>until.
     Inr (presentation shell until posture (shell_label pending severity posture initializing) severity pending activity details)))))"

definition build_experience :: "env \<Rightarrow> (string \<Rightarrow> rat option) \<Rightarrow> (string \<Rightarrow> string) \<Rightarrow> rat \<Rightarrow> reports \<Rightarrow> rat option \<Rightarrow> dict py" where
  "build_experience e parse reformat wall r now_value =
    (let current = (case now_value of None \<Rightarrow> wall | Some t \<Rightarrow> t); shell = rp_shell r in
     fst (s_bind (experience_sections e parse wall current r) (\<lambda>_.
       s_bind (s_lift (shell_details e shell (dget_or (rp_network r) ''opensnitch'' (VDict [])))) (\<lambda>details.
       s_bind (previous_section (rp_files r) (rp_usb_error r) (rp_previous_items r)) (\<lambda>_.
       s_bind (s_lift (malware_state shell (rp_files r))) (\<lambda>state.
       s_bind (s_get (\<lambda>d. d)) (\<lambda>d. s_lift (finish_experience parse reformat current shell (state = VStr ''INITIALIZING'') details d)))))) empty_draft))"

end
