(* ===== verification/Shell_Experience_Items.thy ===== *)
theory Shell_Experience_Items
  imports Shell_Experience
begin

text \<open>
  The items that the sections of the presentation append: which of them need no attention, and which offer
  to trust a USB device.
\<close>

section \<open>Items\<close>

definition severe :: "dict \<Rightarrow> bool" where
  "severe x \<longleftrightarrow> dget x ''severity'' \<noteq> VStr ''INFO''"

lemma dget_notice_item:
  "dget (notice_item key kind severity title detail route actions extra) k = (case map_of (rev extra) k of Some v \<Rightarrow> v
     | None \<Rightarrow> dget [(''id'', key), (''kind'', VStr kind), (''severity'', VStr severity), (''title'', title), (''detail'', detail), (''route'', VStr route),
         (''actions'', VList actions), (''timeout_ms'', VInt (if severity = ''CRITICAL'' then 0 else 10000))] k)"
proof -
  have "map_of (dupdate d xs) k = (case map_of (rev xs) k of Some v \<Rightarrow> Some v | None \<Rightarrow> map_of d k)" for d xs
    by (induction xs arbitrary: d) (auto simp: dupdate_def map_add_def split: option.splits)
  then show ?thesis unfolding notice_item_def dget_def by (simp split: option.split)
qed

text \<open>Keys under which an item that needs no attention may appear.\<close>

definition INFORMATIVE :: "string list" where
  "INFORMATIVE = [''application-block:'', ''network:'', ''scan-result:'', ''persistence-'']"

definition informative :: "val \<Rightarrow> bool" where
  "informative v \<longleftrightarrow> (\<exists>k. v = VStr k \<and> list_ex (startswith k) INFORMATIVE)"

definition plain_infos :: "draft \<Rightarrow> bool" where
  "plain_infos d \<longleftrightarrow> (\<forall>x \<in> set (dr_pending d). severe x \<or> informative (dget x ''id''))"

definition alarm :: "draft \<Rightarrow> bool" where
  "alarm d \<longleftrightarrow> (\<exists>x \<in> set (dr_pending d). severe x \<and> is_str (dget x ''id'') \<and> \<not> informative (dget x ''id''))"

lemma startswith_simps [simp]: "startswith s [] = True" "startswith (c # s) (d # p) = (c = d \<and> startswith s p)" "startswith [] (d # p) = False"
  by (simp_all add: startswith_def)

lemma notice_item_fields [simp]:
  "map_of (rev extra) ''id'' = None \<Longrightarrow> dget (notice_item key kind severity title detail route actions extra) ''id'' = key"
  "map_of (rev extra) ''severity'' = None \<Longrightarrow> dget (notice_item key kind severity title detail route actions extra) ''severity'' = VStr severity"
  "map_of (rev extra) ''actions'' = None \<Longrightarrow> dget (notice_item key kind severity title detail route actions extra) ''actions'' = VList actions"
  unfolding dget_notice_item by (simp_all add: dget_def)

lemma warning_fields [simp]:
  "map_of (rev extra) ''id'' = None \<Longrightarrow> dget (warning key title detail route extra) ''id'' = VStr key"
  "map_of (rev extra) ''severity'' = None \<Longrightarrow> dget (warning key title detail route extra) ''severity'' = VStr ''WARNING''"
  "map_of (rev extra) ''actions'' = None \<Longrightarrow> dget (warning key title detail route extra) ''actions'' = VList []"
  by (simp_all add: warning_def)

section \<open>What a section appends\<close>

definition adds :: "(dict \<Rightarrow> bool) \<Rightarrow> (draft, 'a) act \<Rightarrow> bool" where
  "adds Q m \<longleftrightarrow> (\<forall>w r w'. m w = (r, w') \<longrightarrow> (\<exists>ys. dr_pending w' = dr_pending w @ ys \<and> list_all Q ys))"

named_theorems adds_intros

lemma adds_basic [adds_intros]: "adds Q (s_ret x)" "adds Q (s_raise err)" "adds Q (s_lift p)" "adds Q (s_get g)" "adds Q (Pair v)" "adds Q (show_activity y)"
  by (auto simp: adds_def show_activity_def)

lemma adds_pend [adds_intros]: "Q x \<Longrightarrow> adds Q (pend x)"
  by (auto simp: adds_def pend_def)

lemma adds_bind [adds_intros]: "adds Q m \<Longrightarrow> (\<And>x. adds Q (k x)) \<Longrightarrow> adds Q (s_bind m k)"
  unfolding adds_def s_bind_def by (fastforce split: prod.splits sum.splits)

lemma adds_lift_bind: "(\<And>x. p = Inr x \<Longrightarrow> adds Q (k x)) \<Longrightarrow> adds Q (s_bind (s_lift p) k)"
  by (cases p) (auto simp: adds_def)

lemma adds_if [adds_intros]: "(b \<Longrightarrow> adds Q m) \<Longrightarrow> (\<not> b \<Longrightarrow> adds Q k) \<Longrightarrow> adds Q (if b then m else k)"
  by simp

lemma adds_option [adds_intros]: "adds Q m \<Longrightarrow> (\<And>x. adds Q (g x)) \<Longrightarrow> adds Q (case p of None \<Rightarrow> m | Some x \<Rightarrow> g x)"
  by (cases p) simp_all

lemma adds_each: "(\<And>x. x \<in> set xs \<Longrightarrow> adds Q (f x)) \<Longrightarrow> adds Q (s_each f xs)"
  by (induction xs) (auto intro: adds_intros)

lemma adds_pending: "adds Q m \<Longrightarrow> m w = (r, w') \<Longrightarrow> x \<in> set (dr_pending w') \<Longrightarrow> x \<in> set (dr_pending w) \<or> Q x"
  unfolding adds_def by (fastforce simp: list_all_iff)

lemma adds_mono: "adds Q m \<Longrightarrow> m w = (r, w') \<Longrightarrow> set (dr_pending w) \<subseteq> set (dr_pending w')"
  unfolding adds_def by fastforce

subsection \<open>Items of the sections\<close>

text \<open>\<open>offers x name\<close>: the item has a button for the action.\<close>

definition offers :: "dict \<Rightarrow> string \<Rightarrow> bool" where
  "offers x name \<longleftrightarrow> (\<exists>a \<in> set (as_list (dget x ''actions'')). vget a ''id'' = VStr name)"

definition offers_trust :: "dict \<Rightarrow> bool" where
  "offers_trust x \<longleftrightarrow> offers x ''trust_once'' \<or> offers x ''trust_always''"

text \<open>The item is about this device, which is blocked and has no approval under way.\<close>

definition approvable :: "reports \<Rightarrow> dict \<Rightarrow> val \<Rightarrow> bool" where
  "approvable r x v \<longleftrightarrow> (\<exists>device ref op. v = VDict device \<and> \<not> truthy (dget device ''controller'') \<and> str_in (dget device ''state'') [''BLOCK'', ''REJECT'']
     \<and> dget_or device ''connection_ref'' (VStr []) = VStr ref \<and> dget x ''connection_ref'' = VStr ref \<and> dget x ''id'' = VStr (''usb:'' @ ref)
     \<and> dget_or (rp_operations r) ref (VDict []) = VDict op \<and> \<not> str_in (dget op ''state'') UNFINISHED
     \<and> (offers x ''trust_always'' \<longrightarrow> truthy (dget device ''can_persist'')))"

definition offer_ok :: "reports \<Rightarrow> dict \<Rightarrow> bool" where
  "offer_ok r x \<longleftrightarrow> (offers_trust x \<longrightarrow> \<not> rp_usb_error r \<and> (\<exists>v \<in> set (take 64 (rp_devices r)). approvable r x v))"

definition sound_item :: "reports \<Rightarrow> dict \<Rightarrow> bool" where
  "sound_item r x \<longleftrightarrow> (severe x \<or> informative (dget x ''id'')) \<and> offer_ok r x"

lemma informative_VStr [simp]: "informative (VStr k) \<longleftrightarrow> list_ex (startswith k) INFORMATIVE"
  by (simp add: informative_def)

lemma offers_actions [simp]: "vget (shell_action key label) ''id'' = VStr key"
  by (simp add: shell_action_def vget_def dget_def)

lemmas item_simps = sound_item_def severe_def offer_ok_def offers_trust_def offers_def settled_def INFORMATIVE_def Let_def

lemma adds_warning [adds_intros]:
  "adds (sound_item r) (pend (warning key title detail route []))" "adds (sound_item r) (pend (warning key title detail route settled))"
  "adds (sound_item r) (pend (warning key title detail route ((''check_id'', c) # settled)))"
  by (auto intro!: adds_intros simp: item_simps)

lemma adds_capsule: "adds (sound_item r) (capsule_signal e v)"
  unfolding capsule_signal_def sensor_active_def sensor_lost_def clipboard_signal_def Let_def
  by (intro adds_intros) (simp_all add: item_simps)

lemma adds_access: "adds (sound_item r) (access_block e v)"
  unfolding access_block_def Let_def by (intro adds_intros) (simp_all add: item_simps)

lemma adds_operation: "adds (sound_item r) (usb_operation v)"
  unfolding usb_operation_def by (cases v) (auto intro!: adds_intros simp: item_simps)

lemma adds_checks: "adds (sound_item r) (checks_section shell)"
  unfolding checks_section_def evaluated_check_def
  by (cases "dget shell ''evaluated_checks''") (auto intro!: adds_intros adds_each simp del: s_each.simps)

lemma adds_protection: "adds (sound_item r) (firewall_section shell)" "adds (sound_item r) (opensnitch_section v)" "adds (sound_item r) (threat_section v)"
  unfolding firewall_section_def opensnitch_section_def threat_section_def by (intro adds_intros)+

lemma adds_connection: "adds (sound_item r) (blocked_connection e parse wall v)"
  unfolding blocked_connection_def Let_def by (intro adds_intros) (simp_all add: item_simps)

lemma adds_detected: "adds (sound_item r) (detected_file e v)"
  unfolding detected_file_def Let_def by (intro adds_intros) (simp_all add: item_simps)

lemma adds_scan: "adds (sound_item r) (scan_section e files)" "adds (sound_item r) (malware_section files state)"
  unfolding scan_section_def malware_section_def Let_def by (intro adds_intros)+

lemma adds_change: "adds (sound_item r) (change_event e v)"
  unfolding change_event_def Let_def by (intro adds_intros adds_lift_bind) (auto simp: item_simps dindex_def dget_or_def split: option.splits)

lemma adds_update: "adds (sound_item r) (update_section e shell)"
  unfolding update_section_def Let_def by (intro adds_intros) (simp_all add: item_simps)

lemma adds_blocked:
  assumes "VDict device \<in> set (take 64 (rp_devices r))" and "\<not> rp_usb_error r" and "\<not> truthy (dget device ''controller'')"
    and "str_in (dget device ''state'') [''BLOCK'', ''REJECT'']" and ref: "dget_or device ''connection_ref'' (VStr []) = ref"
    and op: "operation_of (rp_operations r) ref = Inr v"
  shows "adds (sound_item r) (blocked_device device ref v)"
proof -
  define x where "x op busy key shown = notice_item (VStr key) ''usb'' ''ACTION'' (py_or (dget device ''name'') (VStr ''USB device''))
    (py_or (dget op ''detail'') (VStr ''Blocked until you approve this device.'')) ''devices''
    (if busy then [] else shell_action ''trust_once'' ''Trust once'' # (if truthy (dget device ''can_persist'') then [shell_action ''trust_always'' ''Trust always''] else []))
    [(''connection_ref'', ref), (''operation'', dget_or op ''state'' (VStr ''IDLE'')), (''notification_title'', VStr ''USB device needs approval''),
     (''notification_detail'', VStr (shown @ '': Open the GREYWARD taskbar panel to approve this device.''))]" for op busy key shown
  have x: "dget (x op busy key shown) ''connection_ref'' = ref" "dget (x op busy key shown) ''id'' = VStr key" "severe (x op busy key shown)" for op busy key shown
    by (simp_all add: x_def dget_notice_item severe_def)
  have offer: "offers_trust (x op busy key shown) \<Longrightarrow> \<not> busy" "offers (x op busy key shown) ''trust_always'' \<Longrightarrow> truthy (dget device ''can_persist'')" for op busy key shown
    by (auto simp: x_def offers_trust_def offers_def split: if_splits)
  have "approvable r (x op busy key shown) (VDict device)"
    if "v = VDict op" "busy = str_in (dget op ''state'') UNFINISHED" "py_concat ''usb:'' ref = Inr key" "\<not> busy" for op busy key shown
    using that assms x(1,2) offer(2) op unfolding approvable_def operation_of_def by (auto split: if_splits)
  then have "sound_item r (x op busy key shown)" if "v = VDict op" "busy = str_in (dget op ''state'') UNFINISHED" "py_concat ''usb:'' ref = Inr key" for op busy key shown
    using that assms(1,2) x(3) offer(1) unfolding sound_item_def offer_ok_def by blast
  then show ?thesis unfolding blocked_device_def Let_def x_def by (intro adds_lift_bind adds_pend) simp_all
qed

lemma adds_device: "v \<in> set (take 64 (rp_devices r)) \<Longrightarrow> \<not> rp_usb_error r \<Longrightarrow> adds (sound_item r) (usb_device (rp_operations r) v)"
  unfolding usb_device_def Let_def authorized_device_def by (intro adds_lift_bind adds_if adds_intros adds_blocked) simp_all

lemma adds_usb: "adds (sound_item r) (usb_section shell (rp_devices r) (rp_usb_error r) (rp_operations r))"
  unfolding usb_section_def by (intro adds_intros adds_each adds_operation adds_device)

lemma scan_notice_item: "severity = ''INFO'' \<or> severity = ''WARNING'' \<Longrightarrow> sound_item r (scan_notice reference status title severity name caption)"
  by (auto simp: scan_notice_def item_simps dget_def vget_def)

lemma scan_result_item: "scan_result e parse now reference scan = Inr xs \<Longrightarrow> x \<in> set xs \<Longrightarrow> sound_item r x"
  by (auto simp: scan_result_def Let_def py_bind_eq_Inr scan_outcome_def intro!: scan_notice_item split: if_splits option.splits)

lemma scan_results_item: "scan_results_from e parse now seen vs = Inr xs \<Longrightarrow> x \<in> set xs \<Longrightarrow> sound_item r x"
proof (induction e parse now seen vs arbitrary: xs rule: scan_results_from.induct)
  case (2 e parse now seen v vs)
  then show ?case by (auto simp: Let_def py_bind_eq_Inr intro: scan_result_item split: val.splits if_splits)
qed simp

lemma adds_results: "scan_results e parse now files = Inr xs \<Longrightarrow> adds (sound_item r) (s_each pend xs)"
  by (auto simp: scan_results_def simp del: scan_results_from.simps intro!: adds_each adds_pend adds_basic intro: scan_results_item split: if_splits)

lemma adds_sections: "adds (sound_item r) (experience_sections e parse wall current r)"
  unfolding experience_sections_def network_sections_def file_sections_def
  by (intro adds_lift_bind adds_intros adds_each adds_access adds_capsule adds_usb adds_checks adds_protection adds_connection
    adds_detected adds_scan adds_results adds_change adds_update)

end
