(* ===== verification/Shell_Experience_Alarms.thy ===== *)
theory Shell_Experience_Alarms
  imports Shell_Experience_Items
begin

text \<open>
  The conditions that need attention, read off the reports, and that each of them leaves an item which needs
  attention in the list of the presentation.
\<close>

section \<open>Alarms\<close>

text \<open>A run that succeeds leaves an alarm behind.\<close>

definition alarms :: "(draft, 'a) act \<Rightarrow> bool" where
  "alarms m \<longleftrightarrow> (\<forall>w u w'. plain_infos w \<longrightarrow> m w = (Inr u, w') \<longrightarrow> alarm w')"

lemma alarm_mono: "adds Q m \<Longrightarrow> m w = (r, w') \<Longrightarrow> alarm w \<Longrightarrow> alarm w'"
  unfolding alarm_def using adds_mono by blast

lemma plain_infos_adds: "adds (sound_item r) m \<Longrightarrow> m w = (v, w') \<Longrightarrow> plain_infos w \<Longrightarrow> plain_infos w'"
  using adds_pending unfolding plain_infos_def sound_item_def by blast

lemma alarms_first: "alarms m \<Longrightarrow> (\<And>x. adds Q (k x)) \<Longrightarrow> alarms (s_bind m k)"
  unfolding alarms_def s_bind_eq_Inr using alarm_mono by blast

lemma alarms_then: "adds (sound_item r) m \<Longrightarrow> (\<And>x. alarms (k x)) \<Longrightarrow> alarms (s_bind m k)"
  unfolding alarms_def s_bind_eq_Inr using plain_infos_adds by blast

lemma alarms_lift: "(\<And>x. p = Inr x \<Longrightarrow> alarms (k x)) \<Longrightarrow> alarms (s_bind (s_lift p) k)"
  by (cases p) (auto simp: alarms_def)

lemma alarms_pend: "severe x \<Longrightarrow> is_str (dget x ''id'') \<Longrightarrow> \<not> informative (dget x ''id'') \<Longrightarrow> alarms (pend x)"
  by (auto simp: alarms_def alarm_def pend_def)

lemma alarms_each: "x \<in> set xs \<Longrightarrow> alarms (f x) \<Longrightarrow> (\<And>y. y \<in> set xs \<Longrightarrow> adds (sound_item r) (f y)) \<Longrightarrow> alarms (s_each f xs)"
proof (induction xs)
  case (Cons y ys)
  show ?case
  proof (cases "x = y")
    case True
    then show ?thesis using Cons.prems by (auto intro!: alarms_first [of _ "sound_item r"] adds_each)
  next
    case False
    then show ?thesis using Cons by (auto intro!: alarms_then [of r])
  qed
qed simp

lemma alarms_has_id: "plain_infos w \<Longrightarrow> has_id k (dr_pending w) \<Longrightarrow> \<not> informative (VStr k) \<Longrightarrow> alarm w"
  unfolding has_id_def list_ex_iff plain_infos_def alarm_def by (metis is_str.simps(1))

section \<open>What the reports have to say for a clear sky\<close>

definition open_detection :: "val \<Rightarrow> bool" where
  "open_detection v \<longleftrightarrow> (\<exists>d. v = VDict d \<and> str_in (dget d ''state'') [''DETECTED'', ''QUARANTINE_FAILED'', ''QUARANTINE_PENDING''] \<and> dget d ''source_status'' \<noteq> VStr ''MISSING'')"

definition blocked_usb :: "val \<Rightarrow> bool" where
  "blocked_usb v \<longleftrightarrow> (\<exists>d. v = VDict d \<and> \<not> truthy (dget d ''controller'') \<and> str_in (dget d ''state'') [''BLOCK'', ''REJECT''])"

definition unfinished_approval :: "string \<times> val \<Rightarrow> bool" where
  "unfinished_approval p \<longleftrightarrow> str_in (vget (snd p) ''state'') UNFINISHED"

definition check_fails :: "val list \<Rightarrow> string \<Rightarrow> bool" where
  "check_fails checks key \<longleftrightarrow> str_in (dget_or (check_of [d. VDict d \<leftarrow> checks] key) ''state'' (VStr ''UNAVAILABLE'')) [''REVIEW_NEEDED'', ''ACTION_REQUIRED'', ''UNKNOWN'', ''UNAVAILABLE'']"

text \<open>No provider reports a condition that needs attention.\<close>

definition devices_clear :: "reports \<Rightarrow> bool" where
  "devices_clear r \<longleftrightarrow> (if rp_usb_error r then dget (rp_shell r) ''evaluated_checks'' \<noteq> VNone \<and> \<not> list_ex unfinished_approval (rp_operations r)
     else \<not> list_ex blocked_usb (take 64 (rp_devices r)))"

definition checks_clear :: "reports \<Rightarrow> bool" where
  "checks_clear r \<longleftrightarrow> (case dget (rp_shell r) ''evaluated_checks'' of
       VNone \<Rightarrow> \<not> str_in (vget (dget_or (rp_shell r) ''firewall'' (VDict [])) ''state'') [''UNAVAILABLE'', ''DISABLED'', ''INACTIVE'']
     | VList checks \<Rightarrow> \<not> check_fails checks ''network.active-connection'' \<and> \<not> check_fails checks ''devices.usbguard.posture''
     | _ \<Rightarrow> True)"

definition network_clear :: "reports \<Rightarrow> bool" where
  "network_clear r \<longleftrightarrow> \<not> str_in (vget (dget_or (rp_network r) ''opensnitch'' (VDict [])) ''state'') [''DEGRADED'', ''UNAVAILABLE'']
     \<and> (let threat = py_or (dget (rp_network r) ''threat_intel'') (VDict []) in
        truthy (vget threat ''enabled'') \<longrightarrow> \<not> str_in (vget threat ''state'') [''ERROR'', ''STALE'', ''UNAVAILABLE''])"

definition files_clear :: "reports \<Rightarrow> bool" where
  "files_clear r \<longleftrightarrow> \<not> list_ex open_detection (take 64 (as_list (dget_or (rp_files r) ''detections'' (VList []))))
     \<and> (case malware_state (rp_shell r) (rp_files r) of Inr state \<Rightarrow> \<not> str_in state [''INITIALIZING'', ''OUTDATED'', ''UNAVAILABLE'', ''UPDATING''] | Inl err \<Rightarrow> True)
     \<and> (dget (rp_files r) ''state'' = VStr ''UNAVAILABLE'' \<longrightarrow> truthy (dget (rp_files r) ''active_scan''))"

definition sensors_clear :: "reports \<Rightarrow> bool" where
  "sensors_clear r \<longleftrightarrow> \<not> list_ex (\<lambda>v. vget v ''category'' = VStr ''ACTIVE_SENSOR'' \<and> str_in (vget v ''state'') [''UNAVAILABLE'', ''STALE'']
       \<or> vget v ''category'' = VStr ''DEGRADED_PROTECTION'' \<and> vget v ''state'' = VStr ''DEGRADED'')
     (as_list (dget_or (rp_capsule r) ''signals'' (VList [])))"

subsection \<open>Each condition raises an alarm\<close>

lemmas key_simps = severe_def settled_def INFORMATIVE_def

lemma alarms_warning:
  "\<not> informative (VStr k) \<Longrightarrow> alarms (pend (warning k title detail route []))" "\<not> informative (VStr k) \<Longrightarrow> alarms (pend (warning k title detail route settled))"
  "\<not> informative (VStr k) \<Longrightarrow> alarms (pend (warning k title detail route ((''check_id'', c) # settled)))"
  by (rule alarms_pend; simp add: severe_def settled_def)+

lemma alarms_sensor: "alarms sensor_lost"
proof -
  have "alarm w'" if "plain_infos w" "sensor_lost w = (Inr u, w')" for w u w'
  proof (cases "has_id ''sensor-unavailable'' (dr_pending w)")
    case True
    then show ?thesis using alarms_has_id [OF that(1) True] that(2) by (simp add: sensor_lost_def INFORMATIVE_def)
  next
    case False
    then show ?thesis using that alarms_warning(1) [of "''sensor-unavailable''"] by (auto simp: sensor_lost_def alarms_def INFORMATIVE_def)
  qed
  then show ?thesis unfolding alarms_def by blast
qed

lemma alarms_capsule:
  assumes "vget v ''category'' = VStr ''ACTIVE_SENSOR'' \<and> str_in (vget v ''state'') [''UNAVAILABLE'', ''STALE'']
    \<or> vget v ''category'' = VStr ''DEGRADED_PROTECTION'' \<and> vget v ''state'' = VStr ''DEGRADED''"
  shows "alarms (capsule_signal e v)"
  using assms unfolding capsule_signal_def
  by (intro alarms_lift) (auto simp: vget_def Let_def INFORMATIVE_def intro!: alarms_lift alarms_sensor alarms_warning)

lemma alarms_detected: "open_detection v \<Longrightarrow> alarms (detected_file e v)"
  unfolding detected_file_def open_detection_def Let_def
  by (intro alarms_lift) (auto simp: Let_def INFORMATIVE_def severe_def intro!: alarms_pend)

lemma alarms_blocked: "alarms (blocked_device device ref op)"
  unfolding blocked_device_def Let_def
  by (intro alarms_lift alarms_pend) (auto simp: INFORMATIVE_def severe_def)

lemma alarms_device: "blocked_usb v \<Longrightarrow> alarms (usb_device operations v)"
  unfolding usb_device_def blocked_usb_def Let_def
  by (intro alarms_lift) (auto intro!: alarms_blocked alarms_lift)

lemma alarms_operation: "unfinished_approval p \<Longrightarrow> alarms (usb_operation p)"
  unfolding usb_operation_def unfinished_approval_def
  by (cases p) (auto simp: INFORMATIVE_def severe_def vget_def intro!: alarms_pend alarms_lift)

lemma alarms_usb: "\<not> devices_clear r \<Longrightarrow> alarms (usb_section (rp_shell r) (rp_devices r) (rp_usb_error r) (rp_operations r))"
proof -
  assume *: "\<not> devices_clear r"
  then consider "rp_usb_error r" "dget (rp_shell r) ''evaluated_checks'' = VNone" | p where "rp_usb_error r" "p \<in> set (rp_operations r)" "unfinished_approval p"
    | v where "\<not> rp_usb_error r" "v \<in> set (take 64 (rp_devices r))" "blocked_usb v"
    by (auto simp: devices_clear_def list_ex_iff split: if_splits)
  then show ?thesis
  proof cases
    case 1
    then show ?thesis unfolding usb_section_def
      by (auto simp: INFORMATIVE_def intro!: alarms_first [where Q = "sound_item r"] alarms_warning adds_each adds_operation)
  next
    case 2
    then show ?thesis unfolding usb_section_def
      by (auto intro!: alarms_then [of r] adds_intros alarms_each [of _ _ _ r] alarms_operation adds_operation)
  next
    case 3
    then show ?thesis unfolding usb_section_def using adds_device by (auto intro!: alarms_each [of _ _ _ r] alarms_device)
  qed
qed

lemma adds_check: "adds (sound_item r) (evaluated_check ds row)"
  unfolding evaluated_check_def by (cases row) (auto intro!: adds_intros)

lemma alarms_check:
  "str_in (dget_or (check_of ds key) ''state'' (VStr ''UNAVAILABLE'')) [''REVIEW_NEEDED'', ''ACTION_REQUIRED'', ''UNKNOWN'', ''UNAVAILABLE'']
    \<Longrightarrow> \<not> informative (VStr reference) \<Longrightarrow> alarms (evaluated_check ds (key, reference, title))"
  unfolding evaluated_check_def by (auto intro!: alarms_lift alarms_warning)

lemma alarms_checks:
  assumes "dget shell ''evaluated_checks'' = VList checks" and "check_fails checks ''network.active-connection'' \<or> check_fails checks ''devices.usbguard.posture''"
  shows "alarms (checks_section shell)"
proof -
  have rows: "\<exists>row \<in> set [(''network.active-connection'', ''firewall-unavailable'', ''Firewall needs attention''),
      (''devices.usbguard.posture'', ''usb-unavailable'', ''Device protection needs attention'')]. alarms (evaluated_check [d. VDict d \<leftarrow> checks] row)"
    using assms(2) alarms_check [of "[d. VDict d \<leftarrow> checks]"] by (auto simp: check_fails_def INFORMATIVE_def)
  have "ds = [d. VDict d \<leftarrow> checks]" if "check_table checks = Inr ds" for ds
    using that by (simp add: check_table_def Let_def split: if_splits)
  then show ?thesis using rows adds_check unfolding checks_section_def assms(1) by (auto simp del: s_each.simps intro!: alarms_lift intro: alarms_each)
qed

lemma alarms_network:
  assumes "\<not> checks_clear r \<or> \<not> network_clear r" shows "alarms (network_sections e parse wall r)"
proof -
  let ?shell = "rp_shell r"
  have firewall: "alarms (firewall_section ?shell)" if "dget ?shell ''evaluated_checks'' = VNone"
    "str_in (vget (dget_or ?shell ''firewall'' (VDict [])) ''state'') [''UNAVAILABLE'', ''DISABLED'', ''INACTIVE'']"
    unfolding firewall_section_def nested_def using that
    by (cases "dget_or ?shell ''firewall'' (VDict [])") (auto simp: vget_def INFORMATIVE_def intro!: alarms_lift alarms_warning)
  have snitch: "alarms (opensnitch_section v)" if "str_in (vget v ''state'') [''DEGRADED'', ''UNAVAILABLE'']" for v
    unfolding opensnitch_section_def using that by (intro alarms_lift) (auto simp: vget_def INFORMATIVE_def intro!: alarms_warning)
  have threat: "alarms (threat_section v)" if "truthy (vget (py_or v (VDict [])) ''enabled'')" "str_in (vget (py_or v (VDict [])) ''state'') [''ERROR'', ''STALE'', ''UNAVAILABLE'']" for v
    unfolding threat_section_def using that by (intro alarms_lift) (auto simp: vget_def INFORMATIVE_def intro!: alarms_lift alarms_warning)
  have rest: "adds (sound_item r) (s_bind (s_lift p) (s_each (blocked_connection e parse wall)))" for p
    by (intro adds_intros adds_each adds_connection)
  consider "alarms (checks_section ?shell)" | "alarms (firewall_section ?shell)"
    | "alarms (opensnitch_section (dget_or (rp_network r) ''opensnitch'' (VDict [])))" | "alarms (threat_section (dget (rp_network r) ''threat_intel''))"
    using assms alarms_checks firewall snitch threat unfolding checks_clear_def network_clear_def Let_def by (auto split: val.splits)
  then show ?thesis
    unfolding network_sections_def by cases (intro alarms_then [of r] alarms_first [where Q = "sound_item r"] adds_bind rest adds_checks adds_protection; assumption)+
qed

lemma malware_alarm:
  "str_in state [''OUTDATED'', ''UNAVAILABLE'', ''UPDATING''] \<Longrightarrow> alarms (malware_section files state)"
  unfolding malware_section_def by (auto simp: INFORMATIVE_def intro!: alarms_then adds_intros alarms_lift alarms_warning)

definition malware_clear :: "reports \<Rightarrow> bool" where
  "malware_clear r \<longleftrightarrow> (\<forall>state. malware_state (rp_shell r) (rp_files r) = Inr state \<longrightarrow> \<not> str_in state [''OUTDATED'', ''UNAVAILABLE'', ''UPDATING''])"

lemma iter_member: "py_iter v = Inr xs \<Longrightarrow> x \<in> set (as_list v) \<Longrightarrow> x \<in> set xs"
  by (cases v) auto

lemma slice_member: "py_bind (py_slice n v) py_iter = Inr xs \<Longrightarrow> x \<in> set (take n (as_list v)) \<Longrightarrow> x \<in> set xs"
  by (cases v) (auto simp: py_slice_def py_bind_eq_Inr)

lemma alarms_scan: "dget files ''state'' = VStr ''UNAVAILABLE'' \<Longrightarrow> \<not> truthy (dget files ''active_scan'') \<Longrightarrow> alarms (scan_section e files)"
  unfolding scan_section_def by (auto simp: py_or_def INFORMATIVE_def intro!: alarms_warning)

lemma alarms_files:
  assumes "list_ex open_detection (take 64 (as_list (dget_or (rp_files r) ''detections'' (VList []))))
    \<or> dget (rp_files r) ''state'' = VStr ''UNAVAILABLE'' \<and> \<not> truthy (dget (rp_files r) ''active_scan'') \<or> \<not> malware_clear r"
  shows "alarms (file_sections e parse current r)"
proof -
  have results: "adds (sound_item r) (s_bind (s_lift (scan_results e parse current (rp_files r))) (\<lambda>results. s_bind (s_each pend results) (\<lambda>_. k)))"
    if "adds (sound_item r) k" for k :: "(draft, unit) act" using that by (intro adds_lift_bind adds_bind adds_results) auto
  have malware: "adds (sound_item r) (s_bind (s_lift p) (malware_section (rp_files r)))" for p by (intro adds_intros adds_scan)
  have down: "alarms (s_bind (s_lift (malware_state (rp_shell r) (rp_files r))) (malware_section (rp_files r)))" if "\<not> malware_clear r"
    using that malware_alarm unfolding malware_clear_def by (intro alarms_lift) auto
  from assms consider (detection) v where "v \<in> set (take 64 (as_list (dget_or (rp_files r) ''detections'' (VList []))))" "open_detection v"
    | (scan) "dget (rp_files r) ''state'' = VStr ''UNAVAILABLE''" "\<not> truthy (dget (rp_files r) ''active_scan'')" | (malware) "\<not> malware_clear r"
    unfolding list_ex_iff by blast
  then show ?thesis
  proof cases
    case detection
    then show ?thesis unfolding file_sections_def
      by (intro alarms_lift alarms_first [where Q = "sound_item r"] alarms_each [of v _ _ r] alarms_detected adds_detected adds_bind adds_scan results malware) (auto dest: slice_member)
  next
    case scan
    then have "alarms (scan_section e (rp_files r))" by (rule alarms_scan)
    then show ?thesis unfolding file_sections_def
      by (intro alarms_lift alarms_then [of r "s_each f xs" for f xs] alarms_first [where Q = "sound_item r"] adds_each adds_detected results malware)
  next
    case malware
    then show ?thesis unfolding file_sections_def
      by (intro alarms_lift [where p = "py_bind a b" for a b] alarms_lift [where p = "scan_results e parse current (rp_files r)"] alarms_then [of r "s_each f xs" for f xs] alarms_then [of r "scan_section e (rp_files r)"]
        adds_each [where f = "detected_file e"] adds_detected adds_scan adds_results down)
  qed
qed

definition clear_reports :: "reports \<Rightarrow> bool" where
  "clear_reports r \<longleftrightarrow> devices_clear r \<and> checks_clear r \<and> network_clear r \<and> files_clear r \<and> sensors_clear r"

lemma adds_network: "adds (sound_item r) (network_sections e parse wall r)"
  unfolding network_sections_def by (intro adds_intros adds_each adds_checks adds_protection adds_connection)

lemma adds_files: "adds (sound_item r) (file_sections e parse current r)"
  unfolding file_sections_def by (intro adds_lift_bind adds_bind adds_each [where f = "detected_file e"] adds_detected adds_scan adds_results)

lemma alarms_sensors: "\<not> sensors_clear r \<Longrightarrow> py_iter (dget_or (rp_capsule r) ''signals'' (VList [])) = Inr signals \<Longrightarrow> alarms (s_each (capsule_signal e) signals)"
  unfolding sensors_clear_def list_ex_iff using alarms_capsule adds_capsule iter_member by (blast intro: alarms_each)

lemma alarms_sections:
  assumes "\<not> clear_reports r" and "malware_state (rp_shell r) (rp_files r) \<noteq> Inr (VStr ''INITIALIZING'')"
  shows "alarms (experience_sections e parse wall current r)"
proof -
  have files: "alarms (file_sections e parse current r)" if "\<not> files_clear r"
  proof (rule alarms_files)
    have "str_in state [''OUTDATED'', ''UNAVAILABLE'', ''UPDATING'']" if "malware_state (rp_shell r) (rp_files r) = Inr state"
      "str_in state [''INITIALIZING'', ''OUTDATED'', ''UNAVAILABLE'', ''UPDATING'']" for state using that assms(2) by (auto simp: str_in_iff)
    then show "list_ex open_detection (take 64 (as_list (dget_or (rp_files r) ''detections'' (VList []))))
      \<or> dget (rp_files r) ''state'' = VStr ''UNAVAILABLE'' \<and> \<not> truthy (dget (rp_files r) ''active_scan'') \<or> \<not> malware_clear r"
      using \<open>\<not> files_clear r\<close> unfolding files_clear_def malware_clear_def by (cases "malware_state (rp_shell r) (rp_files r)") auto
  qed
  note rest = adds_basic adds_bind adds_usb adds_network adds_files adds_each [where f = "change_event e"] adds_change adds_update
  note after = adds_each [where f = "access_block e"] adds_access adds_each [where f = "capsule_signal e"] adds_capsule rest
  consider "\<not> sensors_clear r" | "\<not> devices_clear r" | "alarms (network_sections e parse wall r)" | "\<not> files_clear r"
    using assms(1) alarms_network unfolding clear_reports_def by blast
  then show ?thesis
  proof cases
    case 1
    show ?thesis unfolding experience_sections_def
      by (intro alarms_then [of r "s_each (access_block e) xs" for xs] alarms_lift [where p = "py_iter xs" for xs] alarms_first [where Q = "sound_item r"] alarms_sensors [OF 1] after)
  next
    case 2
    show ?thesis unfolding experience_sections_def
      by (intro alarms_then [of r "s_each f xs" for f xs] alarms_lift [where p = "py_iter xs" for xs] alarms_first [where Q = "sound_item r"] alarms_usb after) (rule 2)
  next
    case 3
    then show ?thesis unfolding experience_sections_def
      by (intro alarms_then [of r "s_each f xs" for f xs] alarms_then [of r "usb_section s d u os" for s d u os] alarms_lift [where p = "py_iter xs" for xs]
        alarms_first [where Q = "sound_item r"] after)
  next
    case 4
    show ?thesis unfolding experience_sections_def
      by (intro alarms_then [of r "s_each f xs" for f xs] alarms_then [of r "usb_section s d u os" for s d u os] alarms_then [of r "network_sections e parse wall r"]
        alarms_lift [where p = "py_iter xs" for xs] alarms_first [where Q = "sound_item r"] files after) (rule 4)
  qed
qed

end
