(* ===== verification/Shell_Experience_Props.thy ===== *)
theory Shell_Experience_Props
  imports Shell_Experience_Alarms
begin

text \<open>
  What the presentation promises: when the shell may say that the system is protected, when it may offer to
  trust a USB device, and the bounds and the order of what it shows.
\<close>

section \<open>One item per identifier\<close>

text \<open>The table built so far: each item is under its own identifier.\<close>

definition keyed :: "(val \<times> dict) list \<Rightarrow> bool" where
  "keyed acc \<longleftrightarrow> distinct (map fst acc) \<and> (\<forall>(i, x) \<in> set acc. i = canon (dget x ''id''))"

lemma update_members: "set (AList.update k v xs) \<subseteq> insert (k, v) (set xs)"
  by (induction xs) auto

lemma put_item_facts:
  assumes "put_item acc x = Inr acc'" and "keyed acc"
  shows "keyed acc'" and "snd ` set acc' \<subseteq> insert x (snd ` set acc)" and "fst ` set acc' = insert (canon (dget x ''id'')) (fst ` set acc)"
proof -
  obtain i where i: "dget x ''id'' = i" "acc' = AList.update (canon i) x acc"
    using assms(1) by (auto simp: put_item_def py_bind_eq_Inr dindex_def dget_def split: option.splits if_splits)
  show "keyed acc'" using assms(2) update_members [of "canon i" x acc] unfolding keyed_def i(2) by (auto simp: i(1) intro: distinct_update)
  show "snd ` set acc' \<subseteq> insert x (snd ` set acc)" using update_members [of "canon i" x acc] unfolding i(2) by fastforce
  show "fst ` set acc' = insert (canon (dget x ''id'')) (fst ` set acc)" by (simp add: i dom_update)
qed

lemma fold_put_item:
  assumes "py_fold put_item acc xs = Inr acc'" and "keyed acc"
  shows "keyed acc' \<and> snd ` set acc' \<subseteq> set xs \<union> snd ` set acc \<and> fst ` set acc' = (\<lambda>x. canon (dget x ''id'')) ` set xs \<union> fst ` set acc"
  using assms
proof (induction xs arbitrary: acc)
  case (Cons x xs)
  then obtain b where b: "put_item acc x = Inr b" "py_fold put_item b xs = Inr acc'" by (auto simp: py_bind_eq_Inr)
  note f = put_item_facts [OF b(1) Cons.prems(2)] and ih = Cons.IH [OF b(2) put_item_facts(1) [OF b(1) Cons.prems(2)]]
  have "snd ` set acc' \<subseteq> set (x # xs) \<union> snd ` set acc" using ih f(2) by (simp only: list.set) blast
  then show ?case using ih f(3) by simp
qed simp

lemma distinct_items_facts:
  assumes "distinct_items xs = Inr ys"
  shows "set ys \<subseteq> set xs" and "distinct (map (\<lambda>x. canon (dget x ''id'')) ys)"
    and "(\<lambda>x. canon (dget x ''id'')) ` set ys = (\<lambda>x. canon (dget x ''id'')) ` set xs"
proof -
  obtain acc where acc: "py_fold put_item [] xs = Inr acc" "ys = map snd acc" using assms by (auto simp: distinct_items_def py_bind_eq_Inr)
  then have *: "keyed acc" "snd ` set acc \<subseteq> set xs" "fst ` set acc = (\<lambda>x. canon (dget x ''id'')) ` set xs"
    using fold_put_item [OF acc(1)] by (auto simp: keyed_def)
  then have "map fst acc = map (\<lambda>x. canon (dget x ''id'')) ys" by (auto simp: acc(2) keyed_def)
  then show "distinct (map (\<lambda>x. canon (dget x ''id'')) ys)" "(\<lambda>x. canon (dget x ''id'')) ` set ys = (\<lambda>x. canon (dget x ''id'')) ` set xs"
    using *(1,3) by (metis keyed_def, metis list.set_map)
  show "set ys \<subseteq> set xs" using *(2) by (simp add: acc(2))
qed

section \<open>The order of the items\<close>

interpretation by_severity: ranked_order item_before fst
  by unfold_locales (auto simp: item_before_def split: if_splits)

lemma ranked_items: "py_map ranked_item xs = Inr rs \<Longrightarrow> map snd rs = xs \<and> (\<forall>(n, x) \<in> set rs. item_rank x = Inr n)"
  by (induction xs arbitrary: rs) (auto simp: ranked_item_def py_bind_eq_Inr)

lemma sorted_items_facts:
  assumes "sorted_items pending = Inr items"
  obtains rs where "items = map snd rs" and "sorted (map fst rs)" and "\<forall>(n, x) \<in> set rs. item_rank x = Inr n"
    and "set items \<subseteq> set pending" and "distinct (map (\<lambda>x. canon (dget x ''id'')) items)"
    and "(\<lambda>x. canon (dget x ''id'')) ` set items = (\<lambda>x. canon (dget x ''id'')) ` set pending"
proof -
  obtain xs qs rs where *: "distinct_items pending = Inr xs" "py_map ranked_item xs = Inr qs" "py_sorted item_before qs = Inr rs" "items = map snd rs"
    using assms by (auto simp: sorted_items_def py_bind_eq_Inr)
  have q: "map snd qs = xs" "\<forall>(n, x) \<in> set qs. item_rank x = Inr n" using ranked_items [OF *(2)] by auto
  have m: "mset rs = mset qs" using py_sorted_mset [OF *(3)] .
  then have "mset items = mset xs" using q(1) *(4) by (metis mset_map)
  then have "set items = set xs" "mset (map (\<lambda>x. canon (dget x ''id'')) items) = mset (map (\<lambda>x. canon (dget x ''id'')) xs)"
    by (metis set_mset_mset, metis mset_map)
  then show thesis using that [of rs] *(4) by_severity.py_sorted_sorted [OF *(3)] q(2) mset_eq_setD [OF m] distinct_items_facts [OF *(1)]
    by (metis mset_eq_imp_distinct_iff)
qed

definition needs_attention :: "val \<Rightarrow> bool" where
  "needs_attention v \<longleftrightarrow> str_in v [''CRITICAL'', ''ACTION'', ''WARNING'']"

lemma rank_severity:
  assumes "item_rank x = Inr n"
  shows "needs_attention (dget x ''severity'') \<longleftrightarrow> n < 3" and "severe x \<longleftrightarrow> n < 3" and "dget x ''severity'' = VStr ''INFO'' \<longleftrightarrow> n = 3"
  using assms
  by (auto simp: needs_attention_def item_rank_def severe_def dget_def dindex_def RANK_def py_bind_eq_Inr hashable_def split: option.splits if_splits val.splits)

text \<open>An item that needs attention is never behind one that needs none.\<close>

lemma first_item_severe:
  assumes "sorted_items pending = Inr items" and "x \<in> set items" and "severe x"
  shows "\<exists>y ys. items = y # ys \<and> needs_attention (dget y ''severity'')"
proof -
  obtain rs where rs: "items = map snd rs" "sorted (map fst rs)" "\<forall>(n, x) \<in> set rs. item_rank x = Inr n"
    using sorted_items_facts [OF assms(1)] by metis
  from rs(1) assms(2) obtain n where n: "(n, x) \<in> set rs" by auto
  obtain m y ps where p: "rs = (m, y) # ps" using n by (cases rs) auto
  then have "m \<le> n" using rs(2) n by auto
  moreover have "n < 3" using rank_severity(2) assms(3) n rs(3) by blast
  moreover have "item_rank y = Inr m" using p rs(3) by simp
  ultimately have "needs_attention (dget y ''severity'')" using rank_severity(1) by auto
  then show ?thesis using p rs(1) by simp
qed

section \<open>Items that can no longer be confirmed\<close>

lemma dupdate_other: "k \<notin> fst ` set xs \<Longrightarrow> dget (dupdate d xs) k = dget d k"
  by (induction xs arbitrary: d) (auto simp: dupdate_def)

lemma stale_fields: "dget (stale_item x) ''id'' = dget x ''id''" "dget (stale_item x) ''actions'' = VList []"
  by (simp_all add: stale_item_def dupdate_other) (simp add: dupdate_def)

lemma adds_previous: "adds (\<lambda>x. \<not> py_mem (dget x ''id'') present \<and> dget x ''actions'' = VList []) (previous_item u f present v)"
  unfolding previous_item_def by (intro adds_intros) (simp_all add: stale_fields)

text \<open>Some identifier that is shown belongs to items that need attention only.\<close>

definition alarmed :: "draft \<Rightarrow> bool" where
  "alarmed d \<longleftrightarrow> (\<exists>k. (\<exists>x \<in> set (dr_pending d). dget x ''id'' = VStr k) \<and> (\<forall>x \<in> set (dr_pending d). dget x ''id'' = VStr k \<longrightarrow> severe x))"

lemma alarm_alarmed: "alarm d \<Longrightarrow> plain_infos d \<Longrightarrow> alarmed d"
proof -
  assume a: "alarm d" and p: "plain_infos d"
  then obtain x k where x: "x \<in> set (dr_pending d)" "dget x ''id'' = VStr k" "\<not> informative (VStr k)"
    unfolding alarm_def by (metis is_str.elims(2))
  moreover have "severe y" if "y \<in> set (dr_pending d)" "dget y ''id'' = VStr k" for y using p that x(3) unfolding plain_infos_def by metis
  ultimately show ?thesis unfolding alarmed_def by blast
qed

lemma previous_section_adds:
  assumes "previous_section files u ps w = (Inr v, w')"
  obtains ys where "dr_pending w' = dr_pending w @ ys"
    and "\<And>y. y \<in> set ys \<Longrightarrow> \<not> py_mem (dget y ''id'') (map (\<lambda>x. dget x ''id'') (dr_pending w)) \<and> dget y ''actions'' = VList []"
proof -
  let ?present = "map (\<lambda>x. dget x ''id'') (dr_pending w)"
  have "adds (\<lambda>x. \<not> py_mem (dget x ''id'') ?present \<and> dget x ''actions'' = VList []) (s_each (previous_item u (dget files ''state'' = VStr ''UNAVAILABLE'') ?present) ps)"
    by (intro adds_each adds_previous)
  then show thesis using assms that unfolding previous_section_def adds_def by (force simp: Let_def list_all_iff split: if_splits)
qed

lemma previous_alarmed:
  assumes "previous_section files u ps w = (Inr v, w')" and "alarmed w" shows "alarmed w'"
proof -
  obtain ys where ys: "dr_pending w' = dr_pending w @ ys"
    "\<And>y. y \<in> set ys \<Longrightarrow> \<not> py_mem (dget y ''id'') (map (\<lambda>x. dget x ''id'') (dr_pending w))" using previous_section_adds [OF assms(1)] by metis
  obtain k x where k: "x \<in> set (dr_pending w)" "dget x ''id'' = VStr k" "\<And>y. y \<in> set (dr_pending w) \<Longrightarrow> dget y ''id'' = VStr k \<Longrightarrow> severe y"
    using assms(2) unfolding alarmed_def by blast
  have "dget y ''id'' \<noteq> VStr k" if "y \<in> set ys" for y using ys(2) [OF that] k(1,2) by (auto simp: py_mem_def list_ex_iff)
  then show ?thesis unfolding alarmed_def ys(1) using k by (metis UnE UnI1 set_append)
qed

lemma image_eq_preimage: "f ` A = f ` B \<Longrightarrow> x \<in> B \<Longrightarrow> \<exists>y \<in> A. f y = f x"
  by (metis image_iff)

lemma alarmed_first:
  assumes "alarmed d" and "sorted_items (dr_pending d) = Inr items"
  shows "\<exists>y ys. items = y # ys \<and> needs_attention (dget y ''severity'')"
proof -
  obtain k x where k: "x \<in> set (dr_pending d)" "dget x ''id'' = VStr k" "\<And>y. y \<in> set (dr_pending d) \<Longrightarrow> dget y ''id'' = VStr k \<Longrightarrow> severe y"
    using assms(1) unfolding alarmed_def by blast
  obtain y where y: "y \<in> set items" "canon (dget y ''id'') = canon (VStr k)" "y \<in> set (dr_pending d)"
  proof -
    have "set items \<subseteq> set (dr_pending d)" "(\<lambda>x. canon (dget x ''id'')) ` set items = (\<lambda>x. canon (dget x ''id'')) ` set (dr_pending d)"
      by (rule sorted_items_facts [OF assms(2)], assumption)+
    moreover from image_eq_preimage [OF this(2) k(1)] obtain y where "y \<in> set items" "canon (dget y ''id'') = canon (dget x ''id'')" by (rule bexE)
    ultimately show thesis using that k(2) by auto
  qed
  then have "dget y ''id'' = VStr k" using py_eq_str(2) unfolding py_eq_def by blast
  then show ?thesis using first_item_severe [OF assms(2) y(1)] k(3) y(3) by blast
qed

section \<open>The whole presentation\<close>

lemma build_experience_InrE:
  assumes "build_experience e parse reformat wall r now_value = Inr x"
  obtains d d' current details state where "experience_sections e parse wall current r empty_draft = (Inr (), d)"
    and "previous_section (rp_files r) (rp_usb_error r) (rp_previous_items r) d = (Inr (), d')" and "malware_state (rp_shell r) (rp_files r) = Inr state"
    and "finish_experience parse reformat current (rp_shell r) (state = VStr ''INITIALIZING'') details d' = Inr x"
proof -
  have inr: "\<exists>v. q = (Inr x, v)" if "fst q = Inr x" for q :: "dict py \<times> draft" using that by (metis prod.collapse)
  show thesis using inr [OF assms [unfolded build_experience_def Let_def]] unfolding s_bind_eq_Inr s_simps by (elim exE conjE) (rule that; simp)
qed

lemma presentation_fields:
  "dget (presentation shell until posture caption severity pending activity details) ''posture'' = posture"
  "dget (presentation shell until posture caption severity pending activity details) ''label'' = VStr (fst caption)"
  "dget (presentation shell until posture caption severity pending activity details) ''severity'' = severity"
  "dget (presentation shell until posture caption severity pending activity details) ''items'' = VList (map VDict pending)"
  "dget (presentation shell until posture caption severity pending activity details) ''activity'' = VList (map VDict (take 32 activity))"
  by (simp_all add: presentation_def dget_def)

lemma finish_experience_InrE:
  assumes "finish_experience parse reformat current shell initializing details d = Inr x"
  obtains items p posture severity until activity where "sorted_items (dr_pending d) = Inr items" and "dget_or shell ''posture'' (VDict []) = VDict p"
    and "posture = dget_or p ''state'' (VStr ''UNAVAILABLE'')" and "severity = shell_severity (take 64 items) posture"
    and "x = presentation shell until posture (shell_label (take 64 items) severity posture initializing) severity (take 64 items) activity details"
  using assms unfolding finish_experience_def by (auto simp: py_bind_eq_Inr Let_def split: if_splits)

lemma sections_plain:
  assumes "experience_sections e parse wall current r empty_draft = (v, d)" shows "plain_infos d"
  using plain_infos_adds [OF adds_sections assms] by (simp add: plain_infos_def empty_draft_def)

lemma sections_alarmed:
  assumes "experience_sections e parse wall current r empty_draft = (Inr (), d)" and "\<not> clear_reports r"
    and "malware_state (rp_shell r) (rp_files r) \<noteq> Inr (VStr ''INITIALIZING'')"
  shows "alarmed d"
proof (rule alarm_alarmed)
  have "plain_infos empty_draft" by (simp add: plain_infos_def empty_draft_def)
  then show "alarm d" using alarms_sections [OF assms(2,3)] assms(1) unfolding alarms_def by blast
  show "plain_infos d" using sections_plain [OF assms(1)] .
qed

lemma protected_label:
  "fst (shell_label pending severity posture initializing) = ''Protected'' \<longleftrightarrow>
    \<not> needs_attention severity \<and> good_posture posture \<and> \<not> (initializing \<and> severity = VStr ''INFO'')"
  by (auto simp: shell_label_def needs_attention_def str_in_iff)

text \<open>
  C12: Protected is never shown by mistake. When the presentation says so, the evaluated posture is secure, every item it
  shows is informational, and no provider reports a condition that needs attention: devices and their approvals,
  evaluated checks or the firewall, network protection and the threat feed, detected files, the scanner and its
  definitions, live sensors and Secure DNS.
\<close>

theorem protected_means_clear:
  assumes "build_experience e parse reformat wall r now_value = Inr x" and "dget x ''label'' = VStr ''Protected''"
  shows "clear_reports r \<and> good_posture (dget x ''posture'') \<and> dget x ''posture'' = vget (dget_or (rp_shell r) ''posture'' (VDict [])) ''state''
    \<and> list_all (\<lambda>i. vget i ''severity'' = VStr ''INFO'') (as_list (dget x ''items''))"
proof -
  obtain d d' current details state where run: "experience_sections e parse wall current r empty_draft = (Inr (), d)"
    and prev: "previous_section (rp_files r) (rp_usb_error r) (rp_previous_items r) d = (Inr (), d')" and state: "malware_state (rp_shell r) (rp_files r) = Inr state"
    and fin: "finish_experience parse reformat current (rp_shell r) (state = VStr ''INITIALIZING'') details d' = Inr x"
    using build_experience_InrE [OF assms(1)] by metis
  obtain items p posture severity until activity where items: "sorted_items (dr_pending d') = Inr items"
    and p: "dget_or (rp_shell r) ''posture'' (VDict []) = VDict p" and posture: "posture = dget_or p ''state'' (VStr ''UNAVAILABLE'')"
    and severity: "severity = shell_severity (take 64 items) posture"
    and x: "x = presentation (rp_shell r) until posture (shell_label (take 64 items) severity posture (state = VStr ''INITIALIZING'')) severity (take 64 items) activity details"
    using finish_experience_InrE [OF fin] by metis
  have label: "\<not> needs_attention severity" "good_posture posture" "\<not> (state = VStr ''INITIALIZING'' \<and> severity = VStr ''INFO'')"
    using assms(2) protected_label unfolding x presentation_fields by auto
  have quiet: "\<not> (\<exists>y ys. items = y # ys \<and> needs_attention (dget y ''severity''))" using label(1) severity by (auto simp: shell_severity_def)
  then have infos: "\<not> severe i" if "i \<in> set items" for i using first_item_severe [OF items that] by blast
  have "severity = VStr ''INFO''" using infos label(2) unfolding severity shell_severity_def
    by (cases items) (auto simp: severe_def good_posture_def)
  then have "clear_reports r" using sections_alarmed [OF run] previous_alarmed [OF prev] alarmed_first [OF _ items] quiet state label(3) by auto
  moreover have "posture = vget (VDict p) ''state''" using label(2) posture by (auto simp: good_posture_def dget_or_def dget_def vget_def split: option.splits)
  ultimately show ?thesis using label(2) infos p unfolding x presentation_fields by (auto simp: list_all_iff severe_def vget_def dest: in_set_takeD)
qed

text \<open>
  C31: The panel offers to trust a USB device only for a device that the provider reports as blocked in this very reading, that
  is no controller and has no approval under way; the item carries the reference of that device, and lasting trust
  is offered only where the provider can keep it. When the devices cannot be read nothing offers trust, and
  neither does an item carried over from before.
\<close>

theorem trust_only_for_blocked_devices:
  assumes "build_experience e parse reformat wall r now_value = Inr x" and "VDict i \<in> set (as_list (dget x ''items''))" and "offers_trust i"
  shows "\<not> rp_usb_error r \<and> (\<exists>v \<in> set (take 64 (rp_devices r)). approvable r i v)"
proof -
  obtain d d' current details state where run: "experience_sections e parse wall current r empty_draft = (Inr (), d)"
    and prev: "previous_section (rp_files r) (rp_usb_error r) (rp_previous_items r) d = (Inr (), d')"
    and fin: "finish_experience parse reformat current (rp_shell r) (state = VStr ''INITIALIZING'') details d' = Inr x"
    using build_experience_InrE [OF assms(1)] by metis
  obtain items where items: "sorted_items (dr_pending d') = Inr items" "dget x ''items'' = VList (map VDict (take 64 items))"
    using finish_experience_InrE [OF fin] presentation_fields(4) by metis
  have "i \<in> set items" using assms(2) items(2) by (auto dest: in_set_takeD)
  moreover have "set items \<subseteq> set (dr_pending d')" by (rule sorted_items_facts [OF items(1)])
  ultimately have i: "i \<in> set (dr_pending d')" ..
  obtain ys where ys: "dr_pending d' = dr_pending d @ ys" "\<And>y. y \<in> set ys \<Longrightarrow> dget y ''actions'' = VList []"
    using previous_section_adds [OF prev] by metis
  have "i \<notin> set ys" using ys(2) assms(3) by (auto simp: offers_trust_def offers_def)
  then have "i \<in> set (dr_pending d)" using i ys(1) by simp
  then have "sound_item r i" using adds_pending [OF adds_sections run] by (auto simp: empty_draft_def)
  then show ?thesis using assms(3) by (simp add: sound_item_def offer_ok_def)
qed

text \<open>
  At most sixty-four items and thirty-two activities are shown, no identifier twice, the most severe items first, and
  the overall severity is that of the first item.
\<close>

theorem items_bounded_and_ordered:
  assumes "build_experience e parse reformat wall r now_value = Inr x"
  shows "\<exists>items. dget x ''items'' = VList (map VDict items) \<and> length items \<le> 64 \<and> length (as_list (dget x ''activity'')) \<le> 32
    \<and> distinct (map (\<lambda>i. dget i ''id'') items) \<and> sorted_wrt (\<lambda>i j. \<exists>m n. item_rank i = Inr m \<and> item_rank j = Inr n \<and> m \<le> n) items
    \<and> (items \<noteq> [] \<longrightarrow> dget x ''severity'' = dget (hd items) ''severity'')"
proof -
  obtain d' current details state where fin: "finish_experience parse reformat current (rp_shell r) (state = VStr ''INITIALIZING'') details d' = Inr x"
    using build_experience_InrE [OF assms] by metis
  obtain items p posture severity until activity where items: "sorted_items (dr_pending d') = Inr items" and sev: "severity = shell_severity (take 64 items) posture"
    and x: "x = presentation (rp_shell r) until posture (shell_label (take 64 items) severity posture (state = VStr ''INITIALIZING'')) severity (take 64 items) activity details"
    using finish_experience_InrE [OF fin] by metis
  obtain rs where rs: "items = map snd rs" "sorted (map fst rs)" "\<forall>(n, x) \<in> set rs. item_rank x = Inr n"
    and ids: "distinct (map (\<lambda>x. canon (dget x ''id'')) items)" using sorted_items_facts [OF items] .
  have "sorted_wrt (\<lambda>a b. \<exists>m n. item_rank (snd a) = Inr m \<and> item_rank (snd b) = Inr n \<and> m \<le> n) rs"
    using rs(2,3) unfolding sorted_map by (rule_tac sorted_wrt_mono_rel [of rs "\<lambda>a b. fst a \<le> fst b"]) fastforce+
  then have "sorted_wrt (\<lambda>i j. \<exists>m n. item_rank i = Inr m \<and> item_rank j = Inr n \<and> m \<le> n) items" by (simp add: rs(1) sorted_wrt_map)
  then have sorted: "sorted_wrt (\<lambda>i j. \<exists>m n. item_rank i = Inr m \<and> item_rank j = Inr n \<and> m \<le> n) (take 64 items)" by (rule sorted_wrt_take)
  have "distinct (map canon (map (\<lambda>i. dget i ''id'') items))" using ids by (simp add: comp_def)
  then have "distinct (map (\<lambda>i. dget i ''id'') items)" unfolding distinct_map by blast
  then have distinct: "distinct (map (\<lambda>i. dget i ''id'') (take 64 items))" unfolding take_map [symmetric] by (rule distinct_take)
  have "severity = dget (hd (take 64 items)) ''severity''" if "take 64 items \<noteq> []"
    using that unfolding sev shell_severity_def by (cases "take 64 items") auto
  then show ?thesis using sorted distinct unfolding x presentation_fields by (intro exI [of _ "take 64 items"]) auto
qed

text \<open>With a posture that needs review, one informational item turns the label from needing review to an unavailable status.\<close>

lemma info_item_hides_review:
  "shell_label [] (shell_severity [] (VStr ''REVIEW NEEDED'')) (VStr ''REVIEW NEEDED'') False = (''Review needed'', ''Review system checks'')"
  "dget i ''severity'' = VStr ''INFO'' \<Longrightarrow>
    shell_label [i] (shell_severity [i] (VStr ''REVIEW NEEDED'')) (VStr ''REVIEW NEEDED'') False = (''Status unavailable'', ''Review system checks'')"
  by (simp_all add: shell_label_def shell_severity_def good_posture_def)

section \<open>Instances\<close>

definition demo_shell_env :: env where
  "demo_shell_env = \<lparr>env_now = VInt 0, env_boot = None, env_uuid = [], env_idna = (\<lambda>_. None), env_sha256 = (\<lambda>s. ''0''), env_float_repr = (\<lambda>_. ''0.5'')\<rparr>"

text \<open>All providers are well; and one blocked device beside them.\<close>

definition demo_reports :: "val list \<Rightarrow> reports" where
  "demo_reports devices = \<lparr>rp_shell = [(''posture'', VDict [(''state'', VStr ''SECURE'')]), (''firewall'', VDict [(''state'', VStr ''ACTIVE'')]),
       (''fresh_until'', VStr ''later'')],
     rp_capsule = [], rp_devices = devices, rp_usb_error = False, rp_files = [(''state'', VStr ''IDLE''), (''clamav'', VDict [(''status'', VStr ''READY'')])],
     rp_network = [(''opensnitch'', VDict [(''state'', VStr ''ACTIVE'')])], rp_operations = [], rp_previous_items = [], rp_access_blocks = []\<rparr>"

definition demo_stick :: dict where
  "demo_stick = [(''connection_ref'', VStr ''1-2''), (''state'', VStr ''BLOCK''), (''name'', VStr ''Stick'')]"

definition demo_item :: dict where
  "demo_item = notice_item (VStr ''usb:1-2'') ''usb'' ''ACTION'' (VStr ''Stick'') (VStr ''Blocked until you approve this device.'') ''devices'' [shell_action ''trust_once'' ''Trust once'']
     [(''connection_ref'', VStr ''1-2''), (''operation'', VStr ''IDLE''), (''notification_title'', VStr ''USB device needs approval''),
      (''notification_detail'', VStr ''Stick: Open the GREYWARD taskbar panel to approve this device.'')]"

lemmas demo_lookups = demo_reports_def demo_stick_def dget_def dget_or_def as_mapping_def in_keys_def hashable_def py_or_def py_bind_def Let_def

lemma demo_device: "usb_device [] (VDict demo_stick) empty_draft = (Inr (), empty_draft\<lparr>dr_pending := [demo_item]\<rparr>)"
  by (simp add: usb_device_def blocked_device_def operation_of_def py_concat_def demo_item_def pend_def empty_draft_def UNFINISHED_def str_in_def demo_lookups)

lemma demo_usb:
  "usb_section (rp_shell (demo_reports vs)) [] False [] empty_draft = (Inr (), empty_draft)"
  "usb_section (rp_shell (demo_reports vs)) [VDict demo_stick] False [] empty_draft = (Inr (), empty_draft\<lparr>dr_pending := [demo_item]\<rparr>)"
  using demo_device by (simp_all add: usb_section_def s_bind_def)

lemma demo_network: "network_sections e parse 0 (demo_reports vs) d = (Inr (), d)"
  by (simp add: network_sections_def checks_section_def firewall_section_def nested_def opensnitch_section_def threat_section_def s_bind_def demo_lookups)

lemma demo_files: "file_sections e parse 0 (demo_reports vs) d = (Inr (), d)"
  by (simp add: file_sections_def scan_section_def scan_results_def malware_state_def malware_section_def py_slice_def s_bind_def demo_lookups)

lemma demo_start: "rp_access_blocks (demo_reports vs) = []" "dget_or (rp_capsule (demo_reports vs)) ''signals'' (VList []) = VList []"
    "dget_or (rp_shell (demo_reports vs)) ''notification_events'' (VList []) = VList []" "rp_devices (demo_reports vs) = vs" "\<not> rp_usb_error (demo_reports vs)"
    "rp_operations (demo_reports vs) = []" "update_section e (rp_shell (demo_reports vs)) d = (Inr (), d)"
  by (simp_all add: update_section_def demo_lookups)

lemma demo_sections:
  "usb_section (rp_shell (demo_reports vs)) vs False [] empty_draft = (Inr (), d) \<Longrightarrow> experience_sections e parse 0 0 (demo_reports vs) empty_draft = (Inr (), d)"
  by (simp add: experience_sections_def demo_start demo_network demo_files s_bind_def)

lemma demo_rest:
  "previous_section (rp_files (demo_reports vs)) False (rp_previous_items (demo_reports vs)) d = (if list_all (\<lambda>x. hashable (dget x ''id'')) (dr_pending d) then Inr () else Inl TypeError, d)"
  "malware_state (rp_shell (demo_reports vs)) (rp_files (demo_reports vs)) = Inr (VStr ''READY'')"
  by (simp_all add: previous_section_def malware_state_def demo_lookups list_all_iff)

lemma demo_details: "\<exists>rows. shell_details e (rp_shell (demo_reports vs)) (dget_or (rp_network (demo_reports vs)) ''opensnitch'' (VDict [])) = Inr rows"
  by (simp add: shell_details_def nested_def demo_lookups)

lemma demo_finish:
  assumes "sorted_items (dr_pending d) = Inr items" and "dr_activity d = []"
  obtains until where "finish_experience (\<lambda>_. None) reformat 0 (rp_shell (demo_reports vs)) False rows d = Inr (presentation (rp_shell (demo_reports vs)) until (VStr ''SECURE'')
    (shell_label (take 64 items) (shell_severity (take 64 items) (VStr ''SECURE'')) (VStr ''SECURE'') False) (shell_severity (take 64 items) (VStr ''SECURE'')) (take 64 items) [] rows)"
proof -
  have shell: "dget_or (rp_shell (demo_reports vs)) ''posture'' (VDict []) = VDict [(''state'', VStr ''SECURE'')]"
    "display_until (\<lambda>_. None) reformat 0 (rp_shell (demo_reports vs)) (VStr ''SECURE'') = Inr (VStr (iso_micro 12))"
    by (simp_all add: display_until_def demo_lookups)
  then show thesis using assms that [of "VStr (iso_micro 12)"] by (simp add: finish_experience_def py_bind_def as_mapping_def Let_def hashable_def dget_or_def)
qed

lemma demo_build:
  assumes "usb_section (rp_shell (demo_reports vs)) vs False [] empty_draft = (Inr (), d)" and "list_all (\<lambda>x. hashable (dget x ''id'')) (dr_pending d)"
    and "sorted_items (dr_pending d) = Inr items" and "dr_activity d = []"
  obtains until rows where "build_experience e (\<lambda>_. None) reformat 0 (demo_reports vs) None = Inr (presentation (rp_shell (demo_reports vs)) until (VStr ''SECURE'')
    (shell_label (take 64 items) (shell_severity (take 64 items) (VStr ''SECURE'')) (VStr ''SECURE'') False) (shell_severity (take 64 items) (VStr ''SECURE'')) (take 64 items) [] rows)"
proof -
  obtain rows where rows: "shell_details e (rp_shell (demo_reports vs)) (dget_or (rp_network (demo_reports vs)) ''opensnitch'' (VDict [])) = Inr rows"
    using demo_details by blast
  have "build_experience e (\<lambda>_. None) reformat 0 (demo_reports vs) None = finish_experience (\<lambda>_. None) reformat 0 (rp_shell (demo_reports vs)) False rows d"
    using assms(2) by (simp add: build_experience_def Let_def s_bind_def demo_sections [OF assms(1)] rows demo_start demo_rest)
  then show thesis using that demo_finish [OF assms(3,4)] by metis
qed

lemma demo_clear:
  obtains until rows where "build_experience demo_shell_env (\<lambda>_. None) (\<lambda>s. s) 0 (demo_reports []) None =
    Inr (presentation (rp_shell (demo_reports [])) until (VStr ''SECURE'') (''Protected'', ''Protection is operating'') (VStr ''INFO'') [] [] rows)"
  using demo_build [OF demo_usb(1), of "[]" demo_shell_env "\<lambda>s. s"]
  by (simp add: empty_draft_def sorted_items_def distinct_items_def py_bind_def shell_severity_def shell_label_def good_posture_def) metis

lemma demo_blocked:
  obtains until rows label where "build_experience demo_shell_env (\<lambda>_. None) (\<lambda>s. s) 0 (demo_reports [VDict demo_stick]) None =
    Inr (presentation (rp_shell (demo_reports [VDict demo_stick])) until (VStr ''SECURE'') label (VStr ''ACTION'') [demo_item] [] rows)"
proof -
  have item: "dget demo_item ''id'' = VStr ''usb:1-2''" "dget demo_item ''severity'' = VStr ''ACTION''" by (simp_all add: demo_item_def)
  have "map_of demo_item ''id'' = Some (VStr ''usb:1-2'')" "map_of demo_item ''severity'' = Some (VStr ''ACTION'')"
    using item by (auto simp: dget_def split: option.splits)
  then have "sorted_items [demo_item] = Inr [demo_item]"
    by (simp add: sorted_items_def distinct_items_def put_item_def dindex_def ranked_item_def item_rank_def RANK_def hashable_def py_bind_def)
  then show thesis using demo_build [OF demo_usb(2), of "[demo_item]" demo_shell_env "\<lambda>s. s"] that item
    by (simp add: empty_draft_def shell_severity_def hashable_def) metis
qed

theorem protected_means_clear_witness:
  "\<exists>x. build_experience demo_shell_env (\<lambda>_. None) (\<lambda>s. s) 0 (demo_reports []) None = Inr x \<and> dget x ''label'' = VStr ''Protected''
    \<and> clear_reports (demo_reports []) \<and> good_posture (dget x ''posture'')"
proof -
  obtain until rows where x: "build_experience demo_shell_env (\<lambda>_. None) (\<lambda>s. s) 0 (demo_reports []) None =
    Inr (presentation (rp_shell (demo_reports [])) until (VStr ''SECURE'') (''Protected'', ''Protection is operating'') (VStr ''INFO'') [] [] rows)" by (rule demo_clear)
  have "clear_reports (demo_reports [])" using protected_means_clear [OF x] by (simp add: presentation_fields)
  then show ?thesis using x by (simp add: presentation_fields good_posture_def)
qed

theorem trust_only_for_blocked_devices_witness:
  "\<exists>x. build_experience demo_shell_env (\<lambda>_. None) (\<lambda>s. s) 0 (demo_reports [VDict demo_stick]) None = Inr x \<and> as_list (dget x ''items'') = [VDict demo_item]
    \<and> offers_trust demo_item \<and> approvable (demo_reports [VDict demo_stick]) demo_item (VDict demo_stick)"
proof -
  obtain until rows label where x: "build_experience demo_shell_env (\<lambda>_. None) (\<lambda>s. s) 0 (demo_reports [VDict demo_stick]) None =
    Inr (presentation (rp_shell (demo_reports [VDict demo_stick])) until (VStr ''SECURE'') label (VStr ''ACTION'') [demo_item] [] rows)" by (rule demo_blocked)
  have "offers_trust demo_item" by (simp add: demo_item_def offers_trust_def offers_def)
  then show ?thesis using trust_only_for_blocked_devices [OF x, of demo_item] x by (simp add: presentation_fields demo_start)
qed

theorem items_bounded_and_ordered_witness:
  "\<exists>x items. build_experience demo_shell_env (\<lambda>_. None) (\<lambda>s. s) 0 (demo_reports [VDict demo_stick]) None = Inr x
    \<and> dget x ''items'' = VList (map VDict items) \<and> items = [demo_item] \<and> dget x ''severity'' = dget (hd items) ''severity''"
proof -
  obtain until rows label where x: "build_experience demo_shell_env (\<lambda>_. None) (\<lambda>s. s) 0 (demo_reports [VDict demo_stick]) None =
    Inr (presentation (rp_shell (demo_reports [VDict demo_stick])) until (VStr ''SECURE'') label (VStr ''ACTION'') [demo_item] [] rows)" by (rule demo_blocked)
  show ?thesis using items_bounded_and_ordered [OF x] x by (auto simp: presentation_fields map_eq_Cons_conv)
qed

end
