(* ===== verification/Py_Regex.thy ===== *)
theory Py_Regex
  imports Py_Clean
begin

text \<open>
  Regular expressions as the module \<open>re\<close> matches them: by backtracking, with the alternatives in the order
  written, repetition greedy, word boundaries, starts and ends of lines, a look behind of one character and named groups. A position is
  the text before it, read backwards, and the text after it. \<open>rx_match\<close> computes all ways to match in the order in which
  they are tried; \<open>rx_rel\<close> says declaratively which parts of a text match, and \<open>rx_match_iff\<close> that the
  two agree.
\<close>

section \<open>Expressions\<close>

datatype rx =
    Ch "char \<Rightarrow> bool"
  | Eps
  | Seq rx rx
  | Alt rx rx
  | Many rx
  | Group string rx
  | Boundary
  | NotAfter "char \<Rightarrow> bool"
  | LineStart
  | LineEnd

type_synonym captures = "(string \<times> string) list"

text \<open>\<open>\w\<close> on the Latin-1 code points.\<close>

definition is_word :: "char \<Rightarrow> bool" where
  "is_word c \<longleftrightarrow> is_letter c \<or> is_digit c \<or> c = CHR ''_'' \<or> code c \<in> set [178, 179, 185, 188, 189, 190]"

definition word_at :: "string \<Rightarrow> bool" where
  "word_at s = (case s of [] \<Rightarrow> False | c # _ \<Rightarrow> is_word c)"

text \<open>\<open>^\<close> and \<open>$\<close> in multiline mode: at an end of the text or next to a line feed.\<close>

definition at_newline :: "string \<Rightarrow> bool" where
  "at_newline s = (case s of [] \<Rightarrow> True | c # _ \<Rightarrow> code c = 10)"

definition lit :: "string \<Rightarrow> rx" where
  "lit s = foldr (\<lambda>c. Seq (Ch ((=) c))) s Eps"

definition lit_ignoring_case :: "string \<Rightarrow> rx" where
  "lit_ignoring_case s = foldr (\<lambda>c. Seq (Ch (\<lambda>x. lower_char x = c))) s Eps"

definition some_of :: "rx \<Rightarrow> rx" where
  "some_of r = Seq r (Many r)"

primrec repeated :: "nat \<Rightarrow> rx \<Rightarrow> rx" where
  "repeated 0 r = Eps"
| "repeated (Suc n) r = Seq r (repeated n r)"

section \<open>Matching\<close>

text \<open>A repetition goes on only while it consumes something.\<close>

fun rx_match :: "rx \<Rightarrow> string \<Rightarrow> string \<Rightarrow> captures \<Rightarrow> (string \<times> string \<times> captures) list" where
  "rx_match (Ch f) p s c = (case s of [] \<Rightarrow> [] | x # xs \<Rightarrow> if f x then [(x # p, xs, c)] else [])"
| "rx_match Eps p s c = [(p, s, c)]"
| "rx_match (Seq r q) p s c = concat (map (\<lambda>(p', s', c'). rx_match q p' s' c') (rx_match r p s c))"
| "rx_match (Alt r q) p s c = rx_match r p s c @ rx_match q p s c"
| "rx_match (Many r) p s c = concat (map (\<lambda>(p', s', c'). if length s' < length s then rx_match (Many r) p' s' c' else []) (rx_match r p s c)) @ [(p, s, c)]"
| "rx_match (Group k r) p s c = map (\<lambda>(p', s', c'). (p', s', AList.update k (take (length s - length s') s) c')) (rx_match r p s c)"
| "rx_match Boundary p s c = (if word_at p \<noteq> word_at s then [(p, s, c)] else [])"
| "rx_match (NotAfter f) p s c = (case p of [] \<Rightarrow> [(p, s, c)] | x # _ \<Rightarrow> if f x then [] else [(p, s, c)])"
| "rx_match LineStart p s c = (if at_newline p then [(p, s, c)] else [])"
| "rx_match LineEnd p s c = (if at_newline s then [(p, s, c)] else [])"

declare rx_match.simps(5) [simp del]

lemma in_rx_match_Many:
  "t \<in> set (rx_match (Many r) p s c) \<longleftrightarrow>
    t = (p, s, c) \<or> (\<exists>p' s' c'. (p', s', c') \<in> set (rx_match r p s c) \<and> length s' < length s \<and> t \<in> set (rx_match (Many r) p' s' c'))"
  unfolding rx_match.simps(5) [of r p s c] by (auto split: if_splits)

record found =
  mt_text :: string
  mt_captures :: captures
  mt_before :: string
  mt_rest :: string

text \<open>\<open>re.search\<close>: the first match at the leftmost position that has one.\<close>

fun rx_search :: "rx \<Rightarrow> string \<Rightarrow> string \<Rightarrow> found option" where
  "rx_search r p s = (case rx_match r p s [] of
       (p', s', c) # _ \<Rightarrow> Some \<lparr>mt_text = take (length s - length s') s, mt_captures = c, mt_before = p', mt_rest = s'\<rparr>
     | [] \<Rightarrow> (case s of [] \<Rightarrow> None | x # xs \<Rightarrow> rx_search r (x # p) xs))"

declare rx_search.simps [simp del]

text \<open>\<open>re.finditer\<close> for an expression that does not match the empty text.\<close>

function rx_finditer :: "rx \<Rightarrow> string \<Rightarrow> string \<Rightarrow> found list" where
  "rx_finditer r p s = (case rx_search r p s of None \<Rightarrow> []
     | Some m \<Rightarrow> m # (if length (mt_rest m) < length s then rx_finditer r (mt_before m) (mt_rest m) else []))"
  by pat_completeness auto
termination by (relation "measure (\<lambda>(r, p, s). length s)") auto

declare rx_finditer.simps [simp del]

text \<open>\<open>re.fullmatch\<close>.\<close>

definition rx_full :: "rx \<Rightarrow> string \<Rightarrow> bool" where
  "rx_full r s = list_ex (\<lambda>(p, rest, c). rest = []) (rx_match r [] s [])"

section \<open>What a match means\<close>

text \<open>\<open>rx_rel r p x s\<close>: the expression matches the text \<open>x\<close> between \<open>p\<close>, read backwards, and \<open>s\<close>.\<close>

inductive rx_rel :: "rx \<Rightarrow> string \<Rightarrow> string \<Rightarrow> string \<Rightarrow> bool" where
  "f x \<Longrightarrow> rx_rel (Ch f) p [x] s"
| "rx_rel Eps p [] s"
| "rx_rel r p x (y @ s) \<Longrightarrow> rx_rel q (rev x @ p) y s \<Longrightarrow> rx_rel (Seq r q) p (x @ y) s"
| "rx_rel r p x s \<Longrightarrow> rx_rel (Alt r q) p x s"
| "rx_rel q p x s \<Longrightarrow> rx_rel (Alt r q) p x s"
| "rx_rel (Many r) p [] s"
| "rx_rel r p x (y @ s) \<Longrightarrow> x \<noteq> [] \<Longrightarrow> rx_rel (Many r) (rev x @ p) y s \<Longrightarrow> rx_rel (Many r) p (x @ y) s"
| "rx_rel r p x s \<Longrightarrow> rx_rel (Group k r) p x s"
| "word_at p \<noteq> word_at s \<Longrightarrow> rx_rel Boundary p [] s"
| "(\<And>c q. p = c # q \<Longrightarrow> \<not> f c) \<Longrightarrow> rx_rel (NotAfter f) p [] s"
| "at_newline p \<Longrightarrow> rx_rel LineStart p [] s"
| "at_newline s \<Longrightarrow> rx_rel LineEnd p [] s"

inductive_cases rx_relE:
  "rx_rel (Ch f) p x s" "rx_rel Eps p x s" "rx_rel (Seq r q) p x s" "rx_rel (Alt r q) p x s" "rx_rel (Group k r) p x s"
  "rx_rel Boundary p x s" "rx_rel (NotAfter f) p x s" "rx_rel LineStart p x s" "rx_rel LineEnd p x s"

lemma rx_match_sound: "(p', s', c') \<in> set (rx_match r p s c) \<Longrightarrow> \<exists>x. s = x @ s' \<and> p' = rev x @ p \<and> rx_rel r p x s'"
proof (induction r p s c arbitrary: p' s' c' rule: rx_match.induct)
  case (3 r q p s c)
  then obtain p1 s1 c1 where *: "(p1, s1, c1) \<in> set (rx_match r p s c)" "(p', s', c') \<in> set (rx_match q p1 s1 c1)" by auto
  then obtain x where x: "s = x @ s1" "p1 = rev x @ p" "rx_rel r p x s1" using "3.IH"(1) by blast
  obtain y where y: "s1 = y @ s'" "p' = rev y @ p1" "rx_rel q p1 y s'" using "3.IH"(2) * by blast
  show ?case by (rule exI [of _ "x @ y"]) (use x y in \<open>auto intro: rx_rel.intros\<close>)
next
  case (5 r p s c)
  show ?case
  proof (cases "(p', s', c') = (p, s, c)")
    case True
    then show ?thesis by (intro exI [of _ "[]"]) (auto intro: rx_rel.intros)
  next
    case False
    then obtain p1 s1 c1 where *: "(p1, s1, c1) \<in> set (rx_match r p s c)" "length s1 < length s" "(p', s', c') \<in> set (rx_match (Many r) p1 s1 c1)"
      using "5.prems" in_rx_match_Many by blast
    then obtain x where x: "s = x @ s1" "p1 = rev x @ p" "rx_rel r p x s1" using "5.IH"(1) by blast
    obtain y where y: "s1 = y @ s'" "p' = rev y @ p1" "rx_rel (Many r) p1 y s'" using "5.IH"(2) * by blast
    have "x \<noteq> []" using x(1) *(2) by auto
    then show ?thesis by (intro exI [of _ "x @ y"]) (use x y in \<open>auto intro: rx_rel.intros\<close>)
  qed
next
  case (1 f p s c)
  then show ?case by (intro exI [of _ "[hd s]"]) (auto intro: rx_rel.intros split: list.splits if_splits)
next
  case (2 p s c)
  then show ?case by (intro exI [of _ "[]"]) (auto intro: rx_rel.intros)
next
  case (4 r q p s c)
  then have "(p', s', c') \<in> set (rx_match r p s c) \<or> (p', s', c') \<in> set (rx_match q p s c)" by simp
  then show ?case using "4.IH" by (metis rx_rel.intros(4,5))
next
  case (6 k r p s c)
  then obtain c1 where "(p', s', c1) \<in> set (rx_match r p s c)" by auto
  then show ?case using "6.IH" by (metis rx_rel.intros(8))
next
  case (7 p s c)
  then show ?case by (intro exI [of _ "[]"]) (auto intro: rx_rel.intros split: if_splits)
next
  case (8 f p s c)
  then show ?case by (intro exI [of _ "[]"]) (auto intro!: rx_rel.intros split: list.splits if_splits)
next
  case (9 p s c)
  then show ?case by (intro exI [of _ "[]"]) (auto intro!: rx_rel.intros split: if_splits)
next
  case (10 p s c)
  then show ?case by (intro exI [of _ "[]"]) (auto intro!: rx_rel.intros split: if_splits)
qed

lemma rx_match_complete: "rx_rel r p x s \<Longrightarrow> \<exists>c'. (rev x @ p, s, c') \<in> set (rx_match r p (x @ s) c)"
proof (induction arbitrary: c rule: rx_rel.induct)
  case (3 r p x y s q)
  then obtain c1 where "(rev x @ p, y @ s, c1) \<in> set (rx_match r p (x @ y @ s) c)" by metis
  moreover obtain c2 where "(rev y @ rev x @ p, s, c2) \<in> set (rx_match q (rev x @ p) (y @ s) c1)" using 3 by metis
  ultimately show ?case by force
next
  case (7 r p x y s)
  then obtain c1 where "(rev x @ p, y @ s, c1) \<in> set (rx_match r p (x @ y @ s) c)" by metis
  moreover obtain c2 where "(rev y @ rev x @ p, s, c2) \<in> set (rx_match (Many r) (rev x @ p) (y @ s) c1)" using 7 by metis
  moreover have "length (y @ s) < length (x @ y @ s)" using 7(2) by simp
  ultimately have "(rev y @ rev x @ p, s, c2) \<in> set (rx_match (Many r) p (x @ y @ s) c)" unfolding in_rx_match_Many [of _ r p] by blast
  then show ?case by auto
next
  case (8 r p x s k)
  then obtain c' where "(rev x @ p, s, c') \<in> set (rx_match r p (x @ s) c)" by blast
  then have "(rev x @ p, s, AList.update k (take (length (x @ s) - length s) (x @ s)) c') \<in> set (rx_match (Group k r) p (x @ s) c)"
    unfolding rx_match.simps(6) set_map by (intro image_eqI [where x = "(rev x @ p, s, c')"]) simp_all
  then show ?case by blast
next
  case (10 p f s)
  then show ?case by (cases p) auto
next
  case (6 r p s)
  have "(p, s, c) \<in> set (rx_match (Many r) p s c)" unfolding in_rx_match_Many [of _ r p] by simp
  then show ?case by auto
qed (auto simp: image_iff)

lemma rx_match_iff:
  "(\<exists>c'. (p', s', c') \<in> set (rx_match r p s c)) \<longleftrightarrow> (\<exists>x. s = x @ s' \<and> p' = rev x @ p \<and> rx_rel r p x s')"
  using rx_match_sound rx_match_complete by blast

section \<open>Expressions in use\<close>

lemma rx_rel_simps [simp]:
  "rx_rel (Ch f) p x s \<longleftrightarrow> (\<exists>a. x = [a] \<and> f a)" "rx_rel Eps p x s \<longleftrightarrow> x = []" "rx_rel (Alt r q) p x s \<longleftrightarrow> rx_rel r p x s \<or> rx_rel q p x s"
  "rx_rel (Group k r) p x s \<longleftrightarrow> rx_rel r p x s" "rx_rel Boundary p x s \<longleftrightarrow> x = [] \<and> word_at p \<noteq> word_at s"
  "rx_rel (NotAfter f) p x s \<longleftrightarrow> x = [] \<and> (case p of [] \<Rightarrow> True | c # _ \<Rightarrow> \<not> f c)"
  "rx_rel LineStart p x s \<longleftrightarrow> x = [] \<and> at_newline p" "rx_rel LineEnd p x s \<longleftrightarrow> x = [] \<and> at_newline s"
  by (auto intro: rx_rel.intros elim: rx_relE split: list.splits)

lemma rx_rel_Seq [simp]: "rx_rel (Seq r q) p z s \<longleftrightarrow> (\<exists>x y. z = x @ y \<and> rx_rel r p x (y @ s) \<and> rx_rel q (rev x @ p) y s)"
  by (rule iffI, erule rx_relE, blast, auto intro: rx_rel.intros)

lemma rx_rel_Seq_Ch [simp]: "rx_rel (Seq (Ch f) q) p z s \<longleftrightarrow> (\<exists>a y. z = a # y \<and> f a \<and> rx_rel q (a # p) y s)" (is "_ \<longleftrightarrow> ?rhs")
proof
  show ?rhs if "rx_rel (Seq (Ch f) q) p z s" using that by auto
  show "rx_rel (Seq (Ch f) q) p z s" if ?rhs
  proof -
    from that obtain a y where "z = [a] @ y" "f a" "rx_rel q (rev [a] @ p) y s" by auto
    then show ?thesis unfolding rx_rel_Seq rx_rel_simps by blast
  qed
qed

lemma rx_rel_lit [simp]: "rx_rel (lit t) p x s \<longleftrightarrow> x = t"
  unfolding lit_def by (induction t arbitrary: p x) auto

lemma rx_rel_Many_Ch [simp]: "rx_rel (Many (Ch f)) p x s \<longleftrightarrow> list_all f x"
proof
  show "list_all f x" if "rx_rel (Many (Ch f)) p x s"
    using that by (induction "Many (Ch f)" p x s rule: rx_rel.induct) auto
  show "rx_rel (Many (Ch f)) p x s" if "list_all f x"
    using that
  proof (induction x arbitrary: p)
    case (Cons a x)
    then show ?case using rx_rel.intros(7) [of "Ch f" p "[a]" x s] by simp
  qed (auto intro: rx_rel.intros)
qed

lemma rx_rel_some_of_Ch [simp]: "rx_rel (some_of (Ch f)) p x s \<longleftrightarrow> x \<noteq> [] \<and> list_all f x"
  unfolding some_of_def by (cases x) (auto simp del: rx_rel_Seq)

lemma rx_rel_repeated_Ch [simp]: "rx_rel (repeated n (Ch f)) p x s \<longleftrightarrow> length x = n \<and> list_all f x"
  by (induction n arbitrary: p x) (auto simp: length_Suc_conv simp del: rx_rel_Seq)

lemma rx_full_iff: "rx_full r s \<longleftrightarrow> rx_rel r [] s []"
proof -
  have "rx_full r s \<longleftrightarrow> (\<exists>p' c'. (p', [], c') \<in> set (rx_match r [] s []))" by (auto simp: rx_full_def list_ex_iff)
  also have "\<dots> \<longleftrightarrow> (\<exists>p' x. s = x @ [] \<and> p' = rev x @ [] \<and> rx_rel r [] x [])" using rx_match_iff [of _ "[]" r "[]" s "[]"] by blast
  finally show ?thesis by simp
qed

text \<open>A match that was found stands in the text; and where none is found there is none.\<close>

definition found_at :: "rx \<Rightarrow> string \<Rightarrow> string \<Rightarrow> found \<Rightarrow> string \<Rightarrow> bool" where
  "found_at r p s m a \<longleftrightarrow> s = a @ mt_text m @ mt_rest m \<and> mt_before m = rev (mt_text m) @ rev a @ p \<and> rx_rel r (rev a @ p) (mt_text m) (mt_rest m)
    \<and> (mt_before m, mt_rest m, mt_captures m) \<in> set (rx_match r (rev a @ p) (mt_text m @ mt_rest m) [])"

lemma found_here:
  assumes "rx_match r p s [] = t # ts" and "rx_search r p s = Some m"
  shows "found_at r p s m []"
proof -
  obtain p' s' c where t: "t = (p', s', c)" by (cases t)
  then have *: "(p', s', c) \<in> set (rx_match r p s [])" using assms(1) by simp
  obtain x where x: "s = x @ s'" "p' = rev x @ p" "rx_rel r p x s'" using rx_match_sound [OF *] by blast
  have "m = \<lparr>mt_text = x, mt_captures = c, mt_before = p', mt_rest = s'\<rparr>"
    using assms t x(1) by (simp add: rx_search.simps [of r p])
  then show ?thesis using x * by (simp add: found_at_def)
qed

lemma rx_search_found: "rx_search r p s = Some m \<Longrightarrow> \<exists>a. found_at r p s m a"
proof (induction s arbitrary: p)
  case Nil
  then have "rx_match r p [] [] \<noteq> []" by (auto simp: rx_search.simps [of r p])
  then show ?case using found_here Nil by (metis neq_Nil_conv)
next
  case (Cons y ys)
  show ?case
  proof (cases "rx_match r p (y # ys) []")
    case Nil
    then obtain a where "found_at r (y # p) ys m a" using Cons by (auto simp: rx_search.simps [of r p])
    then show ?thesis by (intro exI [of _ "y # a"]) (auto simp: found_at_def)
  qed (use Cons.prems found_here in blast)
qed

lemma rx_search_None: "rx_search r p s = None \<Longrightarrow> s = a @ x @ b \<Longrightarrow> \<not> rx_rel r (rev a @ p) x b"
proof (induction a arbitrary: p s)
  case Nil
  then have "rx_match r p (x @ b) [] = []" by (auto simp: rx_search.simps [of r p] split: list.splits)
  then show ?case using rx_match_complete [of r p x b "[]"] by auto
next
  case (Cons y a)
  then have "rx_search r (y # p) (a @ x @ b) = None" by (auto simp: rx_search.simps [of r p] split: list.splits)
  then show ?case using Cons.IH [of "y # p"] by simp
qed

lemma rx_finditer_found: "m \<in> set (rx_finditer r p s) \<Longrightarrow> \<exists>a. found_at r p s m a"
proof (induction r p s rule: rx_finditer.induct)
  case (1 r p s)
  then obtain k where k: "rx_search r p s = Some k" by (cases "rx_search r p s") (auto simp: rx_finditer.simps [of r p])
  obtain a where a: "found_at r p s k a" using rx_search_found [OF k] by blast
  consider "m = k" | "length (mt_rest k) < length s" "m \<in> set (rx_finditer r (mt_before k) (mt_rest k))"
    using 1(2) k by (auto simp: rx_finditer.simps [of r p] split: if_splits)
  then show ?case
  proof cases
    case 2
    then obtain b where "found_at r (mt_before k) (mt_rest k) m b" using 1(1) [OF k] by blast
    then show ?thesis using a by (intro exI [of _ "a @ mt_text k @ b"]) (auto simp: found_at_def)
  qed (use a in blast)
qed

text \<open>Captures: only a group changes them.\<close>

fun groupless :: "rx \<Rightarrow> bool" where
  "groupless (Seq r q) = (groupless r \<and> groupless q)"
| "groupless (Alt r q) = (groupless r \<and> groupless q)"
| "groupless (Many r) = groupless r"
| "groupless (Group k r) = False"
| "groupless r = True"

lemma groupless_captures: "(p', s', c') \<in> set (rx_match r p s c) \<Longrightarrow> groupless r \<Longrightarrow> c' = c"
proof (induction r p s c arbitrary: p' s' c' rule: rx_match.induct)
  case (3 r q p s c)
  then obtain p1 s1 c1 where "(p1, s1, c1) \<in> set (rx_match r p s c)" "(p', s', c') \<in> set (rx_match q p1 s1 c1)" by auto
  then show ?case using 3 by (metis groupless.simps(1))
next
  case (5 r p s c)
  show ?case
  proof (cases "(p', s', c') = (p, s, c)")
    case False
    then obtain p1 s1 c1 where "(p1, s1, c1) \<in> set (rx_match r p s c)" "length s1 < length s" "(p', s', c') \<in> set (rx_match (Many r) p1 s1 c1)"
      using 5(3) in_rx_match_Many by blast
    then show ?thesis using 5 by (metis groupless.simps(3))
  qed simp
qed (auto split: list.splits if_splits)

lemma groupless_exprs [simp]: "groupless (lit t)" "groupless (some_of (Ch f))" "groupless (repeated n (Ch f))"
  unfolding lit_def some_of_def by (induction t) (auto, induction n, auto)

lemma in_rx_match_Seq: "t \<in> set (rx_match (Seq r q) p s c) \<longleftrightarrow> (\<exists>p1 s1 c1. (p1, s1, c1) \<in> set (rx_match r p s c) \<and> t \<in> set (rx_match q p1 s1 c1))"
  by auto

text \<open>A group without groups in it captures the text that it matches.\<close>

lemma rx_match_group:
  assumes "(p', s', c') \<in> set (rx_match (Group k r) p s c)" and "groupless r"
  shows "\<exists>x. s = x @ s' \<and> p' = rev x @ p \<and> rx_rel r p x s' \<and> c' = AList.update k x c"
proof -
  obtain c1 where c1: "(p', s', c1) \<in> set (rx_match r p s c)" "c' = AList.update k (take (length s - length s') s) c1" using assms(1) by auto
  then show ?thesis using groupless_captures [OF c1(1) assms(2)] rx_match_sound [OF c1(1)] by auto
qed

lemma rx_match_plain:
  assumes "(p', s', c') \<in> set (rx_match r p s c)" and "groupless r"
  shows "\<exists>x. s = x @ s' \<and> p' = rev x @ p \<and> rx_rel r p x s' \<and> c' = c"
  using rx_match_sound [OF assms(1)] groupless_captures [OF assms] by blast

end
