(* ===== verification/Usb_Guard.thy ===== *)
theory Usb_Guard
  imports Py_Regex Py_Loops
begin

text \<open>
  \<open>usbguard.py\<close> and \<open>usbguard_session.py\<close>: reading what USBGuard says about the connected devices, and asking
  it to trust one of them. The bus is the record \<open>usb_bus\<close> over an arbitrary state; each call may raise and may
  change that state. \<open>u_calls\<close> records the calls that ask for a change.
\<close>

section \<open>Rules of USBGuard\<close>

definition ALLOW :: nat where "ALLOW = 0"

definition BLOCK :: nat where "BLOCK = 1"

definition DEVICE_ID :: rx where
  "DEVICE_ID = Seq (Ch (\<lambda>c. is_digit c \<and> c \<noteq> CHR ''0'')) (Many (Ch is_digit))"

definition DEVICE_IDENTIFIER :: rx where
  "DEVICE_IDENTIFIER = Seq Boundary (Seq (lit ''id'') (Seq (some_of (Ch is_space))
     (Seq (Group ''1'' (Seq (repeated 4 (Ch is_hex_any)) (Seq (lit '':'') (repeated 4 (Ch is_hex_any))))) Boundary)))"

definition ATTR :: rx where
  "ATTR = Seq (NotAfter (\<lambda>c. is_word c \<or> c = CHR ''-''))
     (Seq (Group ''key'' (Alt (lit ''name'') (Alt (lit ''serial'') (Alt (lit ''hash'') (lit ''via-port'')))))
     (Seq (some_of (Ch is_space)) (Seq (Ch ((=) (CHR 0x22))) (Seq (Group ''value'' (Many (Ch (\<lambda>c. c \<noteq> CHR 0x22)))) (Ch ((=) (CHR 0x22)))))))"

definition INTERFACE :: rx where
  "INTERFACE = Seq (lit ''with-interface'') (Seq (some_of (Ch is_space)) (Group ''1''
     (Alt (Seq (lit ''{'') (Seq (Many (Ch (\<lambda>c. c \<noteq> CHR ''}''))) (lit ''}'')))
     (Alt (Seq (Ch ((=) (CHR 0x22))) (Seq (Many (Ch (\<lambda>c. c \<noteq> CHR 0x22))) (Ch ((=) (CHR 0x22))))) (some_of (Ch (\<lambda>c. \<not> is_space c)))))))"

definition CLASSES :: rx where
  "CLASSES = (let part = repeated 2 (Ch (\<lambda>c. is_hex_any c \<or> c = CHR ''*'')) in
     Seq Boundary (Seq (Group ''1'' (repeated 2 (Ch is_hex_any))) (Seq (lit '':'') (Seq part (Seq (lit '':'') part)))))"

text \<open>\<open>re.search(r'controller|hub|internal', name, re.I)\<close>.\<close>

definition INTERNAL_NAME :: rx where
  "INTERNAL_NAME = Alt (lit_ignoring_case ''controller'') (Alt (lit_ignoring_case ''hub'') (lit_ignoring_case ''internal''))"

record usb_rule =
  pr_state :: string
  pr_name :: string
  pr_specific_id :: bool
  pr_stable_identity :: bool
  pr_stable_material :: "string option"
  pr_vendor_id :: "string option"
  pr_product_id :: "string option"
  pr_interface :: "string option"
  pr_device_class :: string
  pr_controller :: bool

definition captured :: "string \<Rightarrow> found \<Rightarrow> string" where
  "captured k m = (case map_of (mt_captures m) k of None \<Rightarrow> [] | Some t \<Rightarrow> t)"

text \<open>The attributes by name; a later one replaces an earlier one.\<close>

definition rule_attrs :: "string \<Rightarrow> string \<rightharpoonup> string" where
  "rule_attrs rule = map_of (rev (map (\<lambda>m. (captured ''key'' m, take 160 (captured ''value'' m))) (rx_finditer ATTR [] rule)))"

text \<open>\<open>a or b\<close> on optional texts.\<close>

definition text_or :: "string option \<Rightarrow> string option \<Rightarrow> string option" where
  "text_or a b = (if a = None \<or> a = Some [] then b else a)"

definition interface_classes :: "string \<Rightarrow> string list" where
  "interface_classes rule = (case rx_search INTERFACE [] rule of None \<Rightarrow> []
     | Some m \<Rightarrow> map (\<lambda>k. py_lower (captured ''1'' k)) (rx_finditer CLASSES [] (captured ''1'' m)))"

definition device_class :: "string list \<Rightarrow> (string \<rightharpoonup> string) \<Rightarrow> string" where
  "device_class classes attrs = (if ''08'' \<in> set classes then ''EXTERNAL_STORAGE''
     else if ''06'' \<in> set classes then ''EXTERNAL_MEDIA''
     else if ''0e'' \<in> set classes then ''EXTERNAL_CAMERA''
     else if ''02'' \<in> set classes then ''EXTERNAL_NETWORK''
     else if classes \<noteq> [] \<and> list_all (\<lambda>c. c \<in> set [''09'', ''03'', ''01'', ''e0'']) classes then ''INTERNAL_OR_UNSUPPORTED''
     else if text_or (attrs ''via-port'') None \<noteq> None \<and> rx_search INTERNAL_NAME [] (case attrs ''name'' of None \<Rightarrow> [] | Some n \<Rightarrow> n) = None
     then ''EXTERNAL_UNKNOWN'' else ''UNKNOWN'')"

text \<open>\<open>value.split(maxsplit=1)[0]\<close>: a text of blanks has no first word.\<close>

definition first_word :: "string \<Rightarrow> string py" where
  "first_word s = (let t = lstrip s in if t = [] then Inl (OtherError ''IndexError'') else Inr (takeWhile (\<lambda>c. \<not> is_space c) t))"

definition stable_text :: "string \<Rightarrow> string option" where
  "stable_text rule = (let attrs = rule_attrs rule in text_or (attrs ''serial'') (attrs ''hash''))"

definition parse_rule :: "string \<Rightarrow> usb_rule py" where
  "parse_rule rule = (let attrs = rule_attrs rule; classes = interface_classes rule; stable = stable_text rule;
       identifier = map_option (captured ''1'') (rx_search DEVICE_IDENTIFIER [] rule) in
     py_bind (if rule = [] then Inr ''UNKNOWN'' else py_bind (first_word rule) (\<lambda>w. Inr (py_upper w))) (\<lambda>state.
     Inr \<lparr>pr_state = state, pr_name = take 80 (filter printable (case attrs ''name'' of None \<Rightarrow> ''USB device'' | Some n \<Rightarrow> n)),
       pr_specific_id = (identifier \<noteq> None), pr_stable_identity = (stable \<noteq> None \<and> stable \<noteq> Some []),
       pr_stable_material = text_or stable (attrs ''via-port''),
       pr_vendor_id = map_option (\<lambda>i. hd (split_on (CHR '':'') i)) identifier, pr_product_id = map_option (\<lambda>i. split_on (CHR '':'') i ! 1) identifier,
       pr_interface = (case classes of [] \<Rightarrow> None | c # _ \<Rightarrow> Some c), pr_device_class = device_class classes attrs,
       pr_controller = startswith (case attrs ''via-port'' of None \<Rightarrow> [] | Some v \<Rightarrow> v) ''usb''\<rparr>))"

definition persistent_rule_is_narrow :: "string \<Rightarrow> bool py" where
  "persistent_rule_is_narrow rule = py_bind (parse_rule rule) (\<lambda>p. Inr (pr_specific_id p \<and> pr_stable_identity p))"

section \<open>The adapter\<close>

datatype usb_call = ApplyPolicy nat nat bool | RemoveRule nat

text \<open>
  \<open>ub_list\<close>, \<open>ub_rules\<close> and \<open>ub_owner\<close> are the reading calls, \<open>ub_projection\<close> is the parsed answer of the system
  projection, \<open>ub_apply\<close> and \<open>ub_remove\<close> the calls that ask for a change. \<open>ub_context\<close> is the security context of the
  process, \<open>None\<close> when it cannot be read.
\<close>

record 'b usb_bus =
  ub_uid :: nat
  ub_context :: "string option"
  ub_projection :: "('b, val) act"
  ub_owner :: "('b, string) act"
  ub_list :: "string \<Rightarrow> ('b, (nat \<times> string) list) act"
  ub_rules :: "('b, (nat \<times> string) list) act"
  ub_apply :: "nat \<Rightarrow> nat \<Rightarrow> bool \<Rightarrow> ('b, val) act"
  ub_remove :: "nat \<Rightarrow> ('b, unit) act"

type_synonym policy_key = "string \<times> (nat \<times> string) list \<times> (nat \<times> string) list"

record 'b uworld =
  u_bus :: 'b
  u_cache :: "(policy_key \<times> nat list) option"
  u_calls :: "usb_call list"

definition on_bus :: "('b, 'a) act \<Rightarrow> ('b uworld, 'a) act" where
  "on_bus m w = (case m (u_bus w) of (r, b) \<Rightarrow> (r, w\<lparr>u_bus := b\<rparr>))"

definition usb_unavailable :: exc where
  "usb_unavailable = UsbGuardError ''FAILED'' ''USBGuard device state is unavailable.''"

definition note_call :: "usb_call \<Rightarrow> ('b uworld, unit) act" where
  "note_call c = s_modify (\<lambda>w. w\<lparr>u_calls := u_calls w @ [c]\<rparr>)"

text \<open>\<open>str(rule).partition(' ')\<close>.\<close>

definition rule_target :: "string \<Rightarrow> string" where
  "rule_target rule = takeWhile (\<lambda>c. c \<noteq> CHR '' '') rule"

definition rule_query :: "string \<Rightarrow> string" where
  "rule_query rule = drop (Suc (length (rule_target rule))) rule"

definition TARGETS :: "string list" where
  "TARGETS = [''allow'', ''block'', ''reject'']"

text \<open>
  Which devices the policy decides to allow: the rules in order, each for the devices it matches that no
  earlier rule decided. The loop ends when as many devices are decided as there are.
\<close>

fun match_rules :: "'b usb_bus \<Rightarrow> nat \<Rightarrow> (nat \<times> string) list \<Rightarrow> nat list \<Rightarrow> nat list \<Rightarrow> ('b uworld, nat list) act" where
  "match_rules bus n [] persistent decided = s_ret persistent"
| "match_rules bus n ((k, rule) # rules) persistent decided =
    (if rule_target rule \<notin> set TARGETS then match_rules bus n rules persistent decided
     else s_bind (on_bus (ub_list bus (''match '' @ rule_query rule))) (\<lambda>found.
       let matched = filter (\<lambda>i. i \<notin> set decided) (remdups (map fst found));
           persistent' = (if rule_target rule = ''allow'' then persistent @ matched else persistent);
           decided' = decided @ matched in
       if length decided' = n then s_ret persistent' else match_rules bus n rules persistent' decided'))"

definition trusted_ids :: "'b usb_bus \<Rightarrow> policy_key \<Rightarrow> ('b uworld, nat list) act" where
  "trusted_ids bus key = s_bind (s_get u_cache) (\<lambda>cache. case cache of
       Some (k, persistent) \<Rightarrow> if k = key then s_ret persistent
         else s_bind (match_rules bus (length (fst (snd key))) (snd (snd key)) [] []) (\<lambda>persistent.
           s_bind (s_modify (\<lambda>w. w\<lparr>u_cache := Some (key, persistent)\<rparr>)) (\<lambda>_. s_ret persistent))
     | None \<Rightarrow> s_bind (match_rules bus (length (fst (snd key))) (snd (snd key)) [] []) (\<lambda>persistent.
           s_bind (s_modify (\<lambda>w. w\<lparr>u_cache := Some (key, persistent)\<rparr>)) (\<lambda>_. s_ret persistent)))"

definition device_entry :: "env \<Rightarrow> string \<Rightarrow> nat list \<Rightarrow> nat \<times> string \<Rightarrow> val py" where
  "device_entry e owner persistent d = (case d of (i, rule) \<Rightarrow>
     py_bind (parse_rule rule) (\<lambda>p. py_bind (persistent_rule_is_narrow rule) (\<lambda>narrow.
     Inr (VDict [(''device_id'', VStr (nat_str i)), (''connection_ref'', VStr (take 32 (env_sha256 e (owner @ '':'' @ nat_str i)))),
       (''name'', VStr (pr_name p)), (''state'', VStr (pr_state p)), (''authorized'', VBool (pr_state p = ''ALLOW'')),
       (''trusted'', VBool (i \<in> set persistent)), (''controller'', VBool (pr_controller p)), (''can_persist'', VBool narrow),
       (''device_class'', VStr (pr_device_class p)),
       (''identity_metadata'', VDict [(''stable_id'', of_str_opt (pr_stable_material p)), (''vendor_id'', of_str_opt (pr_vendor_id p)),
         (''product_id'', of_str_opt (pr_product_id p)), (''interface'', of_str_opt (pr_interface p)), (''device_class'', VStr (pr_device_class p))])]))))"

definition enrolled :: "'b usb_bus \<Rightarrow> bool" where
  "enrolled bus \<longleftrightarrow> ub_uid bus \<noteq> 0 \<and> (case ub_context bus of None \<Rightarrow> False | Some c \<Rightarrow> startswith c ''greyward_guard_u:'')"

definition projected_devices :: "val \<Rightarrow> val list py" where
  "projected_devices v = py_bind (as_mapping v) (\<lambda>d.
     if dget d ''schema'' \<noteq> VStr ''greyward.device-projection/v1'' then Inl (ValueError ''Invalid device projection'')
     else case dget d ''devices'' of VList ds \<Rightarrow> Inr ds | _ \<Rightarrow> Inl (ValueError ''Invalid device projection''))"

definition list_devices :: "env \<Rightarrow> 'b usb_bus \<Rightarrow> ('b uworld, val list) act" where
  "list_devices e bus =
    (if enrolled bus then s_catch (s_bind (on_bus (ub_projection bus)) (\<lambda>v. s_lift (projected_devices v)))
       (\<lambda>err. is_dbus err \<or> is_value_or_type_error err) (\<lambda>_. s_raise usb_unavailable)
     else s_bind (s_catch (s_bind (on_bus (ub_owner bus)) (\<lambda>owner. s_bind (on_bus (ub_list bus ''match'')) (\<lambda>devices.
         s_bind (on_bus (ub_rules bus)) (\<lambda>rules. s_bind (trusted_ids bus (owner, devices, rules)) (\<lambda>persistent.
         s_ret (owner, devices, persistent)))))) is_dbus (\<lambda>_. s_raise usb_unavailable)) (\<lambda>(owner, devices, persistent).
       s_lift (py_map (device_entry e owner persistent) devices)))"

text \<open>Errors of the call that asks for a change, by the name of the D-Bus error.\<close>

definition apply_error :: "string \<Rightarrow> exc" where
  "apply_error name = (if sublist ''NoReply'' name \<or> sublist ''Timeout'' name then UsbGuardError ''INDETERMINATE'' ''Authorization timed out; checking device state.''
     else if sublist ''Cancel'' name \<or> sublist ''Dismiss'' name then UsbGuardError ''CANCELLED'' ''Authorization was cancelled.''
     else if sublist ''ServiceUnknown'' name \<or> sublist ''Disconnected'' name then UsbGuardError ''UNAVAILABLE'' ''USBGuard is unavailable.''
     else UsbGuardError ''DENIED'' ''USBGuard did not authorize the device change.'')"

text \<open>\<open>dbus.UInt32\<close> takes 32 bits.\<close>

definition uint32 :: "string \<Rightarrow> nat py" where
  "uint32 s = (let n = parse_base 10 s in if n < 2 ^ 32 then Inr n else Inl (OtherError ''OverflowError''))"

definition apply_device :: "env \<Rightarrow> 'b usb_bus \<Rightarrow> val \<Rightarrow> nat \<Rightarrow> bool \<Rightarrow> ('b uworld, int) act" where
  "apply_device e bus device_id target permanent = (let i = py_str e device_id in
     if \<not> rx_full DEVICE_ID i then s_raise (UsbGuardError ''FAILED'' ''Invalid USBGuard device reference.'')
     else s_bind (s_lift (uint32 i)) (\<lambda>n.
       s_catch (s_bind (note_call (ApplyPolicy n target permanent)) (\<lambda>_. s_bind (on_bus (ub_apply bus n target permanent)) (\<lambda>v. s_lift (py_int v))))
         is_dbus (\<lambda>err. s_raise (apply_error (case dbus_name err of None \<Rightarrow> [] | Some name \<Rightarrow> name)))))"

definition allow_once :: "env \<Rightarrow> 'b usb_bus \<Rightarrow> val \<Rightarrow> ('b uworld, int) act" where
  "allow_once e bus device_id = apply_device e bus device_id ALLOW False"

text \<open>\<open>next((x for x in xs if P(x)), None)\<close> with a test that may raise.\<close>

fun first_where :: "('a \<Rightarrow> bool py) \<Rightarrow> 'a list \<Rightarrow> 'a option py" where
  "first_where P [] = Inr None"
| "first_where P (x # xs) = py_bind (P x) (\<lambda>b. if b then Inr (Some x) else first_where P xs)"

definition always_allow :: "env \<Rightarrow> 'b usb_bus \<Rightarrow> val \<Rightarrow> ('b uworld, int) act" where
  "always_allow e bus device_id = s_bind (list_devices e bus) (\<lambda>devices.
     s_bind (s_lift (first_where (\<lambda>v. py_bind (py_index v ''device_id'') (\<lambda>i. Inr (i = VStr (py_str e device_id)))) devices)) (\<lambda>found. case found of
         None \<Rightarrow> s_raise (UsbGuardError ''FAILED'' ''USB device is no longer connected.'')
       | Some device \<Rightarrow> s_bind (s_lift (py_index device ''can_persist'')) (\<lambda>narrow.
           if \<not> truthy narrow then s_raise (UsbGuardError ''FAILED'' ''No narrow stable device identity is available; persistent trust was not created.'')
           else apply_device e bus device_id ALLOW True)))"

definition keep_blocked :: "env \<Rightarrow> 'b usb_bus \<Rightarrow> val \<Rightarrow> ('b uworld, int) act" where
  "keep_blocked e bus device_id = apply_device e bus device_id BLOCK False"

definition revoke :: "env \<Rightarrow> 'b usb_bus \<Rightarrow> val \<Rightarrow> val \<Rightarrow> ('b uworld, int) act" where
  "revoke e bus device_id rule_id =
    (if \<not> rx_full DEVICE_ID (py_str e device_id) \<or> \<not> rx_full DEVICE_ID (py_str e rule_id)
     then s_raise (UsbGuardError ''FAILED'' ''Invalid USBGuard device or rule reference.'')
     else s_bind (s_lift (uint32 (py_str e rule_id))) (\<lambda>n.
       s_bind (s_catch (s_bind (note_call (RemoveRule n)) (\<lambda>_. on_bus (ub_remove bus n))) is_dbus
         (\<lambda>_. s_raise (UsbGuardError ''FAILED'' ''USBGuard or Polkit denied removal of this trust rule.''))) (\<lambda>_.
       keep_blocked e bus device_id)))"

section \<open>Approval of one device\<close>

record trust_result =
  tr_ok :: bool
  tr_state :: string
  tr_detail :: string

definition CONNECTION_REF :: rx where
  "CONNECTION_REF = repeated 32 (Ch is_hex_lower)"

definition refused :: "string \<Rightarrow> string \<Rightarrow> trust_result" where
  "refused state detail = \<lparr>tr_ok = False, tr_state = state, tr_detail = detail\<rparr>"

text \<open>What USBGuard has to show after the request.\<close>

definition confirmation :: "bool \<Rightarrow> val option \<Rightarrow> trust_result" where
  "confirmation always confirmed = (case confirmed of
       None \<Rightarrow> refused ''REMOVED'' ''The device changed before USBGuard could confirm approval.''
     | Some d \<Rightarrow> if \<not> truthy (vget d ''authorized'') \<or> (always \<and> \<not> truthy (vget d ''trusted''))
         then refused ''FAILED'' ''USBGuard did not confirm approval. The device remains blocked.''
         else \<lparr>tr_ok = True, tr_state = ''COMPLETE'', tr_detail = if always then ''Trusted for future connections.'' else ''Allowed until disconnected.''\<rparr>)"

definition same_device :: "dict \<Rightarrow> val \<Rightarrow> bool py" where
  "same_device device v = py_bind (as_mapping v) (\<lambda>d.
     Inr (py_eq (dget d ''device_id'') (dget device ''device_id'') \<and> py_eq (dget d ''identity_metadata'') (dget device ''identity_metadata'')))"

text \<open>The request for a device that may be approved, and its confirmation in a new reading.\<close>

definition approve :: "env \<Rightarrow> 'b usb_bus \<Rightarrow> bool \<Rightarrow> dict \<Rightarrow> ('b uworld, trust_result) act" where
  "approve e bus always device = s_bind (s_lift (dindex device ''device_id'')) (\<lambda>i.
     s_bind (if always then always_allow e bus i else allow_once e bus i) (\<lambda>_.
     s_bind (list_devices e bus) (\<lambda>devices.
     s_bind (s_lift (first_where (same_device device) devices)) (\<lambda>confirmed. s_ret (confirmation always confirmed)))))"

definition trust_device :: "env \<Rightarrow> 'b usb_bus \<Rightarrow> string \<Rightarrow> bool \<Rightarrow> ('b uworld, trust_result) act" where
  "trust_device e bus reference always = s_bind (list_devices e bus) (\<lambda>devices.
     s_bind (s_lift (first_where (\<lambda>v. py_bind (py_get v ''connection_ref'') (\<lambda>r. Inr (r = VStr reference))) devices)) (\<lambda>found. case found of
         None \<Rightarrow> s_ret (refused ''REMOVED'' ''The device is no longer connected. Refresh and try again.'')
       | Some v \<Rightarrow> let device = as_dict v in
           if truthy (dget device ''controller'') then s_ret (refused ''REFUSED'' ''USB host controllers cannot be approved here.'')
           else s_bind (s_lift (in_keys (dget device ''state'') [''BLOCK'', ''REJECT''])) (\<lambda>blocked.
             if \<not> blocked then s_ret (refused ''STALE'' ''The device state changed. Refresh and try again.'')
             else if always \<and> \<not> truthy (dget device ''can_persist'')
             then s_ret (refused ''REFUSED'' ''This device has no stable identity for persistent trust.'')
             else approve e bus always device)))"

definition request_trust :: "env \<Rightarrow> 'b usb_bus \<Rightarrow> string \<Rightarrow> string \<Rightarrow> ('b uworld, trust_result) act" where
  "request_trust e bus reference mode =
    (if \<not> rx_full CONNECTION_REF reference then s_ret (refused ''INVALID'' ''The USB device reference is invalid.'')
     else if mode \<noteq> ''once'' \<and> mode \<noteq> ''always'' then s_ret (refused ''INVALID'' ''Choose a supported USB approval.'')
     else s_bind (s_try (trust_device e bus reference (mode = ''always''))) (\<lambda>r. case r of
         Inr result \<Rightarrow> s_ret result
       | Inl (UsbGuardError state detail) \<Rightarrow> s_ret (refused state detail)
       | Inl err \<Rightarrow> s_raise err))"

text \<open>\<open>main\<close>: the printed result and the exit status.\<close>

definition usb_main :: "env \<Rightarrow> 'b usb_bus \<Rightarrow> string list \<Rightarrow> ('b uworld, trust_result \<times> nat) act" where
  "usb_main e bus args = s_bind (case args of [reference, mode] \<Rightarrow> request_trust e bus reference mode
       | _ \<Rightarrow> s_ret (refused ''INVALID'' ''A device reference and approval mode are required.'')) (\<lambda>result.
     s_ret (result, if tr_ok result then 0 else 1))"

end
