(* ===== verification/Usb_Guard_Props.thy ===== *)
theory Usb_Guard_Props
  imports Usb_Guard
begin

text \<open>
  What approving a USB device promises: which request can reach USBGuard, when the approval is reported as
  complete, that trust follows the first rule of the policy that matches, and what counts as the own identity
  of a device.
\<close>

section \<open>Reading asks for no change\<close>

lemma keeps_on_bus [keeps_intros]: "keeps u_calls (on_bus m)"
  by (auto simp: keeps_def on_bus_def split: prod.splits)

lemma keeps_match_rules: "keeps u_calls (match_rules bus n rules persistent decided)"
proof (induction bus n rules persistent decided rule: match_rules.induct)
  case (2 bus n k rule rules persistent decided)
  then show ?case by (auto simp: Let_def intro!: keeps_bind keeps_on_bus keeps_basic)
qed (auto intro: keeps_intros)

lemma keeps_trusted: "keeps u_calls (trusted_ids bus key)"
  unfolding trusted_ids_def by (intro keeps_intros keeps_match_rules) simp_all

lemma keeps_list_devices [keeps_intros]: "keeps u_calls (list_devices e bus)"
  unfolding list_devices_def by (intro keeps_intros keeps_trusted)

lemma first_where_found: "first_where P xs = Inr (Some x) \<Longrightarrow> x \<in> set xs \<and> P x = Inr True"
  by (induction xs) (auto simp: py_bind_eq_Inr split: if_splits)

section \<open>The request\<close>

text \<open>The number of the device as USBGuard gets it.\<close>

definition device_number :: "env \<Rightarrow> val \<Rightarrow> nat" where
  "device_number e v = parse_base 10 (py_str e v)"

lemma apply_calls:
  assumes "apply_device e bus i target permanent w = (r, w')"
  shows "u_calls w' = u_calls w \<or> u_calls w' = u_calls w @ [ApplyPolicy (device_number e i) target permanent]"
    and "r = Inr k \<Longrightarrow> u_calls w' = u_calls w @ [ApplyPolicy (device_number e i) target permanent]"
proof -
  have call: "u_calls v = u_calls w @ [ApplyPolicy n target permanent]"
    if "s_catch (s_bind (note_call (ApplyPolicy n target permanent)) (\<lambda>_. s_bind (on_bus (ub_apply bus n target permanent)) (\<lambda>v. s_lift (py_int v)))) P (\<lambda>err. s_raise (h err)) w = (q, v)"
    for n q v P h
    using that by (auto simp: s_catch_def note_call_def s_bind_def on_bus_def split: prod.splits sum.splits if_splits)
  have "n = device_number e i" if "uint32 (py_str e i) = Inr n" for n using that by (auto simp: uint32_def device_number_def Let_def split: if_splits)
  then show "u_calls w' = u_calls w \<or> u_calls w' = u_calls w @ [ApplyPolicy (device_number e i) target permanent]"
    and "r = Inr k \<Longrightarrow> u_calls w' = u_calls w @ [ApplyPolicy (device_number e i) target permanent]"
    using assms call unfolding apply_device_def Let_def by (cases "uint32 (py_str e i)"; auto split: if_splits)+
qed

lemma always_allow_calls:
  assumes "always_allow e bus i w = (r, w')"
  shows "u_calls w' = u_calls w \<or> u_calls w' = u_calls w @ [ApplyPolicy (device_number e i) ALLOW True]"
    and "r = Inr k \<Longrightarrow> u_calls w' = u_calls w @ [ApplyPolicy (device_number e i) ALLOW True]"
proof -
  obtain q v where q: "list_devices e bus w = (q, v)" by (cases "list_devices e bus w")
  then have v: "u_calls v = u_calls w" using keepsD [OF keeps_list_devices] by blast
  have "(w' = v \<and> (\<exists>x. r = Inl x)) \<or> apply_device e bus i ALLOW True v = (r, w')"
  proof (cases q)
    case (Inl a)
    then show ?thesis using assms q by (auto simp: always_allow_def s_bind_def)
  next
    case (Inr ds)
    then show ?thesis using assms q
      by (auto simp: always_allow_def s_bind_def split: sum.splits option.splits if_splits)
  qed
  then show "u_calls w' = u_calls w \<or> u_calls w' = u_calls w @ [ApplyPolicy (device_number e i) ALLOW True]"
    and "r = Inr k \<Longrightarrow> u_calls w' = u_calls w @ [ApplyPolicy (device_number e i) ALLOW True]"
    using apply_calls [of e bus i ALLOW True v r w'] v by auto
qed

text \<open>A reading confirms the approval: the same device with the same identity, now authorized.\<close>

definition confirmed_in :: "bool \<Rightarrow> dict \<Rightarrow> val list \<Rightarrow> bool" where
  "confirmed_in always device ds \<longleftrightarrow> (\<exists>d. VDict d \<in> set ds \<and> py_eq (dget d ''device_id'') (dget device ''device_id'')
     \<and> py_eq (dget d ''identity_metadata'') (dget device ''identity_metadata'') \<and> truthy (dget d ''authorized'') \<and> (always \<longrightarrow> truthy (dget d ''trusted'')))"

definition may_approve :: "string \<Rightarrow> bool \<Rightarrow> dict \<Rightarrow> bool" where
  "may_approve reference always device \<longleftrightarrow> dget device ''connection_ref'' = VStr reference \<and> \<not> truthy (dget device ''controller'')
     \<and> str_in (dget device ''state'') [''BLOCK'', ''REJECT''] \<and> (always \<longrightarrow> truthy (dget device ''can_persist''))"

lemma confirmation_ok: "tr_ok (confirmation always c) \<Longrightarrow> \<exists>d. c = Some d \<and> truthy (vget d ''authorized'') \<and> (always \<longrightarrow> truthy (vget d ''trusted''))"
  by (auto simp: confirmation_def refused_def split: option.splits if_splits)

lemma refused_not_ok [simp]: "\<not> tr_ok (refused state detail)"
  by (simp add: refused_def)

lemma request_calls:
  assumes "(if always then always_allow e bus i else allow_once e bus i) w = (r, w')"
  shows "u_calls w' = u_calls w \<or> u_calls w' = u_calls w @ [ApplyPolicy (device_number e i) ALLOW always]"
    and "r = Inr k \<Longrightarrow> u_calls w' = u_calls w @ [ApplyPolicy (device_number e i) ALLOW always]"
  using assms always_allow_calls [of e bus i w r w'] apply_calls [of e bus i ALLOW False w r w'] unfolding allow_once_def
  by (auto split: if_splits)

lemma approve_outcome:
  assumes "approve e bus always device w = (r, w')"
  shows "u_calls w' = u_calls w \<or> u_calls w' = u_calls w @ [ApplyPolicy (device_number e (dget device ''device_id'')) ALLOW always]"
    and "r = Inr result \<Longrightarrow> tr_ok result \<Longrightarrow> u_calls w' = u_calls w @ [ApplyPolicy (device_number e (dget device ''device_id'')) ALLOW always]
      \<and> (\<exists>u ds. list_devices e bus u = (Inr ds, w') \<and> confirmed_in always device ds)"
proof -
  let ?ask = "\<lambda>i. if always then always_allow e bus i else allow_once e bus i"
  let ?rest = "\<lambda>_. s_bind (list_devices e bus) (\<lambda>devices. s_bind (s_lift (first_where (same_device device) devices)) (\<lambda>confirmed. s_ret (confirmation always confirmed)))"
  have rest: "keeps u_calls (?rest x)" for x :: int by (intro keeps_intros)
  have id: "i = dget device ''device_id''" if "dindex device ''device_id'' = Inr i" for i using that by (auto simp: dindex_def dget_def split: option.splits)
  consider err where "w' = w" "r = Inl err" | i q v where "i = dget device ''device_id''" "?ask i w = (q, v)" "s_bind (?ask i) ?rest w = (r, w')"
    using assms id unfolding approve_def by (cases "dindex device ''device_id''") (auto, metis surj_pair)
  then have "(u_calls w' = u_calls w \<or> u_calls w' = u_calls w @ [ApplyPolicy (device_number e (dget device ''device_id'')) ALLOW always])
    \<and> (r = Inr result \<longrightarrow> tr_ok result \<longrightarrow> u_calls w' = u_calls w @ [ApplyPolicy (device_number e (dget device ''device_id'')) ALLOW always]
      \<and> (\<exists>u ds. list_devices e bus u = (Inr ds, w') \<and> confirmed_in always device ds))"
  proof cases
    case 2
    note calls = request_calls [OF 2(2)]
    show ?thesis
    proof (cases q)
      case (Inl err)
      then have "w' = v" "r = Inl err" using 2(2,3) by (auto simp: s_bind_def)
      then show ?thesis using calls(1) 2(1) by simp
    next
      case (Inr k)
      then have run: "?rest k v = (r, w')" using 2(2,3) by (simp add: s_bind_def)
      then have same: "u_calls w' = u_calls v" using keepsD [OF rest] by blast
      have "\<exists>u ds. list_devices e bus u = (Inr ds, w') \<and> confirmed_in always device ds" if ok: "r = Inr result" "tr_ok result"
      proof -
        obtain ds c where ds: "list_devices e bus v = (Inr ds, w')" "first_where (same_device device) ds = Inr c" "result = confirmation always c"
          using run ok(1) by (auto simp: s_bind_eq_Inr)
        obtain d where d: "c = Some d" "truthy (vget d ''authorized'')" "always \<longrightarrow> truthy (vget d ''trusted'')" using confirmation_ok ok(2) ds(3) by blast
        then have "d \<in> set ds" "same_device device d = Inr True" using first_where_found [OF ds(2) [unfolded d(1)]] by auto
        then have "confirmed_in always device ds" using d(2,3) unfolding confirmed_in_def same_device_def by (auto simp: py_bind_eq_Inr vget_def)
        then show ?thesis using ds(1) by blast
      qed
      then show ?thesis using calls(2) [OF Inr] 2(1) same by simp
    qed
  qed simp
  then show "u_calls w' = u_calls w \<or> u_calls w' = u_calls w @ [ApplyPolicy (device_number e (dget device ''device_id'')) ALLOW always]"
    and "r = Inr result \<Longrightarrow> tr_ok result \<Longrightarrow> u_calls w' = u_calls w @ [ApplyPolicy (device_number e (dget device ''device_id'')) ALLOW always]
      \<and> (\<exists>u ds. list_devices e bus u = (Inr ds, w') \<and> confirmed_in always device ds)" by blast+
qed

lemma referenced_device:
  assumes "first_where (\<lambda>v. py_bind (py_get v ''connection_ref'') (\<lambda>r. Inr (r = VStr reference))) ds = Inr (Some v)"
  shows "\<exists>d. v = VDict d \<and> VDict d \<in> set ds \<and> dget d ''connection_ref'' = VStr reference"
  using first_where_found [OF assms] by (cases v) (auto simp: py_bind_def)

text \<open>
  C11: Approving a USB device. Whatever the bus answers and whether the request succeeds, fails or raises, at most one
  change is asked of USBGuard, and only for the device that the first reading lists under the given reference, that is
  blocked and no controller: to allow it, permanently only if this was asked for and its rule is narrow. The
  approval is reported as complete only after a later reading shows the same device with the same identity authorized, and
  trusted when it was to last.
\<close>

theorem approval_confined:
  assumes "request_trust e bus reference mode w = (r, w')"
  shows "(u_calls w' = u_calls w \<and> (\<nexists>result. r = Inr result \<and> tr_ok result))
    \<or> (\<exists>ds v device. list_devices e bus w = (Inr ds, v) \<and> VDict device \<in> set ds \<and> may_approve reference (mode = ''always'') device
        \<and> u_calls w' = u_calls w @ [ApplyPolicy (device_number e (dget device ''device_id'')) ALLOW (mode = ''always'')]
        \<and> (\<forall>result. r = Inr result \<and> tr_ok result \<longrightarrow> (\<exists>u ds'. list_devices e bus u = (Inr ds', w') \<and> confirmed_in (mode = ''always'') device ds')))"
proof -
  define always where "always \<longleftrightarrow> mode = ''always''"
  let ?no = "\<lambda>q v. u_calls v = u_calls w \<and> (\<nexists>result. q = Inr result \<and> tr_ok result)"
  let ?yes = "\<lambda>q v. \<exists>ds x device. list_devices e bus w = (Inr ds, x) \<and> VDict device \<in> set ds \<and> may_approve reference always device
    \<and> u_calls v = u_calls w @ [ApplyPolicy (device_number e (dget device ''device_id'')) ALLOW always]
    \<and> (\<forall>result. q = Inr result \<and> tr_ok result \<longrightarrow> (\<exists>u ds'. list_devices e bus u = (Inr ds', v) \<and> confirmed_in always device ds'))"
  have device: "?no q v \<or> ?yes q v" if run: "trust_device e bus reference always w = (q, v)" for q v
  proof (cases "list_devices e bus w")
    case (Pair ds x)
    have x: "u_calls x = u_calls w" using keepsD [OF keeps_list_devices Pair] .
    show ?thesis
    proof (cases "\<exists>l device. ds = Inr l \<and> VDict device \<in> set l \<and> may_approve reference always device \<and> approve e bus always device x = (q, v)")
      case True
      then obtain l device where l: "ds = Inr l" "VDict device \<in> set l" "may_approve reference always device" "approve e bus always device x = (q, v)" by blast
      then show ?thesis using approve_outcome [OF l(4)] Pair x by metis
    next
      case False
      then have "v = x \<and> (\<nexists>result. q = Inr result \<and> tr_ok result)" using run Pair unfolding trust_device_def
        by (auto simp: s_bind_def Let_def may_approve_def split: sum.splits option.splits if_splits dest!: referenced_device)
      then show ?thesis using x by simp
    qed
  qed
  obtain q v where q: "trust_device e bus reference always w = (q, v)" by (cases "trust_device e bus reference always w")
  have "w' = w \<and> (\<nexists>result. r = Inr result \<and> tr_ok result) \<or> (w' = v \<and> (\<forall>result. r = Inr result \<and> tr_ok result \<longrightarrow> q = Inr result))"
    using assms q unfolding request_trust_def always_def by (auto simp: s_bind_def s_try_def split: if_splits sum.splits exc.splits)
  then show ?thesis using device [OF q] unfolding always_def by blast
qed

section \<open>Trust follows the policy\<close>

text \<open>
  USBGuard answers from its devices and its policy, without changing them: \<open>f\<close> gives the devices a query matches.
\<close>

definition reads_policy :: "'b usb_bus \<Rightarrow> 'b \<Rightarrow> string \<Rightarrow> (nat \<times> string) list \<Rightarrow> (nat \<times> string) list \<Rightarrow> (string \<Rightarrow> (nat \<times> string) list) \<Rightarrow> bool" where
  "reads_policy bus b owner devices rules f \<longleftrightarrow> ub_owner bus b = (Inr owner, b) \<and> ub_list bus ''match'' b = (Inr devices, b)
     \<and> ub_rules bus b = (Inr rules, b) \<and> (\<forall>q. ub_list bus (''match '' @ q) b = (Inr (f q), b) \<and> fst ` set (f q) \<subseteq> fst ` set devices)
     \<and> distinct (map fst devices)"

text \<open>The first rule with a known target that matches the device decides.\<close>

definition policy_allows :: "(string \<Rightarrow> (nat \<times> string) list) \<Rightarrow> (nat \<times> string) list \<Rightarrow> nat \<Rightarrow> bool" where
  "policy_allows f rules i \<longleftrightarrow> (case find (\<lambda>(k, rule). rule_target rule \<in> set TARGETS \<and> i \<in> fst ` set (f (rule_query rule))) rules of
     None \<Rightarrow> False | Some (k, rule) \<Rightarrow> rule_target rule = ''allow'')"

lemma policy_allows_simps [simp]:
  "policy_allows f [] i = False"
  "policy_allows f ((k, rule) # rules) i = (if rule_target rule \<in> set TARGETS \<and> i \<in> fst ` set (f (rule_query rule)) then rule_target rule = ''allow'' else policy_allows f rules i)"
  by (simp_all add: policy_allows_def)

lemma on_bus_read: "m (u_bus w) = (r, u_bus w) \<Longrightarrow> on_bus m w = (r, w)"
  by (simp add: on_bus_def)

lemma match_rules_policy:
  assumes "reads_policy bus (u_bus w) owner devices all f" and "distinct decided" and "set decided \<subseteq> fst ` set devices"
  shows "\<exists>ps. match_rules bus (length devices) rules persistent decided w = (Inr ps, w)
    \<and> set ps = set persistent \<union> {i \<in> fst ` set devices. i \<notin> set decided \<and> policy_allows f rules i}"
  using assms(2,3)
proof (induction rules arbitrary: persistent decided)
  case (Cons kr rules)
  obtain k rule where kr: "kr = (k, rule)" by (cases kr)
  show ?case
  proof (cases "rule_target rule \<in> set TARGETS")
    case False
    then show ?thesis using Cons by (simp add: kr)
  next
    case True
    let ?found = "f (rule_query rule)"
    define matched where "matched = filter (\<lambda>i. i \<notin> set decided) (remdups (map fst ?found))"
    let ?p = "if rule_target rule = ''allow'' then persistent @ matched else persistent" and ?d = "decided @ matched"
    have read: "on_bus (ub_list bus (''match '' @ rule_query rule)) w = (Inr ?found, w)" and sub: "fst ` set ?found \<subseteq> fst ` set devices"
      using assms(1) by (auto simp: reads_policy_def intro: on_bus_read)
    have m: "set matched = fst ` set ?found - set decided" by (auto simp: matched_def)
    have d: "distinct ?d" "set ?d \<subseteq> fst ` set devices" using Cons.prems sub m by (auto simp: matched_def)
    have step: "match_rules bus (length devices) (kr # rules) persistent decided w =
      (if length ?d = length devices then (Inr ?p, w) else match_rules bus (length devices) rules ?p ?d w)"
      using True read by (simp add: kr s_bind_def Let_def matched_def)
    have rest: "set ?p \<union> {i \<in> fst ` set devices. i \<notin> set ?d \<and> policy_allows f rules i}
      = set persistent \<union> {i \<in> fst ` set devices. i \<notin> set decided \<and> policy_allows f (kr # rules) i}"
      using True sub m by (auto simp: kr split: if_splits)
    show ?thesis
    proof (cases "length ?d = length devices")
      case True
      have "card (fst ` set devices) = length devices" using assms(1) by (simp add: reads_policy_def distinct_card flip: set_map)
      then have "set ?d = fst ` set devices" using True d distinct_card [OF d(1)] by (metis card_subset_eq finite_imageI List.finite_set)
      then show ?thesis using step True rest by auto
    next
      case False
      then show ?thesis using step Cons.IH [OF d, of ?p] rest by auto
    qed
  qed
qed simp

definition cache_ok :: "policy_key \<Rightarrow> (string \<Rightarrow> (nat \<times> string) list) \<Rightarrow> 'b uworld \<Rightarrow> bool" where
  "cache_ok key f w \<longleftrightarrow> (\<forall>ps. u_cache w = Some (key, ps) \<longrightarrow> set ps = {i \<in> fst ` set (fst (snd key)). policy_allows f (snd (snd key)) i})"

lemma trusted_ids_policy:
  assumes "reads_policy bus (u_bus w) owner devices rules f" and "cache_ok (owner, devices, rules) f w"
  shows "\<exists>ps w'. trusted_ids bus (owner, devices, rules) w = (Inr ps, w') \<and> u_bus w' = u_bus w
    \<and> set ps = {i \<in> fst ` set devices. policy_allows f rules i} \<and> u_cache w' = Some ((owner, devices, rules), ps)"
proof -
  obtain ps where ps: "match_rules bus (length devices) rules [] [] w = (Inr ps, w)" "set ps = {i \<in> fst ` set devices. policy_allows f rules i}"
    using match_rules_policy [OF assms(1), of "[]" rules "[]"] by auto
  show ?thesis
  proof (cases "\<exists>qs. u_cache w = Some ((owner, devices, rules), qs)")
    case True
    then show ?thesis using assms(2) by (auto simp: trusted_ids_def cache_ok_def)
  next
    case False
    then show ?thesis using ps by (auto simp: trusted_ids_def s_bind_def split: option.splits prod.splits)
  qed
qed

lemma list_devices_read:
  assumes "\<not> enrolled bus" and read: "reads_policy bus (u_bus w) owner devices rules f" and "cache_ok (owner, devices, rules) f w"
  obtains ps w' where "list_devices e bus w = (py_map (device_entry e owner ps) devices, w')" and "u_bus w' = u_bus w"
    and "set ps = {i \<in> fst ` set devices. policy_allows f rules i}" and "u_cache w' = Some ((owner, devices, rules), ps)"
proof -
  obtain ps w' where t: "trusted_ids bus (owner, devices, rules) w = (Inr ps, w')" "u_bus w' = u_bus w"
    "set ps = {i \<in> fst ` set devices. policy_allows f rules i}" "u_cache w' = Some ((owner, devices, rules), ps)"
    using trusted_ids_policy [OF read assms(3)] by blast
  have "on_bus (ub_owner bus) w = (Inr owner, w)" "on_bus (ub_list bus ''match'') w = (Inr devices, w)" "on_bus (ub_rules bus) w = (Inr rules, w)"
    using read by (auto simp: reads_policy_def intro: on_bus_read)
  then have "list_devices e bus w = (py_map (device_entry e owner ps) devices, w')"
    using assms(1) t(1) by (simp add: list_devices_def s_bind_def s_catch_def)
  then show thesis using that t by blast
qed

lemma device_entry_fields:
  assumes "device_entry e owner ps (i, rule) = Inr v"
  shows "vget v ''device_id'' = VStr (nat_str i)" and "vget v ''trusted'' = VBool (i \<in> set ps)"
    and "vget v ''can_persist'' = VBool True \<Longrightarrow> persistent_rule_is_narrow rule = Inr True"
  using assms unfolding device_entry_def by (auto simp: py_bind_eq_Inr vget_def dget_def)

text \<open>
  C18: A device is shown as trusted exactly when the first rule of the policy of USBGuard that matches it, among those with a
  known target, allows it; and a second reading of the same state, which takes the answer from the cache, shows
  the same.
\<close>

theorem trusted_first_match:
  assumes "\<not> enrolled bus" and "reads_policy bus (u_bus w) owner devices rules f" and "cache_ok (owner, devices, rules) f w"
    and "list_devices e bus w = (Inr ds, w')"
  shows "list_all2 (\<lambda>(i, rule) v. vget v ''device_id'' = VStr (nat_str i) \<and> vget v ''trusted'' = VBool (policy_allows f rules i)) devices ds
    \<and> cache_ok (owner, devices, rules) f w' \<and> fst (list_devices e bus w') = Inr ds"
proof -
  obtain ps v where v: "list_devices e bus w = (py_map (device_entry e owner ps) devices, v)" "u_bus v = u_bus w"
    "set ps = {i \<in> fst ` set devices. policy_allows f rules i}" "u_cache v = Some ((owner, devices, rules), ps)"
    by (rule list_devices_read [OF assms(1-3)])
  then have ps: "py_map (device_entry e owner ps) devices = Inr ds" "u_bus w' = u_bus w"
    "set ps = {i \<in> fst ` set devices. policy_allows f rules i}" "u_cache w' = Some ((owner, devices, rules), ps)"
    using assms(4) by simp_all
  have entry: "vget v ''device_id'' = VStr (nat_str i) \<and> vget v ''trusted'' = VBool (policy_allows f rules i)"
    if "(i, rule) \<in> set devices" "device_entry e owner ps (i, rule) = Inr v" for i rule v
    using device_entry_fields(1,2) [OF that(2)] rev_image_eqI [OF that(1), of i fst] unfolding ps(3) by simp
  have "list_all2 (\<lambda>(i, rule) v. vget v ''device_id'' = VStr (nat_str i) \<and> vget v ''trusted'' = VBool (policy_allows f rules i)) devices ds"
    using ps(1) [unfolded py_map_Inr_all2] by (rule list.rel_mono_strong) (use entry in \<open>auto split: prod.splits\<close>)
  moreover have ok: "cache_ok (owner, devices, rules) f w'" using ps(3,4) by (simp add: cache_ok_def)
  moreover have "fst (list_devices e bus w') = Inr ds"
  proof -
    have "reads_policy bus (u_bus w') owner devices rules f" using assms(2) ps(2) by simp
    from list_devices_read [OF assms(1) this ok] obtain qs u where q: "list_devices e bus w' = (py_map (device_entry e owner qs) devices, u)"
      "set qs = {i \<in> fst ` set devices. policy_allows f rules i}" .
    have "device_entry e owner qs = device_entry e owner ps" by (auto simp: device_entry_def fun_eq_iff q(2) ps(3))
    then show ?thesis using ps(1) q(1) by simp
  qed
  ultimately show ?thesis by blast
qed

section \<open>The identity of a device\<close>

abbreviation (input) quote_mark :: char where "quote_mark \<equiv> CHR 0x22"

text \<open>Where the character before a text is not part of a longer name.\<close>

definition at_word_start :: "string \<Rightarrow> bool" where
  "at_word_start p \<longleftrightarrow> (case p of [] \<Rightarrow> True | c # _ \<Rightarrow> \<not> is_word c \<and> c \<noteq> CHR ''-'')"

lemma attr_match:
  assumes "(p', s', c) \<in> set (rx_match ATTR p s [])"
  shows "\<exists>k sp v. s = k @ sp @ [quote_mark] @ v @ [quote_mark] @ s' \<and> sp \<noteq> [] \<and> list_all is_space sp \<and> quote_mark \<notin> set v
    \<and> at_word_start p \<and> map_of c ''key'' = Some k \<and> map_of c ''value'' = Some v"
proof -
  obtain p1 s1 c1 p2 s2 c2 p3 s3 c3 p4 s4 c4 p5 s5 c5
    where 1: "(p1, s1, c1) \<in> set (rx_match (NotAfter (\<lambda>c. is_word c \<or> c = CHR ''-'')) p s [])"
      and 2: "(p2, s2, c2) \<in> set (rx_match (Group ''key'' (Alt (lit ''name'') (Alt (lit ''serial'') (Alt (lit ''hash'') (lit ''via-port''))))) p1 s1 c1)"
      and 3: "(p3, s3, c3) \<in> set (rx_match (some_of (Ch is_space)) p2 s2 c2)"
      and 4: "(p4, s4, c4) \<in> set (rx_match (Ch ((=) quote_mark)) p3 s3 c3)"
      and 5: "(p5, s5, c5) \<in> set (rx_match (Group ''value'' (Many (Ch (\<lambda>c. c \<noteq> quote_mark)))) p4 s4 c4)"
      and 6: "(p', s', c) \<in> set (rx_match (Ch ((=) quote_mark)) p5 s5 c5)"
    using assms unfolding ATTR_def in_rx_match_Seq by blast
  have start: "s1 = s" "c1 = []" "at_word_start p" using rx_match_plain [OF 1] by (auto simp: at_word_start_def split: list.splits)
  obtain k where k: "s1 = k @ s2" "c2 = AList.update ''key'' k c1" using rx_match_group [OF 2] by auto
  obtain sp where sp: "s2 = sp @ s3" "sp \<noteq> []" "list_all is_space sp" "c3 = c2" using rx_match_plain [OF 3] by auto
  have open_quote: "s3 = quote_mark # s4" "c4 = c3" using rx_match_plain [OF 4] by auto
  obtain v where v: "s4 = v @ s5" "list_all (\<lambda>c. c \<noteq> quote_mark) v" "c5 = AList.update ''value'' v c4" using rx_match_group [OF 5] by auto
  have close_quote: "s5 = quote_mark # s'" "c = c5" using rx_match_plain [OF 6] by auto
  have "s = k @ sp @ [quote_mark] @ v @ [quote_mark] @ s'" using start(1) k(1) sp(1) open_quote(1) v(1) close_quote(1) by simp
  moreover have "c = AList.update ''value'' v (AList.update ''key'' k [])" using start(2) k(2) sp(4) open_quote(2) v(3) close_quote(2) by simp
  then have "map_of c ''key'' = Some k" "map_of c ''value'' = Some v" by simp_all
  moreover have "quote_mark \<notin> set v" using v(2) by (auto simp: list_all_iff)
  ultimately show ?thesis using sp(2,3) start(3) by blast
qed

text \<open>\<open>holds_attr rule key v\<close>: the rule has the attribute, under this very name, in quotes.\<close>

definition holds_attr :: "string \<Rightarrow> string \<Rightarrow> string \<Rightarrow> bool" where
  "holds_attr rule key v \<longleftrightarrow> (\<exists>a sp b. rule = a @ key @ sp @ [quote_mark] @ v @ [quote_mark] @ b \<and> sp \<noteq> [] \<and> list_all is_space sp
     \<and> quote_mark \<notin> set v \<and> at_word_start (rev a))"

lemma rule_attr_held:
  assumes "rule_attrs rule key = Some t"
  shows "\<exists>v. t = take 160 v \<and> holds_attr rule key v"
proof -
  obtain m where m: "m \<in> set (rx_finditer ATTR [] rule)" "key = captured ''key'' m" "t = take 160 (captured ''value'' m)"
    using map_of_SomeD [OF assms [unfolded rule_attrs_def]] by auto
  obtain a where a: "found_at ATTR [] rule m a" using rx_finditer_found [OF m(1)] by blast
  then obtain k sp v where "mt_text m @ mt_rest m = k @ sp @ [quote_mark] @ v @ [quote_mark] @ mt_rest m" "sp \<noteq> []" "list_all is_space sp"
    "quote_mark \<notin> set v" "at_word_start (rev a)" "map_of (mt_captures m) ''key'' = Some k" "map_of (mt_captures m) ''value'' = Some v"
    using attr_match unfolding found_at_def by (metis append_Nil2)
  then show ?thesis using a m(2,3) unfolding holds_attr_def captured_def found_at_def by auto
qed

text \<open>\<open>holds_id rule\<close>: the rule names a vendor and a product.\<close>

definition holds_id :: "string \<Rightarrow> bool" where
  "holds_id rule \<longleftrightarrow> (\<exists>a sp vendor product b. rule = a @ ''id'' @ sp @ vendor @ '':'' @ product @ b \<and> sp \<noteq> [] \<and> list_all is_space sp
     \<and> length vendor = 4 \<and> length product = 4 \<and> list_all is_hex_any (vendor @ product))"

lemma identifier_held: "rx_search DEVICE_IDENTIFIER [] rule = Some m \<Longrightarrow> holds_id rule"
proof -
  assume "rx_search DEVICE_IDENTIFIER [] rule = Some m"
  then obtain a where "rule = a @ mt_text m @ mt_rest m" "rx_rel DEVICE_IDENTIFIER (rev a) (mt_text m) (mt_rest m)"
    using rx_search_found unfolding found_at_def by fastforce
  moreover from this(2) obtain sp vendor product where "mt_text m = ''id'' @ sp @ vendor @ '':'' @ product" "sp \<noteq> []" "list_all is_space sp"
    "length vendor = 4" "length product = 4" "list_all is_hex_any vendor" "list_all is_hex_any product"
    unfolding DEVICE_IDENTIFIER_def by auto
  ultimately show ?thesis unfolding holds_id_def
    by (intro exI [of _ a] exI [of _ sp] exI [of _ vendor] exI [of _ product] exI [of _ "mt_rest m"]) simp
qed

text \<open>
  C19: Persistent trust rests on the device's own identity. A rule counts as narrow only if it names a vendor and a product and
  has, under its own name and not as the end of another one such as \<open>parent-hash\<close>, a serial number or a hash in quotes that
  is not empty.
\<close>

theorem narrow_rule_own_identity:
  assumes "persistent_rule_is_narrow rule = Inr True"
  shows "holds_id rule \<and> (\<exists>key v. key \<in> set [''serial'', ''hash''] \<and> v \<noteq> [] \<and> holds_attr rule key v)"
proof -
  obtain m where m: "rx_search DEVICE_IDENTIFIER [] rule = Some m" and stable: "stable_text rule \<noteq> None" "stable_text rule \<noteq> Some []"
    using assms unfolding persistent_rule_is_narrow_def parse_rule_def Let_def by (auto simp: py_bind_eq_Inr)
  then obtain key t where t: "key \<in> set [''serial'', ''hash'']" "rule_attrs rule key = Some t" "t \<noteq> []"
    unfolding stable_text_def text_or_def Let_def by (auto split: if_splits)
  obtain v where "t = take 160 v" "holds_attr rule key v" using rule_attr_held [OF t(2)] by blast
  then show ?thesis using t(1,3) identifier_held [OF m] by (intro conjI exI [of _ key] exI [of _ v]) auto
qed

text \<open>A device can hide its class by its name: the interfaces are read from the first place that looks like them.\<close>

lemma device_name_hides_class:
  "interface_classes (''block id 1234:5678 name '' @ [quote_mark] @ ''Disk'' @ [quote_mark] @ '' with-interface 08:06:50'') = [''08'']"
  "interface_classes (''block id 1234:5678 name '' @ [quote_mark] @ ''with-interface 03:00:00'' @ [quote_mark] @ '' with-interface 08:06:50'') = [''03'']"
  "device_class [''08''] attrs = ''EXTERNAL_STORAGE''" "device_class [''03''] attrs = ''INTERNAL_OR_UNSUPPORTED''"
  by (code_simp, code_simp, simp_all add: device_class_def)

section \<open>Instances\<close>

definition demo_usb_rule :: "string \<Rightarrow> string" where
  "demo_usb_rule target = target @ '' id 1234:5678 serial '' @ [quote_mark] @ ''S1'' @ [quote_mark]"

definition demo_usb_env :: env where
  "demo_usb_env = \<lparr>env_now = VInt 0, env_boot = None, env_uuid = [], env_idna = (\<lambda>_. None), env_sha256 = (\<lambda>s. replicate 64 (CHR ''0'')), env_float_repr = (\<lambda>_. ''0.5'')\<rparr>"

text \<open>A bus with one device; its state is whether the device is allowed. The policy allows the device.\<close>

definition demo_usb_devices :: "bool \<Rightarrow> (nat \<times> string) list" where
  "demo_usb_devices allowed = [(7, demo_usb_rule (if allowed then ''allow'' else ''block''))]"

definition demo_usb_bus :: "bool usb_bus" where
  "demo_usb_bus = \<lparr>ub_uid = 1000, ub_context = None, ub_projection = (\<lambda>b. (Inl TypeError, b)), ub_owner = (\<lambda>b. (Inr '':1.5'', b)),
     ub_list = (\<lambda>q b. (Inr (demo_usb_devices b), b)), ub_rules = (\<lambda>b. (Inr [(1, demo_usb_rule ''allow'')], b)),
     ub_apply = (\<lambda>i target permanent b. (Inr (VInt 0), target = ALLOW)), ub_remove = (\<lambda>i b. (Inr (), b))\<rparr>"

definition demo_usb_world :: "bool uworld" where
  "demo_usb_world = \<lparr>u_bus = False, u_cache = None, u_calls = []\<rparr>"

definition demo_parsed :: "bool \<Rightarrow> usb_rule" where
  "demo_parsed allowed = \<lparr>pr_state = if allowed then ''ALLOW'' else ''BLOCK'', pr_name = ''USB device'', pr_specific_id = True, pr_stable_identity = True,
     pr_stable_material = Some ''S1'', pr_vendor_id = Some ''1234'', pr_product_id = Some ''5678'', pr_interface = None, pr_device_class = ''UNKNOWN'', pr_controller = False\<rparr>"

lemma demo_parse: "parse_rule (demo_usb_rule ''block'') = Inr (demo_parsed False)" "parse_rule (demo_usb_rule ''allow'') = Inr (demo_parsed True)"
  by code_simp+

lemma demo_usb_narrow: "persistent_rule_is_narrow (demo_usb_rule ''block'') = Inr True" "persistent_rule_is_narrow (demo_usb_rule ''allow'') = Inr True"
  by (simp_all add: persistent_rule_is_narrow_def demo_parse demo_parsed_def py_bind_def)

theorem narrow_rule_own_identity_witness:
  "persistent_rule_is_narrow (demo_usb_rule ''block'') = Inr True \<and> holds_id (demo_usb_rule ''block'')"
  using narrow_rule_own_identity [OF demo_usb_narrow(1)] demo_usb_narrow(1) by blast

definition demo_usb_entry :: "bool \<Rightarrow> dict" where
  "demo_usb_entry allowed = [(''device_id'', VStr ''7''), (''connection_ref'', VStr (replicate 32 (CHR ''0''))), (''name'', VStr ''USB device''),
     (''state'', VStr (if allowed then ''ALLOW'' else ''BLOCK'')), (''authorized'', VBool allowed), (''trusted'', VBool True), (''controller'', VBool False),
     (''can_persist'', VBool True), (''device_class'', VStr ''UNKNOWN''),
     (''identity_metadata'', VDict [(''stable_id'', VStr ''S1''), (''vendor_id'', VStr ''1234''), (''product_id'', VStr ''5678''), (''interface'', VNone), (''device_class'', VStr ''UNKNOWN'')])]"

lemma demo_number: "nat_str 7 = ''7''"
  by code_simp

lemma demo_device_entry: "7 \<in> set ps \<Longrightarrow> py_map (device_entry demo_usb_env owner ps) (demo_usb_devices b) = Inr [VDict (demo_usb_entry b)]"
  by (simp add: demo_usb_devices_def device_entry_def demo_parse demo_usb_narrow demo_parsed_def demo_usb_entry_def demo_usb_env_def py_bind_def demo_number del: nat_str.simps)

lemma demo_reads: "reads_policy demo_usb_bus b '':1.5'' (demo_usb_devices b) [(1, demo_usb_rule ''allow'')] (\<lambda>q. demo_usb_devices b)"
  by (simp add: reads_policy_def demo_usb_bus_def demo_usb_devices_def)

lemma demo_policy: "policy_allows (\<lambda>q. demo_usb_devices b) [(1, demo_usb_rule ''allow'')] 7"
  by (simp add: demo_usb_rule_def rule_target_def TARGETS_def demo_usb_devices_def)

lemma demo_list:
  assumes "cache_ok ('':1.5'', demo_usb_devices (u_bus w), [(1, demo_usb_rule ''allow'')]) (\<lambda>q. demo_usb_devices (u_bus w)) w"
  obtains ps w' where "list_devices demo_usb_env demo_usb_bus w = (Inr [VDict (demo_usb_entry (u_bus w))], w')" and "u_bus w' = u_bus w"
    and "u_cache w' = Some (('':1.5'', demo_usb_devices (u_bus w), [(1, demo_usb_rule ''allow'')]), ps)"
proof -
  have "\<not> enrolled demo_usb_bus" by (simp add: enrolled_def demo_usb_bus_def)
  from list_devices_read [OF this demo_reads assms, of demo_usb_env] obtain ps w' where
    l: "list_devices demo_usb_env demo_usb_bus w = (py_map (device_entry demo_usb_env '':1.5'' ps) (demo_usb_devices (u_bus w)), w')" "u_bus w' = u_bus w"
      "set ps = {i \<in> fst ` set (demo_usb_devices (u_bus w)). policy_allows (\<lambda>q. demo_usb_devices (u_bus w)) [(1, demo_usb_rule ''allow'')] i}"
      "u_cache w' = Some (('':1.5'', demo_usb_devices (u_bus w), [(1, demo_usb_rule ''allow'')]), ps)" .
  have "7 \<in> fst ` set (demo_usb_devices (u_bus w))" by (simp add: demo_usb_devices_def)
  then have "7 \<in> set ps" using demo_policy unfolding l(3) by blast
  from demo_device_entry [OF this] show thesis using that [OF _ l(2,4)] l(1) by simp
qed

theorem trusted_first_match_witness:
  "\<exists>ds w'. list_devices demo_usb_env demo_usb_bus demo_usb_world = (Inr ds, w') \<and> fst (list_devices demo_usb_env demo_usb_bus w') = Inr ds
    \<and> list_all2 (\<lambda>(i, rule) v. vget v ''device_id'' = VStr (nat_str i) \<and> vget v ''trusted'' = VBool (policy_allows (\<lambda>q. demo_usb_devices False) [(1, demo_usb_rule ''allow'')] i))
        (demo_usb_devices False) ds"
proof -
  have no: "\<not> enrolled demo_usb_bus" by (simp add: enrolled_def demo_usb_bus_def)
  have world: "u_bus demo_usb_world = False" "cache_ok key f demo_usb_world" for key f by (simp_all add: demo_usb_world_def cache_ok_def)
  obtain w' ps where "list_devices demo_usb_env demo_usb_bus demo_usb_world = (Inr [VDict (demo_usb_entry (u_bus demo_usb_world))], w')"
    by (rule demo_list [OF world(2)])
  then have l: "list_devices demo_usb_env demo_usb_bus demo_usb_world = (Inr [VDict (demo_usb_entry False)], w')" unfolding world(1) .
  show ?thesis using trusted_first_match [OF no demo_reads world(2) l] l world(1) by auto
qed

lemma demo_apply:
  "\<exists>k. apply_device demo_usb_env demo_usb_bus (VStr ''7'') ALLOW False w = (Inr k, w\<lparr>u_calls := u_calls w @ [ApplyPolicy 7 ALLOW False], u_bus := True\<rparr>)"
proof -
  have "rx_full DEVICE_ID ''7''" "parse_base 10 ''7'' = 7" by code_simp+
  moreover from this(2) have "uint32 ''7'' = Inr 7" by (simp add: uint32_def)
  ultimately show ?thesis by (simp add: apply_device_def note_call_def on_bus_def demo_usb_bus_def s_catch_def s_bind_def)
qed

lemma demo_approve:
  "\<exists>w'. request_trust demo_usb_env demo_usb_bus (replicate 32 (CHR ''0'')) ''once'' demo_usb_world
    = (Inr \<lparr>tr_ok = True, tr_state = ''COMPLETE'', tr_detail = ''Allowed until disconnected.''\<rparr>, w')"
proof -
  have world: "u_bus demo_usb_world = False" "cache_ok key f demo_usb_world" for key f by (simp_all add: demo_usb_world_def cache_ok_def)
  obtain ps w1 where "list_devices demo_usb_env demo_usb_bus demo_usb_world = (Inr [VDict (demo_usb_entry (u_bus demo_usb_world))], w1)"
    "u_cache w1 = Some (('':1.5'', demo_usb_devices (u_bus demo_usb_world), [(1, demo_usb_rule ''allow'')]), ps)" by (rule demo_list [OF world(2)])
  then have l1: "list_devices demo_usb_env demo_usb_bus demo_usb_world = (Inr [VDict (demo_usb_entry False)], w1)"
    "u_cache w1 = Some (('':1.5'', demo_usb_devices False, [(1, demo_usb_rule ''allow'')]), ps)" unfolding world(1) .
  let ?w2 = "w1\<lparr>u_calls := u_calls w1 @ [ApplyPolicy 7 ALLOW False], u_bus := True\<rparr>"
  have "demo_usb_devices False \<noteq> demo_usb_devices True" by (simp add: demo_usb_devices_def demo_usb_rule_def)
  then have "cache_ok ('':1.5'', demo_usb_devices True, [(1, demo_usb_rule ''allow'')]) f ?w2" for f using l1(2) by (simp add: cache_ok_def)
  then obtain w3 where l2: "list_devices demo_usb_env demo_usb_bus ?w2 = (Inr [VDict (demo_usb_entry True)], w3)" using demo_list [of ?w2] by auto
  have same: "first_where (same_device (demo_usb_entry False)) [VDict (demo_usb_entry True)] = Inr (Some (VDict (demo_usb_entry True)))"
    by (simp add: same_device_def as_mapping_def py_bind_def demo_usb_entry_def dget_def)
  have "approve demo_usb_env demo_usb_bus False (demo_usb_entry False) w1 = (Inr (confirmation False (Some (VDict (demo_usb_entry True)))), w3)"
    using demo_apply [of w1] l2 same by (auto simp: approve_def allow_once_def s_bind_def dindex_def demo_usb_entry_def)
  moreover have "confirmation False (Some (VDict (demo_usb_entry True))) = \<lparr>tr_ok = True, tr_state = ''COMPLETE'', tr_detail = ''Allowed until disconnected.''\<rparr>"
    by (simp add: confirmation_def demo_usb_entry_def vget_def dget_def)
  ultimately have "trust_device demo_usb_env demo_usb_bus (replicate 32 (CHR ''0'')) False demo_usb_world
    = (Inr \<lparr>tr_ok = True, tr_state = ''COMPLETE'', tr_detail = ''Allowed until disconnected.''\<rparr>, w3)"
    using l1(1) by (simp add: trust_device_def s_bind_def py_bind_def Let_def) (simp add: demo_usb_entry_def dget_def in_keys_def hashable_def)
  moreover have "rx_full CONNECTION_REF (replicate 32 (CHR ''0''))" by code_simp
  ultimately show ?thesis by (simp add: request_trust_def s_bind_def s_try_def)
qed

theorem approval_confined_witness:
  "\<exists>result w' ds v device u ds'. request_trust demo_usb_env demo_usb_bus (replicate 32 (CHR ''0'')) ''once'' demo_usb_world = (Inr result, w') \<and> tr_ok result
    \<and> list_devices demo_usb_env demo_usb_bus demo_usb_world = (Inr ds, v) \<and> may_approve (replicate 32 (CHR ''0'')) False device
    \<and> u_calls w' = [ApplyPolicy (device_number demo_usb_env (dget device ''device_id'')) ALLOW False]
    \<and> list_devices demo_usb_env demo_usb_bus u = (Inr ds', w') \<and> confirmed_in False device ds'"
proof -
  obtain w' where run: "request_trust demo_usb_env demo_usb_bus (replicate 32 (CHR ''0'')) ''once'' demo_usb_world
    = (Inr \<lparr>tr_ok = True, tr_state = ''COMPLETE'', tr_detail = ''Allowed until disconnected.''\<rparr>, w')" using demo_approve by blast
  have "u_calls demo_usb_world = []" by (simp add: demo_usb_world_def)
  then show ?thesis using approval_confined [OF run] run by fastforce
qed

end
