(* ===== verification/Py_Tables.thy ===== *)
theory Py_Tables
  imports Py_Loops "HOL-Library.AList"
begin

text \<open>
  Dictionaries that the services fill in a loop: with text keys, as association lists, and with any
  JSON value as key, where keys are compared as \<open>==\<close> does.
\<close>

section \<open>Filling a dictionary\<close>

lemma list_all2_source: "list_all2 P xs ys \<Longrightarrow> y \<in> set ys \<Longrightarrow> \<exists>x \<in> set xs. P x y"
  by (induction rule: list_all2_induct) auto

lemma list_all2_target: "list_all2 P xs ys \<Longrightarrow> x \<in> set xs \<Longrightarrow> \<exists>y \<in> set ys. P x y"
  by (induction rule: list_all2_induct) auto

lemma update_member: "y \<in> set (AList.update k v al) \<Longrightarrow> y = (k, v) \<or> y \<in> set al"
  by (induction al) (auto split: if_splits)

lemma fold_update_entry:
  "y \<in> set (foldl (\<lambda>acc x. AList.update (key x) (f x) acc) acc xs) \<Longrightarrow> y \<in> set acc \<or> (\<exists>x \<in> set xs. y = (key x, f x))"
  by (induction xs rule: rev_induct) (auto dest!: update_member)

lemma fold_update_keys: "fst ` set (foldl (\<lambda>acc x. AList.update (key x) (f x) acc) acc xs) = fst ` set acc \<union> key ` set xs"
  by (induction xs rule: rev_induct) (auto simp: dom_update)

lemma fold_update_distinct: "distinct (map fst acc) \<Longrightarrow> distinct (map fst (foldl (\<lambda>acc x. AList.update (key x) (f x) acc) acc xs))"
  by (induction xs arbitrary: acc) (simp_all add: distinct_update)

section \<open>JSON keys\<close>

type_synonym table = "(val \<times> val) list"

definition tget :: "table \<Rightarrow> val \<Rightarrow> val option" where
  "tget t k = map_option snd (find (\<lambda>(j, v). py_eq j k) t)"

text \<open>\<open>t[k] = v\<close>: an equal key keeps its place.\<close>

fun tput :: "table \<Rightarrow> val \<Rightarrow> val \<Rightarrow> table" where
  "tput [] k v = [(k, v)]"
| "tput ((j, u) # t) k v = (if py_eq j k then (j, v) # t else (j, u) # tput t k v)"

definition tpop :: "table \<Rightarrow> val \<Rightarrow> table" where
  "tpop t k = filter (\<lambda>(j, v). \<not> py_eq j k) t"

text \<open>\<open>t.get(k, d)\<close> and \<open>t[k] = v\<close>: an unhashable key raises.\<close>

definition tlookup :: "table \<Rightarrow> val \<Rightarrow> val \<Rightarrow> val py" where
  "tlookup t k d = (if hashable k then Inr (case tget t k of None \<Rightarrow> d | Some v \<Rightarrow> v) else Inl TypeError)"

definition tstore :: "table \<Rightarrow> val \<Rightarrow> val \<Rightarrow> table py" where
  "tstore t k v = (if hashable k then Inr (tput t k v) else Inl TypeError)"

lemma py_eq_sym: "py_eq a b \<Longrightarrow> py_eq b a" and py_eq_trans: "py_eq a b \<Longrightarrow> py_eq b c \<Longrightarrow> py_eq a c"
  by (simp_all add: py_eq_def)

lemma tget_Nil: "tget [] k = None"
  by (simp add: tget_def)

lemma tget_Cons: "tget ((j, v) # t) k = (if py_eq j k then Some v else tget t k)"
  by (simp add: tget_def)

lemma tget_tput: "tget (tput t k v) j = (if py_eq k j then Some v else tget t j)"
  by (induction t k v rule: tput.induct) (simp_all add: tget_Cons tget_Nil, auto simp: py_eq_def)

lemma tget_cong: "py_eq j k \<Longrightarrow> tget t j = tget t k"
  by (simp add: tget_def py_eq_def)

lemma tlookup_absent: "tlookup t k d = Inr v \<Longrightarrow> tget t k = Some v \<or> v = d"
  by (auto simp: tlookup_def split: if_splits option.splits)

text \<open>The keys are distinct as \<open>==\<close> sees them.\<close>

definition keys_distinct :: "table \<Rightarrow> bool" where
  "keys_distinct t \<longleftrightarrow> distinct (map (canon \<circ> fst) t)"

lemma tput_entry: "y \<in> set (tput t k v) \<Longrightarrow> y \<in> set t \<or> (snd y = v \<and> py_eq (fst y) k)"
  by (induction t k v rule: tput.induct) (auto split: if_splits)

lemma tput_keys: "set (map (canon \<circ> fst) (tput t k v)) = insert (canon k) (set (map (canon \<circ> fst) t))"
  by (induction t k v rule: tput.induct) (auto simp: py_eq_def)

lemma keys_distinct_tput: "keys_distinct t \<Longrightarrow> keys_distinct (tput t k v)"
proof (induction t k v rule: tput.induct)
  case (2 j u t k v)
  have "canon j \<notin> set (map (canon \<circ> fst) (tput t k v))" if "\<not> py_eq j k"
    using "2.prems" that unfolding tput_keys by (simp add: keys_distinct_def py_eq_def)
  then show ?case using 2 by (simp add: keys_distinct_def)
qed (simp add: keys_distinct_def)

lemma keys_distinct_tpop: "keys_distinct t \<Longrightarrow> keys_distinct (tpop t k)"
  by (simp add: keys_distinct_def tpop_def distinct_map_filter)

end
