(* ===== verification/Sensors.thy ===== *)
theory Sensors
  imports Py_Tables
begin

text \<open>
  \<open>sensors.py\<close>: the PipeWire graph kept by the monitor, and the microphone, camera and screen-cast activity read
  from it. A graph object is a JSON dictionary. The reading of the monitor process and its JSON framing are I/O: \<open>apply_entry\<close> and
  \<open>monitor_apply\<close> start from a decoded value.
\<close>

section \<open>Attribution\<close>

definition SENSOR_CLASSES :: "(string \<times> string) list" where
  "SENSOR_CLASSES = [(''Stream/Input/Audio'', ''MICROPHONE''), (''Stream/Input/Video'', ''CAMERA'')]"

definition UNATTRIBUTABLE :: "string list" where
  "UNATTRIBUTABLE = [''pipewire'', ''wireplumber'', ''xdg-desktop-portal'', ''xdg-desktop-portal-wlr'', ''xdg-desktop-portal-hyprland'']"

definition SCREEN_MARKERS :: "string list" where
  "SCREEN_MARKERS = [''screen'', ''screencast'', ''screen-cast'', ''desktop'', ''monitor'']"

definition named_by :: "dict \<Rightarrow> val" where
  "named_by props = py_or (dget props ''application.name'') (dget props ''application.process.binary'')"

definition client_name :: "dict \<Rightarrow> table \<Rightarrow> val py" where
  "client_name props clients = (let key = dget props ''client.id'' in
     if \<not> hashable key then Inl TypeError
     else case tget clients key of
       None \<Rightarrow> Inr (named_by props)
     | Some v \<Rightarrow> py_bind (as_mapping v) (\<lambda>client. Inr (named_by client)))"

definition app_name :: "env \<Rightarrow> dict \<Rightarrow> table \<Rightarrow> string option py" where
  "app_name e props clients = py_bind (if truthy (named_by props) then Inr (named_by props) else client_name props clients)
     (\<lambda>candidate. Inr (if \<not> truthy candidate \<or> py_lower (py_str e candidate) \<in> set UNATTRIBUTABLE then None else Some (take 80 (py_str e candidate))))"

definition screen_share :: "env \<Rightarrow> dict \<Rightarrow> bool" where
  "screen_share e props = (let values = filter (\<lambda>v. v \<noteq> []) (map (\<lambda>key. py_lower (py_str e (py_or (dget props key) (VStr []))))
       [''media.role'', ''media.name'', ''node.name'', ''application.name'', ''application.process.binary'']) in
     list_ex (\<lambda>marker. list_ex (sublist marker) values) SCREEN_MARKERS)"

section \<open>The activity in a graph\<close>

text \<open>\<open>item.get('info', {})\<close>, and the entry \<open>props\<close> of a dictionary.\<close>

definition info_of :: "dict \<Rightarrow> val" where
  "info_of item = dget_or item ''info'' (VDict [])"

definition props_in :: "val \<Rightarrow> val py" where
  "props_in info = py_bind (as_mapping info) (\<lambda>d. Inr (dget_or d ''props'' (VDict [])))"

text \<open>\<open>{item.get('id'): f(item) for item in payload if item.get('type') == kind}\<close>.\<close>

definition table_of :: "string \<Rightarrow> (dict \<Rightarrow> val py) \<Rightarrow> dict list \<Rightarrow> table py" where
  "table_of kind f payload = py_fold (\<lambda>t item. if dget item ''type'' = VStr kind
     then py_bind (f item) (\<lambda>v. tstore t (dget item ''id'') v) else Inr t) [] payload"

definition clients_of :: "dict list \<Rightarrow> table py" where
  "clients_of payload = table_of ''PipeWire:Interface:Client'' (\<lambda>item. props_in (info_of item)) payload"

definition nodes_of :: "dict list \<Rightarrow> table py" where
  "nodes_of payload = table_of ''PipeWire:Interface:Node'' (\<lambda>item. Inr (info_of item)) payload"

definition sensor_kind :: "dict \<Rightarrow> string option py" where
  "sensor_kind props = (let c = dget props ''media.class'' in
     if \<not> hashable c then Inl TypeError else Inr (case c of VStr s \<Rightarrow> map_of SENSOR_CLASSES s | _ \<Rightarrow> None))"

definition marked :: "dict \<Rightarrow> string \<Rightarrow> bool" where
  "marked d key = py_mem (dget d key) [VBool True, VStr ''true'']"

definition or_text :: "string option \<Rightarrow> string \<Rightarrow> string" where
  "or_text a d = (case a of None \<Rightarrow> d | Some s \<Rightarrow> if s = [] then d else s)"

definition stream_of :: "string option \<Rightarrow> dict" where
  "stream_of application = [(''application'', of_str_opt application), (''attribution'', VStr (if or_text application [] \<noteq> [] then ''RELIABLE'' else ''AMBIGUOUS''))]"

text \<open>What an active link to a running node is: nothing of interest, a capture, or a screen cast of an application.\<close>

datatype link_kind = Other | Capture string | Cast "string option"

definition link_use_of :: "env \<Rightarrow> table \<Rightarrow> val \<Rightarrow> val \<Rightarrow> link_kind py" where
  "link_use_of e clients props_v source_v = py_bind (as_mapping props_v) (\<lambda>props. py_bind (sensor_kind props) (\<lambda>kind.
     if kind = Some ''MICROPHONE'' then py_bind (as_mapping source_v) (\<lambda>source. Inr (
       if dget source ''media.class'' \<noteq> VStr ''Audio/Source'' then Other
       else if marked source ''stream.monitor'' \<or> marked props ''stream.capture.sink'' then Other
       else Capture ''MICROPHONE''))
     else if kind = Some ''CAMERA'' then py_bind (as_mapping source_v) (\<lambda>source.
       if dget source ''media.class'' \<noteq> VStr ''Video/Source'' then Inr Other
       else if screen_share e props \<or> screen_share e source then py_bind (app_name e props clients) (\<lambda>a. Inr (Cast a))
       else Inr (Capture ''CAMERA''))
     else Inr Other))"

definition link_use :: "env \<Rightarrow> table \<Rightarrow> table \<Rightarrow> dict \<Rightarrow> link_kind py" where
  "link_use e clients nodes item = (if dget item ''type'' \<noteq> VStr ''PipeWire:Interface:Link'' then Inr Other
     else py_bind (as_mapping (info_of item)) (\<lambda>link.
       if dget link ''state'' \<noteq> VStr ''active'' then Inr Other
       else py_bind (tlookup nodes (dget link ''input-node-id'') (VDict [])) (\<lambda>target_v.
         py_bind (tlookup nodes (dget link ''output-node-id'') (VDict [])) (\<lambda>source_info.
         py_bind (props_in source_info) (\<lambda>source_v.
         py_bind (props_in target_v) (\<lambda>props_v.
         if dget (as_dict target_v) ''state'' \<noteq> VStr ''running'' then Inr Other else link_use_of e clients props_v source_v))))))"

text \<open>The first loop: the nodes that capture, and the screen casts.\<close>

definition follow_link :: "env \<Rightarrow> table \<Rightarrow> table \<Rightarrow> val list \<times> dict list \<Rightarrow> dict \<Rightarrow> (val list \<times> dict list) py" where
  "follow_link e clients nodes acc item = (case acc of (linked, streams) \<Rightarrow> py_bind (link_use e clients nodes item) (\<lambda>u. Inr (case u of
       Other \<Rightarrow> (linked, streams)
     | Capture _ \<Rightarrow> (linked @ [dget (as_dict (info_of item)) ''input-node-id''], streams)
     | Cast a \<Rightarrow> (linked, streams @ [stream_of a]))))"

definition sensor_of :: "string \<Rightarrow> string option \<Rightarrow> dict" where
  "sensor_of kind application = (''kind'', VStr kind) # stream_of application"

text \<open>The second loop: the objects with a capturing node's identifier.\<close>

definition sensor_entry :: "env \<Rightarrow> table \<Rightarrow> val list \<Rightarrow> dict \<Rightarrow> (string \<times> string option) option py" where
  "sensor_entry e clients linked item = py_bind (props_in (info_of item)) (\<lambda>props_v. py_bind (as_mapping props_v) (\<lambda>props.
     py_bind (sensor_kind props) (\<lambda>kind. case kind of
       None \<Rightarrow> Inr None
     | Some k \<Rightarrow> if \<not> hashable (dget item ''id'') then Inl TypeError
         else if \<not> py_mem (dget item ''id'') linked then Inr None
         else py_bind (app_name e props clients) (\<lambda>a. Inr (Some (k, a))))))"

definition unique_sensors :: "(string \<times> string option) list \<Rightarrow> dict list" where
  "unique_sensors entries = map snd (foldl (\<lambda>acc (k, a). AList.update (k, or_text a []) (sensor_of k a) acc) [] entries)"

definition unique_shares :: "dict list \<Rightarrow> dict list" where
  "unique_shares streams = map snd (foldl (\<lambda>acc s. AList.update (as_str (py_or (dget s ''application'') (VStr ''ambiguous''))) s acc) [] streams)"

definition observe_activity :: "env \<Rightarrow> dict list \<Rightarrow> (dict list \<times> dict list) py" where
  "observe_activity e payload = py_bind (clients_of payload) (\<lambda>clients. py_bind (nodes_of payload) (\<lambda>nodes.
     py_bind (py_fold (follow_link e clients nodes) ([], []) payload) (\<lambda>(linked, streams).
     py_bind (py_map (sensor_entry e clients linked) payload) (\<lambda>entries.
     Inr (take 8 (unique_sensors (List.map_filter id entries)), take 8 (unique_shares streams))))))"

section \<open>The monitor\<close>

record monitor =
  mon_objects :: table
  mon_error :: "string option"

definition new_monitor :: monitor where
  "new_monitor = \<lparr>mon_objects = [], mon_error = Some ''PipeWire monitor has not produced an initial graph.''\<rparr>"

text \<open>One entry of a decoded value, with whether it changed the graph.\<close>

definition apply_entry :: "table \<times> bool \<Rightarrow> val \<Rightarrow> (table \<times> bool) py" where
  "apply_entry acc v = (case acc of (objects, changed) \<Rightarrow> case v of
       VDict item \<Rightarrow> if \<not> dhas item ''id'' then Inr acc
         else let key = dget item ''id'' in
           if \<not> hashable key then Inl TypeError
           else if dget item ''info'' = VNone \<and> tget objects key \<noteq> None then Inr (tpop objects key, True)
           else (case tget objects key of
               Some old \<Rightarrow> if py_eq old v then Inr acc else Inr (tput objects key v, True)
             | None \<Rightarrow> Inr (tput objects key v, True))
     | _ \<Rightarrow> Inr acc)"

fun monitor_entries :: "table \<times> bool \<Rightarrow> val list \<Rightarrow> bool \<times> table \<times> bool" where
  "monitor_entries acc [] = (True, acc)"
| "monitor_entries acc (v # vs) = (case apply_entry acc v of Inl _ \<Rightarrow> (False, acc) | Inr acc' \<Rightarrow> monitor_entries acc' vs)"

definition monitor_apply :: "val \<Rightarrow> monitor \<Rightarrow> bool \<times> monitor" where
  "monitor_apply v mon = (case monitor_entries (mon_objects mon, False) (case v of VList xs \<Rightarrow> xs | _ \<Rightarrow> [v]) of
     (completed, objects, changed) \<Rightarrow> (completed, mon\<lparr>mon_objects := objects, mon_error := (if completed \<and> changed then None else mon_error mon)\<rparr>))"

definition monitor_stopped :: "monitor \<Rightarrow> monitor" where
  "monitor_stopped mon = mon\<lparr>mon_error := Some ''PipeWire monitor stopped.''\<rparr>"

text \<open>A decoded value of the monitor's output: an entry that raises ends the reading.\<close>

definition monitor_read :: "val \<Rightarrow> monitor \<Rightarrow> monitor" where
  "monitor_read v mon = (case monitor_apply v mon of (completed, mon') \<Rightarrow> if completed then mon' else monitor_stopped mon')"

definition monitor_snapshot :: "env \<Rightarrow> monitor \<Rightarrow> ((dict list \<times> dict list) \<times> string option) py" where
  "monitor_snapshot e mon = py_bind (if mon_error mon = None then observe_activity e (map (\<lambda>(k, v). as_dict v) (mon_objects mon)) else Inr ([], []))
     (\<lambda>activity. Inr (activity, mon_error mon))"

end
