(* ===== verification/Privacy_Capsule.thy ===== *)
theory Privacy_Capsule
  imports Py_Regex Py_Tables
begin

text \<open>
  \<open>privacy_capsule.py\<close>: the session's view of live privacy activity, with a generation and an event
  identifier for each period of activity, a short list of recent events and a revision that counts visible changes;
  and the classification of clipboard text. \<open>parse\<close> reads a time stamp as seconds since the epoch.
\<close>

section \<open>Signals\<close>

definition MAX_RECENT_EVENTS :: nat where "MAX_RECENT_EVENTS = 4"

definition RECENT_EVENT_TTL_SECONDS :: int where "RECENT_EVENT_TTL_SECONDS = 60"

definition PRIORITY :: "(string \<times> nat) list" where
  "PRIORITY = [(''DEGRADED_PROTECTION'', 0), (''SENSITIVE_DATA'', 1), (''SCREEN_SHARE'', 1), (''ACTIVE_SENSOR'', 2), (''USB_DEVICE'', 3), (''UNUSUAL_ACTIVITY'', 4)]"

definition parse_stamp :: "(string \<Rightarrow> rat option) \<Rightarrow> val \<Rightarrow> rat option" where
  "parse_stamp parse v = (case v of VStr s \<Rightarrow> parse s | _ \<Rightarrow> None)"

text \<open>\<open>str(d.get(key) or fallback)[:n]\<close>.\<close>

definition short_text :: "env \<Rightarrow> dict \<Rightarrow> string \<Rightarrow> string \<Rightarrow> nat \<Rightarrow> string" where
  "short_text e d key fallback n = take n (py_str e (py_or (dget d key) (VStr fallback)))"

definition subject_key :: "env \<Rightarrow> dict \<Rightarrow> string" where
  "subject_key e signal = take 24 (env_sha256 e (join ''|'' (map (\<lambda>field. short_text e signal field [] 120) [''signal_id'', ''application'', ''device'', ''category''])))"

definition ALLOWED_FIELDS :: "string list" where
  "ALLOWED_FIELDS = [''signal_id'', ''category'', ''capability'', ''state'', ''title'', ''detail'', ''application'', ''device'', ''started_at'', ''observed_at'',
     ''fresh_until'', ''duration_seconds'', ''metric'', ''actions'', ''reason'']"

definition kept_fields :: "dict \<Rightarrow> dict" where
  "kept_fields signal = map (\<lambda>k. (k, dget signal k)) (filter (dhas signal) ALLOWED_FIELDS)"

definition safe_signal :: "env \<Rightarrow> dict \<Rightarrow> dict" where
  "safe_signal e signal = (let r0 = kept_fields signal;
       r1 = dput r0 ''signal_id'' (VStr (short_text e r0 ''signal_id'' ''unknown'' 96));
       r2 = dput r1 ''category'' (VStr (short_text e r1 ''category'' ''UNUSUAL_ACTIVITY'' 40));
       r3 = dput r2 ''capability'' (VStr (short_text e r2 ''capability'' ''UNAVAILABLE'' 20));
       r4 = dput r3 ''state'' (VStr (short_text e r3 ''state'' ''UNAVAILABLE'' 20)) in
     case dget r4 ''actions'' of
       VList xs \<Rightarrow> dput r4 ''actions'' (VList (map (\<lambda>x. VStr (take 48 (py_str e x))) (take 2 xs)))
     | _ \<Rightarrow> r4)"

definition is_live :: "dict \<Rightarrow> bool" where
  "is_live signal = str_in (dget signal ''state'') [''ACTIVE'', ''DEGRADED'', ''INFO'', ''NEW'']"

section \<open>The capsule\<close>

record capsule =
  pc_epoch :: string
  pc_revision :: nat
  pc_initialized :: bool
  pc_active :: "(string \<times> dict) list"
  pc_signals :: "(string \<times> dict) list"
  pc_generations :: "(string \<times> int) list"
  pc_recent :: "dict list"
  pc_shape :: "string option"

definition new_capsule :: "string \<Rightarrow> capsule" where
  "new_capsule epoch = \<lparr>pc_epoch = take 32 epoch, pc_revision = 0, pc_initialized = False, pc_active = [], pc_signals = [], pc_generations = [], pc_recent = [], pc_shape = None\<rparr>"

definition event_state :: "dict \<Rightarrow> string" where
  "event_state signal = (if dget signal ''state'' = VStr ''DEGRADED'' then ''DEGRADED'' else ''ACTIVE'')"

definition event_id :: "string \<Rightarrow> string \<Rightarrow> int \<Rightarrow> string" where
  "event_id epoch signal_id generation = ''capsule:'' @ epoch @ '':'' @ take 96 (replace_char (CHR ''/'') (CHR ''_'') signal_id) @ '':'' @ int_str generation"

definition capsule_event :: "env \<Rightarrow> string \<Rightarrow> dict \<Rightarrow> int \<Rightarrow> string \<Rightarrow> rat \<Rightarrow> dict" where
  "capsule_event e epoch signal generation transition observed =
     [(''event_id'', VStr (event_id epoch (py_str e (py_or (dget signal ''signal_id'') (VStr ''unknown''))) generation)), (''generation'', VInt generation),
      (''signal_id'', VStr (short_text e signal ''signal_id'' ''unknown'' 96)), (''category'', VStr (short_text e signal ''category'' ''UNUSUAL_ACTIVITY'' 40)),
      (''state'', VStr (if transition = ''ACTIVE'' then event_state signal else transition)), (''title'', VStr (short_text e signal ''title'' ''Privacy activity'' 120)),
      (''occurred_at'', VStr (iso observed)), (''transition'', VStr transition)]"

text \<open>\<open>xs[-4:]\<close>.\<close>

definition latest :: "'a list \<Rightarrow> 'a list" where
  "latest xs = drop (length xs - MAX_RECENT_EVENTS) xs"

definition add_event :: "dict \<Rightarrow> dict list \<Rightarrow> dict list" where
  "add_event event recent = latest (filter (\<lambda>x. \<not> (dget x ''event_id'' = dget event ''event_id'' \<and> dget x ''transition'' = dget event ''transition'')) recent @ [event])"

definition prune_events :: "(string \<Rightarrow> rat option) \<Rightarrow> rat \<Rightarrow> dict list \<Rightarrow> dict list" where
  "prune_events parse observed recent = latest (filter (\<lambda>x. case parse_stamp parse (dget x ''occurred_at'') of
       None \<Rightarrow> False | Some t \<Rightarrow> observed - t \<le> of_int RECENT_EVENT_TTL_SECONDS) recent)"

text \<open>A signal whose freshness has run out is not live any more.\<close>

definition expired :: "(string \<Rightarrow> rat option) \<Rightarrow> rat \<Rightarrow> dict \<Rightarrow> bool" where
  "expired parse observed signal = (case parse_stamp parse (dget signal ''fresh_until'') of None \<Rightarrow> False | Some t \<Rightarrow> t \<le> observed)"

definition normalized_signal :: "env \<Rightarrow> (string \<Rightarrow> rat option) \<Rightarrow> rat \<Rightarrow> dict \<Rightarrow> dict" where
  "normalized_signal e parse observed signal = (let safe = safe_signal e signal in
     if expired parse observed safe \<and> is_live safe \<and> dget safe ''capability'' = VStr ''SUPPORTED'' then dput safe ''state'' (VStr ''STALE'') else safe)"

definition normalize_signals :: "env \<Rightarrow> (string \<Rightarrow> rat option) \<Rightarrow> rat \<Rightarrow> dict list \<Rightarrow> (string \<times> dict) list" where
  "normalize_signals e parse observed signals = foldl (\<lambda>acc signal. let safe = normalized_signal e parse observed signal in
     AList.update (as_str (dget safe ''signal_id'')) safe acc) [] signals"

definition duration :: "(string \<Rightarrow> rat option) \<Rightarrow> rat \<Rightarrow> dict \<Rightarrow> int" where
  "duration parse observed signal = (let started = (case parse_stamp parse (dget signal ''started_at'') of None \<Rightarrow> observed | Some t \<Rightarrow> t) in max 0 \<lfloor>observed - started\<rfloor>)"

definition generation_of :: "string \<Rightarrow> (string \<times> int) list \<Rightarrow> int \<Rightarrow> int" where
  "generation_of subject generations fallback = (case map_of generations subject of None \<Rightarrow> fallback | Some g \<Rightarrow> g)"

text \<open>The start of a period of activity.\<close>

definition start_signal :: "(string \<Rightarrow> rat option) \<Rightarrow> string \<Rightarrow> rat \<Rightarrow> string \<Rightarrow> int \<Rightarrow> dict \<Rightarrow> dict" where
  "start_signal parse epoch observed signal_id generation signal = (let
       s1 = dput (dput signal ''generation'' (VInt generation)) ''event_id'' (VStr (event_id epoch signal_id generation));
       s2 = dput s1 ''started_at'' (py_or (dget s1 ''started_at'') (VStr (iso observed))) in
     dput s2 ''duration_seconds'' (VInt (duration parse observed s2)))"

text \<open>Activity that goes on keeps its generation, its identifier and its start.\<close>

definition continue_signal :: "(string \<Rightarrow> rat option) \<Rightarrow> string \<Rightarrow> rat \<Rightarrow> string \<Rightarrow> int \<Rightarrow> dict \<Rightarrow> dict \<Rightarrow> dict" where
  "continue_signal parse epoch observed signal_id known old signal = (let
       generation = as_int (py_or (dget old ''generation'') (VInt known));
       s1 = dput (dput signal ''generation'' (VInt generation)) ''event_id'' (py_or (dget old ''event_id'') (VStr (event_id epoch signal_id generation)));
       s2 = dput s1 ''started_at'' (py_or (py_or (dget old ''started_at'') (dget s1 ''started_at'')) (VStr (iso observed))) in
     dput s2 ''duration_seconds'' (VInt (duration parse observed s2)))"

text \<open>What the first loop of \<open>update\<close> carries: the generations, the recent events and the signals so far.\<close>

type_synonym progress = "(string \<times> int) list \<times> dict list \<times> (string \<times> dict) list"

definition follow_signal :: "env \<Rightarrow> (string \<Rightarrow> rat option) \<Rightarrow> rat \<Rightarrow> capsule \<Rightarrow> progress \<Rightarrow> string \<times> dict \<Rightarrow> progress" where
  "follow_signal e parse observed cap acc entry = (case acc of (generations, recent, done) \<Rightarrow> case entry of (signal_id, signal) \<Rightarrow>
     if \<not> is_live signal then (generations, recent, done @ [entry])
     else let subject = subject_key e signal in
       case map_of (pc_active cap) signal_id of
         None \<Rightarrow> let generation = generation_of subject generations 0 + 1;
             started = start_signal parse (pc_epoch cap) observed signal_id generation signal in
           (AList.update subject generation generations,
            if pc_initialized cap then add_event (capsule_event e (pc_epoch cap) started generation ''ACTIVE'' observed) recent else recent,
            done @ [(signal_id, started)])
       | Some old \<Rightarrow> (generations, recent, done @ [(signal_id, continue_signal parse (pc_epoch cap) observed signal_id (generation_of subject generations 1) old signal)]))"

definition clear_signal :: "env \<Rightarrow> rat \<Rightarrow> capsule \<Rightarrow> (string \<times> dict) list \<Rightarrow> dict list \<Rightarrow> string \<times> dict \<Rightarrow> dict list" where
  "clear_signal e observed cap active recent entry = (case entry of (signal_id, old) \<Rightarrow>
     if map_of active signal_id = None \<and> pc_initialized cap
     then add_event (capsule_event e (pc_epoch cap) old (as_int (py_or (dget old ''generation'') (VInt 0))) ''CLEARED'' observed) recent else recent)"

definition shape_signal :: "(string \<Rightarrow> rat option) \<Rightarrow> rat \<Rightarrow> dict \<Rightarrow> val" where
  "shape_signal parse observed signal = VDict (dput (filter (\<lambda>(k, v). k \<notin> set [''observed_at'', ''fresh_until'', ''duration_seconds'', ''started_at'']) signal)
     ''freshness_state'' (VStr (if expired parse observed signal then ''STALE'' else ''FRESH'')))"

definition capsule_shape :: "env \<Rightarrow> (string \<Rightarrow> rat option) \<Rightarrow> rat \<Rightarrow> (string \<times> dict) list \<Rightarrow> dict list \<Rightarrow> string" where
  "capsule_shape e parse observed signals recent = json_dumps e '','' '':'' (VDict
     [(''signals'', VList (map (\<lambda>(k, signal). shape_signal parse observed signal) (sort_key fst signals))), (''recent'', VList (map VDict recent))])"

definition capsule_update :: "env \<Rightarrow> (string \<Rightarrow> rat option) \<Rightarrow> dict list \<Rightarrow> rat \<Rightarrow> capsule \<Rightarrow> bool \<times> capsule" where
  "capsule_update e parse signals observed cap =
    (case foldl (follow_signal e parse observed cap) (pc_generations cap, pc_recent cap, []) (normalize_signals e parse observed signals) of
       (generations, recent, followed) \<Rightarrow>
         let active = filter (\<lambda>(k, s). is_live s) followed;
             recent' = prune_events parse observed (foldl (clear_signal e observed cap active) recent (pc_active cap));
             shape = capsule_shape e parse observed followed recent';
             changed = (pc_shape cap \<noteq> None \<and> pc_shape cap \<noteq> Some shape) in
         (changed, cap\<lparr>pc_active := active, pc_signals := followed, pc_generations := generations, pc_recent := recent', pc_shape := Some shape,
            pc_revision := (if pc_revision cap = 0 then 1 else if changed then pc_revision cap + 1 else pc_revision cap), pc_initialized := True\<rparr>))"

section \<open>The snapshot\<close>

definition shown_signal :: "(string \<Rightarrow> rat option) \<Rightarrow> rat \<Rightarrow> dict \<Rightarrow> dict" where
  "shown_signal parse observed signal = (if is_live signal
     then dput (dput signal ''observed_at'' (VStr (iso observed))) ''duration_seconds'' (VInt (duration parse observed signal)) else signal)"

definition priority :: "dict \<Rightarrow> nat" where
  "priority signal = (case dget signal ''category'' of VStr c \<Rightarrow> (case map_of PRIORITY c of None \<Rightarrow> 99 | Some n \<Rightarrow> n) | _ \<Rightarrow> 99)"

text \<open>Sorted by priority and, within a priority, by identifier: the sort is stable.\<close>

definition shown_signals :: "(string \<Rightarrow> rat option) \<Rightarrow> rat \<Rightarrow> capsule \<Rightarrow> dict list" where
  "shown_signals parse observed cap = sort_key priority (sort_key (\<lambda>s. as_str (dget s ''signal_id'')) (map (\<lambda>(k, s). shown_signal parse observed s) (pc_signals cap)))"

definition lease_end :: "(string \<Rightarrow> rat option) \<Rightarrow> rat \<Rightarrow> dict list \<Rightarrow> rat" where
  "lease_end parse observed signals = (case List.map_filter (\<lambda>s. parse_stamp parse (dget s ''fresh_until'')) signals of [] \<Rightarrow> observed + 10 | t # ts \<Rightarrow> fold min ts t)"

definition capability_entry :: "dict \<Rightarrow> string \<times> val" where
  "capability_entry s = (as_str (dget s ''signal_id''), VDict [(''capability'', dget_or s ''capability'' (VStr ''UNAVAILABLE'')),
     (''state'', dget_or s ''state'' (VStr ''UNAVAILABLE'')), (''reason'', dget s ''reason'')])"

definition capsule_snapshot :: "(string \<Rightarrow> rat option) \<Rightarrow> rat \<Rightarrow> capsule \<Rightarrow> dict \<times> capsule" where
  "capsule_snapshot parse observed cap = (let cap' = cap\<lparr>pc_recent := prune_events parse observed (pc_recent cap)\<rparr>;
       signals = shown_signals parse observed cap; active = filter is_live signals in
     ([(''schema'', VStr ''greyward.security.capsule/v1''), (''revision'', VInt (int (pc_revision cap))), (''generated_at'', VStr (iso observed)),
       (''fresh_until'', VStr (iso (lease_end parse observed signals))), (''availability'', VStr ''AVAILABLE''), (''active_count'', VInt (int (length active))),
       (''strongest_signal'', case active of [] \<Rightarrow> VNone | s # _ \<Rightarrow> dget s ''signal_id''),
       (''has_new_event'', VBool (list_ex (\<lambda>x. dget x ''transition'' = VStr ''ACTIVE'') (pc_recent cap'))), (''signals'', VList (map VDict signals)),
       (''recent_events'', VList (map VDict (pc_recent cap'))), (''capabilities'', VDict (map capability_entry signals))], cap'))"

section \<open>Clearing the clipboard\<close>

text \<open>
  The method \<open>ClearClipboard\<close> of the session service up to the refresh that follows: the state it answers and whether the
  clipboard tool was run. \<open>available\<close> is whether the tool is installed, \<open>succeeds\<close> whether it ends without an error.
\<close>

definition current_clipboard :: "dict list \<Rightarrow> dict option" where
  "current_clipboard signals = find (\<lambda>s. dget s ''signal_id'' = VStr ''clipboard'' \<and> dget s ''state'' = VStr ''ACTIVE'') signals"

definition clear_clipboard :: "env \<Rightarrow> (string \<Rightarrow> rat option) \<Rightarrow> rat \<Rightarrow> capsule \<Rightarrow> string \<Rightarrow> bool \<Rightarrow> bool \<Rightarrow> string \<times> bool" where
  "clear_clipboard e parse observed cap wanted available succeeds = (case current_clipboard (shown_signals parse observed cap) of
       None \<Rightarrow> (''STALE'', False)
     | Some s \<Rightarrow> if wanted \<noteq> [] \<and> wanted \<noteq> py_str e (dget s ''event_id'') then (''STALE'', False)
         else if \<not> available then (''UNAVAILABLE'', False)
         else if \<not> succeeds then (''FAILED'', True) else (''CLEARED'', True))"

section \<open>Clipboard text\<close>

definition UPPER_DIGIT_BLANK :: "char \<Rightarrow> bool" where
  "UPPER_DIGIT_BLANK c \<longleftrightarrow> is_upper_az c \<or> is_digit c \<or> c = CHR '' ''"

definition KEY_BEGIN :: rx where
  "KEY_BEGIN = Seq (lit ''-----BEGIN '') (Seq (Many (Ch UPPER_DIGIT_BLANK)) (lit ''PRIVATE KEY-----''))"

definition KEY_END :: rx where
  "KEY_END = Seq (lit ''-----END '') (Seq (Many (Ch UPPER_DIGIT_BLANK)) (lit ''PRIVATE KEY-----''))"

definition CREDENTIAL :: rx where
  "CREDENTIAL = (let blanks = Many (Ch is_space) in Seq LineStart (Seq blanks (Seq
     (Alt (lit_ignoring_case ''password'') (Alt (lit_ignoring_case ''passwd'') (Alt (lit_ignoring_case ''api_key'') (Alt (lit_ignoring_case ''secret'') (lit_ignoring_case ''token'')))))
     (Seq blanks (Seq (lit ''='') (Seq blanks (Seq (some_of (Ch (\<lambda>c. \<not> is_space c))) (Seq blanks LineEnd))))))))"

definition TOKEN :: rx where
  "TOKEN = (let body = Ch (\<lambda>c. is_lower_az c \<or> is_upper_az c \<or> is_digit c \<or> c = CHR ''_'' \<or> c = CHR ''-'') in
     Seq Boundary (Seq (Alt (Seq (lit ''gh'') (Seq (Ch (\<lambda>c. c \<in> set ''pousr'')) (lit ''_''))) (Alt (lit ''github_pat_'') (Alt (lit ''glpat-'')
       (Seq (lit ''xox'') (Seq (Ch (\<lambda>c. c \<in> set ''baprs'')) (lit ''-''))))))
     (Seq (repeated 16 body) (Seq (Many body) Boundary))))"

definition encoded_length :: "string \<Rightarrow> nat" where
  "encoded_length s = sum_list (map (\<lambda>c. if code c < 128 then 1 else 2) s)"

fun luhn_sum :: "bool \<Rightarrow> string \<Rightarrow> nat" where
  "luhn_sum doubled [] = 0"
| "luhn_sum doubled (c # s) = (let d = digit_value c; x = (if doubled then if 2 * d > 9 then 2 * d - 9 else 2 * d else d) in x + luhn_sum (\<not> doubled) s)"

text \<open>The digits at positions of the parity of the length, counted from 0, are doubled.\<close>

definition luhn :: "string \<Rightarrow> bool" where
  "luhn s = (luhn_sum (length s mod 2 = 0) s mod 10 = 0)"

definition clipboard_classification :: "val \<Rightarrow> string option" where
  "clipboard_classification v = (case v of
       VStr s \<Rightarrow> if s = [] \<or> encoded_length s > 256 * 1024 then None
         else if rx_search KEY_BEGIN [] s \<noteq> None \<and> rx_search KEY_END [] s \<noteq> None then Some ''PRIVATE_KEY''
         else if rx_search CREDENTIAL [] s \<noteq> None then Some ''STRUCTURED_CREDENTIAL''
         else if rx_search TOKEN [] s \<noteq> None then Some ''API_TOKEN''
         else let compact = filter (\<lambda>c. c \<noteq> CHR '' '' \<and> c \<noteq> CHR ''-'') (py_strip s) in
           if 13 \<le> length compact \<and> length compact \<le> 19 \<and> list_all is_digit compact \<and> luhn compact then Some ''PAYMENT_CARD'' else None
     | _ \<Rightarrow> None)"

end
