(* ===== verification/Privacy_Session.thy ===== *)
theory Privacy_Session
  imports Sensors Privacy_Capsule
begin

text \<open>
  The privacy activity of the session service (\<open>user_bus.py\<close>): what the sensors, the portal, the clipboard observer, USBGuard and
  the DNS service report becomes the signals of the capsule. The development fixture, read when an environment variable
  is set, is left out. One reading of the clock serves a whole refresh; \<open>now()\<close> has whole seconds.
\<close>

section \<open>Signals\<close>

definition optional_text :: "env \<Rightarrow> string \<Rightarrow> val \<Rightarrow> nat \<Rightarrow> dict" where
  "optional_text e key v n = (if truthy v then [(key, VStr (take n (py_str e v)))] else [])"

text \<open>The optional arguments of \<open>_capsule_signal\<close>.\<close>

record extras =
  x_detail :: val
  x_application :: val
  x_device :: val
  x_actions :: "string list"
  x_reason :: val

definition plain :: extras where
  "plain = \<lparr>x_detail = VNone, x_application = VNone, x_device = VNone, x_actions = [], x_reason = VNone\<rparr>"

definition make_capsule_signal :: "env \<Rightarrow> int \<Rightarrow> string \<Rightarrow> string \<Rightarrow> string \<Rightarrow> string \<Rightarrow> string \<Rightarrow> extras \<Rightarrow> dict" where
  "make_capsule_signal e current signal_id category capability state title x =
     [(''signal_id'', VStr signal_id), (''category'', VStr category), (''capability'', VStr capability), (''state'', VStr state), (''title'', VStr title),
      (''observed_at'', VStr (iso (of_int current))), (''fresh_until'', VStr (iso (of_int (current + 30))))]
     @ optional_text e ''detail'' (x_detail x) 240 @ optional_text e ''application'' (x_application x) 80 @ optional_text e ''device'' (x_device x) 120
     @ (if x_actions x \<noteq> [] then [(''actions'', VList (map VStr (take 2 (x_actions x))))] else []) @ optional_text e ''reason'' (x_reason x) 160"

text \<open>The signals of one kind of sensor.\<close>

definition in_use_signal :: "env \<Rightarrow> int \<Rightarrow> string \<Rightarrow> string \<Rightarrow> dict \<Rightarrow> dict" where
  "in_use_signal e current kind label item = (let app = py_str e (py_or (dget item ''application'') (VStr ''Unknown application'')) in
     make_capsule_signal e current (py_lower kind @ '':'' @ py_str e (py_or (dget item ''application'') (VStr ''ambiguous''))) ''ACTIVE_SENSOR'' ''SUPPORTED'' ''ACTIVE'' (label @ '' in use'')
       (plain\<lparr>x_detail := VStr (app @ '' is using your '' @ py_lower label @ ''.''), x_application := dget item ''application'', x_actions := [''open_privacy'']\<rparr>))"

definition sensor_inputs :: "env \<Rightarrow> int \<Rightarrow> string option \<Rightarrow> dict list \<Rightarrow> string \<Rightarrow> string \<Rightarrow> dict list" where
  "sensor_inputs e current sensor_error observed kind label = (let items = filter (\<lambda>item. dget item ''kind'' = VStr kind) observed in
     case sensor_error of
       Some err \<Rightarrow> [make_capsule_signal e current (py_lower kind) ''ACTIVE_SENSOR'' ''SUPPORTED'' ''UNAVAILABLE'' (label @ '' activity unavailable'')
         (plain\<lparr>x_detail := VStr ''PipeWire sensor context is unavailable.'', x_reason := VStr err\<rparr>)]
     | None \<Rightarrow> if items = [] then [make_capsule_signal e current (py_lower kind) ''ACTIVE_SENSOR'' ''SUPPORTED'' ''INACTIVE'' (label @ '' inactive'') plain]
         else map (in_use_signal e current kind label) (take 8 items))"

definition share_signal :: "env \<Rightarrow> int \<Rightarrow> dict \<Rightarrow> dict py" where
  "share_signal e current item = py_bind (py_concat ''screen-share:'' (py_or (dget item ''application'') (VStr ''ambiguous''))) (\<lambda>identity. Inr (
     make_capsule_signal e current identity ''SCREEN_SHARE'' ''SUPPORTED'' ''ACTIVE'' ''Screen sharing active''
       (plain\<lparr>x_detail := VStr (py_str e (py_or (dget item ''application'') (VStr ''Unknown application'')) @ '' is sharing a screen.''),
          x_application := dget item ''application'', x_actions := [''open_privacy'']\<rparr>)))"

definition share_signals :: "env \<Rightarrow> int \<Rightarrow> string option \<Rightarrow> bool \<Rightarrow> dict list \<Rightarrow> dict list py" where
  "share_signals e current sensor_error portal shares = (case sensor_error of
       Some err \<Rightarrow> Inr [make_capsule_signal e current ''screen-share'' ''SCREEN_SHARE'' ''SUPPORTED'' ''UNAVAILABLE'' ''Screen sharing activity unavailable'' (plain\<lparr>x_reason := VStr err\<rparr>)]
     | None \<Rightarrow> if \<not> portal then Inr [make_capsule_signal e current ''screen-share'' ''SCREEN_SHARE'' ''SUPPORTED'' ''UNAVAILABLE'' ''Screen sharing portal unavailable''
           (plain\<lparr>x_reason := VStr ''PORTAL_OWNER_UNAVAILABLE''\<rparr>)]
         else if shares = [] then Inr [make_capsule_signal e current ''screen-share'' ''SCREEN_SHARE'' ''SUPPORTED'' ''INACTIVE'' ''Screen sharing inactive'' plain]
         else py_map (share_signal e current) (take 8 shares))"

definition clipboard_input :: "env \<Rightarrow> int \<Rightarrow> bool \<Rightarrow> string option \<Rightarrow> dict" where
  "clipboard_input e current available category = (if available
     then if or_text category [] \<noteq> []
       then make_capsule_signal e current ''clipboard'' ''SENSITIVE_DATA'' ''SUPPORTED'' ''ACTIVE'' ''Sensitive clipboard detected''
         (plain\<lparr>x_detail := VStr (''Category: '' @ or_text category [] @ ''.''), x_actions := [''clear_clipboard'', ''open_privacy'']\<rparr>)
       else make_capsule_signal e current ''clipboard'' ''SENSITIVE_DATA'' ''SUPPORTED'' ''INACTIVE'' ''Sensitive clipboard inactive'' plain
     else make_capsule_signal e current ''clipboard'' ''SENSITIVE_DATA'' ''DEFERRED'' ''DEFERRED'' ''Sensitive clipboard unavailable''
       (plain\<lparr>x_reason := VStr ''REQUIRES_TEXT_ONLY_CLIPBOARD_OBSERVER''\<rparr>))"

definition external_signal :: "env \<Rightarrow> int \<Rightarrow> dict \<Rightarrow> dict" where
  "external_signal e current item = (let
       device_id = take 80 (py_str e (py_or (py_or (dget item ''device_id'') (dget item ''name'')) (VStr ''external'')));
       state = (if py_upper (py_str e (py_or (dget item ''state'') (VStr []))) \<in> set [''BLOCK'', ''REJECT''] then ''ACTIVE'' else ''INFO'') in
     make_capsule_signal e current (''usb:'' @ device_id) ''USB_DEVICE'' ''SUPPORTED'' state ''USB device connected''
       (plain\<lparr>x_detail := VStr (take 160 (py_str e (py_or (dget item ''name'') (VStr ''External device'')))), x_device := dget item ''name'', x_actions := [''open_devices'']\<rparr>))"

definition usb_signals :: "env \<Rightarrow> int \<Rightarrow> (dict list \<times> val) py \<Rightarrow> dict list" where
  "usb_signals e current answer = (case (case answer of Inl err \<Rightarrow> ([], VStr (exc_str err)) | Inr r \<Rightarrow> r) of (devices, device_error) \<Rightarrow>
     if truthy device_error then [make_capsule_signal e current ''usb'' ''USB_DEVICE'' ''SUPPORTED'' ''UNAVAILABLE'' ''USB activity unavailable'' (plain\<lparr>x_reason := VStr (py_str e device_error)\<rparr>)]
     else let external = filter (\<lambda>item. startswith (py_str e (py_or (dget item ''device_class'') (VStr []))) ''EXTERNAL_'') devices in
       (if external = [] then [make_capsule_signal e current ''usb'' ''USB_DEVICE'' ''SUPPORTED'' ''INACTIVE'' ''No new USB device'' plain] else [])
       @ map (external_signal e current) (take 8 external))"

definition dns_signal :: "env \<Rightarrow> int \<Rightarrow> dict \<Rightarrow> dict" where
  "dns_signal e current dns = (let
       desired = py_str e (py_or (dget dns ''desired_policy'') (VStr ''Automatic''));
       effective = py_str e (py_or (dget dns ''effective_policy'') (VStr ''Unavailable''));
       reason = dget dns ''degradation_reason'';
       strict = (desired \<in> set [''Privacy'', ''Strict'', ''Custom'']);
       degraded = (effective \<in> set [''Unavailable'', ''Disconnected''] \<or> strict \<and> effective \<in> set [''CompatibilityFallback'', ''NetworkDefault'']) in
     if degraded then make_capsule_signal e current ''secure-dns'' ''DEGRADED_PROTECTION'' ''SUPPORTED'' ''DEGRADED'' ''Secure DNS degraded''
       (plain\<lparr>x_detail := VStr (''Effective state: '' @ effective @ ''.''), x_reason := py_or reason (VStr ''Protection policy is degraded.''), x_actions := [''open_network'']\<rparr>)
     else make_capsule_signal e current ''secure-dns'' ''DEGRADED_PROTECTION'' ''SUPPORTED'' ''INACTIVE'' ''Secure DNS operating'' plain)"

definition load_signal :: "env \<Rightarrow> int \<Rightarrow> dict" where
  "load_signal e current = make_capsule_signal e current ''network-load'' ''UNUSUAL_ACTIVITY'' ''DEFERRED'' ''DEFERRED'' ''Network load unavailable''
     (plain\<lparr>x_reason := VStr ''REQUIRES_DEDICATED_NETWORK_ACCOUNTING''\<rparr>)"

text \<open>What the other services answer while the inputs are collected.\<close>

record surroundings =
  sur_portal :: bool
  sur_clipboard :: bool
  sur_usb :: "(dict list \<times> val) py"
  sur_dns :: dict

definition capsule_inputs :: "env \<Rightarrow> int \<Rightarrow> surroundings \<Rightarrow> string option \<Rightarrow> dict list \<Rightarrow> dict list \<Rightarrow> string option \<Rightarrow> dict list py" where
  "capsule_inputs e current sur category sensors shares sensor_error = py_bind (share_signals e current sensor_error (sur_portal sur) shares) (\<lambda>screen. Inr (
     sensor_inputs e current sensor_error sensors ''MICROPHONE'' ''Microphone'' @ sensor_inputs e current sensor_error sensors ''CAMERA'' ''Camera''
     @ screen @ [clipboard_input e current (sur_clipboard sur) category] @ usb_signals e current (sur_usb sur) @ [dns_signal e current (sur_dns sur), load_signal e current]))"

section \<open>The session\<close>

record session =
  ses_monitor :: monitor
  ses_capsule :: capsule
  ses_category :: "string option"

definition new_session :: "string \<Rightarrow> session" where
  "new_session epoch = \<lparr>ses_monitor = new_monitor, ses_capsule = new_capsule epoch, ses_category = None\<rparr>"

text \<open>\<open>refresh_privacy_capsule\<close>: an exception of the sources leaves the capsule as it is. The result is the revision announced, if one is.\<close>

definition refresh_privacy_capsule :: "env \<Rightarrow> (string \<Rightarrow> rat option) \<Rightarrow> surroundings \<Rightarrow> int \<Rightarrow> session \<Rightarrow> nat option \<times> session" where
  "refresh_privacy_capsule e parse sur current ses =
    (case py_bind (monitor_snapshot e (ses_monitor ses)) (\<lambda>((sensors, shares), err). capsule_inputs e current sur (ses_category ses) sensors shares err) of
       Inl _ \<Rightarrow> (None, ses)
     | Inr signals \<Rightarrow> (case capsule_update e parse signals (of_int current) (ses_capsule ses) of
         (changed, cap) \<Rightarrow> (if changed then Some (pc_revision cap) else None, ses\<lparr>ses_capsule := cap\<rparr>)))"

definition on_clipboard_category :: "env \<Rightarrow> (string \<Rightarrow> rat option) \<Rightarrow> surroundings \<Rightarrow> int \<Rightarrow> val \<Rightarrow> session \<Rightarrow> nat option \<times> session" where
  "on_clipboard_category e parse sur current category ses =
     refresh_privacy_capsule e parse sur current (ses\<lparr>ses_category := (if truthy category then Some (take 48 (py_str e category)) else None)\<rparr>)"

definition get_privacy_capsule :: "env \<Rightarrow> (string \<Rightarrow> rat option) \<Rightarrow> surroundings \<Rightarrow> int \<Rightarrow> rat \<Rightarrow> session \<Rightarrow> dict \<times> session" where
  "get_privacy_capsule e parse sur current observed ses = (let ses' = snd (refresh_privacy_capsule e parse sur current ses) in
     case capsule_snapshot parse observed (ses_capsule ses') of (shown, cap) \<Rightarrow> (shown, ses'\<lparr>ses_capsule := cap\<rparr>))"

text \<open>
  \<open>ClearClipboard\<close>: the state it answers, whether the clipboard tool was run, and the session after it. \<open>available\<close> is whether the tool is
  installed, \<open>succeeds\<close> whether it ends without an error.
\<close>

definition clear_clipboard_method :: "env \<Rightarrow> (string \<Rightarrow> rat option) \<Rightarrow> surroundings \<Rightarrow> int \<Rightarrow> rat \<Rightarrow> string \<Rightarrow> bool \<Rightarrow> bool \<Rightarrow> session \<Rightarrow> (string \<times> bool) \<times> session" where
  "clear_clipboard_method e parse sur current observed wanted available succeeds ses = (let
       ses' = ses\<lparr>ses_capsule := snd (capsule_snapshot parse observed (ses_capsule ses))\<rparr>;
       answer = clear_clipboard e parse observed (ses_capsule ses) wanted available succeeds in
     (answer, if answer = (''CLEARED'', True) then snd (refresh_privacy_capsule e parse sur current (ses'\<lparr>ses_category := None\<rparr>)) else ses'))"

section \<open>The clipboard observer\<close>

text \<open>\<open>clipboard_watch.py\<close>: \<open>raw\<close> is what is read, at most one byte over the limit; \<open>decoded\<close> its text when it is UTF-8.\<close>

definition MAX_CLIPBOARD_TEXT_BYTES :: nat where "MAX_CLIPBOARD_TEXT_BYTES = 256 * 1024"

definition classify_stdin :: "string \<Rightarrow> string option \<Rightarrow> dict" where
  "classify_stdin raw decoded = [(''category'', if length raw > MAX_CLIPBOARD_TEXT_BYTES then VNone
     else case decoded of None \<Rightarrow> VNone | Some s \<Rightarrow> of_str_opt (clipboard_classification (VStr s)))]"

end
