(* ===== verification/Privacy_Capsule_Props.thy ===== *)
theory Privacy_Capsule_Props
  imports Privacy_Capsule
begin

text \<open>
  What the capsule promises: an event identifier names one period of activity, expired activity is not shown
  as live, the recent events stay few and recent, and the revision counts the visible changes.
\<close>

section \<open>Signals by identifier\<close>

lemma list_all2_keys: "list_all2 (\<lambda>x y. fst y = fst x) xs ys \<Longrightarrow> map fst ys = map fst xs"
  by (induction rule: list_all2_induct) auto

lemma latest_length: "length (latest xs) \<le> MAX_RECENT_EVENTS"
  by (simp add: latest_def)

lemma latest_subset: "set (latest xs) \<subseteq> set xs"
  by (simp add: latest_def set_drop_subset)

lemma dget_after_put [simp]: "dget (dput d k v) k = v" "j \<noteq> k \<Longrightarrow> dget (dput d k v) j = dget d j"
  by simp_all

lemma safe_signal_texts:
  "\<exists>i. dget (safe_signal e s) ''signal_id'' = VStr i"
  by (simp add: safe_signal_def Let_def split: val.split)

lemma normalized_signal_texts: "dget (normalized_signal e parse obs s) ''signal_id'' = dget (safe_signal e s) ''signal_id''"
  by (simp add: normalized_signal_def Let_def)

lemma subject_key_normalized: "subject_key e (normalized_signal e parse obs s) = subject_key e (safe_signal e s)"
  by (simp add: normalized_signal_def Let_def subject_key_def short_text_def)

text \<open>An entry of the table is a signal of the update under its identifier.\<close>

definition entry_of :: "env \<Rightarrow> (string \<Rightarrow> rat option) \<Rightarrow> rat \<Rightarrow> dict list \<Rightarrow> string \<times> dict \<Rightarrow> bool" where
  "entry_of e parse obs signals x \<longleftrightarrow> (\<exists>s \<in> set signals. snd x = normalized_signal e parse obs s \<and> dget (snd x) ''signal_id'' = VStr (fst x))"

lemma normalize_signals_entries:
  "distinct (map fst (normalize_signals e parse obs signals)) \<and> list_all (entry_of e parse obs signals) (normalize_signals e parse obs signals)"
proof -
  have "entry_of e parse obs signals y" if y: "y \<in> set (normalize_signals e parse obs signals)" for y
  proof -
    obtain s where s: "s \<in> set signals" "y = (as_str (dget (normalized_signal e parse obs s) ''signal_id''), normalized_signal e parse obs s)"
      using fold_update_entry [OF y [unfolded normalize_signals_def Let_def]] by auto
    obtain i where "dget (normalized_signal e parse obs s) ''signal_id'' = VStr i" using safe_signal_texts normalized_signal_texts by metis
    then show ?thesis using s by (auto simp: entry_of_def)
  qed
  then show ?thesis by (simp add: list_all_iff normalize_signals_def Let_def fold_update_distinct)
qed

section \<open>One update\<close>

lemma dget_other_fields [simp]:
  "k \<notin> set [''generation'', ''event_id'', ''started_at'', ''duration_seconds''] \<Longrightarrow> dget (start_signal parse epoch obs i g s) k = dget s k"
  "k \<notin> set [''generation'', ''event_id'', ''started_at'', ''duration_seconds''] \<Longrightarrow> dget (continue_signal parse epoch obs i g old s) k = dget s k"
  by (simp_all add: start_signal_def continue_signal_def Let_def)

lemma live_followed [simp]: "is_live (start_signal parse epoch obs i g s) = is_live s" "is_live (continue_signal parse epoch obs i g old s) = is_live s"
  by (simp_all add: is_live_def)

lemma started_fields: "dget (start_signal parse epoch obs i g s) ''generation'' = VInt g" "dget (start_signal parse epoch obs i g s) ''event_id'' = VStr (event_id epoch i g)"
  by (simp_all add: start_signal_def Let_def)

lemma continued_fields:
  "dget old ''generation'' = VInt g \<Longrightarrow> g \<noteq> 0 \<Longrightarrow> dget (continue_signal parse epoch obs i known old s) ''generation'' = VInt g"
  "dget old ''event_id'' = VStr x \<Longrightarrow> x \<noteq> [] \<Longrightarrow> dget (continue_signal parse epoch obs i known old s) ''event_id'' = VStr x"
  by (simp_all add: continue_signal_def Let_def py_or_def)

text \<open>What becomes of one entry of the table, given the generation counted so far.\<close>

definition followed :: "env \<Rightarrow> (string \<Rightarrow> rat option) \<Rightarrow> rat \<Rightarrow> capsule \<Rightarrow> (string \<times> int) list \<Rightarrow> string \<times> dict \<Rightarrow> string \<times> dict" where
  "followed e parse obs cap gens x = (fst x, if \<not> is_live (snd x) then snd x else case map_of (pc_active cap) (fst x) of
       None \<Rightarrow> start_signal parse (pc_epoch cap) obs (fst x) (generation_of (subject_key e (snd x)) gens 0 + 1) (snd x)
     | Some old \<Rightarrow> continue_signal parse (pc_epoch cap) obs (fst x) (generation_of (subject_key e (snd x)) gens 1) old (snd x))"

definition counted :: "env \<Rightarrow> capsule \<Rightarrow> (string \<times> int) list \<Rightarrow> string \<times> dict \<Rightarrow> (string \<times> int) list" where
  "counted e cap gens x = (if is_live (snd x) \<and> map_of (pc_active cap) (fst x) = None
     then AList.update (subject_key e (snd x)) (generation_of (subject_key e (snd x)) gens 0 + 1) gens else gens)"

lemma follow_signal_eq:
  "\<exists>recent'. follow_signal e parse obs cap (gens, recent, done) x = (counted e cap gens x, recent', done @ [followed e parse obs cap gens x])"
  by (cases x) (auto simp: follow_signal_def counted_def followed_def Let_def split: option.splits)

lemma generation_of_update [simp]: "generation_of k (AList.update j g gens) d = (if k = j then g else generation_of k gens d)"
  by (simp add: generation_of_def update_conv')

lemma counted_mono: "generation_of k gens 0 \<le> generation_of k (counted e cap gens x) 0"
  by (simp add: counted_def)

text \<open>Generations only grow.\<close>

definition gens_le :: "(string \<times> int) list \<Rightarrow> (string \<times> int) list \<Rightarrow> bool" where
  "gens_le a b \<longleftrightarrow> (\<forall>k. generation_of k a 0 \<le> generation_of k b 0)"

lemma gens_le_refl [simp]: "gens_le a a" and gens_le_trans: "gens_le a b \<Longrightarrow> gens_le b c \<Longrightarrow> gens_le a c"
  by (auto simp: gens_le_def intro: order_trans)

lemma gens_le_counted: "gens_le gens (counted e cap gens x)"
  by (simp add: gens_le_def counted_mono)

lemma follow_fold:
  assumes "foldl (follow_signal e parse obs cap) (gens, recent, done) xs = (gens', recent', done')"
  shows "gens_le gens gens' \<and> (\<exists>ys. done' = done @ ys \<and> list_all2 (\<lambda>x y. \<exists>g. y = followed e parse obs cap g x \<and> gens_le gens g \<and> gens_le (counted e cap g x) gens') xs ys)"
  using assms
proof (induction xs arbitrary: gens recent "done")
  case (Cons x xs)
  obtain r where r: "follow_signal e parse obs cap (gens, recent, done) x = (counted e cap gens x, r, done @ [followed e parse obs cap gens x])"
    using follow_signal_eq by blast
  then have "foldl (follow_signal e parse obs cap) (counted e cap gens x, r, done @ [followed e parse obs cap gens x]) xs = (gens', recent', done')"
    using Cons.prems by simp
  note ih = Cons.IH [OF this]
  have le: "gens_le (counted e cap gens x) gens'" using ih by (rule conjunct1)
  from conjunct2 [OF ih] obtain ys where ys: "done' = (done @ [followed e parse obs cap gens x]) @ ys"
    "list_all2 (\<lambda>z y. \<exists>g. y = followed e parse obs cap g z \<and> gens_le (counted e cap gens x) g \<and> gens_le (counted e cap g z) gens') xs ys" by (elim exE conjE)
  have "list_all2 (\<lambda>x y. \<exists>g. y = followed e parse obs cap g x \<and> gens_le gens g \<and> gens_le (counted e cap g x) gens') xs ys"
    using ys(2) by (rule list_all2_mono) (use gens_le_trans [OF gens_le_counted] in blast)
  moreover have "\<exists>g. followed e parse obs cap gens x = followed e parse obs cap g x \<and> gens_le gens g \<and> gens_le (counted e cap g x) gens'"
    using le gens_le_refl by blast
  ultimately have "list_all2 (\<lambda>x y. \<exists>g. y = followed e parse obs cap g x \<and> gens_le gens g \<and> gens_le (counted e cap g x) gens') (x # xs) (followed e parse obs cap gens x # ys)"
    by simp
  moreover have "done' = done @ followed e parse obs cap gens x # ys" using ys(1) by simp
  ultimately show ?case using gens_le_trans [OF gens_le_counted le] by blast
qed simp

text \<open>The tables after an update.\<close>

lemma update_tables:
  assumes "capsule_update e parse signals obs cap = (changed, cap')"
  shows "gens_le (pc_generations cap) (pc_generations cap')"
    and "list_all2 (\<lambda>x y. \<exists>g. y = followed e parse obs cap g x \<and> gens_le (pc_generations cap) g \<and> gens_le (counted e cap g x) (pc_generations cap'))
      (normalize_signals e parse obs signals) (pc_signals cap')"
    and "pc_active cap' = filter (\<lambda>(k, s). is_live s) (pc_signals cap')" and "pc_epoch cap' = pc_epoch cap"
proof -
  obtain gens recent ys where f: "foldl (follow_signal e parse obs cap) (pc_generations cap, pc_recent cap, []) (normalize_signals e parse obs signals) = (gens, recent, ys)"
    by (metis prod_cases3)
  then have c: "pc_generations cap' = gens" "pc_signals cap' = ys" "pc_active cap' = filter (\<lambda>(k, s). is_live s) ys" "pc_epoch cap' = pc_epoch cap"
    using assms by (auto simp: capsule_update_def Let_def)
  show "gens_le (pc_generations cap) (pc_generations cap')"
    and "list_all2 (\<lambda>x y. \<exists>g. y = followed e parse obs cap g x \<and> gens_le (pc_generations cap) g \<and> gens_le (counted e cap g x) (pc_generations cap'))
      (normalize_signals e parse obs signals) (pc_signals cap')" using follow_fold [OF f] unfolding c by simp_all
  show "pc_active cap' = filter (\<lambda>(k, s). is_live s) (pc_signals cap')" "pc_epoch cap' = pc_epoch cap" using c by simp_all
qed

lemma update_keys:
  assumes "capsule_update e parse signals obs cap = (changed, cap')"
  shows "map fst (pc_signals cap') = map fst (normalize_signals e parse obs signals)"
proof (rule list_all2_keys)
  show "list_all2 (\<lambda>x y. fst y = fst x) (normalize_signals e parse obs signals) (pc_signals cap')"
    using update_tables(2) [OF assms] by (rule list_all2_mono) (auto simp: followed_def)
qed

lemma active_after_update:
  assumes "capsule_update e parse signals obs cap = (changed, cap')" and "map_of (pc_active cap') i = Some s"
  obtains signal g where "signal \<in> set signals" and "dget (safe_signal e signal) ''signal_id'' = VStr i"
    and "(i, s) = followed e parse obs cap g (i, normalized_signal e parse obs signal)" and "is_live (normalized_signal e parse obs signal)"
    and "gens_le (pc_generations cap) g" and "gens_le (counted e cap g (i, normalized_signal e parse obs signal)) (pc_generations cap')"
proof -
  have m: "(i, s) \<in> set (pc_signals cap')" "is_live s" using map_of_SomeD [OF assms(2)] unfolding update_tables(3) [OF assms(1)] by auto
  then obtain x g where x: "x \<in> set (normalize_signals e parse obs signals)" "(i, s) = followed e parse obs cap g x" "gens_le (pc_generations cap) g"
    "gens_le (counted e cap g x) (pc_generations cap')"
    using update_tables(2) [OF assms(1)] list_all2_source [OF _ m(1)] by blast
  moreover have "entry_of e parse obs signals x" using normalize_signals_entries x(1) unfolding list_all_iff by blast
  moreover have "fst x = i" using x(2) by (simp add: followed_def)
  ultimately obtain signal where "signal \<in> set signals" "x = (i, normalized_signal e parse obs signal)" "dget (normalized_signal e parse obs signal) ''signal_id'' = VStr i"
    unfolding entry_of_def by (metis prod.collapse)
  moreover have "is_live (snd x)" using m(2) x(2) by (cases "map_of (pc_active cap) (fst x)") (auto simp: followed_def split: if_splits)
  ultimately show thesis using that x by (metis normalized_signal_texts snd_conv)
qed

section \<open>Runs\<close>

text \<open>
  Updates and snapshots in any order and number, where the signals with the identifier \<open>i\<close> always have the
  same subject \<open>k\<close>, as those of the clipboard have.
\<close>

inductive capsule_step :: "env \<Rightarrow> (string \<Rightarrow> rat option) \<Rightarrow> string \<Rightarrow> string \<Rightarrow> capsule \<Rightarrow> capsule \<Rightarrow> bool" for e parse i k where
  update: "(\<And>s. s \<in> set signals \<Longrightarrow> dget (safe_signal e s) ''signal_id'' = VStr i \<Longrightarrow> subject_key e (safe_signal e s) = k)
    \<Longrightarrow> capsule_step e parse i k cap (snd (capsule_update e parse signals obs cap))"
| snapshot: "capsule_step e parse i k cap (snd (capsule_snapshot parse obs cap))"

inductive_cases capsule_stepE: "capsule_step e parse i k cap cap'"

definition count_of :: "string \<Rightarrow> capsule \<Rightarrow> int" where
  "count_of k cap = generation_of k (pc_generations cap) 0"

definition named :: "string \<Rightarrow> string \<Rightarrow> int \<Rightarrow> dict \<Rightarrow> bool" where
  "named epoch i g s \<longleftrightarrow> dget s ''generation'' = VInt g \<and> dget s ''event_id'' = VStr (event_id epoch i g)"

text \<open>All activity of \<open>i\<close> is counted, and later than the first \<open>n\<close> periods.\<close>

definition periods_after :: "int \<Rightarrow> string \<Rightarrow> string \<Rightarrow> string \<Rightarrow> capsule \<Rightarrow> bool" where
  "periods_after n epoch i k cap \<longleftrightarrow> 0 \<le> n \<and> n \<le> count_of k cap \<and> pc_epoch cap = epoch
     \<and> (\<forall>s. map_of (pc_active cap) i = Some s \<longrightarrow> (\<exists>g. n < g \<and> g \<le> count_of k cap \<and> named epoch i g s))"

lemma event_id_nonempty [simp]: "event_id epoch i g \<noteq> []"
  by (simp add: event_id_def)

lemma named_start: "named epoch i g (start_signal parse epoch obs i g s)"
  by (simp add: named_def started_fields)

lemma named_continue: "named epoch i g old \<Longrightarrow> g \<noteq> 0 \<Longrightarrow> named epoch i g (continue_signal parse epoch obs i known old s)"
  by (simp add: named_def continued_fields)

lemma update_periods:
  assumes up: "capsule_update e parse signals obs cap = (changed, cap')" and p: "periods_after n epoch i k cap"
    and same: "\<And>s. s \<in> set signals \<Longrightarrow> dget (safe_signal e s) ''signal_id'' = VStr i \<Longrightarrow> subject_key e (safe_signal e s) = k"
  shows "periods_after n epoch i k cap'"
proof -
  have le: "count_of k cap \<le> count_of k cap'" using update_tables(1) [OF up] by (simp add: gens_le_def count_of_def)
  have ep: "pc_epoch cap = epoch" "pc_epoch cap' = epoch" using p update_tables(4) [OF up] by (simp_all add: periods_after_def)
  have "\<exists>g. n < g \<and> g \<le> count_of k cap' \<and> named epoch i g s" if s: "map_of (pc_active cap') i = Some s" for s
  proof -
    obtain signal g where sig: "signal \<in> set signals" "dget (safe_signal e signal) ''signal_id'' = VStr i"
      "(i, s) = followed e parse obs cap g (i, normalized_signal e parse obs signal)" "is_live (normalized_signal e parse obs signal)"
      "gens_le (pc_generations cap) g" "gens_le (counted e cap g (i, normalized_signal e parse obs signal)) (pc_generations cap')"
      by (rule active_after_update [OF up s])
    have k: "subject_key e (normalized_signal e parse obs signal) = k" using same [OF sig(1,2)] by (simp add: subject_key_normalized)
    show ?thesis
    proof (cases "map_of (pc_active cap) i")
      case None
      let ?g = "generation_of k g 0 + 1"
      have "s = start_signal parse epoch obs i ?g (normalized_signal e parse obs signal)" using sig(3,4) None k ep(1) by (simp add: followed_def)
      moreover have "count_of k cap \<le> generation_of k g 0" using sig(5) by (simp add: gens_le_def count_of_def)
      moreover have "?g \<le> count_of k cap'" using sig(4,6) None k unfolding gens_le_def counted_def count_of_def by (auto dest: spec [of _ k])
      ultimately show ?thesis using named_start p unfolding periods_after_def by (intro exI [of _ ?g]) auto
    next
      case (Some old)
      then obtain h where h: "n < h" "h \<le> count_of k cap" "named epoch i h old" using p unfolding periods_after_def by blast
      have "s = continue_signal parse epoch obs i (generation_of k g 1) old (normalized_signal e parse obs signal)" using sig(3,4) Some k ep(1) by (simp add: followed_def)
      then show ?thesis using h le named_continue [OF h(3)] p unfolding periods_after_def by (intro exI [of _ h]) auto
    qed
  qed
  then show ?thesis using p le ep unfolding periods_after_def by auto
qed

lemma snapshot_periods: "periods_after n epoch i k cap \<Longrightarrow> periods_after n epoch i k (snd (capsule_snapshot parse obs cap))"
  by (simp add: capsule_snapshot_def Let_def periods_after_def count_of_def)

interpretation periods: step_invariant "capsule_step e parse i k" "periods_after n epoch i k" for e parse i k n epoch
proof
  fix cap cap' assume "periods_after n epoch i k cap" and "capsule_step e parse i k cap cap'"
  then show "periods_after n epoch i k cap'"
    by (auto elim!: capsule_stepE intro: snapshot_periods update_periods [OF prod.collapse [symmetric]])
qed

text \<open>The count of a subject never falls.\<close>

interpretation counts: step_invariant "capsule_step e parse i k" "\<lambda>cap. n \<le> count_of j cap" for e parse i k n j
proof
  fix cap cap' assume le: "n \<le> count_of j cap" and step: "capsule_step e parse i k cap cap'"
  from step have "count_of j cap \<le> count_of j cap'"
  proof (cases rule: capsule_step.cases)
    case (update signals obs)
    then show ?thesis using update_tables(1) [OF prod.collapse [symmetric]] by (auto simp: gens_le_def count_of_def)
  qed (simp add: capsule_snapshot_def Let_def count_of_def)
  then show "n \<le> count_of j cap'" using le by simp
qed

text \<open>The tables agree: one entry per identifier, and the active entries are the live ones.\<close>

definition tables_ok :: "capsule \<Rightarrow> bool" where
  "tables_ok cap \<longleftrightarrow> distinct (map fst (pc_signals cap)) \<and> list_all (\<lambda>(k, s). dget s ''signal_id'' = VStr k) (pc_signals cap)
     \<and> pc_active cap = filter (\<lambda>(k, s). is_live s) (pc_signals cap)"

lemma followed_signal_id: "dget (snd (followed e parse obs cap g x)) ''signal_id'' = dget (snd x) ''signal_id''" "fst (followed e parse obs cap g x) = fst x"
  by (simp_all add: followed_def split: option.split)

lemma update_ok: "capsule_update e parse signals obs cap = (changed, cap') \<Longrightarrow> tables_ok cap'"
proof -
  assume up: "capsule_update e parse signals obs cap = (changed, cap')"
  have "dget (snd y) ''signal_id'' = VStr (fst y)" if y: "y \<in> set (pc_signals cap')" for y
  proof -
    obtain x g where x: "x \<in> set (normalize_signals e parse obs signals)" "y = followed e parse obs cap g x"
      using list_all2_source [OF update_tables(2) [OF up] y] by blast
    then have "entry_of e parse obs signals x" using normalize_signals_entries unfolding list_all_iff by blast
    then show ?thesis unfolding x(2) followed_signal_id entry_of_def by blast
  qed
  then show ?thesis using normalize_signals_entries update_keys [OF up] update_tables(3) [OF up]
    by (simp add: tables_ok_def list_all_iff case_prod_beta)
qed

lemma snapshot_ok: "tables_ok cap \<Longrightarrow> tables_ok (snd (capsule_snapshot parse obs cap))"
  by (simp add: capsule_snapshot_def Let_def tables_ok_def)

interpretation tables: step_invariant "capsule_step e parse i k" tables_ok for e parse i k
proof
  fix cap cap' assume "tables_ok cap" and "capsule_step e parse i k cap cap'"
  then show "tables_ok cap'"
    by (auto elim!: capsule_stepE intro: snapshot_ok update_ok [OF prod.collapse [symmetric]])
qed

lemma new_capsule_ok: "tables_ok (new_capsule epoch)" "periods_after 0 (take 32 epoch) i k (new_capsule epoch)"
  by (simp_all add: new_capsule_def tables_ok_def periods_after_def count_of_def generation_of_def)

section \<open>Clearing the clipboard\<close>

lemma nat_str_inj: "nat_str a = nat_str b \<Longrightarrow> a = b"
  by (metis parse_nat_str)

lemma int_str_inj:
  assumes "0 \<le> a" and "0 \<le> b" and "int_str a = int_str b"
  shows "a = b"
proof -
  have "int_str a = nat_str (nat a)" "int_str b = nat_str (nat b)" using assms(1,2) unfolding int_str_def by simp_all
  then have "nat a = nat b" using assms(3) by (intro nat_str_inj) (simp only:)
  then show ?thesis using assms(1,2) by simp
qed

lemma event_id_inj: "0 \<le> g \<Longrightarrow> 0 \<le> h \<Longrightarrow> event_id epoch i g = event_id epoch i h \<Longrightarrow> g = h"
  by (simp add: event_id_def int_str_inj)

lemma shown_fields:
  "k \<notin> set [''observed_at'', ''duration_seconds''] \<Longrightarrow> dget (shown_signal parse obs s) k = dget s k" "is_live (shown_signal parse obs s) = is_live s"
  by (simp_all add: shown_signal_def is_live_def)

lemma current_is_active:
  assumes ok: "tables_ok cap" and cur: "current_clipboard (shown_signals parse obs cap) = Some s"
  obtains t where "map_of (pc_active cap) ''clipboard'' = Some t" and "dget s ''event_id'' = dget t ''event_id''"
proof -
  have s: "s \<in> set (shown_signals parse obs cap)" "dget s ''signal_id'' = VStr ''clipboard''" "dget s ''state'' = VStr ''ACTIVE''"
    using cur by (auto simp: current_clipboard_def find_Some_iff in_set_conv_nth)
  then obtain i t where t: "(i, t) \<in> set (pc_signals cap)" "s = shown_signal parse obs t" by (auto simp: shown_signals_def)
  then have "dget t ''signal_id'' = VStr i" using ok by (auto simp: tables_ok_def list_all_iff)
  then have i: "i = ''clipboard''" using s(2) t(2) by (simp add: shown_fields)
  have "is_live t" using s(3) unfolding t(2) by (simp add: shown_fields is_live_def)
  then have "(i, t) \<in> set (pc_active cap)" using t(1) ok by (simp add: tables_ok_def)
  moreover have "distinct (map fst (pc_active cap))" using ok by (simp add: tables_ok_def distinct_map_filter)
  ultimately show thesis using that i t(2) by (simp add: shown_fields)
qed

lemma clear_other_event:
  assumes "tables_ok cap" and "x \<noteq> []" and "\<And>t. map_of (pc_active cap) ''clipboard'' = Some t \<Longrightarrow> \<exists>y. dget t ''event_id'' = VStr y \<and> y \<noteq> x"
  shows "clear_clipboard e parse obs cap x available succeeds = (''STALE'', False)"
proof (cases "current_clipboard (shown_signals parse obs cap)")
  case (Some s)
  then obtain y where "dget s ''event_id'' = VStr y" "y \<noteq> x" using current_is_active [OF assms(1) Some] assms(3) by metis
  then show ?thesis using Some assms(2) by (simp add: clear_clipboard_def)
qed (simp add: clear_clipboard_def)

lemma periods_differ:
  assumes c1: "periods_after 0 epoch i k c1" "map_of (pc_active c1) i = Some s" and run: "(capsule_step e parse i k)\<^sup>*\<^sup>* c1 c2"
    and gap: "map_of (pc_active c2) i = None" and run': "(capsule_step e parse i k)\<^sup>*\<^sup>* c2 c3" and c3: "map_of (pc_active c3) i = Some t"
  obtains g h where "named epoch i g s" and "named epoch i h t" and "0 < g" and "g < h"
proof -
  obtain g where g: "0 < g" "g \<le> count_of k c1" "named epoch i g s" using c1 unfolding periods_after_def by blast
  have "g \<le> count_of k c2" using counts.run_inv [OF g(2) run] .
  have "periods_after 0 epoch i k c2" using periods.run_inv [OF c1(1) run] .
  then have "periods_after (count_of k c2) epoch i k c2" using gap by (simp add: periods_after_def)
  then have "periods_after (count_of k c2) epoch i k c3" using run' by (rule periods.run_inv)
  then obtain h where "count_of k c2 < h" "named epoch i h t" using c3 unfolding periods_after_def by blast
  then show thesis using that g \<open>g \<le> count_of k c2\<close> by simp
qed

text \<open>The identifier of a period of clipboard activity that has ended is refused.\<close>

lemma old_event_refused:
  assumes "(capsule_step e parse ''clipboard'' k)\<^sup>*\<^sup>* (new_capsule epoch) c1" and "map_of (pc_active c1) ''clipboard'' = Some s"
    and "(capsule_step e parse ''clipboard'' k)\<^sup>*\<^sup>* c1 c2" and "map_of (pc_active c2) ''clipboard'' = None"
    and "(capsule_step e parse ''clipboard'' k)\<^sup>*\<^sup>* c2 c3"
  shows "clear_clipboard e parse obs c3 (py_str e (dget s ''event_id'')) available succeeds = (''STALE'', False)"
proof (rule clear_other_event)
  have p: "periods_after 0 (take 32 epoch) ''clipboard'' k c1" using new_capsule_ok(2) assms(1) by (rule periods.run_inv)
  then obtain g where g: "0 < g" "named (take 32 epoch) ''clipboard'' g s" using assms(2) unfolding periods_after_def by blast
  then have id: "py_str e (dget s ''event_id'') = event_id (take 32 epoch) ''clipboard'' g" by (simp add: named_def)
  show "tables_ok c3" using new_capsule_ok(1) assms(1,3,5) by (meson rtranclp_trans tables.run_inv)
  show "py_str e (dget s ''event_id'') \<noteq> []" unfolding id by simp
  show "\<exists>y. dget t ''event_id'' = VStr y \<and> y \<noteq> py_str e (dget s ''event_id'')" if t: "map_of (pc_active c3) ''clipboard'' = Some t" for t
  proof -
    obtain g' h where gh: "named (take 32 epoch) ''clipboard'' g' s" "named (take 32 epoch) ''clipboard'' h t" "0 < g'" "g' < h"
      by (rule periods_differ [OF p assms(2-5) t])
    then have "g' = g" using g(2) by (simp add: named_def)
    then have "event_id (take 32 epoch) ''clipboard'' h \<noteq> event_id (take 32 epoch) ''clipboard'' g" using event_id_inj [of h g] gh(3,4) by auto
    then show ?thesis using gh(2) unfolding id by (simp add: named_def)
  qed
qed

section \<open>What is shown is current\<close>

lemma normalized_current: "is_live (normalized_signal e parse obs s) \<Longrightarrow> dget (normalized_signal e parse obs s) ''capability'' = VStr ''SUPPORTED''
    \<Longrightarrow> \<not> expired parse obs (normalized_signal e parse obs s)"
  by (auto simp: normalized_signal_def Let_def expired_def is_live_def split: if_splits)

lemma pruned_events: "x \<in> set (prune_events parse obs xs) \<Longrightarrow> \<exists>t. parse_stamp parse (dget x ''occurred_at'') = Some t \<and> obs - t \<le> 60"
  using latest_subset by (fastforce simp: prune_events_def RECENT_EVENT_TTL_SECONDS_def split: option.splits)

text \<open>
  After an update no activity of a supported source is active past its freshness, and the recent events are at most four, none of them
  older than a minute.
\<close>

theorem update_shows_current:
  assumes up: "capsule_update e parse signals obs cap = (changed, cap')"
  shows "map_of (pc_active cap') i = Some s \<Longrightarrow> dget s ''capability'' = VStr ''SUPPORTED'' \<Longrightarrow> \<not> expired parse obs s"
    and "length (pc_recent cap') \<le> 4" and "x \<in> set (pc_recent cap') \<Longrightarrow> \<exists>t. parse_stamp parse (dget x ''occurred_at'') = Some t \<and> obs - t \<le> 60"
proof -
  obtain gens recent0 ys where "foldl (follow_signal e parse obs cap) (pc_generations cap, pc_recent cap, []) (normalize_signals e parse obs signals) = (gens, recent0, ys)"
    by (metis prod_cases3)
  then have "pc_recent cap' = prune_events parse obs (foldl (clear_signal e obs cap (filter (\<lambda>(k, s). is_live s) ys)) recent0 (pc_active cap))"
    using up by (auto simp: capsule_update_def Let_def)
  then obtain recent where r: "pc_recent cap' = prune_events parse obs recent" by blast
  show "length (pc_recent cap') \<le> 4" using latest_length unfolding r prune_events_def MAX_RECENT_EVENTS_def .
  show "x \<in> set (pc_recent cap') \<Longrightarrow> \<exists>t. parse_stamp parse (dget x ''occurred_at'') = Some t \<and> obs - t \<le> 60" unfolding r by (rule pruned_events)
  assume a: "map_of (pc_active cap') i = Some s" and sup: "dget s ''capability'' = VStr ''SUPPORTED''"
  then obtain signal g where sig: "(i, s) = followed e parse obs cap g (i, normalized_signal e parse obs signal)" "is_live (normalized_signal e parse obs signal)"
    using active_after_update [OF up a] by blast
  have same: "dget s k = dget (normalized_signal e parse obs signal) k" if "k \<notin> set [''generation'', ''event_id'', ''started_at'', ''duration_seconds'']" for k
    using sig that by (auto simp: followed_def split: option.splits)
  have "expired parse obs s = expired parse obs (normalized_signal e parse obs signal)" unfolding expired_def using same [of "''fresh_until''"] by simp
  then show "\<not> expired parse obs s" using normalized_current [OF sig(2)] same [of "''capability''"] sup by simp
qed

end
