(* ===== verification/Sensors_Props.thy ===== *)
theory Sensors_Props
  imports Sensors
begin

text \<open>
  The activity read from a graph is the activity in it: each sensor reported is a running node that captures over an
  active link, and each such node is reported.
\<close>

section \<open>Tables\<close>

lemma table_of_entries:
  assumes "table_of kind f payload = Inr t"
  shows "(\<forall>k v. tget t k = Some v \<longrightarrow> (\<exists>item \<in> set payload. dget item ''type'' = VStr kind \<and> py_eq (dget item ''id'') k \<and> f item = Inr v))
    \<and> (\<forall>item \<in> set payload. dget item ''type'' = VStr kind \<longrightarrow> tget t (dget item ''id'') \<noteq> None)"
proof -
  let ?step = "\<lambda>t item. if dget item ''type'' = VStr kind then py_bind (f item) (\<lambda>v. tstore t (dget item ''id'') v) else Inr t"
  let ?from = "\<lambda>t xs. (\<forall>k v. tget t k = Some v \<longrightarrow> (\<exists>item \<in> set xs. dget item ''type'' = VStr kind \<and> py_eq (dget item ''id'') k \<and> f item = Inr v))
    \<and> (\<forall>item \<in> set xs. dget item ''type'' = VStr kind \<longrightarrow> tget t (dget item ''id'') \<noteq> None)"
  have "?from t (ys @ xs)" if "py_fold ?step t0 xs = Inr t" "?from t0 ys" for xs ys t0
    using that
  proof (induction xs arbitrary: t0 ys)
    case (Cons x xs)
    obtain t1 where t1: "?step t0 x = Inr t1" "py_fold ?step t1 xs = Inr t" using Cons.prems(1) by (auto simp: py_bind_eq_Inr)
    have "?from t1 (ys @ [x])"
    proof (cases "dget x ''type'' = VStr kind")
      case True
      then obtain v where v: "f x = Inr v" "t1 = tput t0 (dget x ''id'') v" using t1(1) by (auto simp: py_bind_eq_Inr tstore_def split: if_splits)
      show ?thesis unfolding v(2) tget_tput using Cons.prems(2) True v(1) by auto
    next
      case False
      then show ?thesis using t1(1) Cons.prems(2) by auto
    qed
    from Cons.IH [OF t1(2) this] show ?case by (simp only: append_assoc append.simps)
  qed simp
  from this [of "[]" payload "[]"] show ?thesis using assms by (simp add: table_of_def tget_def)
qed

lemma table_of_get: "table_of kind f payload = Inr t \<Longrightarrow> tget t k = Some v \<Longrightarrow> \<exists>item \<in> set payload. dget item ''type'' = VStr kind \<and> py_eq (dget item ''id'') k \<and> f item = Inr v"
  and table_of_has: "table_of kind f payload = Inr t \<Longrightarrow> item \<in> set payload \<Longrightarrow> dget item ''type'' = VStr kind \<Longrightarrow> \<exists>v. tget t (dget item ''id'') = Some v"
  using table_of_entries by blast+

section \<open>Capture\<close>

text \<open>The properties of the node \<open>item\<close>.\<close>

definition node_props :: "dict \<Rightarrow> dict \<Rightarrow> bool" where
  "node_props item props \<longleftrightarrow> dget item ''type'' = VStr ''PipeWire:Interface:Node'' \<and> props_in (info_of item) = Inr (VDict props)"

text \<open>What a source has to be for a node with the properties \<open>props\<close> to capture from it.\<close>

definition source_for :: "env \<Rightarrow> string \<Rightarrow> dict \<Rightarrow> dict \<Rightarrow> bool" where
  "source_for e kind props source \<longleftrightarrow> (if kind = ''MICROPHONE''
     then dget source ''media.class'' = VStr ''Audio/Source'' \<and> \<not> marked source ''stream.monitor'' \<and> \<not> marked props ''stream.capture.sink''
     else dget source ''media.class'' = VStr ''Video/Source'' \<and> \<not> screen_share e props \<and> \<not> screen_share e source)"

definition active_link :: "dict \<Rightarrow> dict \<Rightarrow> dict \<Rightarrow> bool" where
  "active_link link source target \<longleftrightarrow> dget link ''type'' = VStr ''PipeWire:Interface:Link'' \<and> (\<exists>l. info_of link = VDict l \<and> dget l ''state'' = VStr ''active''
     \<and> py_eq (dget source ''id'') (dget l ''output-node-id'') \<and> py_eq (dget target ''id'') (dget l ''input-node-id''))"

definition capturing :: "env \<Rightarrow> dict list \<Rightarrow> string \<Rightarrow> dict \<Rightarrow> dict \<Rightarrow> bool" where
  "capturing e payload kind node props \<longleftrightarrow> node \<in> set payload \<and> node_props node props \<and> dget (as_dict (info_of node)) ''state'' = VStr ''running''
     \<and> sensor_kind props = Inr (Some kind)
     \<and> (\<exists>link source sprops. link \<in> set payload \<and> source \<in> set payload \<and> active_link link source node \<and> node_props source sprops \<and> source_for e kind props sprops)"

text \<open>No two objects of a graph have the same identifier.\<close>

definition ids_unique :: "dict list \<Rightarrow> bool" where
  "ids_unique payload \<longleftrightarrow> (\<forall>x \<in> set payload. \<forall>y \<in> set payload. py_eq (dget x ''id'') (dget y ''id'') \<longrightarrow> x = y)"

lemma sensor_kinds: "sensor_kind props = Inr (Some kind) \<Longrightarrow> kind = ''MICROPHONE'' \<or> kind = ''CAMERA''"
  by (auto simp: sensor_kind_def SENSOR_CLASSES_def Let_def split: if_splits val.splits)

lemma sensor_kind_empty: "sensor_kind [] = Inr None"
  by (simp add: sensor_kind_def dget_def hashable_def)

lemma props_in_empty: "props_in (VDict []) = Inr (VDict [])"
  by (simp add: props_in_def py_bind_def as_mapping_def dget_or_def)

lemma source_for_empty: "\<not> source_for e kind props []"
  by (simp add: source_for_def dget_def)

lemma link_use_of_capture:
  "link_use_of e clients props_v source_v = Inr (Capture kind) \<longleftrightarrow>
    (\<exists>props source. props_v = VDict props \<and> source_v = VDict source \<and> sensor_kind props = Inr (Some kind) \<and> source_for e kind props source)"
  (is "?l \<longleftrightarrow> ?r")
proof
  assume ?l
  then show ?r by (auto simp: link_use_of_def py_bind_eq_Inr source_for_def split: if_splits)
next
  assume ?r
  then obtain props source where p: "props_v = VDict props" "source_v = VDict source" "sensor_kind props = Inr (Some kind)" "source_for e kind props source"
    by (elim exE conjE)
  then show ?l using sensor_kinds [OF p(3)] by (auto simp: link_use_of_def py_bind_def as_mapping_def source_for_def)
qed

text \<open>A link that the code takes for a capture is one, and the other way round.\<close>

lemma link_use_capture:
  assumes nodes: "nodes_of payload = Inr nodes" and "link \<in> set payload" and use: "link_use e clients nodes link = Inr (Capture kind)"
  obtains node props where "capturing e payload kind node props" and "py_eq (dget node ''id'') (dget (as_dict (info_of link)) ''input-node-id'')"
proof -
  from use obtain l tv si sv pv where l: "dget link ''type'' = VStr ''PipeWire:Interface:Link''" "info_of link = VDict l" "dget l ''state'' = VStr ''active''"
    and tv: "tlookup nodes (dget l ''input-node-id'') (VDict []) = Inr tv" and si: "tlookup nodes (dget l ''output-node-id'') (VDict []) = Inr si"
    and sv: "props_in si = Inr sv" and pv: "props_in tv = Inr pv" and run: "dget (as_dict tv) ''state'' = VStr ''running''" and u: "link_use_of e clients pv sv = Inr (Capture kind)"
    by (auto simp: link_use_def py_bind_eq_Inr split: if_splits)
  from u obtain props source where p: "pv = VDict props" "sv = VDict source" "sensor_kind props = Inr (Some kind)" "source_for e kind props source"
    unfolding link_use_of_capture by blast
  have "tget nodes (dget l ''input-node-id'') \<noteq> None"
    using tlookup_absent [OF tv] pv p(1,3) sensor_kind_empty props_in_empty by auto
  then obtain node where node: "node \<in> set payload" "dget node ''type'' = VStr ''PipeWire:Interface:Node''" "py_eq (dget node ''id'') (dget l ''input-node-id'')" "info_of node = tv"
    using tv table_of_get [OF nodes [unfolded nodes_of_def]] by (fastforce simp: tlookup_def split: if_splits)
  have "tget nodes (dget l ''output-node-id'') \<noteq> None"
    using tlookup_absent [OF si] sv p(2,4) props_in_empty source_for_empty by auto
  then obtain src where src: "src \<in> set payload" "dget src ''type'' = VStr ''PipeWire:Interface:Node''" "py_eq (dget src ''id'') (dget l ''output-node-id'')" "info_of src = si"
    using si table_of_get [OF nodes [unfolded nodes_of_def]] by (fastforce simp: tlookup_def split: if_splits)
  have "active_link link src node" using l src(3) node(3) unfolding active_link_def by blast
  moreover have "node_props node props" "node_props src source" using node(2,4) src(2,4) pv sv p(1,2) by (simp_all add: node_props_def)
  ultimately have "capturing e payload kind node props" unfolding capturing_def using node(1,4) run p(3,4) assms(2) src(1) by blast
  then show thesis using that node(3) l(2) by simp
qed

lemma node_lookup:
  assumes nodes: "nodes_of payload = Inr nodes" and un: "ids_unique payload" and node: "node \<in> set payload" "dget node ''type'' = VStr ''PipeWire:Interface:Node''"
    and k: "py_eq (dget node ''id'') k"
  shows "tget nodes k = Some (info_of node)"
proof -
  obtain v where v: "tget nodes (dget node ''id'') = Some v" using table_of_has [OF nodes [unfolded nodes_of_def] node] by blast
  then obtain n where n: "n \<in> set payload" "py_eq (dget n ''id'') (dget node ''id'')" "info_of n = v" using table_of_get [OF nodes [unfolded nodes_of_def] v] by auto
  then have "n = node" using un node(1) unfolding ids_unique_def by blast
  then show ?thesis using v n(3) tget_cong [OF k] by simp
qed

lemma capture_link_use:
  assumes nodes: "nodes_of payload = Inr nodes" and un: "ids_unique payload" and cap: "capturing e payload kind node props"
    and ok: "\<And>link. link \<in> set payload \<Longrightarrow> \<exists>u. link_use e clients nodes link = Inr u"
  obtains link where "link \<in> set payload" and "link_use e clients nodes link = Inr (Capture kind)"
    and "py_eq (dget node ''id'') (dget (as_dict (info_of link)) ''input-node-id'')"
proof -
  from cap obtain link src sprops l where c: "node \<in> set payload" "node_props node props" "dget (as_dict (info_of node)) ''state'' = VStr ''running''" "sensor_kind props = Inr (Some kind)"
    and s: "link \<in> set payload" "src \<in> set payload" "node_props src sprops" "source_for e kind props sprops"
    and l: "dget link ''type'' = VStr ''PipeWire:Interface:Link''" "info_of link = VDict l" "dget l ''state'' = VStr ''active''"
      "py_eq (dget src ''id'') (dget l ''output-node-id'')" "py_eq (dget node ''id'') (dget l ''input-node-id'')"
    unfolding capturing_def active_link_def by blast
  have t: "tget nodes (dget l ''input-node-id'') = Some (info_of node)" "tget nodes (dget l ''output-node-id'') = Some (info_of src)"
    using node_lookup [OF nodes un c(1) _ l(5)] node_lookup [OF nodes un s(2) _ l(4)] c(2) s(3) by (simp_all add: node_props_def)
  have "link_use_of e clients (VDict props) (VDict sprops) = Inr (Capture kind)" unfolding link_use_of_capture using c(4) s(4) by blast
  moreover obtain u where u: "link_use e clients nodes link = Inr u" using ok [OF s(1)] by blast
  ultimately have "u = Capture kind" using l(1-3) t c(2,3) s(3) by (auto simp: link_use_def py_bind_eq_Inr tlookup_def node_props_def split: if_splits)
  then show thesis using that s(1) u l(2,5) by simp
qed

text \<open>The loops.\<close>

lemma follow_link_eq: "link_use e clients nodes item = Inr u \<Longrightarrow> follow_link e clients nodes (linked, streams) item = Inr (case u of Other \<Rightarrow> (linked, streams)
     | Capture _ \<Rightarrow> (linked @ [dget (as_dict (info_of item)) ''input-node-id''], streams) | Cast a \<Rightarrow> (linked, streams @ [stream_of a]))"
  by (simp add: follow_link_def py_bind_def)

lemma follow_links:
  assumes "py_fold (follow_link e clients nodes) (linked, streams) payload = Inr (linked', streams')"
  shows "list_all (\<lambda>item. \<exists>u. link_use e clients nodes item = Inr u) payload"
    and "set linked' = set linked \<union> {dget (as_dict (info_of item)) ''input-node-id'' | item kind. item \<in> set payload \<and> link_use e clients nodes item = Inr (Capture kind)}"
  using assms
proof (induction payload arbitrary: linked streams)
  case (Cons x xs)
  case 1
  then obtain acc where "follow_link e clients nodes (linked, streams) x = Inr acc" "py_fold (follow_link e clients nodes) acc xs = Inr (linked', streams')"
    by (auto simp: py_bind_eq_Inr)
  moreover from this(1) have "\<exists>u. link_use e clients nodes x = Inr u" by (auto simp: follow_link_def py_bind_eq_Inr)
  ultimately show ?case using Cons.IH(1) [of "fst acc" "snd acc"] by simp
next
  case (Cons x xs)
  case 2
  then obtain u where u: "link_use e clients nodes x = Inr u" by (auto simp: py_bind_eq_Inr follow_link_def)
  show ?case
  proof (cases u)
    case (Capture k)
    then have "py_fold (follow_link e clients nodes) (linked @ [dget (as_dict (info_of x)) ''input-node-id''], streams) xs = Inr (linked', streams')"
      using 2 u by (simp add: follow_link_eq)
    from Cons.IH(2) [OF this] show ?thesis using u Capture by auto
  next
    case Other
    then have "py_fold (follow_link e clients nodes) (linked, streams) xs = Inr (linked', streams')" using 2 u by (simp add: follow_link_eq)
    from Cons.IH(2) [OF this] show ?thesis using u Other by auto
  next
    case (Cast a)
    then have "py_fold (follow_link e clients nodes) (linked, streams @ [stream_of a]) xs = Inr (linked', streams')" using 2 u by (simp add: follow_link_eq)
    from Cons.IH(2) [OF this] show ?thesis using u Cast by auto
  qed
qed simp_all

lemma follow_streams:
  "py_fold (follow_link e clients nodes) acc payload = Inr acc' \<Longrightarrow> set (snd acc) \<subseteq> range stream_of \<Longrightarrow> set (snd acc') \<subseteq> range stream_of"
proof (induction payload arbitrary: acc)
  case (Cons x xs)
  then obtain acc1 where a: "follow_link e clients nodes acc x = Inr acc1" "py_fold (follow_link e clients nodes) acc1 xs = Inr acc'" by (auto simp: py_bind_eq_Inr)
  then obtain u where u: "link_use e clients nodes x = Inr u" by (auto simp: py_bind_eq_Inr follow_link_def split: prod.splits)
  have "set (snd acc1) \<subseteq> range stream_of" using a(1) Cons.prems(2) u by (cases acc; cases u) (auto simp: follow_link_eq)
  then show ?case using Cons.IH a(2) by blast
qed simp

lemma unique_shares_source: "s \<in> set (unique_shares streams) \<Longrightarrow> s \<in> set streams"
  unfolding unique_shares_def by (auto dest!: fold_update_entry)

lemma unique_sensors_fold: "unique_sensors entries = map snd (foldl (\<lambda>acc x. AList.update (fst x, or_text (snd x) []) (sensor_of (fst x) (snd x)) acc) [] entries)"
  by (simp add: unique_sensors_def case_prod_unfold)

lemma unique_sensors_source: "s \<in> set (unique_sensors entries) \<Longrightarrow> \<exists>k a. (k, a) \<in> set entries \<and> s = sensor_of k a"
  unfolding unique_sensors_fold by (fastforce dest!: fold_update_entry)

lemma unique_sensors_complete:
  assumes "(k, a) \<in> set entries"
  shows "\<exists>b. or_text b [] = or_text a [] \<and> sensor_of k b \<in> set (unique_sensors entries)"
proof -
  let ?t = "foldl (\<lambda>acc x. AList.update (fst x, or_text (snd x) []) (sensor_of (fst x) (snd x)) acc) [] entries"
  have "(k, or_text a []) \<in> fst ` set ?t" using assms unfolding fold_update_keys by force
  then obtain s where s: "((k, or_text a []), s) \<in> set ?t" by auto
  then obtain x where "(k, or_text a []) = (fst x, or_text (snd x) [])" "s = sensor_of (fst x) (snd x)" using fold_update_entry [OF s] by auto
  then show ?thesis using s unfolding unique_sensors_fold by (intro exI [of _ "snd x"]) force
qed

section \<open>Reports\<close>

lemma observe_parts:
  assumes "observe_activity e payload = Inr (sensors, shares)"
  obtains clients nodes linked streams entries where "clients_of payload = Inr clients" and "nodes_of payload = Inr nodes"
    and "py_fold (follow_link e clients nodes) ([], []) payload = Inr (linked, streams)" and "list_all2 (\<lambda>x y. sensor_entry e clients linked x = Inr y) payload entries"
    and "sensors = take 8 (unique_sensors (List.map_filter id entries))" and "shares = take 8 (unique_shares streams)"
proof -
  from assms obtain clients nodes linked streams entries where "clients_of payload = Inr clients" "nodes_of payload = Inr nodes"
    "py_fold (follow_link e clients nodes) ([], []) payload = Inr (linked, streams)" "py_map (sensor_entry e clients linked) payload = Inr entries"
    "sensors = take 8 (unique_sensors (List.map_filter id entries))" "shares = take 8 (unique_shares streams)"
    unfolding observe_activity_def by (auto simp: py_bind_eq_Inr)
  then show thesis using that unfolding py_map_Inr_all2 by blast
qed

lemma entry_source: "sensor_entry e clients linked item = Inr (Some (k, a)) \<longleftrightarrow> (\<exists>props. props_in (info_of item) = Inr (VDict props) \<and> sensor_kind props = Inr (Some k)
    \<and> hashable (dget item ''id'') \<and> py_mem (dget item ''id'') linked \<and> app_name e props clients = Inr a)"
  by (auto simp: sensor_entry_def py_bind_eq_Inr split: option.splits if_splits)

lemma map_filter_id: "x \<in> set (List.map_filter id ys) \<longleftrightarrow> Some x \<in> set ys"
  by (force simp: List.map_filter_def)

text \<open>Each sensor reported is a capture of the application that the code attributes it to.\<close>

definition reported_capture :: "env \<Rightarrow> dict list \<Rightarrow> dict \<Rightarrow> bool" where
  "reported_capture e payload s \<longleftrightarrow> (\<exists>kind node props clients a. capturing e payload kind node props \<and> clients_of payload = Inr clients \<and> app_name e props clients = Inr a
     \<and> s = sensor_of kind a)"

lemma sensors_sound:
  assumes ob: "observe_activity e payload = Inr (sensors, shares)" and un: "ids_unique payload" and s: "s \<in> set sensors"
  shows "reported_capture e payload s"
proof -
  obtain clients nodes linked streams entries where o: "clients_of payload = Inr clients" "nodes_of payload = Inr nodes"
    "py_fold (follow_link e clients nodes) ([], []) payload = Inr (linked, streams)" "list_all2 (\<lambda>x y. sensor_entry e clients linked x = Inr y) payload entries"
    "sensors = take 8 (unique_sensors (List.map_filter id entries))" by (rule observe_parts [OF ob])
  have "s \<in> set (unique_sensors (List.map_filter id entries))" using s unfolding o(5) by (rule in_set_takeD)
  then obtain k a where ka: "Some (k, a) \<in> set entries" "s = sensor_of k a" using unique_sensors_source map_filter_id by metis
  then obtain item where item: "item \<in> set payload" "sensor_entry e clients linked item = Inr (Some (k, a))" using list_all2_source [OF o(4)] by blast
  then obtain props x where p: "props_in (info_of item) = Inr (VDict props)" "sensor_kind props = Inr (Some k)" "app_name e props clients = Inr a"
    and x: "x \<in> set linked" "py_eq (dget item ''id'') x" unfolding entry_source py_mem_def list_ex_iff by blast
  then obtain link kind where "link \<in> set payload" "link_use e clients nodes link = Inr (Capture kind)" "x = dget (as_dict (info_of link)) ''input-node-id''"
    using follow_links(2) [OF o(3)] by auto
  then obtain node props' where n: "capturing e payload kind node props'" "py_eq (dget node ''id'') x" by (metis link_use_capture [OF o(2)])
  then have "node = item" using x(2) un item(1) unfolding ids_unique_def capturing_def by (meson py_eq_sym py_eq_trans)
  moreover have "props' = props" using n(1) p(1) \<open>node = item\<close> by (simp add: capturing_def node_props_def)
  moreover have "kind = k" using n(1) p(2) \<open>props' = props\<close> by (simp add: capturing_def)
  ultimately have "capturing e payload k item props" using n(1) by (simp only:)
  then show ?thesis unfolding reported_capture_def using o(1) p(3) ka(2) by blast
qed

text \<open>A capture is reported under the application of its node, unless eight sensors are reported.\<close>

definition capture_reported :: "env \<Rightarrow> dict list \<Rightarrow> dict list \<Rightarrow> string \<Rightarrow> dict \<Rightarrow> bool" where
  "capture_reported e payload sensors kind props \<longleftrightarrow> (\<exists>clients a. clients_of payload = Inr clients \<and> app_name e props clients = Inr a
     \<and> (length sensors = 8 \<or> (\<exists>b. or_text b [] = or_text a [] \<and> sensor_of kind b \<in> set sensors)))"

lemma sensors_complete:
  assumes ob: "observe_activity e payload = Inr (sensors, shares)" and un: "ids_unique payload" and cap: "capturing e payload kind node props"
  shows "capture_reported e payload sensors kind props"
proof -
  obtain clients nodes linked streams entries where o: "clients_of payload = Inr clients" "nodes_of payload = Inr nodes"
    "py_fold (follow_link e clients nodes) ([], []) payload = Inr (linked, streams)" "list_all2 (\<lambda>x y. sensor_entry e clients linked x = Inr y) payload entries"
    "sensors = take 8 (unique_sensors (List.map_filter id entries))" by (rule observe_parts [OF ob])
  have "\<exists>u. link_use e clients nodes link = Inr u" if "link \<in> set payload" for link using follow_links(1) [OF o(3)] that by (simp add: list_all_iff)
  then obtain link where l: "link \<in> set payload" "link_use e clients nodes link = Inr (Capture kind)" "py_eq (dget node ''id'') (dget (as_dict (info_of link)) ''input-node-id'')"
    by (rule capture_link_use [OF o(2) un cap])
  then have mem: "py_mem (dget node ''id'') linked" using follow_links(2) [OF o(3)] by (auto simp: py_mem_def list_ex_iff)
  have n: "node \<in> set payload" "props_in (info_of node) = Inr (VDict props)" "sensor_kind props = Inr (Some kind)" using cap by (simp_all add: capturing_def node_props_def)
  then obtain y where y: "y \<in> set entries" "sensor_entry e clients linked node = Inr y" using list_all2_target [OF o(4)] by blast
  then obtain a where a: "app_name e props clients = Inr a" "y = Some (kind, a)" using n(2,3) mem by (auto simp: sensor_entry_def py_bind_eq_Inr split: if_splits)
  then obtain b where "or_text b [] = or_text a []" "sensor_of kind b \<in> set (unique_sensors (List.map_filter id entries))"
    using unique_sensors_complete y(1) map_filter_id by metis
  moreover have "sensors = unique_sensors (List.map_filter id entries)" if "length sensors \<noteq> 8" using that o(5) by simp
  ultimately show ?thesis using o(1) a(1) unfolding capture_reported_def by blast
qed

lemma shares_are_streams: "observe_activity e payload = Inr (sensors, shares) \<Longrightarrow> s \<in> set shares \<Longrightarrow> s \<in> range stream_of"
proof (erule observe_parts)
  fix clients nodes linked streams
  assume f: "py_fold (follow_link e clients nodes) ([], []) payload = Inr (linked, streams)" and "shares = take 8 (unique_shares streams)" and "s \<in> set shares"
  then have "s \<in> set streams" using unique_shares_source in_set_takeD by metis
  then show "s \<in> range stream_of" using follow_streams [OF f] by auto
qed

section \<open>The monitor\<close>

text \<open>Each object is stored under its identifier.\<close>

definition objects_ok :: "table \<Rightarrow> bool" where
  "objects_ok t \<longleftrightarrow> keys_distinct t \<and> (\<forall>(k, v) \<in> set t. is_dict v \<and> py_eq k (dget (as_dict v) ''id''))"

definition monitor_ok :: "monitor \<Rightarrow> bool" where
  "monitor_ok mon \<longleftrightarrow> objects_ok (mon_objects mon)"

definition payload_of :: "monitor \<Rightarrow> dict list" where
  "payload_of mon = map (\<lambda>(k, v). as_dict v) (mon_objects mon)"

lemma monitor_ids_unique: "monitor_ok mon \<Longrightarrow> ids_unique (payload_of mon)"
proof -
  assume ok: "monitor_ok mon"
  have inj: "inj_on (canon \<circ> fst) (set (mon_objects mon))" using ok by (simp add: monitor_ok_def objects_ok_def keys_distinct_def distinct_map)
  have "x = y" if xy: "x \<in> set (payload_of mon)" "y \<in> set (payload_of mon)" and eq: "py_eq (dget x ''id'') (dget y ''id'')" for x y
  proof -
    obtain k v j u where kv: "(k, v) \<in> set (mon_objects mon)" "x = as_dict v" and ju: "(j, u) \<in> set (mon_objects mon)" "y = as_dict u"
      using xy unfolding payload_of_def by auto
    have "py_eq k (dget x ''id'')" "py_eq j (dget y ''id'')" using ok kv ju unfolding monitor_ok_def objects_ok_def by blast+
    then have "(canon \<circ> fst) (k, v) = (canon \<circ> fst) (j, u)" using eq by (simp add: py_eq_def)
    then have "(k, v) = (j, u)" using inj_onD [OF inj _ kv(1) ju(1)] by simp
    then show ?thesis using kv(2) ju(2) by simp
  qed
  then show ?thesis unfolding ids_unique_def by blast
qed

lemma objects_ok_tput: "objects_ok t \<Longrightarrow> objects_ok (tput t (dget item ''id'') (VDict item))"
  unfolding objects_ok_def using keys_distinct_tput tput_entry by fastforce

lemma objects_ok_tpop: "objects_ok t \<Longrightarrow> objects_ok (tpop t k)"
  unfolding objects_ok_def using keys_distinct_tpop by (auto simp: tpop_def)

lemma apply_entry_ok: "apply_entry acc v = Inr acc' \<Longrightarrow> objects_ok (fst acc) \<Longrightarrow> objects_ok (fst acc')"
  by (auto simp: apply_entry_def Let_def objects_ok_tput objects_ok_tpop split: prod.splits val.splits option.splits if_splits)

lemma monitor_entries_ok: "monitor_entries acc vs = (c, acc') \<Longrightarrow> objects_ok (fst acc) \<Longrightarrow> objects_ok (fst acc')"
  by (induction acc vs rule: monitor_entries.induct) (auto split: sum.splits dest: apply_entry_ok)

lemma monitor_read_ok: "monitor_ok mon \<Longrightarrow> monitor_ok (monitor_read v mon)"
  using monitor_entries_ok [of "(mon_objects mon, False)"]
  by (auto simp: monitor_read_def monitor_apply_def monitor_stopped_def monitor_ok_def split: prod.splits)

lemma monitor_stopped_ok: "monitor_ok mon \<Longrightarrow> monitor_ok (monitor_stopped mon)"
  by (simp add: monitor_stopped_def monitor_ok_def)

inductive monitor_step :: "monitor \<Rightarrow> monitor \<Rightarrow> bool" where
  read_value: "monitor_step mon (monitor_read v mon)"
| stop: "monitor_step mon (monitor_stopped mon)"

inductive_cases monitor_stepE: "monitor_step mon mon'"

interpretation graph: step_invariant monitor_step monitor_ok
proof
  fix mon mon' assume ok: "monitor_ok mon" and "monitor_step mon mon'"
  from this(2) show "monitor_ok mon'"
    by cases (use ok in \<open>simp_all add: monitor_read_ok monitor_stopped_ok\<close>)
qed

lemma new_monitor_ok: "monitor_ok new_monitor"
  by (simp add: new_monitor_def monitor_ok_def objects_ok_def keys_distinct_def)

lemma snapshot_activity: "monitor_snapshot e mon = Inr (activity, None) \<Longrightarrow> observe_activity e (payload_of mon) = Inr activity \<and> mon_error mon = None"
  by (auto simp: monitor_snapshot_def payload_of_def py_bind_eq_Inr split: if_splits)

text \<open>
  C15: whatever values the monitor has read, the sensors it reports are exactly the captures in its graph: each is a running
  input node that an active link connects to a hardware source of its kind, not to a monitor of the output and not to
  a screen cast, with the application the node is attributed to; and each such node is reported under its
  application, unless eight sensors are reported already.
\<close>

theorem sensors_exact:
  assumes "monitor_step\<^sup>*\<^sup>* new_monitor mon" and "monitor_snapshot e mon = Inr ((sensors, shares), None)"
  shows "(\<forall>s \<in> set sensors. reported_capture e (payload_of mon) s)
    \<and> (\<forall>kind node props. capturing e (payload_of mon) kind node props \<longrightarrow> capture_reported e (payload_of mon) sensors kind props)"
proof -
  have un: "ids_unique (payload_of mon)" using graph.run_inv [OF new_monitor_ok assms(1)] by (rule monitor_ids_unique)
  have ob: "observe_activity e (payload_of mon) = Inr (sensors, shares)" using snapshot_activity [OF assms(2)] by simp
  show ?thesis using sensors_sound [OF ob un] sensors_complete [OF ob un] by blast
qed

definition demo_sensor_env :: env where
  "demo_sensor_env = \<lparr>env_now = VInt 0, env_boot = None, env_uuid = [], env_idna = (\<lambda>_. None), env_sha256 = (\<lambda>s. s), env_float_repr = (\<lambda>_. ''0.5'')\<rparr>"

definition demo_node :: "int \<Rightarrow> dict \<Rightarrow> dict" where
  "demo_node k props = [(''id'', VInt k), (''type'', VStr ''PipeWire:Interface:Node''), (''info'', VDict [(''state'', VStr ''running''), (''props'', VDict props)])]"

definition demo_input_props :: dict where
  "demo_input_props = [(''media.class'', VStr ''Stream/Input/Audio''), (''application.name'', VStr ''Recorder'')]"

definition demo_graph :: "dict list" where
  "demo_graph = [demo_node 1 [(''media.class'', VStr ''Audio/Source'')], demo_node 2 demo_input_props,
     [(''id'', VInt 3), (''type'', VStr ''PipeWire:Interface:Link''), (''info'', VDict [(''state'', VStr ''active''), (''output-node-id'', VInt 1), (''input-node-id'', VInt 2)])]]"

definition demo_monitor :: monitor where
  "demo_monitor = monitor_read (VList (map VDict demo_graph)) new_monitor"

lemma demo_monitor_payload: "payload_of demo_monitor = demo_graph"
  by code_simp

lemma demo_monitor_snapshot: "monitor_snapshot demo_sensor_env demo_monitor = Inr (([sensor_of ''MICROPHONE'' (Some ''Recorder'')], []), None)"
  by code_simp

lemma demo_capturing: "capturing demo_sensor_env demo_graph ''MICROPHONE'' (demo_node 2 demo_input_props) demo_input_props"
proof -
  let ?src = "[(''media.class'', VStr ''Audio/Source'')]" and ?link = "demo_graph ! 2"
  have g: "demo_node 2 demo_input_props \<in> set demo_graph" "demo_node 1 ?src \<in> set demo_graph" "?link \<in> set demo_graph" by (simp_all add: demo_graph_def)
  have p: "node_props (demo_node k props) props" "dget (as_dict (info_of (demo_node k props))) ''state'' = VStr ''running''" for k props
    by (simp_all add: node_props_def demo_node_def dget_def info_of_def dget_or_def props_in_def as_mapping_def py_bind_def)
  have k: "sensor_kind demo_input_props = Inr (Some ''MICROPHONE'')" by code_simp
  have s: "source_for demo_sensor_env ''MICROPHONE'' demo_input_props ?src" by code_simp
  have l: "active_link ?link (demo_node 1 ?src) (demo_node 2 demo_input_props)"
    by (simp add: active_link_def demo_graph_def dget_def demo_node_def info_of_def dget_or_def)
  from g p k s l show ?thesis unfolding capturing_def by blast
qed

theorem sensors_exact_witness:
  "monitor_snapshot demo_sensor_env demo_monitor = Inr (([sensor_of ''MICROPHONE'' (Some ''Recorder'')], []), None)
    \<and> reported_capture demo_sensor_env demo_graph (sensor_of ''MICROPHONE'' (Some ''Recorder''))"
proof -
  have "monitor_step\<^sup>*\<^sup>* new_monitor demo_monitor" unfolding demo_monitor_def by (rule r_into_rtranclp) (rule monitor_step.read_value)
  from sensors_exact [OF this demo_monitor_snapshot] show ?thesis using demo_monitor_snapshot by (simp add: demo_monitor_payload)
qed

section \<open>A removal that names no object\<close>

lemma tget_after_unknown: "(k, v) \<in> set (tput t k v) \<or> tget t k \<noteq> None"
  by (induction t k v rule: tput.induct) (auto simp: tget_def py_eq_def)

lemma null_info_raises: "item \<in> set payload \<Longrightarrow> dhas item ''info'' \<Longrightarrow> dget item ''info'' = VNone \<Longrightarrow> observe_activity e payload \<noteq> Inr r"
proof
  assume item: "item \<in> set payload" "dhas item ''info''" "dget item ''info'' = VNone" and ob: "observe_activity e payload = Inr r"
  obtain clients linked entries where "list_all2 (\<lambda>x y. sensor_entry e clients linked x = Inr y) payload entries"
    using ob by (cases r) (auto elim: observe_parts)
  then obtain y where "sensor_entry e clients linked item = Inr y" using list_all2_target [OF _ item(1)] by blast
  moreover have "info_of item = VNone" using item(2,3) by (auto simp: info_of_def dget_or_def dget_def dhas_def split: option.splits)
  ultimately show False by (simp add: sensor_entry_def props_in_def as_mapping_def py_bind_def)
qed

text \<open>
  The monitor stores the removal of an object it does not know as an object without information; the graph can
  then not be read.
\<close>

theorem unknown_removal_breaks_snapshot:
  assumes "tget (mon_objects mon) k = None" and "hashable k"
  shows "\<exists>err. monitor_snapshot e (monitor_read (VDict [(''id'', k), (''info'', VNone)]) mon) = Inl err"
proof -
  let ?v = "VDict [(''id'', k), (''info'', VNone)]" and ?item = "[(''id'', k), (''info'', VNone)]"
  have ap: "apply_entry (mon_objects mon, False) ?v = Inr (tput (mon_objects mon) k ?v, True)"
    using assms by (simp add: apply_entry_def dhas_def dget_def)
  then have r: "monitor_read ?v mon = mon\<lparr>mon_objects := tput (mon_objects mon) k ?v, mon_error := None\<rparr>"
    by (simp add: monitor_read_def monitor_apply_def)
  have "?item \<in> set (payload_of (monitor_read ?v mon))" using tget_after_unknown [of k ?v "mon_objects mon"] assms(1) unfolding r payload_of_def by force
  then have none: "observe_activity e (payload_of (monitor_read ?v mon)) \<noteq> Inr activity" for activity by (rule null_info_raises) (simp_all add: dhas_def dget_def)
  then obtain err where "observe_activity e (payload_of (monitor_read ?v mon)) = Inl err" by (cases "observe_activity e (payload_of (monitor_read ?v mon))") auto
  then show ?thesis by (simp add: monitor_snapshot_def r payload_of_def py_bind_def)
qed

end
