(* ===== verification/Privacy_Session_Props.thy ===== *)
theory Privacy_Session_Props
  imports Privacy_Session Privacy_Capsule_Props Sensors_Props
begin

text \<open>
  From the sources to the capsule: an old clipboard event cannot clear newer content, and a running capture
  is shown.
\<close>

section \<open>Fields of a signal\<close>

lemma kept_field: "dget (kept_fields d) k = (if k \<in> set ALLOWED_FIELDS then dget d k else VNone)"
proof -
  have m: "map_of (map (\<lambda>k. (k, dget d k)) ks) k = (if k \<in> set ks then Some (dget d k) else None)" for ks
    by (induction ks) auto
  show ?thesis unfolding kept_fields_def dget_def [of "map _ _"] m by (auto simp: dget_def dhas_def split: option.splits)
qed

lemma allowed_fields:
  "''signal_id'' \<in> set ALLOWED_FIELDS" "''category'' \<in> set ALLOWED_FIELDS" "''capability'' \<in> set ALLOWED_FIELDS" "''state'' \<in> set ALLOWED_FIELDS"
  "''application'' \<in> set ALLOWED_FIELDS" "''device'' \<in> set ALLOWED_FIELDS" "''fresh_until'' \<in> set ALLOWED_FIELDS"
  by (simp_all add: ALLOWED_FIELDS_def)

lemma dget_bounded_actions: "k \<noteq> ''actions'' \<Longrightarrow> dget (case v of VList xs \<Rightarrow> dput r ''actions'' (f xs) | _ \<Rightarrow> r) k = dget r k"
  by (cases v) simp_all

lemma safe_fields:
  "dget (safe_signal e d) ''signal_id'' = VStr (short_text e d ''signal_id'' ''unknown'' 96)"
  "dget (safe_signal e d) ''category'' = VStr (short_text e d ''category'' ''UNUSUAL_ACTIVITY'' 40)"
  "dget (safe_signal e d) ''capability'' = VStr (short_text e d ''capability'' ''UNAVAILABLE'' 20)"
  "dget (safe_signal e d) ''state'' = VStr (short_text e d ''state'' ''UNAVAILABLE'' 20)"
  "dget (safe_signal e d) ''application'' = dget d ''application''" "dget (safe_signal e d) ''device'' = dget d ''device''"
  "dget (safe_signal e d) ''fresh_until'' = dget d ''fresh_until''"
  unfolding safe_signal_def Let_def short_text_def by (simp_all add: dget_bounded_actions kept_field allowed_fields)

lemma signal_fields:
  "dget (make_capsule_signal e t i c cap st title x) ''signal_id'' = VStr i" "dget (make_capsule_signal e t i c cap st title x) ''category'' = VStr c"
  "dget (make_capsule_signal e t i c cap st title x) ''capability'' = VStr cap" "dget (make_capsule_signal e t i c cap st title x) ''state'' = VStr st"
  "dget (make_capsule_signal e t i c cap st title x) ''fresh_until'' = VStr (iso (of_int (t + 30)))"
  by (simp_all add: make_capsule_signal_def dget_def)

lemma signal_plain_fields:
  "x_application x = VNone \<Longrightarrow> dget (make_capsule_signal e t i c cap st title x) ''application'' = VNone"
  "x_device x = VNone \<Longrightarrow> dget (make_capsule_signal e t i c cap st title x) ''device'' = VNone"
  by (simp_all add: make_capsule_signal_def dget_def optional_text_def)

section \<open>Identifiers of the inputs\<close>

definition id_starts :: "string \<Rightarrow> dict \<Rightarrow> bool" where
  "id_starts p s \<longleftrightarrow> (\<exists>rest. dget s ''signal_id'' = VStr (p @ rest))"

lemma id_starts_signal: "id_starts p (make_capsule_signal e t (p @ rest) c cap st title x)" "id_starts p (make_capsule_signal e t p c cap st title x)"
  by (auto simp: id_starts_def signal_fields)

lemma sensor_ids: "s \<in> set (sensor_inputs e t err obs kind label) \<Longrightarrow> id_starts (py_lower kind) s"
  by (auto simp: sensor_inputs_def Let_def in_use_signal_def id_starts_signal split: option.splits if_splits dest!: in_set_takeD)

lemma share_ids: "share_signals e t err portal shares = Inr ss \<Longrightarrow> s \<in> set ss \<Longrightarrow> id_starts ''screen-share'' s"
proof -
  have one: "share_signal e t item = Inr s \<Longrightarrow> id_starts ''screen-share'' s" for item s
    using id_starts_signal(1) [of "''screen-share''"] by (fastforce simp: share_signal_def py_bind_eq_Inr)
  assume "share_signals e t err portal shares = Inr ss" "s \<in> set ss"
  then show ?thesis using id_starts_signal(2) by (auto simp: share_signals_def py_map_Inr_all2 split: option.splits if_splits dest!: list_all2_source intro: one)
qed

lemma usb_ids: "s \<in> set (usb_signals e t answer) \<Longrightarrow> id_starts ''usb'' s"
  using id_starts_signal(1) [of "''usb''"] id_starts_signal(2) [of "''usb''"]
  by (auto simp: usb_signals_def Let_def external_signal_def split: sum.splits prod.splits if_splits dest!: in_set_takeD)

lemma dns_id: "id_starts ''secure-dns'' (dns_signal e t dns)"
  by (simp add: dns_signal_def Let_def id_starts_signal)

lemma load_id: "id_starts ''network-load'' (load_signal e t)"
  by (simp add: load_signal_def id_starts_signal)

lemma clipboard_id: "dget (clipboard_input e t available category) ''signal_id'' = VStr ''clipboard''"
  by (simp add: clipboard_input_def signal_fields)

lemma clipboard_id_starts: "id_starts ''clipboard'' (clipboard_input e t available category)"
  using clipboard_id by (auto simp: id_starts_def)

lemma sensor_prefixes: "py_lower ''MICROPHONE'' = ''microphone''" "py_lower ''CAMERA'' = ''camera''"
  by code_simp+

lemma in_seven: "x \<in> set (a @ b @ c @ [d] @ f @ [g, h]) \<Longrightarrow> x \<in> set a \<or> x \<in> set b \<or> x \<in> set c \<or> x = d \<or> x \<in> set f \<or> x = g \<or> x = h"
  by auto

lemma inputs_cases:
  assumes "capsule_inputs e t sur category sensors shares err = Inr signals" and "s \<in> set signals"
  obtains "s \<in> set (sensor_inputs e t err sensors ''MICROPHONE'' ''Microphone'')" | "s \<in> set (sensor_inputs e t err sensors ''CAMERA'' ''Camera'')"
    | "s = clipboard_input e t (sur_clipboard sur) category" | p where "p \<in> {''screen-share'', ''usb'', ''secure-dns'', ''network-load''}" and "id_starts p s"
proof -
  obtain screen where sh: "share_signals e t err (sur_portal sur) shares = Inr screen"
    and sig: "signals = sensor_inputs e t err sensors ''MICROPHONE'' ''Microphone'' @ sensor_inputs e t err sensors ''CAMERA'' ''Camera''
     @ screen @ [clipboard_input e t (sur_clipboard sur) category] @ usb_signals e t (sur_usb sur) @ [dns_signal e t (sur_dns sur), load_signal e t]"
    using assms(1) by (auto simp: capsule_inputs_def py_bind_eq_Inr)
  from in_seven [OF assms(2) [unfolded sig]] show thesis
    by (elim disjE) (fact that(1), fact that(2), erule that(4) [OF _ share_ids [OF sh], rotated], simp, erule that(3), erule that(4) [OF _ usb_ids, rotated], simp,
      rule that(4) [of "''secure-dns''"], simp, simp only: dns_id, rule that(4) [of "''network-load''"], simp, simp only: load_id)
qed

definition safe_id :: "env \<Rightarrow> dict \<Rightarrow> string" where
  "safe_id e s = as_str (dget (safe_signal e s) ''signal_id'')"

lemma safe_id_starts: "id_starts p s \<Longrightarrow> p \<noteq> [] \<Longrightarrow> length p \<le> 96 \<Longrightarrow> \<exists>rest. safe_id e s = p @ rest"
  by (auto simp: id_starts_def safe_id_def safe_fields short_text_def py_or_def)

text \<open>The subject of the clipboard's signals.\<close>

definition clipboard_subject :: "env \<Rightarrow> string" where
  "clipboard_subject e = take 24 (env_sha256 e ''clipboard|||SENSITIVE_DATA'')"

lemma plain_clipboard_subject:
  assumes "x_application x = VNone" and "x_device x = VNone"
  shows "subject_key e (safe_signal e (make_capsule_signal e t ''clipboard'' ''SENSITIVE_DATA'' cap st title x)) = clipboard_subject e"
proof -
  let ?s = "make_capsule_signal e t ''clipboard'' ''SENSITIVE_DATA'' cap st title x"
  have f: "dget (safe_signal e ?s) ''signal_id'' = VStr ''clipboard''" "dget (safe_signal e ?s) ''category'' = VStr ''SENSITIVE_DATA''"
    "dget (safe_signal e ?s) ''application'' = VNone" "dget (safe_signal e ?s) ''device'' = VNone"
    unfolding safe_fields short_text_def signal_fields signal_plain_fields(1) [OF assms(1)] signal_plain_fields(2) [OF assms(2)] by (simp_all add: py_or_def)
  show ?thesis unfolding subject_key_def clipboard_subject_def short_text_def list.map f by (simp add: py_or_def)
qed

lemma clipboard_signal_subject: "subject_key e (safe_signal e (clipboard_input e t available category)) = clipboard_subject e"
  unfolding clipboard_input_def by (auto intro!: plain_clipboard_subject simp: plain_def)

lemma clipboard_only:
  assumes "capsule_inputs e t sur category sensors shares err = Inr signals" and "s \<in> set signals" and id: "safe_id e s = ''clipboard''"
  shows "s = clipboard_input e t (sur_clipboard sur) category"
proof -
  have no: "\<not> id_starts p s" if "p \<in> {''microphone'', ''camera'', ''screen-share'', ''usb'', ''secure-dns'', ''network-load''}" for p
    using safe_id_starts [of p s e] that unfolding id by auto
  from assms(1,2) show ?thesis
  proof (cases rule: inputs_cases)
    case 1
    from sensor_ids [OF this] have "id_starts ''microphone'' s" unfolding sensor_prefixes .
    then show ?thesis using no by simp
  next
    case 2
    from sensor_ids [OF this] have "id_starts ''camera'' s" unfolding sensor_prefixes .
    then show ?thesis using no by simp
  next
    case (4 p)
    then show ?thesis using no [of p] by simp
  qed
qed

lemma inputs_clipboard:
  assumes "capsule_inputs e t sur category sensors shares err = Inr signals" and "s \<in> set signals" and "dget (safe_signal e s) ''signal_id'' = VStr ''clipboard''"
  shows "subject_key e (safe_signal e s) = clipboard_subject e"
proof -
  have "safe_id e s = ''clipboard''" using assms(3) by (simp add: safe_id_def)
  from clipboard_only [OF assms(1,2) this] show ?thesis by (simp only: clipboard_signal_subject)
qed

section \<open>Runs of the session\<close>

text \<open>The events of a session, in any order and number.\<close>

inductive session_step :: "env \<Rightarrow> (string \<Rightarrow> rat option) \<Rightarrow> session \<Rightarrow> session \<Rightarrow> bool" for e parse where
  graph_event: "monitor_step (ses_monitor ses) mon \<Longrightarrow> session_step e parse ses (ses\<lparr>ses_monitor := mon\<rparr>)"
| refresh: "session_step e parse ses (snd (refresh_privacy_capsule e parse sur t ses))"
| clipboard: "session_step e parse ses (snd (on_clipboard_category e parse sur t category ses))"
| get_capsule: "session_step e parse ses (snd (get_privacy_capsule e parse sur t obs ses))"
| clear: "session_step e parse ses (snd (clear_clipboard_method e parse sur t obs wanted available succeeds ses))"

abbreviation clipboard_step :: "env \<Rightarrow> (string \<Rightarrow> rat option) \<Rightarrow> capsule \<Rightarrow> capsule \<Rightarrow> bool" where
  "clipboard_step e parse \<equiv> capsule_step e parse ''clipboard'' (clipboard_subject e)"

lemma refresh_capsule: "(clipboard_step e parse)\<^sup>*\<^sup>* (ses_capsule ses) (ses_capsule (snd (refresh_privacy_capsule e parse sur t ses)))"
proof (cases "py_bind (monitor_snapshot e (ses_monitor ses)) (\<lambda>((sensors, shares), err). capsule_inputs e t sur (ses_category ses) sensors shares err)")
  case (Inr signals)
  then obtain sensors shares err where i: "capsule_inputs e t sur (ses_category ses) sensors shares err = Inr signals" by (auto simp: py_bind_eq_Inr)
  have "clipboard_step e parse (ses_capsule ses) (snd (capsule_update e parse signals (of_int t) (ses_capsule ses)))"
    by (rule capsule_step.update) (rule inputs_clipboard [OF i])
  then show ?thesis using Inr by (simp add: refresh_privacy_capsule_def case_prod_beta r_into_rtranclp)
qed (simp add: refresh_privacy_capsule_def)

lemma session_capsule: "session_step e parse ses ses' \<Longrightarrow> (clipboard_step e parse)\<^sup>*\<^sup>* (ses_capsule ses) (ses_capsule ses')"
proof (induction rule: session_step.induct)
  case (get_capsule ses sur t obs)
  let ?c = "ses_capsule (snd (refresh_privacy_capsule e parse sur t ses))"
  have "clipboard_step e parse ?c (snd (capsule_snapshot parse obs ?c))" by (rule capsule_step.snapshot)
  moreover have "(clipboard_step e parse)\<^sup>*\<^sup>* (ses_capsule ses) ?c" by (rule refresh_capsule)
  ultimately have "(clipboard_step e parse)\<^sup>*\<^sup>* (ses_capsule ses) (snd (capsule_snapshot parse obs ?c))" by (rule rtranclp.rtrancl_into_rtrancl [rotated])
  then show ?case by (simp add: get_privacy_capsule_def Let_def case_prod_beta)
next
  case (clear ses sur t obs wanted available succeeds)
  let ?c = "snd (capsule_snapshot parse obs (ses_capsule ses))"
  have s: "clipboard_step e parse (ses_capsule ses) ?c" by (rule capsule_step.snapshot)
  have "(clipboard_step e parse)\<^sup>*\<^sup>* ?c (ses_capsule (snd (refresh_privacy_capsule e parse sur t (ses\<lparr>ses_capsule := ?c, ses_category := None\<rparr>))))"
    using refresh_capsule [of e parse "ses\<lparr>ses_capsule := ?c, ses_category := None\<rparr>"] by simp
  then show ?case using s by (simp add: clear_clipboard_method_def Let_def converse_rtranclp_into_rtranclp)
next
  case (clipboard ses sur t category)
  show ?case using refresh_capsule [of e parse "ses\<lparr>ses_category := _\<rparr>"] by (simp add: on_clipboard_category_def)
qed (simp_all add: refresh_capsule)

lemma session_runs: "(session_step e parse)\<^sup>*\<^sup>* ses ses' \<Longrightarrow> (clipboard_step e parse)\<^sup>*\<^sup>* (ses_capsule ses) (ses_capsule ses')"
  by (induction rule: rtranclp_induct) (auto dest: session_capsule)

text \<open>
  C13: a request to clear the clipboard that carries the identifier of an earlier clipboard event is refused, and the
  clipboard tool is not run, once that event is over: in any run of the session in which the clipboard was inactive
  at some point after the event, also when newer clipboard content is being reported.
\<close>

theorem old_clear_refused:
  assumes "(session_step e parse)\<^sup>*\<^sup>* (new_session epoch) s1" and "map_of (pc_active (ses_capsule s1)) ''clipboard'' = Some signal"
    and "(session_step e parse)\<^sup>*\<^sup>* s1 s2" and "map_of (pc_active (ses_capsule s2)) ''clipboard'' = None"
    and "(session_step e parse)\<^sup>*\<^sup>* s2 s3"
  shows "fst (clear_clipboard_method e parse sur t obs (py_str e (dget signal ''event_id'')) available succeeds s3) = (''STALE'', False)"
proof -
  have "(clipboard_step e parse)\<^sup>*\<^sup>* (new_capsule epoch) (ses_capsule s1)" using session_runs [OF assms(1)] by (simp add: new_session_def)
  from old_event_refused [OF this assms(2) session_runs [OF assms(3)] assms(4) session_runs [OF assms(5)]]
  show ?thesis by (simp add: clear_clipboard_method_def Let_def)
qed

lemma py_map_total: "(\<And>x. x \<in> set xs \<Longrightarrow> \<exists>y. f x = Inr y) \<Longrightarrow> \<exists>ys. py_map f xs = Inr ys"
proof (induction xs)
  case (Cons x xs)
  then obtain y ys where "f x = Inr y" "py_map f xs = Inr ys" by (metis list.set_intros)
  then show ?case by (simp add: py_bind_def)
qed simp

section \<open>Captures are shown\<close>

lemma shown_after_update:
  assumes up: "capsule_update e parse signals obs cap = (changed, cap')" and s0: "s0 \<in> set signals" "safe_id e s0 = i"
    and live: "\<And>s. s \<in> set signals \<Longrightarrow> safe_id e s = i \<Longrightarrow> dget (normalized_signal e parse obs s) ''state'' = VStr ''ACTIVE''"
  obtains s where "map_of (pc_active cap') i = Some s" and "dget s ''state'' = VStr ''ACTIVE''"
proof -
  have id: "as_str (dget (normalized_signal e parse obs s) ''signal_id'') = safe_id e s" for s by (simp add: normalized_signal_texts safe_id_def)
  have "i \<in> fst ` set (normalize_signals e parse obs signals)" unfolding normalize_signals_def Let_def fold_update_keys using s0 id by force
  then have "i \<in> set (map fst (pc_signals cap'))" unfolding update_keys [OF up] by simp
  then obtain s where s: "(i, s) \<in> set (pc_signals cap')" by auto
  then obtain x g where x: "x \<in> set (normalize_signals e parse obs signals)" "(i, s) = followed e parse obs cap g x" using list_all2_source [OF update_tables(2) [OF up]] by blast
  then have "entry_of e parse obs signals x" using normalize_signals_entries unfolding list_all_iff by blast
  then obtain sig where sig: "sig \<in> set signals" "snd x = normalized_signal e parse obs sig" "dget (snd x) ''signal_id'' = VStr (fst x)" unfolding entry_of_def by blast
  have "fst x = i" using x(2) by (simp add: followed_def)
  then have "safe_id e sig = i" using id [of sig] sig(2,3) by simp
  then have act: "dget (snd x) ''state'' = VStr ''ACTIVE''" using live sig(1,2) by simp
  have st: "dget s ''state'' = VStr ''ACTIVE''" using x(2) act by (auto simp: followed_def split: option.splits if_splits)
  then have "(i, s) \<in> set (pc_active cap')" using s unfolding update_tables(3) [OF up] by (simp add: is_live_def)
  moreover have "distinct (map fst (pc_active cap'))" using update_ok [OF up] by (simp add: tables_ok_def distinct_map_filter)
  ultimately show thesis using that st by simp
qed

lemma or_text_same: "or_text b [] = or_text a [] \<Longrightarrow> or_text b d = or_text a d"
  by (auto simp: or_text_def split: option.splits if_splits)

lemma stream_application: "py_or (dget (stream_of a) ''application'') (VStr d) = VStr (or_text a d)" "dget (sensor_of k a) ''application'' = dget (stream_of a) ''application''"
  "dget (sensor_of k a) ''kind'' = VStr k"
  by (cases a; simp add: stream_of_def sensor_of_def dget_def py_or_def or_text_def)+

definition label_of :: "string \<Rightarrow> string" where
  "label_of kind = (if kind = ''MICROPHONE'' then ''Microphone'' else ''Camera'')"

lemma in_use_fields:
  "dget (in_use_signal e t kind label item) ''signal_id'' = VStr (py_lower kind @ '':'' @ py_str e (py_or (dget item ''application'') (VStr ''ambiguous'')))"
  "dget (in_use_signal e t kind label item) ''state'' = VStr ''ACTIVE''" "dget (in_use_signal e t kind label item) ''capability'' = VStr ''SUPPORTED''"
  "dget (in_use_signal e t kind label item) ''fresh_until'' = VStr (iso (of_int (t + 30)))"
  by (simp_all add: in_use_signal_def Let_def signal_fields)

lemma in_use_live:
  assumes "parse (iso (of_int (t + 30))) = Some (of_int (t + 30))"
  shows "dget (normalized_signal e parse (of_int t) (in_use_signal e t kind label item)) ''state'' = VStr ''ACTIVE''"
  using assms by (simp add: normalized_signal_def Let_def expired_def parse_stamp_def safe_fields in_use_fields short_text_def py_or_def)

lemma share_inputs:
  assumes "\<And>s. s \<in> set shares \<Longrightarrow> s \<in> range stream_of"
  shows "\<exists>ss. share_signals e t err portal shares = Inr ss"
proof -
  have "\<exists>s. share_signal e t item = Inr s" if "item \<in> set shares" for item
    using assms [OF that] by (auto simp: share_signal_def stream_application py_concat_def py_bind_def)
  then have "\<exists>ss. py_map (share_signal e t) (take 8 shares) = Inr ss" by (intro py_map_total) (blast dest: in_set_takeD)
  then show ?thesis unfolding share_signals_def by (cases err) simp_all
qed

lemma labels: "label_of ''MICROPHONE'' = ''Microphone''" "label_of ''CAMERA'' = ''Camera''"
  by (simp_all add: label_of_def)

lemma inputs_sensors:
  assumes "capsule_inputs e t sur category sensors shares err = Inr signals"
  shows "set (sensor_inputs e t err sensors ''MICROPHONE'' ''Microphone'') \<subseteq> set signals" and "set (sensor_inputs e t err sensors ''CAMERA'' ''Camera'') \<subseteq> set signals"
proof -
  obtain screen where sig: "signals = sensor_inputs e t err sensors ''MICROPHONE'' ''Microphone'' @ sensor_inputs e t err sensors ''CAMERA'' ''Camera''
     @ screen @ [clipboard_input e t (sur_clipboard sur) category] @ usb_signals e t (sur_usb sur) @ [dns_signal e t (sur_dns sur), load_signal e t]"
    using assms by (auto simp: capsule_inputs_def py_bind_eq_Inr)
  show "set (sensor_inputs e t err sensors ''MICROPHONE'' ''Microphone'') \<subseteq> set signals" unfolding sig set_append by (rule Un_upper1)
  show "set (sensor_inputs e t err sensors ''CAMERA'' ''Camera'') \<subseteq> set signals" unfolding sig set_append by (intro le_supI2 Un_upper1)
qed

lemma inputs_include:
  assumes "capsule_inputs e t sur category sensors shares None = Inr signals" and "item \<in> set sensors" and "length sensors \<le> 8"
    and "dget item ''kind'' = VStr kind" and "kind = ''MICROPHONE'' \<or> kind = ''CAMERA''"
  shows "in_use_signal e t kind (label_of kind) item \<in> set signals"
    and "sensor_inputs e t None sensors kind (label_of kind) = map (in_use_signal e t kind (label_of kind)) (filter (\<lambda>item. dget item ''kind'' = VStr kind) sensors)"
proof -
  let ?items = "filter (\<lambda>item. dget item ''kind'' = VStr kind) sensors"
  have i: "item \<in> set ?items" using assms(2,4) by simp
  have "length ?items \<le> 8" using assms(3) length_filter_le [of "\<lambda>item. dget item ''kind'' = VStr kind" sensors] by linarith
  then have "take 8 ?items = ?items" by (rule take_all)
  moreover have "?items \<noteq> []" using i by (metis empty_iff list.set(1))
  ultimately show sig: "sensor_inputs e t None sensors kind (label_of kind) = map (in_use_signal e t kind (label_of kind)) ?items"
    unfolding sensor_inputs_def Let_def by (simp only: option.case if_False)
  have "set (sensor_inputs e t None sensors kind (label_of kind)) \<subseteq> set signals"
    using assms(5) inputs_sensors [OF assms(1)] by (elim disjE) (simp_all only: labels)
  moreover have "in_use_signal e t kind (label_of kind) item \<in> set (sensor_inputs e t None sensors kind (label_of kind))" unfolding sig using i by (simp only: set_map imageI)
  ultimately show "in_use_signal e t kind (label_of kind) item \<in> set signals" by blast
qed

lemma same_start: "p @ r = q @ r' \<Longrightarrow> n \<le> length p \<Longrightarrow> n \<le> length q \<Longrightarrow> take n p = take n q"
proof -
  assume eq: "p @ r = q @ r'" and n: "n \<le> length p" "n \<le> length q"
  from eq have "take n (p @ r) = take n (q @ r')" by (rule arg_cong)
  then show ?thesis using n by simp
qed

lemma same_kind:
  assumes "id_starts p s" and p: "p \<in> {''microphone'', ''camera'', ''clipboard'', ''screen-share'', ''usb'', ''secure-dns'', ''network-load''}"
    and q: "q \<in> {''microphone'', ''camera''}" and id: "safe_id e s = q @ rest"
  shows "p = q"
proof -
  have len: "p \<noteq> []" "length p \<le> 96" "2 \<le> length p" "2 \<le> length q" using p q by (elim insertE emptyE; simp)+
  obtain r where "safe_id e s = p @ r" using safe_id_starts [OF assms(1) len(1,2)] by blast
  then have "take 2 p = take 2 q" using same_start len(3,4) id by metis
  then show ?thesis using p q by (elim insertE emptyE; simp)
qed

lemma inputs_of_kind:
  assumes "capsule_inputs e t sur category sensors shares err = Inr signals" and "s \<in> set signals" and "kind = ''MICROPHONE'' \<or> kind = ''CAMERA''"
    and "safe_id e s = py_lower kind @ rest"
  shows "s \<in> set (sensor_inputs e t err sensors kind (label_of kind))"
proof -
  have q: "py_lower kind \<in> {''microphone'', ''camera''}" using assms(3) sensor_prefixes by auto
  note same = same_kind [OF _ _ q assms(4)]
  from assms(1,2) show ?thesis
  proof (cases rule: inputs_cases)
    case 1
    from sensor_ids [OF this] have "id_starts ''microphone'' s" unfolding sensor_prefixes .
    then have "''microphone'' = py_lower kind" by (rule same) simp
    then have "kind = ''MICROPHONE''" using assms(3) sensor_prefixes by auto
    then show ?thesis using 1 by (simp only: labels)
  next
    case 2
    from sensor_ids [OF this] have "id_starts ''camera'' s" unfolding sensor_prefixes .
    then have "''camera'' = py_lower kind" by (rule same) simp
    then have "kind = ''CAMERA''" using assms(3) sensor_prefixes by auto
    then show ?thesis using 2 by (simp only: labels)
  next
    case 3
    then have "id_starts ''clipboard'' s" using clipboard_id_starts by (simp only:)
    then have "''clipboard'' = py_lower kind" by (rule same) simp
    then have False using q by auto
    then show ?thesis ..
  next
    case (4 p)
    have "p = py_lower kind" using 4(2) by (rule same) (rule insertI2, rule insertI2, rule insertI2, rule 4(1))
    then have False using 4(1) q by (elim insertE emptyE; simp)
    then show ?thesis ..
  qed
qed

lemma app_name_short: "app_name e props clients = Inr a \<Longrightarrow> length (or_text a ''ambiguous'') \<le> 80"
  by (auto simp: app_name_def py_bind_eq_Inr or_text_def split: if_splits)

lemma in_use_id:
  assumes "length (or_text b ''ambiguous'') \<le> 80" and "kind = ''MICROPHONE'' \<or> kind = ''CAMERA''"
  shows "safe_id e (in_use_signal e t kind label (sensor_of kind b)) = py_lower kind @ '':'' @ or_text b ''ambiguous''"
proof -
  have "length (py_lower kind) \<le> 10" using assms(2) sensor_prefixes by auto
  moreover have "dget (in_use_signal e t kind label (sensor_of kind b)) ''signal_id'' = VStr (py_lower kind @ '':'' @ or_text b ''ambiguous'')"
    by (simp only: in_use_fields stream_application py_str_VStr)
  ultimately show ?thesis using assms(1) by (simp add: safe_id_def safe_fields short_text_def py_or_def)
qed

lemma session_graph: "(session_step e parse)\<^sup>*\<^sup>* (new_session epoch) ses \<Longrightarrow> monitor_ok (ses_monitor ses)"
proof (induction rule: rtranclp_induct)
  case (step ses ses')
  have r: "ses_monitor (snd (refresh_privacy_capsule e parse sur t s)) = ses_monitor s" for sur t s
    by (simp add: refresh_privacy_capsule_def split: sum.split prod.split)
  from step.hyps(2) show ?case
    by cases (use step.IH graph.step_inv in \<open>auto simp: r on_clipboard_category_def get_privacy_capsule_def clear_clipboard_method_def Let_def case_prod_beta\<close>)
qed (simp add: new_session_def new_monitor_ok)

text \<open>A sensor the reader lists is ACTIVE in the capsule after a refresh.\<close>

lemma listed_is_shown:
  assumes snap: "monitor_snapshot e (ses_monitor ses) = Inr ((sensors, shares), None)" and app: "app_name e props clients = Inr a"
    and b: "or_text b [] = or_text a []" "sensor_of kind b \<in> set sensors" and kind: "kind = ''MICROPHONE'' \<or> kind = ''CAMERA''"
    and clock: "parse (iso (of_int (t + 30))) = Some (of_int (t + 30))"
  shows "\<exists>s. map_of (pc_active (ses_capsule (snd (refresh_privacy_capsule e parse sur t ses)))) (py_lower kind @ '':'' @ or_text a ''ambiguous'') = Some s
    \<and> dget s ''state'' = VStr ''ACTIVE''"
proof -
  have ob: "observe_activity e (payload_of (ses_monitor ses)) = Inr (sensors, shares)" using snapshot_activity [OF snap] by simp
  have few: "length sensors \<le> 8" by (rule observe_parts [OF ob]) simp
  have same: "or_text b ''ambiguous'' = or_text a ''ambiguous''" using b(1) by (rule or_text_same)
  obtain screen where "share_signals e t None (sur_portal sur) shares = Inr screen" using share_inputs shares_are_streams [OF ob] by blast
  then obtain signals where inp: "capsule_inputs e t sur (ses_category ses) sensors shares None = Inr signals" by (simp add: capsule_inputs_def py_bind_def)
  note inc = inputs_include [OF inp b(2) few stream_application(3) kind]
  let ?i = "py_lower kind @ '':'' @ or_text a ''ambiguous''"
  obtain changed cap' where up: "capsule_update e parse signals (of_int t) (ses_capsule ses) = (changed, cap')" by fastforce
  have "dget (normalized_signal e parse (of_int t) s) ''state'' = VStr ''ACTIVE''" if "s \<in> set signals" "safe_id e s = ?i" for s
  proof -
    have "s \<in> set (sensor_inputs e t None sensors kind (label_of kind))" by (rule inputs_of_kind [OF inp that(1) kind that(2)])
    then obtain item where "s = in_use_signal e t kind (label_of kind) item" unfolding inc(2) by auto
    then show ?thesis using in_use_live [of parse t, OF clock] by (simp only:)
  qed
  moreover have "safe_id e (in_use_signal e t kind (label_of kind) (sensor_of kind b)) = ?i"
    using in_use_id [OF _ kind, of b] app_name_short [OF app] unfolding same by blast
  ultimately obtain s where s: "map_of (pc_active cap') ?i = Some s" "dget s ''state'' = VStr ''ACTIVE''" using shown_after_update [OF up inc(1)] by blast
  have "ses_capsule (snd (refresh_privacy_capsule e parse sur t ses)) = cap'"
    by (simp add: refresh_privacy_capsule_def snap inp up py_bind_def)
  then show ?thesis using s by blast
qed

text \<open>
  C14: activity in the graph reaches the desktop. In any run of the session, when the graph can be read and has a running
  capture by a microphone or camera node, a refresh leaves an ACTIVE signal in the capsule under the kind of the sensor
  and the application the node is attributed to, whatever the other sources report. The one exception is the limit of the
  reader: it reports eight sensors, and a capture that has no place among them is not shown.
\<close>

theorem capture_is_shown:
  assumes run: "(session_step e parse)\<^sup>*\<^sup>* (new_session epoch) ses" and snap: "monitor_snapshot e (ses_monitor ses) = Inr ((sensors, shares), None)"
    and cap: "capturing e (payload_of (ses_monitor ses)) kind node props"
    and clock: "parse (iso (of_int (t + 30))) = Some (of_int (t + 30))"
  shows "\<exists>clients a. clients_of (payload_of (ses_monitor ses)) = Inr clients \<and> app_name e props clients = Inr a
    \<and> ((\<exists>s. map_of (pc_active (ses_capsule (snd (refresh_privacy_capsule e parse sur t ses)))) (py_lower kind @ '':'' @ or_text a ''ambiguous'') = Some s
         \<and> dget s ''state'' = VStr ''ACTIVE'')
       \<or> length sensors = 8 \<and> (\<nexists>b. or_text b [] = or_text a [] \<and> sensor_of kind b \<in> set sensors))"
proof -
  have ob: "observe_activity e (payload_of (ses_monitor ses)) = Inr (sensors, shares)" using snapshot_activity [OF snap] by simp
  have un: "ids_unique (payload_of (ses_monitor ses))" using session_graph [OF run] by (rule monitor_ids_unique)
  have kind: "kind = ''MICROPHONE'' \<or> kind = ''CAMERA''" using cap unfolding capturing_def by (blast dest: sensor_kinds)
  from sensors_complete [OF ob un cap] obtain clients a where a: "clients_of (payload_of (ses_monitor ses)) = Inr clients" "app_name e props clients = Inr a"
    and rep: "length sensors = 8 \<or> (\<exists>b. or_text b [] = or_text a [] \<and> sensor_of kind b \<in> set sensors)" unfolding capture_reported_def by blast
  have "\<exists>s. map_of (pc_active (ses_capsule (snd (refresh_privacy_capsule e parse sur t ses)))) (py_lower kind @ '':'' @ or_text a ''ambiguous'') = Some s
      \<and> dget s ''state'' = VStr ''ACTIVE''" if "or_text b [] = or_text a []" "sensor_of kind b \<in> set sensors" for b
    by (rule listed_is_shown [of _ _ _ _ _ _ _ _ _ parse t, OF snap a(2) that kind clock])
  then show ?thesis using a rep by blast
qed

section \<open>The clipboard\<close>

lemma clipboard_included: "capsule_inputs e t sur category sensors shares err = Inr signals \<Longrightarrow> clipboard_input e t (sur_clipboard sur) category \<in> set signals"
  by (auto simp: capsule_inputs_def py_bind_eq_Inr)

lemma clipboard_safe_id: "safe_id e (clipboard_input e t available category) = ''clipboard''"
  by (simp add: safe_id_def safe_fields short_text_def clipboard_id py_or_def)

lemma refresh_updates:
  assumes "monitor_snapshot e (ses_monitor ses) = Inr ((sensors, shares), err)" and "capsule_inputs e t sur (ses_category ses) sensors shares err = Inr signals"
  shows "ses_capsule (snd (refresh_privacy_capsule e parse sur t ses)) = snd (capsule_update e parse signals (of_int t) (ses_capsule ses))"
  using assms by (simp add: refresh_privacy_capsule_def py_bind_def case_prod_beta)

lemma clipboard_state:
  assumes "parse (iso (of_int (t + 30))) = Some (of_int (t + 30))"
  shows "dget (normalized_signal e parse (of_int t) (clipboard_input e t True category)) ''state'' = VStr (if or_text category [] \<noteq> [] then ''ACTIVE'' else ''INACTIVE'')"
  using assms by (simp add: clipboard_input_def normalized_signal_def Let_def expired_def parse_stamp_def safe_fields signal_fields short_text_def py_or_def)

lemma clipboard_shown:
  assumes "monitor_snapshot e (ses_monitor ses) = Inr ((sensors, shares), err)" and inp: "capsule_inputs e t sur (ses_category ses) sensors shares err = Inr signals"
    and clock: "parse (iso (of_int (t + 30))) = Some (of_int (t + 30))" and "sur_clipboard sur" and "or_text (ses_category ses) [] \<noteq> []"
  obtains s where "map_of (pc_active (ses_capsule (snd (refresh_privacy_capsule e parse sur t ses)))) ''clipboard'' = Some s"
proof -
  obtain changed cap' where up: "capsule_update e parse signals (of_int t) (ses_capsule ses) = (changed, cap')" by fastforce
  have "dget (normalized_signal e parse (of_int t) s) ''state'' = VStr ''ACTIVE''" if s: "s \<in> set signals" "safe_id e s = ''clipboard''" for s
    unfolding clipboard_only [OF inp s] using assms(4,5) clipboard_state [of parse t, OF clock] by simp
  then obtain s where "map_of (pc_active cap') ''clipboard'' = Some s" using shown_after_update [OF up clipboard_included [OF inp] clipboard_safe_id] by blast
  then show thesis using that unfolding refresh_updates [OF assms(1) inp] up by simp
qed

lemma clipboard_hidden:
  assumes "monitor_snapshot e (ses_monitor ses) = Inr ((sensors, shares), err)" and inp: "capsule_inputs e t sur (ses_category ses) sensors shares err = Inr signals"
    and clock: "parse (iso (of_int (t + 30))) = Some (of_int (t + 30))" and "sur_clipboard sur" and "or_text (ses_category ses) [] = []"
  shows "map_of (pc_active (ses_capsule (snd (refresh_privacy_capsule e parse sur t ses)))) ''clipboard'' = None"
proof -
  obtain changed cap' where up: "capsule_update e parse signals (of_int t) (ses_capsule ses) = (changed, cap')" by fastforce
  have "map_of (pc_active cap') ''clipboard'' \<noteq> Some s" for s
  proof
    assume "map_of (pc_active cap') ''clipboard'' = Some s"
    then obtain signal where sig: "signal \<in> set signals" "dget (safe_signal e signal) ''signal_id'' = VStr ''clipboard''" "is_live (normalized_signal e parse (of_int t) signal)"
      by (rule active_after_update [OF up])
    have "signal = clipboard_input e t (sur_clipboard sur) (ses_category ses)" by (rule clipboard_only [OF inp sig(1)]) (simp add: safe_id_def sig(2))
    then show False using sig(3) assms(4,5) clipboard_state [of parse t, OF clock] by (simp add: is_live_def)
  qed
  then show ?thesis unfolding refresh_updates [OF assms(1) inp] up by auto
qed

section \<open>Witnesses\<close>

definition demo_surroundings :: surroundings where
  "demo_surroundings = \<lparr>sur_portal = True, sur_clipboard = True, sur_usb = Inr ([], VNone), sur_dns = []\<rparr>"

text \<open>A clock at 0 and a session whose monitor has read a graph with one capture.\<close>

definition demo_privacy_session :: session where
  "demo_privacy_session = (new_session ''epoch'')\<lparr>ses_monitor := demo_monitor\<rparr>"

lemma demo_run: "(session_step e parse)\<^sup>*\<^sup>* (new_session ''epoch'') demo_privacy_session"
proof -
  have "monitor_step new_monitor demo_monitor" unfolding demo_monitor_def by (rule monitor_step.read_value)
  then show ?thesis unfolding demo_privacy_session_def by (intro r_into_rtranclp session_step.graph_event) (simp add: new_session_def)
qed

lemma demo_session_snapshot: "monitor_snapshot demo_sensor_env (ses_monitor demo_privacy_session) = Inr (([sensor_of ''MICROPHONE'' (Some ''Recorder'')], []), None)"
  by (simp add: demo_privacy_session_def demo_monitor_snapshot)

lemma demo_client: "clients_of demo_graph = Inr clients \<Longrightarrow> app_name demo_sensor_env demo_input_props clients = Inr a \<Longrightarrow> a = Some ''Recorder''"
proof -
  have "named_by demo_input_props = VStr ''Recorder''" by code_simp
  moreover have "py_lower ''Recorder'' \<notin> set UNATTRIBUTABLE" by code_simp
  ultimately show "app_name demo_sensor_env demo_input_props clients = Inr a \<Longrightarrow> a = Some ''Recorder''" by (auto simp: app_name_def py_bind_def)
qed

theorem capture_is_shown_witness:
  "\<exists>s. map_of (pc_active (ses_capsule (snd (refresh_privacy_capsule demo_sensor_env (\<lambda>_. Some 30) demo_surroundings 0 demo_privacy_session)))) ''microphone:Recorder'' = Some s
    \<and> dget s ''state'' = VStr ''ACTIVE''"
proof -
  have cap: "capturing demo_sensor_env (payload_of (ses_monitor demo_privacy_session)) ''MICROPHONE'' (demo_node 2 demo_input_props) demo_input_props"
    using demo_capturing by (simp add: demo_privacy_session_def demo_monitor_payload)
  obtain clients a s where c: "clients_of (payload_of (ses_monitor demo_privacy_session)) = Inr clients" "app_name demo_sensor_env demo_input_props clients = Inr a"
    "map_of (pc_active (ses_capsule (snd (refresh_privacy_capsule demo_sensor_env (\<lambda>_. Some 30) demo_surroundings 0 demo_privacy_session))))
       (py_lower ''MICROPHONE'' @ '':'' @ or_text a ''ambiguous'') = Some s" "dget s ''state'' = VStr ''ACTIVE''"
    using capture_is_shown [where t = 0 and parse = "\<lambda>_. Some 30" and sur = demo_surroundings, OF demo_run demo_session_snapshot cap] by auto
  have "a = Some ''Recorder''" using c(1,2) by (intro demo_client) (simp_all add: demo_privacy_session_def demo_monitor_payload)
  then show ?thesis using c(3,4) by (simp add: sensor_prefixes or_text_def)
qed

text \<open>Sensitive content, then none, then other content.\<close>

abbreviation demo_report :: "val \<Rightarrow> session \<Rightarrow> session" where
  "demo_report category ses \<equiv> snd (on_clipboard_category demo_sensor_env (\<lambda>_. Some 30) demo_surroundings 0 category ses)"

definition demo_detected :: session where
  "demo_detected = demo_report (VStr ''API_TOKEN'') (new_session ''epoch'')"

definition demo_emptied :: session where
  "demo_emptied = demo_report VNone demo_detected"

definition demo_replaced :: session where
  "demo_replaced = demo_report (VStr ''PRIVATE_KEY'') demo_emptied"

lemma unread_inputs: "mon_error mon = Some err \<Longrightarrow> monitor_snapshot e mon = Inr (([], []), Some err)"
  "\<exists>signals. capsule_inputs e t sur category [] [] (Some err) = Inr signals"
  by (simp_all add: monitor_snapshot_def capsule_inputs_def share_signals_def py_bind_def)

lemma refresh_monitor: "ses_monitor (snd (refresh_privacy_capsule e parse sur t ses)) = ses_monitor ses"
  by (simp add: refresh_privacy_capsule_def split: sum.split prod.split)

lemma demo_report_monitor: "ses_monitor (demo_report category ses) = ses_monitor ses"
  by (simp add: on_clipboard_category_def refresh_monitor)

lemma demo_report_active:
  assumes "mon_error (ses_monitor ses) = Some err"
  shows "c \<noteq> [] \<Longrightarrow> \<exists>s. map_of (pc_active (ses_capsule (demo_report (VStr c) ses))) ''clipboard'' = Some s"
    and "map_of (pc_active (ses_capsule (demo_report VNone ses))) ''clipboard'' = None"
proof -
  have m: "monitor_snapshot demo_sensor_env (ses_monitor (ses\<lparr>ses_category := c\<rparr>)) = Inr (([], []), Some err)" for c using unread_inputs(1) [OF assms] by simp
  have sur: "sur_clipboard demo_surroundings" by (simp add: demo_surroundings_def)
  show "\<exists>s. map_of (pc_active (ses_capsule (demo_report (VStr c) ses))) ''clipboard'' = Some s" if c: "c \<noteq> []"
  proof -
    obtain signals where "capsule_inputs demo_sensor_env 0 demo_surroundings (ses_category (ses\<lparr>ses_category := Some (take 48 c)\<rparr>)) [] [] (Some err) = Inr signals"
      using unread_inputs(2) by blast
    from clipboard_shown [where parse = "\<lambda>_. Some 30", OF m this _ sur] c show ?thesis by (auto simp: on_clipboard_category_def or_text_def)
  qed
  obtain signals where "capsule_inputs demo_sensor_env 0 demo_surroundings (ses_category (ses\<lparr>ses_category := None\<rparr>)) [] [] (Some err) = Inr signals"
    using unread_inputs(2) by blast
  from clipboard_hidden [where parse = "\<lambda>_. Some 30", OF m this _ sur]
  show "map_of (pc_active (ses_capsule (demo_report VNone ses))) ''clipboard'' = None" by (simp add: on_clipboard_category_def or_text_def)
qed

theorem old_clear_refused_witness:
  "\<exists>signal signal'. map_of (pc_active (ses_capsule demo_detected)) ''clipboard'' = Some signal \<and> map_of (pc_active (ses_capsule demo_replaced)) ''clipboard'' = Some signal'
    \<and> fst (clear_clipboard_method demo_sensor_env (\<lambda>_. Some 30) demo_surroundings 0 0 (py_str demo_sensor_env (dget signal ''event_id'')) True True demo_replaced) = (''STALE'', False)"
proof -
  have err: "\<exists>err. mon_error (ses_monitor ses) = Some err" if "ses \<in> {new_session ''epoch'', demo_detected, demo_emptied}" for ses
    using that by (auto simp: demo_detected_def demo_emptied_def demo_report_monitor new_session_def new_monitor_def)
  obtain signal where s: "map_of (pc_active (ses_capsule demo_detected)) ''clipboard'' = Some signal"
    using err [of "new_session ''epoch''"] demo_report_active(1) unfolding demo_detected_def by blast
  obtain signal' where s': "map_of (pc_active (ses_capsule demo_replaced)) ''clipboard'' = Some signal'"
    using err [of demo_emptied] demo_report_active(1) unfolding demo_replaced_def by blast
  have e: "map_of (pc_active (ses_capsule demo_emptied)) ''clipboard'' = None"
    using err [of demo_detected] demo_report_active(2) unfolding demo_emptied_def by blast
  have step: "(session_step demo_sensor_env (\<lambda>_. Some 30))\<^sup>*\<^sup>* ses (demo_report c ses)" for c ses by (rule r_into_rtranclp) (rule session_step.clipboard)
  note runs = step [of "new_session ''epoch''" "VStr ''API_TOKEN''", folded demo_detected_def] step [of demo_detected VNone, folded demo_emptied_def]
    step [of demo_emptied "VStr ''PRIVATE_KEY''", folded demo_replaced_def]
  show ?thesis using s s' old_clear_refused [OF runs(1) s runs(2) e runs(3)] by blast
qed

end
